(* ===== verification/Prelude.thy ===== *)
theory Prelude
  imports Complex_Main "HOL-Library.AList" "HOL-Library.Multiset"
begin

text \<open>
  Shared vocabulary of the development.  It fixes how Python values are read:

  \<^item> \<open>flt\<close> is the type of Python floats.  It is the type of real numbers, so float rounding is not
    modelled; NaN, where the code can produce it, is \<open>None\<close> of an \<open>flt option\<close>;
  \<^item> \<open>datetime\<close> is a naive UTC timestamp in microseconds since 1970-01-01, \<open>date\<close> the number of
    days since that day and \<open>daytime\<close> the microseconds since midnight;
  \<^item> \<open>('k, 'v) dict\<close> is an insertion-ordered dictionary, an association list whose update keeps
    the position of an existing key, as Python's does;
  \<^item> \<open>pyval\<close> is the type of the dynamically typed values of JSON payloads, notes and feature
    vectors;
  \<^item> \<open>'a result\<close> is a computation that may raise: \<open>Inl\<close> carries the exception.
\<close>

named_theorems time_defs \<open>definitions of the calendar arithmetic\<close>
named_theorems dict_simps \<open>reading a dictionary after a write\<close>

section \<open>Values, errors and results\<close>

type_synonym flt = real
type_synonym datetime = int
type_synonym date = int
type_synonym daytime = int
type_synonym ('k, 'v) dict = "('k \<times> 'v) list"

datatype pyval =
    VNone
  | VBool bool
  | VInt int
  | VFlt flt
  | VStr string
  | VList "pyval list"
  | VDict "(string \<times> pyval) list"

datatype py_error =
    ValueError
  | KeyError
  | TypeError
  | AttributeError
  | IndexError
  | ZeroDivisionError
  | RuntimeError
  | DeltaRestError
  | StopIteration
  | IntegrityError
  | OperationalError
  | OSError

type_synonym 'a result = "py_error + 'a"

definition bind_result :: "'a result \<Rightarrow> ('a \<Rightarrow> 'b result) \<Rightarrow> 'b result" where
  "bind_result r f = (case r of Inl e \<Rightarrow> Inl e | Inr x \<Rightarrow> f x)"

lemma bind_result_simps [simp]:
  "bind_result (Inl e) f = Inl e"
  "bind_result (Inr x) f = f x"
  by (simp_all add: bind_result_def)

lemma bind_result_Inr_iff:
  "bind_result r f = Inr y \<longleftrightarrow> (\<exists>x. r = Inr x \<and> f x = Inr y)"
  by (cases r) auto

lemma bind_result_Inr_E [elim!]:
  assumes "bind_result r f = Inr y"
  obtains x where "r = Inr x" and "f x = Inr y"
  using assms by (auto simp: bind_result_Inr_iff)

text \<open>A loop that maps a function over a list and stops at the first exception.\<close>

fun map_result :: "('a \<Rightarrow> 'b result) \<Rightarrow> 'a list \<Rightarrow> 'b list result" where
  "map_result f [] = Inr []"
| "map_result f (x # xs) =
     bind_result (f x) (\<lambda>y. bind_result (map_result f xs) (\<lambda>ys. Inr (y # ys)))"

lemma map_result_InrD:
  "map_result f xs = Inr ys \<Longrightarrow> length ys = length xs \<and> (\<forall>i < length xs. f (xs ! i) = Inr (ys ! i))"
proof (induction xs arbitrary: ys)
  case Nil
  then show ?case by simp
next
  case (Cons x xs)
  then obtain z zs where z: "f x = Inr z" "map_result f xs = Inr zs" "ys = z # zs"
    by auto
  with Cons.IH [of zs] show ?case by (auto simp: nth_Cons split: nat.splits)
qed

lemma map_result_member:
  assumes "map_result f xs = Inr ys" and "y \<in> set ys"
  shows "\<exists>x \<in> set xs. f x = Inr y"
  using assms by (induction xs arbitrary: ys) auto

section \<open>Dictionaries\<close>

definition dict_get :: "('k, 'v) dict \<Rightarrow> 'k \<Rightarrow> 'v option" where
  "dict_get d k = map_of d k"

definition dict_set :: "'k \<Rightarrow> 'v \<Rightarrow> ('k, 'v) dict \<Rightarrow> ('k, 'v) dict" where
  "dict_set k v d = AList.update k v d"

definition dict_pop :: "'k \<Rightarrow> ('k, 'v) dict \<Rightarrow> ('k, 'v) dict" where
  "dict_pop k d = filter (\<lambda>p. fst p \<noteq> k) d"

definition dict_keys :: "('k, 'v) dict \<Rightarrow> 'k list" where
  "dict_keys d = map fst d"

definition dict_values :: "('k, 'v) dict \<Rightarrow> 'v list" where
  "dict_values d = map snd d"

text \<open>\<open>a.update(b)\<close>, or the display \<open>{**a, **b}\<close>: the items of \<open>b\<close> are written in their order.\<close>

definition dict_update :: "('k, 'v) dict \<Rightarrow> ('k, 'v) dict \<Rightarrow> ('k, 'v) dict" where
  "dict_update a b = fold (\<lambda>(k, v) d. dict_set k v d) b a"

definition dict_wf :: "('k, 'v) dict \<Rightarrow> bool" where
  "dict_wf d \<longleftrightarrow> distinct (map fst d)"

lemma dict_get_empty [simp, dict_simps]: "dict_get [] k = None"
  by (simp add: dict_get_def)

lemma dict_get_set [simp, dict_simps]:
  "dict_get (dict_set k v d) k' = (if k' = k then Some v else dict_get d k')"
  by (simp add: dict_get_def dict_set_def update_conv')

lemma dict_get_pop [simp, dict_simps]:
  "dict_get (dict_pop k d) k' = (if k' = k then None else dict_get d k')"
  by (induction d) (auto simp: dict_get_def dict_pop_def)

lemma dict_wf_empty [simp, intro]: "dict_wf []"
  by (simp add: dict_wf_def)

lemma dict_wf_set [simp, intro]: "dict_wf d \<Longrightarrow> dict_wf (dict_set k v d)"
  by (simp add: dict_wf_def dict_set_def distinct_update)

lemma dict_wf_pop [simp, intro]: "dict_wf d \<Longrightarrow> dict_wf (dict_pop k d)"
  by (induction d) (auto simp: dict_wf_def dict_pop_def)

lemma dict_get_SomeD: "dict_get d k = Some v \<Longrightarrow> (k, v) \<in> set d"
  by (simp add: dict_get_def map_of_SomeD)

lemma dict_get_iff: "dict_wf d \<Longrightarrow> dict_get d k = Some v \<longleftrightarrow> (k, v) \<in> set d"
  by (simp add: dict_get_def dict_wf_def)

lemma dict_wf_update [simp, intro]: "dict_wf a \<Longrightarrow> dict_wf (dict_update a b)"
  unfolding dict_update_def by (induction b arbitrary: a) auto

lemma set_dict_set_subset: "set (dict_set k v d) \<subseteq> insert (k, v) (set d)"
  unfolding dict_set_def by (induction d) auto

text \<open>Reading a dynamically typed dictionary: \<open>d.get(k)\<close> where an absent key reads as \<open>None\<close>.\<close>

definition vget :: "(string, pyval) dict \<Rightarrow> string \<Rightarrow> pyval" where
  "vget d k = (case dict_get d k of None \<Rightarrow> VNone | Some v \<Rightarrow> v)"

definition opt_flt :: "flt option \<Rightarrow> pyval" where
  "opt_flt x = (case x of None \<Rightarrow> VNone | Some r \<Rightarrow> VFlt r)"

definition opt_str :: "string option \<Rightarrow> pyval" where
  "opt_str x = (case x of None \<Rightarrow> VNone | Some s \<Rightarrow> VStr s)"

lemma vget_set [simp]: "vget (dict_set k v d) k' = (if k' = k then v else vget d k')"
  by (simp add: vget_def)

section \<open>Sequences\<close>

text \<open>Python slices: a negative bound counts from the end and both bounds are clipped.\<close>

definition slice_bound :: "nat \<Rightarrow> int \<Rightarrow> nat" where
  "slice_bound n i = nat (if i < 0 then max 0 (int n + i) else min i (int n))"

definition py_slice :: "'a list \<Rightarrow> int \<Rightarrow> int \<Rightarrow> 'a list" where
  "py_slice xs lo hi =
     (let a = slice_bound (length xs) lo; b = slice_bound (length xs) hi
      in take (b - a) (drop a xs))"

definition py_slice_from :: "'a list \<Rightarrow> int \<Rightarrow> 'a list" where
  "py_slice_from xs lo = drop (slice_bound (length xs) lo) xs"

lemma set_py_slice: "set (py_slice xs lo hi) \<subseteq> set xs"
  unfolding py_slice_def Let_def by (meson order_trans set_drop_subset set_take_subset)

lemma set_py_slice_from: "set (py_slice_from xs lo) \<subseteq> set xs"
  by (simp add: py_slice_from_def set_drop_subset)

text \<open>The first element of a list that minimises a key, as \<open>sorted(xs, key)[0]\<close> finds it.\<close>

lemma hd_sort_key_min:
  assumes "xs \<noteq> []"
  shows "hd (sort_key f xs) \<in> set xs \<and> (\<forall>x \<in> set xs. f (hd (sort_key f xs)) \<le> f x)"
proof -
  obtain y ys where ys: "sort_key f xs = y # ys"
    using assms by (metis list.exhaust length_sort length_0_conv)
  have "y \<in> set xs"
    using ys by (metis list.set_intros(1) set_sort)
  moreover have "\<forall>x \<in> set xs. f y \<le> f x"
  proof
    fix x assume "x \<in> set xs"
    then have "x \<in> set (y # ys)" by (metis ys set_sort)
    moreover have "sorted (map f (y # ys))" using ys by (metis sorted_sort_key)
    ultimately show "f y \<le> f x" by auto
  qed
  ultimately show ?thesis using ys by simp
qed

lemma sort_key_Cons_min:
  assumes "sort_key f xs = y # ys"
  shows "y \<in> set xs" and "\<forall>x \<in> set xs. f y \<le> f x"
proof -
  have "xs \<noteq> []" using assms by auto
  from hd_sort_key_min [OF this, of f] assms
  show "y \<in> set xs" and "\<forall>x \<in> set xs. f y \<le> f x" by auto
qed

lemma insort_key_map:
  assumes "\<And>y. f (g y) = f y"
  shows "insort_key f (g x) (map g xs) = map g (insort_key f x xs)"
  by (induction xs) (simp_all add: assms)

lemma sort_key_map:
  assumes "\<And>y. f (g y) = f y"
  shows "sort_key f (map g xs) = map g (sort_key f xs)"
  by (induction xs) (simp_all add: insort_key_map [of f g, OF assms])

lemma map_filter_empty: "List.map_filter f xs = [] \<longleftrightarrow> (\<forall>x \<in> set xs. f x = None)"
  by (induction xs) (auto simp: map_filter_simps split: option.split)

lemma set_map_filter_eq: "set (List.map_filter f xs) = {y. \<exists>x \<in> set xs. f x = Some y}"
  by (induction xs) (auto simp: map_filter_simps split: option.split)

section \<open>Rounding\<close>

text \<open>Python's \<open>round\<close>: ties go to the even neighbour.\<close>

definition py_round0 :: "flt \<Rightarrow> int" where
  "py_round0 x =
     (let f = \<lfloor>x\<rfloor>; d = x - of_int f
      in if d < 1 / 2 then f
         else if d > 1 / 2 then f + 1
         else if even f then f else f + 1)"

definition py_round :: "flt \<Rightarrow> nat \<Rightarrow> flt" where
  "py_round x n = of_int (py_round0 (x * 10 ^ n)) / 10 ^ n"

lemma py_round0_of_int [simp]: "py_round0 (of_int i) = i"
  by (simp add: py_round0_def)

lemma py_round0_error: "\<bar>of_int (py_round0 x) - x\<bar> \<le> 1 / 2"
proof -
  have "of_int \<lfloor>x\<rfloor> \<le> x" "x < of_int \<lfloor>x\<rfloor> + 1" by linarith+
  then show ?thesis unfolding py_round0_def Let_def by (auto simp: abs_le_iff)
qed

lemma py_round_error: "\<bar>py_round x n - x\<bar> \<le> 1 / (2 * 10 ^ n)"
proof -
  let ?p = "10 ^ n :: real"
  have p: "0 < ?p" by simp
  have "py_round x n - x = (of_int (py_round0 (x * ?p)) - x * ?p) / ?p"
    using p by (simp add: py_round_def field_simps)
  then have "\<bar>py_round x n - x\<bar> = \<bar>of_int (py_round0 (x * ?p)) - x * ?p\<bar> / ?p"
    using p by (simp add: abs_divide)
  also have "\<dots> \<le> (1 / 2) / ?p"
    using p py_round0_error [of "x * ?p"] by (intro divide_right_mono) auto
  finally show ?thesis by simp
qed

lemma py_round0_nonneg: "0 \<le> x \<Longrightarrow> 0 \<le> py_round0 x"
  by (auto simp: py_round0_def Let_def)

lemma py_round_nonneg: "0 \<le> x \<Longrightarrow> 0 \<le> py_round x n"
  by (simp add: py_round_def py_round0_nonneg)

section \<open>Time\<close>

definition us_per_s :: int where "us_per_s = 1000000"
definition day_us :: int where "day_us = 86400 * 1000000"
definition hour_us :: int where "hour_us = 3600 * 1000000"
definition minute_us :: int where "minute_us = 60 * 1000000"

declare us_per_s_def [time_defs] day_us_def [time_defs] hour_us_def [time_defs]
  minute_us_def [time_defs]

definition date_of :: "datetime \<Rightarrow> date" where
  "date_of t = t div day_us"

definition time_of :: "datetime \<Rightarrow> daytime" where
  "time_of t = t mod day_us"

definition combine :: "date \<Rightarrow> daytime \<Rightarrow> datetime" where
  "combine d s = d * day_us + s"

text \<open>\<open>weekday()\<close>: Monday is 0.  1970-01-01 was a Thursday.\<close>

definition weekday :: "date \<Rightarrow> int" where
  "weekday d = (d + 3) mod 7"

definition total_seconds :: "int \<Rightarrow> flt" where
  "total_seconds delta = of_int delta / 1000000"

text \<open>\<open>timedelta(minutes=m)\<close> and \<open>timedelta(hours=h)\<close>, rounded to microseconds.\<close>

definition timedelta_minutes :: "flt \<Rightarrow> int" where
  "timedelta_minutes m = py_round0 (m * 60000000)"

definition timedelta_hours :: "flt \<Rightarrow> int" where
  "timedelta_hours h = py_round0 (h * 3600000000)"

lemma date_time_split: "combine (date_of t) (time_of t) = t"
  by (simp add: combine_def date_of_def time_of_def)

lemma time_of_bounds [simp]: "0 \<le> time_of t" "time_of t < day_us"
  by (simp_all add: time_of_def day_us_def)

lemma date_of_combine [simp]: "0 \<le> s \<Longrightarrow> s < day_us \<Longrightarrow> date_of (combine d s) = d"
  by (simp add: date_of_def combine_def day_us_def)

lemma time_of_combine [simp]: "0 \<le> s \<Longrightarrow> s < day_us \<Longrightarrow> time_of (combine d s) = s"
  by (simp add: time_of_def combine_def day_us_def)

lemma date_of_mono: "s \<le> t \<Longrightarrow> date_of s \<le> date_of t"
  by (simp add: date_of_def day_us_def zdiv_mono1)

lemma weekday_bounds [simp]: "0 \<le> weekday d" "weekday d < 7"
  by (simp_all add: weekday_def)

section \<open>Text\<close>

definition digit_char :: "nat \<Rightarrow> char" where
  "digit_char d = char_of (48 + d)"

definition is_digit :: "char \<Rightarrow> bool" where
  "is_digit c \<longleftrightarrow> 48 \<le> (of_char c :: nat) \<and> (of_char c :: nat) \<le> 57"

definition digit_val :: "char \<Rightarrow> nat" where
  "digit_val c = of_char c - 48"

fun str_of_nat :: "nat \<Rightarrow> string" where
  "str_of_nat n = (if n < 10 then [digit_char n] else str_of_nat (n div 10) @ [digit_char (n mod 10)])"

declare str_of_nat.simps [simp del]

definition str_of_int :: "int \<Rightarrow> string" where
  "str_of_int i = (if i < 0 then CHR ''-'' # str_of_nat (nat (- i)) else str_of_nat (nat i))"

definition nat_of_digits :: "string \<Rightarrow> nat" where
  "nat_of_digits s = foldl (\<lambda>acc c. 10 * acc + digit_val c) 0 s"

text \<open>The format specification \<open>.nf\<close>.\<close>

definition fmt_fixed :: "nat \<Rightarrow> flt \<Rightarrow> string" where
  "fmt_fixed n x =
     (let k = py_round0 (\<bar>x\<bar> * 10 ^ n);
          ip = k div 10 ^ n; fp = str_of_nat (nat (k mod 10 ^ n));
          frac = (if n = 0 then [] else CHR ''.'' # replicate (n - length fp) (CHR ''0'') @ fp)
      in (if x < 0 then ''-'' else []) @ str_of_nat (nat ip) @ frac)"

fun split_on :: "char \<Rightarrow> string \<Rightarrow> string list" where
  "split_on sep [] = [[]]"
| "split_on sep (c # cs) =
     (if c = sep then [] # split_on sep cs
      else case split_on sep cs of [] \<Rightarrow> [[c]] | w # ws \<Rightarrow> (c # w) # ws)"

lemma split_on_plain: "sep \<notin> set w \<Longrightarrow> split_on sep w = [w]"
  by (induction w) auto

lemma split_on_append: "sep \<notin> set w \<Longrightarrow> split_on sep (w @ sep # rest) = w # split_on sep rest"
  by (induction w) auto

lemma of_char_digit_char: "d < 10 \<Longrightarrow> (of_char (digit_char d) :: nat) = 48 + d"
  by (simp add: digit_char_def)

lemma digit_char_props:
  assumes "d < 10"
  shows "is_digit (digit_char d)" and "digit_val (digit_char d) = d"
  using assms by (simp_all add: is_digit_def digit_val_def of_char_digit_char)

lemma str_of_nat_digits: "c \<in> set (str_of_nat n) \<Longrightarrow> is_digit c"
proof (induction n rule: str_of_nat.induct)
  case (1 n)
  then show ?case
    by (subst (asm) (2) str_of_nat.simps) (auto simp: digit_char_props split: if_splits)
qed

lemma str_of_nat_ne [simp]: "str_of_nat n \<noteq> []"
  by (subst str_of_nat.simps) simp

lemma nat_of_digits_snoc: "nat_of_digits (s @ [c]) = 10 * nat_of_digits s + digit_val c"
  by (simp add: nat_of_digits_def)

lemma nat_of_digits_str_of_nat [simp]: "nat_of_digits (str_of_nat n) = n"
proof (induction n rule: str_of_nat.induct)
  case (1 n)
  show ?case
  proof (cases "n < 10")
    case True
    then show ?thesis
      by (subst str_of_nat.simps) (simp add: nat_of_digits_def digit_char_props)
  next
    case False
    with 1 have "nat_of_digits (str_of_nat (n div 10)) = n div 10" by simp
    with False show ?thesis
      by (subst str_of_nat.simps) (simp add: nat_of_digits_snoc digit_char_props)
  qed
qed

lemma length_str_of_nat: "n < 10 ^ Suc k \<Longrightarrow> length (str_of_nat n) \<le> Suc k"
proof (induction k arbitrary: n)
  case 0
  then show ?case by (subst str_of_nat.simps) simp
next
  case (Suc k)
  show ?case
  proof (cases "n < 10")
    case True
    then show ?thesis by (subst str_of_nat.simps) simp
  next
    case False
    have "n div 10 < 10 ^ Suc k" using Suc.prems by (simp add: less_mult_imp_div_less)
    with Suc.IH [of "n div 10"] False show ?thesis by (subst str_of_nat.simps) simp
  qed
qed

lemma is_digit_not_dash: "is_digit c \<Longrightarrow> c \<noteq> CHR ''-''"
  by (auto simp: is_digit_def)

section \<open>Truth and conversions of dynamic values\<close>

fun truthy :: "pyval \<Rightarrow> bool" where
  "truthy VNone = False"
| "truthy (VBool b) = b"
| "truthy (VInt i) = (i \<noteq> 0)"
| "truthy (VFlt x) = (x \<noteq> 0)"
| "truthy (VStr s) = (s \<noteq> [])"
| "truthy (VList xs) = (xs \<noteq> [])"
| "truthy (VDict d) = (d \<noteq> [])"

definition py_or :: "pyval \<Rightarrow> pyval \<Rightarrow> pyval" where
  "py_or a b = (if truthy a then a else b)"

definition hashable :: "pyval \<Rightarrow> bool" where
  "hashable v = (case v of VList _ \<Rightarrow> False | VDict _ \<Rightarrow> False | _ \<Rightarrow> True)"

text \<open>
  \<open>float(v)\<close> and \<open>int(v)\<close>.  \<open>pf\<close> and \<open>pint\<close> stand for the parsing of text by the two constructors
  (\<open>None\<close> is \<open>ValueError\<close>); texts that denote infinities or NaN are outside the model.
\<close>

definition float_of :: "(string \<Rightarrow> flt option) \<Rightarrow> pyval \<Rightarrow> flt result" where
  "float_of pf v =
     (case v of
        VBool b \<Rightarrow> Inr (if b then 1 else 0)
      | VInt i \<Rightarrow> Inr (of_int i)
      | VFlt x \<Rightarrow> Inr x
      | VStr s \<Rightarrow> (case pf s of None \<Rightarrow> Inl ValueError | Some x \<Rightarrow> Inr x)
      | _ \<Rightarrow> Inl TypeError)"

definition trunc :: "flt \<Rightarrow> int" where
  "trunc x = (if 0 \<le> x then \<lfloor>x\<rfloor> else \<lceil>x\<rceil>)"

definition int_of_val :: "(string \<Rightarrow> int option) \<Rightarrow> pyval \<Rightarrow> int result" where
  "int_of_val pint v =
     (case v of
        VBool b \<Rightarrow> Inr (if b then 1 else 0)
      | VInt i \<Rightarrow> Inr i
      | VFlt x \<Rightarrow> Inr (trunc x)
      | VStr s \<Rightarrow> (case pint s of None \<Rightarrow> Inl ValueError | Some i \<Rightarrow> Inr i)
      | _ \<Rightarrow> Inl TypeError)"

text \<open>The helper \<open>_as_float\<close>, which several modules repeat: absent and unparsable values are \<open>None\<close>.\<close>

definition as_float :: "(string \<Rightarrow> flt option) \<Rightarrow> pyval \<Rightarrow> flt option" where
  "as_float pf v =
     (if v = VNone \<or> v = VStr [] then None
      else case float_of pf v of Inl _ \<Rightarrow> None | Inr x \<Rightarrow> Some x)"

section \<open>Reading sequences that may be empty\<close>

definition py_last :: "'a list \<Rightarrow> 'a result" where
  "py_last xs = (if xs = [] then Inl IndexError else Inr (last xs))"

text \<open>NumPy's \<open>max\<close> and \<open>min\<close> raise on an empty array; its \<open>mean\<close> of one is NaN.\<close>

definition np_max :: "flt list \<Rightarrow> flt result" where
  "np_max xs = (if xs = [] then Inl ValueError else Inr (Max (set xs)))"

definition np_min :: "flt list \<Rightarrow> flt result" where
  "np_min xs = (if xs = [] then Inl ValueError else Inr (Min (set xs)))"

definition the_or :: "'a \<Rightarrow> 'a option \<Rightarrow> 'a" where
  "the_or d x = (case x of None \<Rightarrow> d | Some v \<Rightarrow> v)"

lemma the_or_simps [simp]: "the_or d None = d" "the_or d (Some v) = v"
  by (simp_all add: the_or_def)

section \<open>Text of values\<close>

definition pad_left :: "nat \<Rightarrow> string \<Rightarrow> string" where
  "pad_left n s = replicate (n - length s) (CHR ''0'') @ s"

text \<open>The calendar date of a day number, in the proleptic Gregorian calendar.\<close>

definition ymd_of_date :: "date \<Rightarrow> int \<times> int \<times> int" where
  "ymd_of_date d =
     (let z = d + 719468; era = z div 146097; doe = z mod 146097;
          yoe = (doe - doe div 1460 + doe div 36524 - doe div 146096) div 365;
          doy = doe - (365 * yoe + yoe div 4 - yoe div 100);
          mp = (5 * doy + 2) div 153;
          m = (if mp < 10 then mp + 3 else mp - 9)
      in (yoe + era * 400 + (if m \<le> 2 then 1 else 0), m, doy - (153 * mp + 2) div 5 + 1))"

definition date_isoformat :: "date \<Rightarrow> string" where
  "date_isoformat d =
     (case ymd_of_date d of
        (y, m, dd) \<Rightarrow> pad_left 4 (str_of_int y) @ ''-'' @ pad_left 2 (str_of_int m) @ ''-'' @ pad_left 2 (str_of_int dd))"

text \<open>\<open>isoformat\<close> writes the separator \<open>T\<close>, \<open>str\<close> a blank; microseconds are written when they are not zero.\<close>

definition datetime_text :: "string \<Rightarrow> datetime \<Rightarrow> string" where
  "datetime_text sep t =
     (let u = time_of t; s = u div us_per_s; f = u mod us_per_s
      in date_isoformat (date_of t) @ sep @ pad_left 2 (str_of_int (s div 3600)) @ '':'' @
         pad_left 2 (str_of_int (s div 60 mod 60)) @ '':'' @ pad_left 2 (str_of_int (s mod 60)) @
         (if f = 0 then [] else ''.'' @ pad_left 6 (str_of_int f)))"

definition isoformat :: "datetime \<Rightarrow> string" where
  "isoformat t = datetime_text ''T'' t"

text \<open>\<open>strip\<close> and \<open>lower\<close>, for ASCII text.\<close>

definition is_space :: "char \<Rightarrow> bool" where
  "is_space c \<longleftrightarrow> (let n = (of_char c :: nat) in 9 \<le> n \<and> n \<le> 13 \<or> 28 \<le> n \<and> n \<le> 32)"

definition py_strip :: "string \<Rightarrow> string" where
  "py_strip s = rev (dropWhile is_space (rev (dropWhile is_space s)))"

definition lower_char :: "char \<Rightarrow> char" where
  "lower_char c = (let n = (of_char c :: nat) in if 65 \<le> n \<and> n \<le> 90 then char_of (n + 32) else c)"

definition py_lower :: "string \<Rightarrow> string" where
  "py_lower s = map lower_char s"

lemma map_result_id: "map_result id xs = Inr ys \<longleftrightarrow> xs = map Inr ys"
proof (induction xs arbitrary: ys)
  case Nil
  then show ?case by auto
next
  case (Cons x xs)
  then show ?case by (cases ys) (auto simp: bind_result_Inr_iff)
qed

end
