(* ===== verification/Config.thy ===== *)
theory Config
  imports Prelude
begin

text \<open>
  The configuration models (\<open>bot/config/models.py\<close>) and the checks of the loader
  (\<open>bot/config/loader.py\<close>).  Each pydantic model is a record with the model's defaults as a constant
  and the \<open>Field\<close> constraints as a predicate; a validated configuration satisfies it.  The three
  times of \<open>TradingWindowConfig\<close> are kept parsed, as its properties return them.
\<close>

section \<open>Enumerations\<close>

datatype strategy_id = DIRECTIONAL | CREDIT_VERTICAL | LONG_STRADDLE
datatype underlying = BTC | ETH
datatype timeframe = TF_M15 | TF_H1 | TF_H4 | TF_D1
datatype expiry_bucket = D1 | D2 | W1 | W2 | W3
datatype strike_mode = ATM | OTM_PLUS_ONE

fun strategy_value :: "strategy_id \<Rightarrow> string" where
  "strategy_value DIRECTIONAL = ''directional''"
| "strategy_value CREDIT_VERTICAL = ''credit_vertical''"
| "strategy_value LONG_STRADDLE = ''long_straddle''"

fun underlying_value :: "underlying \<Rightarrow> string" where
  "underlying_value BTC = ''BTC''"
| "underlying_value ETH = ''ETH''"

fun timeframe_value :: "timeframe \<Rightarrow> string" where
  "timeframe_value TF_M15 = ''15m''"
| "timeframe_value TF_H1 = ''1h''"
| "timeframe_value TF_H4 = ''4h''"
| "timeframe_value TF_D1 = ''1d''"

fun bucket_value :: "expiry_bucket \<Rightarrow> string" where
  "bucket_value D1 = ''D1''"
| "bucket_value D2 = ''D2''"
| "bucket_value W1 = ''W1''"
| "bucket_value W2 = ''W2''"
| "bucket_value W3 = ''W3''"

text \<open>The enum constructors \<open>StrategyId(s)\<close> and \<open>Underlying(s)\<close>, which raise on an unknown value.\<close>

definition StrategyId :: "string \<Rightarrow> strategy_id result" where
  "StrategyId s =
     (if s = ''directional'' then Inr DIRECTIONAL
      else if s = ''credit_vertical'' then Inr CREDIT_VERTICAL
      else if s = ''long_straddle'' then Inr LONG_STRADDLE
      else Inl ValueError)"

definition Underlying :: "string \<Rightarrow> underlying result" where
  "Underlying s = (if s = ''BTC'' then Inr BTC else if s = ''ETH'' then Inr ETH else Inl ValueError)"

lemma StrategyId_value [simp]: "StrategyId (strategy_value i) = Inr i"
  by (cases i) (simp_all add: StrategyId_def)

lemma StrategyId_InrD: "StrategyId s = Inr i \<Longrightarrow> s = strategy_value i"
  by (auto simp: StrategyId_def split: if_splits)

lemma Underlying_value [simp]: "Underlying (underlying_value u) = Inr u"
  by (cases u) (simp_all add: Underlying_def)

lemma Underlying_InrD: "Underlying s = Inr u \<Longrightarrow> s = underlying_value u"
  by (auto simp: Underlying_def split: if_splits)

lemma strategy_value_inject [simp]: "strategy_value i = strategy_value j \<longleftrightarrow> i = j"
  by (cases i; cases j) simp_all

lemma underlying_value_inject [simp]: "underlying_value i = underlying_value j \<longleftrightarrow> i = j"
  by (cases i; cases j) simp_all

section \<open>Global configuration\<close>

record risk_caps_config =
  rc_daily_loss_pct :: flt
  rc_weekly_loss_pct :: flt
  rc_lifetime_dd_pct :: flt

record trading_window_config =
  twc_start :: daytime
  twc_end :: daytime
  twc_force_close :: daytime

record concurrency_config =
  max_total :: int
  max_per_strategy :: int

record execution_config =
  spread_filter_max_pct :: flt
  maker_limit_timeout_seconds :: flt
  slip_bps_directional :: int
  slip_bps_strangle :: int
  slip_bps_condor :: int
  trail_update_throttle_seconds :: flt

record desk_config =
  desk_enabled :: bool
  desk_strict :: bool
  desk_min_open_interest :: flt
  desk_greeks_required :: bool
  max_abs_net_delta_inr :: "flt option"
  max_abs_net_vega_inr :: "flt option"
  max_vega_per_trade_inr :: "flt option"
  max_gamma_per_trade_inr :: "flt option"
  iv_history_min_snapshots :: int
  go_live_min_entry_iv_pct :: flt
  go_live_entry_iv_lookback_trades :: int

record global_config =
  nav_inr :: flt
  usd_inr_rate :: flt
  risk_caps :: risk_caps_config
  trading_window_cfg :: trading_window_config
  concurrency :: concurrency_config
  execution :: execution_config
  desk :: desk_config

definition RiskCapsConfig :: risk_caps_config where
  "RiskCapsConfig = \<lparr>rc_daily_loss_pct = 3 / 100, rc_weekly_loss_pct = 6 / 100, rc_lifetime_dd_pct = 15 / 100\<rparr>"

definition TradingWindowConfig :: trading_window_config where
  "TradingWindowConfig =
     \<lparr>twc_start = 9 * hour_us, twc_end = 22 * hour_us, twc_force_close = 16 * hour_us + 45 * minute_us\<rparr>"

definition ConcurrencyConfig :: concurrency_config where
  "ConcurrencyConfig = \<lparr>max_total = 3, max_per_strategy = 1\<rparr>"

definition ExecutionConfig :: execution_config where
  "ExecutionConfig =
     \<lparr>spread_filter_max_pct = 8 / 100, maker_limit_timeout_seconds = 30, slip_bps_directional = 50,
      slip_bps_strangle = 50, slip_bps_condor = 100, trail_update_throttle_seconds = 5\<rparr>"

definition DeskConfig :: desk_config where
  "DeskConfig =
     \<lparr>desk_enabled = False, desk_strict = False, desk_min_open_interest = 0, desk_greeks_required = True,
      max_abs_net_delta_inr = None, max_abs_net_vega_inr = None, max_vega_per_trade_inr = None,
      max_gamma_per_trade_inr = None, iv_history_min_snapshots = 20, go_live_min_entry_iv_pct = 80 / 100,
      go_live_entry_iv_lookback_trades = 20\<rparr>"

definition GlobalConfig :: global_config where
  "GlobalConfig =
     \<lparr>nav_inr = 50000, usd_inr_rate = 85, risk_caps = RiskCapsConfig, trading_window_cfg = TradingWindowConfig,
      concurrency = ConcurrencyConfig, execution = ExecutionConfig, desk = DeskConfig\<rparr>"

definition valid_risk_caps :: "risk_caps_config \<Rightarrow> bool" where
  "valid_risk_caps c \<longleftrightarrow>
     0 < rc_daily_loss_pct c \<and> rc_daily_loss_pct c < 1 \<and>
     0 < rc_weekly_loss_pct c \<and> rc_weekly_loss_pct c < 1 \<and>
     0 < rc_lifetime_dd_pct c \<and> rc_lifetime_dd_pct c < 1"

definition valid_concurrency :: "concurrency_config \<Rightarrow> bool" where
  "valid_concurrency c \<longleftrightarrow> 1 \<le> max_total c \<and> 1 \<le> max_per_strategy c"

definition valid_execution :: "execution_config \<Rightarrow> bool" where
  "valid_execution c \<longleftrightarrow>
     0 < spread_filter_max_pct c \<and> spread_filter_max_pct c < 1 \<and>
     0 < maker_limit_timeout_seconds c \<and>
     0 \<le> slip_bps_directional c \<and> slip_bps_directional c \<le> 1000 \<and>
     0 \<le> slip_bps_strangle c \<and> slip_bps_strangle c \<le> 1000 \<and>
     0 \<le> slip_bps_condor c \<and> slip_bps_condor c \<le> 1000 \<and>
     0 < trail_update_throttle_seconds c"

definition opt_pos :: "flt option \<Rightarrow> bool" where
  "opt_pos x = (case x of None \<Rightarrow> True | Some v \<Rightarrow> 0 < v)"

definition valid_desk :: "desk_config \<Rightarrow> bool" where
  "valid_desk c \<longleftrightarrow>
     0 \<le> desk_min_open_interest c \<and> opt_pos (max_abs_net_delta_inr c) \<and> opt_pos (max_abs_net_vega_inr c) \<and>
     opt_pos (max_vega_per_trade_inr c) \<and> opt_pos (max_gamma_per_trade_inr c) \<and>
     1 \<le> iv_history_min_snapshots c \<and>
     0 < go_live_min_entry_iv_pct c \<and> go_live_min_entry_iv_pct c \<le> 1 \<and>
     1 \<le> go_live_entry_iv_lookback_trades c"

definition valid_global :: "global_config \<Rightarrow> bool" where
  "valid_global c \<longleftrightarrow>
     0 < nav_inr c \<and> 0 < usd_inr_rate c \<and> valid_risk_caps (risk_caps c) \<and>
     valid_concurrency (concurrency c) \<and> valid_execution (execution c) \<and> valid_desk (desk c)"

lemma GlobalConfig_valid: "valid_global GlobalConfig"
  by (simp add: valid_global_def GlobalConfig_def valid_risk_caps_def RiskCapsConfig_def
      valid_concurrency_def ConcurrencyConfig_def valid_execution_def ExecutionConfig_def
      valid_desk_def DeskConfig_def opt_pos_def)

section \<open>Strategy configuration\<close>

record base_strategy_config =
  cfg_id :: strategy_id
  cfg_enabled :: bool
  cfg_enabled_live :: bool
  risk_weight :: flt
  risk_per_trade_pct :: flt
  max_lots_cap :: int
  trade_premium_cap_usd :: "flt option"
  cfg_underlyings :: "underlying list"

definition valid_base :: "base_strategy_config \<Rightarrow> bool" where
  "valid_base c \<longleftrightarrow>
     0 < risk_weight c \<and> risk_weight c \<le> 1 \<and> 0 < risk_per_trade_pct c \<and> risk_per_trade_pct c < 1 \<and>
     1 \<le> max_lots_cap c \<and> opt_pos (trade_premium_cap_usd c)"

record directional_entry =
  de_timeframe :: timeframe
  ema_fast_period :: int
  ema_slow_period :: int
  atr_period :: int
  prior_bars :: int
  breakout_atr_mult :: flt
  cooldown_minutes_after_underlying_stop :: flt

definition DirectionalEntry :: directional_entry where
  "DirectionalEntry =
     \<lparr>de_timeframe = TF_M15, ema_fast_period = 9, ema_slow_period = 21, atr_period = 14, prior_bars = 4,
      breakout_atr_mult = 25 / 100, cooldown_minutes_after_underlying_stop = 45\<rparr>"

record directional_expiry =
  dx_prefer :: expiry_bucket
  dx_fallback :: expiry_bucket
  min_dte_hours :: flt
  d1_dte_threshold_hours :: flt

definition DirectionalExpiry :: directional_expiry where
  "DirectionalExpiry = \<lparr>dx_prefer = D1, dx_fallback = D2, min_dte_hours = 2, d1_dte_threshold_hours = 4\<rparr>"

record directional_strike =
  strike_primary :: strike_mode
  strike_fallback :: strike_mode

definition DirectionalStrike :: directional_strike where
  "DirectionalStrike = \<lparr>strike_primary = ATM, strike_fallback = OTM_PLUS_ONE\<rparr>"

record directional_desk_config =
  max_iv_percentile_long :: "flt option"
  min_iv_percentile_long :: "flt option"
  prefer_delta_strike :: "flt option"
  max_abs_delta_move :: "flt option"
  max_abs_gamma_shock :: "flt option"

definition DirectionalDeskConfig :: directional_desk_config where
  "DirectionalDeskConfig =
     \<lparr>max_iv_percentile_long = None, min_iv_percentile_long = None, prefer_delta_strike = None,
      max_abs_delta_move = None, max_abs_gamma_shock = None\<rparr>"

record strategy_leg_desk_config =
  leg_min_open_interest :: flt
  leg_greeks_required :: bool

definition StrategyLegDeskConfig :: strategy_leg_desk_config where
  "StrategyLegDeskConfig = \<lparr>leg_min_open_interest = 0, leg_greeks_required = True\<rparr>"

record directional_exits =
  target_r :: flt
  premium_drawdown_pct :: flt
  underlying_atr_mult_stop :: flt
  trail_breakeven_at_r :: flt
  trail_chandelier_atr_mult :: flt
  dex_force_close_hours_before_expiry :: flt

definition DirectionalExits :: directional_exits where
  "DirectionalExits =
     \<lparr>target_r = 2, premium_drawdown_pct = 50 / 100, underlying_atr_mult_stop = 1, trail_breakeven_at_r = 1,
      trail_chandelier_atr_mult = 2, dex_force_close_hours_before_expiry = 2\<rparr>"

definition valid_directional_exits :: "directional_exits \<Rightarrow> bool" where
  "valid_directional_exits c \<longleftrightarrow>
     0 < target_r c \<and> 0 < premium_drawdown_pct c \<and> premium_drawdown_pct c < 1 \<and>
     0 < underlying_atr_mult_stop c \<and> 0 < trail_breakeven_at_r c \<and> 0 < trail_chandelier_atr_mult c \<and>
     0 < dex_force_close_hours_before_expiry c"

record directional_config =
  dir_base :: base_strategy_config
  dir_entry :: directional_entry
  dir_expiry :: directional_expiry
  dir_strike :: directional_strike
  dir_desk :: directional_desk_config
  dir_exits :: directional_exits

record credit_spread_wings =
  short_delta_min :: flt
  short_delta_max :: flt
  short_delta_target :: flt
  long_delta_min :: flt
  long_delta_max :: flt
  long_delta_target :: flt

definition CreditSpreadWings :: credit_spread_wings where
  "CreditSpreadWings =
     \<lparr>short_delta_min = 18 / 100, short_delta_max = 28 / 100, short_delta_target = 22 / 100,
      long_delta_min = 5 / 100, long_delta_max = 12 / 100, long_delta_target = 8 / 100\<rparr>"

record credit_vertical_exits =
  profit_take_pct_of_credit :: flt
  stop_loss_x_credit :: flt
  force_close_days_before_expiry :: int

definition CreditVerticalExits :: credit_vertical_exits where
  "CreditVerticalExits =
     \<lparr>profit_take_pct_of_credit = 50 / 100, stop_loss_x_credit = 2, force_close_days_before_expiry = 2\<rparr>"

definition valid_credit_vertical_exits :: "credit_vertical_exits \<Rightarrow> bool" where
  "valid_credit_vertical_exits c \<longleftrightarrow>
     0 < profit_take_pct_of_credit c \<and> profit_take_pct_of_credit c < 1 \<and> 0 < stop_loss_x_credit c \<and>
     0 \<le> force_close_days_before_expiry c \<and> force_close_days_before_expiry c \<le> 7"

record credit_vertical_config =
  cv_base :: base_strategy_config
  cv_entry :: directional_entry
  cv_prefer :: expiry_bucket
  cv_fallback :: expiry_bucket
  cv_spread :: credit_spread_wings
  min_credit_pct_of_width :: flt
  cv_desk :: strategy_leg_desk_config
  cv_exits :: credit_vertical_exits

record long_straddle_setup =
  timeframe_short :: timeframe
  timeframe_long :: timeframe
  ls_atr_period :: int
  atr_percentile_max :: flt
  atr_percentile_lookback :: int
  bbwidth_period :: int
  bbwidth_std :: flt
  bbwidth_percentile_max :: flt
  range_compression_bars :: int
  range_compression_ratio :: flt
  range_compression_lookback_days :: int
  require_range_compression :: bool
  anti_revenge_hours :: int

definition LongStraddleSetup :: long_straddle_setup where
  "LongStraddleSetup =
     \<lparr>timeframe_short = TF_M15, timeframe_long = TF_H1, ls_atr_period = 14, atr_percentile_max = 40 / 100,
      atr_percentile_lookback = 100, bbwidth_period = 20, bbwidth_std = 2, bbwidth_percentile_max = 40 / 100,
      range_compression_bars = 8, range_compression_ratio = 55 / 100, range_compression_lookback_days = 14,
      require_range_compression = True, anti_revenge_hours = 12\<rparr>"

record long_straddle_exits =
  profit_take_pct_of_premium :: flt
  stop_loss_pct_of_premium :: flt
  lex_force_close_hours_before_expiry :: flt

definition LongStraddleExits :: long_straddle_exits where
  "LongStraddleExits =
     \<lparr>profit_take_pct_of_premium = 40 / 100, stop_loss_pct_of_premium = 40 / 100,
      lex_force_close_hours_before_expiry = 4\<rparr>"

definition valid_long_straddle_exits :: "long_straddle_exits \<Rightarrow> bool" where
  "valid_long_straddle_exits c \<longleftrightarrow>
     0 < profit_take_pct_of_premium c \<and> profit_take_pct_of_premium c < 1 \<and>
     0 < stop_loss_pct_of_premium c \<and> stop_loss_pct_of_premium c < 1 \<and>
     0 < lex_force_close_hours_before_expiry c"

record long_straddle_config =
  ls_base :: base_strategy_config
  ls_setup :: long_straddle_setup
  ls_prefer :: expiry_bucket
  ls_fallback :: expiry_bucket
  ls_desk :: strategy_leg_desk_config
  ls_exits :: long_straddle_exits

text \<open>\<open>StrategyConfig\<close>, the union of the three.\<close>

datatype strategy_config =
    DirectionalConfig directional_config
  | CreditVerticalConfig credit_vertical_config
  | LongStraddleConfig long_straddle_config

fun cfg_base :: "strategy_config \<Rightarrow> base_strategy_config" where
  "cfg_base (DirectionalConfig c) = dir_base c"
| "cfg_base (CreditVerticalConfig c) = cv_base c"
| "cfg_base (LongStraddleConfig c) = ls_base c"

text \<open>Each class fixes its \<open>id\<close> with a literal type.\<close>

fun cfg_id_ok :: "strategy_config \<Rightarrow> bool" where
  "cfg_id_ok (DirectionalConfig c) = (cfg_id (dir_base c) = DIRECTIONAL)"
| "cfg_id_ok (CreditVerticalConfig c) = (cfg_id (cv_base c) = CREDIT_VERTICAL)"
| "cfg_id_ok (LongStraddleConfig c) = (cfg_id (ls_base c) = LONG_STRADDLE)"

section \<open>Loader checks\<close>

text \<open>\<open>_check_unique_ids\<close>: raises (\<open>ConfigError\<close>, a \<open>ValueError\<close>) at the first repeated id.\<close>

fun check_unique_ids_from :: "string list \<Rightarrow> strategy_config list \<Rightarrow> unit result" where
  "check_unique_ids_from seen [] = Inr ()"
| "check_unique_ids_from seen (c # cs) =
     (let k = strategy_value (cfg_id (cfg_base c))
      in if k \<in> set seen then Inl ValueError else check_unique_ids_from (k # seen) cs)"

definition check_unique_ids :: "strategy_config list \<Rightarrow> unit result" where
  "check_unique_ids configs = check_unique_ids_from [] configs"

definition check_risk_weights_sum_to_one :: "strategy_config list \<Rightarrow> unit result" where
  "check_risk_weights_sum_to_one configs =
     (let total = sum_list (map (\<lambda>c. risk_weight (cfg_base c)) configs)
      in if \<bar>total - 1\<bar> \<le> 1 / 1000000 then Inr () else Inl ValueError)"

text \<open>
  \<open>load_strategy_configs\<close> after the files have been read: \<open>model_validate\<close> is pydantic's, so the
  function takes the outcome of validating each file, in the order of the sorted paths.
\<close>

definition load_strategy_configs :: "strategy_config result list \<Rightarrow> strategy_config list result" where
  "load_strategy_configs validated =
     bind_result (map_result id validated)
       (\<lambda>configs. if configs = [] then Inl ValueError
          else bind_result (check_unique_ids configs)
            (\<lambda>_. bind_result (check_risk_weights_sum_to_one configs) (\<lambda>_. Inr configs)))"

definition strategy_by_id :: "strategy_config list \<Rightarrow> strategy_id \<Rightarrow> strategy_config result" where
  "strategy_by_id strategies sid =
     (case find (\<lambda>c. cfg_id (cfg_base c) = sid) strategies of Some c \<Rightarrow> Inr c | None \<Rightarrow> Inl KeyError)"

definition effective_override :: "flt option \<Rightarrow> flt \<Rightarrow> flt" where
  "effective_override override_value configured =
     (case override_value of Some v \<Rightarrow> v | None \<Rightarrow> configured)"

abbreviation config_ids :: "strategy_config list \<Rightarrow> strategy_id list" where
  "config_ids cs \<equiv> map (\<lambda>c. cfg_id (cfg_base c)) cs"

lemma check_unique_ids_from_iff:
  "check_unique_ids_from seen cs = Inr () \<longleftrightarrow>
     distinct (config_ids cs) \<and> (\<forall>c \<in> set cs. strategy_value (cfg_id (cfg_base c)) \<notin> set seen)"
proof (induction cs arbitrary: seen)
  case Nil
  then show ?case by simp
next
  case (Cons c cs)
  have "cfg_id (cfg_base c) \<notin> set (config_ids cs) \<longleftrightarrow>
      (\<forall>c' \<in> set cs. cfg_id (cfg_base c') \<noteq> cfg_id (cfg_base c))"
    by (auto simp: image_iff)
  then show ?case by (auto simp: Let_def Cons.IH simp del: set_map)
qed

lemma check_unique_ids_iff: "check_unique_ids cs = Inr () \<longleftrightarrow> distinct (config_ids cs)"
  by (simp add: check_unique_ids_def check_unique_ids_from_iff)

text \<open>
  Loading succeeds exactly on a non-empty list of files that all validate, have pairwise distinct
  strategy ids and risk weights that sum to one up to a millionth, and then returns them all in order.
\<close>

theorem load_strategy_configs_iff:
  "load_strategy_configs vs = Inr cs \<longleftrightarrow>
     vs = map Inr cs \<and> cs \<noteq> [] \<and> distinct (config_ids cs) \<and>
     \<bar>sum_list (map (\<lambda>c. risk_weight (cfg_base c)) cs) - 1\<bar> \<le> 1 / 1000000"
  by (auto simp: load_strategy_configs_def bind_result_Inr_iff map_result_id check_unique_ids_iff
      check_risk_weights_sum_to_one_def Let_def split: if_splits)

end
