(* ===== verification/Chain.thy ===== *)
theory Chain
  imports Config
begin

text \<open>
  The instrument and quote cache (\<open>bot/data/chain_cache.py\<close>): the symbol parser, the expiry buckets,
  the two refresh operations and the strike pickers.  The monotonic clock, the REST answers and the
  parsing of numerals (\<open>float(str)\<close>, \<open>int(str)\<close>) are arguments.
\<close>

section \<open>Data\<close>

datatype option_type = Call | Put

fun option_value :: "option_type \<Rightarrow> string" where
  "option_value Call = ''call''"
| "option_value Put = ''put''"

record instrument_record =
  product_id :: int
  i_symbol :: string
  i_underlying :: underlying
  i_option_type :: option_type
  i_strike :: flt
  i_expiry :: datetime
  lot_size :: flt
  tick_size :: flt
  is_active :: bool

record quote_snapshot =
  q_symbol :: string
  bid :: "flt option"
  ask :: "flt option"
  mark_price :: "flt option"
  q_iv :: "flt option"
  q_delta :: "flt option"
  q_gamma :: "flt option"
  q_theta :: "flt option"
  q_vega :: "flt option"
  q_rho :: "flt option"
  underlying_mark :: "flt option"
  open_interest :: "flt option"
  volume_24h :: "flt option"
  updated_at :: flt

definition days_to_expiry :: "datetime \<Rightarrow> instrument_record \<Rightarrow> flt" where
  "days_to_expiry now i = total_seconds (i_expiry i - now) / 86400"

definition mid :: "quote_snapshot \<Rightarrow> flt option" where
  "mid q =
     (case (bid q, ask q) of
        (Some b, Some a) \<Rightarrow> if a > 0 then Some ((b + a) / 2) else mark_price q
      | _ \<Rightarrow> mark_price q)"

definition spread_pct :: "quote_snapshot \<Rightarrow> flt option" where
  "spread_pct q =
     (case (mid q, bid q, ask q) of
        (Some m, Some b, Some a) \<Rightarrow> if m \<le> 0 then None else Some ((a - b) / m)
      | _ \<Rightarrow> None)"

record strike_selection =
  instrument :: instrument_record
  quote :: quote_snapshot
  selection_reason :: string

section \<open>Symbols\<close>

definition is_leap :: "int \<Rightarrow> bool" where
  "is_leap y \<longleftrightarrow> y mod 4 = 0 \<and> (y mod 100 \<noteq> 0 \<or> y mod 400 = 0)"

definition days_in_month :: "int \<Rightarrow> int \<Rightarrow> int" where
  "days_in_month y m =
     (if m = 2 then (if is_leap y then 29 else 28) else if m \<in> {4, 6, 9, 11} then 30 else 31)"

definition days_before_year :: "int \<Rightarrow> int" where
  "days_before_year y = (let p = y - 1 in p * 365 + p div 4 - p div 100 + p div 400)"

definition days_before_month :: "int \<Rightarrow> int \<Rightarrow> int" where
  "days_before_month y m = sum_list (map (days_in_month y) [1 .. m - 1])"

text \<open>The day number of a calendar date; 719163 is the ordinal of 1970-01-01.\<close>

definition date_of_ymd :: "int \<Rightarrow> int \<Rightarrow> int \<Rightarrow> date" where
  "date_of_ymd y m d = days_before_year y + days_before_month y m + d - 719163"

text \<open>\<open>strptime(s, "%d%m%y")\<close> of six digits.\<close>

definition strptime_dmy :: "string \<Rightarrow> datetime result" where
  "strptime_dmy s =
     (let d = int (nat_of_digits (take 2 s)); m = int (nat_of_digits (take 2 (drop 2 s)));
          yy = int (nat_of_digits (drop 4 s)); y = (if yy \<le> 68 then 2000 + yy else 1900 + yy)
      in if 1 \<le> m \<and> m \<le> 12 \<and> 1 \<le> d \<and> d \<le> days_in_month y m
         then Inr (combine (date_of_ymd y m d) 0) else Inl ValueError)"

text \<open>\<open>\d+(?:\.\d+)?\<close> and the float it denotes.\<close>

definition strike_value :: "string \<Rightarrow> flt option" where
  "strike_value s =
     (case split_on (CHR ''.'') s of
        [ip] \<Rightarrow> if ip \<noteq> [] \<and> list_all is_digit ip then Some (of_nat (nat_of_digits ip)) else None
      | [ip, fp] \<Rightarrow>
          if ip \<noteq> [] \<and> fp \<noteq> [] \<and> list_all is_digit ip \<and> list_all is_digit fp
          then Some (of_nat (nat_of_digits ip) + of_nat (nat_of_digits fp) / 10 ^ length fp) else None
      | _ \<Rightarrow> None)"

text \<open>The anchor \<open>$\<close> also matches before one final newline.\<close>

definition strip_final_newline :: "string \<Rightarrow> string" where
  "strip_final_newline s = (if s \<noteq> [] \<and> last s = CHR 0x0A then butlast s else s)"

definition symbol_match :: "string \<Rightarrow> (string \<times> string \<times> flt \<times> string) option" where
  "symbol_match s =
     (case split_on (CHR ''-'') (strip_final_newline s) of
        [opt, und, strike, expiry] \<Rightarrow>
          if opt \<in> {''C'', ''P''} \<and> und \<in> {''BTC'', ''ETH''} \<and> length expiry = 6 \<and> list_all is_digit expiry
          then (case strike_value strike of None \<Rightarrow> None | Some k \<Rightarrow> Some (opt, und, k, expiry))
          else None
      | _ \<Rightarrow> None)"

definition parse_symbol :: "string \<Rightarrow> (option_type \<times> underlying \<times> flt \<times> datetime) option result" where
  "parse_symbol s =
     (case symbol_match s of
        None \<Rightarrow> Inr None
      | Some (opt, und, strike, expiry_raw) \<Rightarrow>
          (case Underlying und of
             Inl _ \<Rightarrow> Inr None
           | Inr u \<Rightarrow>
               bind_result (strptime_dmy expiry_raw)
                 (\<lambda>t. Inr (Some (if opt = ''C'' then Call else Put, u, strike,
                                t + 17 * hour_us + 30 * minute_us)))))"

section \<open>Expiry buckets\<close>

definition bucket_for_expiry :: "datetime \<Rightarrow> datetime \<Rightarrow> expiry_bucket option" where
  "bucket_for_expiry now expiry =
     (if expiry \<le> now then None
      else
        let days = date_of expiry - date_of now
        in if days = 0 then Some D1
           else if days = 1 then Some D2
           else
             let r = (4 - weekday (date_of now)) mod 7;
                 days_to_friday = (if r = 0 then 7 else r);
                 friday = (\<lambda>i. date_of now + days_to_friday + 7 * i)
             in if date_of expiry = friday 0 then Some W1
                else if date_of expiry = friday 1 then Some W2
                else if date_of expiry = friday 2 then Some W3
                else None)"

section \<open>The cache\<close>

record chain_cache =
  products_ttl :: flt
  instruments_by_symbol :: "(string, instrument_record) dict"
  quotes :: "(string, quote_snapshot) dict"
  products_last_refresh :: flt

definition mk_chain_cache :: "flt \<Rightarrow> chain_cache" where
  "mk_chain_cache ttl =
     \<lparr>products_ttl = ttl, instruments_by_symbol = [], quotes = [], products_last_refresh = 0\<rparr>"

definition chain_size :: "chain_cache \<Rightarrow> nat" where
  "chain_size c = length (instruments_by_symbol c)"

definition all_instruments :: "chain_cache \<Rightarrow> instrument_record list" where
  "all_instruments c = dict_values (instruments_by_symbol c)"

definition get_instrument :: "chain_cache \<Rightarrow> string \<Rightarrow> instrument_record option" where
  "get_instrument c s = dict_get (instruments_by_symbol c) s"

definition get_quote :: "chain_cache \<Rightarrow> string \<Rightarrow> quote_snapshot option" where
  "get_quote c s = dict_get (quotes c) s"

definition upsert_quote :: "quote_snapshot \<Rightarrow> chain_cache \<Rightarrow> chain_cache" where
  "upsert_quote snapshot c = c\<lparr>quotes := dict_set (q_symbol snapshot) snapshot (quotes c)\<rparr>"

text \<open>\<open>_product_to_record\<close>; the exceptions of its conversions are caught by the refresh loop.\<close>

definition product_to_record ::
  "(string \<Rightarrow> flt option) \<Rightarrow> (string \<Rightarrow> int option) \<Rightarrow> (string, pyval) dict \<Rightarrow> instrument_record option result" where
  "product_to_record pf pint p =
     (if \<not> hashable (vget p ''contract_type'') then Inl TypeError
      else if vget p ''contract_type'' \<notin> {VStr ''call_options'', VStr ''put_options''} then Inr None
      else case dict_get p ''symbol'' of
        Some (VStr symbol) \<Rightarrow>
          bind_result (parse_symbol symbol)
            (\<lambda>parsed. case parsed of
               None \<Rightarrow> Inr None
             | Some (opt_type, u, strike, expiry) \<Rightarrow>
                 (case dict_get p ''id'' of
                    None \<Rightarrow> Inl KeyError
                  | Some pid \<Rightarrow>
                      bind_result (int_of_val pint pid) (\<lambda>i.
                      bind_result (float_of pf (py_or (py_or (vget p ''contract_value'') (vget p ''lot_size'')) (VFlt 1))) (\<lambda>lot.
                      bind_result (float_of pf (py_or (vget p ''tick_size'') (VFlt (1 / 2)))) (\<lambda>tick.
                        if \<not> hashable (vget p ''state'') then Inl TypeError
                        else Inr (Some \<lparr>product_id = i, i_symbol = symbol, i_underlying = u, i_option_type = opt_type,
                                   i_strike = strike, i_expiry = expiry, lot_size = lot, tick_size = tick,
                                   is_active =
                                     (case dict_get p ''state'' of
                                        None \<Rightarrow> True
                                      | Some st \<Rightarrow> st \<in> {VStr ''live'', VStr ''operational''})\<rparr>))))))
      | Some _ \<Rightarrow> Inr None
      | None \<Rightarrow> Inl KeyError)"

text \<open>\<open>t.get(k) or {}\<close>, on which \<open>.get\<close> is called next.\<close>

definition sub_dict :: "(string, pyval) dict \<Rightarrow> string \<Rightarrow> (string, pyval) dict result" where
  "sub_dict t k = (case py_or (vget t k) (VDict []) of VDict d \<Rightarrow> Inr d | _ \<Rightarrow> Inl AttributeError)"

definition ticker_to_snapshot ::
  "(string \<Rightarrow> flt option) \<Rightarrow> flt \<Rightarrow> (string, pyval) dict \<Rightarrow> quote_snapshot option result" where
  "ticker_to_snapshot pf mono_now t =
     (case vget t ''symbol'' of
        VStr symbol \<Rightarrow>
          bind_result (sub_dict t ''greeks'') (\<lambda>greeks.
          bind_result (sub_dict t ''quotes'') (\<lambda>qs.
            Inr (Some
              \<lparr>q_symbol = symbol,
               bid = as_float pf (py_or (vget qs ''best_bid'') (vget t ''best_bid'')),
               ask = as_float pf (py_or (vget qs ''best_ask'') (vget t ''best_ask'')),
               mark_price = as_float pf (vget t ''mark_price''),
               q_iv = as_float pf (py_or (vget greeks ''iv'') (vget t ''iv'')),
               q_delta = as_float pf (vget greeks ''delta''),
               q_gamma = as_float pf (vget greeks ''gamma''),
               q_theta = as_float pf (vget greeks ''theta''),
               q_vega = as_float pf (vget greeks ''vega''),
               q_rho = as_float pf (vget greeks ''rho''),
               underlying_mark = as_float pf (py_or (vget t ''spot_price'') (vget t ''underlying_mark'')),
               open_interest = as_float pf
                 (py_or (py_or (vget t ''oi_contracts'') (vget t ''open_interest'')) (vget t ''oi'')),
               volume_24h = as_float pf (py_or (vget t ''volume'') (vget t ''volume_24h'')),
               updated_at = mono_now\<rparr>)))
      | _ \<Rightarrow> Inr None)"

definition collect_records ::
  "(string \<Rightarrow> flt option) \<Rightarrow> (string \<Rightarrow> int option) \<Rightarrow> (string, pyval) dict list \<Rightarrow> (string, instrument_record) dict" where
  "collect_records pf pint products =
     fold (\<lambda>p new. case product_to_record pf pint p of
             Inr (Some r) \<Rightarrow> dict_set (i_symbol r) r new
           | _ \<Rightarrow> new) products []"

definition refresh_instruments ::
  "(string \<Rightarrow> flt option) \<Rightarrow> (string \<Rightarrow> int option) \<Rightarrow> bool \<Rightarrow> flt \<Rightarrow> (string, pyval) dict list result \<Rightarrow>
   chain_cache \<Rightarrow> (nat \<times> chain_cache) result" where
  "refresh_instruments pf pint force now products c =
     (if \<not> force \<and> now - products_last_refresh c < products_ttl c then Inr (chain_size c, c)
      else bind_result products (\<lambda>ps.
             let new = collect_records pf pint ps
             in Inr (length new, c\<lparr>instruments_by_symbol := new, products_last_refresh := now\<rparr>)))"

text \<open>The loop of \<open>refresh_quotes\<close> writes as it goes: what it wrote before an exception stays.\<close>

fun refresh_quotes_loop ::
  "(string \<Rightarrow> flt option) \<Rightarrow> flt \<Rightarrow> (string, pyval) dict list \<Rightarrow> nat \<Rightarrow> chain_cache \<Rightarrow> nat result \<times> chain_cache" where
  "refresh_quotes_loop pf mono_now [] updated c = (Inr updated, c)"
| "refresh_quotes_loop pf mono_now (t # ts) updated c =
     (case ticker_to_snapshot pf mono_now t of
        Inl e \<Rightarrow> (Inl e, c)
      | Inr None \<Rightarrow> refresh_quotes_loop pf mono_now ts updated c
      | Inr (Some snap) \<Rightarrow> refresh_quotes_loop pf mono_now ts (updated + 1) (upsert_quote snap c))"

definition refresh_quotes ::
  "(string \<Rightarrow> flt option) \<Rightarrow> flt \<Rightarrow> (string, pyval) dict list result \<Rightarrow> chain_cache \<Rightarrow> nat result \<times> chain_cache" where
  "refresh_quotes pf mono_now tickers c =
     (case tickers of Inl e \<Rightarrow> (Inl e, c) | Inr ts \<Rightarrow> refresh_quotes_loop pf mono_now ts 0 c)"

definition instruments_for ::
  "chain_cache \<Rightarrow> underlying \<Rightarrow> option_type \<Rightarrow> expiry_bucket \<Rightarrow> datetime \<Rightarrow> instrument_record list" where
  "instruments_for c u opt bucket now =
     sort_key i_strike
       (filter (\<lambda>i. is_active i \<and> i_underlying i = u \<and> i_option_type i = opt \<and>
                    bucket_for_expiry now (i_expiry i) = Some bucket)
          (dict_values (instruments_by_symbol c)))"

definition get_atm_strike ::
  "chain_cache \<Rightarrow> underlying \<Rightarrow> option_type \<Rightarrow> expiry_bucket \<Rightarrow> flt \<Rightarrow> int \<Rightarrow> datetime \<Rightarrow> strike_selection option" where
  "get_atm_strike c u opt bucket spot_price offset now =
     (let instruments = instruments_for c u opt bucket now
      in case sort_key (\<lambda>x. \<bar>i_strike x - spot_price\<bar>) instruments of
           [] \<Rightarrow> None
         | atm # _ \<Rightarrow>
             let idx = int (length (takeWhile (\<lambda>i. i_symbol i \<noteq> i_symbol atm) instruments));
                 target_idx = idx + offset;
                 chosen =
                   (if offset = 0 then Some (atm, ''atm'')
                    else if \<not> (0 \<le> target_idx \<and> target_idx < int (length instruments)) then None
                    else Some (instruments ! nat target_idx,
                               ''atm'' @ (if offset > 0 then ''+'' else []) @ str_of_int offset))
             in case chosen of
                  None \<Rightarrow> None
                | Some (inst, reason) \<Rightarrow>
                    (case dict_get (quotes c) (i_symbol inst) of
                       None \<Rightarrow> None
                     | Some q \<Rightarrow> Some \<lparr>instrument = inst, quote = q, selection_reason = reason\<rparr>))"

definition delta_candidate ::
  "chain_cache \<Rightarrow> flt \<Rightarrow> flt option \<Rightarrow> flt option \<Rightarrow> instrument_record \<Rightarrow> (flt \<times> strike_selection) option" where
  "delta_candidate c target_delta delta_min delta_max inst =
     (case dict_get (quotes c) (i_symbol inst) of
        None \<Rightarrow> None
      | Some q \<Rightarrow>
          (case q_delta q of
             None \<Rightarrow> None
           | Some d \<Rightarrow>
               let abs_delta = \<bar>d\<bar>
               in if (case delta_min of Some m \<Rightarrow> abs_delta < m | None \<Rightarrow> False) then None
                  else if (case delta_max of Some m \<Rightarrow> abs_delta > m | None \<Rightarrow> False) then None
                  else Some (\<bar>abs_delta - target_delta\<bar>,
                             \<lparr>instrument = inst, quote = q,
                              selection_reason = ''closest_delta_'' @ fmt_fixed 3 target_delta\<rparr>)))"

definition get_strike_by_delta ::
  "chain_cache \<Rightarrow> underlying \<Rightarrow> option_type \<Rightarrow> expiry_bucket \<Rightarrow> flt \<Rightarrow> flt option \<Rightarrow> flt option \<Rightarrow> datetime \<Rightarrow>
   strike_selection option" where
  "get_strike_by_delta c u opt bucket target_delta delta_min delta_max now =
     (case sort_key fst
             (List.map_filter (delta_candidate c target_delta delta_min delta_max)
                (instruments_for c u opt bucket now)) of
        [] \<Rightarrow> None
      | (_, sel) # _ \<Rightarrow> Some sel)"

definition chain_spread_pct :: "chain_cache \<Rightarrow> string \<Rightarrow> flt option" where
  "chain_spread_pct c s = (case dict_get (quotes c) s of None \<Rightarrow> None | Some q \<Rightarrow> spread_pct q)"

definition synthesise_quotes :: "quote_snapshot list \<Rightarrow> (string, quote_snapshot) dict" where
  "synthesise_quotes items = fold (\<lambda>q d. dict_set (q_symbol q) q d) items []"

section \<open>Symbols: the printer and its round trip\<close>

definition fmt2 :: "nat \<Rightarrow> string" where
  "fmt2 n = [digit_char (n div 10 mod 10), digit_char (n mod 10)]"

definition format_symbol :: "option_type \<Rightarrow> underlying \<Rightarrow> nat \<Rightarrow> nat \<Rightarrow> nat \<Rightarrow> nat \<Rightarrow> string" where
  "format_symbol opt u strike d m yy =
     (case opt of Call \<Rightarrow> ''C'' | Put \<Rightarrow> ''P'') @ ''-'' @ underlying_value u @ ''-'' @ str_of_nat strike @
     ''-'' @ fmt2 d @ fmt2 m @ fmt2 yy"

lemma fmt2_props:
  assumes "n < 100"
  shows "nat_of_digits (fmt2 n) = n" "list_all is_digit (fmt2 n)" "length (fmt2 n) = 2"
    "CHR ''-'' \<notin> set (fmt2 n)" "last (fmt2 n) \<noteq> CHR 0x0A" "fmt2 n \<noteq> []"
proof -
  have d: "n div 10 mod 10 < 10" "n mod 10 < 10" by simp_all
  show "nat_of_digits (fmt2 n) = n"
    using assms d by (simp add: fmt2_def nat_of_digits_def digit_char_props)
  show dig: "list_all is_digit (fmt2 n)" using d by (simp add: fmt2_def digit_char_props)
  show "length (fmt2 n) = 2" "fmt2 n \<noteq> []" by (simp_all add: fmt2_def)
  show "CHR ''-'' \<notin> set (fmt2 n)"
    using dig is_digit_not_dash by (auto simp: list_all_iff)
  show "last (fmt2 n) \<noteq> CHR 0x0A"
    using digit_char_props(1) [OF d(2)] by (auto simp: fmt2_def is_digit_def)
qed

lemma strike_value_nat [simp]: "strike_value (str_of_nat k) = Some (of_nat k)"
proof -
  have "CHR ''.'' \<notin> set (str_of_nat k)"
    using str_of_nat_digits [of "CHR ''.''" k] by (auto simp: is_digit_def)
  moreover have "list_all is_digit (str_of_nat k)"
    using str_of_nat_digits by (auto simp: list_all_iff)
  ultimately show ?thesis by (simp add: strike_value_def split_on_plain)
qed

lemma symbol_match_format:
  assumes "d < 100" "m < 100" "yy < 100"
  shows "symbol_match (format_symbol opt u strike d m yy) =
     Some (case opt of Call \<Rightarrow> ''C'' | Put \<Rightarrow> ''P'', underlying_value u, of_nat strike,
           fmt2 d @ fmt2 m @ fmt2 yy)"
proof -
  let ?e = "fmt2 d @ fmt2 m @ fmt2 yy"
  note f = fmt2_props [OF assms(1)] fmt2_props [OF assms(2)] fmt2_props [OF assms(3)]
  have nd: "CHR ''-'' \<notin> set (str_of_nat strike)" "CHR ''-'' \<notin> set ?e"
    using str_of_nat_digits is_digit_not_dash f by auto
  have "strip_final_newline (format_symbol opt u strike d m yy) = format_symbol opt u strike d m yy"
    using f by (simp add: strip_final_newline_def format_symbol_def)
  moreover have "split_on (CHR ''-'') (format_symbol opt u strike d m yy) =
      [case opt of Call \<Rightarrow> ''C'' | Put \<Rightarrow> ''P'', underlying_value u, str_of_nat strike, ?e]"
    using split_on_append [OF nd(1), of ?e] split_on_plain [OF nd(2)]
    by (cases opt; cases u) (simp_all add: format_symbol_def)
  ultimately show ?thesis using f
    by (cases opt; cases u) (simp_all add: symbol_match_def)
qed

lemma strptime_dmy_fmt2:
  assumes "d < 100" "m < 100" "yy < 100"
    and "1 \<le> m" "m \<le> 12" "1 \<le> d" "int d \<le> days_in_month y (int m)"
    and "y = (if yy \<le> 68 then 2000 + int yy else 1900 + int yy)"
  shows "strptime_dmy (fmt2 d @ fmt2 m @ fmt2 yy) = Inr (combine (date_of_ymd y (int m) (int d)) 0)"
  using assms fmt2_props(1) [OF assms(1)] fmt2_props(1) [OF assms(2)] fmt2_props(1) [OF assms(3)]
    fmt2_props(3) [OF assms(1)] fmt2_props(3) [OF assms(2)]
  by (simp add: strptime_dmy_def Let_def)

section \<open>Buckets\<close>

lemma next_friday:
  fixes d :: date
  defines "r \<equiv> (4 - weekday d) mod 7"
  defines "k \<equiv> (if r = 0 then 7 else r)"
  shows "1 \<le> k" "k \<le> 7" "weekday (d + k) = 4"
proof -
  have "0 \<le> r" "r < 7" unfolding r_def by simp_all
  then show "1 \<le> k" "k \<le> 7" unfolding k_def by auto
  have "(d + 3 + (4 - (d + 3) mod 7) mod 7) mod 7 = (d + 3 + (4 - (d + 3))) mod 7"
    by (metis mod_add_right_eq mod_diff_right_eq)
  then have "weekday (d + r) = 4" by (simp add: weekday_def r_def algebra_simps)
  moreover have "weekday (d + 7) = weekday d"
    unfolding weekday_def by (metis add.assoc add.commute mod_add_self2)
  ultimately show "weekday (d + k) = 4" by (auto simp: k_def weekday_def)
qed

lemma friday_unique:
  assumes "weekday a = 4" "weekday b = 4" "\<bar>a - b\<bar> < 7"
  shows "a = b"
  using assms unfolding weekday_def by presburger

section \<open>The quote store\<close>

text \<open>
  What the readers of quotes rely on: a write under the snapshot's own symbol is what the next read of
  that symbol returns, and no other symbol is touched.
\<close>

definition newest :: "('s \<Rightarrow> 'k) \<Rightarrow> 's list \<Rightarrow> 'k \<Rightarrow> 's option" where
  "newest key ss k = List.find (\<lambda>s. key s = k) (rev ss)"

lemma newest_snoc: "newest key (ss @ [s]) k = (if key s = k then Some s else newest key ss k)"
  by (simp add: newest_def)

locale snapshot_store =
  fixes put :: "'s \<Rightarrow> 'c \<Rightarrow> 'c"
    and get :: "'c \<Rightarrow> 'k \<Rightarrow> 's option"
    and key :: "'s \<Rightarrow> 'k"
  assumes get_put: "get (put s c) k = (if k = key s then Some s else get c k)"
begin

lemma get_fold_put:
  "get (fold put ss c) k = (case newest key ss k of Some s \<Rightarrow> Some s | None \<Rightarrow> get c k)"
proof (induction ss rule: rev_induct)
  case Nil
  then show ?case by (simp add: newest_def)
next
  case (snoc s ss)
  then show ?case by (auto simp: get_put newest_snoc)
qed

lemma put_put_same: "key s = key t \<Longrightarrow> get (put s (put t c)) = get (put s c)"
  by (rule ext) (simp add: get_put)

lemma put_commute: "key s \<noteq> key t \<Longrightarrow> get (put s (put t c)) = get (put t (put s c))"
  by (rule ext) (simp add: get_put)

end

interpretation cq: snapshot_store upsert_quote get_quote q_symbol
  by unfold_locales (simp add: upsert_quote_def get_quote_def)

interpretation sq: snapshot_store "\<lambda>q d. dict_set (q_symbol q) q d" dict_get q_symbol
  by unfold_locales simp

text \<open>The loop of \<open>refresh_quotes\<close>, when no ticker raises, is the fold of the parsed snapshots.\<close>

definition parsed_snapshots ::
  "(string \<Rightarrow> flt option) \<Rightarrow> flt \<Rightarrow> (string, pyval) dict list \<Rightarrow> quote_snapshot list" where
  "parsed_snapshots pf mono_now ts =
     List.map_filter (\<lambda>t. case ticker_to_snapshot pf mono_now t of Inr r \<Rightarrow> r | Inl _ \<Rightarrow> None) ts"

lemma refresh_quotes_loop_fold:
  assumes "\<forall>t \<in> set ts. \<exists>r. ticker_to_snapshot pf mono_now t = Inr r"
  shows "refresh_quotes_loop pf mono_now ts n c =
    (Inr (n + length (parsed_snapshots pf mono_now ts)), fold upsert_quote (parsed_snapshots pf mono_now ts) c)"
  using assms
proof (induction ts arbitrary: n c)
  case Nil
  then show ?case by (simp add: parsed_snapshots_def map_filter_simps)
next
  case (Cons t ts)
  then obtain r where "ticker_to_snapshot pf mono_now t = Inr r" by auto
  with Cons show ?case by (cases r) (simp_all add: parsed_snapshots_def map_filter_simps)
qed

section \<open>The cache invariant\<close>

definition chain_wf :: "chain_cache \<Rightarrow> bool" where
  "chain_wf c \<longleftrightarrow>
     dict_wf (instruments_by_symbol c) \<and> (\<forall>p \<in> set (instruments_by_symbol c). i_symbol (snd p) = fst p) \<and>
     dict_wf (quotes c) \<and> (\<forall>p \<in> set (quotes c). q_symbol (snd p) = fst p)"

lemma chain_wf_upsert:
  assumes "chain_wf c"
  shows "chain_wf (upsert_quote q c)"
  using assms set_dict_set_subset [of "q_symbol q" q "quotes c"]
  by (auto simp: chain_wf_def upsert_quote_def)

lemma collect_records_wf:
  "dict_wf (collect_records pf pint ps) \<and> (\<forall>p \<in> set (collect_records pf pint ps). i_symbol (snd p) = fst p)"
proof -
  let ?f = "\<lambda>p new. case product_to_record pf pint p of Inr (Some r) \<Rightarrow> dict_set (i_symbol r) r new | _ \<Rightarrow> new"
  have "dict_wf (fold ?f ps d) \<and> (\<forall>p \<in> set (fold ?f ps d). i_symbol (snd p) = fst p)"
    if "dict_wf d" "\<forall>p \<in> set d. i_symbol (snd p) = fst p" for d
    using that
  proof (induction ps arbitrary: d)
    case Nil
    then show ?case by simp
  next
    case (Cons p ps)
    have set_step: "\<forall>q \<in> set (dict_set (i_symbol r) r d). i_symbol (snd q) = fst q" for r
      using Cons.prems set_dict_set_subset [of "i_symbol r" r d] by auto
    have "dict_wf (?f p d)" "\<forall>q \<in> set (?f p d). i_symbol (snd q) = fst q"
      using Cons.prems set_step by (simp_all split: sum.split option.split)
    with Cons.IH show ?case by simp
  qed
  from this [of "[]"] show ?thesis by (simp add: collect_records_def)
qed

lemma chain_wf_refresh_instruments:
  assumes "chain_wf c" and "refresh_instruments pf pint force now products c = Inr (n, c')"
  shows "chain_wf c'" and "n = chain_size c'"
  using assms collect_records_wf
  by (auto simp: refresh_instruments_def chain_wf_def chain_size_def Let_def split: if_splits)
    (use collect_records_wf in fastforce)+

lemma chain_wf_refresh_quotes_loop:
  "chain_wf c \<Longrightarrow> chain_wf (snd (refresh_quotes_loop pf mono_now ts n c))"
  by (induction ts arbitrary: n c) (auto simp: chain_wf_upsert split: sum.split option.split)

lemma chain_wf_refresh_quotes: "chain_wf c \<Longrightarrow> chain_wf (snd (refresh_quotes pf mono_now tickers c))"
  by (auto simp: refresh_quotes_def chain_wf_refresh_quotes_loop split: sum.split)

section \<open>The strike pickers\<close>

lemma instruments_for_iff:
  "i \<in> set (instruments_for c u opt bucket now) \<longleftrightarrow>
     i \<in> set (all_instruments c) \<and> is_active i \<and> i_underlying i = u \<and> i_option_type i = opt \<and>
     bucket_for_expiry now (i_expiry i) = Some bucket"
  by (auto simp: instruments_for_def all_instruments_def)

lemma instruments_for_sorted: "sorted (map i_strike (instruments_for c u opt bucket now))"
  by (simp add: instruments_for_def)

lemma get_atm_strike_zero:
  assumes "get_atm_strike c u opt bucket spot 0 now = Some sel"
  shows "instrument sel \<in> set (instruments_for c u opt bucket now)"
    and "\<forall>i \<in> set (instruments_for c u opt bucket now). \<bar>i_strike (instrument sel) - spot\<bar> \<le> \<bar>i_strike i - spot\<bar>"
    and "get_quote c (i_symbol (instrument sel)) = Some (quote sel)"
proof -
  obtain atm rest where s: "sort_key (\<lambda>x. \<bar>i_strike x - spot\<bar>) (instruments_for c u opt bucket now) = atm # rest"
    using assms by (auto simp: get_atm_strike_def Let_def split: list.splits)
  then have "instrument sel = atm \<and> get_quote c (i_symbol atm) = Some (quote sel)"
    using assms by (auto simp: get_atm_strike_def Let_def get_quote_def split: option.splits)
  with sort_key_Cons_min [OF s]
  show "instrument sel \<in> set (instruments_for c u opt bucket now)"
    "\<forall>i \<in> set (instruments_for c u opt bucket now). \<bar>i_strike (instrument sel) - spot\<bar> \<le> \<bar>i_strike i - spot\<bar>"
    "get_quote c (i_symbol (instrument sel)) = Some (quote sel)" by auto
qed

lemma get_atm_strike_member:
  assumes "get_atm_strike c u opt bucket spot offset now = Some sel"
  shows "instrument sel \<in> set (instruments_for c u opt bucket now)"
    and "get_quote c (i_symbol (instrument sel)) = Some (quote sel)"
proof -
  let ?is = "instruments_for c u opt bucket now"
  obtain atm rest where s: "sort_key (\<lambda>x. \<bar>i_strike x - spot\<bar>) ?is = atm # rest"
    using assms by (auto simp: get_atm_strike_def Let_def split: list.splits)
  have "instrument sel = atm \<or> (\<exists>i. 0 \<le> i \<and> i < int (length ?is) \<and> instrument sel = ?is ! nat i)"
  proof (cases "offset = 0")
    case True
    then show ?thesis using assms s by (auto simp: get_atm_strike_def Let_def split: option.splits)
  next
    case False
    let ?t = "int (length (takeWhile (\<lambda>i. i_symbol i \<noteq> i_symbol atm) ?is)) + offset"
    have "0 \<le> ?t \<and> ?t < int (length ?is) \<and> instrument sel = ?is ! nat ?t"
      using assms s False by (auto simp: get_atm_strike_def Let_def split: option.splits if_splits)
    then show ?thesis by blast
  qed
  with sort_key_Cons_min(1) [OF s] show "instrument sel \<in> set ?is" by auto
  show "get_quote c (i_symbol (instrument sel)) = Some (quote sel)"
    using assms s by (auto simp: get_atm_strike_def Let_def get_quote_def split: option.splits if_splits)
qed

definition delta_in_band :: "flt option \<Rightarrow> flt option \<Rightarrow> flt \<Rightarrow> bool" where
  "delta_in_band lo hi d \<longleftrightarrow>
     (case lo of Some m \<Rightarrow> m \<le> d | None \<Rightarrow> True) \<and> (case hi of Some m \<Rightarrow> d \<le> m | None \<Rightarrow> True)"

text \<open>An instrument competes when it is quoted with a delta inside the band.\<close>

definition delta_eligible :: "chain_cache \<Rightarrow> flt option \<Rightarrow> flt option \<Rightarrow> instrument_record \<Rightarrow> flt option" where
  "delta_eligible c lo hi i =
     (case get_quote c (i_symbol i) of
        None \<Rightarrow> None
      | Some q \<Rightarrow> (case q_delta q of None \<Rightarrow> None | Some d \<Rightarrow> if delta_in_band lo hi \<bar>d\<bar> then Some \<bar>d\<bar> else None))"

lemma delta_candidate_iff:
  "delta_candidate c target lo hi i = Some (x, sel) \<longleftrightarrow>
     (\<exists>q d. delta_eligible c lo hi i = Some d \<and> get_quote c (i_symbol i) = Some q \<and> x = \<bar>d - target\<bar> \<and>
            sel = \<lparr>instrument = i, quote = q, selection_reason = ''closest_delta_'' @ fmt_fixed 3 target\<rparr>)"
  by (auto simp: delta_candidate_def delta_eligible_def delta_in_band_def get_quote_def Let_def not_less
      split: option.splits if_splits)

lemma delta_candidate_None: "delta_candidate c target lo hi i = None \<longleftrightarrow> delta_eligible c lo hi i = None"
  by (auto simp: delta_candidate_def delta_eligible_def delta_in_band_def get_quote_def Let_def
      split: option.splits)

lemma get_strike_by_delta_Some:
  assumes "get_strike_by_delta c u opt bucket target lo hi now = Some sel"
  shows "instrument sel \<in> set (instruments_for c u opt bucket now)"
    and "get_quote c (i_symbol (instrument sel)) = Some (quote sel)"
    and "\<exists>d. delta_eligible c lo hi (instrument sel) = Some d \<and>
          (\<forall>i \<in> set (instruments_for c u opt bucket now). \<forall>e. delta_eligible c lo hi i = Some e \<longrightarrow>
              \<bar>d - target\<bar> \<le> \<bar>e - target\<bar>)"
proof -
  let ?is = "instruments_for c u opt bucket now"
  let ?cs = "List.map_filter (delta_candidate c target lo hi) ?is"
  obtain x rest where s: "sort_key fst ?cs = (x, sel) # rest"
    using assms by (auto simp: get_strike_by_delta_def split: list.splits)
  have set_cs: "set ?cs = {y. \<exists>i \<in> set ?is. delta_candidate c target lo hi i = Some y}"
    by (rule set_map_filter_eq)
  obtain i where i: "i \<in> set ?is" "delta_candidate c target lo hi i = Some (x, sel)"
    using sort_key_Cons_min(1) [OF s] set_cs by auto
  then obtain d where d: "delta_eligible c lo hi i = Some d" "x = \<bar>d - target\<bar>" "instrument sel = i"
    "get_quote c (i_symbol i) = Some (quote sel)"
    by (auto simp: delta_candidate_iff)
  show "instrument sel \<in> set ?is" "get_quote c (i_symbol (instrument sel)) = Some (quote sel)"
    using i d by simp_all
  have "\<bar>d - target\<bar> \<le> \<bar>e - target\<bar>" if j: "j \<in> set ?is" and e: "delta_eligible c lo hi j = Some e" for j e
  proof -
    obtain q where "get_quote c (i_symbol j) = Some q"
      using e by (auto simp: delta_eligible_def split: option.splits)
    then obtain t where "delta_candidate c target lo hi j = Some (\<bar>e - target\<bar>, t)"
      using e delta_candidate_iff by blast
    then have "(\<bar>e - target\<bar>, t) \<in> set ?cs" using j set_cs by auto
    with sort_key_Cons_min(2) [OF s] d(2) show ?thesis by auto
  qed
  with d show "\<exists>d. delta_eligible c lo hi (instrument sel) = Some d \<and>
      (\<forall>i \<in> set ?is. \<forall>e. delta_eligible c lo hi i = Some e \<longrightarrow> \<bar>d - target\<bar> \<le> \<bar>e - target\<bar>)" by auto
qed

lemma get_strike_by_delta_None:
  "get_strike_by_delta c u opt bucket target lo hi now = None \<longleftrightarrow>
     (\<forall>i \<in> set (instruments_for c u opt bucket now). delta_eligible c lo hi i = None)"
proof -
  let ?is = "instruments_for c u opt bucket now"
  let ?cs = "List.map_filter (delta_candidate c target lo hi) ?is"
  have "get_strike_by_delta c u opt bucket target lo hi now = None \<longleftrightarrow> ?cs = []"
    by (auto simp: get_strike_by_delta_def split: list.splits) (metis length_0_conv length_sort)
  also have "\<dots> \<longleftrightarrow> (\<forall>i \<in> set ?is. delta_candidate c target lo hi i = None)"
    by (rule map_filter_empty)
  also have "\<dots> \<longleftrightarrow> (\<forall>i \<in> set ?is. delta_eligible c lo hi i = None)"
    by (simp add: delta_candidate_None)
  finally show ?thesis .
qed

text \<open>
  C32: the symbol parser inverts the printer of the exchange's option symbols: for every option type,
  underlying, whole strike and calendar date, the parsed expiry is 17:30 of that date.
\<close>

theorem parse_symbol_format:
  assumes "d < 100" and "yy < 100" and "1 \<le> m" and "m \<le> 12" and "1 \<le> d"
    and "y = (if yy \<le> 68 then 2000 + int yy else 1900 + int yy)" and "int d \<le> days_in_month y (int m)"
  shows "parse_symbol (format_symbol opt u strike d m yy) =
     Inr (Some (opt, u, of_nat strike, combine (date_of_ymd y (int m) (int d)) (17 * hour_us + 30 * minute_us)))"
proof -
  have m: "m < 100" using assms(4) by simp
  have "strptime_dmy (fmt2 d @ fmt2 m @ fmt2 yy) = Inr (combine (date_of_ymd y (int m) (int d)) 0)"
    using strptime_dmy_fmt2 [OF assms(1) m assms(2-5) assms(7) assms(6)] .
  then show ?thesis
    using symbol_match_format [OF assms(1) m assms(2), of opt u strike]
    by (cases opt) (simp_all add: parse_symbol_def combine_def)
qed

theorem parse_symbol_format_witness:
  "parse_symbol (format_symbol Call BTC 100000 29 2 24) =
     Inr (Some (Call, BTC, of_nat 100000, combine (date_of_ymd 2024 (int 2) (int 29)) (17 * hour_us + 30 * minute_us)))"
  by (rule parse_symbol_format) (simp_all add: days_in_month_def is_leap_def)

text \<open>
  The expiry bucket of a live expiry is the day or the next day, or the first, second or third
  Friday after today, and an expiry that is none of these has no bucket.
\<close>

theorem bucket_for_expiry_fridays:
  "bucket_for_expiry now expiry =
     (let n = date_of expiry - date_of now
      in if expiry \<le> now then None
         else if n = 0 then Some D1
         else if n = 1 then Some D2
         else if weekday (date_of expiry) \<noteq> 4 then None
         else if n \<le> 7 then Some W1
         else if n \<le> 14 then Some W2
         else if n \<le> 21 then Some W3
         else None)"
proof (cases "expiry \<le> now")
  case True
  then show ?thesis by (simp add: bucket_for_expiry_def)
next
  case False
  define d where "d = date_of now"
  define n where "n = date_of expiry - d"
  define k where "k = (let r = (4 - weekday d) mod 7 in if r = 0 then 7 else r)"
  have k: "1 \<le> k" "k \<le> 7" "weekday (d + k) = 4" using next_friday [of d] by (simp_all add: k_def Let_def)
  have n0: "0 \<le> n" using False by (simp add: n_def d_def date_of_def day_us_def zdiv_mono1)
  have f: "weekday (d + k + 7 * i) = 4" for i using k(3) by (simp add: weekday_def) presburger
  have w: "n = k + 7 * i \<longleftrightarrow> weekday (date_of expiry) = 4 \<and> 7 * i < n \<and> n \<le> 7 * i + 7" for i
    using friday_unique [of "d + n" "d + k + 7 * i"] f [of i] k(1,2) by (auto simp: n_def algebra_simps)
  have "bucket_for_expiry now expiry =
     (if n = 0 then Some D1 else if n = 1 then Some D2
      else if n = k + 7 * 0 then Some W1 else if n = k + 7 * 1 then Some W2 else if n = k + 7 * 2 then Some W3 else None)"
    using False by (simp add: bucket_for_expiry_def Let_def n_def d_def k_def)
  note this [unfolded w]
  moreover have "date_of expiry - date_of now = n" by (simp add: n_def d_def)
  ultimately show ?thesis using False n0 by (simp add: Let_def)
qed

section \<open>A sample chain\<close>

definition sample_instrument :: "string \<Rightarrow> option_type \<Rightarrow> flt \<Rightarrow> instrument_record" where
  "sample_instrument s opt strike =
     \<lparr>product_id = 7, i_symbol = s, i_underlying = BTC, i_option_type = opt, i_strike = strike,
      i_expiry = 20 * hour_us, lot_size = 1 / 1000, tick_size = 1 / 10, is_active = True\<rparr>"

definition sample_quote :: "string \<Rightarrow> flt \<Rightarrow> flt \<Rightarrow> quote_snapshot" where
  "sample_quote s price delta =
     \<lparr>q_symbol = s, bid = Some (price - 1), ask = Some (price + 1), mark_price = None, q_iv = Some (1 / 2),
      q_delta = Some delta, q_gamma = Some (1 / 1000), q_theta = Some (- 5), q_vega = Some 10, q_rho = None,
      underlying_mark = None, open_interest = Some 100, volume_24h = None, updated_at = 0\<rparr>"

definition sample_chain :: chain_cache where
  "sample_chain =
     \<lparr>products_ttl = 300,
      instruments_by_symbol =
        [(''C1'', sample_instrument ''C1'' Call 100), (''C2'', sample_instrument ''C2'' Call 200),
         (''C3'', sample_instrument ''C3'' Call 300)],
      quotes = [(''C1'', sample_quote ''C1'' 90 (7 / 10)), (''C2'', sample_quote ''C2'' 50 (1 / 2)),
                (''C3'', sample_quote ''C3'' 20 (1 / 5))],
      products_last_refresh = 0\<rparr>"

lemma sample_bucket: "bucket_for_expiry 0 (20 * hour_us) = Some D1"
  by (simp add: bucket_for_expiry_def date_of_def time_defs)

lemma sample_instruments_for:
  "instruments_for sample_chain BTC Call D1 0 =
     [sample_instrument ''C1'' Call 100, sample_instrument ''C2'' Call 200, sample_instrument ''C3'' Call 300]"
  by (simp add: instruments_for_def sample_chain_def sample_instrument_def sample_bucket dict_values_def)

text \<open>
  After a refresh in which no ticker raises, a symbol's quote is the newest snapshot that the batch
  holds for it, and a symbol the batch does not mention keeps its old quote.
\<close>

theorem refresh_quotes_newest:
  assumes "\<forall>t \<in> set ts. \<exists>r. ticker_to_snapshot pf mono_now t = Inr r"
  shows "fst (refresh_quotes pf mono_now (Inr ts) c) = Inr (length (parsed_snapshots pf mono_now ts)) \<and>
     get_quote (snd (refresh_quotes pf mono_now (Inr ts) c)) s =
       (case newest q_symbol (parsed_snapshots pf mono_now ts) s of Some q \<Rightarrow> Some q | None \<Rightarrow> get_quote c s)"
  using refresh_quotes_loop_fold [OF assms, of 0 c] by (simp add: refresh_quotes_def cq.get_fold_put)

theorem refresh_quotes_newest_witness:
  "\<exists>q. get_quote (snd (refresh_quotes (\<lambda>_. None) 5
      (Inr [[(''symbol'', VStr ''X''), (''mark_price'', VFlt 3)], [(''symbol'', VStr ''X''), (''mark_price'', VFlt 4)]])
      (mk_chain_cache 300))) ''X'' = Some q \<and> mark_price q = Some 4"
  using refresh_quotes_newest
    [of "[[(''symbol'', VStr ''X''), (''mark_price'', VFlt 3)], [(''symbol'', VStr ''X''), (''mark_price'', VFlt 4)]]"
      "\<lambda>_. None" 5 "mk_chain_cache 300" "''X''"]
  by (simp add: ticker_to_snapshot_def vget_def dict_get_def sub_dict_def py_or_def parsed_snapshots_def
      newest_def List.map_filter_def as_float_def float_of_def)

text \<open>
  The at-the-money picker returns a listed, active instrument of the asked underlying, type and
  bucket whose strike is nearest to the spot, with its current quote.
\<close>

theorem get_atm_strike_nearest:
  assumes "get_atm_strike c u opt bucket spot 0 now = Some sel"
  shows "instrument sel \<in> set (all_instruments c) \<and> is_active (instrument sel) \<and>
     i_underlying (instrument sel) = u \<and> i_option_type (instrument sel) = opt \<and>
     bucket_for_expiry now (i_expiry (instrument sel)) = Some bucket \<and>
     get_quote c (i_symbol (instrument sel)) = Some (quote sel) \<and>
     (\<forall>i \<in> set (instruments_for c u opt bucket now).
        \<bar>i_strike (instrument sel) - spot\<bar> \<le> \<bar>i_strike i - spot\<bar>)"
  using get_atm_strike_zero [OF assms] by (simp add: instruments_for_iff)

theorem get_atm_strike_nearest_witness:
  "\<exists>sel. get_atm_strike sample_chain BTC Call D1 220 0 0 = Some sel \<and> i_strike (instrument sel) = 200 \<and>
     \<bar>i_strike (instrument sel) - 220\<bar> \<le> \<bar>300 - 220\<bar>"
proof -
  obtain sel where sel: "get_atm_strike sample_chain BTC Call D1 220 0 0 = Some sel" and k: "i_strike (instrument sel) = 200"
    by (simp add: get_atm_strike_def sample_instruments_for) (simp add: sample_chain_def sample_instrument_def dict_get_def)
  have "\<bar>i_strike (instrument sel) - 220\<bar> \<le> \<bar>i_strike (sample_instrument ''C3'' Call 300) - 220\<bar>"
    using get_atm_strike_nearest [OF sel] by (simp add: sample_instruments_for)
  with sel k show ?thesis by (auto simp: sample_instrument_def)
qed

text \<open>
  The delta picker returns nothing exactly when no candidate has a quoted delta inside the band, and
  otherwise a candidate inside the band whose absolute delta is nearest to the target.
\<close>

theorem get_strike_by_delta_complete:
  "case get_strike_by_delta c u opt bucket target lo hi now of
     None \<Rightarrow> (\<forall>i \<in> set (instruments_for c u opt bucket now). delta_eligible c lo hi i = None)
   | Some sel \<Rightarrow>
       instrument sel \<in> set (instruments_for c u opt bucket now) \<and>
       get_quote c (i_symbol (instrument sel)) = Some (quote sel) \<and>
       (\<exists>d. delta_eligible c lo hi (instrument sel) = Some d \<and>
          (\<forall>e \<in> set (List.map_filter (delta_eligible c lo hi) (instruments_for c u opt bucket now)).
             \<bar>d - target\<bar> \<le> \<bar>e - target\<bar>))"
proof (cases "get_strike_by_delta c u opt bucket target lo hi now")
  case None
  then have "\<forall>i \<in> set (instruments_for c u opt bucket now). delta_eligible c lo hi i = None"
    by (simp add: get_strike_by_delta_None)
  with None show ?thesis by (simp del: not_None_eq)
next
  case (Some sel)
  then show ?thesis using get_strike_by_delta_Some [OF Some] by (fastforce simp: set_map_filter_eq)
qed

theorem get_strike_by_delta_complete_witness:
  "\<exists>sel. get_strike_by_delta sample_chain BTC Call D1 (22 / 100) (Some (18 / 100)) (Some (28 / 100)) 0 = Some sel \<and>
     i_symbol (instrument sel) = ''C3'' \<and> get_quote sample_chain ''C3'' = Some (quote sel)"
proof -
  obtain sel where sel: "get_strike_by_delta sample_chain BTC Call D1 (22 / 100) (Some (18 / 100)) (Some (28 / 100)) 0 = Some sel"
    and k: "i_symbol (instrument sel) = ''C3''"
    by (simp add: get_strike_by_delta_def sample_instruments_for)
      (simp add: List.map_filter_simps delta_candidate_def sample_chain_def sample_instrument_def sample_quote_def dict_get_def)
  then show ?thesis
    using get_strike_by_delta_complete [of sample_chain BTC Call D1 0 "Some (18 / 100)" "Some (28 / 100)" "22 / 100"] by simp
qed

end
