(* ===== verification/Storage.thy ===== *)
theory Storage
  imports Chain
begin

text \<open>
  The rows of the database (\<open>bot/storage/models.py\<close>): the enumerations with their stored values and one
  record per table the modelled code reads or writes.  Enumerated columns are stored as text, so a row
  carries the text and the code compares it with the value of an enumeration member, as here.
\<close>

section \<open>Enumerations\<close>

datatype decision_kind = KIND_EVALUATE | KIND_MANAGE | KIND_RISK

fun kind_value :: "decision_kind \<Rightarrow> string" where
  "kind_value KIND_EVALUATE = ''evaluate''"
| "kind_value KIND_MANAGE = ''manage''"
| "kind_value KIND_RISK = ''risk''"

definition DecisionReason_values :: "string list" where
  "DecisionReason_values =
     [''passed'', ''filter_failed'', ''spread_too_wide'', ''premium_above_risk_budget'',
      ''zero_lots_after_floor'', ''credit_too_thin'', ''condor_max_loss_above_budget'',
      ''condor_delta_band_unfillable'', ''strangle_premium_above_risk_budget'', ''no_acceptable_strike'',
      ''outside_trading_window'', ''missing_spot'', ''strategy_max_concurrent'', ''global_max_concurrent'',
      ''daily_cap_tripped'', ''weekly_cap_tripped'', ''circuit_breaker'', ''cooldown_active'',
      ''anti_revenge_block'', ''dte_too_short'', ''strategy_disabled'', ''low_open_interest'',
      ''missing_greeks'', ''portfolio_delta_limit'', ''portfolio_vega_limit'', ''other'']"

datatype order_state = PENDING | OPEN | PARTIALLY_FILLED | FILLED | CANCELED | REJECTED

fun state_value :: "order_state \<Rightarrow> string" where
  "state_value PENDING = ''pending''"
| "state_value OPEN = ''open''"
| "state_value PARTIALLY_FILLED = ''partially_filled''"
| "state_value FILLED = ''filled''"
| "state_value CANCELED = ''canceled''"
| "state_value REJECTED = ''rejected''"

lemma state_value_inject [simp]: "state_value a = state_value b \<longleftrightarrow> a = b"
  by (cases a; cases b) simp_all

datatype trade_status = TRADE_OPEN | TRADE_CLOSED | TRADE_ERRORED

fun trade_status_value :: "trade_status \<Rightarrow> string" where
  "trade_status_value TRADE_OPEN = ''open''"
| "trade_status_value TRADE_CLOSED = ''closed''"
| "trade_status_value TRADE_ERRORED = ''errored''"

datatype leg_status = LEG_OPEN | LEG_CLOSED

fun leg_status_value :: "leg_status \<Rightarrow> string" where
  "leg_status_value LEG_OPEN = ''open''"
| "leg_status_value LEG_CLOSED = ''closed''"

section \<open>Tables\<close>

record decision_row =
  d_ts :: datetime
  d_strategy_id :: string
  d_kind :: string
  d_symbol :: "string option"
  d_underlying :: "string option"
  d_passed :: bool
  d_reason :: string
  d_features :: "(string, pyval) dict option"

record signal_row =
  s_id :: int
  s_ts :: datetime
  s_strategy_id :: string
  s_underlying :: string
  s_side :: "string option"
  intended_symbol :: string
  intended_expiry :: "datetime option"
  intended_strike :: "flt option"
  intended_lots :: int
  intended_premium_inr :: "flt option"
  s_features :: "(string, pyval) dict"

record leg_row =
  leg_id :: int
  leg_trade_id :: int
  leg_strategy_id :: string
  leg_idx :: int
  leg_symbol :: string
  leg_option_type :: "string option"
  leg_strike :: "flt option"
  leg_side :: string
  leg_lots :: int
  leg_entry_price :: "flt option"
  leg_exit_price :: "flt option"
  leg_pnl_inr :: "flt option"
  leg_status :: string

record trade_row =
  t_id :: int
  t_strategy_id :: string
  t_underlying :: string
  t_expiry :: "datetime option"
  t_entry_ts :: datetime
  t_exit_ts :: "datetime option"
  t_status :: string
  t_mode :: string
  t_lots :: int
  premium_paid_inr :: "flt option"
  credit_received_inr :: "flt option"
  realised_pnl_inr :: "flt option"
  delta_pnl_inr :: "flt option"
  theta_pnl_inr :: "flt option"
  t_fees_inr :: "flt option"
  slippage_bps :: "flt option"
  r_multiple :: "flt option"
  exit_reason :: "string option"
  entry_iv :: "flt option"
  exit_iv :: "flt option"
  t_peak_pnl_inr :: "flt option"
  trough_pnl_inr :: "flt option"
  t_signal_id :: "int option"
  t_notes :: "(string, pyval) dict option"

record order_row =
  o_id :: int
  o_ts :: datetime
  o_strategy_id :: string
  o_trade_id :: "int option"
  o_leg_idx :: "int option"
  o_client_order_id :: string
  o_exchange_order_id :: "int option"
  o_symbol :: string
  o_side :: string
  o_order_type :: string
  o_limit_price :: "flt option"
  o_stop_price :: "flt option"
  o_qty :: flt
  o_filled_qty :: flt
  o_filled_price :: "flt option"
  o_reduce_only :: bool
  o_state :: string
  o_raw_response :: "(string, pyval) dict option"

record daily_pnl_row =
  dp_trading_date :: date
  dp_strategy_id :: string
  n_trades :: int
  n_wins :: int
  n_losses :: int
  gross_pnl_inr :: flt
  net_pnl_inr :: flt
  dp_fees_inr :: flt
  dp_delta_pnl_inr :: flt
  dp_theta_pnl_inr :: flt
  avg_r :: "flt option"
  win_rate :: "flt option"
  avg_slippage_bps :: "flt option"

record nav_history_row =
  nh_trading_date :: date
  nh_nav_inr :: flt
  nh_peak_nav_inr :: flt
  nh_drawdown_from_peak_pct :: flt
  nh_circuit_breaker_tripped :: bool

record iv_snapshot_row =
  iv_ts :: datetime
  iv_underlying :: string
  iv_expiry_bucket :: string
  iv_expiry_date :: date
  atm_iv :: flt

end
