(* ===== verification/Tables.thy ===== *)
theory Tables
  imports Storage
begin

text \<open>
  The database sessions of \<open>bot/storage/db.py\<close> over the tables the engine writes.  A session works on a copy
  of the tables; a clean exit commits the copy, an exception leaves the tables as they were.  A commit fails
  with \<open>IntegrityError\<close> when two orders share a client order id, the unique constraint of the table.
  SQLite gives a new row of an integer primary key the largest id plus one.
\<close>

section \<open>Tables and sessions\<close>

record database =
  tb_signals :: "signal_row list"
  tb_trades :: "trade_row list"
  tb_legs :: "leg_row list"
  tb_orders :: "order_row list"

definition next_id :: "int list \<Rightarrow> int" where
  "next_id ids = (if ids = [] then 1 else Max (set ids) + 1)"

definition get_trade :: "int \<Rightarrow> database \<Rightarrow> trade_row option" where
  "get_trade tid db = List.find (\<lambda>t. t_id t = tid) (tb_trades db)"

definition put_trade :: "trade_row \<Rightarrow> database \<Rightarrow> database" where
  "put_trade t db = db\<lparr>tb_trades := map (\<lambda>s. if t_id s = t_id t then t else s) (tb_trades db)\<rparr>"

definition get_leg :: "int \<Rightarrow> database \<Rightarrow> leg_row option" where
  "get_leg lid db = List.find (\<lambda>l. leg_id l = lid) (tb_legs db)"

definition put_leg :: "leg_row \<Rightarrow> database \<Rightarrow> database" where
  "put_leg l db = db\<lparr>tb_legs := map (\<lambda>s. if leg_id s = leg_id l then l else s) (tb_legs db)\<rparr>"

text \<open>\<open>session.add\<close> of a row whose id the database assigns.\<close>

definition add_signal :: "signal_row \<Rightarrow> database \<Rightarrow> int \<times> database" where
  "add_signal s db =
     (let i = next_id (map s_id (tb_signals db)) in (i, db\<lparr>tb_signals := tb_signals db @ [s\<lparr>s_id := i\<rparr>]\<rparr>))"

definition add_trade :: "trade_row \<Rightarrow> database \<Rightarrow> int \<times> database" where
  "add_trade t db =
     (let i = next_id (map t_id (tb_trades db)) in (i, db\<lparr>tb_trades := tb_trades db @ [t\<lparr>t_id := i\<rparr>]\<rparr>))"

definition add_leg :: "leg_row \<Rightarrow> database \<Rightarrow> database" where
  "add_leg l db =
     (let i = next_id (map leg_id (tb_legs db)) in db\<lparr>tb_legs := tb_legs db @ [l\<lparr>leg_id := i\<rparr>]\<rparr>)"

definition add_order :: "order_row \<Rightarrow> database \<Rightarrow> database" where
  "add_order r db =
     (let i = next_id (map o_id (tb_orders db)) in db\<lparr>tb_orders := tb_orders db @ [r\<lparr>o_id := i\<rparr>]\<rparr>)"

definition commit :: "database \<Rightarrow> database result" where
  "commit db = (if distinct (map o_client_order_id (tb_orders db)) then Inr db else Inl IntegrityError)"

section \<open>Queries\<close>

definition is_open_trade :: "trade_row \<Rightarrow> bool" where
  "is_open_trade t \<longleftrightarrow> t_status t = trade_status_value TRADE_OPEN"

definition legs_of :: "database \<Rightarrow> int \<Rightarrow> leg_row list" where
  "legs_of db tid = filter (\<lambda>l. leg_trade_id l = tid) (tb_legs db)"

definition open_trades :: "database \<Rightarrow> trade_row list" where
  "open_trades db = filter is_open_trade (tb_trades db)"

text \<open>The ids of the trades and of the legs are unique.\<close>

definition db_wf :: "database \<Rightarrow> bool" where
  "db_wf db \<longleftrightarrow> distinct (map t_id (tb_trades db)) \<and> distinct (map leg_id (tb_legs db))"

section \<open>Properties\<close>

lemma next_id_fresh [simp]: "next_id ids \<notin> set ids"
proof -
  have "\<forall>i \<in> set ids. i < next_id ids" by (simp add: next_id_def less_add_one le_imp_less_Suc zle_add1_eq_le)
  then show ?thesis by blast
qed

lemma next_id_eq: "next_id (map f xs) = f x \<Longrightarrow> x \<notin> set xs"
  using next_id_fresh [of "map f xs"] by auto

lemma get_trade_SomeD: "get_trade tid db = Some t \<Longrightarrow> t \<in> set (tb_trades db) \<and> t_id t = tid"
  by (auto simp: get_trade_def find_Some_iff)

lemma get_trade_iff:
  assumes "db_wf db"
  shows "get_trade tid db = Some t \<longleftrightarrow> t \<in> set (tb_trades db) \<and> t_id t = tid"
proof
  assume t: "t \<in> set (tb_trades db) \<and> t_id t = tid"
  then obtain s where s: "get_trade tid db = Some s"
    by (cases "get_trade tid db") (auto simp: get_trade_def find_None_iff)
  with get_trade_SomeD [OF s] t assms show "get_trade tid db = Some t"
    by (auto simp: db_wf_def distinct_map dest: inj_onD)
qed (rule get_trade_SomeD)

lemma put_trade_frame [simp]:
  "tb_legs (put_trade t db) = tb_legs db" "tb_signals (put_trade t db) = tb_signals db"
  "tb_orders (put_trade t db) = tb_orders db"
  by (simp_all add: put_trade_def)

lemma put_trade_ids [simp]: "map t_id (tb_trades (put_trade t db)) = map t_id (tb_trades db)"
  by (simp add: put_trade_def)

lemma add_rows_frame [simp]:
  "tb_trades (add_leg l db) = tb_trades db" "tb_orders (add_leg l db) = tb_orders db"
  "tb_trades (add_order r db) = tb_trades db" "tb_legs (add_order r db) = tb_legs db"
  "tb_trades (put_leg l db) = tb_trades db" "tb_orders (put_leg l db) = tb_orders db"
  "tb_trades (snd (add_signal s db)) = tb_trades db" "tb_legs (snd (add_signal s db)) = tb_legs db"
  "tb_orders (snd (add_signal s db)) = tb_orders db"
  "tb_legs (snd (add_trade t db)) = tb_legs db" "tb_orders (snd (add_trade t db)) = tb_orders db"
  by (simp_all add: add_leg_def add_order_def put_leg_def add_signal_def add_trade_def Let_def)

lemma add_trade_rows:
  "tb_trades (snd (add_trade t db)) = tb_trades db @ [t\<lparr>t_id := fst (add_trade t db)\<rparr>]"
  "fst (add_trade t db) \<notin> t_id ` set (tb_trades db)"
  using next_id_fresh [of "map t_id (tb_trades db)"] by (simp_all add: add_trade_def Let_def)

lemma leg_ids_put [simp]: "map leg_id (tb_legs (put_leg l db)) = map leg_id (tb_legs db)"
  by (simp add: put_leg_def)

lemma db_wf_ops [simp, intro]:
  "db_wf db \<Longrightarrow> db_wf (put_trade t db)" "db_wf db \<Longrightarrow> db_wf (put_leg l db)"
  "db_wf db \<Longrightarrow> db_wf (add_order r db)" "db_wf db \<Longrightarrow> db_wf (snd (add_signal s db))"
  "db_wf db \<Longrightarrow> db_wf (snd (add_trade t db))" "db_wf db \<Longrightarrow> db_wf (add_leg l db)"
proof -
  assume wf: "db_wf db"
  show "db_wf (snd (add_trade t db))" using wf add_trade_rows [of t db] by (simp add: db_wf_def)
  show "db_wf (add_leg l db)" using wf next_id_fresh [of "map leg_id (tb_legs db)"]
    by (simp add: db_wf_def add_leg_def Let_def)
qed (simp_all add: db_wf_def)

lemma commit_InrD: "commit db = Inr db' \<Longrightarrow> db' = db"
  by (simp add: commit_def split: if_splits)

text \<open>How a write changes the number of open trades that satisfy a condition.\<close>

definition count_open :: "(trade_row \<Rightarrow> bool) \<Rightarrow> database \<Rightarrow> nat" where
  "count_open P db = length (filter P (open_trades db))"

lemma count_open_frame: "tb_trades db' = tb_trades db \<Longrightarrow> count_open P db' = count_open P db"
  by (simp add: count_open_def open_trades_def)

lemma count_open_add:
  "count_open P (snd (add_trade t db)) =
     count_open P db + (if is_open_trade t \<and> P (t\<lparr>t_id := fst (add_trade t db)\<rparr>) then 1 else 0)"
  by (simp add: count_open_def open_trades_def add_trade_rows is_open_trade_def)

text \<open>Writing a trade back does not raise a count, unless it opens the trade or makes it satisfy the condition.\<close>

lemma count_open_put:
  assumes "\<And>s. s \<in> set (tb_trades db) \<Longrightarrow> t_id s = t_id t \<Longrightarrow> is_open_trade t \<and> P t \<Longrightarrow> is_open_trade s \<and> P s"
  shows "count_open P (put_trade t db) \<le> count_open P db"
proof -
  have "length (filter P (filter is_open_trade (map (\<lambda>s. if t_id s = t_id t then t else s) xs)))
      \<le> length (filter P (filter is_open_trade xs))"
    if "\<forall>s \<in> set xs. t_id s = t_id t \<longrightarrow> is_open_trade t \<and> P t \<longrightarrow> is_open_trade s \<and> P s" for xs
    using that by (induction xs) auto
  from this [of "tb_trades db"] assms show ?thesis by (simp add: count_open_def open_trades_def put_trade_def)
qed

text \<open>A sum over the trades after one of them was replaced.\<close>

lemma sum_list_replace:
  fixes f :: "'a \<Rightarrow> 'b :: ab_group_add"
  assumes "distinct (map key xs)" and "x \<in> set xs" and "key y = key x"
  shows "sum_list (map f (map (\<lambda>s. if key s = key y then y else s) xs)) = sum_list (map f xs) - f x + f y"
proof -
  have same: "map (\<lambda>s. if key s = key y then y else s) zs = zs" if "key y \<notin> key ` set zs" for zs
    using that by (induction zs) auto
  from assms(1,2) show ?thesis
  proof (induction xs)
    case (Cons z zs)
    show ?case
    proof (cases "z = x")
      case True
      with Cons.prems assms(3) have "key y \<notin> key ` set zs" by simp
      with same [OF this] True assms(3) show ?thesis by simp
    next
      case False
      with Cons assms(3) show ?thesis by (auto simp: image_iff)
    qed
  qed simp
qed

end
