(* ===== verification/Candles.thy ===== *)
theory Candles
  imports Prelude
begin

text \<open>
  The candle aggregator and the indicators (\<open>bot/data/candles.py\<close>).  A bounded deque is a list from
  which the oldest element falls out; the optional \<open>on_close\<close> callback is the list of candles it has
  been fired with.  NaN entries of the indicator arrays are \<open>None\<close>.  \<open>ts.timestamp()\<close> of a naive
  datetime reads it in the zone of the host: \<open>tz\<close> is the host's offset from UTC in microseconds
  (the compose files set \<open>TZ=Asia/Kolkata\<close>).
\<close>

section \<open>The aggregator\<close>

definition TIMEFRAME_SECONDS :: "(string, int) dict" where
  "TIMEFRAME_SECONDS =
     [(''1m'', 60), (''5m'', 300), (''15m'', 900), (''1h'', 3600), (''4h'', 14400), (''1d'', 86400)]"

record candle =
  c_ts :: datetime
  c_open :: flt
  c_high :: flt
  c_low :: flt
  c_close :: flt
  c_volume :: flt
  c_n_ticks :: int

definition candle_range :: "candle \<Rightarrow> flt" where
  "candle_range c = c_high c - c_low c"

definition hl2 :: "candle \<Rightarrow> flt" where
  "hl2 c = (c_high c + c_low c) / 2"

record candle_aggregator =
  history :: nat
  closed :: "candle list"
  current :: "candle option"
  period_s :: int
  current_bucket :: int
  fired :: "candle list"

definition mk_aggregator :: "string \<Rightarrow> nat \<Rightarrow> candle_aggregator result" where
  "mk_aggregator tf hist =
     (case dict_get TIMEFRAME_SECONDS tf of
        None \<Rightarrow> Inl ValueError
      | Some p \<Rightarrow> Inr \<lparr>history = hist, closed = [], current = None, period_s = p, current_bucket = -1, fired = []\<rparr>)"

definition deque_append :: "nat \<Rightarrow> 'a list \<Rightarrow> 'a \<Rightarrow> 'a list" where
  "deque_append maxlen xs x = (let ys = xs @ [x] in drop (length ys - maxlen) ys)"

definition open_new :: "int \<Rightarrow> datetime \<Rightarrow> flt \<Rightarrow> flt \<Rightarrow> candle_aggregator \<Rightarrow> candle_aggregator" where
  "open_new bucket ts price volume a =
     (let floor_ts = bucket * period_s a * us_per_s
      in a\<lparr>current := Some \<lparr>c_ts = floor_ts, c_open = price, c_high = price, c_low = price,
                            c_close = price, c_volume = volume, c_n_ticks = 1\<rparr>,
           current_bucket := bucket\<rparr>)"

definition close_current :: "candle_aggregator \<Rightarrow> candle_aggregator" where
  "close_current a =
     (case current a of
        None \<Rightarrow> a
      | Some c \<Rightarrow> a\<lparr>closed := deque_append (history a) (closed a) c, fired := fired a @ [c], current := None\<rparr>)"

text \<open>
  The filler loop of \<open>add_tick\<close>: one flat candle per empty bucket at the last close.
  \<open>self.closed[-1]\<close> raises on an empty deque, which a history bound of zero makes possible.
\<close>

fun fill_missing :: "int list \<Rightarrow> candle_aggregator \<Rightarrow> candle_aggregator result" where
  "fill_missing [] a = Inr a"
| "fill_missing (b # bs) a =
     (if closed a = [] then Inl IndexError
      else fill_missing bs
             (close_current (open_new b (b * period_s a * us_per_s) (c_close (last (closed a))) 0 a)))"

definition epoch_seconds :: "int \<Rightarrow> datetime \<Rightarrow> int" where
  "epoch_seconds tz ts = (let t = ts - tz in if 0 \<le> t then t div us_per_s else - ((- t) div us_per_s))"

definition tick_bucket :: "int \<Rightarrow> datetime \<Rightarrow> candle_aggregator \<Rightarrow> int" where
  "tick_bucket tz ts a = epoch_seconds tz ts div period_s a"

definition add_tick :: "int \<Rightarrow> datetime \<Rightarrow> flt \<Rightarrow> flt \<Rightarrow> candle_aggregator \<Rightarrow> candle_aggregator result" where
  "add_tick tz ts price volume a =
     (let bucket = tick_bucket tz ts a
      in case current a of
           None \<Rightarrow> Inr (open_new bucket ts price volume a)
         | Some c \<Rightarrow>
             if bucket = current_bucket a then
               Inr (a\<lparr>current := Some (c\<lparr>c_high := max (c_high c) price, c_low := min (c_low c) price,
                                        c_close := price, c_volume := c_volume c + volume,
                                        c_n_ticks := c_n_ticks c + 1\<rparr>)\<rparr>)
             else
               bind_result (fill_missing [current_bucket a + 1 .. bucket - 1] (close_current a))
                 (\<lambda>a'. Inr (open_new bucket ts price volume a')))"

definition force_close :: "candle_aggregator \<Rightarrow> candle option \<times> candle_aggregator" where
  "force_close a = (case current a of None \<Rightarrow> (None, a) | Some c \<Rightarrow> (Some c, close_current a))"

definition pop_closed :: "candle_aggregator \<Rightarrow> candle list \<times> candle_aggregator" where
  "pop_closed a = (closed a, a\<lparr>closed := []\<rparr>)"

definition closes :: "candle_aggregator \<Rightarrow> flt list" where
  "closes a = map c_close (closed a)"

definition highs :: "candle_aggregator \<Rightarrow> flt list" where
  "highs a = map c_high (closed a)"

definition lows :: "candle_aggregator \<Rightarrow> flt list" where
  "lows a = map c_low (closed a)"

section \<open>Indicators\<close>

fun ema_from :: "flt \<Rightarrow> flt \<Rightarrow> flt list \<Rightarrow> flt list" where
  "ema_from alpha prev [] = []"
| "ema_from alpha prev (v # vs) =
     (let e = alpha * v + (1 - alpha) * prev in e # ema_from alpha e vs)"

definition ema :: "flt list \<Rightarrow> int \<Rightarrow> flt list result" where
  "ema values period =
     (if period \<le> 0 then Inl ValueError
      else case values of
             [] \<Rightarrow> Inr []
           | v # vs \<Rightarrow> Inr (v # ema_from (2 / (of_int period + 1)) v vs))"

definition true_range :: "flt \<Rightarrow> flt \<Rightarrow> flt \<Rightarrow> flt" where
  "true_range h l prev_close = max (max (h - l) \<bar>h - prev_close\<bar>) \<bar>l - prev_close\<bar>"

fun true_ranges_from :: "flt \<Rightarrow> (flt \<times> flt \<times> flt) list \<Rightarrow> flt list" where
  "true_ranges_from pc [] = []"
| "true_ranges_from pc ((h, l, c) # rest) = true_range h l pc # true_ranges_from c rest"

fun true_ranges :: "(flt \<times> flt \<times> flt) list \<Rightarrow> flt list" where
  "true_ranges [] = []"
| "true_ranges ((h, l, c) # rest) = (h - l) # true_ranges_from c rest"

fun rma_from :: "flt \<Rightarrow> flt \<Rightarrow> flt list \<Rightarrow> flt list" where
  "rma_from p prev [] = []"
| "rma_from p prev (t # ts) = (let a = (prev * (p - 1) + t) / p in a # rma_from p a ts)"

definition mean :: "flt list \<Rightarrow> flt" where
  "mean xs = sum_list xs / of_nat (length xs)"

text \<open>
  \<open>atr\<close>: the three arrays have equal length at every call (they are read off the same candles), so
  they are zipped.
\<close>

definition atr :: "flt list \<Rightarrow> flt list \<Rightarrow> flt list \<Rightarrow> int \<Rightarrow> flt option list result" where
  "atr hs ls cs period =
     (if period \<le> 0 then Inl ValueError
      else
        let n = length cs; p = nat period; tr = true_ranges (zip hs (zip ls cs))
        in if n = 0 then Inr []
           else if n < p then Inr (replicate n None)
           else
             let first = mean (take p tr)
             in Inr (replicate (p - 1) None @ map Some (first # rma_from (of_int period) first (drop p tr))))"

definition std0 :: "flt list \<Rightarrow> flt" where
  "std0 xs = sqrt (mean (map (\<lambda>x. (x - mean xs)\<^sup>2) xs))"

text \<open>\<open>math.isclose(mid, 0.0)\<close> with its default relative tolerance holds of zero only.\<close>

definition bb_at :: "nat \<Rightarrow> flt \<Rightarrow> flt list \<Rightarrow> nat \<Rightarrow> flt option" where
  "bb_at p std values i =
     (let window = take p (drop (i + 1 - p) values); mid = mean window; sigma = std0 window
      in if mid = 0 then None else Some (2 * std * sigma / mid))"

definition bollinger_width :: "flt list \<Rightarrow> int \<Rightarrow> flt \<Rightarrow> flt option list result" where
  "bollinger_width values period std =
     (if period \<le> 0 then Inl ValueError
      else
        let n = length values; p = nat period
        in if n < p then Inr (replicate n None)
           else Inr (replicate (p - 1) None @ map (bb_at p std values) [p - 1 ..< n]))"

definition percentile_rank :: "flt \<Rightarrow> flt list \<Rightarrow> flt option" where
  "percentile_rank value hist =
     (if hist = [] then None
      else
        let less = length (filter (\<lambda>h. h < value) hist);
            eq = length (filter (\<lambda>h. h = value) hist)
        in Some ((of_nat less + 5 / 10 * of_nat eq) / of_nat (length hist)))"

section \<open>Properties of the aggregator\<close>

definition candle_ok :: "candle \<Rightarrow> bool" where
  "candle_ok c \<longleftrightarrow>
     c_low c \<le> c_open c \<and> c_open c \<le> c_high c \<and> c_low c \<le> c_close c \<and> c_close c \<le> c_high c \<and>
     1 \<le> c_n_ticks c"

definition agg_inv :: "candle_aggregator \<Rightarrow> bool" where
  "agg_inv a \<longleftrightarrow>
     0 < period_s a \<and> length (closed a) \<le> history a \<and>
     (\<forall>c \<in> set (closed a). candle_ok c \<and> c_ts c < (current_bucket a + 1) * period_s a * us_per_s) \<and>
     (\<forall>c. current a = Some c \<longrightarrow> candle_ok c \<and> c_ts c = current_bucket a * period_s a * us_per_s)"

lemma TIMEFRAME_pos: "dict_get TIMEFRAME_SECONDS tf = Some p \<Longrightarrow> 0 < p"
  by (auto simp: TIMEFRAME_SECONDS_def dict_get_def split: if_splits)

lemma deque_append_length: "length (deque_append m xs x) = min (Suc (length xs)) m"
  by (simp add: deque_append_def Let_def)

lemma deque_append_set: "set (deque_append m xs x) \<subseteq> insert x (set xs)"
proof -
  have "set (drop k (xs @ [x])) \<subseteq> insert x (set xs)" for k
    using set_drop_subset [of k "xs @ [x]"] by simp
  then show ?thesis by (simp add: deque_append_def Let_def del: drop_append)
qed

lemma deque_append_last: "0 < m \<Longrightarrow> deque_append m xs x \<noteq> [] \<and> last (deque_append m xs x) = x"
  by (simp add: deque_append_def Let_def last_drop)

lemma deque_append_ne [simp]: "0 < m \<Longrightarrow> deque_append m xs x \<noteq> []"
  by (simp add: deque_append_def Let_def)

lemma period_s_open_new [simp]:
  "period_s (open_new b t p v a) = period_s a" "history (open_new b t p v a) = history a"
  "closed (open_new b t p v a) = closed a" "current_bucket (open_new b t p v a) = b"
  by (simp_all add: open_new_def Let_def)

lemma close_current_simps [simp]:
  "period_s (close_current a) = period_s a" "history (close_current a) = history a"
  "current_bucket (close_current a) = current_bucket a" "current (close_current a) = None"
  by (simp_all add: close_current_def split: option.splits)

lemma candle_ok_new: "candle_ok (the (current (open_new b t p v a)))"
  by (simp add: open_new_def Let_def candle_ok_def)

lemma agg_inv_close: "agg_inv a \<Longrightarrow> agg_inv (close_current a)"
proof (cases "current a")
  case None
  then show "agg_inv a \<Longrightarrow> agg_inv (close_current a)"
    by (simp add: agg_inv_def close_current_def)
next
  case (Some c)
  assume inv: "agg_inv a"
  then have "c_ts c < (current_bucket a + 1) * period_s a * us_per_s"
    using Some by (simp add: agg_inv_def us_per_s_def)
  with Some inv deque_append_set [of "history a" "closed a" c] show "agg_inv (close_current a)"
    by (auto simp: agg_inv_def close_current_def deque_append_length)
qed

lemma agg_inv_open:
  assumes inv: "agg_inv a" and b: "current_bucket a \<le> b"
  shows "agg_inv (open_new b t p v a)"
proof -
  have per: "0 < period_s a" using inv by (simp add: agg_inv_def)
  have "(current_bucket a + 1) * (period_s a * us_per_s) \<le> (b + 1) * (period_s a * us_per_s)"
    using b per by (intro mult_right_mono) (auto simp: us_per_s_def)
  then have le: "(current_bucket a + 1) * period_s a * us_per_s \<le> (b + 1) * period_s a * us_per_s"
    by (simp only: mult.assoc)
  have "c_ts c < (b + 1) * period_s a * us_per_s" if "c \<in> set (closed a)" for c
  proof -
    have "c_ts c < (current_bucket a + 1) * period_s a * us_per_s"
      using inv that by (simp add: agg_inv_def)
    with le show ?thesis by linarith
  qed
  with inv show ?thesis
    by (simp add: agg_inv_def open_new_def Let_def candle_ok_def)
qed

lemma fill_missing_inv:
  assumes "fill_missing bs a = Inr a'" and "agg_inv a" and "current a = None"
    and "sorted bs" and "\<forall>b \<in> set bs. current_bucket a \<le> b"
  shows "agg_inv a' \<and> current a' = None \<and> current_bucket a' = (if bs = [] then current_bucket a else last bs) \<and>
         period_s a' = period_s a \<and> history a' = history a"
  using assms
proof (induction bs arbitrary: a)
  case Nil
  then show ?case by simp
next
  case (Cons b bs)
  let ?a = "close_current (open_new b (b * period_s a * us_per_s) (c_close (last (closed a))) 0 a)"
  have "agg_inv ?a" using Cons.prems by (intro agg_inv_close agg_inv_open) auto
  moreover have "fill_missing bs ?a = Inr a'" using Cons.prems by (simp split: if_splits)
  ultimately show ?case using Cons.IH [of ?a] Cons.prems by simp
qed

text \<open>Ticks that do not go back in time keep the invariant; a tick in an older bucket is refused here.\<close>

lemma add_tick_inv:
  assumes ok: "add_tick tz ts price volume a = Inr a'" and inv: "agg_inv a"
    and fwd: "current_bucket a \<le> tick_bucket tz ts a"
  shows "agg_inv a'"
proof (cases "current a")
  case None
  with ok inv fwd show ?thesis by (auto simp: add_tick_def Let_def intro: agg_inv_open)
next
  case (Some c)
  let ?b = "tick_bucket tz ts a"
  show ?thesis
  proof (cases "?b = current_bucket a")
    case True
    with ok Some inv show ?thesis
      by (auto simp: add_tick_def Let_def agg_inv_def candle_ok_def)
  next
    case False
    with ok Some obtain a1 where a1: "fill_missing [current_bucket a + 1 .. ?b - 1] (close_current a) = Inr a1"
      and a': "a' = open_new ?b ts price volume a1"
      by (auto simp: add_tick_def Let_def)
    let ?bs = "[current_bucket a + 1 .. ?b - 1]"
    have "agg_inv a1 \<and> current_bucket a1 = (if ?bs = [] then current_bucket a else last ?bs)"
      using fill_missing_inv [OF a1] agg_inv_close [OF inv] by simp
    moreover have "?bs \<noteq> [] \<Longrightarrow> last ?bs \<le> ?b"
      using last_in_set [of ?bs] by (simp del: upto_empty)
    ultimately have "agg_inv a1 \<and> current_bucket a1 \<le> ?b"
      using fwd by (simp split: if_splits del: upto_empty)
    with a' show ?thesis by (simp add: agg_inv_open)
  qed
qed

lemma fill_missing_defined:
  assumes "0 < history a" and "closed a \<noteq> []"
  shows "\<exists>a'. fill_missing bs a = Inr a'"
  using assms
proof (induction bs arbitrary: a)
  case Nil
  then show ?case by simp
next
  case (Cons b bs)
  let ?a = "close_current (open_new b (b * period_s a * us_per_s) (c_close (last (closed a))) 0 a)"
  have "closed ?a \<noteq> []"
    using Cons.prems(1) by (simp add: close_current_def open_new_def Let_def)
  then show ?case using Cons.IH [of ?a] Cons.prems by simp
qed

lemma add_tick_defined: "0 < history a \<Longrightarrow> \<exists>a'. add_tick tz ts price volume a = Inr a'"
proof -
  assume h: "0 < history a"
  show ?thesis
  proof (cases "current a")
    case None
    then show ?thesis by (simp add: add_tick_def Let_def)
  next
    case (Some c)
    have "closed (close_current a) \<noteq> []"
      using h Some by (simp add: close_current_def)
    then obtain a1 where "fill_missing [current_bucket a + 1 .. tick_bucket tz ts a - 1] (close_current a) = Inr a1"
      using fill_missing_defined [of "close_current a"] h by auto
    with Some show ?thesis by (simp add: add_tick_def Let_def)
  qed
qed

section \<open>Properties of the indicators\<close>

lemma length_ema_from [simp]: "length (ema_from alpha prev vs) = length vs"
  by (induction vs arbitrary: prev) (simp_all add: Let_def)

lemma ema_length: "ema values period = Inr out \<Longrightarrow> length out = length values"
  by (auto simp: ema_def split: if_splits list.splits)

text \<open>Every EMA value stays inside the range of the prices: a convex combination of them.\<close>

lemma convex_bounds:
  fixes lo hi :: real
  assumes "0 \<le> alpha" "alpha \<le> 1" "lo \<le> v" "v \<le> hi" "lo \<le> p" "p \<le> hi"
  shows "lo \<le> alpha * v + (1 - alpha) * p" "alpha * v + (1 - alpha) * p \<le> hi"
proof -
  have "alpha * lo + (1 - alpha) * lo \<le> alpha * v + (1 - alpha) * p"
    using assms by (intro add_mono mult_left_mono) auto
  then show "lo \<le> alpha * v + (1 - alpha) * p" by (simp add: algebra_simps)
  have "alpha * v + (1 - alpha) * p \<le> alpha * hi + (1 - alpha) * hi"
    using assms by (intro add_mono mult_left_mono) auto
  then show "alpha * v + (1 - alpha) * p \<le> hi" by (simp add: algebra_simps)
qed

lemma ema_from_bounds:
  assumes "0 \<le> alpha" "alpha \<le> 1" "lo \<le> prev" "prev \<le> hi" "\<forall>v \<in> set vs. lo \<le> v \<and> v \<le> hi"
    and "e \<in> set (ema_from alpha prev vs)"
  shows "lo \<le> e \<and> e \<le> hi"
  using assms
proof (induction vs arbitrary: prev)
  case Nil
  then show ?case by simp
next
  case (Cons v vs)
  let ?e = "alpha * v + (1 - alpha) * prev"
  have b: "lo \<le> ?e" "?e \<le> hi" using Cons.prems convex_bounds [of alpha lo v hi prev] by auto
  show ?case using Cons.IH [of ?e] Cons.prems b by (auto simp: Let_def)
qed

lemma ema_bounds:
  assumes "ema values period = Inr out" and "\<forall>v \<in> set values. lo \<le> v \<and> v \<le> hi" and "e \<in> set out"
  shows "lo \<le> e \<and> e \<le> hi"
proof -
  from assms(1,3) have pos: "0 < period" by (simp add: ema_def split: if_splits)
  have al: "0 \<le> 2 / (of_int period + 1 :: real)" "2 / (of_int period + 1 :: real) \<le> 1"
    using pos by (auto simp: divide_le_eq)
  from assms(1) pos obtain v vs where
    "values = v # vs \<and> out = v # ema_from (2 / (of_int period + 1)) v vs \<or> values = [] \<and> out = []"
    by (auto simp: ema_def split: list.splits)
  with assms(2,3) ema_from_bounds [OF al, of lo v hi vs e] show ?thesis by auto
qed

lemma true_range_nonneg: "0 \<le> true_range h l pc"
  by (auto simp: true_range_def max_def)

lemma length_true_ranges_from [simp]: "length (true_ranges_from pc xs) = length xs"
  by (induction pc xs rule: true_ranges_from.induct) auto

lemma length_true_ranges [simp]: "length (true_ranges xs) = length xs"
  by (cases xs rule: true_ranges.cases) auto

lemma true_ranges_from_nonneg: "t \<in> set (true_ranges_from pc xs) \<Longrightarrow> 0 \<le> t"
  by (induction pc xs rule: true_ranges_from.induct) (auto simp: true_range_nonneg)

lemma true_ranges_nonneg:
  "\<forall>(h, l, c) \<in> set xs. l \<le> h \<Longrightarrow> t \<in> set (true_ranges xs) \<Longrightarrow> 0 \<le> t"
  by (cases xs rule: true_ranges.cases) (auto dest: true_ranges_from_nonneg)

lemma length_rma_from [simp]: "length (rma_from p prev ts) = length ts"
  by (induction ts arbitrary: prev) (simp_all add: Let_def)

lemma rma_from_nonneg:
  assumes "1 \<le> p" "0 \<le> prev" "\<forall>t \<in> set ts. 0 \<le> t" "a \<in> set (rma_from p prev ts)"
  shows "0 \<le> a"
  using assms
proof (induction ts arbitrary: prev)
  case Nil
  then show ?case by simp
next
  case (Cons t ts)
  let ?a = "(prev * (p - 1) + t) / p"
  have "0 \<le> ?a" using Cons.prems by (intro divide_nonneg_nonneg add_nonneg_nonneg mult_nonneg_nonneg) auto
  with Cons.IH [of ?a] Cons.prems show ?case by (auto simp: Let_def)
qed

lemma mean_nonneg: "\<forall>x \<in> set xs. 0 \<le> x \<Longrightarrow> 0 \<le> mean xs"
  by (simp add: mean_def sum_list_nonneg)

lemma atr_length:
  assumes "atr hs ls cs period = Inr out" "length hs = length cs" "length ls = length cs"
  shows "length out = length cs"
  using assms by (auto simp: atr_def Let_def split: if_splits)

lemma atr_nan_prefix:
  assumes "atr hs ls cs period = Inr out" "length hs = length cs" "length ls = length cs"
    and "i < length cs"
  shows "out ! i = None \<longleftrightarrow> i < nat period - 1 \<or> length cs < nat period"
  using assms by (auto simp: atr_def Let_def nth_append nth_Cons split: if_splits nat.splits)

lemma atr_nonneg:
  assumes "atr hs ls cs period = Inr out" and wf: "\<forall>(h, l, c) \<in> set (zip hs (zip ls cs)). l \<le> h"
    and "Some a \<in> set out"
  shows "0 \<le> a"
proof -
  let ?tr = "true_ranges (zip hs (zip ls cs))"
  have tr: "\<forall>t \<in> set ?tr. 0 \<le> t" using true_ranges_nonneg [OF wf] by blast
  have pos: "0 < period" using assms(1) by (simp add: atr_def split: if_splits)
  let ?f = "mean (take (nat period) ?tr)"
  have f: "0 \<le> ?f" using tr by (intro mean_nonneg) (meson in_set_takeD)
  have "a \<in> set (?f # rma_from (of_int period) ?f (drop (nat period) ?tr))"
    using assms(1,3) pos by (auto simp: atr_def Let_def split: if_splits)
  with f tr pos rma_from_nonneg [of "of_int period" ?f "drop (nat period) ?tr" a] show ?thesis
    by (auto dest: in_set_dropD)
qed

lemma length_filter_disjoint:
  "length (filter P xs) + length (filter Q xs) \<le> length xs" if "\<And>x. P x \<Longrightarrow> \<not> Q x"
  using that by (induction xs) (auto simp: le_SucI)

lemma percentile_rank_bounds:
  assumes "percentile_rank v hist = Some p"
  shows "0 \<le> p \<and> p \<le> 1"
proof -
  let ?l = "length (filter (\<lambda>h. h < v) hist)" and ?e = "length (filter (\<lambda>h. h = v) hist)"
  have ne: "0 < length hist" using assms by (auto simp: percentile_rank_def split: if_splits)
  have "?l + ?e \<le> length hist" by (rule length_filter_disjoint) auto
  then have "real ?l + 5 / 10 * real ?e \<le> real (length hist)" by linarith
  moreover have "p = (real ?l + 5 / 10 * real ?e) / real (length hist)"
    using assms by (simp add: percentile_rank_def Let_def split: if_splits)
  ultimately show ?thesis using ne by (simp add: divide_le_eq)
qed

lemma percentile_rank_mono:
  assumes "percentile_rank v hist = Some p" "percentile_rank w hist = Some q" "v \<le> w"
  shows "p \<le> q"
proof -
  let ?L = "\<lambda>v. length (filter (\<lambda>h. h < v) hist)" and ?E = "\<lambda>v. length (filter (\<lambda>h. h = v) hist)"
  have step: "real (?L v) + 5 / 10 * real (?E v) \<le> real (?L w) + 5 / 10 * real (?E w)"
  proof (induction hist)
    case Nil
    then show ?case by simp
  next
    case (Cons h hist)
    then show ?case using assms(3) by (cases "h < v"; cases "h = v"; cases "h < w"; cases "h = w")
      (auto simp: add_divide_distrib)
  qed
  have ne: "0 < length hist" using assms(1) by (auto simp: percentile_rank_def split: if_splits)
  show ?thesis
    using assms(1,2) ne step by (auto simp: percentile_rank_def Let_def divide_right_mono split: if_splits)
qed

section \<open>Streams of ticks\<close>

definition bars :: "candle_aggregator \<Rightarrow> candle list" where
  "bars a = closed a @ (case current a of None \<Rightarrow> [] | Some c \<Rightarrow> [c])"

definition contiguous :: "candle_aggregator \<Rightarrow> bool" where
  "contiguous a \<longleftrightarrow>
     successively (\<lambda>c d. c_ts d = c_ts c + period_s a * us_per_s) (bars a) \<and>
     (bars a = [] \<or> c_ts (last (bars a)) = current_bucket a * period_s a * us_per_s)"

fun add_ticks :: "int \<Rightarrow> (datetime \<times> flt \<times> flt) list \<Rightarrow> candle_aggregator \<Rightarrow> candle_aggregator result" where
  "add_ticks tz [] a = Inr a"
| "add_ticks tz ((ts, price, volume) # rest) a = bind_result (add_tick tz ts price volume a) (add_ticks tz rest)"

lemma successively_drop: "successively P xs \<Longrightarrow> successively P (drop k xs)"
  by (metis append_take_drop_id successively_append_iff)

lemma contiguous_close:
  assumes "contiguous a" and "0 < history a"
  shows "contiguous (close_current a)" and "current a \<noteq> None \<Longrightarrow> closed (close_current a) \<noteq> []"
proof -
  let ?d = "drop (length (bars a) - history a) (bars a)"
  have bars: "bars (close_current a) = (if current a = None then bars a else ?d)"
    by (simp add: bars_def close_current_def deque_append_def Let_def split: option.splits)
  have "bars a \<noteq> [] \<Longrightarrow> length (bars a) - history a < length (bars a)"
    using assms(2) by simp
  then have "?d = [] \<or> last ?d = last (bars a)" by (metis last_drop drop_Nil)
  then show "contiguous (close_current a)"
    using assms(1) bars by (auto simp: contiguous_def successively_drop simp del: drop_eq_Nil)
  show "current a \<noteq> None \<Longrightarrow> closed (close_current a) \<noteq> []"
    using assms(2) by (auto simp: close_current_def deque_append_ne)
qed

lemma contiguous_open:
  assumes "contiguous a" and "current a = None" and "closed a = [] \<or> b = current_bucket a + 1"
  shows "contiguous (open_new b t p v a)"
proof -
  have "\<exists>c. bars (open_new b t p v a) = bars a @ [c] \<and> c_ts c = b * period_s a * us_per_s"
    using assms(2) by (simp add: bars_def open_new_def Let_def)
  moreover have "bars a = closed a" using assms(2) by (simp add: bars_def)
  ultimately show ?thesis
    using assms(1,3) by (auto simp: contiguous_def successively_append_iff algebra_simps)
qed

lemma fill_missing_contiguous:
  assumes "fill_missing [l .. h] a = Inr a'" and "l = current_bucket a + 1" and "l \<le> h + 1"
    and "contiguous a" and "current a = None" and "closed a \<noteq> []" and "0 < history a"
  shows "contiguous a' \<and> current a' = None \<and> current_bucket a' = h \<and> closed a' \<noteq> []"
  using assms
proof (induction "nat (h + 1 - l)" arbitrary: l a)
  case 0
  then show ?case by simp
next
  case (Suc n)
  let ?o = "open_new l (l * period_s a * us_per_s) (c_close (last (closed a))) 0 a"
  have lh: "l \<le> h" using Suc.hyps(2) by simp
  have "contiguous ?o" using Suc.prems by (intro contiguous_open) auto
  then have c: "contiguous (close_current ?o)" "closed (close_current ?o) \<noteq> []"
    using contiguous_close [of ?o] Suc.prems by (auto simp: open_new_def Let_def)
  have f: "fill_missing [l + 1 .. h] (close_current ?o) = Inr a'"
    using Suc.prems(1,6) unfolding upto_rec1 [OF lh] by simp
  have n: "n = nat (h + 1 - (l + 1))" using Suc.hyps(2) by linarith
  show ?case by (rule Suc.hyps(1) [OF n f]) (use c lh Suc.prems(7) in simp_all)
qed

lemma fill_missing_frame:
  "fill_missing bs a = Inr a' \<Longrightarrow> period_s a' = period_s a \<and> history a' = history a"
proof (induction bs arbitrary: a)
  case Nil
  then show ?case by simp
next
  case (Cons b bs)
  then show ?case by (fastforce split: if_splits)
qed

lemma add_tick_contiguous:
  assumes ok: "add_tick tz ts price volume a = Inr a'" and c: "contiguous a" and h: "0 < history a"
    and fwd: "current_bucket a \<le> tick_bucket tz ts a" and fresh: "current a = None \<Longrightarrow> closed a = []"
  shows "contiguous a'" and "current a' \<noteq> None" and "current_bucket a' = tick_bucket tz ts a"
    and "period_s a' = period_s a" and "history a' = history a"
proof -
  have "contiguous a' \<and> current a' \<noteq> None \<and> current_bucket a' = tick_bucket tz ts a \<and>
      period_s a' = period_s a \<and> history a' = history a"
  proof (cases "current a")
    case None
    then have "contiguous (open_new (tick_bucket tz ts a) ts price volume a)"
      using c fresh by (intro contiguous_open) auto
    with None ok show ?thesis by (auto simp: add_tick_def Let_def open_new_def)
  next
    case (Some d)
    let ?b = "tick_bucket tz ts a"
    show ?thesis
    proof (cases "?b = current_bucket a")
      case True
      with ok Some c show ?thesis
        by (auto simp: add_tick_def Let_def contiguous_def bars_def successively_append_iff)
    next
      case False
      with ok Some obtain a1 where a1: "fill_missing [current_bucket a + 1 .. ?b - 1] (close_current a) = Inr a1"
        and a': "a' = open_new ?b ts price volume a1"
        by (auto simp: add_tick_def Let_def)
      have "contiguous a1 \<and> current a1 = None \<and> current_bucket a1 = ?b - 1 \<and> closed a1 \<noteq> []"
        using fill_missing_contiguous [OF a1] contiguous_close [OF c h] Some False fwd h by simp
      moreover have "period_s a1 = period_s a \<and> history a1 = history a"
        using fill_missing_frame [OF a1] by simp
      ultimately show ?thesis using a' contiguous_open [of a1 ?b ts price volume] by (simp add: open_new_def Let_def)
    qed
  qed
  then show "contiguous a'" "current a' \<noteq> None" "current_bucket a' = tick_bucket tz ts a"
    "period_s a' = period_s a" "history a' = history a" by auto
qed

lemma tick_bucket_mono:
  "0 < period_s a \<Longrightarrow> tz \<le> s \<Longrightarrow> s \<le> t \<Longrightarrow> tick_bucket tz s a \<le> tick_bucket tz t a"
  by (simp add: tick_bucket_def epoch_seconds_def Let_def us_per_s_def zdiv_mono1)


lemma add_ticks_stream:
  assumes "agg_inv a" and "contiguous a" and "0 < history a" and "current a = None \<Longrightarrow> closed a = []"
    and "sorted (map fst ticks)" and "\<forall>t \<in> set ticks. tz \<le> fst t \<and> current_bucket a \<le> tick_bucket tz (fst t) a"
  shows "\<exists>a'. add_ticks tz ticks a = Inr a' \<and> agg_inv a' \<and> contiguous a'"
  using assms
proof (induction ticks arbitrary: a)
  case Nil
  then show ?case by simp
next
  case (Cons t rest)
  obtain ts price volume where t: "t = (ts, price, volume)" by (cases t)
  obtain a1 where a1: "add_tick tz ts price volume a = Inr a1"
    using add_tick_defined [OF Cons.prems(3)] by blast
  have fwd: "current_bucket a \<le> tick_bucket tz ts a" using Cons.prems(6) t by simp
  have inv: "agg_inv a1" by (rule add_tick_inv [OF a1 Cons.prems(1) fwd])
  note c = add_tick_contiguous [OF a1 Cons.prems(2,3) fwd Cons.prems(4)]
  have "tick_bucket tz ts a \<le> tick_bucket tz (fst u) a1" if "u \<in> set rest" for u
  proof -
    have "tick_bucket tz (fst u) a1 = tick_bucket tz (fst u) a" using c(4) by (simp add: tick_bucket_def)
    moreover have "0 < period_s a" using Cons.prems(1) by (simp add: agg_inv_def)
    ultimately show ?thesis using tick_bucket_mono [of a tz ts "fst u"] Cons.prems(5,6) t that by auto
  qed
  then have "\<exists>a'. add_ticks tz rest a1 = Inr a' \<and> agg_inv a' \<and> contiguous a'"
    using Cons.IH [of a1] inv c Cons.prems(3,5,6) t by auto
  with a1 t show ?case by simp
qed

text \<open>
  Feeding a fresh aggregator any stream of ticks whose timestamps do not go back never raises; every
  candle it holds has its low below and its high above open and close, at most \<open>history\<close> candles are
  kept, and the candles are gapless: each starts exactly one period after the one before.
\<close>

theorem aggregator_stream:
  assumes "mk_aggregator tf hist = Inr a" and "0 < hist"
    and "sorted (map fst ticks)" and "\<forall>t \<in> set ticks. tz \<le> fst t"
  shows "\<exists>a'. add_ticks tz ticks a = Inr a' \<and> agg_inv a' \<and> contiguous a'"
proof (rule add_ticks_stream)
  show inv: "agg_inv a" using assms(1) TIMEFRAME_pos [of tf] by (auto simp: mk_aggregator_def agg_inv_def split: option.splits)
  show "contiguous a" using assms(1) by (auto simp: mk_aggregator_def contiguous_def bars_def split: option.splits)
  show "0 < history a" "closed a = []" using assms(1,2) by (auto simp: mk_aggregator_def split: option.splits)
  show "sorted (map fst ticks)" by (rule assms(3))
  have "current_bucket a = - 1" using assms(1) by (auto simp: mk_aggregator_def split: option.splits)
  moreover have "0 < period_s a" using inv by (simp add: agg_inv_def)
  ultimately show "\<forall>t \<in> set ticks. tz \<le> fst t \<and> current_bucket a \<le> tick_bucket tz (fst t) a"
    using assms(4) by (auto simp: tick_bucket_def epoch_seconds_def Let_def us_per_s_def
        intro!: order_trans [OF _ pos_imp_zdiv_nonneg_iff [THEN iffD2]])
qed

theorem aggregator_stream_witness:
  "\<exists>a a'. mk_aggregator ''1m'' 5 = Inr a \<and> add_ticks 0 [(0, 10, 1), (200000000, 12, 1)] a = Inr a' \<and> contiguous a' \<and>
     length (bars a') = 4"
proof -
  obtain a where a: "mk_aggregator ''1m'' 5 = Inr a" by (simp add: mk_aggregator_def TIMEFRAME_SECONDS_def dict_get_def)
  obtain a' where a': "add_ticks 0 [(0, 10, 1), (200000000, 12, 1)] a = Inr a' \<and> agg_inv a' \<and> contiguous a'"
    using aggregator_stream [OF a, of "[(0, 10, 1), (200000000, 12, 1)]" 0] by auto
  moreover have "length (bars a') = 4"
    using a a' by (auto simp: mk_aggregator_def TIMEFRAME_SECONDS_def dict_get_def add_tick_def tick_bucket_def epoch_seconds_def
        us_per_s_def Let_def open_new_def close_current_def deque_append_def bars_def upto.simps)
  ultimately show ?thesis using a by blast
qed

text \<open>
  An exponential moving average stays between the bounds of its input.
\<close>

theorem ema_within_range:
  assumes "0 < period" and "\<forall>v \<in> set vs. lo \<le> v \<and> v \<le> hi"
  shows "\<exists>out. ema vs period = Inr out \<and> length out = length vs \<and> (\<forall>e \<in> set out. lo \<le> e \<and> e \<le> hi)"
proof -
  obtain out where "ema vs period = Inr out" using assms(1) by (cases vs) (auto simp: ema_def)
  then show ?thesis using ema_length ema_bounds assms(2) by blast
qed

theorem ema_within_range_witness:
  "\<exists>e. ema [1, 3, 2] 3 = Inr [1, 2, e] \<and> 1 \<le> e \<and> e \<le> 3"
  using ema_within_range [of 3 "[1, 3, 2]" 1 3] by (simp add: ema_def)

text \<open>
  Over bars whose low does not exceed their high, the average true range is undefined for the first
  period minus one bars and exactly there, and is never negative.
\<close>

theorem atr_defined_from_period:
  assumes "0 < period" and "length hs = length cs" and "length ls = length cs"
    and "\<forall>(h, l, c) \<in> set (zip hs (zip ls cs)). l \<le> h"
  shows "\<exists>out. atr hs ls cs period = Inr out \<and> length out = length cs \<and>
     (\<forall>i < length cs. out ! i = None \<longleftrightarrow> i < nat period - 1 \<or> length cs < nat period) \<and>
     (\<forall>a. Some a \<in> set out \<longrightarrow> 0 \<le> a)"
proof -
  have "\<exists>out. atr hs ls cs period = Inr out"
    using assms(1) by (simp add: atr_def Let_def)
  then obtain out where out: "atr hs ls cs period = Inr out" by blast
  show ?thesis
    using out atr_length [OF out assms(2,3)] atr_nan_prefix [OF out assms(2,3)] atr_nonneg [OF out assms(4)] by blast
qed

theorem atr_defined_from_period_witness:
  "\<exists>out. atr [3, 4, 5] [1, 2, 2] [2, 3, 4] 2 = Inr out \<and> length out = 3 \<and> out ! 0 = None \<and> out ! 1 \<noteq> None \<and> out ! 2 \<noteq> None"
proof -
  obtain out where out: "atr [3, 4, 5] [1, 2, 2] [2, 3, 4] 2 = Inr out" "length out = 3"
    "\<forall>i < 3. out ! i = None \<longleftrightarrow> i < 1"
    using atr_defined_from_period [of 2 "[3, 4, 5]" "[2, 3, 4]" "[1, 2, 2]"] by (auto simp: numeral_3_eq_3)
  from out(3) have "out ! 0 = None" "out ! 1 \<noteq> None" "out ! 2 \<noteq> None"
    by (simp_all del: not_None_eq One_nat_def)
  with out(1,2) show ?thesis by blast
qed

text \<open>
  The percentile rank lies in the unit interval and is monotone in the ranked value.
\<close>

theorem percentile_rank_monotone:
  assumes "hist \<noteq> []" and "v \<le> w"
  shows "\<exists>p q. percentile_rank v hist = Some p \<and> percentile_rank w hist = Some q \<and> 0 \<le> p \<and> p \<le> q \<and> q \<le> 1"
proof -
  obtain p q where "percentile_rank v hist = Some p" "percentile_rank w hist = Some q"
    using assms(1) by (simp add: percentile_rank_def)
  then show ?thesis using percentile_rank_bounds percentile_rank_mono assms(2) by blast
qed

theorem percentile_rank_monotone_witness:
  "\<exists>p q. percentile_rank 1 [1, 2, 3] = Some p \<and> percentile_rank 2 [1, 2, 3] = Some q \<and> 0 \<le> p \<and> p \<le> q \<and> q \<le> 1"
  using percentile_rank_monotone [of "[1, 2, 3]" 1 2] by simp

end
