(* ===== verification/Base.thy ===== *)
theory Base
  imports Storage Candles
begin

text \<open>
  The strategy interface (\<open>bot/strategies/base.py\<close>): intents, actions, positions, the market snapshot and
  the per-strategy context.  The market carries the IV percentiles of \<open>bot/desk/iv_history.py\<close>, whose
  result type is therefore declared here.
\<close>

section \<open>Actions\<close>

datatype exit_trigger =
    TARGET | PREMIUM_STOP | UNDERLYING_STOP | TRAIL_CHANDELIER | TRAIL_BREAKEVEN | TIME_STOP
  | FORCE_CLOSE_EXPIRY | TESTED_SIDE_CUT | DELTA_BREACH | GAMMA_SHOCK

fun trigger_value :: "exit_trigger \<Rightarrow> string" where
  "trigger_value TARGET = ''target''"
| "trigger_value PREMIUM_STOP = ''premium_stop''"
| "trigger_value UNDERLYING_STOP = ''underlying_stop''"
| "trigger_value TRAIL_CHANDELIER = ''trail_chandelier''"
| "trigger_value TRAIL_BREAKEVEN = ''trail_breakeven''"
| "trigger_value TIME_STOP = ''time_stop''"
| "trigger_value FORCE_CLOSE_EXPIRY = ''force_close_expiry''"
| "trigger_value TESTED_SIDE_CUT = ''tested_side_cut''"
| "trigger_value DELTA_BREACH = ''delta_breach''"
| "trigger_value GAMMA_SHOCK = ''gamma_shock''"

text \<open>
  \<open>Action\<close>: the class has a discriminator and one optional payload per kind; the code only ever builds
  the three combinations below.  Each carries the notes of its payload.
\<close>

datatype action =
    CLOSE exit_trigger "(string, pyval) dict"
  | TRAIL_STOP flt "(string, pyval) dict"
  | NO_OP

section \<open>Intents and positions\<close>

record leg_intent =
  li_symbol :: string
  li_side :: string
  li_option_type :: string
  li_strike :: flt
  li_expiry :: datetime

record intent =
  in_strategy_id :: strategy_id
  in_underlying :: underlying
  in_bucket :: expiry_bucket
  in_legs :: "leg_intent list"
  requested_lots :: int
  rationale :: string
  feature_vector :: "(string, pyval) dict"
  target_premium_inr :: "flt option"
  target_credit_inr :: "flt option"
  target_max_loss_inr :: "flt option"
  spread_pct_max :: flt

text \<open>
  One entry of \<open>leg_states\<close>, a dictionary with the keys \<open>symbol\<close>, \<open>option_type\<close> and \<open>current_mid\<close>, and
  optionally \<open>side\<close>: \<open>None\<close> in \<open>ls_side\<close> is the missing key.
\<close>

record leg_state =
  ls_symbol :: string
  ls_option_type :: "string option"
  ls_current_mid :: "flt option"
  ls_side :: "string option"

record position_state =
  trade_id :: int
  ps_strategy_id :: strategy_id
  ps_underlying :: underlying
  ps_expiry :: datetime
  ps_lots :: int
  ps_entry_ts :: datetime
  entry_premium_inr :: "flt option"
  entry_credit_inr :: "flt option"
  entry_underlying_price :: "flt option"
  entry_atr :: "flt option"
  current_stop_price :: "flt option"
  current_trail_stop_price :: "flt option"
  peak_pnl_inr :: "flt option"
  leg_states :: "leg_state list"
  ps_notes :: "(string, pyval) dict"

text \<open>
  The record a strategy writes for every evaluation (the function \<open>_decision\<close> of each strategy file); the
  engine writes records of the same shape for the risk gate.
\<close>

record decision_rec =
  dr_strategy_id :: string
  dr_kind :: string
  dr_underlying :: "string option"
  dr_symbol :: "string option"
  dr_passed :: bool
  dr_reason :: string
  dr_features :: "(string, pyval) dict"

definition mk_decision ::
  "strategy_id \<Rightarrow> underlying option \<Rightarrow> string option \<Rightarrow> bool \<Rightarrow> string \<Rightarrow> (string, pyval) dict \<Rightarrow> decision_rec" where
  "mk_decision sid u symbol passed reason features =
     \<lparr>dr_strategy_id = strategy_value sid, dr_kind = ''evaluate'', dr_underlying = map_option underlying_value u,
      dr_symbol = symbol, dr_passed = passed, dr_reason = reason, dr_features = features\<rparr>"

section \<open>Market\<close>

datatype iv_percentile_reason = IV_OK | IV_HISTORY_COLD | MISSING_CURRENT_IV

record iv_percentile_result =
  ivp_percentile :: "flt option"
  ivp_reason :: iv_percentile_reason
  ivp_n_samples :: int

record market_state =
  mk_now :: datetime
  mk_chain :: chain_cache
  candles_by_tf :: "(underlying, (string, candle list) dict) dict"
  underlying_marks :: "(underlying, flt) dict"
  quote_for :: "(string, quote_snapshot) dict"
  mk_usd_inr_rate :: flt
  iv_percentiles :: "(underlying \<times> expiry_bucket, iv_percentile_result) dict"

definition premium_inr :: "market_state \<Rightarrow> flt option \<Rightarrow> flt \<Rightarrow> flt option" where
  "premium_inr m price contract_value =
     (case price of
        None \<Rightarrow> None
      | Some x \<Rightarrow> if contract_value \<le> 0 then None else Some (x * contract_value * mk_usd_inr_rate m))"

definition market_candles :: "market_state \<Rightarrow> underlying \<Rightarrow> string \<Rightarrow> candle list" where
  "market_candles m u tf =
     (case dict_get (candles_by_tf m) u of
        None \<Rightarrow> []
      | Some d \<Rightarrow> (case dict_get d tf of None \<Rightarrow> [] | Some cs \<Rightarrow> cs))"

definition spot :: "market_state \<Rightarrow> underlying \<Rightarrow> flt option" where
  "spot m u = dict_get (underlying_marks m) u"

definition iv_percentile_of :: "market_state \<Rightarrow> underlying \<Rightarrow> expiry_bucket \<Rightarrow> iv_percentile_result option" where
  "iv_percentile_of m u b = dict_get (iv_percentiles m) (u, b)"

section \<open>Strategy context\<close>

record strategy_context =
  last_evaluate_ts :: "datetime option"
  cooldown_until :: "datetime option"
  underlying_cooldown_until :: "(string, datetime) dict"

definition mk_context :: strategy_context where
  "mk_context = \<lparr>last_evaluate_ts = None, cooldown_until = None, underlying_cooldown_until = []\<rparr>"

definition is_in_cooldown :: "strategy_context \<Rightarrow> datetime \<Rightarrow> bool" where
  "is_in_cooldown c now = (case cooldown_until c of None \<Rightarrow> False | Some t \<Rightarrow> now < t)"

definition is_underlying_in_cooldown :: "strategy_context \<Rightarrow> string \<Rightarrow> datetime \<Rightarrow> bool" where
  "is_underlying_in_cooldown c u now =
     (case dict_get (underlying_cooldown_until c) u of None \<Rightarrow> False | Some t \<Rightarrow> now < t)"

definition set_underlying_cooldown :: "string \<Rightarrow> datetime \<Rightarrow> strategy_context \<Rightarrow> strategy_context" where
  "set_underlying_cooldown u until c =
     c\<lparr>underlying_cooldown_until := dict_set u until (underlying_cooldown_until c)\<rparr>"

lemma cooldown_until_reached [simp]:
  "is_underlying_in_cooldown (set_underlying_cooldown u until c) v now =
     (if v = u then now < until else is_underlying_in_cooldown c v now)"
  by (simp add: is_underlying_in_cooldown_def set_underlying_cooldown_def)

text \<open>A strategy object: its configuration and its context.\<close>

record strategy =
  st_config :: strategy_config
  st_context :: strategy_context

abbreviation st_id :: "strategy \<Rightarrow> strategy_id" where
  "st_id s \<equiv> cfg_id (cfg_base (st_config s))"

definition mk_strategy :: "strategy_config \<Rightarrow> strategy" where
  "mk_strategy cfg = \<lparr>st_config = cfg, st_context = mk_context\<rparr>"

definition select_strike ::
  "chain_cache \<Rightarrow> underlying \<Rightarrow> option_type \<Rightarrow> expiry_bucket \<Rightarrow> flt option \<Rightarrow> flt option \<Rightarrow> flt option \<Rightarrow>
   flt option \<Rightarrow> int \<Rightarrow> datetime \<Rightarrow> strike_selection option" where
  "select_strike chain u opt bucket target_delta delta_min delta_max spot_price atm_offset now =
     (case target_delta of
        Some t \<Rightarrow> get_strike_by_delta chain u opt bucket t delta_min delta_max now
      | None \<Rightarrow>
          (case spot_price of
             None \<Rightarrow> None
           | Some s \<Rightarrow> get_atm_strike chain u opt bucket s atm_offset now))"

text \<open>Whichever picker answers, the instrument is an active one of the bucket and its quote is cached.\<close>

lemma select_strike_member:
  assumes "select_strike chain u opt bucket td lo hi sp off now = Some sel"
  shows "instrument sel \<in> set (instruments_for chain u opt bucket now)"
    and "get_quote chain (i_symbol (instrument sel)) = Some (quote sel)"
  using assms
  by (auto simp: select_strike_def split: option.splits
      dest: get_strike_by_delta_Some(1,2) get_atm_strike_member)

section \<open>A sample configuration\<close>

definition sample_entry :: directional_entry where
  "sample_entry = DirectionalEntry\<lparr>ema_fast_period := 1, ema_slow_period := 2, atr_period := 1, prior_bars := 1\<rparr>"

definition sample_base :: base_strategy_config where
  "sample_base = \<lparr>cfg_id = DIRECTIONAL, cfg_enabled = True, cfg_enabled_live = True, risk_weight = 1 / 2,
     risk_per_trade_pct = 2 / 100, max_lots_cap = 5, trade_premium_cap_usd = None, cfg_underlyings = [BTC]\<rparr>"

definition sample_directional :: directional_config where
  "sample_directional = \<lparr>dir_base = sample_base, dir_entry = sample_entry, dir_expiry = DirectionalExpiry,
     dir_strike = DirectionalStrike, dir_desk = DirectionalDeskConfig, dir_exits = DirectionalExits\<rparr>"

definition sample_candle :: "flt \<Rightarrow> flt \<Rightarrow> flt \<Rightarrow> candle" where
  "sample_candle h l c = \<lparr>c_ts = 0, c_open = l, c_high = h, c_low = l, c_close = c, c_volume = 1, c_n_ticks = 3\<rparr>"

definition sample_market :: market_state where
  "sample_market = \<lparr>mk_now = 0, mk_chain = sample_chain,
     candles_by_tf = [(BTC, [(''15m'', [sample_candle 10 9 10, sample_candle 10 9 10, sample_candle 30 10 30])])],
     underlying_marks = [(BTC, 220)], quote_for = [(''C2'', sample_quote ''C2'' 50 (1 / 2))], mk_usd_inr_rate = 85, iv_percentiles = []\<rparr>"

end
