(* ===== verification/Desk.thy ===== *)
theory Desk
  imports Base
begin

text \<open>
  The desk layer (\<open>bot/desk/\<close>): quote resolution and greek snapshots (\<open>greek_snapshot.py\<close>), per-leg
  liquidity (\<open>leg_liquidity.py\<close>), the book-level greeks (\<open>portfolio_greeks.py\<close>), the policy gates
  (\<open>policy.py\<close>), the greek caps on lots (\<open>greek_sizing.py\<close>), the delta attribution of a closed trade
  (\<open>pnl_attribution.py\<close>) and the IV history (\<open>iv_history.py\<close>).  The \<open>isinstance\<close> guards that only restate
  the static types have no counterpart.
\<close>

section \<open>Greek snapshots\<close>

definition resolve_quote ::
  "string \<Rightarrow> (string, quote_snapshot) dict \<Rightarrow> chain_cache option \<Rightarrow> quote_snapshot option" where
  "resolve_quote symbol qf chain =
     (case dict_get qf symbol of
        Some q \<Rightarrow> Some q
      | None \<Rightarrow> (case chain of None \<Rightarrow> None | Some c \<Rightarrow> get_quote c symbol))"

definition leg_greeks_from_quote :: "quote_snapshot \<Rightarrow> (string, pyval) dict" where
  "leg_greeks_from_quote q =
     [(''iv'', opt_flt (q_iv q)), (''delta'', opt_flt (q_delta q)), (''gamma'', opt_flt (q_gamma q)),
      (''theta'', opt_flt (q_theta q)), (''vega'', opt_flt (q_vega q)), (''open_interest'', opt_flt (open_interest q))]"

definition trade_iv_from_symbols ::
  "string list \<Rightarrow> (string, quote_snapshot) dict \<Rightarrow> chain_cache option \<Rightarrow> flt option" where
  "trade_iv_from_symbols symbols qf chain =
     (let values = List.map_filter (\<lambda>s. case resolve_quote s qf chain of None \<Rightarrow> None | Some q \<Rightarrow> q_iv q) symbols
      in if values = [] then None else Some (sum_list values / of_nat (length values)))"

definition greeks_by_symbol ::
  "string list \<Rightarrow> (string, quote_snapshot) dict \<Rightarrow> chain_cache option \<Rightarrow> (string, (string, pyval) dict) dict" where
  "greeks_by_symbol symbols qf chain =
     fold (\<lambda>s out. case resolve_quote s qf chain of
              None \<Rightarrow> out
            | Some q \<Rightarrow> dict_set s (leg_greeks_from_quote q) out) symbols []"

section \<open>Leg liquidity\<close>

record leg_liquidity_result =
  liq_ok :: bool
  liq_reason :: "string option"
  liq_symbol :: "string option"
  liq_features :: "(string, pyval) dict"

definition leg_quote_features :: "string \<Rightarrow> quote_snapshot \<Rightarrow> (string, pyval) dict" where
  "leg_quote_features role q =
     [(role @ ''_iv'', opt_flt (q_iv q)), (role @ ''_delta'', opt_flt (q_delta q)),
      (role @ ''_gamma'', opt_flt (q_gamma q)), (role @ ''_theta'', opt_flt (q_theta q)),
      (role @ ''_vega'', opt_flt (q_vega q)), (role @ ''_oi'', opt_flt (open_interest q))]"

fun liquidity_loop ::
  "flt \<Rightarrow> bool \<Rightarrow> (string \<times> strike_selection) list \<Rightarrow> (string, pyval) dict \<Rightarrow> leg_liquidity_result" where
  "liquidity_loop min_oi greeks_required [] features =
     \<lparr>liq_ok = True, liq_reason = None, liq_symbol = None, liq_features = features\<rparr>"
| "liquidity_loop min_oi greeks_required ((role, sel) # legs) features =
     (let q = quote sel; features = dict_update features (leg_quote_features role q)
      in if greeks_required \<and> q_delta q = None
         then \<lparr>liq_ok = False, liq_reason = Some ''missing_greeks'', liq_symbol = Some (i_symbol (instrument sel)),
               liq_features = features\<rparr>
         else if min_oi > 0 \<and> (case open_interest q of None \<Rightarrow> True | Some oi \<Rightarrow> oi < min_oi)
         then \<lparr>liq_ok = False, liq_reason = Some ''low_open_interest'', liq_symbol = Some (i_symbol (instrument sel)),
               liq_features = features\<rparr>
         else liquidity_loop min_oi greeks_required legs features)"

definition check_multi_leg_liquidity ::
  "(string \<times> strike_selection) list \<Rightarrow> flt \<Rightarrow> bool \<Rightarrow> leg_liquidity_result" where
  "check_multi_leg_liquidity legs min_oi greeks_required = liquidity_loop min_oi greeks_required legs []"

section \<open>Portfolio greeks\<close>

record underlying_greeks =
  ug_delta :: flt
  ug_gamma :: flt
  ug_theta :: flt
  ug_vega :: flt

definition UnderlyingGreeks :: underlying_greeks where
  "UnderlyingGreeks = \<lparr>ug_delta = 0, ug_gamma = 0, ug_theta = 0, ug_vega = 0\<rparr>"

record portfolio_greeks =
  pg_totals :: underlying_greeks
  by_underlying :: "(string, underlying_greeks) dict"
  legs_with_greeks :: nat
  legs_missing_greeks :: nat

definition contract_multiplier :: "chain_cache option \<Rightarrow> string \<Rightarrow> flt" where
  "contract_multiplier chain symbol =
     (case chain of
        None \<Rightarrow> 1
      | Some c \<Rightarrow> (case get_instrument c symbol of None \<Rightarrow> 1 | Some i \<Rightarrow> lot_size i))"

definition side_sign :: "string \<Rightarrow> flt" where
  "side_sign side =
     (let s = py_lower (py_strip side) in if s = ''buy'' then 1 else if s = ''sell'' then - 1 else 0)"

definition leg_greeks ::
  "leg_row \<Rightarrow> trade_row \<Rightarrow> quote_snapshot \<Rightarrow> chain_cache option \<Rightarrow> underlying_greeks option" where
  "leg_greeks leg trade q chain =
     (if q_delta q = None \<and> q_gamma q = None \<and> q_theta q = None \<and> q_vega q = None then None
      else if side_sign (leg_side leg) = 0 then None
      else
        let lots = of_int (if leg_lots leg \<noteq> 0 then leg_lots leg else t_lots trade);
            scale = side_sign (leg_side leg) * lots * contract_multiplier chain (leg_symbol leg)
        in Some \<lparr>ug_delta = scale * the_or 0 (q_delta q), ug_gamma = scale * the_or 0 (q_gamma q),
                 ug_theta = scale * the_or 0 (q_theta q), ug_vega = scale * the_or 0 (q_vega q)\<rparr>)"

definition add_greeks :: "underlying_greeks \<Rightarrow> underlying_greeks \<Rightarrow> underlying_greeks" where
  "add_greeks base g =
     \<lparr>ug_delta = ug_delta base + ug_delta g, ug_gamma = ug_gamma base + ug_gamma g,
      ug_theta = ug_theta base + ug_theta g, ug_vega = ug_vega base + ug_vega g\<rparr>"

text \<open>What a leg adds to the book: nothing when it has no quote or its quote no greeks.\<close>

definition contribution ::
  "(string, quote_snapshot) dict \<Rightarrow> chain_cache option \<Rightarrow> trade_row \<Rightarrow> leg_row \<Rightarrow> underlying_greeks option" where
  "contribution qf chain trade leg =
     (case dict_get qf (leg_symbol leg) of None \<Rightarrow> None | Some q \<Rightarrow> leg_greeks leg trade q chain)"

text \<open>
  The loop over the legs of one trade.  \<open>bucket\<close> is read once, before the loop, and each leg writes
  \<open>bucket\<close> plus its own greeks over what the previous leg wrote.
\<close>

fun leg_loop ::
  "trade_row \<Rightarrow> (string, quote_snapshot) dict \<Rightarrow> chain_cache option \<Rightarrow> underlying_greeks \<Rightarrow> leg_row list \<Rightarrow>
   portfolio_greeks \<Rightarrow> portfolio_greeks" where
  "leg_loop trade qf chain bucket [] p = p"
| "leg_loop trade qf chain bucket (leg # legs) p =
     leg_loop trade qf chain bucket legs
       (case contribution qf chain trade leg of
          None \<Rightarrow> p\<lparr>legs_missing_greeks := legs_missing_greeks p + 1\<rparr>
        | Some g \<Rightarrow>
            p\<lparr>legs_with_greeks := legs_with_greeks p + 1, pg_totals := add_greeks (pg_totals p) g,
              by_underlying := dict_set (t_underlying trade) (add_greeks bucket g) (by_underlying p)\<rparr>)"

fun trade_loop ::
  "(string, quote_snapshot) dict \<Rightarrow> chain_cache option \<Rightarrow> (trade_row \<times> leg_row list) list \<Rightarrow>
   portfolio_greeks \<Rightarrow> portfolio_greeks" where
  "trade_loop qf chain [] p = p"
| "trade_loop qf chain ((trade, legs) # rows) p =
     (let key = t_underlying trade;
          bucket = the_or UnderlyingGreeks (dict_get (by_underlying p) key);
          p = (if dict_get (by_underlying p) key = None
               then p\<lparr>by_underlying := dict_set key UnderlyingGreeks (by_underlying p)\<rparr> else p)
      in trade_loop qf chain rows (leg_loop trade qf chain bucket legs p))"

definition from_open_trades ::
  "(trade_row \<times> leg_row list) list \<Rightarrow> (string, quote_snapshot) dict \<Rightarrow> chain_cache option \<Rightarrow> portfolio_greeks" where
  "from_open_trades open_rows qf chain =
     trade_loop qf chain open_rows
       \<lparr>pg_totals = UnderlyingGreeks, by_underlying = [], legs_with_greeks = 0, legs_missing_greeks = 0\<rparr>"

definition for_underlying :: "portfolio_greeks \<Rightarrow> underlying \<Rightarrow> underlying_greeks" where
  "for_underlying p u = the_or UnderlyingGreeks (dict_get (by_underlying p) (underlying_value u))"

section \<open>Desk policy\<close>

definition portfolio_term ::
  "(underlying, flt) dict \<Rightarrow> flt \<Rightarrow> string \<times> underlying_greeks \<Rightarrow> flt \<times> flt" where
  "portfolio_term marks rate kv =
     (case Underlying (fst kv) of
        Inl _ \<Rightarrow> (0, 0)
      | Inr u \<Rightarrow>
          (case dict_get marks u of
             None \<Rightarrow> (0, 0)
           | Some s \<Rightarrow>
               if s \<le> 0 then (0, 0)
               else (\<bar>ug_delta (snd kv)\<bar> * s * rate, \<bar>ug_vega (snd kv)\<bar> * rate)))"

definition portfolio_exposure :: "portfolio_greeks \<Rightarrow> (underlying, flt) dict \<Rightarrow> flt \<Rightarrow> flt \<times> flt" where
  "portfolio_exposure p marks rate =
     fold (\<lambda>kv acc. (fst acc + fst (portfolio_term marks rate kv), snd acc + snd (portfolio_term marks rate kv)))
       (by_underlying p) (0, 0)"

definition check_portfolio ::
  "desk_config \<Rightarrow> portfolio_greeks \<Rightarrow> (underlying, flt) dict \<Rightarrow> flt \<Rightarrow>
   (string option \<times> (string, pyval) dict) result" where
  "check_portfolio cfg p marks rate =
     (if rate \<le> 0 then Inl ValueError
      else
        let (delta_inr, vega_inr) = portfolio_exposure p marks rate;
            notes = [(''portfolio_delta_inr'', VFlt delta_inr), (''portfolio_vega_inr'', VFlt vega_inr)];
            over = (\<lambda>limit x. case limit of None \<Rightarrow> False | Some m \<Rightarrow> x > m)
        in if over (max_abs_net_delta_inr cfg) delta_inr
           then Inr (Some ''portfolio_delta_limit'',
                     dict_set ''max_abs_net_delta_inr'' (opt_flt (max_abs_net_delta_inr cfg)) notes)
           else if over (max_abs_net_vega_inr cfg) vega_inr
           then Inr (Some ''portfolio_vega_limit'',
                     dict_set ''max_abs_net_vega_inr'' (opt_flt (max_abs_net_vega_inr cfg)) notes)
           else Inr (None, notes))"

fun check_intent_loop ::
  "desk_config \<Rightarrow> (string, quote_snapshot) dict \<Rightarrow> chain_cache option \<Rightarrow> leg_intent list \<Rightarrow> (string, pyval) dict \<Rightarrow>
   string option \<times> (string, pyval) dict" where
  "check_intent_loop cfg qf chain [] notes = (None, notes)"
| "check_intent_loop cfg qf chain (leg # legs) notes =
     (case resolve_quote (li_symbol leg) qf chain of
        None \<Rightarrow>
          if desk_strict cfg then (Some ''missing_greeks'', dict_set ''symbol'' (VStr (li_symbol leg)) notes)
          else check_intent_loop cfg qf chain legs notes
      | Some q \<Rightarrow>
          if desk_greeks_required cfg \<and> q_delta q = None
          then (Some ''missing_greeks'', dict_set ''symbol'' (VStr (li_symbol leg)) notes)
          else if desk_min_open_interest cfg > 0
          then (case open_interest q of
                  None \<Rightarrow>
                    if desk_strict cfg
                    then (Some ''low_open_interest'', dict_set ''symbol'' (VStr (li_symbol leg)) notes)
                    else check_intent_loop cfg qf chain legs notes
                | Some oi \<Rightarrow>
                    let notes = dict_set ''open_interest'' (VFlt oi) notes
                    in if oi < desk_min_open_interest cfg
                       then (Some ''low_open_interest'', dict_set ''symbol'' (VStr (li_symbol leg)) notes)
                       else check_intent_loop cfg qf chain legs notes)
          else check_intent_loop cfg qf chain legs notes)"

definition check_intent ::
  "desk_config \<Rightarrow> intent \<Rightarrow> (string, quote_snapshot) dict \<Rightarrow> chain_cache option \<Rightarrow>
   string option \<times> (string, pyval) dict" where
  "check_intent cfg it qf chain =
     check_intent_loop cfg qf chain (in_legs it) [(''min_open_interest'', VFlt (desk_min_open_interest cfg))]"

section \<open>Greek caps on lots\<close>

datatype greek = Vega | Gamma

fun greek_of :: "greek \<Rightarrow> quote_snapshot \<Rightarrow> flt option" where
  "greek_of Vega q = q_vega q"
| "greek_of Gamma q = q_gamma q"

definition per_lot_greek_inr ::
  "intent \<Rightarrow> (string, quote_snapshot) dict \<Rightarrow> chain_cache option \<Rightarrow> greek \<Rightarrow> flt \<Rightarrow> flt" where
  "per_lot_greek_inr it qf chain g rate =
     fold (\<lambda>leg total.
             case resolve_quote (li_symbol leg) qf chain of
               None \<Rightarrow> total
             | Some q \<Rightarrow>
                 (case greek_of g q of
                    None \<Rightarrow> total
                  | Some v \<Rightarrow> total + \<bar>v\<bar> * contract_multiplier chain (li_symbol leg) * rate))
       (in_legs it) 0"

text \<open>One of the two blocks of \<open>cap_lots_by_greeks\<close>: the note's key is the greek's name.\<close>

definition cap_by_greek ::
  "intent \<Rightarrow> (string, quote_snapshot) dict \<Rightarrow> chain_cache option \<Rightarrow> greek \<Rightarrow> string \<Rightarrow> flt option \<Rightarrow> flt \<Rightarrow>
   int \<times> (string, pyval) dict \<Rightarrow> int \<times> (string, pyval) dict" where
  "cap_by_greek it qf chain g key limit rate st =
     (case limit of
        None \<Rightarrow> st
      | Some m \<Rightarrow>
          if m > 0
          then let per_lot = per_lot_greek_inr it qf chain g rate;
                   notes = dict_set key (VFlt per_lot) (snd st);
                   capped = fst st
               in if per_lot > 0
                  then let cap = min capped (max 1 \<lfloor>m / per_lot\<rfloor>) in (min capped cap, notes)
                  else (capped, notes)
          else st)"

definition cap_lots_by_greeks ::
  "intent \<Rightarrow> int \<Rightarrow> (string, quote_snapshot) dict \<Rightarrow> chain_cache option \<Rightarrow> flt option \<Rightarrow> flt option \<Rightarrow> flt \<Rightarrow>
   int \<times> (string, pyval) dict" where
  "cap_lots_by_greeks it sized qf chain max_vega_inr max_gamma_inr rate =
     (if sized < 1 then (sized, [])
      else
        let st = cap_by_greek it qf chain Vega ''vega_inr_per_lot'' max_vega_inr rate (sized, []);
            st = cap_by_greek it qf chain Gamma ''gamma_inr_per_lot'' max_gamma_inr rate st
        in if fst st < sized
           then (fst st, dict_set ''lots_before_greek_cap'' (VFlt (of_int sized))
                           (dict_set ''greek_cap_applied'' (VBool True) (snd st)))
           else st)"

section \<open>Delta attribution\<close>

definition entry_delta_of :: "(string, pyval) dict \<Rightarrow> string \<Rightarrow> pyval" where
  "entry_delta_of entry_greeks symbol =
     (case dict_get entry_greeks symbol of Some (VDict row) \<Rightarrow> vget row ''delta'' | _ \<Rightarrow> VNone)"

fun delta_pnl_loop ::
  "(string \<Rightarrow> flt option) \<Rightarrow> trade_row \<Rightarrow> (string, pyval) dict \<Rightarrow> flt \<Rightarrow> flt \<Rightarrow> chain_cache option \<Rightarrow> leg_row list \<Rightarrow>
   flt \<Rightarrow> bool \<Rightarrow> flt option result" where
  "delta_pnl_loop pf trade eg move rate chain [] acc any_leg = Inr (if any_leg then Some acc else None)"
| "delta_pnl_loop pf trade eg move rate chain (leg # legs) acc any_leg =
     (let d = entry_delta_of eg (leg_symbol leg); sign = side_sign (leg_side leg)
      in if d = VNone \<or> sign = 0 then delta_pnl_loop pf trade eg move rate chain legs acc any_leg
         else bind_result (float_of pf d) (\<lambda>x.
           let lots = of_int (if leg_lots leg \<noteq> 0 then leg_lots leg else t_lots trade);
               mult = contract_multiplier chain (leg_symbol leg)
           in delta_pnl_loop pf trade eg move rate chain legs (acc + x * move * sign * lots * mult * rate) True))"

definition estimate_delta_pnl_inr ::
  "(string \<Rightarrow> flt option) \<Rightarrow> trade_row \<Rightarrow> leg_row list \<Rightarrow> flt option \<Rightarrow> flt option \<Rightarrow> flt \<Rightarrow> chain_cache option \<Rightarrow>
   flt option result" where
  "estimate_delta_pnl_inr pf trade legs entry_price exit_price rate chain =
     (case (entry_price, exit_price) of
        (Some a, Some b) \<Rightarrow>
          let move = b - a
          in if \<bar>move\<bar> < 1 / 10 ^ 12 then Inr (Some 0)
             else (case vget (the_or [] (t_notes trade)) ''entry_greeks'' of
                     VDict eg \<Rightarrow> delta_pnl_loop pf trade eg move rate chain legs 0 False
                   | _ \<Rightarrow> Inr None)
      | _ \<Rightarrow> Inr None)"

definition entry_underlying_from_trade :: "(string \<Rightarrow> flt option) \<Rightarrow> trade_row \<Rightarrow> flt option" where
  "entry_underlying_from_trade pf trade =
     (let raw = vget (the_or [] (t_notes trade)) ''entry_underlying_price''
      in if raw = VNone then None else case float_of pf raw of Inl _ \<Rightarrow> None | Inr x \<Rightarrow> Some x)"

definition exit_underlying_from_marks :: "trade_row \<Rightarrow> (underlying, flt) dict \<Rightarrow> flt option" where
  "exit_underlying_from_marks trade marks =
     (case Underlying (t_underlying trade) of Inl _ \<Rightarrow> None | Inr u \<Rightarrow> dict_get marks u)"

section \<open>IV history\<close>

record iv_history_store =
  sample_interval_s :: flt
  min_samples :: int
  lookback_days :: int
  last_sample_mono :: "(string \<times> string, flt) dict"

definition mk_iv_history_store :: iv_history_store where
  "mk_iv_history_store = \<lparr>sample_interval_s = 300, min_samples = 20, lookback_days = 90, last_sample_mono = []\<rparr>"

definition should_sample :: "flt \<Rightarrow> string \<times> string \<Rightarrow> iv_history_store \<Rightarrow> bool \<times> iv_history_store" where
  "should_sample mono_now key s =
     (if (case dict_get (last_sample_mono s) key of
            None \<Rightarrow> False | Some t \<Rightarrow> mono_now - t < sample_interval_s s)
      then (False, s)
      else (True, s\<lparr>last_sample_mono := dict_set key mono_now (last_sample_mono s)\<rparr>))"

definition atm_iv_sample ::
  "chain_cache \<Rightarrow> underlying \<Rightarrow> expiry_bucket \<Rightarrow> flt \<Rightarrow> datetime \<Rightarrow> (flt \<times> date) option" where
  "atm_iv_sample chain u bucket sp now =
     (let sels = List.map_filter (\<lambda>opt. get_atm_strike chain u opt bucket sp 0 now) [Call, Put];
          ivs = List.map_filter (\<lambda>sel. q_iv (quote sel)) sels
      in if ivs = [] then None
         else Some (sum_list ivs / of_nat (length ivs), date_of (i_expiry (instrument (last sels)))))"

definition atm_iv_for_bucket :: "chain_cache \<Rightarrow> underlying \<Rightarrow> expiry_bucket \<Rightarrow> flt \<Rightarrow> datetime \<Rightarrow> flt option" where
  "atm_iv_for_bucket chain u bucket sp now = map_option fst (atm_iv_sample chain u bucket sp now)"

text \<open>
  \<open>record_from_chain\<close>: \<open>mono_now key\<close> is the reading of the monotonic clock when \<open>key\<close> is asked for; the
  rows are appended to the table when there is at least one.
\<close>

definition sample_keys :: "(underlying \<times> expiry_bucket) list" where
  "sample_keys = List.product [BTC, ETH] [D1, D2, W1]"

fun record_loop ::
  "(string \<times> string \<Rightarrow> flt) \<Rightarrow> chain_cache \<Rightarrow> (underlying, flt) dict \<Rightarrow> datetime \<Rightarrow>
   (underlying \<times> expiry_bucket) list \<Rightarrow> iv_snapshot_row list \<Rightarrow> iv_history_store \<Rightarrow>
   iv_snapshot_row list \<times> iv_history_store" where
  "record_loop mono_now chain marks now [] rows s = (rows, s)"
| "record_loop mono_now chain marks now ((u, b) # ks) rows s =
     (case dict_get marks u of
        None \<Rightarrow> record_loop mono_now chain marks now ks rows s
      | Some sp \<Rightarrow>
          let key = (underlying_value u, bucket_value b)
          in case should_sample (mono_now key) key s of
               (False, s') \<Rightarrow> record_loop mono_now chain marks now ks rows s'
             | (True, s') \<Rightarrow>
                 (case atm_iv_sample chain u b sp now of
                    None \<Rightarrow> record_loop mono_now chain marks now ks rows s'
                  | Some (v, d) \<Rightarrow>
                      record_loop mono_now chain marks now ks
                        (rows @ [\<lparr>iv_ts = now, iv_underlying = underlying_value u, iv_expiry_bucket = bucket_value b,
                                  iv_expiry_date = d, atm_iv = v\<rparr>]) s'))"

definition record_from_chain ::
  "(string \<times> string \<Rightarrow> flt) \<Rightarrow> chain_cache \<Rightarrow> (underlying, flt) dict \<Rightarrow> datetime \<Rightarrow> iv_history_store \<Rightarrow>
   iv_snapshot_row list \<Rightarrow> nat \<times> iv_history_store \<times> iv_snapshot_row list" where
  "record_from_chain mono_now chain marks now s table =
     (let (rows, s') = record_loop mono_now chain marks now sample_keys [] s
      in (length rows, s', table @ rows))"

definition iv_percentile ::
  "iv_history_store \<Rightarrow> iv_snapshot_row list \<Rightarrow> underlying \<Rightarrow> expiry_bucket \<Rightarrow> flt option \<Rightarrow> datetime \<Rightarrow>
   iv_percentile_result" where
  "iv_percentile s table u bucket current_iv now =
     (case current_iv of
        None \<Rightarrow> \<lparr>ivp_percentile = None, ivp_reason = MISSING_CURRENT_IV, ivp_n_samples = 0\<rparr>
      | Some iv \<Rightarrow>
          let cutoff = now - lookback_days s * day_us;
              hist = map atm_iv
                (filter (\<lambda>r. iv_underlying r = underlying_value u \<and> iv_expiry_bucket r = bucket_value bucket \<and>
                             iv_ts r \<ge> cutoff) table);
              n = int (length hist)
          in if n < min_samples s
             then \<lparr>ivp_percentile = None, ivp_reason = IV_HISTORY_COLD, ivp_n_samples = n\<rparr>
             else (case percentile_rank iv hist of
                     None \<Rightarrow> \<lparr>ivp_percentile = None, ivp_reason = IV_HISTORY_COLD, ivp_n_samples = n\<rparr>
                   | Some pct \<Rightarrow> \<lparr>ivp_percentile = Some pct, ivp_reason = IV_OK, ivp_n_samples = n\<rparr>))"

section \<open>Properties: liquidity and policy\<close>

definition leg_liquid :: "flt \<Rightarrow> bool \<Rightarrow> quote_snapshot \<Rightarrow> bool" where
  "leg_liquid min_oi greeks_required q \<longleftrightarrow>
     (greeks_required \<longrightarrow> q_delta q \<noteq> None) \<and>
     (0 < min_oi \<longrightarrow> (\<exists>oi. open_interest q = Some oi \<and> min_oi \<le> oi))"

lemma liquidity_loop_ok_iff:
  "liq_ok (liquidity_loop min_oi gr legs features) \<longleftrightarrow> (\<forall>l \<in> set legs. leg_liquid min_oi gr (quote (snd l)))"
  by (induction min_oi gr legs features rule: liquidity_loop.induct)
    (auto simp: Let_def leg_liquid_def split: option.splits)

lemma check_multi_leg_liquidity_iff:
  "liq_ok (check_multi_leg_liquidity legs min_oi gr) \<longleftrightarrow> (\<forall>l \<in> set legs. leg_liquid min_oi gr (quote (snd l)))"
  by (simp add: check_multi_leg_liquidity_def liquidity_loop_ok_iff)

definition leg_acceptable :: "desk_config \<Rightarrow> quote_snapshot option \<Rightarrow> bool" where
  "leg_acceptable cfg qo =
     (case qo of
        None \<Rightarrow> \<not> desk_strict cfg
      | Some q \<Rightarrow>
          (desk_greeks_required cfg \<longrightarrow> q_delta q \<noteq> None) \<and>
          (0 < desk_min_open_interest cfg \<longrightarrow>
             (case open_interest q of None \<Rightarrow> \<not> desk_strict cfg | Some oi \<Rightarrow> desk_min_open_interest cfg \<le> oi)))"

lemma check_intent_loop_None:
  "fst (check_intent_loop cfg qf chain legs ns) = None \<longleftrightarrow>
     (\<forall>leg \<in> set legs. leg_acceptable cfg (resolve_quote (li_symbol leg) qf chain))"
proof (induction legs arbitrary: ns)
  case Nil
  then show ?case by simp
next
  case (Cons leg legs)
  then show ?case
    by (simp add: leg_acceptable_def Let_def not_less split: option.split if_split)
qed

lemma check_intent_None_iff:
  "fst (check_intent cfg it qf chain) = None \<longleftrightarrow>
     (\<forall>leg \<in> set (in_legs it). leg_acceptable cfg (resolve_quote (li_symbol leg) qf chain))"
  by (simp add: check_intent_def check_intent_loop_None)

text \<open>Under the strict policy an acceptable leg is quoted and liquid.\<close>

lemma leg_acceptable_strict:
  "desk_strict cfg \<Longrightarrow> leg_acceptable cfg qo \<longleftrightarrow>
     (\<exists>q. qo = Some q \<and> leg_liquid (desk_min_open_interest cfg) (desk_greeks_required cfg) q)"
  by (auto simp: leg_acceptable_def leg_liquid_def split: option.splits)

lemma check_portfolio_None:
  assumes "check_portfolio cfg p marks rate = Inr (None, ns)"
  shows "0 < rate"
    and "max_abs_net_delta_inr cfg = Some d \<Longrightarrow> fst (portfolio_exposure p marks rate) \<le> d"
    and "max_abs_net_vega_inr cfg = Some v \<Longrightarrow> snd (portfolio_exposure p marks rate) \<le> v"
  using assms by (auto simp: check_portfolio_def Let_def split: if_splits option.splits prod.splits)

lemma portfolio_exposure_sum:
  "portfolio_exposure p marks rate =
     (sum_list (map (fst \<circ> portfolio_term marks rate) (by_underlying p)),
      sum_list (map (snd \<circ> portfolio_term marks rate) (by_underlying p)))"
proof -
  have "fold (\<lambda>kv acc. (fst acc + fst (portfolio_term marks rate kv), snd acc + snd (portfolio_term marks rate kv))) xs (a, b)
      = (a + sum_list (map (fst \<circ> portfolio_term marks rate) xs), b + sum_list (map (snd \<circ> portfolio_term marks rate) xs))"
    for xs a b by (induction xs arbitrary: a b) simp_all
  then show ?thesis by (simp add: portfolio_exposure_def)
qed

section \<open>Properties: greek caps\<close>

lemma cap_by_greek_bounds:
  assumes "1 \<le> fst st"
  shows "1 \<le> fst (cap_by_greek it qf chain g key limit rate st)"
    and "fst (cap_by_greek it qf chain g key limit rate st) \<le> fst st"
  using assms by (auto simp: cap_by_greek_def Let_def split: option.splits)

text \<open>Either one lot is left or the capped lots stay within the budget.\<close>

lemma cap_by_greek_budget:
  assumes "1 \<le> fst st" and "0 < m" and "0 < per_lot_greek_inr it qf chain g rate"
    and lots_def: "lots = fst (cap_by_greek it qf chain g key (Some m) rate st)"
  shows "lots = 1 \<or> of_int lots * per_lot_greek_inr it qf chain g rate \<le> m"
proof (cases "lots = 1")
  case False
  let ?p = "per_lot_greek_inr it qf chain g rate"
  have "1 \<le> lots" unfolding lots_def using assms(1) by (rule cap_by_greek_bounds)
  moreover have "lots \<le> max 1 \<lfloor>m / ?p\<rfloor>"
    unfolding lots_def using assms(2,3) by (simp add: cap_by_greek_def Let_def)
  ultimately have "lots \<le> \<lfloor>m / ?p\<rfloor>" using False by linarith
  then have "of_int lots \<le> m / ?p" by linarith
  then show ?thesis using assms(3) by (simp add: pos_le_divide_eq)
qed simp

lemma cap_lots_fst:
  "1 \<le> sized \<Longrightarrow> fst (cap_lots_by_greeks it sized qf chain mv mg rate) =
     fst (cap_by_greek it qf chain Gamma ''gamma_inr_per_lot'' mg rate
            (cap_by_greek it qf chain Vega ''vega_inr_per_lot'' mv rate (sized, [])))"
  by (simp add: cap_lots_by_greeks_def Let_def)

lemma cap_lots_by_greeks_bounds:
  assumes "1 \<le> sized"
  shows "1 \<le> fst (cap_lots_by_greeks it sized qf chain mv mg rate)"
    and "fst (cap_lots_by_greeks it sized qf chain mv mg rate) \<le> sized"
proof -
  let ?v = "cap_by_greek it qf chain Vega ''vega_inr_per_lot'' mv rate (sized, [])"
  have v: "1 \<le> fst ?v" "fst ?v \<le> sized"
    using cap_by_greek_bounds [of "(sized, [])" it qf chain Vega "''vega_inr_per_lot''" mv rate] assms by simp_all
  note g = cap_by_greek_bounds [OF v(1), of it qf chain Gamma "''gamma_inr_per_lot''" mg rate]
  show "1 \<le> fst (cap_lots_by_greeks it sized qf chain mv mg rate)"
    "fst (cap_lots_by_greeks it sized qf chain mv mg rate) \<le> sized"
    using g v assms by (simp_all add: cap_lots_fst)
qed

lemma cap_lots_by_greeks_budget:
  assumes "1 \<le> sized" and rate: "0 < per_lot_greek_inr it qf chain Vega rate" "0 < mv"
    "0 < per_lot_greek_inr it qf chain Gamma rate" "0 < mg"
  defines "lots \<equiv> fst (cap_lots_by_greeks it sized qf chain (Some mv) (Some mg) rate)"
  shows "lots = 1 \<or>
    of_int lots * per_lot_greek_inr it qf chain Vega rate \<le> mv \<and>
    of_int lots * per_lot_greek_inr it qf chain Gamma rate \<le> mg"
proof -
  let ?v = "cap_by_greek it qf chain Vega ''vega_inr_per_lot'' (Some mv) rate (sized, [])"
  have v: "1 \<le> fst ?v" using cap_by_greek_bounds(1) [of "(sized, [])"] assms(1) by simp
  have l: "lots = fst (cap_by_greek it qf chain Gamma ''gamma_inr_per_lot'' (Some mg) rate ?v)"
    unfolding lots_def using assms(1) by (rule cap_lots_fst)
  have le: "1 \<le> lots" "lots \<le> fst ?v" unfolding l using cap_by_greek_bounds [OF v] by simp_all
  have gam: "lots = 1 \<or> of_int lots * per_lot_greek_inr it qf chain Gamma rate \<le> mg"
    by (rule cap_by_greek_budget [OF v rate(4,3) l])
  have veg: "fst ?v = 1 \<or> of_int (fst ?v) * per_lot_greek_inr it qf chain Vega rate \<le> mv"
    by (rule cap_by_greek_budget [OF _ rate(2,1) refl]) (simp add: assms(1))
  have "of_int lots * per_lot_greek_inr it qf chain Vega rate
      \<le> of_int (fst ?v) * per_lot_greek_inr it qf chain Vega rate"
    using le(2) rate(1) by (intro mult_right_mono) simp_all
  with veg gam le show ?thesis by auto
qed

section \<open>Properties: portfolio greeks\<close>

definition book_contributions ::
  "(string, quote_snapshot) dict \<Rightarrow> chain_cache option \<Rightarrow> (trade_row \<times> leg_row list) list \<Rightarrow> underlying_greeks list" where
  "book_contributions qf chain rows =
     concat (map (\<lambda>(t, legs). List.map_filter (contribution qf chain t) legs) rows)"

lemma add_greeks_fold_delta: "ug_delta (fold (\<lambda>g a. add_greeks a g) gs a) = ug_delta a + sum_list (map ug_delta gs)"
  by (induction gs arbitrary: a) (simp_all add: add_greeks_def)

lemma add_greeks_fold_vega: "ug_vega (fold (\<lambda>g a. add_greeks a g) gs a) = ug_vega a + sum_list (map ug_vega gs)"
  by (induction gs arbitrary: a) (simp_all add: add_greeks_def)

lemma leg_loop_totals:
  "pg_totals (leg_loop trade qf chain bucket legs p) =
     fold (\<lambda>g a. add_greeks a g) (List.map_filter (contribution qf chain trade) legs) (pg_totals p)"
  by (induction trade qf chain bucket legs p rule: leg_loop.induct)
    (auto simp: map_filter_simps split: option.splits)

lemma leg_loop_counts:
  "legs_with_greeks (leg_loop trade qf chain bucket legs p) =
     legs_with_greeks p + length (List.map_filter (contribution qf chain trade) legs)"
  "legs_with_greeks (leg_loop trade qf chain bucket legs p) + legs_missing_greeks (leg_loop trade qf chain bucket legs p) =
     legs_with_greeks p + legs_missing_greeks p + length legs"
  by (induction trade qf chain bucket legs p rule: leg_loop.induct)
    (auto simp: map_filter_simps split: option.splits)

text \<open>
  What one trade leaves in its bucket: the greeks of its last leg that has any, on top of what the bucket
  held before the trade.
\<close>

lemma leg_loop_bucket:
  "dict_get (by_underlying (leg_loop trade qf chain bucket legs p)) key =
     (if key = t_underlying trade \<and> List.map_filter (contribution qf chain trade) legs \<noteq> []
      then Some (add_greeks bucket (last (List.map_filter (contribution qf chain trade) legs)))
      else dict_get (by_underlying p) key)"
  by (induction trade qf chain bucket legs p rule: leg_loop.induct)
    (auto simp: map_filter_simps split: option.splits)

lemma trade_loop_totals:
  "pg_totals (trade_loop qf chain rows p) =
     fold (\<lambda>g a. add_greeks a g) (book_contributions qf chain rows) (pg_totals p)"
  by (induction qf chain rows p rule: trade_loop.induct)
    (simp_all add: Let_def leg_loop_totals book_contributions_def)

lemma from_open_trades_totals:
  "pg_totals (from_open_trades rows qf chain) =
     fold (\<lambda>g a. add_greeks a g) (book_contributions qf chain rows) UnderlyingGreeks"
  by (simp add: from_open_trades_def trade_loop_totals)

section \<open>Properties: IV history\<close>

lemma should_sample_spacing:
  assumes "should_sample t1 key s = (True, s1)" and "should_sample t2 key s1 = (True, s2)"
  shows "sample_interval_s s \<le> t2 - t1"
  using assms by (auto simp: should_sample_def split: if_splits)

lemma iv_percentile_ok:
  assumes "ivp_reason (iv_percentile s table u b iv now) = IV_OK"
  shows "\<exists>p. ivp_percentile (iv_percentile s table u b iv now) = Some p \<and> 0 \<le> p \<and> p \<le> 1"
    and "min_samples s \<le> ivp_n_samples (iv_percentile s table u b iv now)"
  using assms
  by (auto simp: iv_percentile_def Let_def dest: percentile_rank_bounds split: option.splits if_splits)

lemma trade_loop_counts:
  "legs_with_greeks (trade_loop qf chain rows p) = legs_with_greeks p + length (book_contributions qf chain rows)"
  by (induction qf chain rows p rule: trade_loop.induct) (auto simp: Let_def leg_loop_counts(1) book_contributions_def)

lemma trade_loop_legs:
  "legs_with_greeks (trade_loop qf chain rows p) + legs_missing_greeks (trade_loop qf chain rows p) =
     legs_with_greeks p + legs_missing_greeks p + length (concat (map snd rows))"
  by (induction qf chain rows p rule: trade_loop.induct) (auto simp: Let_def leg_loop_counts(2))

text \<open>
  The book's net delta and vega are the sums over every leg of every open trade that has a quote with
  greeks, and every leg is counted once, with greeks or without.
\<close>

theorem from_open_trades_book:
  "ug_delta (pg_totals (from_open_trades rows qf chain)) = sum_list (map ug_delta (book_contributions qf chain rows)) \<and>
   ug_vega (pg_totals (from_open_trades rows qf chain)) = sum_list (map ug_vega (book_contributions qf chain rows)) \<and>
   legs_with_greeks (from_open_trades rows qf chain) = length (book_contributions qf chain rows) \<and>
   legs_with_greeks (from_open_trades rows qf chain) + legs_missing_greeks (from_open_trades rows qf chain) =
     length (concat (map snd rows))"
proof -
  let ?p = "\<lparr>pg_totals = UnderlyingGreeks, by_underlying = [], legs_with_greeks = 0, legs_missing_greeks = 0\<rparr>"
  have "legs_with_greeks (from_open_trades rows qf chain) = length (book_contributions qf chain rows)"
    by (simp add: from_open_trades_def trade_loop_counts)
  moreover have "legs_with_greeks (from_open_trades rows qf chain) + legs_missing_greeks (from_open_trades rows qf chain) =
     length (concat (map snd rows))"
    using trade_loop_legs [of qf chain rows ?p] unfolding from_open_trades_def by simp
  ultimately show ?thesis
    by (simp add: from_open_trades_totals add_greeks_fold_delta add_greeks_fold_vega UnderlyingGreeks_def)
qed

text \<open>
  The per-underlying greeks of a book with one trade are those of the last leg that has any: the other
  legs of a spread are in the totals but not in the exposure that the portfolio limits read.
\<close>

theorem from_open_trades_bucket_last_leg:
  "dict_get (by_underlying (from_open_trades [(trade, legs)] qf chain)) (t_underlying trade) =
     Some (case rev (List.map_filter (contribution qf chain trade) legs) of
             [] \<Rightarrow> UnderlyingGreeks | g # _ \<Rightarrow> add_greeks UnderlyingGreeks g)"
proof (cases "List.map_filter (contribution qf chain trade) legs" rule: rev_cases)
  case Nil
  then show ?thesis by (simp add: from_open_trades_def leg_loop_bucket)
next
  case (snoc gs g)
  then show ?thesis by (simp add: from_open_trades_def leg_loop_bucket)
qed

text \<open>
  The greek caps never raise the size and never reduce it to zero, and above one lot the capped size
  keeps the estimated vega and gamma within their limits.
\<close>

theorem cap_lots_by_greeks_within_limits:
  assumes "1 \<le> sized" and "0 < mv" and "0 < mg"
    and "0 < per_lot_greek_inr it qf chain Vega rate" and "0 < per_lot_greek_inr it qf chain Gamma rate"
  shows "\<exists>lots notes. cap_lots_by_greeks it sized qf chain (Some mv) (Some mg) rate = (lots, notes) \<and>
     1 \<le> lots \<and> lots \<le> sized \<and>
     (lots = 1 \<or> of_int lots * per_lot_greek_inr it qf chain Vega rate \<le> mv \<and>
                 of_int lots * per_lot_greek_inr it qf chain Gamma rate \<le> mg)"
proof -
  obtain lots ns where l: "cap_lots_by_greeks it sized qf chain (Some mv) (Some mg) rate = (lots, ns)"
    by fastforce
  show ?thesis
    using cap_lots_by_greeks_bounds [OF assms(1), of it qf chain "Some mv" "Some mg" rate]
      cap_lots_by_greeks_budget [OF assms(1,4,2,5,3)] by (simp add: l)
qed

definition sample_leg :: "string \<Rightarrow> leg_intent" where
  "sample_leg s = \<lparr>li_symbol = s, li_side = ''buy'', li_option_type = ''call'', li_strike = 200, li_expiry = 20 * hour_us\<rparr>"

definition sample_intent :: intent where
  "sample_intent = \<lparr>in_strategy_id = DIRECTIONAL, in_underlying = BTC, in_bucket = D1, in_legs = [sample_leg ''C2''],
     requested_lots = 5, rationale = [], feature_vector = [], target_premium_inr = Some 200, target_credit_inr = None,
     target_max_loss_inr = None, spread_pct_max = 8 / 100\<rparr>"

lemmas sample_desk_defs = sample_intent_def sample_leg_def sample_chain_def sample_quote_def sample_instrument_def
  resolve_quote_def get_quote_def get_instrument_def dict_get_def contract_multiplier_def

theorem cap_lots_by_greeks_within_limits_witness:
  "\<exists>lots notes. cap_lots_by_greeks sample_intent 5 [] (Some sample_chain) (Some 2) (Some 1) 85 = (lots, notes) \<and>
     1 \<le> lots \<and> lots \<le> 5 \<and>
     (lots = 1 \<or> of_int lots * per_lot_greek_inr sample_intent [] (Some sample_chain) Vega 85 \<le> 2 \<and>
                 of_int lots * per_lot_greek_inr sample_intent [] (Some sample_chain) Gamma 85 \<le> 1)"
  by (rule cap_lots_by_greeks_within_limits) (simp_all add: per_lot_greek_inr_def sample_desk_defs)

text \<open>
  A strict desk lets an intent through exactly when every leg has a quote that is liquid: with a delta
  where greeks are required, and with the required open interest.
\<close>

theorem check_intent_strict:
  assumes "desk_strict cfg"
  shows "fst (check_intent cfg it qf chain) = None \<longleftrightarrow>
     (\<forall>leg \<in> set (in_legs it). \<exists>q. resolve_quote (li_symbol leg) qf chain = Some q \<and>
        leg_liquid (desk_min_open_interest cfg) (desk_greeks_required cfg) q)"
  by (simp add: check_intent_None_iff leg_acceptable_strict [OF assms])

theorem check_intent_strict_witness:
  "fst (check_intent (DeskConfig\<lparr>desk_strict := True, desk_min_open_interest := 50\<rparr>) sample_intent [] (Some sample_chain)) = None \<and>
   fst (check_intent (DeskConfig\<lparr>desk_strict := True, desk_min_open_interest := 150\<rparr>) sample_intent [] (Some sample_chain)) \<noteq> None"
  using check_intent_strict [of "DeskConfig\<lparr>desk_strict := True, desk_min_open_interest := 50\<rparr>" sample_intent "[]" "Some sample_chain"]
    check_intent_strict [of "DeskConfig\<lparr>desk_strict := True, desk_min_open_interest := 150\<rparr>" sample_intent "[]" "Some sample_chain"]
  by (simp add: leg_liquid_def sample_desk_defs DeskConfig_def del: not_None_eq)

text \<open>The samples that a sequence of attempts takes, in order.\<close>

fun sample_run :: "(flt \<times> string \<times> string) list \<Rightarrow> iv_history_store \<Rightarrow> (flt \<times> string \<times> string) list" where
  "sample_run [] s = []"
| "sample_run ((t, key) # ps) s =
     (case should_sample t key s of (taken, s') \<Rightarrow> (if taken then [(t, key)] else []) @ sample_run ps s')"

lemma should_sample_last:
  assumes "should_sample t key s = (taken, s')"
  shows "sample_interval_s s' = sample_interval_s s"
    and "dict_get (last_sample_mono s') k = (if taken \<and> k = key then Some t else dict_get (last_sample_mono s) k)"
    and "taken \<Longrightarrow> dict_get (last_sample_mono s) key = Some t0 \<Longrightarrow> sample_interval_s s \<le> t - t0"
  using assms by (auto simp: should_sample_def split: if_splits)

lemma sample_run_after:
  assumes "dict_get (last_sample_mono s) key = Some t0" and "(t, key) \<in> set (sample_run ps s)" and "0 \<le> sample_interval_s s"
  shows "sample_interval_s s \<le> t - t0"
  using assms
proof (induction ps arbitrary: s t0)
  case Nil
  then show ?case by simp
next
  case (Cons x ps)
  obtain u k where x: "x = (u, k)" by (cases x)
  obtain taken s' where s': "should_sample u k s = (taken, s')" by fastforce
  note l = should_sample_last [OF s']
  show ?case
  proof (cases "taken \<and> k = key")
    case True
    then have first: "sample_interval_s s \<le> u - t0" using l(3) Cons.prems(1) by blast
    have "t = u \<or> (t, key) \<in> set (sample_run ps s')" using Cons.prems(2) x s' True by auto
    then show ?thesis
    proof
      assume "(t, key) \<in> set (sample_run ps s')"
      then have "sample_interval_s s \<le> t - u"
        using Cons.IH [of s' u] l(1) l(2) [of key] True Cons.prems(3) by simp
      with first Cons.prems(3) show ?thesis by linarith
    qed (use first in simp)
  next
    case False
    then have "(t, key) \<in> set (sample_run ps s')" using Cons.prems(2) x s' by (auto split: if_splits)
    then show ?thesis using Cons.IH [of s' t0] l(1) l(2) [of key] False Cons.prems(1,3) by (auto split: if_splits)
  qed
qed

text \<open>
  Two IV samples that the store takes of one underlying and bucket are at least the sampling interval
  apart on the monotonic clock, whatever else it samples in between.
\<close>

theorem sample_run_spaced:
  assumes "0 \<le> sample_interval_s s"
  shows "sorted_wrt (\<lambda>a b. snd a = snd b \<longrightarrow> sample_interval_s s \<le> fst b - fst a) (sample_run ps s)"
  using assms
proof (induction ps arbitrary: s)
  case Nil
  then show ?case by simp
next
  case (Cons x ps)
  obtain u k where x: "x = (u, k)" by (cases x)
  obtain taken s' where s': "should_sample u k s = (taken, s')" by fastforce
  note l = should_sample_last [OF s']
  have ih: "sorted_wrt (\<lambda>a b. snd a = snd b \<longrightarrow> sample_interval_s s \<le> fst b - fst a) (sample_run ps s')"
    using Cons.IH [of s'] Cons.prems l(1) by simp
  have "sample_interval_s s \<le> fst b - u" if "taken" "b \<in> set (sample_run ps s')" "snd b = k" for b
    using sample_run_after [of s' k u "fst b" ps] l(1) l(2) [of k] that Cons.prems by (cases b) auto
  with ih show ?case by (auto simp: x s')
qed

theorem sample_run_spaced_witness:
  "sample_run [(1000, ''BTC'', ''D1''), (1100, ''BTC'', ''D1''), (1300, ''BTC'', ''D1'')] mk_iv_history_store =
     [(1000, ''BTC'', ''D1''), (1300, ''BTC'', ''D1'')] \<and> sample_interval_s mk_iv_history_store \<le> 1300 - 1000"
proof -
  have r: "sample_run [(1000, ''BTC'', ''D1''), (1100, ''BTC'', ''D1''), (1300, ''BTC'', ''D1'')] mk_iv_history_store =
     [(1000, ''BTC'', ''D1''), (1300, ''BTC'', ''D1'')]"
    by (simp add: mk_iv_history_store_def should_sample_def)
  have "0 \<le> sample_interval_s mk_iv_history_store" by (simp add: mk_iv_history_store_def)
  from sample_run_spaced [OF this, of "[(1000, ''BTC'', ''D1''), (1100, ''BTC'', ''D1''), (1300, ''BTC'', ''D1'')]"]
  have "sample_interval_s mk_iv_history_store \<le> 1300 - 1000" unfolding r by simp
  with r show ?thesis by simp
qed

end
