(* ===== verification/Tracking.thy ===== *)
theory Tracking
  imports Tables Desk
begin

text \<open>
  What the tick writes back to open trades (\<open>bot/runtime/trade_tracking.py\<close>) and the IV percentiles it
  fetches before the strategies run (\<open>bot/runtime/iv_prefetch.py\<close>).
\<close>

section \<open>Indicator snapshots\<close>

definition candle_stats :: "string \<Rightarrow> candle list \<Rightarrow> (string, pyval) dict" where
  "candle_stats tf cs =
     (tf @ ''_n'', VInt (int (length cs))) #
     (if cs = [] then []
      else let c = last cs
           in [(tf @ ''_last_close'', VFlt (c_close c)), (tf @ ''_last_high'', VFlt (c_high c)),
               (tf @ ''_last_low'', VFlt (c_low c)), (tf @ ''_last_ts'', VStr (isoformat (c_ts c)))])"

definition indicator_snapshot_for_underlying :: "underlying \<Rightarrow> market_state \<Rightarrow> (string, pyval) dict" where
  "indicator_snapshot_for_underlying u m =
     [(''underlying'', VStr (underlying_value u)), (''spot'', opt_flt (spot m u))] @
     concat (map (\<lambda>tf. candle_stats tf (market_candles m u tf)) [''15m'', ''1h''])"

definition indicator_snapshot_for_trade :: "trade_row \<Rightarrow> market_state \<Rightarrow> (string, pyval) dict result" where
  "indicator_snapshot_for_trade t m =
     bind_result (Underlying (t_underlying t)) (\<lambda>u. Inr (indicator_snapshot_for_underlying u m))"

definition estimate_unrealized_pnl_inr :: "trade_row \<Rightarrow> leg_row list \<Rightarrow> chain_cache \<Rightarrow> flt option" where
  "estimate_unrealized_pnl_inr trade legs chain =
     (case legs of
        [leg] \<Rightarrow>
          (if leg_side leg \<noteq> ''buy'' then None
           else case (leg_entry_price leg, get_quote chain (leg_symbol leg)) of
             (Some entry, Some q) \<Rightarrow>
               (case mid q of None \<Rightarrow> None | Some x \<Rightarrow> Some ((x - entry) * of_int (t_lots trade)))
           | _ \<Rightarrow> None)
      | _ \<Rightarrow> None)"

section \<open>Refreshing open trades\<close>

text \<open>The larger of the peak noted before and a new value; a noted peak that is no number is replaced.\<close>

definition raise_peak :: "(string \<Rightarrow> flt option) \<Rightarrow> flt \<Rightarrow> (string, pyval) dict \<Rightarrow> (string, pyval) dict" where
  "raise_peak pf x ns =
     (let prev = vget ns ''peak_pnl_inr'';
          old = (if prev = VNone then x else case float_of pf prev of Inl _ \<Rightarrow> x | Inr v \<Rightarrow> v)
      in dict_set ''peak_pnl_inr'' (VFlt (max old x)) ns)"

definition refreshed_notes ::
  "(string \<Rightarrow> flt option) \<Rightarrow> (string, pyval) dict \<Rightarrow> pyval option \<Rightarrow> flt option \<Rightarrow> flt option \<Rightarrow>
   (string, pyval) dict \<Rightarrow> (string, pyval) dict" where
  "refreshed_notes pf ind wallet unreal peak ns =
     (let n1 = dict_set ''last_indicator_snapshot'' (VDict ind) ns;
          n2 = (case wallet of None \<Rightarrow> n1 | Some w \<Rightarrow> dict_set ''wallet_last_tick'' w n1);
          n3 = (case unreal of None \<Rightarrow> n2 | Some x \<Rightarrow> dict_set ''unrealized_pnl_inr'' (VFlt x) n2)
      in case (peak, unreal) of
           (Some p, _) \<Rightarrow> raise_peak pf p n3
         | (None, Some x) \<Rightarrow> raise_peak pf x n3
         | (None, None) \<Rightarrow> n3)"

definition refresh_open_trade_notes ::
  "(string \<Rightarrow> flt option) \<Rightarrow> trade_row \<Rightarrow> leg_row list \<Rightarrow> chain_cache \<Rightarrow> market_state \<Rightarrow> pyval option \<Rightarrow> flt option \<Rightarrow>
   database \<Rightarrow> database result" where
  "refresh_open_trade_notes pf trade legs chain m wallet peak db =
     bind_result (indicator_snapshot_for_trade trade m) (\<lambda>ind.
       let unreal = estimate_unrealized_pnl_inr trade legs chain
       in case get_trade (t_id trade) db of
            None \<Rightarrow> Inr db
          | Some t \<Rightarrow>
              Inr (put_trade (t\<lparr>t_notes := Some (refreshed_notes pf ind wallet unreal peak (the_or [] (t_notes t)))\<rparr>) db))"

fun refresh_all_open_trades ::
  "(string \<Rightarrow> flt option) \<Rightarrow> (trade_row \<times> leg_row list) list \<Rightarrow> chain_cache \<Rightarrow> market_state \<Rightarrow> pyval option \<Rightarrow>
   (int, flt) dict \<Rightarrow> database \<Rightarrow> database result \<times> database" where
  "refresh_all_open_trades pf [] chain m wallet peaks db = (Inr db, db)"
| "refresh_all_open_trades pf ((trade, legs) # rows) chain m wallet peaks db =
     (case refresh_open_trade_notes pf trade legs chain m wallet (dict_get peaks (t_id trade)) db of
        Inl e \<Rightarrow> (Inl e, db)
      | Inr db' \<Rightarrow> refresh_all_open_trades pf rows chain m wallet peaks db')"

section \<open>IV prefetch\<close>

definition directional_needs_iv_prefetch :: "directional_config \<Rightarrow> bool" where
  "directional_needs_iv_prefetch cfg \<longleftrightarrow>
     max_iv_percentile_long (dir_desk cfg) \<noteq> None \<or> min_iv_percentile_long (dir_desk cfg) \<noteq> None"

definition prefetch_directional_iv_percentiles ::
  "iv_history_store \<Rightarrow> iv_snapshot_row list \<Rightarrow> chain_cache \<Rightarrow> (underlying, flt) dict \<Rightarrow> directional_config \<Rightarrow> datetime \<Rightarrow>
   (underlying \<times> expiry_bucket, iv_percentile_result) dict" where
  "prefetch_directional_iv_percentiles store table chain marks cfg now =
     fold (\<lambda>u out.
             case dict_get marks u of
               None \<Rightarrow> out
             | Some sp \<Rightarrow>
                 fold (\<lambda>b. dict_set (u, b) (iv_percentile store table u b (atm_iv_for_bucket chain u b sp now) now))
                   (remdups [dx_prefer (dir_expiry cfg), dx_fallback (dir_expiry cfg)]) out)
       (cfg_underlyings (dir_base cfg)) []"

definition prefetch_iv_for_strategies ::
  "iv_history_store \<Rightarrow> iv_snapshot_row list \<Rightarrow> chain_cache \<Rightarrow> (underlying, flt) dict \<Rightarrow>
   (strategy_id, strategy_config) dict \<Rightarrow> datetime \<Rightarrow> (underlying \<times> expiry_bucket, iv_percentile_result) dict" where
  "prefetch_iv_for_strategies store table chain marks cfgs now =
     (case dict_get cfgs DIRECTIONAL of
        Some (DirectionalConfig cfg) \<Rightarrow>
          if directional_needs_iv_prefetch cfg
          then dict_update [] (prefetch_directional_iv_percentiles store table chain marks cfg now)
          else []
      | _ \<Rightarrow> [])"

section \<open>Properties\<close>

lemma refresh_frame:
  assumes "refresh_open_trade_notes pf trade legs chain m wallet peak db = Inr db'"
  shows "db' = db \<or> (\<exists>t ns. get_trade (t_id trade) db = Some t \<and> db' = put_trade (t\<lparr>t_notes := ns\<rparr>) db)"
  using assms by (auto simp: refresh_open_trade_notes_def Let_def split: option.splits)

text \<open>
  A property of the tables that writing other notes into a row does not change is kept by the refresh of
  all open trades, whether it completes or raises.
\<close>

lemma refresh_all_keeps:
  assumes "\<And>db t ns tid. I db \<Longrightarrow> get_trade tid db = Some t \<Longrightarrow> I (put_trade (t\<lparr>t_notes := ns\<rparr>) db)"
    and "I db" and "refresh_all_open_trades pf rows chain m wallet peaks db = (r, db')"
  shows "I db'"
  using assms(2,3)
proof (induction rows arbitrary: db)
  case (Cons row rows)
  obtain trade legs where row: "row = (trade, legs)" by (cases row)
  show ?case
  proof (cases "refresh_open_trade_notes pf trade legs chain m wallet (dict_get peaks (t_id trade)) db")
    case (Inl e)
    with Cons.prems row show ?thesis by simp
  next
    case (Inr db1)
    have "I db1" using refresh_frame [OF Inr] Cons.prems(1) assms(1) by auto
    with Cons.IH Cons.prems(2) Inr row show ?thesis by simp
  qed
qed simp

lemma refresh_all_result:
  "refresh_all_open_trades pf rows chain m wallet peaks db = (Inr x, db') \<Longrightarrow> x = db'"
  by (induction rows arbitrary: db) (auto split: sum.splits)

text \<open>The noted peak of a trade never falls.\<close>

lemma raise_peak_mono:
  "vget (raise_peak pf x ns) ''peak_pnl_inr'' = VFlt p \<Longrightarrow> x \<le> p"
  "vget ns ''peak_pnl_inr'' = VFlt q \<Longrightarrow> vget (raise_peak pf x ns) ''peak_pnl_inr'' = VFlt (max q x)"
  by (auto simp: raise_peak_def Let_def float_of_def)

lemma refreshed_notes_peak:
  assumes "vget ns ''peak_pnl_inr'' = VFlt q"
  shows "\<exists>p. vget (refreshed_notes pf ind wallet unreal peak ns) ''peak_pnl_inr'' = VFlt p \<and> q \<le> p"
proof -
  have r: "vget ms ''peak_pnl_inr'' = VFlt q \<Longrightarrow> \<exists>p. vget (raise_peak pf x ms) ''peak_pnl_inr'' = VFlt p \<and> q \<le> p" for x ms
    by (auto simp: raise_peak_mono(2))
  show ?thesis using assms
    by (cases wallet; cases unreal; cases peak) (simp_all add: refreshed_notes_def Let_def r)
qed

text \<open>
  What a strategy reads is what the history gives: a prefetched percentile is the one of the store for an
  underlying with a mark and one of the two configured buckets.
\<close>

lemma prefetch_fold_buckets:
  "dict_get (fold (\<lambda>b. dict_set (u, b) (f u b)) bs out) (v, c) =
     (if v = u \<and> c \<in> set bs then Some (f u c) else dict_get out (v, c))"
  by (induction bs arbitrary: out) auto

lemma prefetch_directional_get:
  "dict_get (prefetch_directional_iv_percentiles store table chain marks cfg now) (u, b) =
     (if u \<in> set (cfg_underlyings (dir_base cfg)) \<and> b \<in> {dx_prefer (dir_expiry cfg), dx_fallback (dir_expiry cfg)}
      then map_option (\<lambda>sp. iv_percentile store table u b (atm_iv_for_bucket chain u b sp now) now) (dict_get marks u)
      else None)"
proof -
  let ?bs = "remdups [dx_prefer (dir_expiry cfg), dx_fallback (dir_expiry cfg)]"
  let ?f = "\<lambda>u sp b. iv_percentile store table u b (atm_iv_for_bucket chain u b sp now) now"
  let ?step = "\<lambda>u out. case dict_get marks u of None \<Rightarrow> out | Some sp \<Rightarrow> fold (\<lambda>b. dict_set (u, b) (?f u sp b)) ?bs out"
  have bs: "set ?bs = {dx_prefer (dir_expiry cfg), dx_fallback (dir_expiry cfg)}" by auto
  have one: "dict_get (?step w out) (u, b) =
      (if u = w \<and> b \<in> set ?bs \<and> dict_get marks u \<noteq> None then map_option (\<lambda>sp. ?f u sp b) (dict_get marks u)
       else dict_get out (u, b))" for w out
    by (cases "dict_get marks w") (auto simp: prefetch_fold_buckets [where f = "\<lambda>u b. ?f u _ b"])
  have "dict_get (fold ?step us out) (u, b) =
      (if u \<in> set us \<and> b \<in> set ?bs \<and> dict_get marks u \<noteq> None then map_option (\<lambda>sp. ?f u sp b) (dict_get marks u)
       else dict_get out (u, b))" for us out
    by (induction us arbitrary: out) (simp, simp only: fold_simps one set_simps, auto)
  then show ?thesis unfolding prefetch_directional_iv_percentiles_def bs by (auto simp: bs)
qed

end
