(* ===== verification/Signal.thy ===== *)
theory Signal
  imports Base
begin

text \<open>
  The trend-breakout signal on candles (\<open>bot/strategies/trend_signal.py\<close>): the separation of two moving
  averages and a close beyond the range of the prior bars, both measured in average true ranges.
\<close>

record trend_features =
  tf_latest_close :: flt
  tf_ema_fast :: flt
  tf_ema_slow :: flt
  tf_ema_sep :: flt
  tf_atr :: flt
  tf_threshold :: flt
  tf_prior_high :: flt
  tf_prior_low :: flt
  tf_long_setup :: bool
  tf_short_setup :: bool

datatype trend_outcome =
    InsufficientHistory nat
  | AtrNotReady
  | TrendFeatures trend_features

definition trend_min_bars :: "directional_entry \<Rightarrow> int" where
  "trend_min_bars e = max (max (ema_slow_period e) (atr_period e + 1)) (prior_bars e + 2)"

text \<open>The bars strictly before the last one: the slice \<open>[-(prior_bars + 1) : -1]\<close>.\<close>

definition prior_window :: "directional_entry \<Rightarrow> flt list \<Rightarrow> flt list" where
  "prior_window e xs = py_slice xs (- (prior_bars e + 1)) (- 1)"

definition evaluate_trend_breakout ::
  "flt list \<Rightarrow> flt list \<Rightarrow> flt list \<Rightarrow> directional_entry \<Rightarrow> trend_outcome result" where
  "evaluate_trend_breakout cs hs ls e =
     (if int (length cs) < trend_min_bars e then Inr (InsufficientHistory (length cs))
      else
        bind_result (ema cs (ema_fast_period e)) (\<lambda>fast.
        bind_result (ema cs (ema_slow_period e)) (\<lambda>slow.
        bind_result (atr hs ls cs (atr_period e)) (\<lambda>atr_series.
        bind_result (py_last atr_series) (\<lambda>latest.
          case latest of
            None \<Rightarrow> Inr AtrNotReady
          | Some latest_atr \<Rightarrow>
              bind_result (py_last cs) (\<lambda>latest_close.
              bind_result (py_last fast) (\<lambda>f.
              bind_result (py_last slow) (\<lambda>s.
              bind_result (np_max (prior_window e hs)) (\<lambda>prior_high.
              bind_result (np_min (prior_window e ls)) (\<lambda>prior_low.
                let ema_sep = f - s; threshold = breakout_atr_mult e * latest_atr
                in Inr (TrendFeatures
                     \<lparr>tf_latest_close = latest_close, tf_ema_fast = f, tf_ema_slow = s, tf_ema_sep = ema_sep,
                      tf_atr = latest_atr, tf_threshold = threshold, tf_prior_high = prior_high,
                      tf_prior_low = prior_low,
                      tf_long_setup = (ema_sep > threshold \<and> latest_close > prior_high + threshold),
                      tf_short_setup = (ema_sep < - threshold \<and> latest_close < prior_low - threshold)\<rparr>)))))))))))"

definition trend_core_dict :: "trend_features \<Rightarrow> (string, pyval) dict" where
  "trend_core_dict t =
     [(''latest_close'', VFlt (tf_latest_close t)), (''ema_fast'', VFlt (tf_ema_fast t)),
      (''ema_slow'', VFlt (tf_ema_slow t)), (''ema_sep'', VFlt (tf_ema_sep t)), (''atr'', VFlt (tf_atr t)),
      (''threshold'', VFlt (tf_threshold t)), (''prior_high'', VFlt (tf_prior_high t)),
      (''prior_low'', VFlt (tf_prior_low t))]"

definition trend_dict :: "trend_features \<Rightarrow> (string, pyval) dict" where
  "trend_dict t = trend_core_dict t @
     [(''long_setup'', VBool (tf_long_setup t)), (''short_setup'', VBool (tf_short_setup t))]"

section \<open>Properties\<close>

lemma evaluate_trend_breakout_features:
  assumes "evaluate_trend_breakout cs hs ls e = Inr (TrendFeatures t)"
  shows "\<exists>out. atr hs ls cs (atr_period e) = Inr out \<and> out \<noteq> [] \<and> last out = Some (tf_atr t)"
    and "tf_latest_close t = last cs" and "cs \<noteq> []"
    and "tf_threshold t = breakout_atr_mult e * tf_atr t"
    and "tf_prior_high t = Max (set (prior_window e hs))" and "prior_window e hs \<noteq> []"
    and "tf_prior_low t = Min (set (prior_window e ls))" and "prior_window e ls \<noteq> []"
    and "tf_long_setup t \<longleftrightarrow> tf_ema_sep t > tf_threshold t \<and> tf_latest_close t > tf_prior_high t + tf_threshold t"
    and "tf_short_setup t \<longleftrightarrow> tf_ema_sep t < - tf_threshold t \<and> tf_latest_close t < tf_prior_low t - tf_threshold t"
    and "trend_min_bars e \<le> int (length cs)"
  using assms
  by (auto simp: evaluate_trend_breakout_def Let_def py_last_def np_max_def np_min_def
      split: if_splits option.splits)

text \<open>
  A breakout is one-sided: with a non-negative multiplier and candles whose highs dominate their lows the
  threshold is not negative, and no market is both a long and a short setup.
\<close>

lemma setups_exclusive:
  assumes "evaluate_trend_breakout cs hs ls e = Inr (TrendFeatures t)"
    and "0 \<le> tf_threshold t"
  shows "\<not> (tf_long_setup t \<and> tf_short_setup t)"
  using evaluate_trend_breakout_features(9,10) [OF assms(1)] assms(2) by auto

text \<open>A long setup closes above every high of the prior window.\<close>

lemma long_setup_breaks_out:
  assumes "evaluate_trend_breakout cs hs ls e = Inr (TrendFeatures t)" and "tf_long_setup t"
    and "h \<in> set (prior_window e hs)"
  shows "last cs > h + tf_threshold t"
proof -
  note f = evaluate_trend_breakout_features [OF assms(1)]
  have "h \<le> tf_prior_high t" unfolding f(5) using assms(3) by simp
  with assms(2) f(9,2) show ?thesis by linarith
qed

lemma short_setup_breaks_down:
  assumes "evaluate_trend_breakout cs hs ls e = Inr (TrendFeatures t)" and "tf_short_setup t"
    and "l \<in> set (prior_window e ls)"
  shows "last cs < l - tf_threshold t"
proof -
  note f = evaluate_trend_breakout_features [OF assms(1)]
  have "tf_prior_low t \<le> l" unfolding f(7) using assms(3) by simp
  with assms(2) f(10,2) show ?thesis by linarith
qed

lemma atr_last_nonneg:
  assumes "evaluate_trend_breakout cs hs ls e = Inr (TrendFeatures t)"
    and "\<forall>(h, l, c) \<in> set (zip hs (zip ls cs)). l \<le> h"
  shows "0 \<le> tf_atr t"
proof -
  obtain out where "atr hs ls cs (atr_period e) = Inr out" "out \<noteq> []" "last out = Some (tf_atr t)"
    using evaluate_trend_breakout_features(1) [OF assms(1)] by blast
  then show ?thesis using atr_nonneg [OF _ assms(2)] last_in_set by metis
qed

text \<open>
  On candles whose high is not below their low, with a multiplier that is not negative, no market is
  both a long and a short setup; a long setup closes above every high of the prior window, and a short
  setup below every low, by the threshold.
\<close>

theorem trend_setups:
  assumes "evaluate_trend_breakout cs hs ls e = Inr (TrendFeatures t)"
    and "\<forall>(h, l, c) \<in> set (zip hs (zip ls cs)). l \<le> h" and "0 \<le> breakout_atr_mult e"
  shows "0 \<le> tf_threshold t \<and> \<not> (tf_long_setup t \<and> tf_short_setup t) \<and>
     (\<forall>h \<in> set (prior_window e hs). tf_long_setup t \<longrightarrow> last cs > h + tf_threshold t) \<and>
     (\<forall>l \<in> set (prior_window e ls). tf_short_setup t \<longrightarrow> last cs < l - tf_threshold t)"
proof -
  have th: "0 \<le> tf_threshold t"
    using evaluate_trend_breakout_features(4) [OF assms(1)] atr_last_nonneg [OF assms(1,2)] assms(3) by simp
  show ?thesis
    using th setups_exclusive [OF assms(1) th] long_setup_breaks_out [OF assms(1)] short_setup_breaks_down [OF assms(1)]
    by blast
qed

lemma sample_trend:
  "\<exists>t. evaluate_trend_breakout [10, 10, 30] [10, 10, 30] [9, 9, 10] sample_entry = Inr (TrendFeatures t) \<and>
     tf_long_setup t \<and> tf_threshold t = 5"
  by (simp add: evaluate_trend_breakout_def trend_min_bars_def sample_entry_def DirectionalEntry_def ema_def atr_def
      true_range_def mean_def py_last_def np_max_def np_min_def prior_window_def py_slice_def slice_bound_def Let_def)

theorem trend_setups_witness:
  "\<exists>t. evaluate_trend_breakout [10, 10, 30] [10, 10, 30] [9, 9, 10] sample_entry = Inr (TrendFeatures t) \<and>
     tf_long_setup t \<and> \<not> tf_short_setup t \<and> 30 > 10 + tf_threshold t"
proof -
  obtain t where t: "evaluate_trend_breakout [10, 10, 30] [10, 10, 30] [9, 9, 10] sample_entry = Inr (TrendFeatures t)"
    "tf_long_setup t" "tf_threshold t = 5" using sample_trend by blast
  have "prior_window sample_entry [10, 10, 30] = [10]"
    by (simp add: prior_window_def py_slice_def slice_bound_def sample_entry_def DirectionalEntry_def)
  then show ?thesis
    using trend_setups [OF t(1)] t by (auto simp: sample_entry_def DirectionalEntry_def)
qed

end
