(* ===== verification/Window.thy ===== *)
theory Window
  imports Prelude
begin

text \<open>
  The trading window (\<open>bot/risk/window.py\<close>): conversion from naive UTC to the Indian wall clock, the
  next close of the options session and the two clock tests of \<open>TradingWindow\<close>.  An aware IST
  datetime is modelled by its local reading, in microseconds.
\<close>

section \<open>The Indian clock\<close>

definition IST :: int where
  "IST = 5 * hour_us + 30 * minute_us"

definition utc_to_ist :: "datetime \<Rightarrow> datetime" where
  "utc_to_ist now = now + IST"

definition session_close_time :: daytime where
  "session_close_time = 17 * hour_us + 30 * minute_us"

definition india_options_session_close_utc :: "datetime \<Rightarrow> datetime" where
  "india_options_session_close_utc now_utc =
     (let local = utc_to_ist now_utc;
          close_local = combine (date_of local) session_close_time;
          close_local = (if time_of local \<ge> session_close_time then close_local + day_us else close_local)
      in close_local - IST)"

definition within_minutes_of_clock_time :: "daytime \<Rightarrow> daytime \<Rightarrow> int \<Rightarrow> bool" where
  "within_minutes_of_clock_time a b minutes =
     (let delta = \<bar>total_seconds (combine 0 a - combine 0 b)\<bar>
      in delta \<le> of_int (minutes * 60))"

definition within_minutes_of_ist_time :: "datetime \<Rightarrow> daytime \<Rightarrow> int \<Rightarrow> bool" where
  "within_minutes_of_ist_time now_utc target_ist minutes =
     (let local_time = time_of (utc_to_ist now_utc) div us_per_s * us_per_s
      in within_minutes_of_clock_time local_time target_ist minutes)"

section \<open>The trading window\<close>

record trading_window =
  tw_start :: daytime
  tw_end :: daytime
  tw_force_close :: daytime

definition is_open :: "trading_window \<Rightarrow> datetime \<Rightarrow> bool" where
  "is_open w now_utc = (let local = time_of (utc_to_ist now_utc) in tw_start w \<le> local \<and> local < tw_end w)"

definition is_force_close_time :: "trading_window \<Rightarrow> datetime \<Rightarrow> bool" where
  "is_force_close_time w now_utc = (let local = time_of (utc_to_ist now_utc) in local \<ge> tw_force_close w)"

lemmas window_defs = IST_def utc_to_ist_def session_close_time_def
  india_options_session_close_utc_def is_open_def is_force_close_time_def

lemma IST_value: "IST = 19800000000"
  by (simp add: IST_def time_defs)

lemma session_close_time_range [simp]: "0 \<le> session_close_time" "session_close_time < day_us"
  by (simp_all add: session_close_time_def time_defs)

text \<open>The close is the next 17:30 on the Indian clock, strictly in the future and at most a day away.\<close>

lemma session_close_next:
  "now < india_options_session_close_utc now"
  "india_options_session_close_utc now \<le> now + day_us"
  "time_of (utc_to_ist (india_options_session_close_utc now)) = session_close_time"
proof -
  let ?l = "utc_to_ist now"
  have l: "?l = combine (date_of ?l) (time_of ?l)" by (simp add: date_time_split)
  have tb: "0 \<le> time_of ?l" "time_of ?l < day_us" by simp_all
  have c: "india_options_session_close_utc now = date_of ?l * day_us + session_close_time - IST +
      (if session_close_time \<le> time_of ?l then day_us else 0)"
    by (simp add: india_options_session_close_utc_def Let_def combine_def)
  have "now = date_of ?l * day_us + time_of ?l - IST"
    using l by (simp add: combine_def utc_to_ist_def)
  then show "now < india_options_session_close_utc now" "india_options_session_close_utc now \<le> now + day_us"
    using c tb session_close_time_range
    by (auto simp del: time_of_bounds session_close_time_range split: if_splits)
  have "india_options_session_close_utc now + IST = combine (date_of ?l) session_close_time \<or>
        india_options_session_close_utc now + IST = combine (date_of ?l + 1) session_close_time"
    by (auto simp: india_options_session_close_utc_def Let_def combine_def algebra_simps)
  then show "time_of (utc_to_ist (india_options_session_close_utc now)) = session_close_time"
    by (auto simp: utc_to_ist_def)
qed

lemma is_open_periodic: "is_open w (now + k * day_us) = is_open w now"
  by (simp add: is_open_def utc_to_ist_def time_of_def add.commute add.left_commute day_us_def
      del: mod_mult_self1) (simp add: add.assoc [symmetric] mult.commute)

text \<open>
  The session close is the one instant of the next twenty-four hours whose Indian clock reads 17:30.
\<close>

theorem session_close_is_next:
  "{t. now < t \<and> t \<le> now + day_us \<and> time_of (utc_to_ist t) = session_close_time} =
     {india_options_session_close_utc now}"
proof -
  let ?c = "india_options_session_close_utc now"
  have "t = ?c" if "now < t" "t \<le> now + day_us" "time_of (utc_to_ist t) = session_close_time" for t
  proof -
    have "(t + IST) mod day_us = (?c + IST) mod day_us"
      using that(3) session_close_next(3) [of now] by (simp add: time_of_def utc_to_ist_def)
    then have d: "day_us dvd \<bar>t - ?c\<bar>" by (simp add: mod_eq_dvd_iff)
    have lt: "\<bar>t - ?c\<bar> < day_us" using that(1,2) session_close_next(1,2) [of now] by linarith
    show ?thesis
    proof (rule ccontr)
      assume "t \<noteq> ?c"
      then have "0 < \<bar>t - ?c\<bar>" by linarith
      with zdvd_imp_le [OF d] lt show False by linarith
    qed
  qed
  then show ?thesis using session_close_next [of now] by (intro set_eqI iffI) blast+
qed

end
