(* ===== verification/Directional.thy ===== *)
theory Directional
  imports Signal Window
begin

text \<open>
  The directional long-premium strategy (\<open>bot/strategies/directional.py\<close>): entry filter, expiry and strike
  choice, and the management of an open position.  The statements of \<open>_evaluate_one\<close> that compute the
  indicators are those of \<open>evaluate_trend_breakout\<close>, in the same order, and are read through it; only the
  decision records differ.  An evaluation returns its decision record and, when it passed, its intent.
\<close>

section \<open>Entry\<close>

definition DEFAULT_SPREAD_PCT_MAX :: flt where
  "DEFAULT_SPREAD_PCT_MAX = 8 / 100"

definition iv_reason_value :: "iv_percentile_reason \<Rightarrow> string" where
  "iv_reason_value r =
     (case r of IV_OK \<Rightarrow> ''ok'' | IV_HISTORY_COLD \<Rightarrow> ''iv_history_cold'' | MISSING_CURRENT_IV \<Rightarrow> ''missing_current_iv'')"

definition iv_entry_blocked :: "directional_desk_config \<Rightarrow> iv_percentile_result option \<Rightarrow> bool" where
  "iv_entry_blocked dk r =
     (case r of
        None \<Rightarrow> False
      | Some res \<Rightarrow>
          (case ivp_percentile res of
             None \<Rightarrow> False
           | Some pct \<Rightarrow>
               if ivp_reason res \<noteq> IV_OK then False
               else if (case max_iv_percentile_long dk of None \<Rightarrow> False | Some m \<Rightarrow> pct > m) then True
               else (case min_iv_percentile_long dk of None \<Rightarrow> False | Some m \<Rightarrow> pct < m)))"

definition quote_greek_features :: "quote_snapshot \<Rightarrow> (string, pyval) dict" where
  "quote_greek_features q =
     [(''leg_iv'', opt_flt (q_iv q)), (''leg_oi'', opt_flt (open_interest q)), (''leg_delta'', opt_flt (q_delta q)),
      (''leg_gamma'', opt_flt (q_gamma q)), (''leg_theta'', opt_flt (q_theta q)), (''leg_vega'', opt_flt (q_vega q))]"

definition strike_for_mode ::
  "chain_cache \<Rightarrow> underlying \<Rightarrow> option_type \<Rightarrow> expiry_bucket \<Rightarrow> flt \<Rightarrow> strike_mode \<Rightarrow> datetime \<Rightarrow> strike_selection option" where
  "strike_for_mode chain u opt bucket sp mode now =
     (if mode = ATM then select_strike chain u opt bucket None None None (Some sp) 0 now
      else select_strike chain u opt bucket None None None (Some sp) 1 now)"

definition has_mid :: "strike_selection option \<Rightarrow> bool" where
  "has_mid sel = (case sel of None \<Rightarrow> False | Some s \<Rightarrow> mid (quote s) \<noteq> None)"

definition pick_entry_strike ::
  "directional_config \<Rightarrow> market_state \<Rightarrow> underlying \<Rightarrow> option_type \<Rightarrow> expiry_bucket \<Rightarrow> flt \<Rightarrow> strike_selection option" where
  "pick_entry_strike cfg m u opt bucket sp =
     (let by_delta =
            (case prefer_delta_strike (dir_desk cfg) of
               None \<Rightarrow> None
             | Some t \<Rightarrow> select_strike (mk_chain m) u opt bucket (Some t) None None None 0 (mk_now m))
      in if has_mid by_delta then by_delta
         else
           let selection = strike_for_mode (mk_chain m) u opt bucket sp (strike_primary (dir_strike cfg)) (mk_now m)
           in if \<not> has_mid selection
              then strike_for_mode (mk_chain m) u opt bucket sp (strike_fallback (dir_strike cfg)) (mk_now m)
              else selection)"

definition dir_pick_expiry_bucket :: "directional_config \<Rightarrow> market_state \<Rightarrow> expiry_bucket" where
  "dir_pick_expiry_bucket cfg m =
     (let now = mk_now m; hours_to_d1_close = total_seconds (india_options_session_close_utc now - now) / 3600
      in if hours_to_d1_close \<ge> d1_dte_threshold_hours (dir_expiry cfg) then dx_prefer (dir_expiry cfg)
         else dx_fallback (dir_expiry cfg))"

text \<open>The part of \<open>_evaluate_one\<close> after the breakout filter has passed.\<close>

definition dir_enter ::
  "flt \<Rightarrow> directional_config \<Rightarrow> market_state \<Rightarrow> underlying \<Rightarrow> flt \<Rightarrow> option_type \<Rightarrow> (string, pyval) dict \<Rightarrow>
   decision_rec \<times> intent option" where
  "dir_enter spread_max cfg m u sp opt features =
     (let reject = (\<lambda>symbol reason fv. (mk_decision DIRECTIONAL (Some u) symbol False reason fv, None));
          bucket = dir_pick_expiry_bucket cfg m;
          iv_result = iv_percentile_of m u bucket;
          fv = (case iv_result of
                  None \<Rightarrow> features
                | Some r \<Rightarrow>
                    dict_set ''iv_percentile_n'' (VInt (ivp_n_samples r))
                      (dict_set ''iv_percentile_reason'' (VStr (iv_reason_value (ivp_reason r)))
                        (dict_set ''iv_percentile'' (opt_flt (ivp_percentile r)) features)))
      in if iv_entry_blocked (dir_desk cfg) iv_result then reject None ''iv_out_of_range'' fv
         else
           case pick_entry_strike cfg m u opt bucket sp of
             None \<Rightarrow> reject None ''no_acceptable_strike'' fv
           | Some sel \<Rightarrow>
               (case mid (quote sel) of
                  None \<Rightarrow> reject None ''no_acceptable_strike'' fv
                | Some mid_price \<Rightarrow>
                    let spread = spread_pct (quote sel); inst = instrument sel
                    in if (case spread of None \<Rightarrow> False | Some x \<Rightarrow> x > spread_max)
                       then reject (Some (i_symbol inst)) ''spread_too_wide''
                              (dict_set ''spread_pct'' (opt_flt spread) fv)
                       else
                         let full = dict_update (dict_set ''mid'' (VFlt mid_price)
                                      (dict_set ''spread_pct'' (opt_flt spread) fv)) (quote_greek_features (quote sel))
                         in (mk_decision DIRECTIONAL (Some u) (Some (i_symbol inst)) True ''passed'' full,
                             Some \<lparr>in_strategy_id = DIRECTIONAL, in_underlying = u, in_bucket = bucket,
                                   in_legs = [\<lparr>li_symbol = i_symbol inst, li_side = ''buy'',
                                               li_option_type = option_value opt, li_strike = i_strike inst,
                                               li_expiry = i_expiry inst\<rparr>],
                                   requested_lots = max_lots_cap (dir_base cfg),
                                   rationale = ''directional_'' @ option_value opt @ ''_atr_breakout'',
                                   feature_vector = full,
                                   target_premium_inr = premium_inr m (Some mid_price) (lot_size inst),
                                   target_credit_inr = None, target_max_loss_inr = None,
                                   spread_pct_max = spread_max\<rparr>)))"

definition dir_evaluate_one ::
  "flt \<Rightarrow> directional_config \<Rightarrow> strategy_context \<Rightarrow> market_state \<Rightarrow> underlying \<Rightarrow>
   (decision_rec \<times> intent option) result" where
  "dir_evaluate_one spread_max cfg ctx m u =
     (let reject = (\<lambda>reason fv. Inr (mk_decision DIRECTIONAL (Some u) None False reason fv, None))
      in if is_underlying_in_cooldown ctx (underlying_value u) (mk_now m)
         then reject ''cooldown_active'' [(''cooldown_underlying'', VStr (underlying_value u))]
         else case spot m u of
           None \<Rightarrow> reject ''missing_spot'' []
         | Some sp \<Rightarrow>
             let cs = market_candles m u (timeframe_value (de_timeframe (dir_entry cfg)))
             in bind_result
                  (evaluate_trend_breakout (map c_close cs) (map c_high cs) (map c_low cs) (dir_entry cfg))
                  (\<lambda>outcome. case outcome of
                     InsufficientHistory n \<Rightarrow>
                       reject ''insufficient_history''
                         [(''n_candles'', VInt (int n)), (''min_required'', VInt (trend_min_bars (dir_entry cfg)))]
                   | AtrNotReady \<Rightarrow> reject ''atr_not_ready'' []
                   | TrendFeatures t \<Rightarrow>
                       let fv = (''spot'', VFlt sp) # trend_core_dict t
                       in if \<not> (tf_long_setup t \<or> tf_short_setup t) then reject ''filter_failed'' fv
                          else Inr (dir_enter spread_max cfg m u sp (if tf_long_setup t then Call else Put) fv)))"

text \<open>
  The method \<open>evaluate\<close> of all three strategies: one evaluation per configured underlying; an exception
  of one evaluation leaves the method.
\<close>

definition evaluate_each ::
  "(underlying \<Rightarrow> (decision_rec \<times> intent option) result) \<Rightarrow> underlying list \<Rightarrow>
   (intent list \<times> decision_rec list) result" where
  "evaluate_each one us =
     bind_result (map_result one us)
       (\<lambda>ps. Inr (List.map_filter (\<lambda>p. if dr_passed (fst p) then snd p else None) ps, map fst ps))"

definition dir_evaluate ::
  "flt \<Rightarrow> directional_config \<Rightarrow> strategy_context \<Rightarrow> market_state \<Rightarrow> (intent list \<times> decision_rec list) result" where
  "dir_evaluate spread_max cfg ctx m =
     evaluate_each (dir_evaluate_one spread_max cfg ctx m) (cfg_underlyings (dir_base cfg))"

section \<open>Management\<close>

definition greek_moved ::
  "(string \<Rightarrow> flt option) \<Rightarrow> flt option \<Rightarrow> flt option \<Rightarrow> pyval \<Rightarrow> bool result" where
  "greek_moved pf limit now_value entry_value =
     (case (limit, now_value) of
        (Some l, Some x) \<Rightarrow>
          if entry_value = VNone then Inr False
          else bind_result (float_of pf entry_value) (\<lambda>e. Inr (\<bar>x - e\<bar> \<ge> l))
      | _ \<Rightarrow> Inr False)"

definition desk_greek_exit ::
  "(string \<Rightarrow> flt option) \<Rightarrow> directional_desk_config \<Rightarrow> position_state \<Rightarrow> leg_state \<Rightarrow> market_state \<Rightarrow>
   exit_trigger option result" where
  "desk_greek_exit pf dk pos leg m =
     (if max_abs_delta_move dk = None \<and> max_abs_gamma_shock dk = None then Inr None
      else
        let symbol = ls_symbol leg;
            q = (case dict_get (quote_for m) symbol of Some q \<Rightarrow> Some q | None \<Rightarrow> get_quote (mk_chain m) symbol)
        in case q of
             None \<Rightarrow> Inr None
           | Some q \<Rightarrow>
               (case vget (ps_notes pos) ''entry_greeks'' of
                  VDict eg \<Rightarrow>
                    (case vget eg symbol of
                       VDict row \<Rightarrow>
                         bind_result (greek_moved pf (max_abs_delta_move dk) (q_delta q) (vget row ''delta'')) (\<lambda>d.
                         if d then Inr (Some DELTA_BREACH)
                         else bind_result (greek_moved pf (max_abs_gamma_shock dk) (q_gamma q) (vget row ''gamma'')) (\<lambda>g.
                         Inr (if g then Some GAMMA_SHOCK else None)))
                     | _ \<Rightarrow> Inr None)
                | _ \<Rightarrow> Inr None))"

definition adverse_move :: "position_state \<Rightarrow> leg_state \<Rightarrow> flt \<Rightarrow> flt \<Rightarrow> flt" where
  "adverse_move pos leg entry_price spot_now =
     (if ls_option_type leg = Some ''call'' then entry_price - spot_now else spot_now - entry_price)"

definition underlying_stop_hit :: "directional_exits \<Rightarrow> position_state \<Rightarrow> leg_state \<Rightarrow> market_state \<Rightarrow> flt \<Rightarrow> flt \<Rightarrow> bool" where
  "underlying_stop_hit cfg pos leg m entry mid_price =
     (case (entry_underlying_price pos, entry_atr pos, spot m (ps_underlying pos)) of
        (Some p, Some a, Some s) \<Rightarrow>
          mid_price \<le> entry \<and> adverse_move pos leg p s \<ge> underlying_atr_mult_stop cfg * a
      | _ \<Rightarrow> False)"

definition dir_manage ::
  "(string \<Rightarrow> flt option) \<Rightarrow> directional_config \<Rightarrow> position_state \<Rightarrow> market_state \<Rightarrow> action list result" where
  "dir_manage pf config pos m =
     (let cfg = dir_exits config;
          close = (\<lambda>reason. Inr [CLOSE reason []]);
          hours_to_expiry = total_seconds (ps_expiry pos - mk_now m) / 3600
      in if hours_to_expiry \<le> dex_force_close_hours_before_expiry cfg then close FORCE_CLOSE_EXPIRY
         else case (leg_states pos, entry_premium_inr pos) of
           (leg # _, Some entry) \<Rightarrow>
             (case ls_current_mid leg of
                None \<Rightarrow> Inr [NO_OP]
              | Some mid_price \<Rightarrow>
                  bind_result (desk_greek_exit pf (dir_desk config) pos leg m) (\<lambda>greek_exit.
                    case greek_exit of
                      Some trigger \<Rightarrow> close trigger
                    | None \<Rightarrow>
                        if mid_price \<ge> (1 + target_r cfg) * entry then close TARGET
                        else if mid_price \<le> (1 - premium_drawdown_pct cfg) * entry then close PREMIUM_STOP
                        else if (case current_trail_stop_price pos of None \<Rightarrow> False | Some s \<Rightarrow> mid_price \<le> s)
                        then close TRAIL_BREAKEVEN
                        else if underlying_stop_hit cfg pos leg m entry mid_price then close UNDERLYING_STOP
                        else
                          let risk_per_lot = entry * of_int (max (ps_lots pos) 1)
                          in if (case peak_pnl_inr pos of
                                   None \<Rightarrow> False | Some p \<Rightarrow> p \<ge> trail_breakeven_at_r cfg * risk_per_lot) \<and>
                                current_trail_stop_price pos = None
                             then Inr [TRAIL_STOP entry []]
                             else Inr [NO_OP]))
         | _ \<Rightarrow> Inr [NO_OP])"

section \<open>Properties\<close>

lemma evaluate_each_decisions:
  "evaluate_each one us = Inr (is, ds) \<Longrightarrow> length ds = length us"
  by (auto simp: evaluate_each_def dest: map_result_InrD)

lemma evaluate_each_intents:
  assumes "evaluate_each one us = Inr (is, ds)" and "i \<in> set is"
  shows "\<exists>u \<in> set us. \<exists>d. one u = Inr (d, Some i) \<and> dr_passed d \<and> d \<in> set ds"
proof -
  obtain ps where ps: "map_result one us = Inr ps"
    "is = List.map_filter (\<lambda>p. if dr_passed (fst p) then snd p else None) ps" "ds = map fst ps"
    using assms(1) by (auto simp: evaluate_each_def)
  then obtain p where p: "p \<in> set ps" "dr_passed (fst p)" "snd p = Some i"
    using assms(2) by (auto simp: set_map_filter_eq split: if_splits)
  with map_result_member [OF ps(1) p(1)] ps(3) show ?thesis
    by (metis (no_types) image_eqI list.set_map prod.collapse)
qed

lemma dir_enter_intent:
  assumes "dir_enter sm cfg m u sp opt fv = (d, Some i)"
  obtains sel price where "pick_entry_strike cfg m u opt (dir_pick_expiry_bucket cfg m) sp = Some sel"
    and "mid (quote sel) = Some price"
    and "\<forall>x. spread_pct (quote sel) = Some x \<longrightarrow> x \<le> sm"
    and "in_strategy_id i = DIRECTIONAL" and "in_underlying i = u" and "dr_passed d"
    and "in_bucket i = dir_pick_expiry_bucket cfg m"
    and "in_legs i = [\<lparr>li_symbol = i_symbol (instrument sel), li_side = ''buy'', li_option_type = option_value opt,
                       li_strike = i_strike (instrument sel), li_expiry = i_expiry (instrument sel)\<rparr>]"
    and "requested_lots i = max_lots_cap (dir_base cfg)"
    and "target_premium_inr i = premium_inr m (Some price) (lot_size (instrument sel))"
    and "\<not> iv_entry_blocked (dir_desk cfg) (iv_percentile_of m u (dir_pick_expiry_bucket cfg m))"
  using assms
  by (auto simp: dir_enter_def Let_def mk_decision_def not_less split: if_splits option.splits)

lemma pick_entry_strike_member:
  assumes "pick_entry_strike cfg m u opt bucket sp = Some sel"
  shows "instrument sel \<in> set (instruments_for (mk_chain m) u opt bucket (mk_now m))"
    and "get_quote (mk_chain m) (i_symbol (instrument sel)) = Some (quote sel)"
  using assms
  by (auto simp: pick_entry_strike_def strike_for_mode_def has_mid_def Let_def
      dest: select_strike_member split: if_splits option.splits)

lemma dir_evaluate_one_intent:
  assumes "dir_evaluate_one sm cfg ctx m u = Inr (d, Some i)"
  obtains sp t opt fv where "spot m u = Some sp"
    and "\<not> is_underlying_in_cooldown ctx (underlying_value u) (mk_now m)"
    and "dir_enter sm cfg m u sp opt fv = (d, Some i)"
    and "let cs = market_candles m u (timeframe_value (de_timeframe (dir_entry cfg)))
         in evaluate_trend_breakout (map c_close cs) (map c_high cs) (map c_low cs) (dir_entry cfg) = Inr (TrendFeatures t)"
    and "opt = Call \<and> tf_long_setup t \<or> opt = Put \<and> tf_short_setup t \<and> \<not> tf_long_setup t"
  using assms
  by (auto simp: dir_evaluate_one_def Let_def split: if_splits option.splits trend_outcome.splits)

lemma dir_manage_ne: "dir_manage pf cfg pos m = Inr acts \<Longrightarrow> length acts = 1"
  by (auto simp: dir_manage_def Let_def split: if_splits option.splits list.splits)

section \<open>Entry conditions\<close>

text \<open>
  C34: a directional intent is only raised outside the underlying's cooldown, on a breakout, in its
  direction, when the IV regime does not block it: it buys one option, a call on a long setup and a put on
  a short one, quoted no wider than the spread limit, for the quoted mid in rupees.
\<close>

theorem directional_entry:
  assumes "dir_evaluate_one sm cfg ctx m u = Inr (d, Some i)"
  shows "\<exists>t opt (sel :: strike_selection) price.
     evaluate_trend_breakout
       (map c_close (market_candles m u (timeframe_value (de_timeframe (dir_entry cfg)))))
       (map c_high (market_candles m u (timeframe_value (de_timeframe (dir_entry cfg)))))
       (map c_low (market_candles m u (timeframe_value (de_timeframe (dir_entry cfg))))) (dir_entry cfg) = Inr (TrendFeatures t) \<and>
     (opt = Call \<and> tf_long_setup t \<or> opt = Put \<and> tf_short_setup t \<and> \<not> tf_long_setup t) \<and>
     \<not> is_underlying_in_cooldown ctx (underlying_value u) (mk_now m) \<and>
     \<not> iv_entry_blocked (dir_desk cfg) (iv_percentile_of m u (in_bucket i)) \<and>
     get_quote (mk_chain m) (i_symbol (instrument sel)) = Some (quote sel) \<and> mid (quote sel) = Some price \<and>
     the_or 0 (spread_pct (quote sel)) \<le> max 0 sm \<and>
     map li_symbol (in_legs i) = [i_symbol (instrument sel)] \<and> map li_side (in_legs i) = [''buy''] \<and>
     map li_option_type (in_legs i) = [option_value opt] \<and>
     target_premium_inr i = premium_inr m (Some price) (lot_size (instrument sel))"
proof -
  obtain sp t opt fv where one: "spot m u = Some sp"
    "\<not> is_underlying_in_cooldown ctx (underlying_value u) (mk_now m)" "dir_enter sm cfg m u sp opt fv = (d, Some i)"
    "let cs = market_candles m u (timeframe_value (de_timeframe (dir_entry cfg)))
     in evaluate_trend_breakout (map c_close cs) (map c_high cs) (map c_low cs) (dir_entry cfg) = Inr (TrendFeatures t)"
    "opt = Call \<and> tf_long_setup t \<or> opt = Put \<and> tf_short_setup t \<and> \<not> tf_long_setup t"
    using assms by (rule dir_evaluate_one_intent)
  obtain sel price where sel: "pick_entry_strike cfg m u opt (dir_pick_expiry_bucket cfg m) sp = Some sel"
    "mid (quote sel) = Some price" "\<forall>x. spread_pct (quote sel) = Some x \<longrightarrow> x \<le> sm"
    "in_bucket i = dir_pick_expiry_bucket cfg m"
    "in_legs i = [\<lparr>li_symbol = i_symbol (instrument sel), li_side = ''buy'', li_option_type = option_value opt,
       li_strike = i_strike (instrument sel), li_expiry = i_expiry (instrument sel)\<rparr>]"
    "target_premium_inr i = premium_inr m (Some price) (lot_size (instrument sel))"
    "\<not> iv_entry_blocked (dir_desk cfg) (iv_percentile_of m u (dir_pick_expiry_bucket cfg m))"
    using one(3) by (rule dir_enter_intent)
  have "the_or 0 (spread_pct (quote sel)) \<le> max 0 sm"
    using sel(3) by (cases "spread_pct (quote sel)") (auto simp: the_or_def max_def)
  note facts = this one(2) one(4) [unfolded Let_def] one(5) sel(2,4-7) pick_entry_strike_member(2) [OF sel(1)]
  show ?thesis
    by (rule exI [of _ t], rule exI [of _ opt], rule exI [of _ sel], rule exI [of _ price], intro conjI)
      (use facts in simp_all)
qed

lemma sample_bucket_choice: "dir_pick_expiry_bucket sample_directional sample_market = D1"
  by (simp add: dir_pick_expiry_bucket_def sample_market_def sample_directional_def DirectionalExpiry_def
      india_options_session_close_utc_def session_close_time_def utc_to_ist_def IST_def combine_def date_of_def time_of_def
      total_seconds_def time_defs us_per_s_def Let_def)

lemma sample_pick:
  "pick_entry_strike sample_directional sample_market BTC Call D1 220 =
     Some \<lparr>instrument = sample_instrument ''C2'' Call 200, quote = sample_quote ''C2'' 50 (1 / 2), selection_reason = ''atm''\<rparr>"
proof -
  have "get_atm_strike sample_chain BTC Call D1 220 0 0 =
     Some \<lparr>instrument = sample_instrument ''C2'' Call 200, quote = sample_quote ''C2'' 50 (1 / 2), selection_reason = ''atm''\<rparr>"
    by (simp add: get_atm_strike_def sample_instruments_for Let_def)
      (simp add: sample_chain_def sample_instrument_def dict_get_def)
  then show ?thesis
    by (simp add: pick_entry_strike_def sample_directional_def DirectionalDeskConfig_def has_mid_def strike_for_mode_def
        DirectionalStrike_def select_strike_def sample_market_def Let_def sample_quote_def mid_def)
qed

lemma sample_directional_intent:
  "\<exists>d i. dir_evaluate_one DEFAULT_SPREAD_PCT_MAX sample_directional mk_context sample_market BTC = Inr (d, Some i)"
proof -
  obtain t where t: "evaluate_trend_breakout [10, 10, 30] [10, 10, 30] [9, 9, 10] sample_entry = Inr (TrendFeatures t)"
    "tf_long_setup t" using sample_trend by blast
  have cs: "market_candles sample_market BTC ''15m'' = [sample_candle 10 9 10, sample_candle 10 9 10, sample_candle 30 10 30]"
    by (simp add: market_candles_def sample_market_def dict_get_def)
  have "\<exists>d i. dir_enter DEFAULT_SPREAD_PCT_MAX sample_directional sample_market BTC 220 Call fv = (d, Some i)" for fv
    by (simp add: dir_enter_def sample_bucket_choice sample_pick Let_def)
      (simp add: sample_market_def iv_percentile_of_def dict_get_def iv_entry_blocked_def sample_quote_def mid_def spread_pct_def
        DEFAULT_SPREAD_PCT_MAX_def Let_def)
  then obtain d i where e: "dir_enter DEFAULT_SPREAD_PCT_MAX sample_directional sample_market BTC 220 Call
      ((''spot'', VFlt 220) # trend_core_dict t) = (d, Some i)" by blast
  have s: "spot sample_market BTC = Some 220" "dir_entry sample_directional = sample_entry"
    "timeframe_value (de_timeframe sample_entry) = ''15m''" "\<not> is_underlying_in_cooldown mk_context ''BTC'' n" for n
    by (simp_all add: spot_def sample_market_def dict_get_def sample_directional_def sample_entry_def DirectionalEntry_def
        mk_context_def is_underlying_in_cooldown_def)
  have "dir_evaluate_one DEFAULT_SPREAD_PCT_MAX sample_directional mk_context sample_market BTC = Inr (d, Some i)"
    unfolding dir_evaluate_one_def Let_def s cs using t e by (simp add: s sample_candle_def)
  then show ?thesis by blast
qed

theorem directional_entry_witness:
  "\<exists>d i. dir_evaluate_one DEFAULT_SPREAD_PCT_MAX sample_directional mk_context sample_market BTC = Inr (d, Some i) \<and>
     map li_side (in_legs i) = [''buy'']"
proof -
  obtain d i where di: "dir_evaluate_one DEFAULT_SPREAD_PCT_MAX sample_directional mk_context sample_market BTC = Inr (d, Some i)"
    using sample_directional_intent by blast
  have "map li_side (in_legs i) = [''buy'']" using directional_entry [OF di] by (elim exE conjE)
  with di show ?thesis by auto
qed

end
