(* ===== verification/CreditVertical.thy ===== *)
theory CreditVertical
  imports Directional Desk
begin

text \<open>
  The trend-aligned credit vertical (\<open>bot/strategies/credit_vertical.py\<close>): a bull put spread on a long
  setup, a bear call spread on a short one.
\<close>

section \<open>Entry\<close>

definition mk_leg :: "strike_selection \<Rightarrow> string \<Rightarrow> option_type \<Rightarrow> leg_intent" where
  "mk_leg sel side opt =
     \<lparr>li_symbol = i_symbol (instrument sel), li_side = side, li_option_type = option_value opt,
      li_strike = i_strike (instrument sel), li_expiry = i_expiry (instrument sel)\<rparr>"

definition cv_pick_expiry_bucket :: "credit_vertical_config \<Rightarrow> expiry_bucket" where
  "cv_pick_expiry_bucket cfg = cv_prefer cfg"

definition select_wing ::
  "market_state \<Rightarrow> underlying \<Rightarrow> option_type \<Rightarrow> expiry_bucket \<Rightarrow> flt \<Rightarrow> flt \<Rightarrow> flt \<Rightarrow> strike_selection option" where
  "select_wing m u opt bucket target lo hi =
     select_strike (mk_chain m) u opt bucket (Some target) (Some lo) (Some hi) None 0 (mk_now m)"

text \<open>The legs in the order they are sent, the width and the kind of the spread; \<open>None\<close> when inverted.\<close>

definition spread_shape ::
  "option_type \<Rightarrow> strike_selection \<Rightarrow> strike_selection \<Rightarrow> (leg_intent list \<times> flt \<times> string) option" where
  "spread_shape opt short_sel long_sel =
     (let ks = i_strike (instrument short_sel); kl = i_strike (instrument long_sel)
      in case opt of
           Put \<Rightarrow>
             if kl \<ge> ks then None
             else Some ([mk_leg long_sel ''buy'' Put, mk_leg short_sel ''sell'' Put], ks - kl, ''bull_put'')
         | Call \<Rightarrow>
             if ks \<ge> kl then None
             else Some ([mk_leg short_sel ''sell'' Call, mk_leg long_sel ''buy'' Call], kl - ks, ''bear_call''))"

text \<open>The part of \<open>_evaluate_one\<close> after both wings have been found with a mid.\<close>

definition cv_price ::
  "credit_vertical_config \<Rightarrow> market_state \<Rightarrow> underlying \<Rightarrow> option_type \<Rightarrow> expiry_bucket \<Rightarrow> (string, pyval) dict \<Rightarrow>
   strike_selection \<Rightarrow> flt \<Rightarrow> strike_selection \<Rightarrow> flt \<Rightarrow> decision_rec \<times> intent option" where
  "cv_price cfg m u opt bucket fv short_sel short_mid long_sel long_mid =
     (let reject = (\<lambda>symbol reason f. (mk_decision CREDIT_VERTICAL (Some u) symbol False reason f, None))
      in case spread_shape opt short_sel long_sel of
           None \<Rightarrow> reject None ''spread_delta_unfillable'' fv
         | Some (legs, width, kind) \<Rightarrow>
             let credit = short_mid - long_mid;
                 liq = check_multi_leg_liquidity [(''long'', long_sel), (''short'', short_sel)]
                         (leg_min_open_interest (cv_desk cfg)) (leg_greeks_required (cv_desk cfg));
                 fv1 = dict_update fv (liq_features liq);
                 max_loss = width - credit
             in if \<not> liq_ok liq then reject (liq_symbol liq) (the_or ''filter_failed'' (liq_reason liq)) fv1
                else if credit \<le> 0 \<or> max_loss \<le> 0 \<or> credit < min_credit_pct_of_width cfg * width
                then reject None ''credit_too_thin''
                       (dict_update fv1 [(''credit'', VFlt credit), (''width'', VFlt width), (''spread_kind'', VStr kind)])
                else
                  let contract_value = lot_size (instrument short_sel);
                      fv2 = dict_update fv1
                              [(''spread_kind'', VStr kind), (''credit'', VFlt credit), (''width'', VFlt width),
                               (''max_loss'', VFlt max_loss), (''bucket'', VStr (bucket_value bucket))]
                  in (mk_decision CREDIT_VERTICAL (Some u) None True ''passed'' fv2,
                      Some \<lparr>in_strategy_id = CREDIT_VERTICAL, in_underlying = u, in_bucket = bucket, in_legs = legs,
                            requested_lots = max_lots_cap (cv_base cfg), rationale = ''credit_vertical_'' @ kind,
                            feature_vector = fv2, target_premium_inr = None,
                            target_credit_inr = premium_inr m (Some credit) contract_value,
                            target_max_loss_inr = premium_inr m (Some max_loss) contract_value,
                            spread_pct_max = 8 / 100\<rparr>))"

definition cv_enter ::
  "credit_vertical_config \<Rightarrow> market_state \<Rightarrow> underlying \<Rightarrow> bool \<Rightarrow> (string, pyval) dict \<Rightarrow>
   decision_rec \<times> intent option" where
  "cv_enter cfg m u long_setup fv =
     (let bucket = cv_pick_expiry_bucket cfg; w = cv_spread cfg;
          opt = (if long_setup then Put else Call);
          short_sel = select_wing m u opt bucket (short_delta_target w) (short_delta_min w) (short_delta_max w);
          long_sel = select_wing m u opt bucket (long_delta_target w) (long_delta_min w) (long_delta_max w);
          unfillable = (mk_decision CREDIT_VERTICAL (Some u) None False ''spread_delta_unfillable'' fv, None)
      in case (short_sel, long_sel) of
           (Some s, Some l) \<Rightarrow>
             (case (mid (quote s), mid (quote l)) of
                (Some ms, Some ml) \<Rightarrow> cv_price cfg m u opt bucket fv s ms l ml
              | _ \<Rightarrow> unfillable)
         | _ \<Rightarrow> unfillable)"

definition cv_evaluate_one ::
  "credit_vertical_config \<Rightarrow> strategy_context \<Rightarrow> market_state \<Rightarrow> underlying \<Rightarrow> (decision_rec \<times> intent option) result" where
  "cv_evaluate_one cfg ctx m u =
     (let reject = (\<lambda>reason fv. Inr (mk_decision CREDIT_VERTICAL (Some u) None False reason fv, None))
      in if is_in_cooldown ctx (mk_now m) then reject ''cooldown_active'' []
         else case spot m u of
           None \<Rightarrow> reject ''missing_spot'' []
         | Some sp \<Rightarrow>
             let cs = market_candles m u (timeframe_value (de_timeframe (cv_entry cfg)))
             in bind_result
                  (evaluate_trend_breakout (map c_close cs) (map c_high cs) (map c_low cs) (cv_entry cfg))
                  (\<lambda>outcome. case outcome of
                     InsufficientHistory n \<Rightarrow>
                       reject ''insufficient_history''
                         [(''error'', VStr ''insufficient_history''), (''n_candles'', VInt (int n))]
                   | AtrNotReady \<Rightarrow> reject ''atr_not_ready'' [(''error'', VStr ''atr_not_ready'')]
                   | TrendFeatures t \<Rightarrow>
                       let fv = (''spot'', VFlt sp) # trend_dict t
                       in if \<not> (tf_long_setup t \<or> tf_short_setup t) then reject ''filter_failed'' fv
                          else Inr (cv_enter cfg m u (tf_long_setup t) fv)))"

definition cv_evaluate ::
  "credit_vertical_config \<Rightarrow> strategy_context \<Rightarrow> market_state \<Rightarrow> (intent list \<times> decision_rec list) result" where
  "cv_evaluate cfg ctx m = evaluate_each (cv_evaluate_one cfg ctx m) (cfg_underlyings (cv_base cfg))"

section \<open>Management\<close>

definition cv_manage ::
  "(string \<Rightarrow> flt option) \<Rightarrow> credit_vertical_config \<Rightarrow> position_state \<Rightarrow> market_state \<Rightarrow> action list result" where
  "cv_manage pf config pos m =
     (let cfg = cv_exits config;
          days = date_of (utc_to_ist (ps_expiry pos)) - date_of (utc_to_ist (mk_now m))
      in if days \<le> force_close_days_before_expiry cfg then Inr [CLOSE FORCE_CLOSE_EXPIRY []]
         else case entry_credit_inr pos of
           None \<Rightarrow> Inr [NO_OP]
         | Some entry_credit \<Rightarrow>
             bind_result (float_of pf (py_or (vget (ps_notes pos) ''current_unwind_cost'') (VFlt 0))) (\<lambda>unwind.
               let pnl = entry_credit - unwind
               in if pnl \<ge> profit_take_pct_of_credit cfg * entry_credit then Inr [CLOSE TARGET []]
                  else if unwind \<ge> stop_loss_x_credit cfg * entry_credit then Inr [CLOSE PREMIUM_STOP []]
                  else Inr [NO_OP]))"

section \<open>Properties\<close>

lemma select_wing_band:
  assumes "select_wing m u opt bucket target lo hi = Some sel"
  shows "instrument sel \<in> set (instruments_for (mk_chain m) u opt bucket (mk_now m))"
    and "get_quote (mk_chain m) (i_symbol (instrument sel)) = Some (quote sel)"
    and "\<exists>d. q_delta (quote sel) = Some d \<and> lo \<le> \<bar>d\<bar> \<and> \<bar>d\<bar> \<le> hi"
proof -
  have g: "get_strike_by_delta (mk_chain m) u opt bucket target (Some lo) (Some hi) (mk_now m) = Some sel"
    using assms by (simp add: select_wing_def select_strike_def)
  note s = get_strike_by_delta_Some [OF g]
  show "instrument sel \<in> set (instruments_for (mk_chain m) u opt bucket (mk_now m))"
    "get_quote (mk_chain m) (i_symbol (instrument sel)) = Some (quote sel)"
    using s by simp_all
  show "\<exists>d. q_delta (quote sel) = Some d \<and> lo \<le> \<bar>d\<bar> \<and> \<bar>d\<bar> \<le> hi"
    using s(2,3) by (auto simp: delta_eligible_def delta_in_band_def split: option.splits if_splits)
qed

lemma cv_price_intent:
  assumes "cv_price cfg m u opt bucket fv s ms l ml = (d, Some i)"
  obtains width kind legs where "spread_shape opt s l = Some (legs, width, kind)"
    and "in_strategy_id i = CREDIT_VERTICAL" and "in_underlying i = u" and "in_legs i = legs" and "dr_passed d"
    and "requested_lots i = max_lots_cap (cv_base cfg)"
    and "0 < ms - ml" and "0 < width - (ms - ml)" and "min_credit_pct_of_width cfg * width \<le> ms - ml"
    and "target_credit_inr i = premium_inr m (Some (ms - ml)) (lot_size (instrument s))"
    and "target_max_loss_inr i = premium_inr m (Some (width - (ms - ml))) (lot_size (instrument s))"
    and "leg_liquid (leg_min_open_interest (cv_desk cfg)) (leg_greeks_required (cv_desk cfg)) (quote s)"
    and "leg_liquid (leg_min_open_interest (cv_desk cfg)) (leg_greeks_required (cv_desk cfg)) (quote l)"
  using assms
  by (auto simp: cv_price_def Let_def mk_decision_def check_multi_leg_liquidity_iff not_less not_le
      split: if_splits option.splits)

lemma cv_enter_intent:
  assumes "cv_enter cfg m u long_setup fv = (d, Some i)"
  obtains s l ms ml where
    "select_wing m u (if long_setup then Put else Call) (cv_prefer cfg) (short_delta_target (cv_spread cfg))
       (short_delta_min (cv_spread cfg)) (short_delta_max (cv_spread cfg)) = Some s"
    and "select_wing m u (if long_setup then Put else Call) (cv_prefer cfg) (long_delta_target (cv_spread cfg))
       (long_delta_min (cv_spread cfg)) (long_delta_max (cv_spread cfg)) = Some l"
    and "mid (quote s) = Some ms" and "mid (quote l) = Some ml"
    and "cv_price cfg m u (if long_setup then Put else Call) (cv_prefer cfg) fv s ms l ml = (d, Some i)"
  using assms
  by (auto simp: cv_enter_def cv_pick_expiry_bucket_def Let_def split: option.splits)

lemma cv_evaluate_one_intent:
  assumes "cv_evaluate_one cfg ctx m u = Inr (d, Some i)"
  obtains sp t is_long fv where "spot m u = Some sp" and "\<not> is_in_cooldown ctx (mk_now m)"
    and "cv_enter cfg m u is_long fv = (d, Some i)"
    and "is_long \<longleftrightarrow> tf_long_setup t" and "tf_long_setup t \<or> tf_short_setup t"
    and "let cs = market_candles m u (timeframe_value (de_timeframe (cv_entry cfg)))
         in evaluate_trend_breakout (map c_close cs) (map c_high cs) (map c_low cs) (cv_entry cfg) = Inr (TrendFeatures t)"
  using assms
  by (auto simp: cv_evaluate_one_def Let_def split: if_splits option.splits trend_outcome.splits)

lemma cv_manage_ne: "cv_manage pf cfg pos m = Inr acts \<Longrightarrow> length acts = 1"
  by (auto simp: cv_manage_def Let_def split: if_splits option.splits)

section \<open>Economics\<close>

abbreviation sel_strike :: "strike_selection \<Rightarrow> flt" where
  "sel_strike sel \<equiv> i_strike (instrument sel)"

text \<open>
  C33: a credit vertical sells one wing and buys the other, further out of the money; its credit is positive,
  at least the configured share of the width and less than it, so that the largest loss the gate sizes by
  is positive and, with the credit, makes up the width.
\<close>

theorem credit_vertical_economics:
  assumes "cv_enter cfg m u long_setup fv = (d, Some i)"
  shows "\<exists>(s :: strike_selection) (l :: strike_selection) credit.
     in_legs i = (if long_setup then [mk_leg l ''buy'' Put, mk_leg s ''sell'' Put]
                  else [mk_leg s ''sell'' Call, mk_leg l ''buy'' Call]) \<and>
     (if long_setup then sel_strike l < sel_strike s else sel_strike s < sel_strike l) \<and>
     0 < credit \<and> credit < \<bar>sel_strike s - sel_strike l\<bar> \<and>
     min_credit_pct_of_width cfg * \<bar>sel_strike s - sel_strike l\<bar> \<le> credit \<and>
     target_credit_inr i = premium_inr m (Some credit) (lot_size (instrument s)) \<and>
     target_max_loss_inr i = premium_inr m (Some (\<bar>sel_strike s - sel_strike l\<bar> - credit)) (lot_size (instrument s))"
proof -
  obtain s l ms ml where "cv_price cfg m u (if long_setup then Put else Call) (cv_prefer cfg) fv s ms l ml = (d, Some i)"
    using assms by (rule cv_enter_intent)
  then obtain width kind legs where p: "spread_shape (if long_setup then Put else Call) s l = Some (legs, width, kind)"
    "in_legs i = legs" "0 < ms - ml" "0 < width - (ms - ml)" "min_credit_pct_of_width cfg * width \<le> ms - ml"
    "target_credit_inr i = premium_inr m (Some (ms - ml)) (lot_size (instrument s))"
    "target_max_loss_inr i = premium_inr m (Some (width - (ms - ml))) (lot_size (instrument s))"
    by (rule cv_price_intent)
  have w: "width = \<bar>sel_strike s - sel_strike l\<bar>"
    "if long_setup then sel_strike l < sel_strike s else sel_strike s < sel_strike l"
    "legs = (if long_setup then [mk_leg l ''buy'' Put, mk_leg s ''sell'' Put] else [mk_leg s ''sell'' Call, mk_leg l ''buy'' Call])"
    using p(1) by (auto simp: spread_shape_def Let_def split: if_splits)
  show ?thesis
    by (rule exI [of _ s], rule exI [of _ l], rule exI [of _ "ms - ml"], intro conjI) (use p w in simp_all)
qed

definition sample_credit :: credit_vertical_config where
  "sample_credit = \<lparr>cv_base = sample_base\<lparr>cfg_id := CREDIT_VERTICAL\<rparr>, cv_entry = sample_entry, cv_prefer = D1, cv_fallback = W1,
     cv_spread = CreditSpreadWings, min_credit_pct_of_width = 20 / 100, cv_desk = StrategyLegDeskConfig, cv_exits = CreditVerticalExits\<rparr>"

definition sample_credit_market :: market_state where
  "sample_credit_market = sample_market\<lparr>mk_chain := sample_chain\<lparr>
     instruments_by_symbol := [(''C3'', sample_instrument ''C3'' Call 300), (''C4'', sample_instrument ''C4'' Call 350)],
     quotes := [(''C3'', sample_quote ''C3'' 40 (1 / 5)), (''C4'', sample_quote ''C4'' 20 (1 / 10))]\<rparr>\<rparr>"

lemma sample_credit_instruments:
  "instruments_for (mk_chain sample_credit_market) BTC Call D1 0 =
     [sample_instrument ''C3'' Call 300, sample_instrument ''C4'' Call 350]"
  by (simp add: instruments_for_def sample_credit_market_def sample_instrument_def sample_bucket dict_values_def)

lemma sample_wings:
  "select_wing sample_credit_market BTC Call D1 (22 / 100) (18 / 100) (28 / 100) =
     Some \<lparr>instrument = sample_instrument ''C3'' Call 300, quote = sample_quote ''C3'' 40 (1 / 5),
       selection_reason = ''closest_delta_'' @ fmt_fixed 3 (22 / 100)\<rparr>"
  "select_wing sample_credit_market BTC Call D1 (8 / 100) (5 / 100) (12 / 100) =
     Some \<lparr>instrument = sample_instrument ''C4'' Call 350, quote = sample_quote ''C4'' 20 (1 / 10),
       selection_reason = ''closest_delta_'' @ fmt_fixed 3 (8 / 100)\<rparr>"
proof -
  have now: "mk_now sample_credit_market = 0" by (simp add: sample_credit_market_def sample_market_def)
  show "select_wing sample_credit_market BTC Call D1 (22 / 100) (18 / 100) (28 / 100) =
     Some \<lparr>instrument = sample_instrument ''C3'' Call 300, quote = sample_quote ''C3'' 40 (1 / 5),
       selection_reason = ''closest_delta_'' @ fmt_fixed 3 (22 / 100)\<rparr>"
    "select_wing sample_credit_market BTC Call D1 (8 / 100) (5 / 100) (12 / 100) =
     Some \<lparr>instrument = sample_instrument ''C4'' Call 350, quote = sample_quote ''C4'' 20 (1 / 10),
       selection_reason = ''closest_delta_'' @ fmt_fixed 3 (8 / 100)\<rparr>"
    unfolding select_wing_def select_strike_def option.case get_strike_by_delta_def now sample_credit_instruments
    by (simp_all add: List.map_filter_simps delta_candidate_def sample_credit_market_def sample_instrument_def sample_quote_def
        dict_get_def Let_def)
qed

theorem credit_vertical_economics_witness:
  "\<exists>d i. cv_enter sample_credit sample_credit_market BTC False [] = (d, Some i) \<and> length (in_legs i) = 2"
proof -
  have "\<exists>d i. cv_enter sample_credit sample_credit_market BTC False [] = (d, Some i)"
    by (simp add: cv_enter_def cv_pick_expiry_bucket_def sample_credit_def CreditSpreadWings_def sample_wings [simplified] Let_def)
      (simp add: cv_price_def spread_shape_def sample_instrument_def sample_quote_def mid_def check_multi_leg_liquidity_def
        StrategyLegDeskConfig_def leg_quote_features_def Let_def)
  then obtain d i where di: "cv_enter sample_credit sample_credit_market BTC False [] = (d, Some i)" by blast
  have "length (in_legs i) = 2" using credit_vertical_economics [OF di] by auto
  with di show ?thesis by auto
qed

end
