(* ===== verification/LongStraddle.thy ===== *)
theory LongStraddle
  imports CreditVertical
begin

text \<open>
  The long at-the-money straddle after a volatility compression (\<open>bot/strategies/long_straddle.py\<close>).  A
  NaN is \<open>None\<close>: comparisons with it are false, and the percentile rank of a NaN is 0 because no element
  of the history is below it or equal to it.
\<close>

section \<open>Entry\<close>

definition finite_values :: "flt option list \<Rightarrow> flt list" where
  "finite_values xs = List.map_filter id xs"

text \<open>\<open>percentile_rank\<close> with a value that may be NaN.\<close>

definition percentile_rank_opt :: "flt option \<Rightarrow> flt list \<Rightarrow> flt option" where
  "percentile_rank_opt v hist =
     (case v of Some x \<Rightarrow> percentile_rank x hist | None \<Rightarrow> if hist = [] then None else Some 0)"

definition mean_opt :: "flt list \<Rightarrow> flt option" where
  "mean_opt xs = (if xs = [] then None else Some (mean xs))"

definition range_compressed :: "long_straddle_setup \<Rightarrow> flt list \<Rightarrow> bool" where
  "range_compressed s ranges =
     (case (mean_opt (py_slice_from ranges (- range_compression_bars s)),
            mean_opt (py_slice_from ranges (- range_compression_lookback_days s * 96))) of
        (recent, Some lookback) \<Rightarrow>
          lookback > 0 \<and> (case recent of None \<Rightarrow> False | Some r \<Rightarrow> r \<le> range_compression_ratio s * lookback)
      | _ \<Rightarrow> False)"

definition select_straddle ::
  "market_state \<Rightarrow> underlying \<Rightarrow> flt \<Rightarrow> expiry_bucket \<Rightarrow> (strike_selection \<times> flt \<times> strike_selection \<times> flt) option" where
  "select_straddle m u sp bucket =
     (case (select_strike (mk_chain m) u Call bucket None None None (Some sp) 0 (mk_now m),
            select_strike (mk_chain m) u Put bucket None None None (Some sp) 0 (mk_now m)) of
        (Some c, Some p) \<Rightarrow>
          (case (mid (quote c), mid (quote p)) of (Some mc, Some mp) \<Rightarrow> Some (c, mc, p, mp) | _ \<Rightarrow> None)
      | _ \<Rightarrow> None)"

text \<open>The part of \<open>_evaluate_one\<close> after the compression filter has passed.\<close>

definition ls_enter ::
  "long_straddle_config \<Rightarrow> market_state \<Rightarrow> underlying \<Rightarrow> flt \<Rightarrow> (string, pyval) dict \<Rightarrow> decision_rec \<times> intent option" where
  "ls_enter cfg m u sp fv =
     (let reject = (\<lambda>symbol reason f. (mk_decision LONG_STRADDLE (Some u) symbol False reason f, None));
          preferred = select_straddle m u sp (ls_prefer cfg);
          bucket = (if preferred = None then ls_fallback cfg else ls_prefer cfg);
          chosen = (if preferred = None then select_straddle m u sp (ls_fallback cfg) else preferred)
      in case chosen of
           None \<Rightarrow> reject None ''no_acceptable_strike'' fv
         | Some (c, mc, p, mp) \<Rightarrow>
             let liq = check_multi_leg_liquidity [(''call'', c), (''put'', p)]
                         (leg_min_open_interest (ls_desk cfg)) (leg_greeks_required (ls_desk cfg));
                 fv1 = dict_update fv (liq_features liq)
             in if \<not> liq_ok liq then reject (liq_symbol liq) (the_or ''filter_failed'' (liq_reason liq)) fv1
                else
                  let total_premium = mc + mp;
                      fv2 = dict_set ''put_strike'' (VFlt (i_strike (instrument p)))
                              (dict_set ''call_strike'' (VFlt (i_strike (instrument c)))
                                (dict_set ''total_premium'' (VFlt total_premium) fv1))
                  in (mk_decision LONG_STRADDLE (Some u) None True ''passed'' fv2,
                      Some \<lparr>in_strategy_id = LONG_STRADDLE, in_underlying = u, in_bucket = bucket,
                            in_legs = [mk_leg c ''buy'' Call, mk_leg p ''buy'' Put],
                            requested_lots = max_lots_cap (ls_base cfg), rationale = ''long_straddle_compression'',
                            feature_vector = fv2,
                            target_premium_inr = premium_inr m (Some total_premium) (lot_size (instrument c)),
                            target_credit_inr = None, target_max_loss_inr = None, spread_pct_max = 8 / 100\<rparr>))"

definition ls_filter_passes :: "long_straddle_setup \<Rightarrow> flt option \<Rightarrow> flt \<Rightarrow> bool \<Rightarrow> bool" where
  "ls_filter_passes s atr_pct bbw_pct compressed \<longleftrightarrow>
     (case atr_pct of None \<Rightarrow> False | Some a \<Rightarrow> a \<le> atr_percentile_max s) \<and>
     bbw_pct \<le> bbwidth_percentile_max s \<and> (\<not> require_range_compression s \<or> compressed)"

definition ls_evaluate_one ::
  "long_straddle_config \<Rightarrow> strategy_context \<Rightarrow> market_state \<Rightarrow> underlying \<Rightarrow> (decision_rec \<times> intent option) result" where
  "ls_evaluate_one cfg ctx m u =
     (let reject = (\<lambda>reason fv. Inr (mk_decision LONG_STRADDLE (Some u) None False reason fv, None)); s = ls_setup cfg
      in case spot m u of
           None \<Rightarrow> reject ''missing_spot'' []
         | Some sp \<Rightarrow>
             let c15 = market_candles m u (timeframe_value (timeframe_short s));
                 c1h = market_candles m u (timeframe_value (timeframe_long s));
                 min_15m = max (atr_percentile_lookback s) (range_compression_bars s + 1);
                 min_1h = bbwidth_period s + 24
             in if int (length c15) < min_15m \<or> int (length c1h) < min_1h
                then reject ''insufficient_history''
                       [(''n_15m'', VInt (int (length c15))), (''n_1h'', VInt (int (length c1h)))]
                else if is_in_cooldown ctx (mk_now m)
                then reject ''anti_revenge_block''
                       [(''cooldown_until'', VStr (datetime_text '' '' (the (cooldown_until ctx))))]
                else
                  bind_result (atr (map c_high c15) (map c_low c15) (map c_close c15) (ls_atr_period s)) (\<lambda>atr_series.
                  bind_result (py_last atr_series) (\<lambda>latest.
                    case latest of
                      None \<Rightarrow> reject ''atr_not_ready'' []
                    | Some latest_atr \<Rightarrow>
                        let window = finite_values (py_slice_from atr_series (- atr_percentile_lookback s));
                            atr_pct = percentile_rank latest_atr window
                        in bind_result (bollinger_width (map c_close c1h) (bbwidth_period s) (bbwidth_std s)) (\<lambda>bbw.
                           if finite_values bbw = [] then reject ''bbwidth_not_ready'' []
                           else
                             let bbw_pct = the_or 0 (percentile_rank_opt (last bbw) (finite_values bbw));
                                 compressed = range_compressed s (map (\<lambda>c. c_high c - c_low c) c15);
                                 fv = [(''spot'', VFlt sp), (''atr'', VFlt latest_atr), (''atr_pct'', opt_flt atr_pct),
                                       (''bbw_pct'', VFlt bbw_pct), (''range_compressed'', VBool compressed)]
                             in if \<not> ls_filter_passes s atr_pct bbw_pct compressed then reject ''filter_failed'' fv
                                else Inr (ls_enter cfg m u sp fv)))))"

definition ls_evaluate ::
  "long_straddle_config \<Rightarrow> strategy_context \<Rightarrow> market_state \<Rightarrow> (intent list \<times> decision_rec list) result" where
  "ls_evaluate cfg ctx m = evaluate_each (ls_evaluate_one cfg ctx m) (cfg_underlyings (ls_base cfg))"

section \<open>Management\<close>

definition ls_manage ::
  "(string \<Rightarrow> flt option) \<Rightarrow> long_straddle_config \<Rightarrow> position_state \<Rightarrow> market_state \<Rightarrow> action list result" where
  "ls_manage pf config pos m =
     (let cfg = ls_exits config;
          hours_to_expiry = total_seconds (ps_expiry pos - mk_now m) / 3600
      in if hours_to_expiry \<le> lex_force_close_hours_before_expiry cfg then Inr [CLOSE FORCE_CLOSE_EXPIRY []]
         else case entry_premium_inr pos of
           None \<Rightarrow> Inr [NO_OP]
         | Some entry \<Rightarrow>
             bind_result (float_of pf (py_or (vget (ps_notes pos) ''current_total_premium'') (VFlt 0))) (\<lambda>cur.
               if cur \<le> 0 then Inr [NO_OP]
               else if cur \<ge> (1 + profit_take_pct_of_premium cfg) * entry then Inr [CLOSE TARGET []]
               else if cur \<le> (1 - stop_loss_pct_of_premium cfg) * entry then Inr [CLOSE PREMIUM_STOP []]
               else Inr [NO_OP]))"

section \<open>Properties\<close>

lemma select_straddle_Some:
  assumes "select_straddle m u sp bucket = Some (c, mc, p, mp)"
  shows "get_atm_strike (mk_chain m) u Call bucket sp 0 (mk_now m) = Some c"
    and "get_atm_strike (mk_chain m) u Put bucket sp 0 (mk_now m) = Some p"
    and "mid (quote c) = Some mc" and "mid (quote p) = Some mp"
  using assms by (auto simp: select_straddle_def select_strike_def split: option.splits)

lemma ls_enter_intent:
  assumes "ls_enter cfg m u sp fv = (d, Some i)"
  obtains c mc p mp where "select_straddle m u sp (in_bucket i) = Some (c, mc, p, mp)"
    and "in_bucket i \<in> {ls_prefer cfg, ls_fallback cfg}"
    and "in_strategy_id i = LONG_STRADDLE" and "in_underlying i = u" and "dr_passed d"
    and "in_legs i = [mk_leg c ''buy'' Call, mk_leg p ''buy'' Put]"
    and "requested_lots i = max_lots_cap (ls_base cfg)"
    and "target_premium_inr i = premium_inr m (Some (mc + mp)) (lot_size (instrument c))"
    and "leg_liquid (leg_min_open_interest (ls_desk cfg)) (leg_greeks_required (ls_desk cfg)) (quote c)"
    and "leg_liquid (leg_min_open_interest (ls_desk cfg)) (leg_greeks_required (ls_desk cfg)) (quote p)"
  using assms
  by (auto simp: ls_enter_def Let_def mk_decision_def check_multi_leg_liquidity_iff
      split: if_splits option.splits)

lemma ls_evaluate_one_intent:
  assumes "ls_evaluate_one cfg ctx m u = Inr (d, Some i)"
  obtains sp fv where "spot m u = Some sp" and "\<not> is_in_cooldown ctx (mk_now m)"
    and "ls_enter cfg m u sp fv = (d, Some i)"
  using assms
  by (auto simp: ls_evaluate_one_def Let_def split: if_splits option.splits)

lemma ls_manage_ne: "ls_manage pf cfg pos m = Inr acts \<Longrightarrow> length acts = 1"
  by (auto simp: ls_manage_def Let_def split: if_splits option.splits)

end
