(* ===== verification/Strategies.thy ===== *)
theory Strategies
  imports LongStraddle
begin

text \<open>
  The registry (\<open>bot/strategies/registry.py\<close>) and the dispatcher (\<open>bot/strategies/dispatcher.py\<close>) over the
  three strategies.  What the clients of a strategy rely on is the locale \<open>strategy_component\<close>; the three
  strategies interpret it.  The timing of an evaluation (\<open>eval_time_ms\<close>) is not modelled.
\<close>

section \<open>The strategy interface\<close>

text \<open>
  A leg is backed by the market when it names an active listed contract of the intent's underlying and
  bucket, with the contract's strike and expiry, for which the chain holds a quote.
\<close>

definition leg_backed :: "market_state \<Rightarrow> intent \<Rightarrow> leg_intent \<Rightarrow> bool" where
  "leg_backed m i leg \<longleftrightarrow>
     (\<exists>opt. li_option_type leg = option_value opt \<and>
        (\<exists>inst \<in> set (instruments_for (mk_chain m) (in_underlying i) opt (in_bucket i) (mk_now m)).
           i_symbol inst = li_symbol leg \<and> i_strike inst = li_strike leg \<and> i_expiry inst = li_expiry leg \<and>
           get_quote (mk_chain m) (li_symbol leg) \<noteq> None))"

text \<open>What the risk gate and the executor may assume of an intent of strategy \<open>sid\<close>.\<close>

definition intent_sound :: "base_strategy_config \<Rightarrow> strategy_id \<Rightarrow> market_state \<Rightarrow> intent \<Rightarrow> bool" where
  "intent_sound base sid m i \<longleftrightarrow>
     in_strategy_id i = sid \<and> in_underlying i \<in> set (cfg_underlyings base) \<and>
     requested_lots i = max_lots_cap base \<and> in_legs i \<noteq> [] \<and>
     (\<forall>leg \<in> set (in_legs i). leg_backed m i leg) \<and> spot m (in_underlying i) \<noteq> None"

locale strategy_component =
  fixes evaluate_one :: "'cfg \<Rightarrow> strategy_context \<Rightarrow> market_state \<Rightarrow> underlying \<Rightarrow> (decision_rec \<times> intent option) result"
    and manage :: "'cfg \<Rightarrow> position_state \<Rightarrow> market_state \<Rightarrow> action list result"
    and sid :: strategy_id
    and base :: "'cfg \<Rightarrow> base_strategy_config"
  assumes one_owned: "evaluate_one cfg ctx m u = Inr (d, Some i) \<Longrightarrow>
      in_strategy_id i = sid \<and> in_underlying i = u \<and> requested_lots i = max_lots_cap (base cfg)"
    and one_backed: "evaluate_one cfg ctx m u = Inr (d, Some i) \<Longrightarrow>
      in_legs i \<noteq> [] \<and> (\<forall>leg \<in> set (in_legs i). leg_backed m i leg)"
    and one_spot: "evaluate_one cfg ctx m u = Inr (d, Some i) \<Longrightarrow> spot m u \<noteq> None"
    and manage_one: "manage cfg pos m = Inr acts \<Longrightarrow> length acts = 1"
begin

lemma evaluate_sound:
  assumes "evaluate_each (evaluate_one cfg ctx m) (cfg_underlyings (base cfg)) = Inr (is, ds)" and "i \<in> set is"
  shows "intent_sound (base cfg) sid m i"
proof -
  obtain u d where u: "u \<in> set (cfg_underlyings (base cfg))" "evaluate_one cfg ctx m u = Inr (d, Some i)"
    using evaluate_each_intents [OF assms] by auto
  with one_owned [OF u(2)] one_backed [OF u(2)] one_spot [OF u(2)] show ?thesis
    by (simp add: intent_sound_def)
qed

lemma manage_nonempty: "manage cfg pos m = Inr acts \<Longrightarrow> acts \<noteq> []"
  using manage_one by fastforce

end

lemma leg_backed_mk_leg:
  assumes "instrument sel \<in> set (instruments_for (mk_chain m) (in_underlying i) opt (in_bucket i) (mk_now m))"
    and "get_quote (mk_chain m) (i_symbol (instrument sel)) = Some (quote sel)"
  shows "leg_backed m i (mk_leg sel side opt)"
  using assms by (auto simp: leg_backed_def mk_leg_def)

lemma dir_one_backed:
  assumes "dir_evaluate_one sm cfg ctx m u = Inr (d, Some i)"
  shows "in_legs i \<noteq> [] \<and> (\<forall>leg \<in> set (in_legs i). leg_backed m i leg)"
proof -
  obtain sp opt fv where e: "dir_enter sm cfg m u sp opt fv = (d, Some i)"
    using assms by (rule dir_evaluate_one_intent)
  obtain sel where sel: "pick_entry_strike cfg m u opt (dir_pick_expiry_bucket cfg m) sp = Some sel"
    "in_underlying i = u" "in_bucket i = dir_pick_expiry_bucket cfg m" "in_legs i = [mk_leg sel ''buy'' opt]"
    using e by (rule dir_enter_intent) (simp add: mk_leg_def)
  with pick_entry_strike_member [OF sel(1)] show ?thesis
    by (simp add: leg_backed_mk_leg)
qed

lemma spread_shape_legs:
  "spread_shape opt s l = Some (legs, width, kind) \<Longrightarrow> set legs = {mk_leg s ''sell'' opt, mk_leg l ''buy'' opt} \<and> 0 < width"
  by (cases opt) (auto simp: spread_shape_def Let_def split: if_splits)

lemma cv_price_bucket: "cv_price cfg m u opt bucket fv s ms l ml = (d, Some i) \<Longrightarrow> in_bucket i = bucket"
  by (auto simp: cv_price_def Let_def split: if_splits option.splits)

lemma cv_one_backed:
  assumes "cv_evaluate_one cfg ctx m u = Inr (d, Some i)"
  shows "in_legs i \<noteq> [] \<and> (\<forall>leg \<in> set (in_legs i). leg_backed m i leg)"
proof -
  obtain is_long fv where e: "cv_enter cfg m u is_long fv = (d, Some i)"
    using assms by (rule cv_evaluate_one_intent)
  let ?opt = "if is_long then Put else Call"
  obtain s l ms ml ts ls hs tl ll hl where
    w: "select_wing m u ?opt (cv_prefer cfg) ts ls hs = Some s" "select_wing m u ?opt (cv_prefer cfg) tl ll hl = Some l"
    and p: "cv_price cfg m u ?opt (cv_prefer cfg) fv s ms l ml = (d, Some i)"
    using e by (rule cv_enter_intent)
  obtain width kind where "spread_shape ?opt s l = Some (in_legs i, width, kind)" "in_underlying i = u"
    using p by (rule cv_price_intent) auto
  with spread_shape_legs [of ?opt s l] cv_price_bucket [OF p] select_wing_band(1,2) [OF w(1)] select_wing_band(1,2) [OF w(2)]
  have "set (in_legs i) = {mk_leg s ''sell'' ?opt, mk_leg l ''buy'' ?opt}"
    "leg_backed m i (mk_leg s ''sell'' ?opt)" "leg_backed m i (mk_leg l ''buy'' ?opt)"
    by (auto intro!: leg_backed_mk_leg)
  then show ?thesis by fastforce
qed

lemma ls_one_backed:
  assumes "ls_evaluate_one cfg ctx m u = Inr (d, Some i)"
  shows "in_legs i \<noteq> [] \<and> (\<forall>leg \<in> set (in_legs i). leg_backed m i leg)"
proof -
  obtain sp fv where e: "ls_enter cfg m u sp fv = (d, Some i)"
    using assms by (rule ls_evaluate_one_intent)
  obtain c mc p mp where s: "select_straddle m u sp (in_bucket i) = Some (c, mc, p, mp)" "in_underlying i = u"
    "in_legs i = [mk_leg c ''buy'' Call, mk_leg p ''buy'' Put]"
    using e by (rule ls_enter_intent)
  note a = select_straddle_Some(1,2) [OF s(1)]
  show ?thesis
    using get_atm_strike_member [OF a(1)] get_atm_strike_member [OF a(2)] s(2,3)
    by (simp add: leg_backed_mk_leg)
qed

interpretation dir: strategy_component "dir_evaluate_one sm" "dir_manage pf" DIRECTIONAL dir_base for sm pf
proof (unfold_locales)
  show "in_strategy_id i = DIRECTIONAL \<and> in_underlying i = u \<and> requested_lots i = max_lots_cap (dir_base cfg)"
    "spot m u \<noteq> None" if "dir_evaluate_one sm cfg ctx m u = Inr (d, Some i)" for cfg ctx m u d i
    using that by (auto elim!: dir_evaluate_one_intent dir_enter_intent)
qed (use dir_one_backed dir_manage_ne in blast)+

interpretation cv: strategy_component cv_evaluate_one "cv_manage pf" CREDIT_VERTICAL cv_base for pf
proof (unfold_locales)
  show "in_strategy_id i = CREDIT_VERTICAL \<and> in_underlying i = u \<and> requested_lots i = max_lots_cap (cv_base cfg)"
    "spot m u \<noteq> None" if "cv_evaluate_one cfg ctx m u = Inr (d, Some i)" for cfg ctx m u d i
    using that by (auto elim!: cv_evaluate_one_intent cv_enter_intent cv_price_intent)
qed (use cv_one_backed cv_manage_ne in blast)+

interpretation ls: strategy_component ls_evaluate_one "ls_manage pf" LONG_STRADDLE ls_base for pf
proof (unfold_locales)
  show "in_strategy_id i = LONG_STRADDLE \<and> in_underlying i = u \<and> requested_lots i = max_lots_cap (ls_base cfg)"
    "spot m u \<noteq> None" if "ls_evaluate_one cfg ctx m u = Inr (d, Some i)" for cfg ctx m u d i
    using that by (auto elim!: ls_evaluate_one_intent ls_enter_intent)
qed (use ls_one_backed ls_manage_ne in blast)+

section \<open>Dispatch on the strategy class\<close>

definition strategy_evaluate :: "strategy \<Rightarrow> market_state \<Rightarrow> (intent list \<times> decision_rec list) result" where
  "strategy_evaluate s m =
     (case st_config s of
        DirectionalConfig c \<Rightarrow> dir_evaluate DEFAULT_SPREAD_PCT_MAX c (st_context s) m
      | CreditVerticalConfig c \<Rightarrow> cv_evaluate c (st_context s) m
      | LongStraddleConfig c \<Rightarrow> ls_evaluate c (st_context s) m)"

definition strategy_manage ::
  "(string \<Rightarrow> flt option) \<Rightarrow> strategy \<Rightarrow> position_state \<Rightarrow> market_state \<Rightarrow> action list result" where
  "strategy_manage pf s pos m =
     (case st_config s of
        DirectionalConfig c \<Rightarrow> dir_manage pf c pos m
      | CreditVerticalConfig c \<Rightarrow> cv_manage pf c pos m
      | LongStraddleConfig c \<Rightarrow> ls_manage pf c pos m)"

lemma strategy_evaluate_sound:
  assumes "strategy_evaluate s m = Inr (is, ds)" and "i \<in> set is" and "cfg_id_ok (st_config s)"
  shows "intent_sound (cfg_base (st_config s)) (st_id s) m i"
proof (cases "st_config s")
  case (DirectionalConfig c)
  with assms dir.evaluate_sound [of DEFAULT_SPREAD_PCT_MAX c "st_context s" m "is" ds i] show ?thesis
    by (simp add: strategy_evaluate_def dir_evaluate_def)
next
  case (CreditVerticalConfig c)
  with assms cv.evaluate_sound [of c "st_context s" m "is" ds i] show ?thesis
    by (simp add: strategy_evaluate_def cv_evaluate_def)
next
  case (LongStraddleConfig c)
  with assms ls.evaluate_sound [of c "st_context s" m "is" ds i] show ?thesis
    by (simp add: strategy_evaluate_def ls_evaluate_def)
qed

lemma strategy_manage_one: "strategy_manage pf s pos m = Inr acts \<Longrightarrow> length acts = 1"
  by (cases "st_config s") (simp_all add: strategy_manage_def dir_manage_ne cv_manage_ne ls_manage_ne)

section \<open>Registry\<close>

type_synonym registry = "(strategy_id, strategy) dict"

fun register_all :: "strategy list \<Rightarrow> registry \<Rightarrow> registry result" where
  "register_all [] by_id = Inr by_id"
| "register_all (s # ss) by_id =
     (if dict_get by_id (st_id s) \<noteq> None then Inl ValueError else register_all ss (dict_set (st_id s) s by_id))"

definition mk_registry :: "strategy list \<Rightarrow> registry result" where
  "mk_registry ss = register_all ss []"

definition registry_get :: "registry \<Rightarrow> strategy_id \<Rightarrow> strategy result" where
  "registry_get r sid = (case dict_get r sid of None \<Rightarrow> Inl KeyError | Some s \<Rightarrow> Inr s)"

definition registry_enabled :: "registry \<Rightarrow> strategy list" where
  "registry_enabled r = filter (\<lambda>s. cfg_enabled (cfg_base (st_config s))) (dict_values r)"

definition registry_configs :: "registry \<Rightarrow> strategy_config list" where
  "registry_configs r = map st_config (dict_values r)"

definition all_ids :: "registry \<Rightarrow> strategy_id list" where
  "all_ids r = dict_keys r"

definition registry_contains :: "registry \<Rightarrow> strategy_id \<Rightarrow> bool" where
  "registry_contains r sid \<longleftrightarrow> sid \<in> set (all_ids r)"

definition risk_budget_inr :: "registry \<Rightarrow> flt \<Rightarrow> strategy_id \<Rightarrow> flt result" where
  "risk_budget_inr r total_nav_inr sid =
     bind_result (registry_get r sid)
       (\<lambda>s. Inr (total_nav_inr * risk_weight (cfg_base (st_config s)) * risk_per_trade_pct (cfg_base (st_config s))))"

definition registry_wf :: "registry \<Rightarrow> bool" where
  "registry_wf r \<longleftrightarrow> dict_wf r \<and> (\<forall>p \<in> set r. st_id (snd p) = fst p)"

lemma dict_set_fresh: "dict_get d k = None \<Longrightarrow> dict_set k v d = d @ [(k, v)]"
  unfolding dict_get_def dict_set_def by (induction d) (auto split: if_splits)

lemma register_all_iff:
  "(\<exists>r. register_all ss by_id = Inr r) \<longleftrightarrow>
     distinct (map st_id ss) \<and> (\<forall>s \<in> set ss. dict_get by_id (st_id s) = None)"
proof (induction ss arbitrary: by_id)
  case Nil
  then show ?case by simp
next
  case (Cons s ss)
  then show ?case by (auto simp: image_iff)
qed

lemma register_all_result:
  "register_all ss by_id = Inr r \<Longrightarrow> r = by_id @ map (\<lambda>s. (st_id s, s)) ss"
  by (induction ss arbitrary: by_id) (fastforce simp: dict_set_fresh split: if_splits)+

lemma mk_registry_iff: "(\<exists>r. mk_registry ss = Inr r) \<longleftrightarrow> distinct (map st_id ss)"
  by (simp add: mk_registry_def register_all_iff)

lemma mk_registry_wf:
  assumes "mk_registry ss = Inr r"
  shows "registry_wf r" and "dict_values r = ss"
proof -
  have r: "r = map (\<lambda>s. (st_id s, s)) ss"
    using register_all_result [OF assms [unfolded mk_registry_def]] by simp
  have "distinct (map st_id ss)" using assms mk_registry_iff by blast
  then show "registry_wf r" "dict_values r = ss"
    by (auto simp: r registry_wf_def dict_wf_def dict_values_def comp_def)
qed

section \<open>Dispatcher\<close>

record dispatch_result =
  intents_by_strategy :: "(strategy_id, intent list) dict"
  decisions_by_strategy :: "(strategy_id, decision_rec list) dict"
  actions_by_position :: "(int, action list) dict"
  errors :: "(strategy_id, py_error) dict"

definition DispatchResult :: dispatch_result where
  "DispatchResult =
     \<lparr>intents_by_strategy = [], decisions_by_strategy = [], actions_by_position = [], errors = []\<rparr>"

definition all_intents :: "dispatch_result \<Rightarrow> intent list" where
  "all_intents d = concat (dict_values (intents_by_strategy d))"

definition all_decisions :: "dispatch_result \<Rightarrow> decision_rec list" where
  "all_decisions d = concat (dict_values (decisions_by_strategy d))"

definition touch_evaluated :: "datetime \<Rightarrow> strategy \<Rightarrow> strategy" where
  "touch_evaluated now s = s\<lparr>st_context := (st_context s)\<lparr>last_evaluate_ts := Some now\<rparr>\<rparr>"

fun evaluate_loop ::
  "market_state \<Rightarrow> strategy_id set option \<Rightarrow> strategy list \<Rightarrow> dispatch_result \<times> registry \<Rightarrow> dispatch_result \<times> registry" where
  "evaluate_loop m wanted [] st = st"
| "evaluate_loop m wanted (s # ss) (out, r) =
     (if (case wanted of None \<Rightarrow> False | Some w \<Rightarrow> st_id s \<notin> w) then evaluate_loop m wanted ss (out, r)
      else case strategy_evaluate s m of
        Inl e \<Rightarrow> evaluate_loop m wanted ss (out\<lparr>errors := dict_set (st_id s) e (errors out)\<rparr>, r)
      | Inr (is, ds) \<Rightarrow>
          evaluate_loop m wanted ss
            (out\<lparr>intents_by_strategy := dict_set (st_id s) is (intents_by_strategy out),
                 decisions_by_strategy := dict_set (st_id s) ds (decisions_by_strategy out)\<rparr>,
             dict_set (st_id s) (touch_evaluated (mk_now m) s) r))"

definition evaluate_all :: "registry \<Rightarrow> market_state \<Rightarrow> strategy_id set option \<Rightarrow> dispatch_result \<times> registry" where
  "evaluate_all r m only = evaluate_loop m only (registry_enabled r) (DispatchResult, r)"

fun manage_all ::
  "(string \<Rightarrow> flt option) \<Rightarrow> registry \<Rightarrow> position_state list \<Rightarrow> market_state \<Rightarrow> dispatch_result \<Rightarrow> dispatch_result" where
  "manage_all pf r [] m out = out"
| "manage_all pf r (pos # ps) m out =
     manage_all pf r ps m
       (case registry_get r (ps_strategy_id pos) of
          Inl _ \<Rightarrow> out
        | Inr s \<Rightarrow>
            (case strategy_manage pf s pos m of
               Inl e \<Rightarrow> out\<lparr>errors := dict_set (ps_strategy_id pos) e (errors out)\<rparr>
             | Inr acts \<Rightarrow> out\<lparr>actions_by_position := dict_set (trade_id pos) acts (actions_by_position out)\<rparr>))"

section \<open>Properties of the dispatcher\<close>

definition wants :: "strategy_id set option \<Rightarrow> strategy_id \<Rightarrow> bool" where
  "wants only sid = (case only of None \<Rightarrow> True | Some w \<Rightarrow> sid \<in> w)"

text \<open>What the loop leaves under one key, when the keys of the strategies are distinct.\<close>

lemma evaluate_loop_frame:
  "k \<notin> set (map st_id ss) \<Longrightarrow>
     dict_get (intents_by_strategy (fst (evaluate_loop m only ss (out, r)))) k = dict_get (intents_by_strategy out) k \<and>
     dict_get (errors (fst (evaluate_loop m only ss (out, r)))) k = dict_get (errors out) k \<and>
     dict_get (snd (evaluate_loop m only ss (out, r))) k = dict_get r k"
proof (induction ss arbitrary: out r)
  case Nil
  then show ?case by simp
next
  case (Cons s ss)
  then show ?case by (simp split: sum.split prod.split)
qed

lemma evaluate_loop_member:
  assumes "distinct (map st_id ss)" and "s \<in> set ss" and "wants only (st_id s)"
  shows "dict_get (intents_by_strategy (fst (evaluate_loop m only ss (out, r)))) (st_id s) =
           (case strategy_evaluate s m of Inr (is, _) \<Rightarrow> Some is | Inl _ \<Rightarrow> dict_get (intents_by_strategy out) (st_id s))"
    and "dict_get (errors (fst (evaluate_loop m only ss (out, r)))) (st_id s) =
           (case strategy_evaluate s m of Inl e \<Rightarrow> Some e | Inr _ \<Rightarrow> dict_get (errors out) (st_id s))"
proof -
  have "dict_get (intents_by_strategy (fst (evaluate_loop m only ss (out, r)))) (st_id s) =
           (case strategy_evaluate s m of Inr (is, _) \<Rightarrow> Some is | Inl _ \<Rightarrow> dict_get (intents_by_strategy out) (st_id s)) \<and>
        dict_get (errors (fst (evaluate_loop m only ss (out, r)))) (st_id s) =
           (case strategy_evaluate s m of Inl e \<Rightarrow> Some e | Inr _ \<Rightarrow> dict_get (errors out) (st_id s))"
    using assms
  proof (induction ss arbitrary: out r)
    case Nil
    then show ?case by simp
  next
    case (Cons a ss)
    show ?case
    proof (cases "a = s")
      case True
      with Cons.prems have "st_id s \<notin> set (map st_id ss)" by simp
      note fr = evaluate_loop_frame [OF this, of m only]
      have "\<not> (case only of None \<Rightarrow> False | Some w \<Rightarrow> st_id s \<notin> w)"
        using Cons.prems(3) by (simp add: wants_def split: option.splits)
      with True fr show ?thesis by (simp split: sum.split prod.split)
    next
      case False
      with Cons.prems have s: "s \<in> set ss" "st_id s \<noteq> st_id a" by (auto simp: image_iff)
      with Cons.IH [OF _ s(1) Cons.prems(3)] Cons.prems(1) show ?thesis
        by (simp split: sum.split prod.split)
    qed
  qed
  then show "dict_get (intents_by_strategy (fst (evaluate_loop m only ss (out, r)))) (st_id s) =
           (case strategy_evaluate s m of Inr (is, _) \<Rightarrow> Some is | Inl _ \<Rightarrow> dict_get (intents_by_strategy out) (st_id s))"
    "dict_get (errors (fst (evaluate_loop m only ss (out, r)))) (st_id s) =
           (case strategy_evaluate s m of Inl e \<Rightarrow> Some e | Inr _ \<Rightarrow> dict_get (errors out) (st_id s))"
    by simp_all
qed

lemma enabled_distinct: "registry_wf r \<Longrightarrow> distinct (map st_id (registry_enabled r))"
proof -
  assume "registry_wf r"
  then have "map st_id (dict_values r) = map fst r" "distinct (map fst r)"
    by (auto simp: registry_wf_def dict_values_def dict_wf_def)
  then show ?thesis by (metis distinct_map_filter registry_enabled_def)
qed

text \<open>Every intent the dispatcher returns comes from an enabled, wanted strategy.\<close>

lemma evaluate_loop_intents:
  assumes "i \<in> set (all_intents (fst (evaluate_loop m only ss (out, r))))"
  shows "i \<in> set (all_intents out) \<or>
     (\<exists>s \<in> set ss. wants only (st_id s) \<and> (\<exists>is ds. strategy_evaluate s m = Inr (is, ds) \<and> i \<in> set is))"
  using assms
proof (induction ss arbitrary: out r)
  case Nil
  then show ?case by simp
next
  case (Cons s ss)
  have set_sub: "set (all_intents (out\<lparr>intents_by_strategy := dict_set k is (intents_by_strategy out),
      decisions_by_strategy := x\<rparr>)) \<subseteq> set (all_intents out) \<union> set is" for k "is" x
    using set_dict_set_subset [of k "is" "intents_by_strategy out"]
    by (force simp: all_intents_def dict_values_def)
  have err: "all_intents (out\<lparr>errors := y\<rparr>) = all_intents out" for y by (simp add: all_intents_def)
  show ?case
  proof (cases "wants only (st_id s)")
    case False
    then have "i \<in> set (all_intents (fst (evaluate_loop m only ss (out, r))))"
      using Cons.prems by (simp add: wants_def split: option.splits)
    with Cons.IH show ?thesis by fastforce
  next
    case w: True
    then have nw: "\<not> (case only of None \<Rightarrow> False | Some w \<Rightarrow> st_id s \<notin> w)"
      by (simp add: wants_def split: option.splits)
    show ?thesis
    proof (cases "strategy_evaluate s m")
      case (Inl e)
      with Cons.prems nw have "i \<in> set (all_intents
          (fst (evaluate_loop m only ss (out\<lparr>errors := dict_set (st_id s) e (errors out)\<rparr>, r))))"
        by simp
      from Cons.IH [OF this] err show ?thesis by auto
    next
      case (Inr p)
      obtain "is" ds where p: "p = (is, ds)" by (cases p)
      with Cons.prems nw Inr have "i \<in> set (all_intents (fst (evaluate_loop m only ss
          (out\<lparr>intents_by_strategy := dict_set (st_id s) is (intents_by_strategy out),
               decisions_by_strategy := dict_set (st_id s) ds (decisions_by_strategy out)\<rparr>,
           dict_set (st_id s) (touch_evaluated (mk_now m) s) r))))"
        by simp
      from Cons.IH [OF this] set_sub [of _ "st_id s" "is"] Inr p w show ?thesis by fastforce
    qed
  qed
qed

lemma evaluate_all_intents:
  assumes "i \<in> set (all_intents (fst (evaluate_all r m only)))"
  obtains s "is" ds where "s \<in> set (registry_enabled r)" and "wants only (st_id s)"
    and "strategy_evaluate s m = Inr (is, ds)" and "i \<in> set is"
  using evaluate_loop_intents [OF assms [unfolded evaluate_all_def]]
  by (auto simp: all_intents_def DispatchResult_def dict_values_def)

section \<open>Claims about the dispatcher\<close>

text \<open>
  C9: every intent the dispatcher returns comes from an enabled, wanted strategy of the registry, carries
  that strategy's id and lot cap, is on an underlying the strategy is configured for and the market has a
  spot of, and each of its legs names an active listed contract of its bucket for which a quote is cached.
\<close>

theorem dispatched_intents_sound:
  assumes "\<forall>s \<in> set (registry_enabled r). cfg_id_ok (st_config s)"
    and "i \<in> set (all_intents (fst (evaluate_all r m only)))"
  shows "\<exists>s \<in> set (registry_enabled r). wants only (st_id s) \<and> intent_sound (cfg_base (st_config s)) (st_id s) m i"
proof -
  obtain s "is" ds where "s \<in> set (registry_enabled r)" "wants only (st_id s)" "strategy_evaluate s m = Inr (is, ds)" "i \<in> set is"
    using assms(2) by (rule evaluate_all_intents)
  then show ?thesis using strategy_evaluate_sound assms(1) by blast
qed

text \<open>
  The dispatcher isolates the strategies: what it records for an enabled, wanted strategy is the outcome
  of that strategy's own evaluation, its intents or its error, whatever the others do.
\<close>

theorem dispatcher_isolates:
  assumes "registry_wf r" and "s \<in> set (registry_enabled r)" and "wants only (st_id s)"
  shows "dict_get (intents_by_strategy (fst (evaluate_all r m only))) (st_id s) =
           (case strategy_evaluate s m of Inr (is, _) \<Rightarrow> Some is | Inl _ \<Rightarrow> None) \<and>
         dict_get (errors (fst (evaluate_all r m only))) (st_id s) =
           (case strategy_evaluate s m of Inl e \<Rightarrow> Some e | Inr _ \<Rightarrow> None)"
proof -
  have "dict_get (intents_by_strategy DispatchResult) k = None" "dict_get (errors DispatchResult) k = None" for k
    by (simp_all add: DispatchResult_def)
  then show ?thesis
    using evaluate_loop_member [OF enabled_distinct [OF assms(1)] assms(2,3), of m DispatchResult r]
    by (simp add: evaluate_all_def split: sum.splits)
qed

definition sample_strategies :: "strategy list" where
  "sample_strategies = [mk_strategy (DirectionalConfig sample_directional), mk_strategy (CreditVerticalConfig sample_credit)]"

lemma sample_registry:
  "\<exists>r. mk_registry sample_strategies = Inr r \<and> registry_wf r \<and> registry_enabled r = sample_strategies"
proof -
  have "distinct (map st_id sample_strategies)"
    by (simp add: sample_strategies_def mk_strategy_def sample_directional_def sample_credit_def sample_base_def)
  then obtain r where "mk_registry sample_strategies = Inr r" using mk_registry_iff by blast
  moreover from mk_registry_wf [OF this] have "registry_wf r" "registry_enabled r = sample_strategies"
    by (auto simp: registry_enabled_def sample_strategies_def mk_strategy_def sample_directional_def sample_credit_def sample_base_def)
  ultimately show ?thesis by blast
qed

lemma sample_strategy_evaluate:
  "\<exists>i ds. strategy_evaluate (mk_strategy (DirectionalConfig sample_directional)) sample_market = Inr ([i], ds)"
proof -
  obtain d i where di: "dir_evaluate_one DEFAULT_SPREAD_PCT_MAX sample_directional mk_context sample_market BTC = Inr (d, Some i)"
    using sample_directional_intent by blast
  then have "dr_passed d" by (auto elim!: dir_evaluate_one_intent dir_enter_intent)
  moreover have "cfg_underlyings (dir_base sample_directional) = [BTC]" by (simp add: sample_directional_def sample_base_def)
  ultimately show ?thesis
    using di by (simp add: strategy_evaluate_def mk_strategy_def dir_evaluate_def evaluate_each_def List.map_filter_simps)
qed

lemma sample_dispatch:
  assumes "registry_wf r" "registry_enabled r = sample_strategies"
  obtains i where "i \<in> set (all_intents (fst (evaluate_all r sample_market None)))"
proof -
  let ?s = "mk_strategy (DirectionalConfig sample_directional)"
  obtain i ds where e: "strategy_evaluate ?s sample_market = Inr ([i], ds)" using sample_strategy_evaluate by blast
  have "?s \<in> set (registry_enabled r)" using assms(2) by (simp add: sample_strategies_def)
  then have "dict_get (intents_by_strategy (fst (evaluate_all r sample_market None))) (st_id ?s) = Some [i]"
    using evaluate_loop_member(1) [OF enabled_distinct [OF assms(1)], of ?s None sample_market DispatchResult r] e
    by (simp add: evaluate_all_def wants_def)
  then have "i \<in> set (all_intents (fst (evaluate_all r sample_market None)))"
    by (force simp: all_intents_def dict_values_def dest: dict_get_SomeD)
  then show ?thesis by (rule that)
qed

theorem dispatched_intents_sound_witness:
  "\<exists>r i. mk_registry sample_strategies = Inr r \<and> i \<in> set (all_intents (fst (evaluate_all r sample_market None))) \<and>
     (\<exists>s \<in> set (registry_enabled r). wants None (st_id s) \<and> intent_sound (cfg_base (st_config s)) (st_id s) sample_market i)"
proof -
  obtain r where r: "mk_registry sample_strategies = Inr r" "registry_wf r" "registry_enabled r = sample_strategies"
    using sample_registry by blast
  obtain i where i: "i \<in> set (all_intents (fst (evaluate_all r sample_market None)))"
    using r(2,3) by (rule sample_dispatch)
  have ok: "\<forall>s \<in> set (registry_enabled r). cfg_id_ok (st_config s)"
    by (simp add: r(3) sample_strategies_def mk_strategy_def sample_directional_def sample_credit_def sample_base_def)
  show ?thesis using dispatched_intents_sound [OF ok i] r(1) i by blast
qed

theorem dispatcher_isolates_witness:
  "\<exists>r i ds. mk_registry sample_strategies = Inr r \<and>
     strategy_evaluate (mk_strategy (DirectionalConfig sample_directional)) sample_market = Inr ([i], ds) \<and>
     dict_get (intents_by_strategy (fst (evaluate_all r sample_market None))) DIRECTIONAL = Some [i]"
proof -
  let ?s = "mk_strategy (DirectionalConfig sample_directional)"
  obtain r where r: "mk_registry sample_strategies = Inr r" "registry_wf r" "registry_enabled r = sample_strategies"
    using sample_registry by blast
  obtain i ds where e: "strategy_evaluate ?s sample_market = Inr ([i], ds)" using sample_strategy_evaluate by blast
  have "?s \<in> set (registry_enabled r)" using r(3) by (simp add: sample_strategies_def)
  moreover have "st_id ?s = DIRECTIONAL" by (simp add: mk_strategy_def sample_directional_def sample_base_def)
  ultimately have "dict_get (intents_by_strategy (fst (evaluate_all r sample_market None))) DIRECTIONAL = Some [i]"
    using dispatcher_isolates [OF r(2), of ?s None sample_market] e by (simp add: wants_def)
  with r(1) e show ?thesis by blast
qed

end
