(* ===== verification/Exits.thy ===== *)
theory Exits
  imports Strategies
begin

text \<open>
  The exit engine (\<open>bot/exits/engine.py\<close>).  \<open>step\<close> refreshes the engine-owned runtime of one position,
  asks its strategy to manage the position and turns the actions into directives.  The runtime and the
  position in it are mutated by the code and returned here.
\<close>

section \<open>Data\<close>

datatype exit_kind = EXIT_CLOSE | EXIT_UPDATE_STOP | EXIT_NO_OP

record position_runtime =
  rt_position :: position_state
  rt_peak_pnl_inr :: flt
  rt_trough_pnl_inr :: flt
  peak_underlying :: "flt option"
  trough_underlying :: "flt option"
  last_trail_stop :: "flt option"
  last_trail_update_ts :: "datetime option"
  history_ticks :: nat

definition PositionRuntime :: "position_state \<Rightarrow> position_runtime" where
  "PositionRuntime pos =
     \<lparr>rt_position = pos, rt_peak_pnl_inr = 0, rt_trough_pnl_inr = 0, peak_underlying = None,
      trough_underlying = None, last_trail_stop = None, last_trail_update_ts = None, history_ticks = 0\<rparr>"

record exit_directive =
  ed_trade_id :: int
  ed_kind :: exit_kind
  ed_trigger :: "exit_trigger option"
  ed_new_stop_price :: "flt option"
  ed_leg_states :: "leg_state list"
  ed_notes :: "(string, pyval) dict"

section \<open>Refreshing the position\<close>

definition opt_max :: "flt option \<Rightarrow> flt \<Rightarrow> flt option" where
  "opt_max x y = (case x of None \<Rightarrow> Some y | Some v \<Rightarrow> Some (max v y))"

definition opt_min :: "flt option \<Rightarrow> flt \<Rightarrow> flt option" where
  "opt_min x y = (case x of None \<Rightarrow> Some y | Some v \<Rightarrow> Some (min v y))"

definition quoted_mid :: "market_state \<Rightarrow> string \<Rightarrow> flt option" where
  "quoted_mid m symbol = (case dict_get (quote_for m) symbol of None \<Rightarrow> None | Some q \<Rightarrow> mid q)"

definition refresh_leg_mid :: "market_state \<Rightarrow> position_runtime \<Rightarrow> position_runtime" where
  "refresh_leg_mid m rt =
     (let pos = rt_position rt
      in case leg_states pos of
           [] \<Rightarrow> rt
         | leg # legs \<Rightarrow>
             (case quoted_mid m (ls_symbol leg) of
                None \<Rightarrow> rt
              | Some x \<Rightarrow>
                  let pos1 = pos\<lparr>leg_states := leg\<lparr>ls_current_mid := Some x\<rparr> # legs\<rparr>
                  in case entry_premium_inr pos of
                       None \<Rightarrow> rt\<lparr>rt_position := pos1\<rparr>
                     | Some entry \<Rightarrow>
                         let pnl = (x - entry) * of_int (ps_lots pos);
                             peak = max (rt_peak_pnl_inr rt) pnl
                         in rt\<lparr>rt_position := pos1\<lparr>peak_pnl_inr := Some peak\<rparr>, rt_peak_pnl_inr := peak,
                               rt_trough_pnl_inr := min (rt_trough_pnl_inr rt) pnl\<rparr>))"

definition refresh_underlying :: "market_state \<Rightarrow> position_runtime \<Rightarrow> position_runtime" where
  "refresh_underlying m rt =
     (case spot m (ps_underlying (rt_position rt)) of
        None \<Rightarrow> rt
      | Some s \<Rightarrow> rt\<lparr>peak_underlying := opt_max (peak_underlying rt) s, trough_underlying := opt_min (trough_underlying rt) s\<rparr>)"

text \<open>The sums over the legs return early, without a note, when a leg has no mid.\<close>

fun unwind_cost :: "market_state \<Rightarrow> leg_state list \<Rightarrow> flt \<Rightarrow> flt option" where
  "unwind_cost m [] acc = Some acc"
| "unwind_cost m (leg # legs) acc =
     (case quoted_mid m (ls_symbol leg) of
        None \<Rightarrow> None
      | Some x \<Rightarrow>
          let side = the_or ''buy'' (ls_side leg); sign = (if side = ''sell'' then 1 else - 1)
          in unwind_cost m legs (acc + sign * x))"

fun premium_sum :: "market_state \<Rightarrow> leg_state list \<Rightarrow> flt \<Rightarrow> flt option" where
  "premium_sum m [] acc = Some acc"
| "premium_sum m (leg # legs) acc =
     (case quoted_mid m (ls_symbol leg) of None \<Rightarrow> None | Some x \<Rightarrow> premium_sum m legs (acc + x))"

definition note_position :: "string \<Rightarrow> flt option \<Rightarrow> position_runtime \<Rightarrow> position_runtime" where
  "note_position key x rt =
     (case x of
        None \<Rightarrow> rt
      | Some v \<Rightarrow> rt\<lparr>rt_position := (rt_position rt)\<lparr>ps_notes := dict_set key (VFlt v) (ps_notes (rt_position rt))\<rparr>\<rparr>)"

definition refresh_position_state :: "market_state \<Rightarrow> strategy_config \<Rightarrow> position_runtime \<Rightarrow> position_runtime" where
  "refresh_position_state m cfg rt =
     (case cfg of
        DirectionalConfig _ \<Rightarrow>
          let rt1 = refresh_underlying m (refresh_leg_mid m rt)
          in rt1\<lparr>rt_position := (rt_position rt1)\<lparr>current_trail_stop_price := last_trail_stop rt1\<rparr>\<rparr>
      | CreditVerticalConfig _ \<Rightarrow>
          note_position ''current_unwind_cost'' (unwind_cost m (leg_states (rt_position rt)) 0) rt
      | LongStraddleConfig _ \<Rightarrow>
          note_position ''current_total_premium'' (premium_sum m (leg_states (rt_position rt)) 0) rt)"

section \<open>Trailing\<close>

definition maybe_apply_chandelier :: "registry \<Rightarrow> flt \<Rightarrow> position_runtime \<Rightarrow> flt result" where
  "maybe_apply_chandelier r candidate rt =
     bind_result (registry_get r (ps_strategy_id (rt_position rt))) (\<lambda>s.
       case st_config s of
         DirectionalConfig cfg \<Rightarrow>
           (case (entry_atr (rt_position rt), peak_underlying rt, leg_states (rt_position rt)) of
              (Some a, Some peak, leg # _) \<Rightarrow>
                let mult = trail_chandelier_atr_mult (dir_exits cfg)
                in if ls_option_type leg = Some ''call'' then Inr (max candidate (peak - mult * a))
                   else
                     let trough = (case trough_underlying rt of None \<Rightarrow> peak | Some t \<Rightarrow> if t = 0 then peak else t)
                     in Inr (min candidate (trough + mult * a))
            | _ \<Rightarrow> Inr candidate)
       | _ \<Rightarrow> Inr candidate)"

definition leg_is_call :: "position_state \<Rightarrow> bool" where
  "leg_is_call pos =
     (case leg_states pos of
        [] \<Rightarrow> False
      | leg # _ \<Rightarrow> (case ls_option_type leg of None \<Rightarrow> False | Some t \<Rightarrow> py_lower t = ''call''))"

definition should_emit_trail :: "flt \<Rightarrow> position_runtime \<Rightarrow> flt \<Rightarrow> datetime \<Rightarrow> bool" where
  "should_emit_trail throttle rt new_stop now =
     (case last_trail_stop rt of
        None \<Rightarrow> True
      | Some old \<Rightarrow>
          if (case last_trail_update_ts rt of None \<Rightarrow> False | Some t \<Rightarrow> total_seconds (now - t) < throttle) then False
          else if leg_is_call (rt_position rt) then new_stop > old + 1 / 1000000
          else new_stop < old - 1 / 1000000)"

section \<open>Directives\<close>

definition no_op_directive :: "position_state \<Rightarrow> exit_directive" where
  "no_op_directive pos =
     \<lparr>ed_trade_id = trade_id pos, ed_kind = EXIT_NO_OP, ed_trigger = None, ed_new_stop_price = None,
      ed_leg_states = [], ed_notes = []\<rparr>"

fun translate_action ::
  "registry \<Rightarrow> flt \<Rightarrow> market_state \<Rightarrow> action \<Rightarrow> position_runtime \<Rightarrow> (exit_directive list \<times> position_runtime) result" where
  "translate_action r throttle m (CLOSE reason ns) rt =
     Inr ([\<lparr>ed_trade_id = trade_id (rt_position rt), ed_kind = EXIT_CLOSE, ed_trigger = Some reason,
            ed_new_stop_price = None, ed_leg_states = leg_states (rt_position rt), ed_notes = ns\<rparr>], rt)"
| "translate_action r throttle m (TRAIL_STOP price ns) rt =
     bind_result (maybe_apply_chandelier r price rt) (\<lambda>new_stop.
       if should_emit_trail throttle rt new_stop (mk_now m)
       then Inr ([\<lparr>ed_trade_id = trade_id (rt_position rt), ed_kind = EXIT_UPDATE_STOP, ed_trigger = None,
                   ed_new_stop_price = Some new_stop, ed_leg_states = [], ed_notes = ns\<rparr>],
                 rt\<lparr>last_trail_stop := Some new_stop, last_trail_update_ts := Some (mk_now m)\<rparr>)
       else Inr ([], rt))"
| "translate_action r throttle m NO_OP rt = Inr ([no_op_directive (rt_position rt)], rt)"

fun translate_actions ::
  "registry \<Rightarrow> flt \<Rightarrow> market_state \<Rightarrow> action list \<Rightarrow> position_runtime \<Rightarrow>
   (exit_directive list \<times> position_runtime) result" where
  "translate_actions r throttle m [] rt = Inr ([], rt)"
| "translate_actions r throttle m (a # as) rt =
     bind_result (translate_action r throttle m a rt) (\<lambda>p.
     bind_result (translate_actions r throttle m as (snd p)) (\<lambda>q. Inr (fst p @ fst q, snd q)))"

definition step ::
  "(string \<Rightarrow> flt option) \<Rightarrow> registry \<Rightarrow> flt \<Rightarrow> position_runtime \<Rightarrow> market_state \<Rightarrow>
   (exit_directive list \<times> position_runtime) result" where
  "step pf r throttle rt m =
     (let rt0 = rt\<lparr>history_ticks := history_ticks rt + 1\<rparr>
      in bind_result (registry_get r (ps_strategy_id (rt_position rt0))) (\<lambda>s.
           let rt1 = refresh_position_state m (st_config s) rt0
           in bind_result (strategy_manage pf s (rt_position rt1) m) (\<lambda>acts.
                translate_actions r throttle m acts rt1)))"

section \<open>Properties\<close>

lemma refresh_position_keeps:
  "last_trail_stop (refresh_position_state m cfg rt) = last_trail_stop rt"
  "ps_strategy_id (rt_position (refresh_position_state m cfg rt)) = ps_strategy_id (rt_position rt)"
  "trade_id (rt_position (refresh_position_state m cfg rt)) = trade_id (rt_position rt)"
  "ps_expiry (rt_position (refresh_position_state m cfg rt)) = ps_expiry (rt_position rt)"
  "rt_peak_pnl_inr rt \<le> rt_peak_pnl_inr (refresh_position_state m cfg rt)"
  "rt_trough_pnl_inr (refresh_position_state m cfg rt) \<le> rt_trough_pnl_inr rt"
  by (simp_all add: refresh_position_state_def refresh_underlying_def refresh_leg_mid_def note_position_def Let_def
      split: strategy_config.split option.split list.split)

lemma refresh_directional_trail:
  "current_trail_stop_price (rt_position (refresh_position_state m (DirectionalConfig c) rt)) = last_trail_stop rt"
  by (simp add: refresh_position_state_def refresh_underlying_def refresh_leg_mid_def Let_def
      split: option.split list.split)

text \<open>Only the directional strategy trails, and only while no stop has been set.\<close>

lemma dir_manage_trail:
  "dir_manage pf c pos m = Inr [TRAIL_STOP x ns] \<Longrightarrow> current_trail_stop_price pos = None"
  by (auto simp: dir_manage_def Let_def split: if_splits option.splits list.splits)

lemma strategy_manage_trail:
  assumes "strategy_manage pf s pos m = Inr [TRAIL_STOP x ns]"
  shows "\<exists>c. st_config s = DirectionalConfig c \<and> current_trail_stop_price pos = None"
  using assms dir_manage_trail
  by (auto simp: strategy_manage_def cv_manage_def ls_manage_def Let_def
      split: strategy_config.splits if_splits option.splits)

lemma length_one: "length xs = 1 \<Longrightarrow> \<exists>x. xs = [x]"
  by (cases xs) auto

lemma translate_one: "translate_actions r throttle m [a] rt = translate_action r throttle m a rt"
  by (cases "translate_action r throttle m a rt") auto

lemma translate_trail:
  assumes "translate_action r throttle m (TRAIL_STOP x ns) rt = Inr (ds, rt')" and "last_trail_stop rt = None"
  obtains y where "maybe_apply_chandelier r x rt = Inr y"
    "rt' = rt\<lparr>last_trail_stop := Some y, last_trail_update_ts := Some (mk_now m)\<rparr>"
    "ds = [\<lparr>ed_trade_id = trade_id (rt_position rt), ed_kind = EXIT_UPDATE_STOP, ed_trigger = None,
            ed_new_stop_price = Some y, ed_leg_states = [], ed_notes = ns\<rparr>]"
  using assms by (auto simp: should_emit_trail_def)

text \<open>The three outcomes of a step.\<close>

lemma step_cases:
  assumes "step pf r throttle rt m = Inr (ds, rt')"
  obtains (Close) s rt1 reason ns where "registry_get r (ps_strategy_id (rt_position rt)) = Inr s"
      "rt1 = refresh_position_state m (st_config s) (rt\<lparr>history_ticks := history_ticks rt + 1\<rparr>)"
      "strategy_manage pf s (rt_position rt1) m = Inr [CLOSE reason ns]" "rt' = rt1"
      "ds = [\<lparr>ed_trade_id = trade_id (rt_position rt), ed_kind = EXIT_CLOSE, ed_trigger = Some reason,
              ed_new_stop_price = None, ed_leg_states = leg_states (rt_position rt1), ed_notes = ns\<rparr>]"
  | (Trail) s c rt1 x ns new_stop where "registry_get r (ps_strategy_id (rt_position rt)) = Inr s"
      "st_config s = DirectionalConfig c"
      "rt1 = refresh_position_state m (st_config s) (rt\<lparr>history_ticks := history_ticks rt + 1\<rparr>)"
      "strategy_manage pf s (rt_position rt1) m = Inr [TRAIL_STOP x ns]"
      "last_trail_stop rt = None" "maybe_apply_chandelier r x rt1 = Inr new_stop"
      "rt' = rt1\<lparr>last_trail_stop := Some new_stop, last_trail_update_ts := Some (mk_now m)\<rparr>"
      "ds = [\<lparr>ed_trade_id = trade_id (rt_position rt), ed_kind = EXIT_UPDATE_STOP, ed_trigger = None,
              ed_new_stop_price = Some new_stop, ed_leg_states = [], ed_notes = ns\<rparr>]"
  | (Idle) s rt1 where "registry_get r (ps_strategy_id (rt_position rt)) = Inr s"
      "rt1 = refresh_position_state m (st_config s) (rt\<lparr>history_ticks := history_ticks rt + 1\<rparr>)"
      "strategy_manage pf s (rt_position rt1) m = Inr [NO_OP]" "rt' = rt1" "ds = [no_op_directive (rt_position rt1)]"
proof -
  let ?rt0 = "rt\<lparr>history_ticks := history_ticks rt + 1\<rparr>"
  obtain s acts where s: "registry_get r (ps_strategy_id (rt_position rt)) = Inr s"
    and acts: "strategy_manage pf s (rt_position (refresh_position_state m (st_config s) ?rt0)) m = Inr acts"
    and tr: "translate_actions r throttle m acts (refresh_position_state m (st_config s) ?rt0) = Inr (ds, rt')"
    using assms by (auto simp: step_def Let_def)
  let ?rt1 = "refresh_position_state m (st_config s) ?rt0"
  obtain a where a: "acts = [a]" using strategy_manage_one [OF acts] length_one by blast
  show thesis
  proof (cases a)
    case (CLOSE reason ns)
    have "rt' = ?rt1" and ds: "ds = [\<lparr>ed_trade_id = trade_id (rt_position ?rt1), ed_kind = EXIT_CLOSE,
        ed_trigger = Some reason, ed_new_stop_price = None, ed_leg_states = leg_states (rt_position ?rt1), ed_notes = ns\<rparr>]"
      using tr [unfolded a CLOSE translate_one] by auto
    then show thesis
      by (intro Close [OF s refl acts [unfolded a CLOSE]]) (simp_all add: refresh_position_keeps)
  next
    case (TRAIL_STOP x ns)
    with acts a strategy_manage_trail obtain c where c: "st_config s = DirectionalConfig c"
      "current_trail_stop_price (rt_position ?rt1) = None" by blast
    then have none: "last_trail_stop rt = None"
      using refresh_directional_trail [of m c ?rt0] by simp
    have "last_trail_stop ?rt1 = None" using none by (simp add: refresh_position_keeps)
    from tr [unfolded a TRAIL_STOP translate_one] this obtain y where y: "maybe_apply_chandelier r x ?rt1 = Inr y"
      "rt' = ?rt1\<lparr>last_trail_stop := Some y, last_trail_update_ts := Some (mk_now m)\<rparr>"
      "ds = [\<lparr>ed_trade_id = trade_id (rt_position ?rt1), ed_kind = EXIT_UPDATE_STOP, ed_trigger = None,
              ed_new_stop_price = Some y, ed_leg_states = [], ed_notes = ns\<rparr>]"
      by (rule translate_trail)
    show thesis
      by (rule Trail [OF s c(1) refl acts [unfolded a TRAIL_STOP] none y(1,2)]) (simp add: y(3) refresh_position_keeps)
  next
    case NO_OP
    have "rt' = ?rt1" "ds = [no_op_directive (rt_position ?rt1)]"
      using tr [unfolded a NO_OP translate_one] by auto
    then show thesis by (intro Idle [OF s refl acts [unfolded a NO_OP]])
  qed
qed

text \<open>
  The trail stop is written at most once: after a step has set it, no later step changes it.  The
  chandelier of the module's documentation never moves again.
\<close>

lemma step_keeps_trail:
  assumes "step pf r throttle rt m = Inr (ds, rt')" and "last_trail_stop rt = Some x"
  shows "last_trail_stop rt' = Some x" and "\<forall>d \<in> set ds. ed_kind d \<noteq> EXIT_UPDATE_STOP"
  using assms by (cases rule: step_cases [OF assms(1)]; auto simp: refresh_position_keeps no_op_directive_def)+

lemma step_peak:
  assumes "step pf r throttle rt m = Inr (ds, rt')"
  shows "rt_peak_pnl_inr rt \<le> rt_peak_pnl_inr rt'" and "rt_trough_pnl_inr rt' \<le> rt_trough_pnl_inr rt"
    and "history_ticks rt \<le> history_ticks rt'"
proof -
  let ?rt0 = "rt\<lparr>history_ticks := history_ticks rt + 1\<rparr>"
  have h: "history_ticks (refresh_position_state m cfg ?rt0) = history_ticks rt + 1" for cfg
    by (simp add: refresh_position_state_def refresh_underlying_def refresh_leg_mid_def note_position_def Let_def
        split: strategy_config.split option.split list.split)
  note k = refresh_position_keeps(5) [of ?rt0] refresh_position_keeps(6) [of _ _ ?rt0]
  show "rt_peak_pnl_inr rt \<le> rt_peak_pnl_inr rt'" "rt_trough_pnl_inr rt' \<le> rt_trough_pnl_inr rt"
    "history_ticks rt \<le> history_ticks rt'"
    by (cases rule: step_cases [OF assms]; use k h in simp)+
qed

lemma step_one_directive:
  assumes "step pf r throttle rt m = Inr (ds, rt')"
  shows "\<exists>d. ds = [d] \<and> ed_trade_id d = trade_id (rt_position rt)"
  by (cases rule: step_cases [OF assms]) (auto simp: no_op_directive_def refresh_position_keeps)

section \<open>Runs of the exit engine\<close>

text \<open>The ticks of one position: the directives of every step, in order.\<close>

fun exit_run ::
  "(string \<Rightarrow> flt option) \<Rightarrow> registry \<Rightarrow> flt \<Rightarrow> market_state list \<Rightarrow> position_runtime \<Rightarrow>
   (exit_directive list \<times> position_runtime) result" where
  "exit_run pf r throttle [] rt = Inr ([], rt)"
| "exit_run pf r throttle (m # ms) rt =
     bind_result (step pf r throttle rt m) (\<lambda>(ds, rt1).
       bind_result (exit_run pf r throttle ms rt1) (\<lambda>(es, rt2). Inr (ds @ es, rt2)))"

definition stop_updates :: "exit_directive list \<Rightarrow> exit_directive list" where
  "stop_updates ds = filter (\<lambda>d. ed_kind d = EXIT_UPDATE_STOP) ds"

lemma refresh_ticked:
  assumes "rt1 = refresh_position_state m cfg (rt\<lparr>history_ticks := n\<rparr>)"
  shows "last_trail_stop rt1 = last_trail_stop rt" "trade_id (rt_position rt1) = trade_id (rt_position rt)"
    "rt_peak_pnl_inr rt \<le> rt_peak_pnl_inr rt1" "rt_trough_pnl_inr rt1 \<le> rt_trough_pnl_inr rt"
  using assms refresh_position_keeps(5,6) [where rt = "rt\<lparr>history_ticks := n\<rparr>" and m = m and cfg = cfg]
  by (simp_all add: refresh_position_keeps(1,3))

lemma step_summary:
  assumes "step pf r throttle rt m = Inr (ds, rt')"
  shows "\<exists>d. ds = [d] \<and> ed_trade_id d = trade_id (rt_position rt) \<and>
      (ed_kind d = EXIT_UPDATE_STOP \<longrightarrow> last_trail_stop rt = None \<and> last_trail_stop rt' \<noteq> None) \<and>
      (last_trail_stop rt \<noteq> None \<longrightarrow> last_trail_stop rt' = last_trail_stop rt) \<and>
      trade_id (rt_position rt') = trade_id (rt_position rt) \<and>
      rt_peak_pnl_inr rt \<le> rt_peak_pnl_inr rt' \<and> rt_trough_pnl_inr rt' \<le> rt_trough_pnl_inr rt"
  using assms
proof (cases rule: step_cases)
  case (Close s rt1 reason ns)
  then show ?thesis using refresh_ticked [OF Close(2)] by simp
next
  case (Trail s c rt1 x ns new_stop)
  then show ?thesis using refresh_ticked [OF Trail(3)] by simp
next
  case (Idle s rt1)
  then show ?thesis using refresh_ticked [OF Idle(2)] by (simp add: no_op_directive_def)
qed

lemma exit_run_updates:
  assumes "exit_run pf r throttle ms rt = Inr (ds, rt')"
  shows "length (stop_updates ds) \<le> (if last_trail_stop rt = None then 1 else 0)"
    and "length ds = length ms" and "\<forall>d \<in> set ds. ed_trade_id d = trade_id (rt_position rt)"
    and "rt_peak_pnl_inr rt \<le> rt_peak_pnl_inr rt'" and "rt_trough_pnl_inr rt' \<le> rt_trough_pnl_inr rt"
proof -
  have "length (stop_updates ds) \<le> (if last_trail_stop rt = None then 1 else 0) \<and>
    length ds = length ms \<and> (\<forall>d \<in> set ds. ed_trade_id d = trade_id (rt_position rt)) \<and>
    rt_peak_pnl_inr rt \<le> rt_peak_pnl_inr rt' \<and> rt_trough_pnl_inr rt' \<le> rt_trough_pnl_inr rt"
    using assms
  proof (induction ms arbitrary: rt ds)
    case Nil
    then show ?case by (simp add: stop_updates_def)
  next
    case (Cons m ms)
    from Cons.prems obtain ds1 rt1 es where st: "step pf r throttle rt m = Inr (ds1, rt1)"
      and run: "exit_run pf r throttle ms rt1 = Inr (es, rt')" and ds: "ds = ds1 @ es" by auto
    obtain d where d: "ds1 = [d]" "ed_trade_id d = trade_id (rt_position rt)"
      "ed_kind d = EXIT_UPDATE_STOP \<longrightarrow> last_trail_stop rt = None \<and> last_trail_stop rt1 \<noteq> None"
      "last_trail_stop rt \<noteq> None \<longrightarrow> last_trail_stop rt1 = last_trail_stop rt"
      and s: "trade_id (rt_position rt1) = trade_id (rt_position rt)"
      "rt_peak_pnl_inr rt \<le> rt_peak_pnl_inr rt1" "rt_trough_pnl_inr rt1 \<le> rt_trough_pnl_inr rt"
      using step_summary [OF st] by blast
    note ih = Cons.IH [OF run]
    have "length (stop_updates ds) \<le> (if last_trail_stop rt = None then 1 else 0)"
      using ih d by (auto simp: ds stop_updates_def split: if_splits)
    then show ?case using ih d s by (auto simp: ds)
  qed
  then show "length (stop_updates ds) \<le> (if last_trail_stop rt = None then 1 else 0)" "length ds = length ms"
    "\<forall>d \<in> set ds. ed_trade_id d = trade_id (rt_position rt)"
    "rt_peak_pnl_inr rt \<le> rt_peak_pnl_inr rt'" "rt_trough_pnl_inr rt' \<le> rt_trough_pnl_inr rt" by simp_all
qed

text \<open>
  C22: a run of the exit engine over any sequence of markets emits one directive per tick, each for the
  position's own trade, never lowers the peak or raises the trough of the profit, and moves the stop at
  most once: after the first trail no tick emits another.
\<close>

theorem exit_run_moves_stop_once:
  assumes "exit_run pf r throttle ms rt = Inr (ds, rt')"
  shows "length ds = length ms \<and> (\<forall>d \<in> set ds. ed_trade_id d = trade_id (rt_position rt)) \<and>
     rt_peak_pnl_inr rt \<le> rt_peak_pnl_inr rt' \<and> rt_trough_pnl_inr rt' \<le> rt_trough_pnl_inr rt \<and>
     length (stop_updates ds) \<le> 1"
  using exit_run_updates [OF assms] by (simp split: if_splits)


definition sample_position :: position_state where
  "sample_position =
     \<lparr>trade_id = 1, ps_strategy_id = DIRECTIONAL, ps_underlying = BTC, ps_expiry = 20 * hour_us, ps_lots = 2,
      ps_entry_ts = 0, entry_premium_inr = Some 20, entry_credit_inr = None, entry_underlying_price = None,
      entry_atr = None, current_stop_price = None, current_trail_stop_price = None, peak_pnl_inr = None,
      leg_states = [\<lparr>ls_symbol = ''C2'', ls_option_type = Some ''call'', ls_current_mid = None, ls_side = None\<rparr>], ps_notes = []\<rparr>"

definition sample_exit_registry :: registry where
  "sample_exit_registry = [(DIRECTIONAL, mk_strategy (DirectionalConfig sample_directional))]"

lemmas sample_exit_defs = sample_position_def sample_exit_registry_def mk_strategy_def sample_directional_def sample_market_def
  sample_quote_def registry_get_def dict_get_def PositionRuntime_def DirectionalDeskConfig_def DirectionalExits_def

lemma sample_exit_step:
  "\<exists>rt1. last_trail_stop rt1 = Some 20 \<and> step (\<lambda>_. None) sample_exit_registry 5 (PositionRuntime sample_position) sample_market =
     Inr ([\<lparr>ed_trade_id = 1, ed_kind = EXIT_UPDATE_STOP, ed_trigger = None, ed_new_stop_price = Some 20, ed_leg_states = [], ed_notes = []\<rparr>], rt1)"
  by (simp add: step_def sample_exit_defs refresh_position_state_def refresh_leg_mid_def refresh_underlying_def note_position_def
      quoted_mid_def mid_def spot_def strategy_manage_def dir_manage_def desk_greek_exit_def total_seconds_def time_defs us_per_s_def
      underlying_stop_hit_def maybe_apply_chandelier_def should_emit_trail_def opt_max_def opt_min_def Let_def)


theorem exit_run_moves_stop_once_witness:
  "\<exists>ds rt'. exit_run (\<lambda>_. None) sample_exit_registry 5 [sample_market] (PositionRuntime sample_position) = Inr (ds, rt') \<and>
     length ds = 1 \<and> length (stop_updates ds) \<le> 1 \<and> last_trail_stop rt' = Some 20"
proof -
  obtain ds rt' where run: "exit_run (\<lambda>_. None) sample_exit_registry 5 [sample_market] (PositionRuntime sample_position) = Inr (ds, rt')"
    and "last_trail_stop rt' = Some 20"
    using sample_exit_step by fastforce
  then show ?thesis using exit_run_moves_stop_once [OF run] by auto
qed

end
