(* ===== verification/Caps.thy ===== *)
theory Caps
  imports Window
begin

text \<open>
  The three loss caps and the NAV bookkeeping (\<open>bot/risk/caps.py\<close>).  \<open>evaluate\<close> divides by the peak
  NAV, which a non-positive peak replaces by the current NAV: the division raises when both are zero,
  and the model returns \<open>ZeroDivisionError\<close> there.  The sentinel file of \<open>trip_breaker\<close> and
  \<open>clear_breaker\<close> is passed and returned as the fact that it exists.
\<close>

section \<open>Loss caps\<close>

datatype cap_status = CAP_OK | DAILY_TRIPPED | WEEKLY_TRIPPED | CAP_CIRCUIT_BREAKER

record loss_cap_result =
  status :: cap_status
  daily_pnl_pct :: flt
  weekly_pnl_pct :: flt
  drawdown_from_peak_pct :: flt

definition trading_allowed :: "loss_cap_result \<Rightarrow> bool" where
  "trading_allowed r \<longleftrightarrow> status r = CAP_OK"

record drawdown_caps =
  daily_loss_pct :: flt
  weekly_loss_pct :: flt
  lifetime_dd_pct :: flt

definition pct_change :: "flt \<Rightarrow> flt \<Rightarrow> flt" where
  "pct_change now base = (if base > 0 then (now - base) / base else 0)"

definition evaluate ::
  "drawdown_caps \<Rightarrow> flt \<Rightarrow> flt \<Rightarrow> flt \<Rightarrow> flt \<Rightarrow> bool \<Rightarrow> loss_cap_result result" where
  "evaluate caps nav_now nav_open_today nav_open_week peak_nav circuit_breaker_tripped =
     (let peak_nav = (if peak_nav \<le> 0 then nav_now else peak_nav);
          daily_pct = pct_change nav_now nav_open_today;
          weekly_pct = pct_change nav_now nav_open_week
      in if peak_nav = 0 then Inl ZeroDivisionError
         else
           let dd = (nav_now - peak_nav) / peak_nav;
               mk = (\<lambda>st. \<lparr>status = st, daily_pnl_pct = daily_pct, weekly_pnl_pct = weekly_pct,
                            drawdown_from_peak_pct = dd\<rparr>)
           in if circuit_breaker_tripped \<or> dd \<le> - lifetime_dd_pct caps then Inr (mk CAP_CIRCUIT_BREAKER)
              else if weekly_pct \<le> - weekly_loss_pct caps then Inr (mk WEEKLY_TRIPPED)
              else if daily_pct \<le> - daily_loss_pct caps then Inr (mk DAILY_TRIPPED)
              else Inr (mk CAP_OK))"

section \<open>NAV tracker\<close>

record nav_tracker =
  nav_now :: flt
  nav_open_today :: flt
  nav_open_week :: flt
  peak_nav :: flt
  circuit_breaker_tripped :: bool
  last_update_ts :: datetime

definition update_nav :: "flt \<Rightarrow> datetime option \<Rightarrow> nav_tracker \<Rightarrow> nav_tracker" where
  "update_nav new_nav now n =
     n\<lparr>nav_now := new_nav, peak_nav := max (peak_nav n) new_nav,
       last_update_ts := (case now of Some t \<Rightarrow> t | None \<Rightarrow> last_update_ts n)\<rparr>"

definition roll_day :: "datetime \<Rightarrow> nav_tracker \<Rightarrow> nav_tracker" where
  "roll_day now n =
     (let n1 = n\<lparr>nav_open_today := nav_now n\<rparr>;
          n2 = (if weekday (date_of now) = 0 then n1\<lparr>nav_open_week := nav_now n1\<rparr> else n1)
      in n2\<lparr>last_update_ts := now\<rparr>)"

text \<open>
  \<open>sentinel\<close> says whether a sentinel path was passed and \<open>marker_exists\<close> whether that file exists: its
  text is never read back, so its existence is all that is kept of it.
\<close>

definition trip_breaker :: "bool \<Rightarrow> nav_tracker \<Rightarrow> bool \<Rightarrow> nav_tracker \<times> bool" where
  "trip_breaker sentinel n marker_exists =
     (n\<lparr>circuit_breaker_tripped := True\<rparr>, if sentinel then True else marker_exists)"

definition clear_breaker :: "bool \<Rightarrow> nav_tracker \<Rightarrow> bool \<Rightarrow> nav_tracker \<times> bool" where
  "clear_breaker sentinel n marker_exists =
     (n\<lparr>circuit_breaker_tripped := False\<rparr>, if sentinel \<and> marker_exists then False else marker_exists)"

definition evaluate_nav :: "drawdown_caps \<Rightarrow> nav_tracker \<Rightarrow> loss_cap_result result" where
  "evaluate_nav caps n =
     evaluate caps (nav_now n) (nav_open_today n) (nav_open_week n) (peak_nav n) (circuit_breaker_tripped n)"

lemmas caps_defs = evaluate_nav_def evaluate_def pct_change_def Let_def

section \<open>Properties\<close>

lemma evaluate_nav_fields:
  assumes "evaluate_nav caps n = Inr r"
  shows "daily_pnl_pct r = pct_change (nav_now n) (nav_open_today n)"
    and "weekly_pnl_pct r = pct_change (nav_now n) (nav_open_week n)"
    and "drawdown_from_peak_pct r =
           (let p = (if peak_nav n \<le> 0 then nav_now n else peak_nav n) in (nav_now n - p) / p)"
    and "status r =
           (if circuit_breaker_tripped n \<or> drawdown_from_peak_pct r \<le> - lifetime_dd_pct caps
            then CAP_CIRCUIT_BREAKER
            else if weekly_pnl_pct r \<le> - weekly_loss_pct caps then WEEKLY_TRIPPED
            else if daily_pnl_pct r \<le> - daily_loss_pct caps then DAILY_TRIPPED
            else CAP_OK)"
  using assms unfolding evaluate_nav_def evaluate_def Let_def
  by (simp_all split: if_split_asm) (auto split: if_splits)

lemma evaluate_defined: "0 < peak_nav n \<or> nav_now n \<noteq> 0 \<Longrightarrow> \<exists>r. evaluate_nav caps n = Inr r"
  by (auto simp: caps_defs)

lemma peak_nav_mono:
  "peak_nav n \<le> peak_nav (update_nav v t n)"
  "peak_nav (roll_day now n) = peak_nav n"
  by (simp_all add: update_nav_def roll_day_def Let_def)

lemma update_nav_le_peak: "nav_now (update_nav v now n) \<le> peak_nav (update_nav v now n)"
  by (simp add: update_nav_def)

lemma roll_day_nav [simp]: "nav_now (roll_day now n) = nav_now n"
  by (simp add: roll_day_def Let_def)

text \<open>
  A loss cap expressed in money: with positive anchors, trading is allowed exactly when the breaker is
  clear and the NAV is above each of the three floors.
\<close>

lemma trading_allowed_floors:
  assumes "evaluate_nav caps n = Inr r"
    and "0 < nav_open_today n" "0 < nav_open_week n" "0 < peak_nav n"
  shows "trading_allowed r \<longleftrightarrow>
     \<not> circuit_breaker_tripped n \<and>
     nav_now n > (1 - lifetime_dd_pct caps) * peak_nav n \<and>
     nav_now n > (1 - weekly_loss_pct caps) * nav_open_week n \<and>
     nav_now n > (1 - daily_loss_pct caps) * nav_open_today n"
proof -
  have le: "(a - b) / b \<le> - c \<longleftrightarrow> a \<le> (1 - c) * b" if "0 < b" for a b c :: real
    using that by (simp add: divide_le_eq algebra_simps)
  note f = evaluate_nav_fields [OF assms(1)]
  show ?thesis
    unfolding trading_allowed_def f(4) f(1,2,3) Let_def pct_change_def
    using assms(2-4) by (simp add: le not_le)
qed

text \<open>
  With positive anchors trading is allowed exactly while the breaker is not tripped and the NAV is
  strictly above the floor that each loss cap sets under its anchor.
\<close>

theorem trading_allowed_iff_floors:
  assumes "0 < nav_open_today n" and "0 < nav_open_week n" and "0 < peak_nav n"
  shows "\<exists>r. evaluate_nav caps n = Inr r \<and>
     (trading_allowed r \<longleftrightarrow>
        \<not> circuit_breaker_tripped n \<and>
        nav_now n > (1 - lifetime_dd_pct caps) * peak_nav n \<and>
        nav_now n > (1 - weekly_loss_pct caps) * nav_open_week n \<and>
        nav_now n > (1 - daily_loss_pct caps) * nav_open_today n)"
proof -
  obtain r where "evaluate_nav caps n = Inr r" using evaluate_defined assms(3) by blast
  then show ?thesis using trading_allowed_floors assms by blast
qed

theorem trading_allowed_iff_floors_witness:
  "\<exists>r. evaluate_nav \<lparr>daily_loss_pct = 3 / 100, weekly_loss_pct = 6 / 100, lifetime_dd_pct = 15 / 100\<rparr>
       \<lparr>nav_now = 48000, nav_open_today = 50000, nav_open_week = 49000, peak_nav = 52000,
        circuit_breaker_tripped = False, last_update_ts = 0\<rparr> = Inr r \<and> \<not> trading_allowed r"
  using trading_allowed_iff_floors
    [of "\<lparr>nav_now = 48000, nav_open_today = 50000, nav_open_week = 49000, peak_nav = 52000,
          circuit_breaker_tripped = False, last_update_ts = 0\<rparr>"
        "\<lparr>daily_loss_pct = 3 / 100, weekly_loss_pct = 6 / 100, lifetime_dd_pct = 15 / 100\<rparr>"] by simp

end
