(* ===== verification/Risk.thy ===== *)
theory Risk
  imports Caps Desk
begin

text \<open>
  The risk manager (\<open>bot/risk/manager.py\<close>): the gate an intent passes before any order is sent, and the
  sizing rules of the three strategies.  The gate raises when the caps or the desk policy raise.
\<close>

section \<open>Data\<close>

datatype risk_decision =
    APPROVED | OUTSIDE_TRADING_WINDOW | CIRCUIT_BREAKER | DAILY_CAP_TRIPPED | WEEKLY_CAP_TRIPPED
  | STRATEGY_MAX_CONCURRENT | GLOBAL_MAX_CONCURRENT | ZERO_LOTS_AFTER_FLOOR | PREMIUM_ABOVE_RISK_BUDGET
  | CONDOR_MAX_LOSS_ABOVE_BUDGET | STRANGLE_PREMIUM_ABOVE_RISK_BUDGET | STRATEGY_DISABLED
  | STRATEGY_NOT_LIVE_ENABLED | LOW_OPEN_INTEREST | MISSING_GREEKS | PORTFOLIO_DELTA_LIMIT
  | PORTFOLIO_VEGA_LIMIT

fun decision_value :: "risk_decision \<Rightarrow> string" where
  "decision_value APPROVED = ''approved''"
| "decision_value OUTSIDE_TRADING_WINDOW = ''outside_trading_window''"
| "decision_value CIRCUIT_BREAKER = ''circuit_breaker''"
| "decision_value DAILY_CAP_TRIPPED = ''daily_cap_tripped''"
| "decision_value WEEKLY_CAP_TRIPPED = ''weekly_cap_tripped''"
| "decision_value STRATEGY_MAX_CONCURRENT = ''strategy_max_concurrent''"
| "decision_value GLOBAL_MAX_CONCURRENT = ''global_max_concurrent''"
| "decision_value ZERO_LOTS_AFTER_FLOOR = ''zero_lots_after_floor''"
| "decision_value PREMIUM_ABOVE_RISK_BUDGET = ''premium_above_risk_budget''"
| "decision_value CONDOR_MAX_LOSS_ABOVE_BUDGET = ''condor_max_loss_above_budget''"
| "decision_value STRANGLE_PREMIUM_ABOVE_RISK_BUDGET = ''strangle_premium_above_risk_budget''"
| "decision_value STRATEGY_DISABLED = ''strategy_disabled''"
| "decision_value STRATEGY_NOT_LIVE_ENABLED = ''strategy_not_live_enabled''"
| "decision_value LOW_OPEN_INTEREST = ''low_open_interest''"
| "decision_value MISSING_GREEKS = ''missing_greeks''"
| "decision_value PORTFOLIO_DELTA_LIMIT = ''portfolio_delta_limit''"
| "decision_value PORTFOLIO_VEGA_LIMIT = ''portfolio_vega_limit''"

text \<open>\<open>RiskDecision(reason)\<close>, the constructor from text, on the members the desk policy names.\<close>

definition all_decisions_list :: "risk_decision list" where
  "all_decisions_list =
     [APPROVED, OUTSIDE_TRADING_WINDOW, CIRCUIT_BREAKER, DAILY_CAP_TRIPPED, WEEKLY_CAP_TRIPPED,
      STRATEGY_MAX_CONCURRENT, GLOBAL_MAX_CONCURRENT, ZERO_LOTS_AFTER_FLOOR, PREMIUM_ABOVE_RISK_BUDGET,
      CONDOR_MAX_LOSS_ABOVE_BUDGET, STRANGLE_PREMIUM_ABOVE_RISK_BUDGET, STRATEGY_DISABLED,
      STRATEGY_NOT_LIVE_ENABLED, LOW_OPEN_INTEREST, MISSING_GREEKS, PORTFOLIO_DELTA_LIMIT, PORTFOLIO_VEGA_LIMIT]"

definition RiskDecision :: "string \<Rightarrow> risk_decision result" where
  "RiskDecision s =
     (case List.find (\<lambda>d. decision_value d = s) all_decisions_list of None \<Rightarrow> Inl ValueError | Some d \<Rightarrow> Inr d)"

record sizing_result =
  decision :: risk_decision
  sz_intent :: intent
  sized_lots :: int
  risk_inr :: flt
  sz_notes :: "(string, pyval) dict"

definition reject :: "risk_decision \<Rightarrow> intent \<Rightarrow> (string, pyval) dict \<Rightarrow> sizing_result" where
  "reject d i ns = \<lparr>decision = d, sz_intent = i, sized_lots = 0, risk_inr = 0, sz_notes = ns\<rparr>"

definition approved :: "sizing_result \<Rightarrow> bool" where
  "approved r \<longleftrightarrow> decision r = APPROVED"

record trade_accounting_snapshot =
  open_count_total :: int
  open_count_by_strategy :: "(strategy_id, int) dict"

record risk_manager =
  rm_cfg :: global_config
  rm_nav :: nav_tracker
  rm_strategies :: "(strategy_id, strategy_config) dict"
  rm_require_live_enabled :: bool

definition rm_window :: "risk_manager \<Rightarrow> trading_window" where
  "rm_window rm =
     (let w = trading_window_cfg (rm_cfg rm)
      in \<lparr>tw_start = twc_start w, tw_end = twc_end w, tw_force_close = twc_force_close w\<rparr>)"

definition rm_caps :: "risk_manager \<Rightarrow> drawdown_caps" where
  "rm_caps rm =
     (let c = risk_caps (rm_cfg rm)
      in \<lparr>daily_loss_pct = rc_daily_loss_pct c, weekly_loss_pct = rc_weekly_loss_pct c,
          lifetime_dd_pct = rc_lifetime_dd_pct c\<rparr>)"

definition trade_risk_budget_inr :: "risk_manager \<Rightarrow> base_strategy_config \<Rightarrow> flt \<Rightarrow> flt" where
  "trade_risk_budget_inr rm cfg rate =
     (let budget = nav_now (rm_nav rm) * risk_weight cfg * risk_per_trade_pct cfg
      in case trade_premium_cap_usd cfg of None \<Rightarrow> budget | Some cap \<Rightarrow> min budget (cap * rate))"

definition evaluate_caps :: "risk_manager \<Rightarrow> loss_cap_result result" where
  "evaluate_caps rm = evaluate_nav (rm_caps rm) (rm_nav rm)"

fun cap_to_decision :: "cap_status \<Rightarrow> risk_decision" where
  "cap_to_decision CAP_OK = APPROVED"
| "cap_to_decision DAILY_TRIPPED = DAILY_CAP_TRIPPED"
| "cap_to_decision WEEKLY_TRIPPED = WEEKLY_CAP_TRIPPED"
| "cap_to_decision CAP_CIRCUIT_BREAKER = CIRCUIT_BREAKER"

section \<open>Sizing\<close>

text \<open>
  The three branches of \<open>_size_intent\<close> have one shape: the money at risk per lot, the decision when it is
  missing, the decision when no lot fits, and the key under which it is noted.
\<close>

fun per_lot_risk :: "intent \<Rightarrow> flt option" where
  "per_lot_risk i =
     (case in_strategy_id i of
        DIRECTIONAL \<Rightarrow> target_premium_inr i
      | CREDIT_VERTICAL \<Rightarrow> target_max_loss_inr i
      | LONG_STRADDLE \<Rightarrow> target_premium_inr i)"

definition missing_decision :: "strategy_id \<Rightarrow> risk_decision" where
  "missing_decision s =
     (case s of
        DIRECTIONAL \<Rightarrow> PREMIUM_ABOVE_RISK_BUDGET
      | CREDIT_VERTICAL \<Rightarrow> CONDOR_MAX_LOSS_ABOVE_BUDGET
      | LONG_STRADDLE \<Rightarrow> STRANGLE_PREMIUM_ABOVE_RISK_BUDGET)"

definition missing_note :: "strategy_id \<Rightarrow> string" where
  "missing_note s = (case s of CREDIT_VERTICAL \<Rightarrow> ''missing_max_loss'' | _ \<Rightarrow> ''missing_premium'')"

definition zero_lots_decision :: "strategy_id \<Rightarrow> risk_decision" where
  "zero_lots_decision s =
     (case s of
        DIRECTIONAL \<Rightarrow> ZERO_LOTS_AFTER_FLOOR
      | CREDIT_VERTICAL \<Rightarrow> CONDOR_MAX_LOSS_ABOVE_BUDGET
      | LONG_STRADDLE \<Rightarrow> STRANGLE_PREMIUM_ABOVE_RISK_BUDGET)"

definition per_lot_key :: "strategy_id \<Rightarrow> string" where
  "per_lot_key s =
     (case s of
        DIRECTIONAL \<Rightarrow> ''per_lot''
      | CREDIT_VERTICAL \<Rightarrow> ''per_lot_max_loss''
      | LONG_STRADDLE \<Rightarrow> ''per_lot_premium'')"

definition is_scalar :: "pyval \<Rightarrow> bool" where
  "is_scalar v = (case v of VBool _ \<Rightarrow> True | VInt _ \<Rightarrow> True | VFlt _ \<Rightarrow> True | VStr _ \<Rightarrow> True | _ \<Rightarrow> False)"

text \<open>\<open>raw_lots\<close> and the first value of \<open>sized\<close>.\<close>

definition raw_size :: "risk_manager \<Rightarrow> intent \<Rightarrow> base_strategy_config \<Rightarrow> flt \<Rightarrow> flt \<Rightarrow> int" where
  "raw_size rm i cfg rate per_lot =
     min (min \<lfloor>trade_risk_budget_inr rm cfg rate / per_lot\<rfloor> (requested_lots i)) (max_lots_cap cfg)"

text \<open>The desk block of \<open>_size_intent\<close>: the lots after the greek caps and the notes.\<close>

definition apply_greek_cap ::
  "desk_config \<Rightarrow> intent \<Rightarrow> int \<Rightarrow> (string, pyval) dict \<Rightarrow> (string, quote_snapshot) dict option \<Rightarrow> chain_cache option \<Rightarrow>
   flt \<Rightarrow> int \<times> (string, pyval) dict" where
  "apply_greek_cap dk i sized ns qf chain rate =
     (case qf of
        None \<Rightarrow> (sized, ns)
      | Some q \<Rightarrow>
          if desk_enabled dk \<and> sized \<ge> 1
          then let c = cap_lots_by_greeks i sized q chain (max_vega_per_trade_inr dk) (max_gamma_per_trade_inr dk) rate
               in (if fst c < sized then fst c else sized,
                   dict_update ns (filter (\<lambda>kv. is_scalar (snd kv)) (snd c)))
          else (sized, ns))"

definition size_intent ::
  "risk_manager \<Rightarrow> intent \<Rightarrow> base_strategy_config \<Rightarrow> (string, quote_snapshot) dict option \<Rightarrow> chain_cache option \<Rightarrow> flt \<Rightarrow>
   sizing_result" where
  "size_intent rm i cfg qf chain rate =
     (let sid = in_strategy_id i; budget = trade_risk_budget_inr rm cfg rate
      in case per_lot_risk i of
           None \<Rightarrow> reject (missing_decision sid) i [(''reason'', VStr (missing_note sid))]
         | Some per_lot \<Rightarrow>
             if per_lot \<le> 0 then reject (missing_decision sid) i [(''reason'', VStr (missing_note sid))]
             else
               let sized = raw_size rm i cfg rate per_lot;
                   ns = [(''risk_budget_inr'', VFlt budget), (per_lot_key sid, VFlt per_lot)]
               in if sized < 1 then reject (zero_lots_decision sid) i ns
                  else
                    let st = apply_greek_cap (desk (rm_cfg rm)) i sized ns qf chain rate
                    in if fst st < 1 then reject ZERO_LOTS_AFTER_FLOOR i (snd st)
                       else \<lparr>decision = APPROVED, sz_intent = i, sized_lots = fst st,
                             risk_inr = of_int (fst st) * per_lot, sz_notes = snd st\<rparr>)"

section \<open>The gate\<close>

text \<open>The desk checks of the gate: \<open>Inr None\<close> lets the intent pass.\<close>

definition desk_gate ::
  "risk_manager \<Rightarrow> intent \<Rightarrow> portfolio_greeks option \<Rightarrow> (string, quote_snapshot) dict option \<Rightarrow> chain_cache option \<Rightarrow>
   (underlying, flt) dict option \<Rightarrow> flt \<Rightarrow> sizing_result option result" where
  "desk_gate rm i pg qf chain marks rate =
     (let dk = desk (rm_cfg rm)
      in if \<not> desk_enabled dk then Inr None
         else
           bind_result
             (case (pg, marks) of
                (Some p, Some mk) \<Rightarrow> check_portfolio dk p mk rate
              | _ \<Rightarrow> Inr (None, []))
             (\<lambda>(reason, pnotes).
                case reason of
                  Some r \<Rightarrow> bind_result (RiskDecision r) (\<lambda>d. Inr (Some (reject d i pnotes)))
                | None \<Rightarrow>
                    (case qf of
                       None \<Rightarrow> Inr None
                     | Some q \<Rightarrow>
                         (case check_intent dk i q chain of
                            (None, _) \<Rightarrow> Inr None
                          | (Some r, inotes) \<Rightarrow>
                              bind_result (RiskDecision r) (\<lambda>d. Inr (Some (reject d i (dict_update pnotes inotes))))))))"

definition gate ::
  "risk_manager \<Rightarrow> intent \<Rightarrow> datetime \<Rightarrow> trade_accounting_snapshot \<Rightarrow> portfolio_greeks option \<Rightarrow>
   (string, quote_snapshot) dict option \<Rightarrow> chain_cache option \<Rightarrow> (underlying, flt) dict option \<Rightarrow> flt \<Rightarrow>
   sizing_result result" where
  "gate rm i now_utc accounting pg qf chain marks rate =
     (if \<not> is_open (rm_window rm) now_utc then Inr (reject OUTSIDE_TRADING_WINDOW i [])
      else
        bind_result (evaluate_caps rm) (\<lambda>cap.
          if cap_to_decision (status cap) \<noteq> APPROVED
          then Inr (reject (cap_to_decision (status cap)) i
                 [(''daily_pnl_pct'', VFlt (daily_pnl_pct cap)), (''weekly_pnl_pct'', VFlt (weekly_pnl_pct cap)),
                  (''dd_pct'', VFlt (drawdown_from_peak_pct cap))])
          else
            case dict_get (rm_strategies rm) (in_strategy_id i) of
              None \<Rightarrow> Inr (reject STRATEGY_DISABLED i [])
            | Some scfg \<Rightarrow>
                let cfg = cfg_base scfg
                in if \<not> cfg_enabled cfg then Inr (reject STRATEGY_DISABLED i [])
                   else if rm_require_live_enabled rm \<and> \<not> cfg_enabled_live cfg
                   then Inr (reject STRATEGY_NOT_LIVE_ENABLED i [])
                   else if open_count_total accounting \<ge> max_total (concurrency (rm_cfg rm))
                   then Inr (reject GLOBAL_MAX_CONCURRENT i [])
                   else if the_or 0 (dict_get (open_count_by_strategy accounting) (in_strategy_id i))
                             \<ge> max_per_strategy (concurrency (rm_cfg rm))
                   then Inr (reject STRATEGY_MAX_CONCURRENT i [])
                   else
                     bind_result (desk_gate rm i pg qf chain marks rate) (\<lambda>stopped.
                       case stopped of
                         Some r \<Rightarrow> Inr r
                       | None \<Rightarrow> Inr (size_intent rm i cfg qf chain rate))))"

section \<open>Properties\<close>

lemma reject_simps [simp]:
  "decision (reject d i ns) = d" "sz_intent (reject d i ns) = i" "sized_lots (reject d i ns) = 0"
  "risk_inr (reject d i ns) = 0" "sz_notes (reject d i ns) = ns"
  by (simp_all add: reject_def)

lemma cap_to_decision_ok [simp]: "cap_to_decision s = APPROVED \<longleftrightarrow> s = CAP_OK"
  by (cases s) simp_all

lemma decision_value_inject: "decision_value a = decision_value b \<longleftrightarrow> a = b"
  by (cases a; cases b) simp_all

lemma RiskDecision_InrD: "RiskDecision s = Inr d \<Longrightarrow> decision_value d = s"
  by (auto simp: RiskDecision_def find_Some_iff split: option.splits)

lemma RiskDecision_value: "RiskDecision (decision_value d) = Inr d"
  by (cases d) (simp_all add: RiskDecision_def all_decisions_list_def)

lemma not_approved_by_size:
  "missing_decision s \<noteq> APPROVED" "zero_lots_decision s \<noteq> APPROVED"
  by (cases s; simp add: missing_decision_def zero_lots_decision_def)+

lemma apply_greek_cap_bounds:
  assumes "1 \<le> sized"
  shows "1 \<le> fst (apply_greek_cap dk i sized ns qf chain rate)" "fst (apply_greek_cap dk i sized ns qf chain rate) \<le> sized"
  using assms cap_lots_by_greeks_bounds [OF assms]
  by (simp_all add: apply_greek_cap_def Let_def split: option.splits)

text \<open>\<open>size_intent\<close> as two cases: no lot fits, or the capped lots are approved.\<close>

lemma size_intent_cases:
  obtains (rejected) d ns where "size_intent rm i cfg qf chain rate = reject d i ns" "d \<noteq> APPROVED"
  | (sized) per_lot st where "per_lot_risk i = Some per_lot" "0 < per_lot" "1 \<le> raw_size rm i cfg rate per_lot"
      "1 \<le> fst st" "fst st \<le> raw_size rm i cfg rate per_lot"
      "size_intent rm i cfg qf chain rate =
         \<lparr>decision = APPROVED, sz_intent = i, sized_lots = fst st, risk_inr = of_int (fst st) * per_lot, sz_notes = snd st\<rparr>"
proof (cases "per_lot_risk i")
  case None
  then show ?thesis
    using rejected not_approved_by_size(1) by (simp add: size_intent_def Let_def del: per_lot_risk.simps)
next
  case (Some p)
  consider "p \<le> 0" | "0 < p" "raw_size rm i cfg rate p < 1" | "0 < p" "1 \<le> raw_size rm i cfg rate p"
    by linarith
  then show ?thesis
  proof cases
    case 1
    with Some show ?thesis
      using rejected not_approved_by_size(1) by (simp add: size_intent_def Let_def del: per_lot_risk.simps)
  next
    case 2
    with Some show ?thesis
      using rejected not_approved_by_size(2)
      by (simp add: size_intent_def Let_def del: per_lot_risk.simps)
  next
    case 3
    let ?ns = "[(''risk_budget_inr'', VFlt (trade_risk_budget_inr rm cfg rate)), (per_lot_key (in_strategy_id i), VFlt p)]"
    let ?st = "apply_greek_cap (desk (rm_cfg rm)) i (raw_size rm i cfg rate p) ?ns qf chain rate"
    have b: "1 \<le> fst ?st" "fst ?st \<le> raw_size rm i cfg rate p"
      using apply_greek_cap_bounds [OF 3(2)] by simp_all
    have "size_intent rm i cfg qf chain rate =
       \<lparr>decision = APPROVED, sz_intent = i, sized_lots = fst ?st, risk_inr = of_int (fst ?st) * p, sz_notes = snd ?st\<rparr>"
      using 3 Some b(1) by (simp add: size_intent_def Let_def not_less del: per_lot_risk.simps)
    with sized [OF Some 3 b] show ?thesis by simp
  qed
qed

text \<open>An approved size: at least one lot, within every cap, and the money at risk within the budget.\<close>

lemma size_intent_approved:
  assumes "decision (size_intent rm i cfg qf chain rate) = APPROVED"
    and r: "r = size_intent rm i cfg qf chain rate"
  shows "\<exists>per_lot. per_lot_risk i = Some per_lot \<and> 0 < per_lot \<and> risk_inr r = of_int (sized_lots r) * per_lot"
    and "risk_inr r \<le> trade_risk_budget_inr rm cfg rate"
    and "1 \<le> sized_lots r" and "sized_lots r \<le> requested_lots i" and "sized_lots r \<le> max_lots_cap cfg"
    and "sz_intent r = i"
proof -
  obtain p st where p: "per_lot_risk i = Some p" "0 < p" "1 \<le> fst st" "fst st \<le> raw_size rm i cfg rate p"
    "r = \<lparr>decision = APPROVED, sz_intent = i, sized_lots = fst st, risk_inr = of_int (fst st) * p, sz_notes = snd st\<rparr>"
    using assms by (cases rule: size_intent_cases [of rm i cfg qf chain rate]) auto
  have "of_int (fst st) \<le> trade_risk_budget_inr rm cfg rate / p"
    using p(4) by (simp add: raw_size_def) linarith
  then show "risk_inr r \<le> trade_risk_budget_inr rm cfg rate"
    using p by (simp add: pos_le_divide_eq)
  show "\<exists>per_lot. per_lot_risk i = Some per_lot \<and> 0 < per_lot \<and> risk_inr r = of_int (sized_lots r) * per_lot"
    "1 \<le> sized_lots r" "sized_lots r \<le> requested_lots i" "sized_lots r \<le> max_lots_cap cfg" "sz_intent r = i"
    using p by (simp_all add: raw_size_def del: per_lot_risk.simps)
qed

lemma size_intent_rejected:
  "decision (size_intent rm i cfg qf chain rate) \<noteq> APPROVED \<Longrightarrow> sized_lots (size_intent rm i cfg qf chain rate) = 0"
  by (cases rule: size_intent_cases [of rm i cfg qf chain rate]) simp_all

lemma check_portfolio_reason:
  "check_portfolio dk p mk rate = Inr (Some r, ns) \<Longrightarrow> r \<in> {''portfolio_delta_limit'', ''portfolio_vega_limit''}"
  by (auto simp: check_portfolio_def Let_def split: if_splits prod.splits)

lemma check_intent_loop_reason:
  "fst (check_intent_loop dk q chain legs ns) = Some r \<Longrightarrow> r \<in> {''missing_greeks'', ''low_open_interest''}"
  by (induction legs arbitrary: ns) (auto simp: Let_def split: option.splits if_splits)

lemma RiskDecision_desk [simp]:
  "RiskDecision ''portfolio_delta_limit'' = Inr PORTFOLIO_DELTA_LIMIT"
  "RiskDecision ''portfolio_vega_limit'' = Inr PORTFOLIO_VEGA_LIMIT"
  "RiskDecision ''missing_greeks'' = Inr MISSING_GREEKS"
  "RiskDecision ''low_open_interest'' = Inr LOW_OPEN_INTEREST"
  by (simp_all add: RiskDecision_def all_decisions_list_def)

lemma check_intent_reason:
  "check_intent dk i q chain = (Some r, ns) \<Longrightarrow> r \<in> {''missing_greeks'', ''low_open_interest''}"
  unfolding check_intent_def using check_intent_loop_reason by (metis fst_conv)

lemma desk_gate_not_approved:
  assumes "desk_gate rm i pg qf chain marks rate = Inr (Some r)"
  shows "decision r \<noteq> APPROVED \<and> sized_lots r = 0"
  using assms
  by (auto simp: desk_gate_def Let_def split: if_splits option.splits prod.splits
      dest!: check_intent_reason check_portfolio_reason)

lemma gate_approved:
  assumes "gate rm i now acc pg qf chain marks rate = Inr r" and "approved r"
  obtains cap scfg where "is_open (rm_window rm) now"
    and "evaluate_caps rm = Inr cap" and "trading_allowed cap"
    and "dict_get (rm_strategies rm) (in_strategy_id i) = Some scfg"
    and "cfg_enabled (cfg_base scfg)" and "rm_require_live_enabled rm \<longrightarrow> cfg_enabled_live (cfg_base scfg)"
    and "open_count_total acc < max_total (concurrency (rm_cfg rm))"
    and "the_or 0 (dict_get (open_count_by_strategy acc) (in_strategy_id i)) < max_per_strategy (concurrency (rm_cfg rm))"
    and "desk_gate rm i pg qf chain marks rate = Inr None"
    and "r = size_intent rm i (cfg_base scfg) qf chain rate"
proof -
  obtain cap where cap: "is_open (rm_window rm) now" "evaluate_caps rm = Inr cap" "status cap = CAP_OK"
    using assms by (auto simp: gate_def approved_def split: if_splits)
  obtain scfg where s: "dict_get (rm_strategies rm) (in_strategy_id i) = Some scfg" "cfg_enabled (cfg_base scfg)"
    "rm_require_live_enabled rm \<longrightarrow> cfg_enabled_live (cfg_base scfg)"
    "open_count_total acc < max_total (concurrency (rm_cfg rm))"
    "the_or 0 (dict_get (open_count_by_strategy acc) (in_strategy_id i)) < max_per_strategy (concurrency (rm_cfg rm))"
    "bind_result (desk_gate rm i pg qf chain marks rate) (\<lambda>stopped.
        case stopped of Some r \<Rightarrow> Inr r | None \<Rightarrow> Inr (size_intent rm i (cfg_base scfg) qf chain rate)) = Inr r"
    using assms cap by (auto simp: gate_def approved_def Let_def not_le split: if_splits option.splits)
  then have "desk_gate rm i pg qf chain marks rate = Inr None" "r = size_intent rm i (cfg_base scfg) qf chain rate"
    using assms(2) desk_gate_not_approved by (auto simp: approved_def split: option.splits)
  with that cap s show thesis by (auto simp: trading_allowed_def)
qed

text \<open>The gate never approves a partial answer: a rejection always carries zero lots and zero risk.\<close>

lemma gate_rejected:
  assumes "gate rm i now acc pg qf chain marks rate = Inr r" and "\<not> approved r"
  shows "sized_lots r = 0"
  using assms desk_gate_not_approved size_intent_rejected
  by (auto simp: gate_def approved_def Let_def split: if_splits option.splits)

lemma gate_defined:
  assumes "0 < peak_nav (rm_nav rm)" and "0 < rate"
  shows "\<exists>r. gate rm i now acc pg qf chain marks rate = Inr r"
proof -
  obtain cap where cap: "evaluate_caps rm = Inr cap"
    using evaluate_defined [of "rm_nav rm" "rm_caps rm"] assms(1) by (auto simp: evaluate_caps_def)
  have cp: "\<exists>x ns. check_portfolio dk p mk rate = Inr (x, ns)" for dk p mk
    using assms(2) by (auto simp: check_portfolio_def Let_def split: prod.splits)
  have "\<exists>x. desk_gate rm i pg qf chain marks rate = Inr x"
  proof -
    let ?A = "case (pg, marks) of (Some p, Some mk) \<Rightarrow> check_portfolio (desk (rm_cfg rm)) p mk rate | _ \<Rightarrow> Inr (None, [])"
    obtain x ns where A: "?A = Inr (x, ns)" using cp [of "desk (rm_cfg rm)"] by (cases pg; cases marks) fastforce+
    show ?thesis
      using A by (auto simp: desk_gate_def Let_def split: option.splits prod.splits
          dest!: check_intent_reason check_portfolio_reason)
  qed
  with cap show ?thesis by (auto simp: gate_def Let_def split: option.splits)
qed

section \<open>Claims\<close>

text \<open>
  C1: an approved intent was raised inside the trading window with every loss cap and the breaker clear, by
  a strategy that is enabled (and live-enabled where that is required) and has room under both concurrency
  limits, was let through by the desk, and is sized to at least one lot, at most what it asked for and the
  strategy's cap, at a positive risk within the strategy's budget.
\<close>

theorem gate_approved_safe:
  assumes "gate rm i now acc pg qf chain marks rate = Inr r" and "approved r"
  shows "is_open (rm_window rm) now \<and> (\<exists>cap. evaluate_caps rm = Inr cap \<and> trading_allowed cap) \<and>
     desk_gate rm i pg qf chain marks rate = Inr None \<and>
     open_count_total acc < max_total (concurrency (rm_cfg rm)) \<and>
     the_or 0 (dict_get (open_count_by_strategy acc) (in_strategy_id i)) < max_per_strategy (concurrency (rm_cfg rm)) \<and>
     (\<exists>scfg. dict_get (rm_strategies rm) (in_strategy_id i) = Some scfg \<and> cfg_enabled (cfg_base scfg) \<and>
        (cfg_enabled_live (cfg_base scfg) \<or> \<not> rm_require_live_enabled rm) \<and>
        sized_lots r \<le> max_lots_cap (cfg_base scfg) \<and> risk_inr r \<le> trade_risk_budget_inr rm (cfg_base scfg) rate) \<and>
     1 \<le> sized_lots r \<and> sized_lots r \<le> requested_lots i \<and> 0 < risk_inr r \<and> sz_intent r = i"
proof -
  obtain cap scfg where g: "is_open (rm_window rm) now" "evaluate_caps rm = Inr cap" "trading_allowed cap"
    "dict_get (rm_strategies rm) (in_strategy_id i) = Some scfg" "cfg_enabled (cfg_base scfg)"
    "rm_require_live_enabled rm \<longrightarrow> cfg_enabled_live (cfg_base scfg)"
    "open_count_total acc < max_total (concurrency (rm_cfg rm))"
    "the_or 0 (dict_get (open_count_by_strategy acc) (in_strategy_id i)) < max_per_strategy (concurrency (rm_cfg rm))"
    "desk_gate rm i pg qf chain marks rate = Inr None"
    and r: "r = size_intent rm i (cfg_base scfg) qf chain rate"
    using assms by (rule gate_approved)
  have "decision (size_intent rm i (cfg_base scfg) qf chain rate) = APPROVED" using assms(2) r by (simp add: approved_def)
  note s = size_intent_approved [OF this r]
  have "0 < risk_inr r" using s(1,3) by (auto intro!: mult_pos_pos)
  with g s(2-6) show ?thesis by auto
qed

definition sample_nav :: nav_tracker where
  "sample_nav = \<lparr>nav_now = 50000, nav_open_today = 50000, nav_open_week = 50000, peak_nav = 50000,
     circuit_breaker_tripped = False, last_update_ts = 0\<rparr>"

definition sample_rm :: risk_manager where
  "sample_rm = \<lparr>rm_cfg = GlobalConfig, rm_nav = sample_nav,
     rm_strategies = [(DIRECTIONAL, DirectionalConfig sample_directional)], rm_require_live_enabled = True\<rparr>"

definition sample_accounting :: trade_accounting_snapshot where
  "sample_accounting = \<lparr>open_count_total = 1, open_count_by_strategy = [(LONG_STRADDLE, 1)]\<rparr>"

lemma sample_gate:
  "\<exists>r. gate sample_rm sample_intent (5 * hour_us) sample_accounting None None None None 85 = Inr r \<and> approved r \<and> sized_lots r = 2"
  by (simp add: sample_nav_def sample_rm_def sample_accounting_def sample_base_def sample_directional_def sample_intent_def
      gate_def rm_window_def GlobalConfig_def TradingWindowConfig_def is_open_def utc_to_ist_def IST_def time_of_def time_defs
      evaluate_caps_def rm_caps_def RiskCapsConfig_def caps_defs ConcurrencyConfig_def DeskConfig_def desk_gate_def size_intent_def
      raw_size_def trade_risk_budget_inr_def apply_greek_cap_def approved_def dict_get_def)

theorem gate_approved_safe_witness:
  "\<exists>r. gate sample_rm sample_intent (5 * hour_us) sample_accounting None None None None 85 = Inr r \<and>
     is_open (rm_window sample_rm) (5 * hour_us) \<and> 1 \<le> sized_lots r \<and> sized_lots r \<le> 5 \<and> 0 < risk_inr r"
proof -
  obtain r where r: "gate sample_rm sample_intent (5 * hour_us) sample_accounting None None None None 85 = Inr r" "approved r"
    using sample_gate by blast
  from gate_approved_safe [OF this] have "is_open (rm_window sample_rm) (5 * hour_us)" "1 \<le> sized_lots r"
    "sized_lots r \<le> requested_lots sample_intent" "0 < risk_inr r" by simp_all
  with r(1) show ?thesis by (auto simp: sample_intent_def)
qed

text \<open>
  With a positive peak NAV and a positive rate the gate answers every intent, and an intent it does not
  approve is sized to no lots at no risk.
\<close>

theorem gate_total:
  assumes "0 < peak_nav (rm_nav rm)" and "0 < rate"
  shows "\<exists>r. gate rm i now acc pg qf chain marks rate = Inr r \<and> (approved r \<or> sized_lots r = 0)"
  using gate_defined [OF assms] gate_rejected by blast

theorem gate_total_witness:
  "\<exists>r. gate sample_rm (sample_intent\<lparr>in_strategy_id := LONG_STRADDLE\<rparr>) (5 * hour_us) sample_accounting None None None None 85 = Inr r \<and>
     (approved r \<or> sized_lots r = 0)"
  by (rule gate_total) (simp_all add: sample_rm_def sample_nav_def)

end
