(* ===== verification/NavState.thy ===== *)
theory NavState
  imports Risk
begin

text \<open>
  NAV bootstrap, day rolls and the persistence of the circuit breaker (\<open>bot/runtime/nav_state.py\<close>).  The
  tables are lists of rows; \<open>trading_date\<close> is unique in \<open>nav_history\<close>.  The marker file
  \<open>runtime/circuit_breaker.json\<close> is the fact that it exists.
\<close>

section \<open>Operations\<close>

definition sum_realised_pnl_inr :: "trade_row list \<Rightarrow> flt" where
  "sum_realised_pnl_inr trades =
     sum_list (List.map_filter realised_pnl_inr (filter (\<lambda>t. t_status t = trade_status_value TRADE_CLOSED) trades))"

definition latest_row :: "nav_history_row list \<Rightarrow> nav_history_row option" where
  "latest_row rows = (case sort_key (\<lambda>r. - nh_trading_date r) rows of [] \<Rightarrow> None | r # _ \<Rightarrow> Some r)"

definition row_on :: "nav_history_row list \<Rightarrow> date \<Rightarrow> nav_history_row option" where
  "row_on rows d = List.find (\<lambda>r. nh_trading_date r = d) rows"

definition load_nav_tracker :: "trade_row list \<Rightarrow> nav_history_row list \<Rightarrow> flt \<Rightarrow> datetime \<Rightarrow> nav_tracker" where
  "load_nav_tracker trades rows base_nav_inr now_utc =
     (let nav = base_nav_inr + sum_realised_pnl_inr trades;
          today_ist = date_of (utc_to_ist now_utc);
          latest = latest_row rows;
          peak = (case latest of None \<Rightarrow> nav | Some r \<Rightarrow> max nav (nh_peak_nav_inr r));
          breaker = (case latest of None \<Rightarrow> False | Some r \<Rightarrow> nh_circuit_breaker_tripped r);
          open_today = (case row_on rows today_ist of
                          Some r \<Rightarrow> nh_nav_inr r
                        | None \<Rightarrow> (case row_on rows (today_ist - 1) of Some r \<Rightarrow> nh_nav_inr r | None \<Rightarrow> nav));
          week_start = today_ist - weekday today_ist;
          open_week = (case latest of
                         Some r \<Rightarrow> if nh_trading_date r \<ge> week_start then nh_nav_inr r else open_today
                       | None \<Rightarrow> open_today)
      in \<lparr>nav_now = nav, nav_open_today = open_today, nav_open_week = open_week, peak_nav = peak,
          circuit_breaker_tripped = breaker, last_update_ts = now_utc\<rparr>)"

definition maybe_roll_ist_trading_day :: "nav_tracker \<Rightarrow> datetime \<Rightarrow> date option \<Rightarrow> nav_tracker \<times> date" where
  "maybe_roll_ist_trading_day n now_utc last_ist_date =
     (let today = date_of (utc_to_ist now_utc)
      in (if (case last_ist_date of None \<Rightarrow> False | Some d \<Rightarrow> today > d) then roll_day now_utc n else n, today))"

definition mark_tripped :: "nav_tracker \<Rightarrow> flt \<Rightarrow> nav_history_row \<Rightarrow> nav_history_row" where
  "mark_tripped n dd r =
     r\<lparr>nh_nav_inr := nav_now n, nh_peak_nav_inr := max (nh_peak_nav_inr r) (peak_nav n),
       nh_drawdown_from_peak_pct := dd, nh_circuit_breaker_tripped := True\<rparr>"

definition upsert_tripped :: "date \<Rightarrow> nav_tracker \<Rightarrow> flt \<Rightarrow> nav_history_row list \<Rightarrow> nav_history_row list" where
  "upsert_tripped d n dd rows =
     (case row_on rows d of
        None \<Rightarrow>
          rows @ [\<lparr>nh_trading_date = d, nh_nav_inr = nav_now n, nh_peak_nav_inr = peak_nav n,
                   nh_drawdown_from_peak_pct = dd, nh_circuit_breaker_tripped = True\<rparr>]
      | Some _ \<Rightarrow> map (\<lambda>r. if nh_trading_date r = d then mark_tripped n dd r else r) rows)"

text \<open>
  The table has the constraint \<open>nav_inr >= 0\<close>: a session that writes a negative NAV raises when it commits, and the
  lines after the session are not reached.
\<close>

definition nav_check :: "flt \<Rightarrow> nav_history_row list \<Rightarrow> nav_history_row list result" where
  "nav_check nav rows = (if nav < 0 then Inl IntegrityError else Inr rows)"

definition persist_circuit_breaker_trip ::
  "nav_history_row list \<Rightarrow> nav_tracker \<Rightarrow> datetime \<Rightarrow> bool \<Rightarrow> (nav_history_row list \<times> nav_tracker \<times> bool) result" where
  "persist_circuit_breaker_trip rows n now_utc marker =
     (let trading_date = date_of (utc_to_ist now_utc);
          dd = (if peak_nav n > 0 then (nav_now n - peak_nav n) / peak_nav n else 0);
          tripped = trip_breaker True n marker
      in bind_result (nav_check (nav_now n) (upsert_tripped trading_date n dd rows)) (\<lambda>rows'.
           Inr (rows', fst tripped, True)))"

text \<open>The tracker is the one the risk manager holds.\<close>

definition sync_circuit_breaker_from_risk ::
  "nav_history_row list \<Rightarrow> risk_manager \<Rightarrow> datetime \<Rightarrow> bool \<Rightarrow> (nav_history_row list \<times> nav_tracker \<times> bool) result" where
  "sync_circuit_breaker_from_risk rows rm now_utc marker =
     (let n = rm_nav rm
      in if circuit_breaker_tripped n then Inr (rows, n, marker)
         else
           bind_result (evaluate_caps rm) (\<lambda>cap.
             if status cap \<noteq> CAP_CIRCUIT_BREAKER then Inr (rows, n, marker)
             else persist_circuit_breaker_trip rows n now_utc marker))"

section \<open>Properties\<close>

lemma latest_row_max:
  assumes "latest_row rows = Some r"
  shows "r \<in> set rows" and "\<forall>s \<in> set rows. nh_trading_date s \<le> nh_trading_date r"
  using assms sort_key_Cons_min [of "\<lambda>r. - nh_trading_date r" rows r]
  by (auto simp: latest_row_def split: list.splits)

lemma trip_breaker_nav [simp]:
  "nav_now (fst (trip_breaker s n m)) = nav_now n" "peak_nav (fst (trip_breaker s n m)) = peak_nav n"
  "circuit_breaker_tripped (fst (trip_breaker s n m))"
  by (simp_all add: trip_breaker_def)

lemma persist_cases:
  "persist_circuit_breaker_trip rows n now marker = Inr (rows', n', marker') \<longleftrightarrow>
     0 \<le> nav_now n \<and> n' = fst (trip_breaker True n marker) \<and> marker' \<and>
     rows' = upsert_tripped (date_of (utc_to_ist now)) n (if peak_nav n > 0 then (nav_now n - peak_nav n) / peak_nav n else 0) rows"
  by (auto simp: persist_circuit_breaker_trip_def nav_check_def Let_def)

lemma sync_cases:
  assumes "sync_circuit_breaker_from_risk rows rm now marker = Inr (rows', n', marker')"
  shows "rows' = rows \<and> n' = rm_nav rm \<and> marker' = marker \<or>
     n' = fst (trip_breaker True (rm_nav rm) marker) \<and> marker' \<and> \<not> circuit_breaker_tripped (rm_nav rm)"
proof (cases "circuit_breaker_tripped (rm_nav rm)")
  case True
  with assms show ?thesis by (simp add: sync_circuit_breaker_from_risk_def Let_def)
next
  case False
  with assms obtain cap where "evaluate_caps rm = Inr cap"
    "(if status cap \<noteq> CAP_CIRCUIT_BREAKER then Inr (rows, rm_nav rm, marker)
      else persist_circuit_breaker_trip rows (rm_nav rm) now marker) = (Inr (rows', n', marker') :: (nav_history_row list \<times> nav_tracker \<times> bool) result)"
    by (auto simp: sync_circuit_breaker_from_risk_def Let_def)
  with False show ?thesis by (auto simp: persist_cases split: if_splits)
qed

lemma roll_nav:
  "peak_nav (fst (maybe_roll_ist_trading_day n now d)) = peak_nav n"
  "nav_now (fst (maybe_roll_ist_trading_day n now d)) = nav_now n"
  "circuit_breaker_tripped (fst (maybe_roll_ist_trading_day n now d)) = circuit_breaker_tripped n"
  by (simp_all add: maybe_roll_ist_trading_day_def roll_day_def Let_def)

lemma tripped_not_allowed:
  assumes "circuit_breaker_tripped n" and "evaluate_nav caps n = Inr r"
  shows "status r = CAP_CIRCUIT_BREAKER"
  using evaluate_nav_fields(4) [OF assms(2)] assms(1) by simp

text \<open>A tripped breaker closes the gate for every intent.\<close>

lemma tripped_gate_closed:
  assumes "circuit_breaker_tripped (rm_nav rm)" and "gate rm i now acc pg qf chain marks rate = Inr r"
  shows "\<not> approved r"
proof
  assume "approved r"
  then obtain cap where "evaluate_caps rm = Inr cap" "trading_allowed cap"
    using gate_approved [OF assms(2)] by metis
  with tripped_not_allowed [OF assms(1)] show False
    by (auto simp: evaluate_caps_def trading_allowed_def)
qed

lemma row_on_None: "row_on rows d = None \<Longrightarrow> \<forall>r \<in> set rows. nh_trading_date r \<noteq> d"
  by (auto simp: row_on_def find_None_iff)

lemma row_on_Some: "row_on rows d = Some x \<Longrightarrow> x \<in> set rows \<and> nh_trading_date x = d"
  by (auto simp: row_on_def find_Some_iff)

lemma mark_tripped_fields [simp]:
  "nh_trading_date (mark_tripped n dd r) = nh_trading_date r" "nh_circuit_breaker_tripped (mark_tripped n dd r)"
  by (simp_all add: mark_tripped_def)

lemma upsert_tripped_row:
  shows "\<exists>r \<in> set (upsert_tripped d n dd rows). nh_trading_date r = d"
    and "\<forall>r \<in> set (upsert_tripped d n dd rows). nh_trading_date r = d \<longrightarrow> nh_circuit_breaker_tripped r"
    and "\<forall>r \<in> set (upsert_tripped d n dd rows). nh_trading_date r = d \<or> r \<in> set rows"
proof -
  show "\<exists>r \<in> set (upsert_tripped d n dd rows). nh_trading_date r = d"
  proof (cases "row_on rows d")
    case None
    then show ?thesis by (simp add: upsert_tripped_def)
  next
    case (Some x)
    then have "mark_tripped n dd x \<in> set (upsert_tripped d n dd rows)"
      using row_on_Some [OF Some] by (auto simp: upsert_tripped_def)
    moreover have "nh_trading_date (mark_tripped n dd x) = d" using row_on_Some [OF Some] by simp
    ultimately show ?thesis by blast
  qed
  show "\<forall>r \<in> set (upsert_tripped d n dd rows). nh_trading_date r = d \<longrightarrow> nh_circuit_breaker_tripped r"
  proof (cases "row_on rows d")
    case None
    from row_on_None [OF this] show ?thesis by (simp add: upsert_tripped_def None)
  next
    case (Some x)
    then show ?thesis by (simp add: upsert_tripped_def del: if_image_distrib)
  qed
  show "\<forall>r \<in> set (upsert_tripped d n dd rows). nh_trading_date r = d \<or> r \<in> set rows"
    by (cases "row_on rows d") (simp_all add: upsert_tripped_def del: if_image_distrib)
qed

text \<open>
  A persisted trip survives a restart: when no row of the NAV history is dated later than the trip, the
  tracker rebuilt from the table at any later time is tripped.
\<close>

theorem trip_survives_restart:
  assumes "\<forall>r \<in> set rows. nh_trading_date r \<le> date_of (utc_to_ist now)"
    and "persist_circuit_breaker_trip rows n now marker = Inr (rows', n', marker')"
  shows "circuit_breaker_tripped (load_nav_tracker trades rows' base later)"
proof -
  let ?d = "date_of (utc_to_ist now)"
  let ?rows = rows'
  obtain dd where rows: "?rows = upsert_tripped ?d n dd rows" using assms(2) by (auto simp: persist_cases)
  note u = upsert_tripped_row [of ?d n dd rows]
  have "?rows \<noteq> []" using u(1) rows by auto
  then have "sort_key (\<lambda>r. - nh_trading_date r) ?rows \<noteq> []" by (metis length_0_conv length_sort)
  then obtain r where r: "latest_row ?rows = Some r" by (auto simp: latest_row_def neq_Nil_conv)
  have "nh_trading_date r \<le> ?d" using latest_row_max(1) [OF r] u(3) rows assms(1) by auto
  moreover have "?d \<le> nh_trading_date r" using latest_row_max(2) [OF r] u(1) rows by auto
  ultimately have "nh_trading_date r = ?d" by simp
  then have "nh_circuit_breaker_tripped r"
    using latest_row_max(1) [OF r] u(2) rows by simp
  with r show ?thesis by (simp add: load_nav_tracker_def Let_def)
qed

text \<open>
  The week rolls on the UTC weekday, read at the first tick of an Indian day: between midnight and 05:30
  on the Indian clock the UTC date is the day before.
\<close>

lemma roll_weekday_lag:
  assumes "time_of (utc_to_ist now) < IST"
  shows "date_of now = date_of (utc_to_ist now) - 1"
proof -
  have "utc_to_ist now = date_of (utc_to_ist now) * day_us + time_of (utc_to_ist now)"
    using date_time_split [of "utc_to_ist now"] by (simp add: combine_def)
  then have "now = (date_of (utc_to_ist now) - 1) * day_us + (time_of (utc_to_ist now) - IST + day_us)"
    by (simp add: utc_to_ist_def algebra_simps)
  then have "now = combine (date_of (utc_to_ist now) - 1) (time_of (utc_to_ist now) - IST + day_us)"
    by (simp add: combine_def)
  moreover have "0 \<le> time_of (utc_to_ist now) - IST + day_us" "time_of (utc_to_ist now) - IST + day_us < day_us"
    using assms time_of_bounds(1) [of "utc_to_ist now"] by (simp_all add: IST_value day_us_def)
  ultimately show ?thesis by (metis date_of_combine)
qed

text \<open>
  The roll at the first tick of an Indian Monday, before 05:30, does not reset the weekly anchor: it
  still reads Sunday on the UTC clock.
\<close>

theorem roll_ist_monday_keeps_week:
  assumes "weekday (date_of (utc_to_ist now)) = 0" and "time_of (utc_to_ist now) < IST"
  shows "nav_open_week (roll_day now n) = nav_open_week n"
proof -
  have "weekday (date_of now) \<noteq> 0"
    using roll_weekday_lag [OF assms(2)] assms(1) by (simp add: weekday_def) presburger
  then show ?thesis by (simp add: roll_day_def Let_def)
qed


theorem trip_survives_restart_witness:
  "\<exists>rows n. persist_circuit_breaker_trip [] sample_nav 0 False = Inr (rows, n, True) \<and>
     circuit_breaker_tripped (load_nav_tracker [] rows 50000 day_us)"
proof -
  have "persist_circuit_breaker_trip [] sample_nav 0 False =
      Inr (upsert_tripped (date_of (utc_to_ist 0)) sample_nav 0 [], fst (trip_breaker True sample_nav False), True)"
    by (simp add: persist_cases sample_nav_def)
  from trip_survives_restart [OF _ this, of "[]" 50000 day_us] this show ?thesis by simp
qed

theorem roll_ist_monday_keeps_week_witness:
  "nav_open_week (roll_day (4 * day_us - IST) (sample_nav\<lparr>nav_now := 40000\<rparr>)) = 50000"
proof -
  have "nav_open_week (roll_day (4 * day_us - IST) (sample_nav\<lparr>nav_now := 40000\<rparr>)) = nav_open_week (sample_nav\<lparr>nav_now := 40000\<rparr>)"
    by (rule roll_ist_monday_keeps_week)
      (simp_all add: utc_to_ist_def date_of_def time_of_def weekday_def IST_def time_defs)
  then show ?thesis by (simp add: sample_nav_def)
qed

text \<open>
  C17: a loss beyond the whole capital cannot be latched.  With a positive peak, a clear breaker and a validated cap,
  the synchronisation fails exactly when the realised losses have left the NAV negative: the caps ask for the circuit
  breaker, and the session that should record the trip raises on the constraint of the table, before
  the breaker is tripped and before the marker file is written.
\<close>

theorem negative_nav_blocks_trip:
  assumes "\<not> circuit_breaker_tripped (rm_nav rm)" and "0 < peak_nav (rm_nav rm)"
    and "rc_lifetime_dd_pct (risk_caps (rm_cfg rm)) < 1"
  shows "\<exists>cap. evaluate_caps rm = Inr cap \<and>
    (if nav_now (rm_nav rm) < 0
     then status cap = CAP_CIRCUIT_BREAKER \<and> sync_circuit_breaker_from_risk rows rm now marker = Inl IntegrityError
     else \<exists>rows' n' marker'. sync_circuit_breaker_from_risk rows rm now marker = Inr (rows', n', marker') \<and>
            (circuit_breaker_tripped n' \<longleftrightarrow> status cap = CAP_CIRCUIT_BREAKER))"
proof -
  let ?n = "rm_nav rm"
  obtain cap where cap: "evaluate_caps rm = Inr cap" using evaluate_defined [of ?n] assms(2) by (auto simp: evaluate_caps_def)
  show ?thesis
  proof (cases "nav_now ?n < 0")
    case True
    have "(nav_now ?n - peak_nav ?n) / peak_nav ?n \<le> - 1" using assms(2) True by (simp add: field_simps)
    then have "status cap = CAP_CIRCUIT_BREAKER"
      using cap assms evaluate_nav_fields(3,4) [of "rm_caps rm" ?n cap] by (simp add: evaluate_caps_def rm_caps_def Let_def)
    with cap assms(1) True show ?thesis
      by (simp add: sync_circuit_breaker_from_risk_def persist_circuit_breaker_trip_def nav_check_def Let_def)
  next
    case False
    have "\<exists>marked. marked" by blast
    with False cap assms(1) show ?thesis
      by (simp add: sync_circuit_breaker_from_risk_def persist_circuit_breaker_trip_def nav_check_def Let_def)
  qed
qed

theorem negative_nav_blocks_trip_witness:
  "sync_circuit_breaker_from_risk [] (sample_rm\<lparr>rm_nav := sample_nav\<lparr>nav_now := - 1\<rparr>\<rparr>) 0 False = Inl IntegrityError"
proof -
  let ?rm = "sample_rm\<lparr>rm_nav := sample_nav\<lparr>nav_now := - 1\<rparr>\<rparr>"
  have "\<not> circuit_breaker_tripped (rm_nav ?rm)" "0 < peak_nav (rm_nav ?rm)" "rc_lifetime_dd_pct (risk_caps (rm_cfg ?rm)) < 1"
    "nav_now (rm_nav ?rm) < 0" by (simp_all add: sample_rm_def sample_nav_def GlobalConfig_def RiskCapsConfig_def)
  with negative_nav_blocks_trip [OF this(1-3), of "[]" 0 False] show ?thesis by auto
qed

end
