(* ===== verification/Router.thy ===== *)
theory Router
  imports Base
begin

text \<open>
  The execution interface (\<open>bot/execution/router.py\<close>), the client order ids
  (\<open>bot/execution/client_id.py\<close>) and the split of a net premium into the stored columns
  (\<open>bot/execution/premium.py\<close>).  SHA-1 is the parameter \<open>sha1_hex\<close> and the random salt an argument.
\<close>

section \<open>Requests and results\<close>

datatype leg_side = BUY | SELL

fun side_value :: "leg_side \<Rightarrow> string" where
  "side_value BUY = ''buy''"
| "side_value SELL = ''sell''"

definition LegSide :: "string \<Rightarrow> leg_side result" where
  "LegSide s = (if s = ''buy'' then Inr BUY else if s = ''sell'' then Inr SELL else Inl ValueError)"

fun opposite :: "leg_side \<Rightarrow> leg_side" where
  "opposite BUY = SELL"
| "opposite SELL = BUY"

record leg_fill =
  lf_symbol :: string
  lf_side :: leg_side
  qty_requested :: flt
  qty_filled :: flt
  avg_fill_price :: "flt option"
  lf_leg_idx :: int
  lf_client_order_id :: string
  lf_exchange_order_id :: "int option"
  lf_state :: string
  lf_slippage_bps :: "flt option"
  lf_raw_response :: "(string, pyval) dict option"

definition is_complete :: "leg_fill \<Rightarrow> bool" where
  "is_complete f \<longleftrightarrow> lf_state f = ''filled'' \<and> qty_filled f \<ge> qty_requested f - 1 / 10 ^ 9"

text \<open>A leg that was refused: nothing filled.\<close>

definition rejected_fill :: "string \<Rightarrow> leg_side \<Rightarrow> flt \<Rightarrow> int \<Rightarrow> string \<Rightarrow> leg_fill" where
  "rejected_fill symbol side lots idx coid =
     \<lparr>lf_symbol = symbol, lf_side = side, qty_requested = lots, qty_filled = 0, avg_fill_price = None,
      lf_leg_idx = idx, lf_client_order_id = coid, lf_exchange_order_id = None, lf_state = ''rejected'',
      lf_slippage_bps = None, lf_raw_response = None\<rparr>"

record entry_request =
  rq_strategy_id :: strategy_id
  rq_trade_id :: int
  rq_underlying :: underlying
  rq_legs :: "leg_intent list"
  rq_lots :: int
  rq_rationale :: string
  rq_spread_pct_max :: flt
  maker_timeout_seconds :: flt
  slip_bps_budget :: int

text \<open>
  What the text of a rollback action says.  The text of the exception in a failed one is not kept.
\<close>

datatype rollback_action =
    RollbackClose string
  | RollbackCloseFailed string
  | CancelDone string
  | CancelFailed string

record entry_result =
  er_success :: bool
  er_trade_id :: int
  er_fills :: "leg_fill list"
  er_error :: "string option"
  rollback_actions :: "rollback_action list"
  er_completed_at :: "datetime option"

record exit_request =
  xq_strategy_id :: strategy_id
  xq_trade_id :: int
  xq_underlying :: underlying
  xq_legs :: "leg_intent list"
  xq_lots :: int
  xq_trigger :: exit_trigger

record exit_result =
  xr_success :: bool
  xr_trade_id :: int
  xr_fills :: "leg_fill list"
  xr_error :: "string option"
  xr_completed_at :: "datetime option"

definition fill_cash :: "leg_side \<Rightarrow> leg_fill \<Rightarrow> flt" where
  "fill_cash counted f =
     (case avg_fill_price f of
        None \<Rightarrow> 0
      | Some p \<Rightarrow> (if lf_side f = counted then 1 else - 1) * p * qty_filled f)"

text \<open>\<open>EntryResult.total_premium_inr\<close>: premium paid is positive, credit received negative.\<close>

definition total_premium_inr :: "leg_fill list \<Rightarrow> flt" where
  "total_premium_inr fills = fold (\<lambda>f acc. acc + fill_cash BUY f) fills 0"

section \<open>Client order ids\<close>

definition is_alnum :: "char \<Rightarrow> bool" where
  "is_alnum c \<longleftrightarrow>
     (let n = (of_char c :: nat) in 48 \<le> n \<and> n \<le> 57 \<or> 65 \<le> n \<and> n \<le> 90 \<or> 97 \<le> n \<and> n \<le> 122)"

definition compact_strategy :: "string \<Rightarrow> string" where
  "compact_strategy s =
     (if s = ''directional'' then ''dr'' else if s = ''credit_vertical'' then ''cv''
      else if s = ''long_straddle'' then ''ls'' else if s = ''rollback'' then ''rb''
      else py_lower (take 2 s))"

definition compact_purpose :: "string \<Rightarrow> string" where
  "compact_purpose p = (let token = filter is_alnum (py_lower p) in if token \<noteq> [] then take 6 token else ''ord'')"

definition generate_client_order_id ::
  "(string \<Rightarrow> string) \<Rightarrow> string \<Rightarrow> int \<Rightarrow> int \<Rightarrow> string \<Rightarrow> string \<Rightarrow> string" where
  "generate_client_order_id sha1_hex sid trade_id_value idx purpose salt =
     (let raw = sid @ ''|'' @ str_of_int trade_id_value @ ''|'' @ str_of_int idx @ ''|'' @ purpose @ ''|'' @ salt;
          digest = take 10 (sha1_hex raw);
          tid = py_slice_from (str_of_int trade_id_value) (- 6)
      in compact_strategy sid @ ''-'' @ tid @ ''-'' @ str_of_int idx @ ''-'' @ compact_purpose purpose @ ''-'' @ digest)"

section \<open>Premium columns\<close>

definition per_lot_premium_from_net :: "flt \<Rightarrow> int \<Rightarrow> flt option \<times> flt option" where
  "per_lot_premium_from_net net lots =
     (let lots = (if lots < 1 then 1 else lots); per_lot = net / of_int lots
      in if per_lot > 0 then (Some per_lot, None)
         else if per_lot < 0 then (None, Some (- per_lot))
         else (None, None))"

definition entry_cashflow_inr :: "flt option \<Rightarrow> flt option \<Rightarrow> int \<Rightarrow> flt" where
  "entry_cashflow_inr premium credit lots =
     (let cash = (case premium of None \<Rightarrow> 0 | Some p \<Rightarrow> 0 - p * of_int lots)
      in case credit of None \<Rightarrow> cash | Some c \<Rightarrow> cash + c * of_int lots)"

definition exit_cashflow_inr :: "leg_fill list \<Rightarrow> flt" where
  "exit_cashflow_inr fills = fold (\<lambda>f acc. acc + fill_cash SELL f) fills 0"

definition compute_realised_pnl_inr :: "flt option \<Rightarrow> flt option \<Rightarrow> int \<Rightarrow> leg_fill list \<Rightarrow> flt" where
  "compute_realised_pnl_inr premium credit lots exit_fills =
     entry_cashflow_inr premium credit lots + exit_cashflow_inr exit_fills"

section \<open>Properties of the helpers\<close>

lemma opposite_opposite [simp]: "opposite (opposite s) = s"
  by (cases s) simp_all

lemma LegSide_value [simp]: "LegSide (side_value s) = Inr s"
  by (cases s) (simp_all add: LegSide_def)

lemma rejected_not_complete [simp]: "\<not> is_complete (rejected_fill symbol side lots idx coid)"
  by (simp add: rejected_fill_def is_complete_def)

lemma fold_plus_sum: "fold (\<lambda>x acc. acc + f x) xs (a :: flt) = a + sum_list (map f xs)"
  by (induction xs arbitrary: a) simp_all

lemma total_premium_sum: "total_premium_inr fills = sum_list (map (fill_cash BUY) fills)"
  by (simp add: total_premium_inr_def fold_plus_sum)

lemma exit_cashflow_sum: "exit_cashflow_inr fills = sum_list (map (fill_cash SELL) fills)"
  by (simp add: exit_cashflow_inr_def fold_plus_sum)

lemma fill_cash_flip: "fill_cash SELL f = - fill_cash BUY f"
  by (cases "lf_side f") (simp_all add: fill_cash_def split: option.split)

lemma entry_cashflow_roundtrip:
  assumes "1 \<le> lots"
  shows "(case per_lot_premium_from_net net lots of (p, c) \<Rightarrow> entry_cashflow_inr p c lots) = - net"
  using assms by (auto simp: per_lot_premium_from_net_def entry_cashflow_inr_def Let_def zero_less_divide_iff
      divide_less_0_iff split: prod.splits)

lemma length_str_of_int_99: "- 9 \<le> i \<Longrightarrow> i \<le> 99 \<Longrightarrow> length (str_of_int i) \<le> 2"
  using length_str_of_nat [of "nat i" 1] length_str_of_nat [of "nat (- i)" 0]
  by (auto simp: str_of_int_def nat_less_iff)

lemma length_compact_strategy: "length (compact_strategy s) \<le> 2"
  by (simp add: compact_strategy_def py_lower_def)

lemma length_compact_purpose: "length (compact_purpose p) \<le> 6"
  by (simp add: compact_purpose_def Let_def)

lemma length_py_slice_from_neg: "0 \<le> k \<Longrightarrow> length (py_slice_from xs (- k)) \<le> nat k \<or> k = 0"
  by (auto simp: py_slice_from_def slice_bound_def)

section \<open>The executor interface\<close>

text \<open>
  What the engine relies on when it hands an entry to an executor, whichever backend it is: the result is
  for the trade asked for, there is one fill per leg, each fill asks for the lots of the request, and the
  entry is a success exactly when every fill is complete.
\<close>

locale execution_router =
  fixes submit_entry :: "entry_request \<Rightarrow> 's \<Rightarrow> entry_result result \<times> 's"
  assumes entry_trade: "submit_entry req s = (Inr r, s') \<Longrightarrow> er_trade_id r = rq_trade_id req"
    and entry_fills: "submit_entry req s = (Inr r, s') \<Longrightarrow> length (er_fills r) = length (rq_legs req)"
    and entry_requested: "submit_entry req s = (Inr r, s') \<Longrightarrow> f \<in> set (er_fills r) \<Longrightarrow>
        qty_requested f = of_int (rq_lots req)"
    and entry_success: "submit_entry req s = (Inr r, s') \<Longrightarrow> er_success r \<longleftrightarrow> (\<forall>f \<in> set (er_fills r). is_complete f)"
begin

text \<open>A successful entry filled every leg with the lots asked for, up to the tolerance.\<close>

lemma success_filled:
  assumes "submit_entry req s = (Inr r, s')" and "er_success r" and "f \<in> set (er_fills r)"
  shows "of_int (rq_lots req) - 1 / 10 ^ 9 \<le> qty_filled f"
  using entry_success [OF assms(1)] entry_requested [OF assms(1,3)] assms(2,3)
  by (auto simp: is_complete_def)

lemma success_total_filled:
  assumes "submit_entry req s = (Inr r, s')" and "er_success r"
  shows "of_nat (length (rq_legs req)) * (of_int (rq_lots req) - 1 / 10 ^ 9) \<le> sum_list (map qty_filled (er_fills r))"
proof -
  have "of_nat (length fs) * c \<le> sum_list (map qty_filled fs)" if "\<forall>f \<in> set fs. c \<le> qty_filled f" for fs and c :: flt
    using that by (induction fs) (auto simp: algebra_simps)
  from this [of "er_fills r"] success_filled [OF assms] entry_fills [OF assms(1)] show ?thesis by auto
qed

text \<open>A failed entry has a leg that did not fill.\<close>

lemma failure_incomplete:
  assumes "submit_entry req s = (Inr r, s')" and "\<not> er_success r"
  shows "\<exists>f \<in> set (er_fills r). \<not> is_complete f"
  using entry_success [OF assms(1)] assms(2) by blast

end

section \<open>Claims\<close>

text \<open>
  The realised profit of a trade is the cash of all its fills, sells positive and buys negative: nothing
  is lost by storing the entry as a premium or a credit per lot.
\<close>

theorem realised_pnl_is_cash:
  assumes "1 \<le> lots" and "per_lot_premium_from_net (total_premium_inr entry_fills) lots = (premium, credit)"
  shows "compute_realised_pnl_inr premium credit lots exit_fills =
     sum_list (map (fill_cash SELL) (entry_fills @ exit_fills))"
proof -
  have "entry_cashflow_inr premium credit lots = - total_premium_inr entry_fills"
    using entry_cashflow_roundtrip [OF assms(1), of "total_premium_inr entry_fills"] assms(2) by simp
  also have "\<dots> = sum_list (map (fill_cash SELL) entry_fills)"
    unfolding fill_cash_flip [abs_def] by (simp add: total_premium_sum uminus_sum_list_map comp_def)
  finally show ?thesis by (simp add: compute_realised_pnl_inr_def exit_cashflow_sum)
qed

definition sample_fill :: "leg_side \<Rightarrow> flt \<Rightarrow> leg_fill" where
  "sample_fill side price =
     \<lparr>lf_symbol = ''C2'', lf_side = side, qty_requested = 2, qty_filled = 2, avg_fill_price = Some price, lf_leg_idx = 0,
      lf_client_order_id = ''a'', lf_exchange_order_id = None, lf_state = ''filled'', lf_slippage_bps = None, lf_raw_response = None\<rparr>"

theorem realised_pnl_is_cash_witness:
  "compute_realised_pnl_inr (Some 50) None 2 [sample_fill SELL 60] = 20"
  using realised_pnl_is_cash [of 2 "[sample_fill BUY 50]" "Some 50" None "[sample_fill SELL 60]"]
  by (simp add: per_lot_premium_from_net_def total_premium_inr_def fill_cash_def sample_fill_def)

text \<open>
  A client order id has at most thirty characters, within the exchange's limit of thirty-two, for every
  strategy, trade, purpose and salt, while the leg index has at most two characters.
\<close>

theorem client_order_id_length:
  assumes "- 9 \<le> idx" and "idx \<le> 99"
  shows "length (generate_client_order_id sha1_hex sid tid idx purpose salt) \<le> 30"
proof -
  have "length (py_slice_from (str_of_int tid) (- 6)) \<le> 6" using length_py_slice_from_neg [of 6 "str_of_int tid"] by simp
  then show ?thesis
    using length_compact_strategy [of sid] length_compact_purpose [of purpose] length_str_of_int_99 [OF assms]
    by (simp add: generate_client_order_id_def Let_def)
qed

theorem client_order_id_length_witness:
  "length (generate_client_order_id (\<lambda>_. ''da39a3ee5e6b4b0d'') ''credit_vertical'' 1234567 1 ''entry_ioc'' ''00'') \<le> 30"
  by (rule client_order_id_length) simp_all

end
