(* ===== verification/Dry.thy ===== *)
theory Dry
  imports Router
begin

text \<open>
  The simulated executor (\<open>bot/execution/dry.py\<close>).  \<open>rnd i\<close> is the value of \<open>random()\<close> drawn for leg \<open>i\<close>
  and \<open>salt i\<close> the random salt of its client order id; \<open>now\<close> is the wall clock.
\<close>

section \<open>Operations\<close>

record dry_executor =
  dx_chain :: chain_cache
  dx_slip_bps :: "(strategy_id, int) dict"
  open_orders :: "(int, string list) dict"

definition mk_slip_bps :: "int \<Rightarrow> int \<Rightarrow> int \<Rightarrow> (strategy_id, int) dict" where
  "mk_slip_bps slip_directional slip_condor slip_strangle =
     [(DIRECTIONAL, slip_directional), (CREDIT_VERTICAL, slip_condor), (LONG_STRADDLE, slip_strangle)]"

definition DryExecutor :: "chain_cache \<Rightarrow> int \<Rightarrow> int \<Rightarrow> int \<Rightarrow> dry_executor" where
  "DryExecutor chain slip_directional slip_condor slip_strangle =
     \<lparr>dx_chain = chain, dx_slip_bps = mk_slip_bps slip_directional slip_condor slip_strangle, open_orders = []\<rparr>"

text \<open>\<open>random.uniform(a, b)\<close> is \<open>a + (b - a) * random()\<close>.\<close>

definition uniform :: "flt \<Rightarrow> flt \<Rightarrow> flt \<Rightarrow> flt" where
  "uniform a b u = a + (b - a) * u"

definition fill_leg ::
  "(string \<Rightarrow> string) \<Rightarrow> (nat \<Rightarrow> flt) \<Rightarrow> (nat \<Rightarrow> string) \<Rightarrow> chain_cache \<Rightarrow> strategy_id \<Rightarrow> int \<Rightarrow> int \<Rightarrow> int \<Rightarrow> string \<Rightarrow>
   nat \<times> leg_intent \<Rightarrow> leg_fill result" where
  "fill_leg sha1_hex rnd salt chain sid tid lots slip_bps purpose il =
     (let idx = fst il; leg = snd il;
          mid_price = (case get_quote chain (li_symbol leg) of None \<Rightarrow> None | Some q \<Rightarrow> mid q);
          coid = generate_client_order_id sha1_hex (strategy_value sid) tid (int idx) purpose (salt idx)
      in bind_result (LegSide (li_side leg)) (\<lambda>side.
           case mid_price of
             None \<Rightarrow> Inr (rejected_fill (li_symbol leg) side (of_int lots) (int idx) coid)
           | Some x \<Rightarrow>
               if x \<le> 0 then Inr (rejected_fill (li_symbol leg) side (of_int lots) (int idx) coid)
               else
                 let slip = uniform (- of_int slip_bps) (of_int slip_bps) (rnd idx) / 10000;
                     sign = (if li_side leg = ''buy'' then 1 else - 1);
                     fill_price = x * (1 + sign * \<bar>slip\<bar>)
                 in Inr \<lparr>lf_symbol = li_symbol leg, lf_side = side, qty_requested = of_int lots,
                         qty_filled = of_int lots, avg_fill_price = Some (py_round fill_price 4),
                         lf_leg_idx = int idx, lf_client_order_id = coid, lf_exchange_order_id = None,
                         lf_state = ''filled'', lf_slippage_bps = Some (\<bar>slip\<bar> * 10000), lf_raw_response = None\<rparr>))"

definition fill_legs ::
  "(string \<Rightarrow> string) \<Rightarrow> (nat \<Rightarrow> flt) \<Rightarrow> (nat \<Rightarrow> string) \<Rightarrow> chain_cache \<Rightarrow> strategy_id \<Rightarrow> int \<Rightarrow> leg_intent list \<Rightarrow> int \<Rightarrow>
   int \<Rightarrow> string \<Rightarrow> leg_fill list result" where
  "fill_legs sha1_hex rnd salt chain sid tid legs lots slip_bps purpose =
     map_result (fill_leg sha1_hex rnd salt chain sid tid lots slip_bps purpose) (enumerate 0 legs)"

definition dry_submit_entry ::
  "(string \<Rightarrow> string) \<Rightarrow> (nat \<Rightarrow> flt) \<Rightarrow> (nat \<Rightarrow> string) \<Rightarrow> datetime \<Rightarrow> entry_request \<Rightarrow> dry_executor \<Rightarrow>
   entry_result result \<times> dry_executor" where
  "dry_submit_entry sha1_hex rnd salt now req ex =
     (let slip_bps = the_or 50 (dict_get (dx_slip_bps ex) (rq_strategy_id req))
      in case fill_legs sha1_hex rnd salt (dx_chain ex) (rq_strategy_id req) (rq_trade_id req) (rq_legs req)
                (rq_lots req) slip_bps ''entry'' of
           Inl e \<Rightarrow> (Inl e, ex)
         | Inr fills \<Rightarrow>
             if \<exists>f \<in> set fills. \<not> is_complete f
             then (Inr \<lparr>er_success = False, er_trade_id = rq_trade_id req, er_fills = fills,
                        er_error = Some ''dry_executor_partial_fill'', rollback_actions = [],
                        er_completed_at = Some now\<rparr>, ex)
             else
               (Inr \<lparr>er_success = True, er_trade_id = rq_trade_id req, er_fills = fills, er_error = None,
                     rollback_actions = [], er_completed_at = Some now\<rparr>,
                ex\<lparr>open_orders :=
                     dict_set (rq_trade_id req)
                       (the_or [] (dict_get (open_orders ex) (rq_trade_id req)) @ map lf_client_order_id fills)
                       (open_orders ex)\<rparr>))"

definition flip_leg :: "leg_intent \<Rightarrow> leg_intent" where
  "flip_leg leg = leg\<lparr>li_side := (if li_side leg = ''buy'' then ''sell'' else ''buy'')\<rparr>"

definition dry_submit_exit ::
  "(string \<Rightarrow> string) \<Rightarrow> (nat \<Rightarrow> flt) \<Rightarrow> (nat \<Rightarrow> string) \<Rightarrow> datetime \<Rightarrow> exit_request \<Rightarrow> dry_executor \<Rightarrow>
   exit_result result \<times> dry_executor" where
  "dry_submit_exit sha1_hex rnd salt now req ex =
     (let slip_bps = the_or 50 (dict_get (dx_slip_bps ex) (xq_strategy_id req))
      in case fill_legs sha1_hex rnd salt (dx_chain ex) (xq_strategy_id req) (xq_trade_id req)
                (map flip_leg (xq_legs req)) (xq_lots req) slip_bps (''exit_'' @ trigger_value (xq_trigger req)) of
           Inl e \<Rightarrow> (Inl e, ex)
         | Inr fills \<Rightarrow>
             (Inr \<lparr>xr_success = True, xr_trade_id = xq_trade_id req, xr_fills = fills, xr_error = None,
                   xr_completed_at = Some now\<rparr>,
              ex\<lparr>open_orders := dict_pop (xq_trade_id req) (open_orders ex)\<rparr>))"

definition dry_update_stop ::
  "int \<Rightarrow> string \<Rightarrow> leg_side \<Rightarrow> flt \<Rightarrow> flt \<Rightarrow> string \<Rightarrow> (string, pyval) dict" where
  "dry_update_stop tid symbol side qty new_stop coid =
     [(''ok'', VBool True), (''trade_id'', VInt tid), (''symbol'', VStr symbol), (''side'', VStr (side_value side)),
      (''qty'', VFlt qty), (''new_stop_price'', VFlt new_stop), (''client_order_id'', VStr coid)]"

definition dry_cancel_all_for_trade :: "int \<Rightarrow> dry_executor \<Rightarrow> nat \<times> dry_executor" where
  "dry_cancel_all_for_trade tid ex =
     (length (the_or [] (dict_get (open_orders ex) tid)), ex\<lparr>open_orders := dict_pop tid (open_orders ex)\<rparr>)"

section \<open>Properties\<close>

lemma fill_leg_fields:
  assumes "fill_leg sha1_hex rnd salt chain sid tid lots slip purpose (idx, leg) = Inr f"
  shows "lf_symbol f = li_symbol leg" and "LegSide (li_side leg) = Inr (lf_side f)"
    and "qty_requested f = of_int lots" and "lf_leg_idx f = int idx"
  using assms
  by (auto simp: fill_leg_def Let_def rejected_fill_def split: option.splits if_splits)

text \<open>A leg fills exactly when its quote has a positive mid.\<close>

lemma fill_leg_complete_iff:
  assumes "fill_leg sha1_hex rnd salt chain sid tid lots slip purpose (idx, leg) = Inr f"
  shows "is_complete f \<longleftrightarrow> (\<exists>q x. get_quote chain (li_symbol leg) = Some q \<and> mid q = Some x \<and> 0 < x)"
  using assms
  by (auto simp: fill_leg_def Let_def is_complete_def rejected_fill_def split: option.splits if_splits)

lemma uniform_abs:
  assumes "0 \<le> b" "0 \<le> u" "u \<le> 1"
  shows "\<bar>uniform (- b) b u\<bar> \<le> b"
proof -
  have "b * u \<le> b" using assms by (simp add: mult_left_le)
  moreover have "0 \<le> b * u" using assms by simp
  ultimately show ?thesis unfolding uniform_def by (simp add: abs_le_iff)
qed

text \<open>The fill price is the mid moved against the trader by at most the slippage budget, up to rounding.\<close>

lemma fill_leg_price:
  assumes fill: "fill_leg sha1_hex rnd salt chain sid tid lots slip purpose (idx, leg) = Inr f" "is_complete f"
    and rnd: "0 \<le> rnd idx" "rnd idx \<le> 1" and slip: "0 \<le> slip"
    and mid: "get_quote chain (li_symbol leg) = Some q" "mid q = Some x"
  shows "\<exists>p. avg_fill_price f = Some p \<and>
      (lf_side f = BUY \<longrightarrow> x - 1 / 20000 \<le> p \<and> p \<le> x * (1 + of_int slip / 10000) + 1 / 20000) \<and>
      (lf_side f = SELL \<longrightarrow> x * (1 - of_int slip / 10000) - 1 / 20000 \<le> p \<and> p \<le> x + 1 / 20000)"
proof -
  let ?s = "\<bar>uniform (- of_int slip) (of_int slip) (rnd idx) / 10000\<bar>"
  let ?t = "if li_side leg = ''buy'' then x * (1 + ?s) else x * (1 - ?s)"
  have x: "0 < x" using fill_leg_complete_iff [OF fill(1)] fill(2) mid by auto
  have s: "0 \<le> ?s" "?s \<le> of_int slip / 10000"
    using uniform_abs [of "of_int slip" "rnd idx"] rnd slip by (simp_all add: abs_divide divide_right_mono)
  have xs: "0 \<le> x * ?s" "x * ?s \<le> x * (of_int slip / 10000)"
    using x s by (simp, intro mult_left_mono) simp_all
  have p: "avg_fill_price f = Some (py_round ?t 4)"
    using fill(1) x mid by (auto simp: fill_leg_def Let_def split: if_splits)
  have "\<bar>py_round ?t 4 - ?t\<bar> \<le> 1 / 20000" using py_round_error [of ?t 4] by simp
  then have e: "?t - 1 / 20000 \<le> py_round ?t 4" "py_round ?t 4 \<le> ?t + 1 / 20000" by linarith+
  have side: "lf_side f = (if li_side leg = ''buy'' then BUY else SELL)"
    using fill_leg_fields(2) [OF fill(1)] by (auto simp: LegSide_def split: if_splits)
  have buy: "x \<le> x * (1 + ?s)" "x * (1 + ?s) \<le> x * (1 + of_int slip / 10000)"
    and sell: "x * (1 - of_int slip / 10000) \<le> x * (1 - ?s)" "x * (1 - ?s) \<le> x"
    using xs unfolding distrib_left right_diff_distrib by simp_all
  show ?thesis
  proof (cases "li_side leg = ''buy''")
    case True
    with e buy side p show ?thesis by (intro exI [of _ "py_round ?t 4"]) (simp; linarith)
  next
    case False
    with e sell side p show ?thesis by (intro exI [of _ "py_round ?t 4"]) (simp; linarith)
  qed
qed

lemma dry_entry_fills:
  assumes "dry_submit_entry sha1_hex rnd salt now req ex = (Inr r, ex')"
  shows "map_result (fill_leg sha1_hex rnd salt (dx_chain ex) (rq_strategy_id req) (rq_trade_id req) (rq_lots req)
      (the_or 50 (dict_get (dx_slip_bps ex) (rq_strategy_id req))) ''entry'') (enumerate 0 (rq_legs req)) = Inr (er_fills r)"
    and "er_trade_id r = rq_trade_id req" and "er_success r \<longleftrightarrow> (\<forall>f \<in> set (er_fills r). is_complete f)"
  using assms by (auto simp: dry_submit_entry_def fill_legs_def Let_def split: sum.splits if_splits)

interpretation dry: execution_router "dry_submit_entry sha1_hex rnd salt now" for sha1_hex rnd salt now
proof unfold_locales
  fix req s r s' f
  assume a: "dry_submit_entry sha1_hex rnd salt now req s = (Inr r, s')"
  note d = dry_entry_fills [OF a]
  show "er_trade_id r = rq_trade_id req" by (rule d(2))
  show "length (er_fills r) = length (rq_legs req)" using map_result_InrD [OF d(1)] by simp
  show "er_success r \<longleftrightarrow> (\<forall>f \<in> set (er_fills r). is_complete f)" by (rule d(3))
  assume "f \<in> set (er_fills r)"
  from map_result_member [OF d(1) this] obtain il where
    "fill_leg sha1_hex rnd salt (dx_chain s) (rq_strategy_id req) (rq_trade_id req) (rq_lots req)
      (the_or 50 (dict_get (dx_slip_bps s) (rq_strategy_id req))) ''entry'' (fst il, snd il) = Inr f" by auto
  then show "qty_requested f = of_int (rq_lots req)" by (rule fill_leg_fields(3))
qed

text \<open>The simulated exit reports success whatever happened to its legs.\<close>

lemma dry_exit_always_succeeds:
  "dry_submit_exit sha1_hex rnd salt now req ex = (Inr r, ex') \<Longrightarrow> xr_success r"
  by (auto simp: dry_submit_exit_def Let_def split: sum.splits)

text \<open>After an entry the trade's orders are tracked; an exit or a cancel forgets them.\<close>

lemma dry_entry_tracks:
  assumes "dry_submit_entry sha1_hex rnd salt now req ex = (Inr r, ex')" and "er_success r"
  shows "dict_get (open_orders ex') (rq_trade_id req) =
     Some (the_or [] (dict_get (open_orders ex) (rq_trade_id req)) @ map lf_client_order_id (er_fills r))"
    and "t \<noteq> rq_trade_id req \<Longrightarrow> dict_get (open_orders ex') t = dict_get (open_orders ex) t"
  using assms by (auto simp: dry_submit_entry_def Let_def split: sum.splits if_splits)

lemma dry_cancel_forgets:
  "dict_get (open_orders (snd (dry_cancel_all_for_trade tid ex))) t = (if t = tid then None else dict_get (open_orders ex) t)"
  by (simp add: dry_cancel_all_for_trade_def)

section \<open>Claims\<close>

text \<open>
  A simulated entry answers with one fill per leg; it succeeds exactly when every leg's quote has a
  positive mid, and then every leg is filled with the lots asked for.
\<close>

theorem dry_entry_all_or_nothing:
  assumes "dry_submit_entry sha1_hex rnd salt now req ex = (Inr r, ex')"
  shows "length (er_fills r) = length (rq_legs req) \<and>
     (er_success r \<longleftrightarrow>
        (\<forall>leg \<in> set (rq_legs req). \<exists>q x. get_quote (dx_chain ex) (li_symbol leg) = Some q \<and> mid q = Some x \<and> 0 < x)) \<and>
     (\<not> er_success r \<or> (\<forall>f \<in> set (er_fills r). of_int (rq_lots req) - 1 / 10 ^ 9 \<le> qty_filled f))"
proof -
  let ?P = "\<lambda>leg. \<exists>q x. get_quote (dx_chain ex) (li_symbol leg) = Some q \<and> mid q = Some x \<and> 0 < x"
  note d = dry_entry_fills [OF assms]
  have each: "is_complete (er_fills r ! k) \<longleftrightarrow> ?P (rq_legs req ! k)"
    if "k < length (rq_legs req)" for k
    using map_result_InrD [OF d(1)] that fill_leg_complete_iff by (auto simp: nth_enumerate_eq)
  have len: "length (er_fills r) = length (rq_legs req)" using map_result_InrD [OF d(1)] by simp
  have "er_success r \<longleftrightarrow> (\<forall>leg \<in> set (rq_legs req). ?P leg)"
    unfolding d(3) using each len by (simp add: all_set_conv_all_nth)
  with len dry.success_filled [OF assms] show ?thesis by blast
qed

definition sample_request :: entry_request where
  "sample_request = \<lparr>rq_strategy_id = DIRECTIONAL, rq_trade_id = 1, rq_underlying = BTC, rq_legs = [
      \<lparr>li_symbol = ''C2'', li_side = ''buy'', li_option_type = ''call'', li_strike = 200, li_expiry = 20 * hour_us\<rparr>],
     rq_lots = 2, rq_rationale = [], rq_spread_pct_max = 8 / 100, maker_timeout_seconds = 30, slip_bps_budget = 50\<rparr>"

theorem dry_entry_all_or_nothing_witness:
  "\<exists>r ex'. dry_submit_entry (\<lambda>_. []) (\<lambda>_. 1 / 2) (\<lambda>_. []) 0 sample_request (DryExecutor sample_chain 50 100 50) = (Inr r, ex') \<and>
     er_success r \<and> length (er_fills r) = 1"
proof -
  have "\<exists>r ex'. dry_submit_entry (\<lambda>_. []) (\<lambda>_. 1 / 2) (\<lambda>_. []) 0 sample_request (DryExecutor sample_chain 50 100 50) = (Inr r, ex')"
    by (simp add: dry_submit_entry_def fill_legs_def fill_leg_def sample_request_def DryExecutor_def mk_slip_bps_def LegSide_def
        dict_get_def Let_def split: option.split)
  then obtain r ex' where r: "dry_submit_entry (\<lambda>_. []) (\<lambda>_. 1 / 2) (\<lambda>_. []) 0 sample_request (DryExecutor sample_chain 50 100 50) = (Inr r, ex')"
    by blast
  have "\<exists>q x. get_quote sample_chain ''C2'' = Some q \<and> mid q = Some x \<and> 0 < x"
    by (simp add: get_quote_def sample_chain_def sample_quote_def mid_def dict_get_def)
  then have "er_success r" "length (er_fills r) = 1"
    using dry_entry_all_or_nothing [OF r] by (simp_all add: sample_request_def DryExecutor_def)
  with r show ?thesis by blast
qed

end
