(* ===== verification/Live.thy ===== *)
theory Live
  imports Dry "HOL-Library.Sublist"
begin

text \<open>
  The live executor (\<open>bot/execution/live.py\<close>).  The exchange behind the REST client is a parameter: an
  \<open>exchange\<close> answers each call from a state of its own, reads the monotonic clock, sleeps and draws salts.
  The requests the executor sends are logged in the order it sends them.  An operation returns \<open>None\<close>
  when its polling loop used up the fuel; a raised exception is \<open>Inl\<close>.

  The legs of an entry are placed by \<open>asyncio.gather\<close>; \<open>live_submit_entry\<close> runs them one after the
  other, which is one of the interleavings, while \<open>finish_entry\<close>, all that follows the gather, is defined
  for any list of leg results.
\<close>

section \<open>The exchange and the monad\<close>

datatype request =
    PlaceOrder "(string, pyval) dict"
  | GetOrder string
  | CancelOrder "int option" "string option" "int option"
  | CancelAll

record 'w exchange =
  ex_place :: "(string, pyval) dict \<Rightarrow> 'w \<Rightarrow> (string, pyval) dict result \<times> 'w"
  ex_get :: "string \<Rightarrow> 'w \<Rightarrow> (string, pyval) dict option result \<times> 'w"
  ex_cancel :: "int option \<Rightarrow> string option \<Rightarrow> int option \<Rightarrow> 'w \<Rightarrow> unit result \<times> 'w"
  ex_cancel_all :: "'w \<Rightarrow> unit result \<times> 'w"
  ex_time :: "'w \<Rightarrow> flt"
  ex_sleep :: "flt \<Rightarrow> 'w \<Rightarrow> 'w"
  ex_salt :: "'w \<Rightarrow> string \<times> 'w"
  ex_now :: "'w \<Rightarrow> datetime"

record 'w live_world =
  lw_log :: "request list"
  lw_ext :: 'w

type_synonym ('w, 'a) io = "'w live_world \<Rightarrow> ('a result \<times> 'w live_world) option"

definition io_return :: "'a \<Rightarrow> ('w, 'a) io" where
  "io_return x s = Some (Inr x, s)"

definition io_lift :: "'a result \<Rightarrow> ('w, 'a) io" where
  "io_lift r s = Some (r, s)"

definition io_bind :: "('w, 'a) io \<Rightarrow> ('a \<Rightarrow> ('w, 'b) io) \<Rightarrow> ('w, 'b) io" where
  "io_bind m f s =
     (case m s of None \<Rightarrow> None | Some (Inl e, s') \<Rightarrow> Some (Inl e, s') | Some (Inr x, s') \<Rightarrow> f x s')"

text \<open>\<open>try\<close>: the outcome, exception or value, is returned as a value.\<close>

definition io_try :: "('w, 'a) io \<Rightarrow> ('w, 'a result) io" where
  "io_try m s = (case m s of None \<Rightarrow> None | Some (r, s') \<Rightarrow> Some (Inr r, s'))"

definition place_order :: "'w exchange \<Rightarrow> (string, pyval) dict \<Rightarrow> ('w, (string, pyval) dict) io" where
  "place_order ex payload s =
     (let (r, w) = ex_place ex payload (lw_ext s) in Some (r, \<lparr>lw_log = lw_log s @ [PlaceOrder payload], lw_ext = w\<rparr>))"

definition get_order_by_client_id :: "'w exchange \<Rightarrow> string \<Rightarrow> ('w, (string, pyval) dict option) io" where
  "get_order_by_client_id ex coid s =
     (let (r, w) = ex_get ex coid (lw_ext s) in Some (r, \<lparr>lw_log = lw_log s @ [GetOrder coid], lw_ext = w\<rparr>))"

definition cancel_order :: "'w exchange \<Rightarrow> int option \<Rightarrow> string option \<Rightarrow> int option \<Rightarrow> ('w, unit) io" where
  "cancel_order ex oid coid pid s =
     (let (r, w) = ex_cancel ex oid coid pid (lw_ext s)
      in Some (r, \<lparr>lw_log = lw_log s @ [CancelOrder oid coid pid], lw_ext = w\<rparr>))"

definition cancel_all_orders :: "'w exchange \<Rightarrow> ('w, unit) io" where
  "cancel_all_orders ex s =
     (let (r, w) = ex_cancel_all ex (lw_ext s) in Some (r, \<lparr>lw_log = lw_log s @ [CancelAll], lw_ext = w\<rparr>))"

definition draw_salt :: "'w exchange \<Rightarrow> ('w, string) io" where
  "draw_salt ex s = (let (r, w) = ex_salt ex (lw_ext s) in Some (Inr r, s\<lparr>lw_ext := w\<rparr>))"

definition sleep :: "'w exchange \<Rightarrow> flt \<Rightarrow> 'w live_world \<Rightarrow> 'w live_world" where
  "sleep ex d s = s\<lparr>lw_ext := ex_sleep ex d (lw_ext s)\<rparr>"

section \<open>Conversions and prices\<close>

text \<open>
  The standard functions on text the executor uses: SHA-1, \<open>float(str)\<close>, \<open>int(str)\<close>, and the text of a
  value that is not text and of an exception.
\<close>

record py_env =
  env_sha1 :: "string \<Rightarrow> string"
  env_float :: "string \<Rightarrow> flt option"
  env_int :: "string \<Rightarrow> int option"
  env_repr :: "pyval \<Rightarrow> string"
  env_err :: "py_error \<Rightarrow> string"

definition py_str :: "py_env \<Rightarrow> pyval \<Rightarrow> string" where
  "py_str env v = (case v of VStr s \<Rightarrow> s | _ \<Rightarrow> env_repr env v)"

definition as_float_default :: "py_env \<Rightarrow> pyval \<Rightarrow> flt" where
  "as_float_default env v = the_or 0 (as_float (env_float env) v)"

definition as_optional_int :: "py_env \<Rightarrow> pyval \<Rightarrow> int option" where
  "as_optional_int env v =
     (if v = VNone \<or> v = VStr [] then None
      else case int_of_val (env_int env) v of Inl _ \<Rightarrow> None | Inr i \<Rightarrow> Some i)"

definition round_tick :: "flt option \<Rightarrow> flt \<Rightarrow> flt option" where
  "round_tick value tick =
     (case value of
        None \<Rightarrow> None
      | Some v \<Rightarrow> if tick \<le> 0 then Some v else Some (py_round (of_int (py_round0 (v / tick)) * tick) 8))"

definition maker_limit_price :: "quote_snapshot \<Rightarrow> string \<Rightarrow> flt \<Rightarrow> flt option" where
  "maker_limit_price q side tick =
     (case round_tick (if side = ''buy'' then bid q else ask q) tick of
        None \<Rightarrow> round_tick (mid q) tick
      | Some p \<Rightarrow> Some p)"

definition ioc_limit_price :: "quote_snapshot \<Rightarrow> string \<Rightarrow> int \<Rightarrow> flt \<Rightarrow> flt option" where
  "ioc_limit_price q side slip_bps tick =
     (let slip = of_int (max 0 slip_bps) / 10000
      in if side = ''buy''
         then (case (if ask q \<noteq> None then ask q else mid q) of
                 None \<Rightarrow> None | Some ref \<Rightarrow> round_tick (Some (ref * (1 + slip))) tick)
         else (case (if bid q \<noteq> None then bid q else mid q) of
                 None \<Rightarrow> None | Some ref \<Rightarrow> round_tick (Some (ref * (1 - slip))) tick))"

definition order_to_leg_fill ::
  "py_env \<Rightarrow> (string, pyval) dict \<Rightarrow> string \<Rightarrow> string \<Rightarrow> int \<Rightarrow> int \<Rightarrow> string \<Rightarrow> leg_fill result" where
  "order_to_leg_fill env order symbol side lots idx coid =
     (let filled = as_float_default env (vget order ''filled_size'');
          avg = (if filled > 0 then as_float (env_float env) (vget order ''average_fill_price'') else None);
          oid = as_optional_int env (vget order ''id'')
      in bind_result (LegSide side) (\<lambda>sd.
           Inr \<lparr>lf_symbol = symbol, lf_side = sd, qty_requested = of_int lots, qty_filled = filled,
                avg_fill_price = avg, lf_leg_idx = idx, lf_client_order_id = coid, lf_exchange_order_id = oid,
                lf_state = py_str env (the_or (VStr ''open'') (dict_get order ''state'')),
                lf_slippage_bps = None, lf_raw_response = Some order\<rparr>))"

section \<open>Placing one leg\<close>

record live_executor =
  le_chain :: chain_cache
  le_slip_bps :: "(strategy_id, int) dict"

definition ORDER_POLL_INTERVAL_S :: flt where "ORDER_POLL_INTERVAL_S = 1"
definition IOC_WAIT_SECONDS :: flt where "IOC_WAIT_SECONDS = 10"

definition TERMINAL_ORDER_STATES :: "string list" where
  "TERMINAL_ORDER_STATES = [''filled'', ''cancelled'', ''rejected'', ''closed'']"

fun wait_loop ::
  "py_env \<Rightarrow> 'w exchange \<Rightarrow> string \<Rightarrow> flt \<Rightarrow> nat \<Rightarrow> (string, pyval) dict option \<Rightarrow> ('w, (string, pyval) dict option) io" where
  "wait_loop env ex coid deadline 0 latest s = None"
| "wait_loop env ex coid deadline (Suc fuel) latest s =
     (if ex_time ex (lw_ext s) < deadline
      then (case get_order_by_client_id ex coid s of
              None \<Rightarrow> None
            | Some (Inl e, s1) \<Rightarrow> Some (Inl e, s1)
            | Some (Inr None, s1) \<Rightarrow> wait_loop env ex coid deadline fuel None (sleep ex ORDER_POLL_INTERVAL_S s1)
            | Some (Inr (Some order), s1) \<Rightarrow>
                if py_str env (the_or (VStr []) (dict_get order ''state'')) \<in> set TERMINAL_ORDER_STATES
                then Some (Inr (Some order), s1)
                else wait_loop env ex coid deadline fuel (Some order) (sleep ex ORDER_POLL_INTERVAL_S s1))
      else Some (Inr latest, s))"

definition wait_for_order ::
  "py_env \<Rightarrow> 'w exchange \<Rightarrow> nat \<Rightarrow> string \<Rightarrow> flt \<Rightarrow> ('w, (string, pyval) dict option) io" where
  "wait_for_order env ex fuel coid timeout s =
     wait_loop env ex coid (ex_time ex (lw_ext s) + max 0 timeout) fuel None s"

definition opt_text :: "string \<Rightarrow> string option" where
  "opt_text s = (if s = [] then None else Some s)"

definition cancel_open_order :: "live_executor \<Rightarrow> 'w exchange \<Rightarrow> leg_fill \<Rightarrow> ('w, unit) io" where
  "cancel_open_order le ex fill =
     (let pid = map_option product_id (get_instrument (le_chain le) (lf_symbol fill));
          send = (case lf_exchange_order_id fill of
                    Some oid \<Rightarrow> cancel_order ex (Some oid) (opt_text (lf_client_order_id fill)) pid
                  | None \<Rightarrow>
                      if lf_client_order_id fill \<noteq> [] then cancel_order ex None (Some (lf_client_order_id fill)) pid
                      else io_return ())
      in io_bind (io_try send) (\<lambda>r.
           case r of
             Inr u \<Rightarrow> io_return u
           | Inl e \<Rightarrow> if e \<in> {DeltaRestError, RuntimeError} then io_return () else io_lift (Inl e)))"

definition entry_payload :: "py_env \<Rightarrow> instrument_record \<Rightarrow> int \<Rightarrow> string \<Rightarrow> flt option \<Rightarrow> string \<Rightarrow> (string, pyval) dict" where
  "entry_payload env inst lots side price coid =
     [(''product_id'', VInt (product_id inst)), (''size'', VInt lots), (''side'', VStr side),
      (''order_type'', VStr ''limit_order''), (''limit_price'', VStr (env_repr env (opt_flt price))),
      (''post_only'', VStr ''true''), (''client_order_id'', VStr coid)]"

definition ioc_payload :: "py_env \<Rightarrow> instrument_record \<Rightarrow> int \<Rightarrow> string \<Rightarrow> flt \<Rightarrow> string \<Rightarrow> (string, pyval) dict" where
  "ioc_payload env inst lots side price coid =
     [(''product_id'', VInt (product_id inst)), (''size'', VInt lots), (''side'', VStr side),
      (''order_type'', VStr ''limit_order''), (''limit_price'', VStr (env_repr env (VFlt price))),
      (''time_in_force'', VStr ''ioc''), (''post_only'', VStr ''false''), (''client_order_id'', VStr coid)]"

text \<open>The part of \<open>_place_entry_leg\<close> after the maker order did not complete; \<open>fill\<close> is its last fill.\<close>

definition place_ioc ::
  "py_env \<Rightarrow> live_executor \<Rightarrow> 'w exchange \<Rightarrow> nat \<Rightarrow> strategy_id \<Rightarrow> int \<Rightarrow> nat \<Rightarrow> leg_intent \<Rightarrow> int \<Rightarrow> int \<Rightarrow>
   quote_snapshot \<Rightarrow> instrument_record \<Rightarrow> leg_fill \<Rightarrow> ('w, leg_fill) io" where
  "place_ioc env le ex fuel sid tid idx leg lots slip_bps q inst fill =
     io_bind (cancel_open_order le ex fill) (\<lambda>_.
     io_bind (draw_salt ex) (\<lambda>salt.
     let ioc_coid = generate_client_order_id (env_sha1 env) (strategy_value sid) tid (int idx) ''entry_ioc'' salt
     in case ioc_limit_price q (li_side leg) slip_bps (tick_size inst) of
          None \<Rightarrow>
            io_bind (io_lift (LegSide (li_side leg))) (\<lambda>sd.
              io_return ((rejected_fill (li_symbol leg) sd (of_int lots) (int idx) (lf_client_order_id fill))
                         \<lparr>lf_exchange_order_id := lf_exchange_order_id fill, lf_raw_response := lf_raw_response fill\<rparr>))
        | Some price \<Rightarrow>
            io_bind (place_order ex (ioc_payload env inst lots (li_side leg) price ioc_coid)) (\<lambda>resp.
            io_bind (io_lift (order_to_leg_fill env resp (li_symbol leg) (li_side leg) lots (int idx) ioc_coid)) (\<lambda>ioc_fill.
              if is_complete ioc_fill then io_return ioc_fill
              else
                io_bind (wait_for_order env ex fuel ioc_coid IOC_WAIT_SECONDS) (\<lambda>order.
                  case order of
                    Some ord \<Rightarrow> io_lift (order_to_leg_fill env ord (li_symbol leg) (li_side leg) lots (int idx) ioc_coid)
                  | None \<Rightarrow> io_return ioc_fill)))))"

definition place_entry_leg ::
  "py_env \<Rightarrow> live_executor \<Rightarrow> 'w exchange \<Rightarrow> nat \<Rightarrow> strategy_id \<Rightarrow> int \<Rightarrow> nat \<Rightarrow> leg_intent \<Rightarrow> int \<Rightarrow> flt \<Rightarrow> int \<Rightarrow>
   ('w, leg_fill) io" where
  "place_entry_leg env le ex fuel sid tid idx leg lots maker_timeout slip_bps =
     (let missing = io_bind (io_lift (LegSide (li_side leg))) (\<lambda>sd.
                      io_return (rejected_fill (li_symbol leg) sd (of_int lots) (int idx) ''missing_quote''))
      in case (get_quote (le_chain le) (li_symbol leg), get_instrument (le_chain le) (li_symbol leg)) of
           (Some q, Some inst) \<Rightarrow>
             if mid q = None then missing
             else
               io_bind (draw_salt ex) (\<lambda>salt.
               let coid = generate_client_order_id (env_sha1 env) (strategy_value sid) tid (int idx) ''entry'' salt;
                   to_fill = (\<lambda>ord. io_lift (order_to_leg_fill env ord (li_symbol leg) (li_side leg) lots (int idx) coid));
                   price = maker_limit_price q (li_side leg) (tick_size inst)
               in io_bind (place_order ex (entry_payload env inst lots (li_side leg) price coid)) (\<lambda>resp.
                  io_bind (to_fill resp) (\<lambda>fill.
                    if is_complete fill then io_return fill
                    else
                      io_bind (wait_for_order env ex fuel coid maker_timeout) (\<lambda>order.
                      io_bind (case order of Some ord \<Rightarrow> to_fill ord | None \<Rightarrow> io_return fill) (\<lambda>fill.
                        if is_complete fill then io_return fill
                        else place_ioc env le ex fuel sid tid idx leg lots slip_bps q inst fill)))))
         | _ \<Rightarrow> missing)"

section \<open>Rollback\<close>

definition close_payload :: "instrument_record \<Rightarrow> pyval \<Rightarrow> string \<Rightarrow> string \<Rightarrow> (string, pyval) dict" where
  "close_payload inst qty side coid =
     [(''product_id'', VInt (product_id inst)), (''size'', qty), (''side'', VStr side),
      (''order_type'', VStr ''market_order''), (''reduce_only'', VStr ''true''), (''client_order_id'', VStr coid)]"

text \<open>What one \<open>try\<close> of the rollback records: the exceptions in \<open>caught\<close> become a failed action.\<close>

definition record_action ::
  "py_error set \<Rightarrow> rollback_action \<Rightarrow> rollback_action \<Rightarrow> ('w, 'a) io \<Rightarrow> ('w, rollback_action list) io" where
  "record_action caught ok failed m =
     io_bind (io_try m) (\<lambda>r.
       case r of
         Inr _ \<Rightarrow> io_return [ok]
       | Inl e \<Rightarrow> if e \<in> caught then io_return [failed] else io_lift (Inl e))"

definition rollback_one ::
  "py_env \<Rightarrow> live_executor \<Rightarrow> 'w exchange \<Rightarrow> int \<Rightarrow> leg_fill \<Rightarrow> ('w, rollback_action list) io" where
  "rollback_one env le ex tid fill =
     (let inst = get_instrument (le_chain le) (lf_symbol fill); sym = lf_symbol fill; pid = map_option product_id inst
      in if qty_filled fill > 0
         then (case inst of
                 None \<Rightarrow> io_return []
               | Some i \<Rightarrow>
                   io_bind (draw_salt ex) (\<lambda>salt.
                   let coid = generate_client_order_id (env_sha1 env) ''rollback'' tid (lf_leg_idx fill) ''rollback'' salt;
                       side = (if lf_side fill = BUY then ''sell'' else ''buy'')
                   in record_action {DeltaRestError} (RollbackClose sym) (RollbackCloseFailed sym)
                        (place_order ex (close_payload i (VFlt (qty_filled fill)) side coid))))
         else case lf_exchange_order_id fill of
           Some oid \<Rightarrow>
             record_action {DeltaRestError} (CancelDone sym) (CancelFailed sym)
               (cancel_order ex (Some oid) (opt_text (lf_client_order_id fill)) pid)
         | None \<Rightarrow>
             if lf_client_order_id fill \<noteq> [] \<and> lf_client_order_id fill \<notin> {''error'', ''missing_quote''}
             then record_action {DeltaRestError, RuntimeError} (CancelDone sym) (CancelFailed sym)
                    (cancel_order ex None (Some (lf_client_order_id fill)) pid)
             else io_return [])"

fun rollback :: "py_env \<Rightarrow> live_executor \<Rightarrow> 'w exchange \<Rightarrow> int \<Rightarrow> leg_fill list \<Rightarrow> ('w, rollback_action list) io" where
  "rollback env le ex tid [] = io_return []"
| "rollback env le ex tid (f # fs) =
     io_bind (rollback_one env le ex tid f) (\<lambda>acts.
     io_bind (rollback env le ex tid fs) (\<lambda>rest. io_return (acts @ rest)))"

section \<open>Entries\<close>

text \<open>\<open>asyncio.gather(..., return_exceptions=True)\<close>, one leg after the other.\<close>

fun gather :: "('w, 'a) io list \<Rightarrow> ('w, 'a result list) io" where
  "gather [] = io_return []"
| "gather (m # ms) = io_bind (io_try m) (\<lambda>r. io_bind (gather ms) (\<lambda>rs. io_return (r # rs)))"

definition fill_of_result :: "entry_request \<Rightarrow> leg_fill result \<Rightarrow> leg_fill" where
  "fill_of_result req r =
     (case r of Inr f \<Rightarrow> f | Inl _ \<Rightarrow> rejected_fill ''?'' BUY (of_int (rq_lots req)) (- 1) ''error'')"

definition mk_entry_result ::
  "entry_request \<Rightarrow> bool \<Rightarrow> leg_fill list \<Rightarrow> string option \<Rightarrow> rollback_action list \<Rightarrow> datetime \<Rightarrow> entry_result" where
  "mk_entry_result req ok fills err acts now =
     \<lparr>er_success = ok, er_trade_id = rq_trade_id req, er_fills = fills, er_error = err, rollback_actions = acts,
      er_completed_at = Some now\<rparr>"

definition finish_entry ::
  "py_env \<Rightarrow> live_executor \<Rightarrow> 'w exchange \<Rightarrow> entry_request \<Rightarrow> leg_fill result list \<Rightarrow> ('w, entry_result) io" where
  "finish_entry env le ex req results s =
     (let fills = map (fill_of_result req) results
      in if \<exists>f \<in> set fills. \<not> is_complete f
         then (case rollback env le ex (rq_trade_id req) fills s of
                 None \<Rightarrow> None
               | Some (Inr acts, s') \<Rightarrow>
                   Some (Inr (mk_entry_result req False fills (Some ''partial_fill_rolled_back'') acts (ex_now ex (lw_ext s'))), s')
               | Some (Inl e, s') \<Rightarrow>
                   if e = DeltaRestError
                   then Some (Inr (mk_entry_result req False fills (Some (env_err env e)) [] (ex_now ex (lw_ext s'))), s')
                   else Some (Inl e, s'))
         else Some (Inr (mk_entry_result req True fills None [] (ex_now ex (lw_ext s))), s))"

definition live_submit_entry ::
  "py_env \<Rightarrow> live_executor \<Rightarrow> 'w exchange \<Rightarrow> nat \<Rightarrow> entry_request \<Rightarrow> ('w, entry_result) io" where
  "live_submit_entry env le ex fuel req =
     (let slip_bps = the_or (slip_bps_budget req) (dict_get (le_slip_bps le) (rq_strategy_id req))
      in io_bind
           (gather (map (\<lambda>(idx, leg). place_entry_leg env le ex fuel (rq_strategy_id req) (rq_trade_id req) idx leg
                                        (rq_lots req) (maker_timeout_seconds req) slip_bps)
                     (enumerate 0 (rq_legs req))))
           (finish_entry env le ex req))"

section \<open>Exits, stops and cancellation\<close>

definition exit_leg ::
  "py_env \<Rightarrow> live_executor \<Rightarrow> 'w exchange \<Rightarrow> exit_request \<Rightarrow> nat \<times> leg_intent \<Rightarrow> ('w, leg_fill) io" where
  "exit_leg env le ex req il =
     (let idx = fst il; leg = snd il; flipped = (if li_side leg = ''buy'' then SELL else BUY)
      in case get_instrument (le_chain le) (li_symbol leg) of
           None \<Rightarrow> io_return (rejected_fill (li_symbol leg) flipped (of_int (xq_lots req)) (int idx) ''missing_instrument'')
         | Some inst \<Rightarrow>
             io_bind (draw_salt ex) (\<lambda>salt.
             let coid = generate_client_order_id (env_sha1 env) (strategy_value (xq_strategy_id req)) (xq_trade_id req)
                          (int idx) (''exit_'' @ trigger_value (xq_trigger req)) salt
             in io_bind (io_try (place_order ex (close_payload inst (VInt (xq_lots req)) (side_value flipped) coid))) (\<lambda>r.
                  case r of
                    Inl e \<Rightarrow>
                      if e = DeltaRestError
                      then io_return ((rejected_fill (li_symbol leg) flipped (of_int (xq_lots req)) (int idx) coid)
                                      \<lparr>lf_raw_response := Some [(''error'', VStr (env_err env e))]\<rparr>)
                      else io_lift (Inl e)
                  | Inr resp \<Rightarrow>
                      io_bind (io_lift (float_of (env_float env) (py_or (vget resp ''filled_size'') (VInt 0)))) (\<lambda>filled.
                      io_bind (if filled > 0
                               then io_bind (io_lift (float_of (env_float env) (py_or (vget resp ''average_fill_price'') (VInt 0))))
                                      (\<lambda>a. io_return (Some a))
                               else io_return None) (\<lambda>avg.
                        io_return
                          \<lparr>lf_symbol = li_symbol leg, lf_side = flipped, qty_requested = of_int (xq_lots req),
                           qty_filled = filled, avg_fill_price = avg, lf_leg_idx = int idx, lf_client_order_id = coid,
                           lf_exchange_order_id = (case vget resp ''id'' of VInt i \<Rightarrow> Some i | _ \<Rightarrow> None),
                           lf_state = py_str env (the_or (VStr ''filled'') (dict_get resp ''state'')),
                           lf_slippage_bps = None, lf_raw_response = Some resp\<rparr>)))))"

fun exit_legs ::
  "py_env \<Rightarrow> live_executor \<Rightarrow> 'w exchange \<Rightarrow> exit_request \<Rightarrow> (nat \<times> leg_intent) list \<Rightarrow> ('w, leg_fill list) io" where
  "exit_legs env le ex req [] = io_return []"
| "exit_legs env le ex req (il # ils) =
     io_bind (exit_leg env le ex req il) (\<lambda>f. io_bind (exit_legs env le ex req ils) (\<lambda>fs. io_return (f # fs)))"

definition live_submit_exit ::
  "py_env \<Rightarrow> live_executor \<Rightarrow> 'w exchange \<Rightarrow> exit_request \<Rightarrow> ('w, exit_result) io" where
  "live_submit_exit env le ex req s =
     (case exit_legs env le ex req (enumerate 0 (xq_legs req)) s of
        None \<Rightarrow> None
      | Some (Inl e, s') \<Rightarrow> Some (Inl e, s')
      | Some (Inr fills, s') \<Rightarrow>
          Some (Inr \<lparr>xr_success = (\<forall>f \<in> set fills. is_complete f), xr_trade_id = xq_trade_id req, xr_fills = fills,
                     xr_error = None, xr_completed_at = Some (ex_now ex (lw_ext s'))\<rparr>, s'))"

definition live_update_stop ::
  "py_env \<Rightarrow> live_executor \<Rightarrow> 'w exchange \<Rightarrow> int \<Rightarrow> string \<Rightarrow> leg_side \<Rightarrow> flt \<Rightarrow> flt \<Rightarrow> string \<Rightarrow>
   ('w, (string, pyval) dict) io" where
  "live_update_stop env le ex tid symbol side qty new_stop coid =
     (let inst = get_instrument (le_chain le) symbol
      in io_bind (io_try (cancel_order ex None (Some coid) (map_option product_id inst))) (\<lambda>r.
           if (case r of Inr _ \<Rightarrow> True | Inl e \<Rightarrow> e = DeltaRestError)
           then (case inst of
                   None \<Rightarrow> io_return [(''ok'', VBool False), (''trade_id'', VInt tid), (''error'', VStr ''missing_instrument'')]
                 | Some i \<Rightarrow>
                     io_bind (draw_salt ex) (\<lambda>salt.
                     let new_coid = generate_client_order_id (env_sha1 env) ''directional'' tid 0
                                      (''trail_'' @ str_of_int (trunc new_stop)) salt
                     in io_bind (io_try (place_order ex
                          [(''product_id'', VInt (product_id i)), (''size'', VFlt qty), (''side'', VStr (side_value side)),
                           (''order_type'', VStr ''stop_market_order''), (''stop_price'', VStr (env_repr env (VFlt new_stop))),
                           (''reduce_only'', VStr ''true''), (''client_order_id'', VStr new_coid)])) (\<lambda>p.
                        case p of
                          Inl e \<Rightarrow>
                            if e = DeltaRestError
                            then io_return [(''ok'', VBool False), (''trade_id'', VInt tid), (''error'', VStr (env_err env e))]
                            else io_lift (Inl e)
                        | Inr resp \<Rightarrow>
                            io_return [(''ok'', VBool True), (''trade_id'', VInt tid), (''client_order_id'', VStr new_coid),
                                       (''exchange_order_id'', vget resp ''id'')])))
           else io_lift (case r of Inl e \<Rightarrow> Inl e | Inr _ \<Rightarrow> Inr [])))"

definition live_cancel_all_for_trade :: "'w exchange \<Rightarrow> int \<Rightarrow> ('w, nat) io" where
  "live_cancel_all_for_trade ex tid =
     io_bind (io_try (cancel_all_orders ex)) (\<lambda>r.
       case r of Inr _ \<Rightarrow> io_return 1 | Inl e \<Rightarrow> if e = DeltaRestError then io_return 0 else io_lift (Inl e))"

section \<open>Properties: the polling loop ends\<close>

text \<open>
  What is documented of the clock: a sleep of \<open>d\<close> seconds advances the monotonic clock by at least \<open>d\<close>,
  and no call moves it back.
\<close>

definition clock_ok :: "'w exchange \<Rightarrow> bool" where
  "clock_ok ex \<longleftrightarrow>
     (\<forall>w d. 0 \<le> d \<longrightarrow> ex_time ex w + d \<le> ex_time ex (ex_sleep ex d w)) \<and>
     (\<forall>coid w. ex_time ex w \<le> ex_time ex (snd (ex_get ex coid w)))"

lemma get_order_returns: "\<exists>r s1. get_order_by_client_id ex coid s = Some (r, s1) \<and>
    lw_ext s1 = snd (ex_get ex coid (lw_ext s)) \<and> lw_log s1 = lw_log s @ [GetOrder coid]"
  by (simp add: get_order_by_client_id_def split: prod.split)

lemma clock_step:
  assumes "clock_ok ex" and "lw_ext s1 = snd (ex_get ex coid (lw_ext s))"
  shows "ex_time ex (lw_ext s) + 1 \<le> ex_time ex (lw_ext (sleep ex ORDER_POLL_INTERVAL_S s1))"
proof -
  have "ex_time ex (lw_ext s) \<le> ex_time ex (lw_ext s1)" using assms by (simp add: clock_ok_def)
  moreover have "ex_time ex (lw_ext s1) + 1 \<le> ex_time ex (lw_ext (sleep ex ORDER_POLL_INTERVAL_S s1))"
    using assms(1) by (simp add: clock_ok_def sleep_def ORDER_POLL_INTERVAL_S_def)
  ultimately show ?thesis by linarith
qed

text \<open>Each round takes at least a second, so \<open>fuel\<close> rounds outlast a deadline \<open>fuel - 1\<close> seconds away.\<close>

lemma wait_loop_returns:
  assumes "clock_ok ex" and "deadline \<le> ex_time ex (lw_ext s) + of_nat fuel"
  shows "wait_loop env ex coid deadline (Suc fuel) latest s \<noteq> None"
  using assms(2)
proof (induction fuel arbitrary: latest s)
  case 0
  then show ?case by simp
next
  case (Suc fuel)
  obtain r s1 where g: "get_order_by_client_id ex coid s = Some (r, s1)"
    "lw_ext s1 = snd (ex_get ex coid (lw_ext s))" using get_order_returns by blast
  have "deadline \<le> ex_time ex (lw_ext (sleep ex ORDER_POLL_INTERVAL_S s1)) + of_nat fuel"
    using clock_step [OF assms(1) g(2)] Suc.prems by simp
  from Suc.IH [OF this] g(1) show ?case
    by (subst wait_loop.simps) (simp split: sum.split option.split del: wait_loop.simps)
qed

definition enough_fuel :: "nat \<Rightarrow> flt \<Rightarrow> bool" where
  "enough_fuel fuel timeout \<longleftrightarrow> max 0 timeout + 1 \<le> of_nat fuel"

lemma wait_for_order_returns:
  assumes "clock_ok ex" and "enough_fuel fuel timeout"
  shows "wait_for_order env ex fuel coid timeout s \<noteq> None"
proof -
  have "0 < fuel" using assms(2) by (cases fuel) (auto simp: enough_fuel_def)
  then obtain k where k: "fuel = Suc k" by (cases fuel) auto
  show ?thesis unfolding wait_for_order_def k
    by (rule wait_loop_returns [OF assms(1)]) (use assms(2) k in \<open>simp add: enough_fuel_def\<close>)
qed

definition returns :: "('w, 'a) io \<Rightarrow> bool" where
  "returns m \<longleftrightarrow> (\<forall>s. m s \<noteq> None)"

lemma returns_bind: "returns m \<Longrightarrow> (\<And>x. returns (f x)) \<Longrightarrow> returns (io_bind m f)"
  by (auto simp: returns_def io_bind_def split: option.split sum.split)

lemma returns_try: "returns m \<Longrightarrow> returns (io_try m)"
  by (auto simp: returns_def io_try_def split: option.split)

lemma returns_basic [simp, intro]:
  "returns (io_return x)" "returns (io_lift r)" "returns (place_order ex p)" "returns (cancel_order ex o1 c p1)"
  "returns (draw_salt ex)" "returns (cancel_all_orders ex)"
  by (auto simp: returns_def io_return_def io_lift_def place_order_def cancel_order_def draw_salt_def
      cancel_all_orders_def split: prod.split)

lemma returns_wait: "clock_ok ex \<Longrightarrow> enough_fuel fuel t \<Longrightarrow> returns (wait_for_order env ex fuel coid t)"
  by (simp add: returns_def wait_for_order_returns)

lemmas returns_intros = returns_bind returns_try returns_basic returns_wait

lemma returns_cancel_open: "returns (cancel_open_order le ex fill)"
  unfolding cancel_open_order_def Let_def
  by (intro returns_intros) (auto split: option.split sum.split)

lemma returns_place_ioc:
  assumes "clock_ok ex" and "enough_fuel fuel IOC_WAIT_SECONDS"
  shows "returns (place_ioc env le ex fuel sid tid idx leg lots slip q inst fill)"
  unfolding place_ioc_def Let_def using assms
  by (auto intro!: returns_intros returns_cancel_open split: option.split)

lemma returns_place_entry_leg:
  assumes "clock_ok ex" and "enough_fuel fuel IOC_WAIT_SECONDS" and "enough_fuel fuel timeout"
  shows "returns (place_entry_leg env le ex fuel sid tid idx leg lots timeout slip)"
  unfolding place_entry_leg_def Let_def using assms
  by (auto intro!: returns_intros returns_place_ioc split: option.split)

lemma returns_gather: "(\<And>m. m \<in> set ms \<Longrightarrow> returns m) \<Longrightarrow> returns (gather ms)"
  by (induction ms) (auto intro!: returns_intros)

lemma returns_rollback: "returns (rollback env le ex tid fs)"
proof -
  have rec: "returns m \<Longrightarrow> returns (record_action c a b m)" for c a b and m :: "('w, 'a) io"
    unfolding record_action_def by (auto intro!: returns_intros split: sum.split)
  have "returns (rollback_one env le ex tid f)" for f
    unfolding rollback_one_def Let_def record_action_def
    by (auto intro!: returns_intros split: option.split sum.split)
  then show ?thesis by (induction fs) (auto intro!: returns_intros)
qed

lemma returns_finish: "returns (finish_entry env le ex req results)"
  using returns_rollback unfolding returns_def finish_entry_def Let_def
  by (auto split: option.split sum.split) blast+

section \<open>Properties: the router laws\<close>

lemma finish_entry_result:
  assumes "finish_entry env le ex req results s = Some (Inr r, s')"
  shows "er_fills r = map (fill_of_result req) results" and "er_trade_id r = rq_trade_id req"
    and "er_success r \<longleftrightarrow> (\<forall>f \<in> set (er_fills r). is_complete f)"
  using assms
  by (auto simp: finish_entry_def mk_entry_result_def Let_def split: if_splits option.splits sum.splits prod.splits)

definition io_run :: "('w, 'a) io \<Rightarrow> 'w live_world \<Rightarrow> 'a result \<times> 'w live_world" where
  "io_run m s = (case m s of Some p \<Rightarrow> p | None \<Rightarrow> (Inl RuntimeError, s))"

lemma gather_results:
  assumes "gather ms s = Some (Inr rs, s')"
  shows "length rs = length ms \<and> (\<forall>i < length ms. \<exists>si si'. (ms ! i) si = Some (rs ! i, si'))"
  using assms
proof (induction ms arbitrary: rs s)
  case (Cons m ms)
  obtain r s1 where r: "m s = Some (r, s1)" using Cons.prems
    by (auto simp: io_bind_def io_try_def split: option.splits)
  obtain rest where rest: "gather ms s1 = Some (Inr rest, s')" "rs = r # rest"
    using Cons.prems r by (auto simp: io_bind_def io_try_def io_return_def split: option.splits sum.splits)
  show ?case using Cons.IH [OF rest(1)] rest(2) r by (auto simp: nth_Cons split: nat.split)
qed (simp add: io_return_def)

text \<open>Partial correctness of one operation: every value it returns satisfies \<open>P\<close>.\<close>

definition io_post :: "('w, 'a) io \<Rightarrow> ('a \<Rightarrow> bool) \<Rightarrow> bool" where
  "io_post m P \<longleftrightarrow> (\<forall>s x s'. m s = Some (Inr x, s') \<longrightarrow> P x)"

lemma io_post_bind:
  assumes "io_post m P" and "\<And>x. P x \<Longrightarrow> io_post (f x) Q"
  shows "io_post (io_bind m f) Q"
  using assms unfolding io_post_def io_bind_def by (auto split: option.splits sum.splits prod.splits) blast

lemma io_post_any: "io_post m (\<lambda>_. True)"
  by (simp add: io_post_def)

lemma io_post_return: "P x \<Longrightarrow> io_post (io_return x) P"
  by (simp add: io_post_def io_return_def)

lemma io_post_order:
  "io_post (io_lift (order_to_leg_fill env ord symbol side lots idx coid)) (\<lambda>f. qty_requested f = of_int lots)"
  by (auto simp: io_post_def io_lift_def order_to_leg_fill_def Let_def)

lemma rejected_fill_requested [simp]: "qty_requested (rejected_fill symbol side q idx coid) = q"
  by (simp add: rejected_fill_def)

lemma place_ioc_requested:
  "io_post (place_ioc env le ex fuel sid tid idx leg lots slip q inst fill) (\<lambda>f. qty_requested f = of_int lots)"
proof -
  let ?P = "\<lambda>f. qty_requested f = of_int lots"
  have rest: "io_post (if is_complete f then io_return f
      else io_bind m (\<lambda>ord. case ord of
        Some d \<Rightarrow> io_lift (order_to_leg_fill env d (li_symbol leg) (li_side leg) lots (int idx) coid) | None \<Rightarrow> io_return f)) ?P"
    if "?P f" for f coid m
    using that by (auto intro!: io_post_return io_post_bind [OF io_post_any] io_post_order split: option.split)
  show ?thesis
    unfolding place_ioc_def Let_def
  proof (rule io_post_bind [OF io_post_any], rule io_post_bind [OF io_post_any], split option.split, intro conjI allI impI)
    fix salt
    show "io_post (io_bind (io_lift (LegSide (li_side leg))) (\<lambda>sd.
              io_return ((rejected_fill (li_symbol leg) sd (of_int lots) (int idx) (lf_client_order_id fill))
                         \<lparr>lf_exchange_order_id := lf_exchange_order_id fill, lf_raw_response := lf_raw_response fill\<rparr>))) ?P"
      by (rule io_post_bind [OF io_post_any], rule io_post_return) simp
  next
    fix salt price
    let ?coid = "generate_client_order_id (env_sha1 env) (strategy_value sid) tid (int idx) ''entry_ioc'' salt"
    show "io_post (io_bind (place_order ex (ioc_payload env inst lots (li_side leg) price ?coid)) (\<lambda>resp.
            io_bind (io_lift (order_to_leg_fill env resp (li_symbol leg) (li_side leg) lots (int idx) ?coid)) (\<lambda>ioc_fill.
              if is_complete ioc_fill then io_return ioc_fill
              else io_bind (wait_for_order env ex fuel ?coid IOC_WAIT_SECONDS) (\<lambda>order.
                  case order of
                    Some ord \<Rightarrow> io_lift (order_to_leg_fill env ord (li_symbol leg) (li_side leg) lots (int idx) ?coid)
                  | None \<Rightarrow> io_return ioc_fill)))) ?P"
      by (rule io_post_bind [OF io_post_any], rule io_post_bind [OF io_post_order], rule rest)
  qed
qed

lemma place_entry_leg_requested:
  fixes ex :: "'w exchange"
  shows "io_post (place_entry_leg env le ex fuel sid tid idx leg lots t slip) (\<lambda>f. qty_requested f = of_int lots)"
proof -
  let ?P = "\<lambda>f. qty_requested f = of_int lots"
  have missing: "io_post (io_bind (io_lift (LegSide (li_side leg)))
      (\<lambda>sd. io_return (rejected_fill (li_symbol leg) sd (of_int lots) (int idx) ''missing_quote'')) :: ('w, leg_fill) io) ?P"
    by (rule io_post_bind [OF io_post_any]) (simp add: io_post_return)
  have refill: "io_post (case ord of Some d \<Rightarrow> io_lift (order_to_leg_fill env d (li_symbol leg) (li_side leg) lots (int idx) coid)
      | None \<Rightarrow> io_return fill) ?P"
    if "?P fill" for ord coid fill
    using that by (cases ord) (simp_all add: io_post_order io_post_return)
  have rest: "io_post (if is_complete fill then io_return fill
      else io_bind w (\<lambda>ord. io_bind (case ord of
          Some d \<Rightarrow> io_lift (order_to_leg_fill env d (li_symbol leg) (li_side leg) lots (int idx) coid) | None \<Rightarrow> io_return fill)
        (\<lambda>fill. if is_complete fill then io_return fill
                else place_ioc env le ex fuel sid tid idx leg lots slip q inst fill))) ?P"
    if "?P fill" for fill coid w q inst
  proof (cases "is_complete fill")
    case True
    then show ?thesis using that by (simp add: io_post_return)
  next
    case False
    then show ?thesis
      by (simp, intro io_post_bind [OF io_post_any] io_post_bind [OF refill [OF that]])
        (simp add: io_post_return place_ioc_requested)
  qed
  have main: "io_post (io_bind (draw_salt ex) (\<lambda>salt. io_bind (place_order ex (p salt)) (\<lambda>resp.
      io_bind (io_lift (order_to_leg_fill env resp (li_symbol leg) (li_side leg) lots (int idx) (c salt))) (\<lambda>fill.
        if is_complete fill then io_return fill
        else io_bind (wt salt) (\<lambda>ord. io_bind (case ord of
            Some d \<Rightarrow> io_lift (order_to_leg_fill env d (li_symbol leg) (li_side leg) lots (int idx) (c salt)) | None \<Rightarrow> io_return fill)
          (\<lambda>fill. if is_complete fill then io_return fill
                  else place_ioc env le ex fuel sid tid idx leg lots slip q inst fill)))))) ?P"
    for p c wt q inst
    by (rule io_post_bind [OF io_post_any], rule io_post_bind [OF io_post_any], rule io_post_bind [OF io_post_order], rule rest)
  show ?thesis
    unfolding place_entry_leg_def Let_def
    using missing main by (simp split: option.split)
qed

lemma live_entry_requested:
  assumes "live_submit_entry env le ex fuel req s = Some (Inr r, s')"
  shows "length (er_fills r) = length (rq_legs req)" and "\<forall>f \<in> set (er_fills r). qty_requested f = of_int (rq_lots req)"
    and "er_trade_id r = rq_trade_id req" and "er_success r \<longleftrightarrow> (\<forall>f \<in> set (er_fills r). is_complete f)"
proof -
  let ?slip = "the_or (slip_bps_budget req) (dict_get (le_slip_bps le) (rq_strategy_id req))"
  let ?ms = "map (\<lambda>(idx, leg). place_entry_leg env le ex fuel (rq_strategy_id req) (rq_trade_id req) idx leg
      (rq_lots req) (maker_timeout_seconds req) ?slip) (enumerate 0 (rq_legs req))"
  obtain rs s1 where g: "gather ?ms s = Some (Inr rs, s1)" and fin: "finish_entry env le ex req rs s1 = Some (Inr r, s')"
    using assms by (auto simp: live_submit_entry_def Let_def io_bind_def split: option.splits sum.splits prod.splits)
  note gr = gather_results [OF g] and fr = finish_entry_result [OF fin]
  show "er_trade_id r = rq_trade_id req" "er_success r \<longleftrightarrow> (\<forall>f \<in> set (er_fills r). is_complete f)"
    by (rule fr)+
  show "length (er_fills r) = length (rq_legs req)" using gr fr(1) by simp
  show "\<forall>f \<in> set (er_fills r). qty_requested f = of_int (rq_lots req)"
  proof
    fix f assume "f \<in> set (er_fills r)"
    then obtain i where i: "i < length ?ms" "f = fill_of_result req (rs ! i)"
      using fr(1) gr by (auto simp: in_set_conv_nth)
    obtain si si' where m: "(?ms ! i) si = Some (rs ! i, si')" using gr i(1) by blast
    have "\<exists>idx leg. ?ms ! i = place_entry_leg env le ex fuel (rq_strategy_id req) (rq_trade_id req) idx leg
        (rq_lots req) (maker_timeout_seconds req) ?slip"
      using i(1) by (simp add: nth_enumerate_eq) blast
    with m place_entry_leg_requested have "rs ! i = Inr g \<Longrightarrow> qty_requested g = of_int (rq_lots req)" for g
      unfolding io_post_def by metis
    then show "qty_requested f = of_int (rq_lots req)"
      using i(2) by (cases "rs ! i") (simp_all add: fill_of_result_def)
  qed
qed

interpretation live: execution_router "\<lambda>req. io_run (live_submit_entry env le ex fuel req)" for env le ex fuel
proof unfold_locales
  fix req s r s' f
  assume "io_run (live_submit_entry env le ex fuel req) s = (Inr r, s')"
  then have a: "live_submit_entry env le ex fuel req s = Some (Inr r, s')"
    by (auto simp: io_run_def split: option.splits)
  note l = live_entry_requested [OF a]
  show "er_trade_id r = rq_trade_id req" "length (er_fills r) = length (rq_legs req)"
    "er_success r \<longleftrightarrow> (\<forall>f \<in> set (er_fills r). is_complete f)" by (rule l)+
  show "f \<in> set (er_fills r) \<Longrightarrow> qty_requested f = of_int (rq_lots req)" using l(2) by blast
qed

lemma live_submit_entry_returns:
  assumes "clock_ok ex" and "enough_fuel fuel IOC_WAIT_SECONDS" and "enough_fuel fuel (maker_timeout_seconds req)"
  shows "live_submit_entry env le ex fuel req s \<noteq> None"
proof -
  have "returns (live_submit_entry env le ex fuel req)"
    unfolding live_submit_entry_def Let_def
    by (intro returns_bind returns_gather returns_finish) (auto intro: returns_place_entry_leg [OF assms])
  then show ?thesis by (simp add: returns_def)
qed

section \<open>Properties: rollback\<close>

text \<open>The requests appended to the log by an operation.\<close>

definition sends :: "('w, 'a) io \<Rightarrow> (request list \<Rightarrow> bool) \<Rightarrow> bool" where
  "sends m P \<longleftrightarrow> (\<forall>s r s'. m s = Some (r, s') \<longrightarrow> (\<exists>rs. lw_log s' = lw_log s @ rs \<and> P rs))"

definition is_reduce_only :: "request \<Rightarrow> bool" where
  "is_reduce_only rq = (case rq of PlaceOrder p \<Rightarrow> vget p ''reduce_only'' = VStr ''true'' | _ \<Rightarrow> True)"

definition closes_fill :: "live_executor \<Rightarrow> leg_fill \<Rightarrow> request \<Rightarrow> bool" where
  "closes_fill le f rq =
     (case rq of
        PlaceOrder p \<Rightarrow>
          (\<exists>i. get_instrument (le_chain le) (lf_symbol f) = Some i \<and> vget p ''product_id'' = VInt (product_id i)) \<and>
          vget p ''size'' = VFlt (qty_filled f) \<and> vget p ''side'' = VStr (side_value (opposite (lf_side f))) \<and>
          vget p ''order_type'' = VStr ''market_order'' \<and> vget p ''reduce_only'' = VStr ''true''
      | _ \<Rightarrow> False)"

lemma sends_return: "P [] \<Longrightarrow> sends (io_return x) P" "P [] \<Longrightarrow> sends (io_lift y) P" "P [] \<Longrightarrow> sends (draw_salt ex) P"
  by (auto simp: sends_def io_return_def io_lift_def draw_salt_def split: prod.splits)

lemma sends_place: "P [PlaceOrder p] \<Longrightarrow> sends (place_order ex p) P"
  by (auto simp: sends_def place_order_def split: prod.splits)

lemma sends_cancel: "P [CancelOrder a b c] \<Longrightarrow> sends (cancel_order ex a b c) P"
  by (auto simp: sends_def cancel_order_def split: prod.splits)

lemma sends_try: "sends m P \<Longrightarrow> sends (io_try m) P"
  by (auto simp: sends_def io_try_def split: option.splits)

lemma vget_close_payload [simp]:
  "vget (close_payload i qty side coid) ''reduce_only'' = VStr ''true''"
  "vget (close_payload i qty side coid) ''size'' = qty"
  "vget (close_payload i qty side coid) ''side'' = VStr side"
  "vget (close_payload i qty side coid) ''order_type'' = VStr ''market_order''"
  "vget (close_payload i qty side coid) ''product_id'' = VInt (product_id i)"
  by (simp_all add: close_payload_def vget_def dict_get_def)

lemma record_action_log:
  "record_action caught a b m s = Some (r, s') \<Longrightarrow> \<exists>r'. m s = Some (r', s')"
  by (auto simp: record_action_def io_bind_def io_try_def io_return_def io_lift_def
      split: option.splits sum.splits if_splits)

lemma rollback_one_log:
  assumes "rollback_one env le ex tid f s = Some (r, s')"
  shows "\<exists>rs. lw_log s' = lw_log s @ rs \<and> (\<forall>q \<in> set rs. is_reduce_only q) \<and>
    (0 < qty_filled f \<and> get_instrument (le_chain le) (lf_symbol f) \<noteq> None \<longrightarrow> (\<exists>q \<in> set rs. closes_fill le f q))"
  using assms
  by (cases "lf_side f")
    (auto simp: rollback_one_def Let_def io_return_def io_bind_def draw_salt_def place_order_def cancel_order_def
      is_reduce_only_def closes_fill_def split: if_splits option.splits prod.splits dest!: record_action_log)

text \<open>
  A rollback that runs to its end sends, for every filled leg of a listed contract, a reduce-only market
  order of the filled quantity on the other side; no order it sends can open exposure.
\<close>

lemma rollback_log:
  assumes "rollback env le ex tid fs s = Some (r, s')"
  shows "\<exists>rs. lw_log s' = lw_log s @ rs \<and> (\<forall>q \<in> set rs. is_reduce_only q) \<and>
    ((\<exists>acts. r = Inr acts) \<longrightarrow>
       (\<forall>f \<in> set fs. 0 < qty_filled f \<and> get_instrument (le_chain le) (lf_symbol f) \<noteq> None \<longrightarrow>
          (\<exists>q \<in> set rs. closes_fill le f q)))"
  using assms
proof (induction fs arbitrary: s r)
  case Nil
  then show ?case by (simp add: io_return_def)
next
  case (Cons f fs)
  obtain r1 s1 where one: "rollback_one env le ex tid f s = Some (r1, s1)"
    using Cons.prems by (auto simp: io_bind_def split: option.splits)
  obtain rs1 where rs1: "lw_log s1 = lw_log s @ rs1" "\<forall>q \<in> set rs1. is_reduce_only q"
    "0 < qty_filled f \<and> get_instrument (le_chain le) (lf_symbol f) \<noteq> None \<longrightarrow> (\<exists>q \<in> set rs1. closes_fill le f q)"
    using rollback_one_log [OF one] by blast
  show ?case
  proof (cases r1)
    case (Inl e)
    with Cons.prems one have "r = Inl e" "s' = s1" by (auto simp: io_bind_def)
    with rs1 show ?thesis by auto
  next
    case (Inr acts)
    then obtain r2 where r2: "rollback env le ex tid fs s1 = Some (r2, s')" "\<exists>a. r = Inr a \<Longrightarrow> \<exists>a. r2 = Inr a"
      using Cons.prems one by (auto simp: io_bind_def io_return_def split: option.splits sum.splits)
    obtain rs2 where "lw_log s' = lw_log s1 @ rs2" "\<forall>q \<in> set rs2. is_reduce_only q"
      "(\<exists>acts. r2 = Inr acts) \<longrightarrow> (\<forall>f \<in> set fs. 0 < qty_filled f \<and> get_instrument (le_chain le) (lf_symbol f) \<noteq> None \<longrightarrow>
          (\<exists>q \<in> set rs2. closes_fill le f q))"
      using Cons.IH [OF r2(1)] by blast
    with rs1 r2(2) show ?thesis by (intro exI [of _ "rs1 @ rs2"]) auto
  qed
qed

section \<open>Properties: the orders of an entry\<close>

text \<open>The kind of a request of an entry: the maker order, its polls, its cancellation, the IOC order.\<close>

definition entry_kind :: "request \<Rightarrow> string" where
  "entry_kind rq =
     (case rq of
        PlaceOrder p \<Rightarrow> if vget p ''post_only'' = VStr ''true'' then ''maker'' else ''ioc''
      | GetOrder _ \<Rightarrow> ''poll''
      | CancelOrder _ _ _ \<Rightarrow> ''cancel''
      | CancelAll \<Rightarrow> ''cancel_all'')"

definition entry_kinds :: "request list \<Rightarrow> string list" where
  "entry_kinds rqs = filter (\<lambda>k. k \<noteq> ''poll'') (map entry_kind rqs)"

text \<open>A request of the entry of \<open>lots\<close> of one leg: an order is a limit order for the leg as it was asked for.\<close>

definition request_of_leg :: "live_executor \<Rightarrow> int \<Rightarrow> leg_intent \<Rightarrow> request \<Rightarrow> bool" where
  "request_of_leg le lots leg rq =
     (case rq of
        PlaceOrder p \<Rightarrow>
          Some (vget p ''product_id'') = map_option (VInt \<circ> product_id) (get_instrument (le_chain le) (li_symbol leg)) \<and>
          vget p ''size'' = VInt lots \<and> vget p ''side'' = VStr (li_side leg) \<and>
          vget p ''order_type'' = VStr ''limit_order'' \<and>
          (vget p ''post_only'' = VStr ''true'' \<or> vget p ''time_in_force'' = VStr ''ioc'')
      | GetOrder _ \<Rightarrow> True
      | CancelOrder _ _ pid \<Rightarrow> pid = map_option product_id (get_instrument (le_chain le) (li_symbol leg))
      | CancelAll \<Rightarrow> False)"

text \<open>
  What the entry of one leg may send: one maker order, then the cancellation of that order, then one IOC
  order, each of the leg's own contract, size and side, with polls in between; it may end after any of them.
\<close>

definition leg_requests :: "live_executor \<Rightarrow> int \<Rightarrow> leg_intent \<Rightarrow> request list \<Rightarrow> bool" where
  "leg_requests le lots leg rqs \<longleftrightarrow>
     list_all (request_of_leg le lots leg) rqs \<and> prefix (entry_kinds rqs) [''maker'', ''cancel'', ''ioc'']"

definition sends_kinds :: "live_executor \<Rightarrow> int \<Rightarrow> leg_intent \<Rightarrow> string list \<Rightarrow> request list \<Rightarrow> bool" where
  "sends_kinds le lots leg ks rqs \<longleftrightarrow> list_all (request_of_leg le lots leg) rqs \<and> entry_kinds rqs = ks"

definition sends_upto :: "live_executor \<Rightarrow> int \<Rightarrow> leg_intent \<Rightarrow> string list \<Rightarrow> request list \<Rightarrow> bool" where
  "sends_upto le lots leg ks rqs \<longleftrightarrow> list_all (request_of_leg le lots leg) rqs \<and> prefix (entry_kinds rqs) ks"

lemma entry_kinds_append [simp]: "entry_kinds (a @ b) = entry_kinds a @ entry_kinds b"
  by (simp add: entry_kinds_def)

lemma sends_poll [simp]: "sends_kinds le lots leg ks (GetOrder c # rs) = sends_kinds le lots leg ks rs"
  by (simp add: sends_kinds_def entry_kinds_def entry_kind_def request_of_leg_def)

lemma sends_kinds_bind:
  assumes "sends m (sends_kinds le lots leg ks)" and "\<And>x. sends (f x) (sends_upto le lots leg ks')"
  shows "sends (io_bind m f) (sends_upto le lots leg (ks @ ks'))"
  unfolding sends_def
proof (intro allI impI)
  fix s r s'
  assume run: "io_bind m f s = Some (r, s')"
  then obtain r1 s1 where m: "m s = Some (r1, s1)" by (auto simp: io_bind_def split: option.splits)
  then obtain rs1 where rs1: "lw_log s1 = lw_log s @ rs1" "sends_kinds le lots leg ks rs1"
    using assms(1) unfolding sends_def by blast
  show "\<exists>rs. lw_log s' = lw_log s @ rs \<and> sends_upto le lots leg (ks @ ks') rs"
  proof (cases r1)
    case (Inl e)
    with run m have "s' = s1" by (simp add: io_bind_def)
    with rs1 show ?thesis by (auto simp: sends_kinds_def sends_upto_def)
  next
    case (Inr x)
    with run m have "f x s1 = Some (r, s')" by (simp add: io_bind_def)
    then obtain rs2 where "lw_log s' = lw_log s1 @ rs2" "sends_upto le lots leg ks' rs2"
      using assms(2) unfolding sends_def by blast
    with rs1 show ?thesis by (auto simp: sends_kinds_def sends_upto_def)
  qed
qed

lemma sends_quiet_bind:
  assumes "sends m (sends_kinds le lots leg [])" and "\<And>x. sends (f x) (sends_upto le lots leg ks)"
  shows "sends (io_bind m f) (sends_upto le lots leg ks)"
  using sends_kinds_bind [OF assms] by simp

lemma sends_one_bind:
  assumes "sends m (sends_kinds le lots leg [k])" and "\<And>x. sends (f x) (sends_upto le lots leg ks)"
  shows "sends (io_bind m f) (sends_upto le lots leg (k # ks))"
  using sends_kinds_bind [OF assms] by simp

lemma sends_value_bind:
  assumes "\<And>x. y = Inr x \<Longrightarrow> sends (f x) (sends_upto le lots leg ks)"
  shows "sends (io_bind (io_lift y) f) (sends_upto le lots leg ks)"
  using assms by (cases y) (auto simp: sends_def io_bind_def io_lift_def sends_upto_def entry_kinds_def)

lemma sends_upto_nothing [simp]: "sends_upto le lots leg ks []" "sends_kinds le lots leg [] []"
  by (simp_all add: sends_upto_def sends_kinds_def entry_kinds_def)

lemma sends_upto_return [simp, intro]: "sends (io_return x) (sends_upto le lots leg ks)" "sends (io_lift y) (sends_upto le lots leg ks)"
  "sends (draw_salt ex) (sends_kinds le lots leg [])"
  by (auto intro: sends_return)

lemma sends_wait:
  "sends (wait_for_order env ex fuel coid t) (sends_kinds le lots leg [])"
proof -
  have "\<exists>rs. lw_log s' = lw_log s @ rs \<and> sends_kinds le lots leg [] rs"
    if "wait_loop env ex coid d fuel latest s = Some (r, s')" for s r s' d latest
    using that
  proof (induction fuel arbitrary: latest s)
    case 0
    then show ?case by simp
  next
    case (Suc fuel)
    obtain g s1 where g: "get_order_by_client_id ex coid s = Some (g, s1)" and l1: "lw_log s1 = lw_log s @ [GetOrder coid]"
      using get_order_returns by blast
    have poll: "sends_kinds le lots leg [] [GetOrder coid]"
      by simp
    have more: "\<exists>rs. lw_log s' = lw_log s @ rs \<and> sends_kinds le lots leg [] rs"
      if w: "wait_loop env ex coid d fuel l (sleep ex ORDER_POLL_INTERVAL_S s1) = Some (r, s')" for l
    proof -
      obtain rs where "lw_log s' = lw_log s1 @ rs" "sends_kinds le lots leg [] rs"
        using Suc.IH [OF w] by (auto simp: sleep_def)
      with l1 show ?thesis by (intro exI [of _ "GetOrder coid # rs"]) simp
    qed
    show ?case
    proof (cases "ex_time ex (lw_ext s) < d")
      case False
      with Suc.prems show ?thesis by (intro exI [of _ "[]"]) simp
    next
      case True
      show ?thesis
      proof (cases g)
        case (Inl e)
        with Suc.prems True g l1 poll show ?thesis by auto
      next
        case (Inr o1)
        show ?thesis
        proof (cases o1)
          case None
          with Suc.prems True g Inr more show ?thesis by simp
        next
          case (Some ord)
          with Suc.prems True g Inr more l1 poll show ?thesis by (auto split: if_splits)
        qed
      qed
    qed
  qed
  then show ?thesis unfolding sends_def wait_for_order_def by blast
qed

lemma order_fill_fields:
  "order_to_leg_fill env ord symbol side lots idx coid = Inr f \<Longrightarrow> lf_symbol f = symbol \<and> lf_client_order_id f = coid"
  by (auto simp: order_to_leg_fill_def Let_def)

lemma client_order_id_nonempty: "generate_client_order_id sha1_hex sid tid idx purpose salt \<noteq> []"
  by (simp add: generate_client_order_id_def Let_def)

lemma sends_cancel_open:
  assumes "lf_symbol fill = li_symbol leg" and "lf_client_order_id fill \<noteq> []"
  shows "sends (cancel_open_order le ex fill) (sends_kinds le lots leg [''cancel''])"
  using assms
  by (auto simp: sends_def cancel_open_order_def Let_def io_bind_def io_try_def io_return_def io_lift_def cancel_order_def
      sends_kinds_def entry_kinds_def entry_kind_def request_of_leg_def split: option.splits prod.splits sum.splits if_splits)

lemma sends_place_ioc:
  assumes "lf_symbol fill = li_symbol leg" and "lf_client_order_id fill \<noteq> []"
    and "get_instrument (le_chain le) (li_symbol leg) = Some inst"
  shows "sends (place_ioc env le ex fuel sid tid idx leg lots slip q inst fill) (sends_upto le lots leg [''cancel'', ''ioc''])"
proof -
  have order: "sends (place_order ex (ioc_payload env inst lots (li_side leg) price coid)) (sends_kinds le lots leg [''ioc''])"
    for price coid
    using assms(3)
    by (auto intro!: sends_place simp: sends_kinds_def entry_kinds_def entry_kind_def request_of_leg_def ioc_payload_def
        vget_def dict_get_def)
  show ?thesis
    unfolding place_ioc_def Let_def
    by (rule sends_one_bind [OF sends_cancel_open [OF assms(1,2)]], rule sends_quiet_bind, rule sends_upto_return)
      (auto intro!: sends_one_bind [OF order] sends_quiet_bind [OF sends_wait] sends_value_bind split: option.split)
qed

lemma sends_place_entry_leg:
  fixes ex :: "'w exchange"
  shows "sends (place_entry_leg env le ex fuel sid tid idx leg lots t slip) (leg_requests le lots leg)"
proof -
  let ?P = "sends_upto le lots leg [''maker'', ''cancel'', ''ioc'']"
  have missing: "sends (io_bind (io_lift (LegSide (li_side leg)))
      (\<lambda>sd. io_return (rejected_fill (li_symbol leg) sd (of_int lots) (int idx) ''missing_quote'')) :: ('w, leg_fill) io) ?P"
    by (rule sends_value_bind) auto
  have order: "sends (place_order ex (entry_payload env inst lots (li_side leg) price coid)) (sends_kinds le lots leg [''maker''])"
    if "get_instrument (le_chain le) (li_symbol leg) = Some inst" for inst price coid
    using that
    by (auto intro!: sends_place simp: sends_kinds_def entry_kinds_def entry_kind_def request_of_leg_def entry_payload_def
        vget_def dict_get_def)
  have refill: "sends (io_bind (case ord of Some d \<Rightarrow> io_lift (order_to_leg_fill env d (li_symbol leg) (li_side leg) lots (int idx) coid)
      | None \<Rightarrow> io_return fill) g) (sends_upto le lots leg ks)"
    if "lf_symbol fill = li_symbol leg" "lf_client_order_id fill = coid"
      "\<And>f. lf_symbol f = li_symbol leg \<Longrightarrow> lf_client_order_id f = coid \<Longrightarrow> sends (g f) (sends_upto le lots leg ks)"
    for ord coid ks fill and g :: "leg_fill \<Rightarrow> ('w, leg_fill) io"
  proof (cases ord)
    case None
    with that(3) [OF that(1,2)] show ?thesis by (simp add: io_bind_def io_return_def sends_def)
  next
    case (Some d)
    then show ?thesis using that(3) order_fill_fields by (auto intro!: sends_value_bind)
  qed
  have rest: "sends (if is_complete fill then io_return fill
      else io_bind (wait_for_order env ex fuel coid t) (\<lambda>ord. io_bind (case ord of
          Some d \<Rightarrow> io_lift (order_to_leg_fill env d (li_symbol leg) (li_side leg) lots (int idx) coid) | None \<Rightarrow> io_return fill)
        (\<lambda>fill. if is_complete fill then io_return fill
                else place_ioc env le ex fuel sid tid idx leg lots slip q inst fill))) (sends_upto le lots leg [''cancel'', ''ioc''])"
    if "lf_symbol fill = li_symbol leg" "lf_client_order_id fill = coid" "coid \<noteq> []"
      "get_instrument (le_chain le) (li_symbol leg) = Some inst" for fill coid inst q
  proof -
    have "sends (if is_complete f then io_return f else place_ioc env le ex fuel sid tid idx leg lots slip q inst f)
        (sends_upto le lots leg [''cancel'', ''ioc''])"
      if "lf_symbol f = li_symbol leg" "lf_client_order_id f = coid" for f
      using sends_place_ioc [OF that(1) _ \<open>get_instrument (le_chain le) (li_symbol leg) = Some inst\<close>] that(2) \<open>coid \<noteq> []\<close>
      by auto
    then show ?thesis using refill [OF that(1,2)] by (auto intro!: sends_quiet_bind [OF sends_wait])
  qed
  have main: "sends (io_bind (draw_salt ex) (\<lambda>salt. io_bind (place_order ex (entry_payload env inst lots (li_side leg) (p salt) (c salt)))
      (\<lambda>resp. io_bind (io_lift (order_to_leg_fill env resp (li_symbol leg) (li_side leg) lots (int idx) (c salt))) (\<lambda>fill.
        if is_complete fill then io_return fill
        else io_bind (wait_for_order env ex fuel (c salt) t) (\<lambda>ord. io_bind (case ord of
            Some d \<Rightarrow> io_lift (order_to_leg_fill env d (li_symbol leg) (li_side leg) lots (int idx) (c salt)) | None \<Rightarrow> io_return fill)
          (\<lambda>fill. if is_complete fill then io_return fill
                  else place_ioc env le ex fuel sid tid idx leg lots slip q inst fill)))))) ?P"
    if i: "get_instrument (le_chain le) (li_symbol leg) = Some inst" and c: "\<And>salt. c salt \<noteq> []" for p c q inst
    by (rule sends_quiet_bind, simp, rule sends_one_bind [OF order [OF i]], rule sends_value_bind, rule rest [OF _ _ c i])
      (simp_all add: order_fill_fields)
  show ?thesis
    unfolding place_entry_leg_def Let_def leg_requests_def sends_upto_def [symmetric]
    using missing main client_order_id_nonempty by (simp split: option.split)
qed

lemma gather_logs:
  assumes "gather ms s = Some (r, s')" and "list_all2 (\<lambda>m l. sends m (Q l)) ms ls"
  shows "\<exists>logs. lw_log s' = lw_log s @ concat logs \<and> list_all2 Q ls logs"
  using assms
proof (induction ms arbitrary: s r ls)
  case Nil
  then show ?case by (intro exI [of _ "[]"]) (simp add: io_return_def)
next
  case (Cons m ms)
  then obtain l ls' where ls: "ls = l # ls'" "sends m (Q l)" "list_all2 (\<lambda>m l. sends m (Q l)) ms ls'"
    by (auto simp: list_all2_Cons1)
  obtain r1 s1 where m: "m s = Some (r1, s1)" using Cons.prems(1) by (auto simp: io_bind_def io_try_def split: option.splits)
  obtain r2 where g: "gather ms s1 = Some (r2, s')"
    using Cons.prems(1) m by (auto simp: io_bind_def io_try_def io_return_def split: option.splits sum.splits)
  obtain rs where rs: "lw_log s1 = lw_log s @ rs" "Q l rs" using ls(2) m unfolding sends_def by blast
  obtain logs where "lw_log s' = lw_log s1 @ concat logs" "list_all2 Q ls' logs" using Cons.IH [OF g ls(3)] by blast
  with rs ls(1) show ?case by (intro exI [of _ "rs # logs"]) simp
qed

section \<open>Properties: exits\<close>

text \<open>The order that closes a leg: all its lots, on the other side, reduce-only; a leg whose contract is not listed gets none.\<close>

definition flipped_side :: "leg_intent \<Rightarrow> leg_side" where
  "flipped_side leg = (if li_side leg = ''buy'' then SELL else BUY)"

definition closes_leg :: "live_executor \<Rightarrow> int \<Rightarrow> leg_intent \<Rightarrow> request \<Rightarrow> bool" where
  "closes_leg le lots leg rq =
     (case (rq, get_instrument (le_chain le) (li_symbol leg)) of
        (PlaceOrder p, Some i) \<Rightarrow>
          vget p ''product_id'' = VInt (product_id i) \<and> vget p ''size'' = VInt lots \<and>
          vget p ''side'' = VStr (side_value (flipped_side leg)) \<and> vget p ''order_type'' = VStr ''market_order'' \<and>
          vget p ''reduce_only'' = VStr ''true''
      | _ \<Rightarrow> False)"

definition exit_fill_of :: "live_executor \<Rightarrow> leg_intent \<Rightarrow> leg_fill \<Rightarrow> bool" where
  "exit_fill_of le leg f \<longleftrightarrow> lf_symbol f = li_symbol leg \<and> lf_side f = flipped_side leg \<and>
     (get_instrument (le_chain le) (li_symbol leg) \<noteq> None \<or> qty_filled f = 0)"

lemma exit_leg_run:
  assumes "exit_leg env le ex req (idx, leg) s = Some (Inr f, s')"
  shows "exit_fill_of le leg f \<and> (\<exists>rs. lw_log s' = lw_log s @ rs \<and>
      (if get_instrument (le_chain le) (li_symbol leg) = None then rs = [] else \<exists>q. rs = [q] \<and> closes_leg le (xq_lots req) leg q))"
proof (cases "get_instrument (le_chain le) (li_symbol leg)")
  case None
  with assms show ?thesis by (auto simp: exit_leg_def exit_fill_of_def flipped_side_def Let_def io_return_def rejected_fill_def)
next
  case (Some inst)
  obtain salt s0 where salt: "draw_salt ex s = Some (Inr salt, s0)" "lw_log s0 = lw_log s"
    by (cases "ex_salt ex (lw_ext s)") (simp add: draw_salt_def)
  define p where "p = close_payload inst (VInt (xq_lots req)) (side_value (flipped_side leg))
    (generate_client_order_id (env_sha1 env) (strategy_value (xq_strategy_id req)) (xq_trade_id req) (int idx)
      (''exit_'' @ trigger_value (xq_trigger req)) salt)"
  obtain res s1 where pl: "place_order ex p s0 = Some (res, s1)" "lw_log s1 = lw_log s0 @ [PlaceOrder p]"
    by (cases "ex_place ex p (lw_ext s0)") (simp add: place_order_def)
  note run = assms [unfolded exit_leg_def Let_def fst_conv snd_conv flipped_side_def [symmetric] Some option.case io_bind_def [of "draw_salt ex"]
      salt(1) prod.case sum.case p_def [symmetric] io_bind_def [of "io_try (place_order ex p)"] io_try_def pl(1)]
  have "closes_leg le (xq_lots req) leg (PlaceOrder p)"
    by (simp add: closes_leg_def Some p_def close_payload_def vget_def dict_get_def)
  moreover have "exit_fill_of le leg f \<and> s' = s1"
  proof (cases res)
    case (Inl e)
    with run show ?thesis by (auto simp: exit_fill_of_def io_return_def io_lift_def rejected_fill_def Some split: if_splits)
  next
    case (Inr resp)
    with run show ?thesis
      by (auto simp: exit_fill_of_def io_bind_def io_return_def io_lift_def Some split: option.splits sum.splits if_splits)
  qed
  ultimately show ?thesis using pl(2) salt(2) by (simp add: Some)
qed

lemma exit_legs_run:
  assumes "exit_legs env le ex req (zip ks legs) s = Some (Inr fs, s')" and "length ks = length legs"
  shows "list_all2 (exit_fill_of le) legs fs \<and> (\<exists>rs. lw_log s' = lw_log s @ rs \<and>
    list_all2 (closes_leg le (xq_lots req)) (filter (\<lambda>leg. get_instrument (le_chain le) (li_symbol leg) \<noteq> None) legs) rs)"
  using assms
proof (induction legs arbitrary: ks s fs)
  case Nil
  then show ?case by (simp add: io_return_def)
next
  case (Cons leg legs)
  obtain k ks' where ks: "ks = k # ks'" "length ks' = length legs" using Cons.prems(2) by (cases ks) auto
  obtain f s1 fs' where g: "exit_leg env le ex req (k, leg) s = Some (Inr f, s1)"
    "exit_legs env le ex req (zip ks' legs) s1 = Some (Inr fs', s')" "fs = f # fs'"
    using Cons.prems(1) by (auto simp: ks io_bind_def io_return_def split: option.splits sum.splits)
  obtain rs2 where rs2: "list_all2 (exit_fill_of le) legs fs'" "lw_log s' = lw_log s1 @ rs2"
    "list_all2 (closes_leg le (xq_lots req)) (filter (\<lambda>leg. get_instrument (le_chain le) (li_symbol leg) \<noteq> None) legs) rs2"
    using Cons.IH [OF g(2) ks(2)] by blast
  obtain rs1 where rs1: "lw_log s1 = lw_log s @ rs1"
    "if get_instrument (le_chain le) (li_symbol leg) = None then rs1 = [] else \<exists>q. rs1 = [q] \<and> closes_leg le (xq_lots req) leg q"
    using exit_leg_run [OF g(1)] by blast
  show ?case
    using rs1 rs2 exit_leg_run [OF g(1)] by (intro conjI exI [of _ "rs1 @ rs2"]) (auto simp: g(3) split: if_splits)
qed

lemma live_submit_exit_success:
  "live_submit_exit env le ex req s = Some (Inr r, s') \<Longrightarrow> xr_success r \<longleftrightarrow> (\<forall>f \<in> set (xr_fills r). is_complete f)"
  by (auto simp: live_submit_exit_def split: option.splits sum.splits)

section \<open>Claims\<close>

text \<open>
  C13: with a clock that moves and fuel for its two timeouts, a live entry always comes back; when it returns
  a result, there is one fill per leg and the entry is a success exactly when every fill is complete.
\<close>

theorem live_entry_returns:
  assumes "clock_ok ex" and "enough_fuel fuel IOC_WAIT_SECONDS" and "enough_fuel fuel (maker_timeout_seconds req)"
  shows "\<exists>res s'. live_submit_entry env le ex fuel req s = Some (res, s') \<and>
     (case res of
        Inl _ \<Rightarrow> True
      | Inr r \<Rightarrow> er_trade_id r = rq_trade_id req \<and> length (er_fills r) = length (rq_legs req) \<and>
          (er_success r \<longleftrightarrow> (\<forall>f \<in> set (er_fills r). is_complete f)))"
proof -
  obtain res s' where run: "live_submit_entry env le ex fuel req s = Some (res, s')"
    using live_submit_entry_returns [OF assms] by fastforce
  show ?thesis
  proof (cases res)
    case (Inl e)
    with run show ?thesis by simp
  next
    case (Inr r)
    with run live_entry_requested [of env le ex fuel req s r s'] show ?thesis by simp
  qed
qed

lemma record_action_caught:
  "record_action caught a b m s = Some (Inl e, s') \<Longrightarrow> e \<notin> caught"
  by (auto simp: record_action_def io_bind_def io_try_def io_return_def io_lift_def split: option.splits sum.splits if_splits)

lemma rollback_one_caught: "rollback_one env le ex tid f s = Some (Inl e, s') \<Longrightarrow> e \<noteq> DeltaRestError"
  by (auto simp: rollback_one_def Let_def io_return_def io_bind_def draw_salt_def
      split: if_splits option.splits prod.splits dest!: record_action_caught)

lemma rollback_caught: "rollback env le ex tid fs s = Some (Inl e, s') \<Longrightarrow> e \<noteq> DeltaRestError"
proof (induction fs arbitrary: s)
  case Nil
  then show ?case by (simp add: io_return_def)
next
  case (Cons f fs)
  then show ?case
    using rollback_one_caught [of env le ex tid f s e s']
    by (auto simp: io_bind_def io_return_def split: option.splits sum.splits)
qed

text \<open>After the gather: a success sends nothing, a failure only what closes the fills it reports.\<close>

lemma finish_entry_log:
  assumes "finish_entry env le ex req results s = Some (Inr r, s')"
  shows "\<exists>rs. lw_log s' = lw_log s @ rs \<and> list_all is_reduce_only rs \<and>
     (if er_success r then rs = []
      else list_all (\<lambda>f. qty_filled f \<le> 0 \<or> get_instrument (le_chain le) (lf_symbol f) = None \<or> list_ex (closes_fill le f) rs) (er_fills r))"
proof (cases "\<forall>f \<in> set (map (fill_of_result req) results). is_complete f")
  case True
  with assms show ?thesis by (auto simp: finish_entry_def mk_entry_result_def Let_def)
next
  case False
  let ?fs = "map (fill_of_result req) results"
  obtain res s1 where rb: "rollback env le ex (rq_trade_id req) ?fs s = Some (res, s1)"
    using assms False by (auto simp: finish_entry_def Let_def split: option.splits)
  obtain acts where res: "res = Inr acts" and s1: "s1 = s'"
    using assms False rb rollback_caught [of env le ex "rq_trade_id req" ?fs s]
    by (auto simp: finish_entry_def Let_def split: sum.splits if_splits)
  have fills: "er_fills r = ?fs" by (rule finish_entry_result(1) [OF assms])
  have bad: "\<not> er_success r" using finish_entry_result(1,3) [OF assms] False by simp
  obtain rs where "lw_log s' = lw_log s @ rs" "\<forall>q \<in> set rs. is_reduce_only q"
    and close: "\<forall>f \<in> set ?fs. 0 < qty_filled f \<and> get_instrument (le_chain le) (lf_symbol f) \<noteq> None \<longrightarrow>
          (\<exists>q \<in> set rs. closes_fill le f q)"
    using rollback_log [OF rb] res s1 by auto
  moreover have "list_all (\<lambda>f. qty_filled f \<le> 0 \<or> get_instrument (le_chain le) (lf_symbol f) = None \<or> list_ex (closes_fill le f) rs) ?fs"
    unfolding list_all_iff list_ex_iff using close not_le by blast
  ultimately show ?thesis using fills bad by (auto simp: list_all_iff)
qed

text \<open>
  C6: all that a live entry sends, whatever the exchange answers.  First, leg after leg, the requests of the
  legs: for each leg one post-only maker order, then the cancellation of it, then one IOC order, with polls
  in between, any tail of which may be missing, each order for the contract, the side and the lots that
  were asked for.  After that only reduce-only orders and cancellations: none when the entry is a success,
  and when it is a failure, for every leg whose reported fill is not empty and whose contract is listed, a
  reduce-only market order of the reported quantity on the other side.  What a partly filled maker order
  bought before its IOC order is in no reported fill (see \<open>maker_part_is_lost\<close>).
\<close>

theorem failed_entry_is_closed:
  assumes "live_submit_entry env le ex fuel req s = Some (Inr r, s')"
  shows "\<exists>logs closing. lw_log s' = lw_log s @ concat logs @ closing \<and>
     list_all2 (leg_requests le (rq_lots req)) (rq_legs req) logs \<and> list_all is_reduce_only closing \<and>
     (if er_success r then closing = []
      else list_all (\<lambda>f. qty_filled f \<le> 0 \<or> get_instrument (le_chain le) (lf_symbol f) = None \<or>
             list_ex (closes_fill le f) closing) (er_fills r))"
proof -
  let ?slip = "the_or (slip_bps_budget req) (dict_get (le_slip_bps le) (rq_strategy_id req))"
  let ?ms = "map (\<lambda>(idx, leg). place_entry_leg env le ex fuel (rq_strategy_id req) (rq_trade_id req) idx leg
      (rq_lots req) (maker_timeout_seconds req) ?slip) (enumerate 0 (rq_legs req))"
  obtain rs s1 where g: "gather ?ms s = Some (Inr rs, s1)" and fin: "finish_entry env le ex req rs s1 = Some (Inr r, s')"
    using assms by (auto simp: live_submit_entry_def Let_def io_bind_def split: option.splits sum.splits prod.splits)
  have "list_all2 (\<lambda>m l. sends m (leg_requests le (rq_lots req) l)) ?ms (rq_legs req)"
    by (auto simp: list_all2_conv_all_nth nth_enumerate_eq sends_place_entry_leg)
  then obtain logs where "lw_log s1 = lw_log s @ concat logs" "list_all2 (leg_requests le (rq_lots req)) (rq_legs req) logs"
    using gather_logs [OF g] by blast
  moreover obtain closing where "lw_log s' = lw_log s1 @ closing" "list_all is_reduce_only closing"
     "if er_success r then closing = []
      else list_all (\<lambda>f. qty_filled f \<le> 0 \<or> get_instrument (le_chain le) (lf_symbol f) = None \<or>
             list_ex (closes_fill le f) closing) (er_fills r)"
    using finish_entry_log [OF fin] by blast
  ultimately show ?thesis by (intro exI [of _ logs] exI [of _ closing]) simp
qed

lemma place_order_run:
  "place_order ex p s = Some (fst (ex_place ex p (lw_ext s)), \<lparr>lw_log = lw_log s @ [PlaceOrder p], lw_ext = snd (ex_place ex p (lw_ext s))\<rparr>)"
  by (simp add: place_order_def split: prod.split)

lemma cancel_order_run:
  "cancel_order ex a b c s = Some (fst (ex_cancel ex a b c (lw_ext s)),
     \<lparr>lw_log = lw_log s @ [CancelOrder a b c], lw_ext = snd (ex_cancel ex a b c (lw_ext s))\<rparr>)"
  by (simp add: cancel_order_def split: prod.split)

definition is_poll :: "request \<Rightarrow> bool" where
  "is_poll rq = (case rq of GetOrder _ \<Rightarrow> True | _ \<Rightarrow> False)"

lemma is_poll_get [simp]: "is_poll (GetOrder c)"
  by (simp add: is_poll_def)

lemma draw_salt_run: "\<exists>salt s1. draw_salt ex s = Some (Inr salt, s1) \<and> lw_log s1 = lw_log s"
  by (simp add: draw_salt_def split: prod.split)

text \<open>An exchange that answers every poll with the same order: the wait ends with that order, or without a poll.\<close>

lemma wait_loop_same:
  assumes "\<And>c w. fst (ex_get ex c w) = Inr (Some ord)" and "latest = None \<or> latest = Some ord"
    and "wait_loop env ex coid d fuel latest s = Some (r, s')"
  shows "(r = Inr None \<or> r = Inr (Some ord)) \<and> (\<exists>polls. lw_log s' = lw_log s @ polls \<and> list_all is_poll polls)"
  using assms(2,3)
proof (induction fuel arbitrary: latest s)
  case 0
  then show ?case by simp
next
  case (Suc fuel)
  obtain s1 where g: "get_order_by_client_id ex coid s = Some (Inr (Some ord), s1)" and l1: "lw_log s1 = lw_log s @ [GetOrder coid]"
    using assms(1) [of coid "lw_ext s"] by (cases "ex_get ex coid (lw_ext s)") (auto simp: get_order_by_client_id_def)
  show ?case
  proof (cases "ex_time ex (lw_ext s) < d")
    case False
    with Suc.prems show ?thesis by (auto intro: exI [of _ "[]"])
  next
    case True
    show ?thesis
    proof (cases "py_str env (the_or (VStr []) (dict_get ord ''state'')) \<in> set TERMINAL_ORDER_STATES")
      case t: True
      with Suc.prems True g l1 show ?thesis by auto
    next
      case f: False
      with Suc.prems True g have "wait_loop env ex coid d fuel (Some ord) (sleep ex ORDER_POLL_INTERVAL_S s1) = Some (r, s')"
        by simp
      then have "(r = Inr None \<or> r = Inr (Some ord)) \<and>
          (\<exists>polls. lw_log s' = lw_log (sleep ex ORDER_POLL_INTERVAL_S s1) @ polls \<and> list_all is_poll polls)"
        by (rule Suc.IH [rotated]) simp
      then obtain polls where "lw_log s' = lw_log s @ (GetOrder coid # polls)" "list_all is_poll polls" "r = Inr None \<or> r = Inr (Some ord)"
        using l1 by (auto simp: sleep_def)
      then show ?thesis by (intro conjI exI [of _ "GetOrder coid # polls"]) auto
    qed
  qed
qed

lemma cancel_open_run:
  assumes "\<And>a b c w. fst (ex_cancel ex a b c w) = Inr ()" and "lf_client_order_id f \<noteq> []"
  shows "\<exists>a b c s1. cancel_open_order le ex f s = Some (Inr (), s1) \<and> lw_log s1 = lw_log s @ [CancelOrder a b c]"
  using assms
  by (auto simp: cancel_open_order_def Let_def io_bind_def io_try_def io_return_def cancel_order_run split: option.split)



text \<open>A sample exchange: its state is the clock, every order fills one lot at 50.\<close>

definition sample_exchange :: "flt exchange" where
  "sample_exchange =
     \<lparr>ex_place = (\<lambda>p w. (Inr [(''filled_size'', VInt 1), (''average_fill_price'', VFlt 50), (''state'', VStr ''filled'')], w)),
      ex_get = (\<lambda>_ w. (Inr None, w)), ex_cancel = (\<lambda>_ _ _ w. (Inr (), w)), ex_cancel_all = (\<lambda>w. (Inr (), w)),
      ex_time = id, ex_sleep = (\<lambda>d w. w + d), ex_salt = (\<lambda>w. (''s'', w)), ex_now = (\<lambda>_. 0)\<rparr>"

definition sample_env :: py_env where
  "sample_env = \<lparr>env_sha1 = (\<lambda>_. []), env_float = (\<lambda>_. None), env_int = (\<lambda>_. None), env_repr = (\<lambda>_. []), env_err = (\<lambda>_. [])\<rparr>"

definition sample_live :: live_executor where
  "sample_live = \<lparr>le_chain = sample_chain, le_slip_bps = mk_slip_bps 50 100 50\<rparr>"

lemma sample_clock: "clock_ok sample_exchange"
  by (simp add: clock_ok_def sample_exchange_def)

theorem live_entry_returns_witness:
  "\<exists>res s'. live_submit_entry sample_env sample_live sample_exchange 31 sample_request \<lparr>lw_log = [], lw_ext = 0\<rparr> = Some (res, s')"
  using live_entry_returns [OF sample_clock, of 31 sample_request sample_env sample_live "\<lparr>lw_log = [], lw_ext = 0\<rparr>"]
  by (auto simp: enough_fuel_def IOC_WAIT_SECONDS_def sample_request_def)

text \<open>A two-legged request whose second contract is not listed, and an exchange that fills half of a maker order.\<close>

definition pair_request :: entry_request where
  "pair_request = sample_request\<lparr>rq_lots := 1, rq_legs := rq_legs sample_request @ [
      \<lparr>li_symbol = ''C9'', li_side = ''sell'', li_option_type = ''call'', li_strike = 300, li_expiry = 20 * hour_us\<rparr>]\<rparr>"

definition half_maker :: "(string, pyval) dict" where
  "half_maker = [(''filled_size'', VInt 1), (''average_fill_price'', VFlt 50), (''state'', VStr ''open'')]"

definition full_ioc :: "(string, pyval) dict" where
  "full_ioc = [(''filled_size'', VInt 2), (''average_fill_price'', VFlt 51), (''state'', VStr ''filled'')]"

definition half_exchange :: "flt exchange" where
  "half_exchange = sample_exchange
     \<lparr>ex_place := (\<lambda>p w. (Inr (if vget p ''post_only'' = VStr ''true'' then half_maker else full_ioc), w)),
      ex_get := (\<lambda>_ w. (Inr (Some half_maker), w))\<rparr>"

theorem failed_entry_is_closed_witness:
  "\<exists>r s'. live_submit_entry sample_env sample_live sample_exchange 31 pair_request \<lparr>lw_log = [], lw_ext = 0\<rparr> = Some (Inr r, s') \<and>
     \<not> er_success r \<and> list_ex (closes_fill sample_live (hd (er_fills r))) (lw_log s')"
proof -
  let ?s = "\<lparr>lw_log = [], lw_ext = 0 :: flt\<rparr>"
  have "\<exists>r s'. live_submit_entry sample_env sample_live sample_exchange 31 pair_request ?s = Some (Inr r, s') \<and> \<not> er_success r \<and>
      er_fills r \<noteq> [] \<and> qty_filled (hd (er_fills r)) = 1 \<and> lf_symbol (hd (er_fills r)) = ''C2''"
    by (simp add: live_submit_entry_def pair_request_def sample_request_def place_entry_leg_def sample_live_def sample_chain_def
        sample_quote_def sample_instrument_def get_instrument_def get_quote_def dict_get_def mid_def io_bind_def io_return_def
        io_lift_def io_try_def draw_salt_def place_order_def sample_exchange_def order_to_leg_fill_def as_float_default_def
        as_float_def float_of_def vget_def py_str_def LegSide_def is_complete_def rejected_fill_def finish_entry_def
        fill_of_result_def rollback_one_def record_action_def mk_entry_result_def Let_def)
  then obtain r s' where r: "live_submit_entry sample_env sample_live sample_exchange 31 pair_request ?s = Some (Inr r, s')"
    and bad: "\<not> er_success r" and hd: "er_fills r \<noteq> []" "qty_filled (hd (er_fills r)) = 1" "lf_symbol (hd (er_fills r)) = ''C2''"
    by blast
  obtain logs closing where log: "lw_log s' = lw_log ?s @ concat logs @ closing"
    and close: "list_all (\<lambda>f. qty_filled f \<le> 0 \<or> get_instrument (le_chain sample_live) (lf_symbol f) = None \<or>
        list_ex (closes_fill sample_live f) closing) (er_fills r)"
    using failed_entry_is_closed [OF r] bad by auto
  have "get_instrument (le_chain sample_live) ''C2'' \<noteq> None"
    by (simp add: sample_live_def sample_chain_def get_instrument_def dict_get_def)
  with close hd have "list_ex (closes_fill sample_live (hd (er_fills r))) closing"
    unfolding list_all_iff by force
  with r bad log show ?thesis by (intro exI [of _ r] exI [of _ s']) simp
qed



end
