(* ===== verification/Engine.thy ===== *)
theory Engine
  imports Tracking Exits NavState Live
begin

text \<open>
  The operations of the trading engine (\<open>bot/runtime/engine.py\<close>): cooldowns, the records of the risk gate,
  websocket quotes, the position of a stored trade, and the three writers that submit an entry, a trailing
  stop or an exit and persist what came of it.  The executor is a record of the operations of the class
  \<open>ExecutionRouter\<close>, with an instance for each of its two subclasses.  The metrics are in
  \<open>Metrics\<close>, the journals in \<open>Journal\<close>; log lines are not modelled.
\<close>

section \<open>Executors\<close>

record 'x executor =
  xe_submit_entry :: "entry_request \<Rightarrow> 'x \<Rightarrow> entry_result result \<times> 'x"
  xe_submit_exit :: "exit_request \<Rightarrow> 'x \<Rightarrow> exit_result result \<times> 'x"
  xe_update_stop :: "int \<Rightarrow> string \<Rightarrow> leg_side \<Rightarrow> flt \<Rightarrow> flt \<Rightarrow> string \<Rightarrow> 'x \<Rightarrow> (string, pyval) dict result \<times> 'x"

text \<open>The dry executor, with the random draws and the clock numbered by calls.\<close>

definition dry_router ::
  "(string \<Rightarrow> string) \<Rightarrow> (nat \<Rightarrow> nat \<Rightarrow> flt) \<Rightarrow> (nat \<Rightarrow> nat \<Rightarrow> string) \<Rightarrow> (nat \<Rightarrow> datetime) \<Rightarrow> (dry_executor \<times> nat) executor" where
  "dry_router sha1_hex rnd salt clock =
     \<lparr>xe_submit_entry = (\<lambda>req (ex, k).
        let (r, ex') = dry_submit_entry sha1_hex (rnd k) (salt k) (clock k) req ex in (r, (ex', k + 1))),
      xe_submit_exit = (\<lambda>req (ex, k).
        let (r, ex') = dry_submit_exit sha1_hex (rnd k) (salt k) (clock k) req ex in (r, (ex', k + 1))),
      xe_update_stop = (\<lambda>tid symbol side qty new_stop coid x. (Inr (dry_update_stop tid symbol side qty new_stop coid), x))\<rparr>"

definition live_router :: "py_env \<Rightarrow> live_executor \<Rightarrow> 'w exchange \<Rightarrow> nat \<Rightarrow> 'w live_world executor" where
  "live_router env le ex fuel =
     \<lparr>xe_submit_entry = (\<lambda>req. io_run (live_submit_entry env le ex fuel req)),
      xe_submit_exit = (\<lambda>req. io_run (live_submit_exit env le ex req)),
      xe_update_stop = (\<lambda>tid symbol side qty new_stop coid. io_run (live_update_stop env le ex tid symbol side qty new_stop coid))\<rparr>"

section \<open>Cooldowns\<close>

definition ENTRY_FAILURE_COOLDOWN_MINUTES :: flt where "ENTRY_FAILURE_COOLDOWN_MINUTES = 5"

definition update_context :: "strategy_id \<Rightarrow> (strategy_context \<Rightarrow> strategy_context) \<Rightarrow> strategy \<Rightarrow> registry \<Rightarrow> registry" where
  "update_context sid f s r = dict_set sid (s\<lparr>st_context := f (st_context s)\<rparr>) r"

definition apply_directional_entry_failure_cooldown :: "registry \<Rightarrow> intent \<Rightarrow> datetime \<Rightarrow> registry" where
  "apply_directional_entry_failure_cooldown r i now =
     (if in_strategy_id i \<noteq> DIRECTIONAL then r
      else case registry_get r DIRECTIONAL of
        Inl _ \<Rightarrow> r
      | Inr s \<Rightarrow>
          (case st_config s of
             DirectionalConfig _ \<Rightarrow>
               update_context DIRECTIONAL
                 (set_underlying_cooldown (underlying_value (in_underlying i)) (now + timedelta_minutes ENTRY_FAILURE_COOLDOWN_MINUTES)) s r
           | _ \<Rightarrow> r))"

definition apply_directional_exit_cooldown :: "registry \<Rightarrow> trade_row \<Rightarrow> datetime \<Rightarrow> registry result" where
  "apply_directional_exit_cooldown r trade now =
     bind_result (StrategyId (t_strategy_id trade)) (\<lambda>sid.
       case registry_get r sid of
         Inl _ \<Rightarrow> Inr r
       | Inr s \<Rightarrow>
           (case st_config s of
              DirectionalConfig cfg \<Rightarrow>
                let minutes = cooldown_minutes_after_underlying_stop (dir_entry cfg)
                in if minutes \<le> 0 then Inr r
                   else Inr (update_context sid (set_underlying_cooldown (t_underlying trade) (now + timedelta_minutes minutes)) s r)
            | _ \<Rightarrow> Inr r))"

definition apply_long_straddle_exit_cooldown :: "registry \<Rightarrow> trade_row \<Rightarrow> datetime \<Rightarrow> registry result" where
  "apply_long_straddle_exit_cooldown r trade now =
     bind_result (StrategyId (t_strategy_id trade)) (\<lambda>sid.
       case registry_get r sid of
         Inl _ \<Rightarrow> Inr r
       | Inr s \<Rightarrow>
           (case st_config s of
              LongStraddleConfig cfg \<Rightarrow>
                let hours = anti_revenge_hours (ls_setup cfg)
                in if hours \<le> 0 then Inr r
                   else Inr (update_context sid (\<lambda>c. c\<lparr>cooldown_until := Some (now + timedelta_hours hours)\<rparr>) s r)
            | _ \<Rightarrow> Inr r))"

section \<open>Helpers\<close>

definition note_float :: "(string \<Rightarrow> flt option) \<Rightarrow> (string, pyval) dict \<Rightarrow> string \<Rightarrow> flt option" where
  "note_float pf ns key =
     (let v = vget ns key in if v = VNone then None else case float_of pf v of Inl _ \<Rightarrow> None | Inr x \<Rightarrow> Some x)"

definition build_strategies :: "strategy_config list \<Rightarrow> strategy list" where
  "build_strategies configs = map mk_strategy configs"

fun risk_decision_to_reason :: "risk_decision \<Rightarrow> string" where
  "risk_decision_to_reason APPROVED = ''passed''"
| "risk_decision_to_reason STRATEGY_NOT_LIVE_ENABLED = ''other''"
| "risk_decision_to_reason d = decision_value d"

definition risk_record :: "intent \<Rightarrow> sizing_result \<Rightarrow> decision_rec" where
  "risk_record i sz =
     \<lparr>dr_strategy_id = strategy_value (in_strategy_id i), dr_kind = kind_value KIND_RISK,
      dr_underlying = Some (underlying_value (in_underlying i)),
      dr_symbol = (case in_legs i of [] \<Rightarrow> None | l # _ \<Rightarrow> Some (li_symbol l)),
      dr_passed = approved sz, dr_reason = risk_decision_to_reason (decision sz),
      dr_features = dict_update [(''risk_decision'', VStr (decision_value (decision sz)))] (sz_notes sz)\<rparr>"

definition as_dict :: "pyval \<Rightarrow> (string, pyval) dict" where
  "as_dict v = (case v of VDict d \<Rightarrow> d | _ \<Rightarrow> [])"

text \<open>\<open>mono\<close> is the reading of the monotonic clock that a new snapshot is stamped with.\<close>

definition quote_from_ws_ticker ::
  "(string \<Rightarrow> flt option) \<Rightarrow> flt \<Rightarrow> (string, pyval) dict \<Rightarrow> quote_snapshot option result" where
  "quote_from_ws_ticker pf stamp msg =
     (case vget msg ''symbol'' of
        VStr sym_text \<Rightarrow>
          bind_result (parse_symbol sym_text) (\<lambda>p.
            if p = None then Inr None
            else
              let f = as_float pf; g = as_dict (vget msg ''greeks''); q = as_dict (vget msg ''quotes'')
              in Inr (Some \<lparr>q_symbol = sym_text,
                   bid = f (py_or (vget q ''best_bid'') (vget msg ''best_bid'')),
                   ask = f (py_or (vget q ''best_ask'') (vget msg ''best_ask'')),
                   mark_price = f (vget msg ''mark_price''),
                   q_iv = f (py_or (vget g ''iv'') (vget msg ''iv'')),
                   q_delta = f (vget g ''delta''), q_gamma = f (vget g ''gamma''), q_theta = f (vget g ''theta''),
                   q_vega = f (vget g ''vega''), q_rho = f (vget g ''rho''),
                   underlying_mark = f (py_or (vget msg ''spot_price'') (vget msg ''underlying_mark'')),
                   open_interest = f (py_or (py_or (vget msg ''oi_contracts'') (vget msg ''open_interest'')) (vget msg ''oi'')),
                   volume_24h = f (py_or (vget msg ''volume'') (vget msg ''volume_24h'')), updated_at = stamp\<rparr>))
      | _ \<Rightarrow> Inr None)"

definition mark_underlying :: "string \<Rightarrow> underlying option" where
  "mark_underlying s =
     (if s \<in> {''MARK:BTCUSD'', ''BTCUSD''} then Some BTC
      else if s \<in> {''MARK:ETHUSD'', ''ETHUSD''} then Some ETH else None)"

section \<open>Stored trades\<close>

definition load_open_trades :: "database \<Rightarrow> (trade_row \<times> leg_row list) list" where
  "load_open_trades db = map (\<lambda>t. (t, legs_of db (t_id t))) (sort_key t_id (open_trades db))"

definition expiry_from_leg_symbol :: "datetime \<Rightarrow> string \<Rightarrow> datetime result" where
  "expiry_from_leg_symbol now symbol =
     bind_result (parse_symbol symbol) (\<lambda>p. Inr (case p of None \<Rightarrow> now | Some (_, _, _, expiry) \<Rightarrow> expiry))"

text \<open>\<open>float(notes[k]) if notes.get(k) is not None else None\<close>.\<close>

definition required_float :: "(string \<Rightarrow> flt option) \<Rightarrow> (string, pyval) dict \<Rightarrow> string \<Rightarrow> flt option result" where
  "required_float pf ns key =
     (let v = vget ns key in if v = VNone then Inr None else bind_result (float_of pf v) (\<lambda>x. Inr (Some x)))"

definition leg_state_of :: "chain_cache \<Rightarrow> leg_row \<Rightarrow> leg_state" where
  "leg_state_of chain leg =
     \<lparr>ls_symbol = leg_symbol leg, ls_option_type = leg_option_type leg,
      ls_current_mid = (case get_quote chain (leg_symbol leg) of None \<Rightarrow> None | Some q \<Rightarrow> mid q), ls_side = None\<rparr>"

definition trade_to_position_state ::
  "(string \<Rightarrow> flt option) \<Rightarrow> datetime \<Rightarrow> trade_row \<Rightarrow> leg_row list \<Rightarrow> chain_cache \<Rightarrow> position_state result" where
  "trade_to_position_state pf now trade legs chain =
     (let ns = the_or [] (t_notes trade)
      in bind_result
           (case (t_expiry trade, legs) of
              (Some e, _) \<Rightarrow> Inr e
            | (None, l # _) \<Rightarrow> expiry_from_leg_symbol now (leg_symbol l)
            | (None, []) \<Rightarrow> Inr now) (\<lambda>expiry.
         bind_result (StrategyId (t_strategy_id trade)) (\<lambda>sid.
         bind_result (Underlying (t_underlying trade)) (\<lambda>u.
         bind_result (required_float pf ns ''entry_underlying_price'') (\<lambda>eup.
         bind_result (required_float pf ns ''entry_atr'') (\<lambda>eatr.
           Inr \<lparr>trade_id = t_id trade, ps_strategy_id = sid, ps_underlying = u, ps_expiry = expiry,
                ps_lots = t_lots trade, ps_entry_ts = t_entry_ts trade, entry_premium_inr = premium_paid_inr trade,
                entry_credit_inr = credit_received_inr trade, entry_underlying_price = eup, entry_atr = eatr,
                current_stop_price = note_float pf ns ''current_stop_price'',
                current_trail_stop_price = note_float pf ns ''current_trail_stop_price'',
                peak_pnl_inr = note_float pf ns ''peak_pnl_inr'',
                leg_states = map (leg_state_of chain) legs, ps_notes = ns\<rparr>))))))"

fun count_by_strategy :: "trade_row list \<Rightarrow> (strategy_id, int) dict \<Rightarrow> (strategy_id, int) dict result" where
  "count_by_strategy [] by_s = Inr by_s"
| "count_by_strategy (t # ts) by_s =
     bind_result (StrategyId (t_strategy_id t)) (\<lambda>sid.
       count_by_strategy ts (dict_set sid (the_or 0 (dict_get by_s sid) + 1) by_s))"

definition accounting_snapshot :: "database \<Rightarrow> trade_accounting_snapshot result" where
  "accounting_snapshot db =
     (let open_rows = load_open_trades db
      in bind_result (count_by_strategy (map fst open_rows) []) (\<lambda>by_s.
           Inr \<lparr>open_count_total = int (length open_rows), open_count_by_strategy = by_s\<rparr>))"

section \<open>The state of the engine\<close>

text \<open>
  What the closures of \<open>run_trading_engine\<close> share: the tables, the executor's state, the NAV tracker, the
  registry, the runtimes of the exit engine, the rows of the NAV history with the breaker's marker file, the
  last trading date and the decision log.
\<close>

record 'x engine =
  en_db :: database
  en_exec :: 'x
  en_nav :: nav_tracker
  en_registry :: registry
  en_runtimes :: "(int, position_runtime) dict"
  en_nav_rows :: "nav_history_row list"
  en_marker :: bool
  en_ist_date :: "date option"
  en_decisions :: "decision_row list"

type_synonym ('x, 'a) eng = "'x engine \<Rightarrow> 'a result \<times> 'x engine"

definition en_bind :: "('x, 'a) eng \<Rightarrow> ('a \<Rightarrow> ('x, 'b) eng) \<Rightarrow> ('x, 'b) eng" where
  "en_bind m f w = (case m w of (Inl e, w') \<Rightarrow> (Inl e, w') | (Inr x, w') \<Rightarrow> f x w')"

section \<open>Entries\<close>

text \<open>\<open>x or y\<close> on optional floats: zero is false.\<close>

definition flt_or :: "flt option \<Rightarrow> flt option \<Rightarrow> flt option" where
  "flt_or x y = (case x of None \<Rightarrow> y | Some v \<Rightarrow> if v = 0 then y else x)"

definition atr_guess :: "(string \<Rightarrow> flt option) \<Rightarrow> intent \<Rightarrow> flt option" where
  "atr_guess pf i =
     (case dict_get (feature_vector i) ''atr'' of
        None \<Rightarrow> None
      | Some v \<Rightarrow> (case float_of pf v of Inl _ \<Rightarrow> None | Inr x \<Rightarrow> Some x))"

definition entry_signal :: "intent \<Rightarrow> sizing_result \<Rightarrow> datetime \<Rightarrow> leg_intent \<Rightarrow> signal_row" where
  "entry_signal i sz now first =
     \<lparr>s_id = 0, s_ts = now, s_strategy_id = strategy_value (in_strategy_id i), s_underlying = underlying_value (in_underlying i),
      s_side = None, intended_symbol = li_symbol first, intended_expiry = Some (li_expiry first),
      intended_strike = Some (li_strike first), intended_lots = sized_lots sz,
      intended_premium_inr = flt_or (flt_or (target_premium_inr i) (target_credit_inr i)) None,
      s_features = feature_vector i\<rparr>"

definition entry_trade ::
  "(string \<Rightarrow> flt option) \<Rightarrow> intent \<Rightarrow> sizing_result \<Rightarrow> market_state \<Rightarrow> string \<Rightarrow> pyval \<Rightarrow> int \<Rightarrow> trade_row" where
  "entry_trade pf i sz m mode wallet sig_id =
     \<lparr>t_id = 0, t_strategy_id = strategy_value (in_strategy_id i), t_underlying = underlying_value (in_underlying i),
      t_expiry = Some (Max (set (map li_expiry (in_legs i)))), t_entry_ts = mk_now m, t_exit_ts = None,
      t_status = trade_status_value TRADE_OPEN, t_mode = mode, t_lots = sized_lots sz, premium_paid_inr = None,
      credit_received_inr = None, realised_pnl_inr = None, delta_pnl_inr = None, theta_pnl_inr = None,
      t_fees_inr = None, slippage_bps = None, r_multiple = None, exit_reason = None, entry_iv = None, exit_iv = None,
      t_peak_pnl_inr = None, trough_pnl_inr = None, t_signal_id = Some sig_id,
      t_notes = Some
        [(''entry_underlying_price'', opt_flt (spot m (in_underlying i))), (''entry_atr'', opt_flt (atr_guess pf i)),
         (''rationale'', VStr (rationale i)), (''wallet_at_entry'', wallet),
         (''indicators_at_entry'', VDict (indicator_snapshot_for_underlying (in_underlying i) m))]\<rparr>"

text \<open>The first session: the signal and the open trade.\<close>

definition open_trade_rows ::
  "(string \<Rightarrow> flt option) \<Rightarrow> intent \<Rightarrow> sizing_result \<Rightarrow> market_state \<Rightarrow> string \<Rightarrow> pyval \<Rightarrow> database \<Rightarrow> (int \<times> database) result" where
  "open_trade_rows pf i sz m mode wallet db =
     (case in_legs i of
        [] \<Rightarrow> Inl IndexError
      | first # _ \<Rightarrow>
          let (sig_id, db1) = add_signal (entry_signal i sz (mk_now m) first) db;
              (tid, db2) = add_trade (entry_trade pf i sz m mode wallet sig_id) db1
          in bind_result (commit db2) (\<lambda>db3. Inr (tid, db3)))"

definition entry_request_of :: "intent \<Rightarrow> sizing_result \<Rightarrow> int \<Rightarrow> flt \<Rightarrow> entry_request" where
  "entry_request_of i sz tid maker_timeout =
     \<lparr>rq_strategy_id = in_strategy_id i, rq_trade_id = tid, rq_underlying = in_underlying i, rq_legs = in_legs i,
      rq_lots = sized_lots sz, rq_rationale = rationale i, rq_spread_pct_max = spread_pct_max i,
      maker_timeout_seconds = maker_timeout, slip_bps_budget = 50\<rparr>"

definition mark_errored :: "int \<Rightarrow> entry_result \<Rightarrow> database \<Rightarrow> database" where
  "mark_errored tid res db =
     (case get_trade tid db of
        None \<Rightarrow> db
      | Some t \<Rightarrow>
          let err = (case er_error res of Some e \<Rightarrow> if e = [] then ''entry_failed'' else e | None \<Rightarrow> ''entry_failed'')
          in put_trade (t\<lparr>t_status := trade_status_value TRADE_ERRORED,
                          t_notes := Some (dict_set ''error'' (VStr err) (the_or [] (t_notes t)))\<rparr>) db)"

text \<open>Indexing a list as Python does: a negative index counts from the end.\<close>

definition py_index :: "'a list \<Rightarrow> int \<Rightarrow> 'a result" where
  "py_index xs k =
     (let n = int (length xs)
      in if 0 \<le> k \<and> k < n then Inr (xs ! nat k)
         else if - n \<le> k \<and> k < 0 then Inr (xs ! nat (n + k))
         else Inl IndexError)"

definition order_of_fill :: "datetime \<Rightarrow> string \<Rightarrow> int \<Rightarrow> leg_fill \<Rightarrow> order_row" where
  "order_of_fill ts sid tid f =
     \<lparr>o_id = 0, o_ts = ts, o_strategy_id = sid, o_trade_id = Some tid, o_leg_idx = Some (lf_leg_idx f),
      o_client_order_id = lf_client_order_id f, o_exchange_order_id = None, o_symbol = lf_symbol f,
      o_side = side_value (lf_side f), o_order_type = ''market'', o_limit_price = None, o_stop_price = None,
      o_qty = qty_requested f, o_filled_qty = qty_filled f, o_filled_price = avg_fill_price f, o_reduce_only = False,
      o_state = state_value FILLED, o_raw_response = lf_raw_response f\<rparr>"

definition leg_of_fill :: "string \<Rightarrow> int \<Rightarrow> int \<Rightarrow> leg_intent \<Rightarrow> leg_fill \<Rightarrow> leg_row" where
  "leg_of_fill sid tid lots li f =
     \<lparr>leg_id = 0, leg_trade_id = tid, leg_strategy_id = sid, leg_idx = lf_leg_idx f, leg_symbol = lf_symbol f,
      leg_option_type = Some (li_option_type li), leg_strike = Some (li_strike li), leg_side = li_side li,
      leg_lots = lots, leg_entry_price = avg_fill_price f, leg_exit_price = None, leg_pnl_inr = None,
      leg_status = leg_status_value LEG_OPEN\<rparr>"

fun add_fill_rows :: "datetime \<Rightarrow> intent \<Rightarrow> int \<Rightarrow> int \<Rightarrow> leg_fill list \<Rightarrow> database \<Rightarrow> database result" where
  "add_fill_rows ts i tid lots [] db = Inr db"
| "add_fill_rows ts i tid lots (f # fs) db =
     (let sid = strategy_value (in_strategy_id i)
      in bind_result (if lf_leg_idx f < int (length (in_legs i)) then py_index (in_legs i) (lf_leg_idx f)
                      else py_index (in_legs i) (- 1)) (\<lambda>li.
           add_fill_rows ts i tid lots fs
             (add_leg (leg_of_fill sid tid lots li f) (add_order (order_of_fill ts sid tid f) db))))"

definition mean_slippage :: "leg_fill list \<Rightarrow> flt option" where
  "mean_slippage fills =
     (let xs = List.map_filter lf_slippage_bps fills
      in if xs = [] then None else Some (sum_list xs / of_nat (length xs)))"

definition entry_notes ::
  "leg_fill list \<Rightarrow> flt \<Rightarrow> (string, (string, pyval) dict) dict \<Rightarrow> (string, pyval) dict \<Rightarrow> (string, pyval) dict" where
  "entry_notes fills net greeks ns =
     (let n1 = dict_set ''entry_fill_prices''
                 (VDict (fold (\<lambda>f. dict_set (str_of_int (lf_leg_idx f)) (opt_flt (avg_fill_price f))) fills [])) ns;
          n2 = dict_set ''entry_net_premium_inr'' (VFlt net) n1;
          n3 = dict_set ''trade_lifecycle'' (VStr ''opened_filled'') n2
      in if greeks = [] then n3 else dict_set ''entry_greeks'' (VDict (map (\<lambda>(s, g). (s, VDict g)) greeks)) n3)"

text \<open>The last session of a successful entry: the trade's premium, its orders and its legs.\<close>

definition filled_trade ::
  "intent \<Rightarrow> sizing_result \<Rightarrow> (string, quote_snapshot) dict option \<Rightarrow> chain_cache option \<Rightarrow> leg_fill list \<Rightarrow> trade_row \<Rightarrow> trade_row" where
  "filled_trade i sz qf chain fills t =
     (let net = total_premium_inr fills;
          (prem, cred) = per_lot_premium_from_net net (sized_lots sz);
          symbols = map li_symbol (in_legs i);
          iv = (case qf of None \<Rightarrow> None | Some q \<Rightarrow> trade_iv_from_symbols symbols q chain);
          greeks = (case qf of None \<Rightarrow> [] | Some q \<Rightarrow> greeks_by_symbol symbols q chain)
      in t\<lparr>premium_paid_inr := prem, credit_received_inr := cred, slippage_bps := mean_slippage fills,
           entry_iv := (if iv = None then entry_iv t else iv),
           t_notes := Some (entry_notes fills net greeks (the_or [] (t_notes t)))\<rparr>)"

definition record_entry ::
  "intent \<Rightarrow> sizing_result \<Rightarrow> datetime \<Rightarrow> (string, quote_snapshot) dict option \<Rightarrow> chain_cache option \<Rightarrow> int \<Rightarrow> entry_result \<Rightarrow>
   database \<Rightarrow> (bool \<times> database) result" where
  "record_entry i sz now qf chain tid res db =
     (case get_trade tid db of
        None \<Rightarrow> Inr (False, db)
      | Some t \<Rightarrow>
          bind_result
            (add_fill_rows (the_or now (er_completed_at res)) i tid (sized_lots sz) (er_fills res)
               (put_trade (filled_trade i sz qf chain (er_fills res) t) db)) (\<lambda>db1.
          bind_result (commit db1) (\<lambda>db2. Inr (True, db2))))"

definition persist_entry_and_execute ::
  "(string \<Rightarrow> flt option) \<Rightarrow> 'x executor \<Rightarrow> intent \<Rightarrow> sizing_result \<Rightarrow> market_state \<Rightarrow> string \<Rightarrow> pyval \<Rightarrow>
   (string, quote_snapshot) dict option \<Rightarrow> chain_cache option \<Rightarrow> flt \<Rightarrow> ('x, bool) eng" where
  "persist_entry_and_execute pf xe i sz m mode wallet qf chain maker_timeout w =
     (case open_trade_rows pf i sz m mode wallet (en_db w) of
        Inl e \<Rightarrow> (Inl e, w)
      | Inr (tid, db1) \<Rightarrow>
          (case xe_submit_entry xe (entry_request_of i sz tid maker_timeout) (en_exec w) of
             (Inl e, x) \<Rightarrow> (Inl e, w\<lparr>en_db := db1, en_exec := x\<rparr>)
           | (Inr res, x) \<Rightarrow>
               if \<not> er_success res then (Inr False, w\<lparr>en_db := mark_errored tid res db1, en_exec := x\<rparr>)
               else (case record_entry i sz (mk_now m) qf chain tid res db1 of
                       Inl e \<Rightarrow> (Inl e, w\<lparr>en_db := db1, en_exec := x\<rparr>)
                     | Inr (opened, db2) \<Rightarrow> (Inr opened, w\<lparr>en_db := db2, en_exec := x\<rparr>))))"

section \<open>Trailing stops\<close>

text \<open>\<open>list(v or [])\<close>.\<close>

definition py_list :: "pyval \<Rightarrow> pyval list result" where
  "py_list v =
     (if \<not> truthy v then Inr []
      else case v of
        VList xs \<Rightarrow> Inr xs
      | VDict d \<Rightarrow> Inr (map (VStr \<circ> fst) d)
      | VStr s \<Rightarrow> Inr (map (\<lambda>c. VStr [c]) s)
      | _ \<Rightarrow> Inl TypeError)"

definition trail_notes :: "datetime \<Rightarrow> flt \<Rightarrow> (string, pyval) dict \<Rightarrow> pyval \<Rightarrow> (string, pyval) dict \<Rightarrow> (string, pyval) dict result" where
  "trail_notes now new_stop action_notes wallet ns =
     (let n1 = dict_set ''current_trail_stop_price'' (VFlt new_stop) ns
      in bind_result (py_list (vget n1 ''trail_events'')) (\<lambda>ev.
           Inr (dict_set ''trail_events''
             (VList (ev @ [VDict [(''ts'', VStr (isoformat now)), (''new_stop'', VFlt new_stop),
                                  (''notes'', VDict action_notes), (''wallet'', wallet)]])) n1)))"

text \<open>\<open>epoch\<close> is \<open>int(time.time())\<close> and \<open>now\<close> the clock when the stop has been updated.\<close>

definition persist_trail_stop ::
  "'x executor \<Rightarrow> int \<Rightarrow> datetime \<Rightarrow> trade_row \<Rightarrow> leg_row list \<Rightarrow> flt \<Rightarrow> (string, pyval) dict \<Rightarrow> pyval \<Rightarrow> ('x, unit) eng" where
  "persist_trail_stop xe epoch now trade legs new_stop action_notes wallet w =
     (case legs of
        [] \<Rightarrow> (Inr (), w)
      | leg # _ \<Rightarrow>
          let side = (if leg_side leg = ''buy'' then BUY else SELL);
              client_id = ''trail-'' @ str_of_int (t_id trade) @ ''-'' @ str_of_int (leg_idx leg) @ ''-'' @ str_of_int epoch
          in (case xe_update_stop xe (t_id trade) (leg_symbol leg) side (of_int (t_lots trade)) new_stop client_id (en_exec w) of
                (Inl e, x) \<Rightarrow> (Inl e, w\<lparr>en_exec := x\<rparr>)
              | (Inr _, x) \<Rightarrow>
                  (case get_trade (t_id trade) (en_db w) of
                     None \<Rightarrow> (Inr (), w\<lparr>en_exec := x\<rparr>)
                   | Some t \<Rightarrow>
                       (case trail_notes now new_stop action_notes wallet (the_or [] (t_notes t)) of
                          Inl e \<Rightarrow> (Inl e, w\<lparr>en_exec := x\<rparr>)
                        | Inr ns \<Rightarrow> (Inr (), w\<lparr>en_exec := x, en_db := put_trade (t\<lparr>t_notes := Some ns\<rparr>) (en_db w)\<rparr>)))))"

section \<open>Exits\<close>

definition exit_leg_intent :: "datetime \<Rightarrow> trade_row \<Rightarrow> leg_row \<Rightarrow> leg_intent result" where
  "exit_leg_intent now trade leg =
     bind_result (case t_expiry trade of Some e \<Rightarrow> Inr e | None \<Rightarrow> expiry_from_leg_symbol now (leg_symbol leg)) (\<lambda>e.
       Inr \<lparr>li_symbol = leg_symbol leg, li_side = leg_side leg,
            li_option_type = (case leg_option_type leg of Some s \<Rightarrow> if s = [] then ''call'' else s | None \<Rightarrow> ''call''),
            li_strike = the_or 0 (leg_strike leg), li_expiry = e\<rparr>)"

definition exit_request_of :: "datetime \<Rightarrow> trade_row \<Rightarrow> leg_row list \<Rightarrow> exit_trigger \<Rightarrow> exit_request result" where
  "exit_request_of now trade legs trigger =
     bind_result (map_result (exit_leg_intent now trade) (sort_key leg_idx legs)) (\<lambda>lis.
     bind_result (StrategyId (t_strategy_id trade)) (\<lambda>sid.
     bind_result (Underlying (t_underlying trade)) (\<lambda>u.
       Inr \<lparr>xq_strategy_id = sid, xq_trade_id = t_id trade, xq_underlying = u, xq_legs = lis, xq_lots = t_lots trade,
            xq_trigger = trigger\<rparr>)))"

definition trade_outcome :: "exit_trigger \<Rightarrow> flt \<Rightarrow> pyval" where
  "trade_outcome trigger realised =
     VDict [(''exit_trigger'', VStr (trigger_value trigger)), (''realised_pnl_inr'', VFlt realised),
            (''result'', VStr (if realised > 1 / 10 ^ 6 then ''win'' else if realised < - (1 / 10 ^ 6) then ''loss'' else ''flat''))]"

definition spot_of_indicator :: "(string \<Rightarrow> flt option) \<Rightarrow> (string, pyval) dict option \<Rightarrow> flt option" where
  "spot_of_indicator pf ind =
     (case ind of
        None \<Rightarrow> None
      | Some d \<Rightarrow> (let v = vget d ''spot'' in if v = VNone then None else case float_of pf v of Inl _ \<Rightarrow> None | Inr x \<Rightarrow> Some x))"

definition opt_dict :: "(string, pyval) dict option \<Rightarrow> pyval" where
  "opt_dict d = (case d of None \<Rightarrow> VNone | Some x \<Rightarrow> VDict x)"

definition exit_notes ::
  "pyval \<Rightarrow> (string, pyval) dict option \<Rightarrow> pyval \<Rightarrow> (string, (string, pyval) dict) dict \<Rightarrow> (string, pyval) dict \<Rightarrow> (string, pyval) dict" where
  "exit_notes wallet ind outcome greeks ns =
     (let n1 = dict_set ''wallet_at_exit'' wallet ns;
          n2 = dict_set ''indicators_at_exit'' (opt_dict ind) n1;
          n3 = dict_set ''trade_outcome'' outcome n2
      in if greeks = [] then n3 else dict_set ''exit_greeks'' (VDict (map (\<lambda>(s, g). (s, VDict g)) greeks)) n3)"

definition closed_trade ::
  "(string \<Rightarrow> flt option) \<Rightarrow> leg_row list \<Rightarrow> exit_trigger \<Rightarrow> flt \<Rightarrow> pyval \<Rightarrow> (string, pyval) dict option \<Rightarrow>
   (string, quote_snapshot) dict option \<Rightarrow> chain_cache option \<Rightarrow> datetime \<Rightarrow> trade_row \<Rightarrow> trade_row result" where
  "closed_trade pf legs trigger realised wallet ind qf chain ts t =
     (let symbols = map leg_symbol legs;
          iv = (case qf of None \<Rightarrow> None | Some q \<Rightarrow> trade_iv_from_symbols symbols q chain);
          greeks = (case qf of None \<Rightarrow> [] | Some q \<Rightarrow> greeks_by_symbol symbols q chain);
          ns = exit_notes wallet ind (trade_outcome trigger realised) greeks (the_or [] (t_notes t));
          rate = the_or 85 (flt_or (note_float pf ns ''usd_inr_rate'') (Some 85))
      in bind_result (estimate_delta_pnl_inr pf t legs (note_float pf ns ''entry_underlying_price'') (spot_of_indicator pf ind) rate chain) (\<lambda>dp.
           Inr (t\<lparr>exit_iv := (if iv = None then exit_iv t else iv),
                  delta_pnl_inr := (if dp = None then delta_pnl_inr t else dp),
                  t_peak_pnl_inr := (case note_float pf ns ''peak_pnl_inr'' of None \<Rightarrow> t_peak_pnl_inr t | Some p \<Rightarrow> Some p),
                  t_notes := Some ns, t_status := trade_status_value TRADE_CLOSED, t_exit_ts := Some ts,
                  realised_pnl_inr := Some realised, exit_reason := Some (trigger_value trigger)\<rparr>)))"

definition close_leg_row :: "leg_fill list \<Rightarrow> leg_row \<Rightarrow> database \<Rightarrow> database" where
  "close_leg_row fills leg db =
     (case get_leg (leg_id leg) db of
        None \<Rightarrow> db
      | Some l \<Rightarrow>
          put_leg (l\<lparr>leg_status := leg_status_value LEG_CLOSED,
                     leg_exit_price := (case List.find (\<lambda>f. lf_symbol f = leg_symbol l) fills of None \<Rightarrow> None | Some f \<Rightarrow> avg_fill_price f),
                     leg_pnl_inr := None\<rparr>) db)"

text \<open>The session of a successful exit: the trade, its legs and the exit orders.\<close>

definition record_exit ::
  "(string \<Rightarrow> flt option) \<Rightarrow> trade_row \<Rightarrow> leg_row list \<Rightarrow> exit_trigger \<Rightarrow> exit_result \<Rightarrow> flt \<Rightarrow> pyval \<Rightarrow>
   (string, pyval) dict option \<Rightarrow> (string, quote_snapshot) dict option \<Rightarrow> chain_cache option \<Rightarrow> datetime \<Rightarrow>
   database \<Rightarrow> database result" where
  "record_exit pf trade legs trigger res realised wallet ind qf chain now db =
     (case get_trade (t_id trade) db of
        None \<Rightarrow> Inr db
      | Some t \<Rightarrow>
          let ts = the_or now (xr_completed_at res)
          in bind_result (closed_trade pf legs trigger realised wallet ind qf chain ts t) (\<lambda>t'.
               commit (fold (\<lambda>f. add_order (order_of_fill ts (t_strategy_id trade) (t_id trade) f))
                         (filter (\<lambda>f. avg_fill_price f \<noteq> None) (xr_fills res))
                         (fold (close_leg_row (xr_fills res)) legs (put_trade t' db)))))"

definition persist_exit ::
  "(string \<Rightarrow> flt option) \<Rightarrow> 'x executor \<Rightarrow> datetime \<Rightarrow> trade_row \<Rightarrow> leg_row list \<Rightarrow> exit_trigger \<Rightarrow> pyval \<Rightarrow>
   (string, pyval) dict option \<Rightarrow> (string, quote_snapshot) dict option \<Rightarrow> chain_cache option \<Rightarrow> ('x, unit) eng" where
  "persist_exit pf xe now trade legs trigger wallet ind qf chain w =
     (case exit_request_of now trade legs trigger of
        Inl e \<Rightarrow> (Inl e, w)
      | Inr req \<Rightarrow>
          (case xe_submit_exit xe req (en_exec w) of
             (Inl e, x) \<Rightarrow> (Inl e, w\<lparr>en_exec := x\<rparr>)
           | (Inr res, x) \<Rightarrow>
               if \<not> xr_success res then (Inr (), w\<lparr>en_exec := x\<rparr>)
               else
                 let realised = compute_realised_pnl_inr (premium_paid_inr trade) (credit_received_inr trade) (t_lots trade) (xr_fills res);
                     w1 = w\<lparr>en_exec := x, en_nav := (en_nav w)\<lparr>nav_now := nav_now (en_nav w) + realised\<rparr>\<rparr>
                 in (case record_exit pf trade legs trigger res realised wallet ind qf chain now (en_db w1) of
                       Inl e \<Rightarrow> (Inl e, w1)
                     | Inr db' \<Rightarrow> (Inr (), w1\<lparr>en_db := db'\<rparr>))))"

section \<open>Properties: the writers and the tables\<close>

text \<open>The trades the limits count: all of them, or those of one strategy.\<close>

definition of_strategy :: "strategy_id option \<Rightarrow> trade_row \<Rightarrow> bool" where
  "of_strategy s t = (case s of None \<Rightarrow> True | Some sid \<Rightarrow> t_strategy_id t = strategy_value sid)"

lemma of_strategy_None [simp]: "of_strategy None t"
  by (simp add: of_strategy_def)

lemma count_open_replace:
  assumes "db_wf db" and "get_trade tid db = Some t" and "t_id t' = tid"
    and "is_open_trade t' \<Longrightarrow> is_open_trade t" and "t_strategy_id t' = t_strategy_id t"
  shows "count_open (of_strategy s) (put_trade t' db) \<le> count_open (of_strategy s) db"
proof (rule count_open_put)
  fix u assume "u \<in> set (tb_trades db)" "t_id u = t_id t'" and o: "is_open_trade t' \<and> of_strategy s t'"
  then have "get_trade tid db = Some u" using get_trade_iff [OF assms(1)] assms(3) by simp
  with o assms(2,4,5) show "is_open_trade u \<and> of_strategy s u" by (auto simp: of_strategy_def split: option.splits)
qed

lemma fold_frame: "(\<And>x d. g (f x d) = g d) \<Longrightarrow> g (fold f xs d) = g d"
  by (induction xs arbitrary: d) simp_all

lemma fold_inv: "(\<And>x d. I d \<Longrightarrow> I (f x d)) \<Longrightarrow> I d \<Longrightarrow> I (fold f xs d)"
  by (induction xs arbitrary: d) simp_all

lemma close_leg_row_frame [simp]: "tb_trades (close_leg_row fills leg db) = tb_trades db"
  by (simp add: close_leg_row_def split: option.split)

lemma close_leg_row_wf [simp, intro]: "db_wf db \<Longrightarrow> db_wf (close_leg_row fills leg db)"
  by (simp add: close_leg_row_def split: option.split)

lemma closed_trade_fields:
  assumes "closed_trade pf legs trigger realised wallet ind qf chain ts t = Inr t'"
  shows "t_id t' = t_id t" and "t_strategy_id t' = t_strategy_id t" and "t_status t' = trade_status_value TRADE_CLOSED"
    and "realised_pnl_inr t' = Some realised" and "\<not> is_open_trade t'"
  using assms by (auto simp: closed_trade_def Let_def is_open_trade_def)

lemma record_exit_cases:
  assumes "record_exit pf trade legs trigger res realised wallet ind qf chain now db = Inr db'"
  shows "get_trade (t_id trade) db = None \<and> db' = db \<or>
     (\<exists>t t'. get_trade (t_id trade) db = Some t \<and> t_id t' = t_id t \<and> t_strategy_id t' = t_strategy_id t \<and>
        t_status t' = trade_status_value TRADE_CLOSED \<and> realised_pnl_inr t' = Some realised \<and> \<not> is_open_trade t' \<and>
        tb_trades db' = tb_trades (put_trade t' db) \<and> (db_wf db \<longrightarrow> db_wf db'))"
proof (cases "get_trade (t_id trade) db")
  case None
  with assms show ?thesis by (simp add: record_exit_def)
next
  case (Some t)
  let ?ts = "the_or now (xr_completed_at res)"
  let ?orders = "filter (\<lambda>f. avg_fill_price f \<noteq> None) (xr_fills res)"
  from assms Some obtain t' where t': "closed_trade pf legs trigger realised wallet ind qf chain ?ts t = Inr t'"
    and c: "commit (fold (\<lambda>f. add_order (order_of_fill ?ts (t_strategy_id trade) (t_id trade) f)) ?orders
              (fold (close_leg_row (xr_fills res)) legs (put_trade t' db))) = Inr db'"
    by (auto simp: record_exit_def Let_def)
  note db' = commit_InrD [OF c]
  have "tb_trades db' = tb_trades (put_trade t' db)"
    unfolding db' by (simp add: fold_frame [where g = tb_trades])
  moreover have "db_wf db \<longrightarrow> db_wf db'" unfolding db' by (intro impI fold_inv [where I = db_wf]) auto
  ultimately show ?thesis using Some closed_trade_fields [OF t'] by blast
qed

lemma add_fill_rows_frame:
  "add_fill_rows ts i tid lots fs db = Inr db' \<Longrightarrow> tb_trades db' = tb_trades db \<and> (db_wf db \<longrightarrow> db_wf db')"
  by (induction fs arbitrary: db) (auto simp: Let_def)

lemma filled_trade_fields [simp]:
  "t_id (filled_trade i sz qf chain fills t) = t_id t" "t_status (filled_trade i sz qf chain fills t) = t_status t"
  "t_strategy_id (filled_trade i sz qf chain fills t) = t_strategy_id t"
  "realised_pnl_inr (filled_trade i sz qf chain fills t) = realised_pnl_inr t"
  "t_underlying (filled_trade i sz qf chain fills t) = t_underlying t" "t_expiry (filled_trade i sz qf chain fills t) = t_expiry t"
  by (simp_all add: filled_trade_def Let_def split: prod.split)

lemma record_entry_cases:
  assumes "record_entry i sz now qf chain tid res db = Inr (opened, db')"
  shows "get_trade tid db = None \<and> \<not> opened \<and> db' = db \<or>
     (\<exists>t. get_trade tid db = Some t \<and> opened \<and> tb_trades db' = tb_trades (put_trade (filled_trade i sz qf chain (er_fills res) t) db) \<and>
        (db_wf db \<longrightarrow> db_wf db'))"
proof (cases "get_trade tid db")
  case None
  with assms show ?thesis by (simp add: record_entry_def)
next
  case (Some t)
  with assms obtain db1 where a: "add_fill_rows (the_or now (er_completed_at res)) i tid (sized_lots sz) (er_fills res)
      (put_trade (filled_trade i sz qf chain (er_fills res) t) db) = Inr db1" and c: "commit db1 = Inr db'" and "opened"
    by (auto simp: record_entry_def)
  with add_fill_rows_frame [OF a] commit_InrD [OF c] Some show ?thesis by auto
qed

lemma mark_errored_cases:
  "get_trade tid db = None \<and> mark_errored tid res db = db \<or>
   (\<exists>t t'. get_trade tid db = Some t \<and> t_id t' = t_id t \<and> t_strategy_id t' = t_strategy_id t \<and>
      t_status t' = trade_status_value TRADE_ERRORED \<and> \<not> is_open_trade t' \<and> mark_errored tid res db = put_trade t' db)"
proof (cases "get_trade tid db")
  case None
  then show ?thesis by (simp add: mark_errored_def)
next
  case (Some t)
  show ?thesis
    by (rule disjI2, rule exI [of _ t], rule exI, intro conjI, rule Some)
      (simp_all add: mark_errored_def Some Let_def is_open_trade_def)
qed

text \<open>The first session adds one open trade of the intent's strategy, with a new id.\<close>

lemma open_trade_rows_InrD:
  assumes "open_trade_rows pf i sz m mode wallet db = Inr (tid, db')"
  shows "\<exists>t. tb_trades db' = tb_trades db @ [t] \<and> t_id t = tid \<and> tid \<notin> t_id ` set (tb_trades db) \<and> is_open_trade t \<and>
     t_strategy_id t = strategy_value (in_strategy_id i) \<and> realised_pnl_inr t = None \<and> t_lots t = sized_lots sz \<and>
     t_underlying t = underlying_value (in_underlying i) \<and> t_expiry t \<noteq> None"
    and "tb_legs db' = tb_legs db" and "db_wf db \<Longrightarrow> db_wf db'"
proof -
  from assms obtain first where "in_legs i \<noteq> []" "first = hd (in_legs i)"
    by (auto simp: open_trade_rows_def split: list.splits)
  define ds where "ds = add_signal (entry_signal i sz (mk_now m) first) db"
  define t where "t = entry_trade pf i sz m mode wallet (fst ds)"
  have r: "db' = snd (add_trade t (snd ds))" "tid = fst (add_trade t (snd ds))"
    using assms \<open>first = hd (in_legs i)\<close> unfolding t_def ds_def
    by (auto simp: open_trade_rows_def split: list.splits prod.splits dest!: commit_InrD)
  have fr: "tb_trades (snd ds) = tb_trades db" "tb_legs (snd ds) = tb_legs db" by (simp_all add: ds_def)
  show "\<exists>t. tb_trades db' = tb_trades db @ [t] \<and> t_id t = tid \<and> tid \<notin> t_id ` set (tb_trades db) \<and> is_open_trade t \<and>
     t_strategy_id t = strategy_value (in_strategy_id i) \<and> realised_pnl_inr t = None \<and> t_lots t = sized_lots sz \<and>
     t_underlying t = underlying_value (in_underlying i) \<and> t_expiry t \<noteq> None"
    by (rule exI [of _ "t\<lparr>t_id := tid\<rparr>"])
      (use add_trade_rows [of t "snd ds"] in \<open>simp add: r fr t_def entry_trade_def is_open_trade_def\<close>)
  show "tb_legs db' = tb_legs db" by (simp add: r fr)
  show "db_wf db \<Longrightarrow> db_wf db'" unfolding r ds_def by simp
qed

section \<open>Properties: the ledger\<close>

text \<open>
  The part of the NAV that the stored trades do not explain: the NAV less the realised profits of the closed
  trades.  It is the base NAV as long as every realised profit is stored with its trade.
\<close>

definition unexplained_nav :: "'x engine \<Rightarrow> flt" where
  "unexplained_nav w = nav_now (en_nav w) - sum_realised_pnl_inr (tb_trades (en_db w))"

definition closed_value :: "trade_row \<Rightarrow> flt" where
  "closed_value t = (if t_status t = trade_status_value TRADE_CLOSED then the_or 0 (realised_pnl_inr t) else 0)"

lemma sum_realised_closed_value: "sum_realised_pnl_inr ts = sum_list (map closed_value ts)"
  by (induction ts) (auto simp: sum_realised_pnl_inr_def closed_value_def map_filter_simps split: option.split)

lemma open_closed_value [simp]: "is_open_trade t \<Longrightarrow> closed_value t = 0"
  by (simp add: is_open_trade_def closed_value_def)

lemma ledger_put:
  assumes "db_wf db" and "get_trade tid db = Some t" and "t_id t' = tid"
  shows "sum_realised_pnl_inr (tb_trades (put_trade t' db)) =
     sum_realised_pnl_inr (tb_trades db) - closed_value t + closed_value t'"
  unfolding sum_realised_closed_value put_trade_def
  using sum_list_replace [of t_id "tb_trades db" t t' closed_value] assms get_trade_SomeD [OF assms(2)]
  by (simp add: db_wf_def)

lemma get_trade_put: "get_trade tid' (put_trade t' db) =
    (if tid' = t_id t' then map_option (\<lambda>_. t') (get_trade tid' db) else get_trade tid' db)"
proof -
  have "List.find (\<lambda>t. t_id t = tid') (map (\<lambda>s. if t_id s = t_id t' then t' else s) xs) =
      (if tid' = t_id t' then map_option (\<lambda>_. t') (List.find (\<lambda>t. t_id t = tid') xs) else List.find (\<lambda>t. t_id t = tid') xs)" for xs
    by (induction xs) auto
  then show ?thesis by (simp add: get_trade_def put_trade_def)
qed

lemma get_trade_cong: "tb_trades db' = tb_trades db \<Longrightarrow> get_trade tid db' = get_trade tid db"
  by (simp add: get_trade_def)

text \<open>What a writer may do to the stored trades, to the frame around them and to the counts.\<close>

definition trades_shrink :: "'x engine \<Rightarrow> 'x engine \<Rightarrow> bool" where
  "trades_shrink w w' \<longleftrightarrow>
     (db_wf (en_db w) \<longrightarrow> db_wf (en_db w') \<and> (\<forall>s. count_open (of_strategy s) (en_db w') \<le> count_open (of_strategy s) (en_db w))) \<and>
     map t_id (tb_trades (en_db w')) = map t_id (tb_trades (en_db w)) \<and>
     circuit_breaker_tripped (en_nav w') = circuit_breaker_tripped (en_nav w) \<and> peak_nav (en_nav w') = peak_nav (en_nav w) \<and>
     en_nav_rows w' = en_nav_rows w \<and> en_marker w' = en_marker w \<and> en_decisions w' = en_decisions w"

lemma trades_shrink_refl [simp, intro]: "trades_shrink w w"
  by (simp add: trades_shrink_def)

lemma trades_shrink_trans: "trades_shrink w w' \<Longrightarrow> trades_shrink w' w'' \<Longrightarrow> trades_shrink w w''"
  unfolding trades_shrink_def by (auto intro: order_trans)

lemma trades_shrink_cong:
  assumes "trades_shrink w w'" and "en_db w'' = en_db w'" and "en_nav w'' = en_nav w'"
    and "en_nav_rows w'' = en_nav_rows w'" and "en_marker w'' = en_marker w'" and "en_decisions w'' = en_decisions w'"
  shows "trades_shrink w w''"
  using assms by (simp add: trades_shrink_def)

lemma trades_shrink_put:
  assumes "get_trade (t_id t') (en_db w) = Some t" and "is_open_trade t' \<Longrightarrow> is_open_trade t"
    and "t_strategy_id t' = t_strategy_id t" and "tb_trades (en_db w') = tb_trades (put_trade t' (en_db w))"
    and "db_wf (en_db w) \<longrightarrow> db_wf (en_db w')"
    and "circuit_breaker_tripped (en_nav w') = circuit_breaker_tripped (en_nav w)" "peak_nav (en_nav w') = peak_nav (en_nav w)"
    and "en_nav_rows w' = en_nav_rows w" "en_marker w' = en_marker w" "en_decisions w' = en_decisions w"
  shows "trades_shrink w w'"
proof -
  have "count_open (of_strategy s) (en_db w') \<le> count_open (of_strategy s) (en_db w)" if "db_wf (en_db w)" for s
    using count_open_replace [OF that assms(1) refl assms(2,3)] count_open_frame [OF assms(4)] by simp
  with assms(4-) show ?thesis by (simp add: trades_shrink_def)
qed

text \<open>
  The outcomes of an exit: nothing is stored (the request, the executor or the fills failed), the profit is
  in the NAV but its session failed, or both are done.
\<close>

definition exit_pnl :: "trade_row \<Rightarrow> exit_result \<Rightarrow> flt" where
  "exit_pnl trade res =
     compute_realised_pnl_inr (premium_paid_inr trade) (credit_received_inr trade) (t_lots trade) (xr_fills res)"

lemma persist_exit_outcomes:
  assumes "persist_exit pf xe now trade legs trigger wallet ind qf chain w = (r, w')"
  obtains (Nothing) x where "w' = w\<lparr>en_exec := x\<rparr>"
  | (Unstored) e x pnl where "r = Inl e" "w' = w\<lparr>en_exec := x, en_nav := (en_nav w)\<lparr>nav_now := nav_now (en_nav w) + pnl\<rparr>\<rparr>"
  | (Stored) req res x db' where "exit_request_of now trade legs trigger = Inr req" "xe_submit_exit xe req (en_exec w) = (Inr res, x)"
      "xr_success res" "r = Inr ()"
      "record_exit pf trade legs trigger res (exit_pnl trade res) wallet ind qf chain now (en_db w) = Inr db'"
      "w' = w\<lparr>en_exec := x, en_nav := (en_nav w)\<lparr>nav_now := nav_now (en_nav w) + exit_pnl trade res\<rparr>, en_db := db'\<rparr>"
proof (cases "exit_request_of now trade legs trigger")
  case (Inl e)
  with assms have "w' = w\<lparr>en_exec := en_exec w\<rparr>" by (simp add: persist_exit_def)
  then show thesis by (rule Nothing)
next
  case (Inr req)
  obtain out x where x: "xe_submit_exit xe req (en_exec w) = (out, x)" by (cases "xe_submit_exit xe req (en_exec w)")
  show thesis
  proof (cases "\<exists>res. out = Inr res \<and> xr_success res")
    case False
    with assms Inr x have "w' = w\<lparr>en_exec := x\<rparr>" by (auto simp: persist_exit_def split: sum.splits)
    then show thesis by (rule Nothing)
  next
    case True
    then obtain res where res: "out = Inr res" "xr_success res" by blast
    show thesis
    proof (cases "record_exit pf trade legs trigger res (exit_pnl trade res) wallet ind qf chain now (en_db w)")
      case (Inl e)
      with assms Inr x res have "r = Inl e" "w' = w\<lparr>en_exec := x, en_nav := (en_nav w)\<lparr>nav_now := nav_now (en_nav w) + exit_pnl trade res\<rparr>\<rparr>"
        by (auto simp: persist_exit_def exit_pnl_def Let_def)
      then show thesis by (rule Unstored)
    next
      case rec: (Inr db')
      show thesis
        by (rule Stored [OF Inr x [unfolded res(1)] res(2) _ rec])
          (use assms Inr x res rec in \<open>auto simp: persist_exit_def exit_pnl_def Let_def\<close>)
    qed
  qed
qed

lemma persist_exit_shrinks:
  assumes "persist_exit pf xe now trade legs trigger wallet ind qf chain w = (r, w')"
  shows "trades_shrink w w'" and "en_registry w' = en_registry w" and "en_runtimes w' = en_runtimes w"
    and "tid \<noteq> t_id trade \<Longrightarrow> get_trade tid (en_db w') = get_trade tid (en_db w)"
proof -
  have "trades_shrink w w' \<and> en_registry w' = en_registry w \<and> en_runtimes w' = en_runtimes w \<and>
    (tid \<noteq> t_id trade \<longrightarrow> get_trade tid (en_db w') = get_trade tid (en_db w))"
    using assms
  proof (cases rule: persist_exit_outcomes)
    case (Stored req res x db')
    from record_exit_cases [OF Stored(5)] show ?thesis
    proof (elim disjE exE conjE)
      assume "db' = en_db w"
      with Stored(6) show ?thesis by (simp add: trades_shrink_def)
    next
      fix t t' assume t: "get_trade (t_id trade) (en_db w) = Some t" "t_id t' = t_id t" "t_strategy_id t' = t_strategy_id t"
        "\<not> is_open_trade t'" "tb_trades db' = tb_trades (put_trade t' (en_db w))" "db_wf (en_db w) \<longrightarrow> db_wf db'"
      have id: "t_id t' = t_id trade" using get_trade_SomeD [OF t(1)] t(2) by simp
      have "trades_shrink w w'"
        by (rule trades_shrink_put [of t' w t]) (use t id Stored(6) in simp_all)
      moreover have "get_trade tid db' = get_trade tid (en_db w)" if "tid \<noteq> t_id trade"
        using get_trade_cong [OF t(5)] that id by (simp add: get_trade_put)
      ultimately show ?thesis by (simp add: Stored(6))
    qed
  qed (simp_all add: trades_shrink_def)
  then show "trades_shrink w w'" "en_registry w' = en_registry w" "en_runtimes w' = en_runtimes w"
    "tid \<noteq> t_id trade \<Longrightarrow> get_trade tid (en_db w') = get_trade tid (en_db w)" by blast+
qed

lemma persist_exit_ledger:
  assumes "persist_exit pf xe now trade legs trigger wallet ind qf chain w = (Inr (), w')"
    and "db_wf (en_db w)" and "get_trade (t_id trade) (en_db w) = Some t" and "is_open_trade t"
  shows "unexplained_nav w' = unexplained_nav w"
  using assms(1)
proof (cases rule: persist_exit_outcomes)
  case (Stored req res x db')
  from record_exit_cases [OF Stored(5)] assms(3) obtain t' where t': "t_id t' = t_id t"
    "t_status t' = trade_status_value TRADE_CLOSED" "realised_pnl_inr t' = Some (exit_pnl trade res)"
    "tb_trades db' = tb_trades (put_trade t' (en_db w))" by auto
  have "closed_value t' = exit_pnl trade res" using t' by (simp add: closed_value_def)
  with ledger_put [OF assms(2,3), of t'] t' assms(4) get_trade_SomeD [OF assms(3)] Stored(6)
  show ?thesis by (simp add: unexplained_nav_def)
qed (simp_all add: unexplained_nav_def)

lemma persist_trail_effect:
  assumes "persist_trail_stop xe epoch now trade legs new_stop ns wallet w = (r, w')"
  shows "trades_shrink w w'" and "en_registry w' = en_registry w" and "en_runtimes w' = en_runtimes w"
    and "db_wf (en_db w) \<Longrightarrow> unexplained_nav w' = unexplained_nav w"
    and "tid \<noteq> t_id trade \<Longrightarrow> get_trade tid (en_db w') = get_trade tid (en_db w)"
proof -
  have "(\<exists>x. w' = w\<lparr>en_exec := x\<rparr>) \<or> (\<exists>x t ms. get_trade (t_id trade) (en_db w) = Some t \<and>
      w' = w\<lparr>en_exec := x, en_db := put_trade (t\<lparr>t_notes := ms\<rparr>) (en_db w)\<rparr>)"
  proof (cases legs)
    case Nil
    with assms have "w' = w\<lparr>en_exec := en_exec w\<rparr>" by (simp add: persist_trail_stop_def)
    then show ?thesis by blast
  next
    case (Cons leg rest)
    with assms show ?thesis
      by (auto simp: persist_trail_stop_def Let_def split: prod.splits sum.splits option.splits)
  qed
  then have "trades_shrink w w' \<and> en_registry w' = en_registry w \<and> en_runtimes w' = en_runtimes w \<and>
    (db_wf (en_db w) \<longrightarrow> unexplained_nav w' = unexplained_nav w) \<and>
    (tid \<noteq> t_id trade \<longrightarrow> get_trade tid (en_db w') = get_trade tid (en_db w))"
  proof (elim disjE exE conjE)
    fix x t ms assume t: "get_trade (t_id trade) (en_db w) = Some t"
      and w': "w' = w\<lparr>en_exec := x, en_db := put_trade (t\<lparr>t_notes := ms\<rparr>) (en_db w)\<rparr>"
    let ?t = "t\<lparr>t_notes := ms\<rparr>"
    have id: "t_id t = t_id trade" using get_trade_SomeD [OF t] by simp
    have "trades_shrink w w'"
      by (rule trades_shrink_put [of ?t w t]) (use t w' id in \<open>simp_all add: is_open_trade_def\<close>)
    moreover have "unexplained_nav w' = unexplained_nav w" if "db_wf (en_db w)"
      using ledger_put [OF that t, of ?t] id by (simp add: unexplained_nav_def w' closed_value_def)
    ultimately show ?thesis using id by (simp add: w' get_trade_put)
  qed (simp add: trades_shrink_def unexplained_nav_def)
  then show "trades_shrink w w'" "en_registry w' = en_registry w" "en_runtimes w' = en_runtimes w"
    "db_wf (en_db w) \<Longrightarrow> unexplained_nav w' = unexplained_nav w"
    "tid \<noteq> t_id trade \<Longrightarrow> get_trade tid (en_db w') = get_trade tid (en_db w)" by blast+
qed

text \<open>
  An entry leaves the tables alone, or adds one open trade of the intent's strategy, which a failed entry
  then marks as errored and a successful one fills in.
\<close>

definition matches_intent :: "strategy_id option \<Rightarrow> intent \<Rightarrow> bool" where
  "matches_intent s i = (case s of None \<Rightarrow> True | Some sid \<Rightarrow> sid = in_strategy_id i)"

lemma persist_entry_outcomes:
  assumes "persist_entry_and_execute pf xe i sz m mode wallet qf chain timeout w = (r, w')"
  obtains (Refused) e where "open_trade_rows pf i sz m mode wallet (en_db w) = Inl e" "r = Inl e" "w' = w"
  | (Raised) e tid db1 x where "open_trade_rows pf i sz m mode wallet (en_db w) = Inr (tid, db1)" "r = Inl e"
      "w' = w\<lparr>en_db := db1, en_exec := x\<rparr>"
  | (Failed) tid db1 res x where "open_trade_rows pf i sz m mode wallet (en_db w) = Inr (tid, db1)"
      "xe_submit_entry xe (entry_request_of i sz tid timeout) (en_exec w) = (Inr res, x)" "\<not> er_success res" "r = Inr False"
      "w' = w\<lparr>en_db := mark_errored tid res db1, en_exec := x\<rparr>"
  | (Filled) tid db1 res x opened db2 where "open_trade_rows pf i sz m mode wallet (en_db w) = Inr (tid, db1)"
      "xe_submit_entry xe (entry_request_of i sz tid timeout) (en_exec w) = (Inr res, x)" "er_success res"
      "record_entry i sz (mk_now m) qf chain tid res db1 = Inr (opened, db2)" "r = Inr opened"
      "w' = w\<lparr>en_db := db2, en_exec := x\<rparr>"
proof (cases "open_trade_rows pf i sz m mode wallet (en_db w)")
  case (Inl e)
  with assms show thesis by (intro Refused [OF Inl]) (auto simp: persist_entry_and_execute_def)
next
  case (Inr p)
  obtain tid db1 where p: "p = (tid, db1)" by (cases p)
  obtain out x where x: "xe_submit_entry xe (entry_request_of i sz tid timeout) (en_exec w) = (out, x)"
    by (cases "xe_submit_entry xe (entry_request_of i sz tid timeout) (en_exec w)")
  note go = assms [unfolded persist_entry_and_execute_def Inr p sum.case prod.case x]
  show thesis
  proof (cases out)
    case (Inl e)
    with go show thesis by (intro Raised [OF Inr [unfolded p], of e x]) simp_all
  next
    case res: (Inr res)
    show thesis
    proof (cases "er_success res")
      case False
      with go res show thesis by (intro Failed [OF Inr [unfolded p] x [unfolded res]]) simp_all
    next
      case ok: True
      show thesis
      proof (cases "record_entry i sz (mk_now m) qf chain tid res db1")
        case (Inl e)
        with go res ok show thesis by (intro Raised [OF Inr [unfolded p], of e x]) simp_all
      next
        case rec: (Inr q)
        obtain opened db2 where q: "q = (opened, db2)" by (cases q)
        with go res ok rec show thesis by (intro Filled [OF Inr [unfolded p] x [unfolded res] ok rec [unfolded q]]) simp_all
      qed
    qed
  qed
qed

lemma persist_entry_db:
  assumes "persist_entry_and_execute pf xe i sz m mode wallet qf chain timeout w = (r, w')"
  shows "(\<exists>e. r = Inl e) \<and> w' = w \<or>
    (\<exists>tid db1 x db. open_trade_rows pf i sz m mode wallet (en_db w) = Inr (tid, db1) \<and> w' = w\<lparr>en_db := db, en_exec := x\<rparr> \<and>
       (db = db1 \<or> (\<exists>res. db = mark_errored tid res db1) \<or> (\<exists>res opened. record_entry i sz (mk_now m) qf chain tid res db1 = Inr (opened, db))))"
  using assms by (cases rule: persist_entry_outcomes) blast+

text \<open>Replacing the trade that was just opened by one with no realised profit.\<close>

lemma replace_opened:
  assumes "db_wf db" and "get_trade tid db = Some t" and "is_open_trade t" and "t_id t' = tid"
    and "t_strategy_id t' = t_strategy_id t" and "closed_value t' = 0"
    and "tb_trades db' = tb_trades (put_trade t' db)"
  shows "count_open (of_strategy s) db' \<le> count_open (of_strategy s) db"
    and "sum_realised_pnl_inr (tb_trades db') = sum_realised_pnl_inr (tb_trades db)"
  using count_open_replace [OF assms(1,2,4) _ assms(5)] assms(3) count_open_frame [OF assms(7)]
    ledger_put [OF assms(1,2,4)] assms(6,7) by simp_all

lemma persist_entry_effect:
  assumes "persist_entry_and_execute pf xe i sz m mode wallet qf chain timeout w = (r, w')" and wf: "db_wf (en_db w)"
  shows "db_wf (en_db w')" and "unexplained_nav w' = unexplained_nav w"
    and "count_open (of_strategy s) (en_db w') \<le> count_open (of_strategy s) (en_db w) + (if matches_intent s i then 1 else 0)"
    and "en_nav w' = en_nav w" "en_registry w' = en_registry w" "en_nav_rows w' = en_nav_rows w" "en_marker w' = en_marker w"
    "en_decisions w' = en_decisions w"
proof -
  have "db_wf (en_db w') \<and> sum_realised_pnl_inr (tb_trades (en_db w')) = sum_realised_pnl_inr (tb_trades (en_db w)) \<and>
    count_open (of_strategy s) (en_db w') \<le> count_open (of_strategy s) (en_db w) + (if matches_intent s i then 1 else 0) \<and>
    en_nav w' = en_nav w \<and> en_registry w' = en_registry w \<and> en_nav_rows w' = en_nav_rows w \<and> en_marker w' = en_marker w \<and>
    en_decisions w' = en_decisions w"
  proof (cases "w' = w")
    case True
    with wf show ?thesis by simp
  next
    case False
    with persist_entry_db [OF assms(1)] obtain tid db1 x db where
      o1: "open_trade_rows pf i sz m mode wallet (en_db w) = Inr (tid, db1)" and w': "w' = w\<lparr>en_db := db, en_exec := x\<rparr>"
      and db: "db = db1 \<or> (\<exists>res. db = mark_errored tid res db1) \<or> (\<exists>res opened. record_entry i sz (mk_now m) qf chain tid res db1 = Inr (opened, db))"
      by blast
    obtain t where t: "tb_trades db1 = tb_trades (en_db w) @ [t]" "t_id t = tid" "is_open_trade t"
      "t_strategy_id t = strategy_value (in_strategy_id i)" "tid \<notin> t_id ` set (tb_trades (en_db w))"
      "realised_pnl_inr t = None"
      using open_trade_rows_InrD(1) [OF o1] by blast
    have wf1: "db_wf db1" by (rule open_trade_rows_InrD(3) [OF o1 wf])
    have g: "get_trade tid db1 = Some t" using get_trade_iff [OF wf1] t(1,2) by simp
    have s1: "sum_realised_pnl_inr (tb_trades db1) = sum_realised_pnl_inr (tb_trades (en_db w))"
      using t(1,3) by (simp add: sum_realised_closed_value)
    have c1: "count_open (of_strategy s) db1 \<le> count_open (of_strategy s) (en_db w) + (if matches_intent s i then 1 else 0)"
      using t(1,3,4) by (auto simp: count_open_def open_trades_def of_strategy_def matches_intent_def split: option.splits)
    have "db_wf db \<and> sum_realised_pnl_inr (tb_trades db) = sum_realised_pnl_inr (tb_trades db1) \<and>
        count_open (of_strategy s) db \<le> count_open (of_strategy s) db1"
      using db
    proof (elim disjE exE)
      fix res assume e: "db = mark_errored tid res db1"
      from mark_errored_cases [of tid db1 res] g obtain t' where t': "t_id t' = t_id t" "t_strategy_id t' = t_strategy_id t"
        "t_status t' = trade_status_value TRADE_ERRORED" "db = put_trade t' db1" by (auto simp: e)
      have "closed_value t' = 0" using t'(3) by (simp add: closed_value_def)
      from replace_opened [OF wf1 g t(3) _ t'(2) this, of db] t' t(2) wf1 show ?thesis by simp
    next
      fix res opened assume e: "record_entry i sz (mk_now m) qf chain tid res db1 = Inr (opened, db)"
      let ?t = "filled_trade i sz qf chain (er_fills res) t"
      have d: "tb_trades db = tb_trades (put_trade ?t db1)" "db_wf db"
        using record_entry_cases [OF e] g wf1 by auto
      have "closed_value ?t = 0" using t(3) by (simp add: closed_value_def is_open_trade_def)
      from replace_opened [OF wf1 g t(3) _ _ this d(1)] t(2) d(2) show ?thesis by simp
    qed (simp add: wf1)
    then show ?thesis using s1 c1 by (simp add: w' order_trans)
  qed
  then show "db_wf (en_db w')" "unexplained_nav w' = unexplained_nav w"
    "count_open (of_strategy s) (en_db w') \<le> count_open (of_strategy s) (en_db w) + (if matches_intent s i then 1 else 0)"
    "en_nav w' = en_nav w" "en_registry w' = en_registry w" "en_nav_rows w' = en_nav_rows w" "en_marker w' = en_marker w"
    "en_decisions w' = en_decisions w" by (simp_all add: unexplained_nav_def)
qed

section \<open>Properties: the accounting snapshot\<close>

lemma count_by_strategy_get:
  "count_by_strategy ts by_s = Inr out \<Longrightarrow>
     the_or 0 (dict_get out s) = the_or 0 (dict_get by_s s) + int (length (filter (of_strategy (Some s)) ts))"
proof (induction ts arbitrary: by_s)
  case (Cons t ts)
  then obtain sid where sid: "StrategyId (t_strategy_id t) = Inr sid"
    and rest: "count_by_strategy ts (dict_set sid (the_or 0 (dict_get by_s sid) + 1) by_s) = Inr out" by auto
  have "t_strategy_id t = strategy_value sid" using StrategyId_InrD [OF sid] by simp
  then have "of_strategy (Some s) t \<longleftrightarrow> s = sid" by (auto simp: of_strategy_def strategy_value_inject)
  with Cons.IH [OF rest] show ?case by simp
qed simp

lemma accounting_counts:
  assumes "accounting_snapshot db = Inr acc"
  shows "open_count_total acc = int (count_open (of_strategy None) db)"
    and "the_or 0 (dict_get (open_count_by_strategy acc) s) = int (count_open (of_strategy (Some s)) db)"
proof -
  have tot: "filter (of_strategy None) xs = xs" for xs by (induction xs) simp_all
  from assms obtain by_s where c: "count_by_strategy (sort_key t_id (open_trades db)) [] = Inr by_s"
    and acc: "acc = \<lparr>open_count_total = int (length (open_trades db)), open_count_by_strategy = by_s\<rparr>"
    by (auto simp: accounting_snapshot_def load_open_trades_def Let_def comp_def)
  show "open_count_total acc = int (count_open (of_strategy None) db)" by (simp add: acc count_open_def tot)
  have "length (filter (of_strategy (Some s)) (sort_key t_id (open_trades db))) = length (filter (of_strategy (Some s)) (open_trades db))"
    by (metis filter_sort length_sort)
  with count_by_strategy_get [OF c, of s]
  show "the_or 0 (dict_get (open_count_by_strategy acc) s) = int (count_open (of_strategy (Some s)) db)"
    by (simp add: acc count_open_def)
qed

end
