(* ===== verification/DecisionLog.thy ===== *)
theory DecisionLog
  imports Base
begin

text \<open>
  The decision log (\<open>bot/analytics/decision_log.py\<close>): every record of a tick becomes one row of the table
  \<open>decisions\<close>, written in batches.  \<open>clock k\<close> is the time of the session of batch \<open>k\<close>, and \<open>fault k\<close> the
  exception that its commit raises, if it does: the session then rolls back, and the batches before it stay.
  The records the program emits carry no time of their own; the JSONL mirror is in \<open>Observability\<close>.
\<close>

section \<open>Operations\<close>

definition KNOWN_KINDS :: "string list" where
  "KNOWN_KINDS = map kind_value [KIND_EVALUATE, KIND_MANAGE, KIND_RISK]"

definition from_dict :: "decision_rec \<Rightarrow> decision_rec" where
  "from_dict d =
     d\<lparr>dr_kind := (if dr_kind d \<in> set KNOWN_KINDS then dr_kind d else kind_value KIND_EVALUATE),
       dr_reason := (if dr_reason d \<in> set DecisionReason_values then dr_reason d else ''other'')\<rparr>"

definition decision_row_of :: "datetime \<Rightarrow> decision_rec \<Rightarrow> decision_row" where
  "decision_row_of now d =
     \<lparr>d_ts = now, d_strategy_id = dr_strategy_id d, d_kind = dr_kind d, d_symbol = dr_symbol d,
      d_underlying = dr_underlying d, d_passed = dr_passed d, d_reason = dr_reason d,
      d_features = (if dr_features d = [] then None else Some (dr_features d))\<rparr>"

text \<open>\<open>_chunked\<close>: \<open>range\<close> refuses a step of zero.\<close>

fun chunks_from :: "nat \<Rightarrow> 'a list \<Rightarrow> 'a list list" where
  "chunks_from n [] = []"
| "chunks_from n (x # xs) = take (Suc n) (x # xs) # chunks_from n (drop n xs)"

definition chunked :: "'a list \<Rightarrow> nat \<Rightarrow> 'a list list result" where
  "chunked xs n = (if n = 0 then Inl ValueError else Inr (chunks_from (n - 1) xs))"

definition write_chunk :: "datetime \<Rightarrow> decision_rec list \<Rightarrow> decision_row list \<Rightarrow> nat \<times> decision_row list" where
  "write_chunk now recs table = (length recs, table @ map (decision_row_of now) recs)"

fun write_chunks ::
  "(nat \<Rightarrow> datetime) \<Rightarrow> (nat \<Rightarrow> py_error option) \<Rightarrow> nat \<Rightarrow> decision_rec list list \<Rightarrow> nat \<Rightarrow> decision_row list \<Rightarrow>
   nat result \<times> decision_row list" where
  "write_chunks clock fault k [] n table = (Inr n, table)"
| "write_chunks clock fault k (c # cs) n table =
     (case fault k of
        Some e \<Rightarrow> (Inl e, table)
      | None \<Rightarrow> (let (m, table') = write_chunk (clock k) c table in write_chunks clock fault (k + 1) cs (n + m) table'))"

definition write_decisions ::
  "(nat \<Rightarrow> datetime) \<Rightarrow> (nat \<Rightarrow> py_error option) \<Rightarrow> nat \<Rightarrow> decision_rec list \<Rightarrow> decision_row list \<Rightarrow> nat result \<times> decision_row list" where
  "write_decisions clock fault max_batch records table =
     (let normalised = map from_dict records
      in if normalised = [] then (Inr 0, table)
         else case chunked normalised max_batch of
                Inl e \<Rightarrow> (Inl e, table)
              | Inr cs \<Rightarrow> write_chunks clock fault 0 cs 0 table)"

section \<open>Properties\<close>

lemma concat_chunks: "concat (chunks_from n xs) = xs"
  by (induction n xs rule: chunks_from.induct) simp_all

lemma concat_take_chunks: "concat (take j (chunks_from n xs)) = take (j * Suc n) xs"
proof (induction n xs arbitrary: j rule: chunks_from.induct)
  case (2 n x xs)
  show ?case
  proof (cases j)
    case (Suc i)
    have "concat (take i (chunks_from n (drop n xs))) = take (i * Suc n) (drop n xs)" by (rule 2)
    then have "concat (take j (chunks_from n (x # xs))) = x # take (n + i * Suc n) xs"
      using Suc by (simp only: chunks_from.simps take_Suc_Cons concat.simps take_add append_Cons)
    with Suc show ?thesis by (simp add: add.left_commute)
  qed simp
qed simp

lemma chunks_before: "j < length (chunks_from n xs) \<Longrightarrow> j * Suc n < length xs"
proof (induction n xs arbitrary: j rule: chunks_from.induct)
  case (2 n x xs)
  show ?case
  proof (cases j)
    case (Suc i)
    with 2 have "i * Suc n < length (drop n xs)" by simp
    with Suc show ?thesis by simp
  qed simp
qed simp

lemma chunks_after: "j * Suc n < length xs \<Longrightarrow> j < length (chunks_from n xs)"
proof (induction n xs arbitrary: j rule: chunks_from.induct)
  case (2 n x xs)
  then show ?case by (cases j) auto
qed simp

lemma chunk_sizes: "c \<in> set (chunks_from n xs) \<Longrightarrow> 0 < length c \<and> length c \<le> Suc n"
  by (induction n xs rule: chunks_from.induct) auto

lemma from_dict_known:
  "dr_reason (from_dict d) \<in> set DecisionReason_values" "dr_kind (from_dict d) \<in> set KNOWN_KINDS"
  by (simp_all add: from_dict_def DecisionReason_values_def KNOWN_KINDS_def)

lemma from_dict_idem: "from_dict (from_dict d) = from_dict d"
  using from_dict_known [of d] by (simp add: from_dict_def [of "from_dict d"])

text \<open>A row with its time forgotten.\<close>

definition untimed :: "decision_row \<Rightarrow> decision_row" where
  "untimed r = r\<lparr>d_ts := 0\<rparr>"

lemma untimed_row: "untimed (decision_row_of t d) = decision_row_of 0 d"
  by (simp add: untimed_def decision_row_of_def)

text \<open>The first batch whose commit raises, the records that have their rows after a write, and what the write returns.\<close>

definition failed_batch :: "(nat \<Rightarrow> py_error option) \<Rightarrow> nat \<Rightarrow> nat \<Rightarrow> nat option" where
  "failed_batch fault max_batch n = List.find (\<lambda>k. fault k \<noteq> None) (filter (\<lambda>k. k * max_batch < n) [0..<n])"

definition stored_records :: "(nat \<Rightarrow> py_error option) \<Rightarrow> nat \<Rightarrow> decision_rec list \<Rightarrow> decision_rec list" where
  "stored_records fault max_batch records =
     (case failed_batch fault max_batch (length records) of
        None \<Rightarrow> map from_dict records
      | Some k \<Rightarrow> take (k * max_batch) (map from_dict records))"

definition write_result :: "(nat \<Rightarrow> py_error option) \<Rightarrow> nat \<Rightarrow> decision_rec list \<Rightarrow> nat result" where
  "write_result fault max_batch records =
     (case Option.bind (failed_batch fault max_batch (length records)) fault of
        None \<Rightarrow> Inr (length records)
      | Some e \<Rightarrow> Inl e)"

lemma find_append_skip: "List.find P xs = None \<Longrightarrow> List.find P (xs @ ys) = List.find P ys"
  by (induction xs) (simp_all split: if_splits)

lemma failed_batch_first:
  assumes "0 < max_batch" and "j * max_batch < n" and "fault j = Some e" and "\<forall>i < j. fault i = None"
  shows "failed_batch fault max_batch n = Some j"
proof -
  have "j * 1 \<le> j * max_batch" using assms(1) by (intro mult_le_mono2) simp
  also note assms(2)
  finally have jn: "j < n" by simp
  then have "[0..<n] = [0..<j] @ j # [Suc j..<n]" using upt_add_eq_append [of 0 j "n - j"] by (simp add: upt_conv_Cons)
  moreover have "List.find (\<lambda>k. fault k \<noteq> None) (filter (\<lambda>k. k * max_batch < n) [0..<j]) = None"
    using assms(4) by (simp add: find_None_iff)
  ultimately show ?thesis using assms(2,3) by (simp add: failed_batch_def find_append_skip)
qed

text \<open>The rows that a write appends: those of all its batches, or of the batches before the one that raised.\<close>

lemma write_chunks_rows:
  assumes "write_chunks clock fault k cs n table = (r, table')"
  shows "\<exists>j rows. j \<le> length cs \<and> table' = table @ rows \<and> map untimed rows = map (decision_row_of 0) (concat (take j cs)) \<and>
     (\<forall>i < j. fault (k + i) = None) \<and>
     (if j = length cs then r = Inr (n + length (concat cs)) else \<exists>e. fault (k + j) = Some e \<and> r = Inl e)"
  using assms
proof (induction cs arbitrary: k n table)
  case Nil
  then show ?case by simp
next
  case (Cons c cs)
  show ?case
  proof (cases "fault k")
    case (Some e)
    with Cons.prems show ?thesis by (intro exI [of _ 0] exI [of _ "[]"]) simp
  next
    case None
    let ?new = "map (decision_row_of (clock k)) c"
    have "write_chunks clock fault (k + 1) cs (n + length c) (table @ ?new) = (r, table')"
      using Cons.prems None by (simp add: write_chunk_def)
    from Cons.IH [OF this] obtain j rows where j: "j \<le> length cs" "table' = (table @ ?new) @ rows"
      "map untimed rows = map (decision_row_of 0) (concat (take j cs))" "\<forall>i < j. fault (k + 1 + i) = None"
      "if j = length cs then r = Inr (n + length c + length (concat cs)) else \<exists>e. fault (k + 1 + j) = Some e \<and> r = Inl e" by blast
    have "\<forall>i < Suc j. fault (k + i) = None" using j(4) None by (auto simp: less_Suc_eq_0_disj)
    with j show ?thesis
      by (intro exI [of _ "Suc j"] exI [of _ "?new @ rows"]) (auto simp: untimed_row split: if_splits)
  qed
qed

section \<open>Claims\<close>

text \<open>
  Whatever the batch size, writing a list of records appends one row per record, in their order, with the
  record's fields, and with a kind and a reason the schema knows.  A commit that raises ends the write with
  its exception: exactly the records of the batches before it have their rows then.
\<close>

theorem write_one_row_per_record:
  assumes "0 < max_batch"
  shows "\<exists>rows. write_decisions clock fault max_batch records table = (write_result fault max_batch records, table @ rows) \<and>
     map untimed rows = map (decision_row_of 0) (stored_records fault max_batch records) \<and>
     list_all (\<lambda>r. d_reason r \<in> set DecisionReason_values \<and> d_kind r \<in> set KNOWN_KINDS) rows"
proof (cases "records = []")
  case True
  then show ?thesis by (simp add: write_decisions_def write_result_def stored_records_def failed_batch_def)
next
  case False
  let ?n = "max_batch - 1" let ?recs = "map from_dict records"
  let ?cs = "chunks_from ?n ?recs"
  obtain r table' where w: "write_chunks clock fault 0 ?cs 0 table = (r, table')" by (cases "write_chunks clock fault 0 ?cs 0 table")
  from write_chunks_rows [OF w] obtain j rows where j: "j \<le> length ?cs" and rows: "table' = table @ rows"
    "map untimed rows = map (decision_row_of 0) (concat (take j ?cs))" and first: "\<forall>i < j. fault (0 + i) = None"
    and r: "if j = length ?cs then r = Inr (0 + length (concat ?cs)) else \<exists>e. fault (0 + j) = Some e \<and> r = Inl e" by blast
  have out: "r = write_result fault max_batch records \<and> concat (take j ?cs) = stored_records fault max_batch records"
  proof (cases "j = length ?cs")
    case True
    have "fault i = None" if "i * max_batch < length records" for i
      using first chunks_after [of i ?n ?recs] that True assms by auto
    then have "failed_batch fault max_batch (length records) = None" by (auto simp: failed_batch_def find_None_iff)
    with r True show ?thesis by (simp add: write_result_def stored_records_def concat_chunks)
  next
    case lt: False
    with r obtain e where e: "fault j = Some e" "r = Inl e" by auto
    from lt j have "j * max_batch < length records" using chunks_before [of j ?n ?recs] assms by simp
    with assms have "failed_batch fault max_batch (length records) = Some j"
      by (rule failed_batch_first) (use e first in simp_all)
    with e assms concat_take_chunks [of j ?n ?recs] show ?thesis by (simp add: write_result_def stored_records_def)
  qed
  have known: "d_reason x \<in> set DecisionReason_values \<and> d_kind x \<in> set KNOWN_KINDS" if "x \<in> set rows" for x
  proof -
    have "untimed x \<in> set (map untimed rows)" using that by simp
    then obtain d where d: "untimed x = decision_row_of 0 d" "d \<in> set (stored_records fault max_batch records)"
      unfolding rows(2) conjunct2 [OF out] by auto
    have "d \<in> set ?recs" using d(2) by (auto simp: stored_records_def split: option.splits dest: in_set_takeD)
    with arg_cong [OF d(1), of d_reason] arg_cong [OF d(1), of d_kind] show ?thesis
      using from_dict_known by (auto simp: untimed_def decision_row_of_def)
  qed
  have wr: "write_decisions clock fault max_batch records table = (r, table @ rows)"
    using False assms w rows(1) by (simp add: write_decisions_def chunked_def Let_def)
  from wr out rows(2) known show ?thesis by (intro exI [of _ rows]) (simp add: list_all_iff)
qed

text \<open>A write whose second batch raises: the row of the first one stays.\<close>

theorem write_one_row_per_record_witness:
  "\<exists>rows. write_decisions (\<lambda>_. 7) (\<lambda>k. if k = 1 then Some OSError else None) 1
       [mk_decision DIRECTIONAL (Some BTC) None False ''unheard of'' [], mk_decision DIRECTIONAL None None True ''passed'' []] [] =
     (Inl OSError, rows) \<and> map d_reason rows = [''other'']"
proof -
  define recs where "recs = [mk_decision DIRECTIONAL (Some BTC) None False ''unheard of'' [], mk_decision DIRECTIONAL None None True ''passed'' []]"
  define fault where "fault = (\<lambda>k :: nat. if k = 1 then Some OSError else None)"
  have f: "failed_batch fault 1 (length recs) = Some 1" by (simp add: failed_batch_def fault_def recs_def upt_rec)
  have "0 < (1 :: nat)" by simp
  from write_one_row_per_record [OF this, of "\<lambda>_. 7" fault recs "[]"] obtain rows where
    w: "write_decisions (\<lambda>_. 7) fault 1 recs [] = (write_result fault 1 recs, [] @ rows)"
    and m: "map untimed rows = map (decision_row_of 0) (stored_records fault 1 recs)" by blast
  have st: "stored_records fault 1 recs = [from_dict (hd recs)]" "write_result fault 1 recs = Inl OSError"
    unfolding stored_records_def write_result_def f by (simp_all add: recs_def fault_def)
  have "map d_reason rows = map d_reason (map untimed rows)" by (simp add: untimed_def)
  also have "\<dots> = [''other'']"
    unfolding m st by (simp add: recs_def decision_row_of_def from_dict_def mk_decision_def DecisionReason_values_def)
  finally have "map d_reason rows = [''other'']" .
  with w st(2) show ?thesis unfolding recs_def fault_def by (intro exI [of _ rows]) simp
qed

end
