(* ===== verification/Tick.thy ===== *)
theory Tick
  imports Engine DecisionLog
begin

text \<open>
  One round of the engine's main loop (\<open>main_loop\<close> in \<open>bot/runtime/engine.py\<close>): roll the trading day, build
  the market, manage the open positions, refresh their notes, let the strategies raise intents, gate and
  execute them one after the other, and synchronise the circuit breaker.  An exception ends the round, and
  in the code the main task with it; the state it leaves behind is returned beside it.

  The chain cache and the marks are those at the start of the round: the tasks that update them while the
  round waits for the executor are not interleaved.  Wallet snapshots, clocks and the IV table are inputs, and
  so are the exceptions of the wallet requests and of the commits of the decision log: a \<open>DeltaRestError\<close> of a
  wallet request is caught and leaves no snapshot, any other exception ends the round.
\<close>

section \<open>Configuration and inputs\<close>

record engine_config =
  ec_global :: global_config
  ec_strategies :: "(strategy_id, strategy_config) dict"
  ec_is_live :: bool
  ec_mode :: string
  ec_usd_inr :: flt
  ec_parse_float :: "string \<Rightarrow> flt option"

record tick_input =
  ti_now :: datetime
  ti_chain :: chain_cache
  ti_candles :: "(underlying, (string, candle_aggregator) dict) dict"
  ti_marks :: "(underlying, flt) dict"
  ti_iv_store :: iv_history_store
  ti_iv_table :: "iv_snapshot_row list"
  ti_wallet :: "pyval option"
  ti_wallet_exit :: "int \<Rightarrow> pyval"
  ti_wallet_entry :: "intent \<Rightarrow> pyval"
  ti_clock :: "int \<Rightarrow> datetime"
  ti_epoch :: int
  ti_log_clock :: "nat \<Rightarrow> datetime"
  ti_wallet_fault :: "py_error option"
  ti_wallet_exit_fault :: "int \<Rightarrow> py_error option"
  ti_wallet_entry_fault :: "intent \<Rightarrow> py_error option"
  ti_log_fault :: "nat \<Rightarrow> py_error option"

text \<open>\<open>try: wallet = await fetch_wallet_snapshot(rest)  except DeltaRestError\<close>: what gets out of it.\<close>

definition wallet_request :: "py_error option \<Rightarrow> unit result" where
  "wallet_request fault = (case fault of None \<Rightarrow> Inr () | Some e \<Rightarrow> if e = DeltaRestError then Inr () else Inl e)"

definition risk_of :: "engine_config \<Rightarrow> 'x engine \<Rightarrow> risk_manager" where
  "risk_of c w =
     \<lparr>rm_cfg = ec_global c, rm_nav = en_nav w, rm_strategies = ec_strategies c, rm_require_live_enabled = ec_is_live c\<rparr>"

text \<open>The candles the market carries: the closed ones and the current one.\<close>

definition candles_of :: "candle_aggregator \<Rightarrow> candle list" where
  "candles_of a = closed a @ (case current a of None \<Rightarrow> [] | Some c \<Rightarrow> [c])"

definition quotes_for :: "chain_cache \<Rightarrow> (trade_row \<times> leg_row list) list \<Rightarrow> (string, quote_snapshot) dict" where
  "quotes_for chain rows =
     fold (\<lambda>leg out. case get_quote chain (leg_symbol leg) of None \<Rightarrow> out | Some q \<Rightarrow> dict_set (leg_symbol leg) q out)
       (concat (map snd rows)) []"

definition market_of :: "engine_config \<Rightarrow> tick_input \<Rightarrow> (string, quote_snapshot) dict \<Rightarrow> market_state" where
  "market_of c ti qf =
     \<lparr>mk_now = ti_now ti, mk_chain = ti_chain ti, candles_by_tf = map (\<lambda>(u, aggs). (u, map (\<lambda>(tf, a). (tf, candles_of a)) aggs)) (ti_candles ti), underlying_marks = ti_marks ti,
      quote_for = qf, mk_usd_inr_rate = ec_usd_inr c,
      iv_percentiles = prefetch_iv_for_strategies (ti_iv_store ti) (ti_iv_table ti) (ti_chain ti) (ti_marks ti)
                         (ec_strategies c) (ti_now ti)\<rparr>"

section \<open>Open positions\<close>

text \<open>What one directive makes the engine do.\<close>

definition handle_directive ::
  "engine_config \<Rightarrow> 'x executor \<Rightarrow> tick_input \<Rightarrow> market_state \<Rightarrow> trade_row \<Rightarrow> leg_row list \<Rightarrow> exit_directive \<Rightarrow> ('x, unit) eng" where
  "handle_directive c xe ti m trade legs d w =
     (case (ed_kind d, ed_trigger d, ed_new_stop_price d) of
        (EXIT_CLOSE, Some trigger, _) \<Rightarrow>
          (case bind_result (wallet_request (ti_wallet_exit_fault ti (t_id trade))) (\<lambda>_. indicator_snapshot_for_trade trade m) of
             Inl e \<Rightarrow> (Inl e, w)
           | Inr ind \<Rightarrow>
               (case persist_exit (ec_parse_float c) xe (ti_clock ti (t_id trade)) trade legs trigger (ti_wallet_exit ti (t_id trade))
                       (Some ind) (Some (quote_for m)) (Some (ti_chain ti)) w of
                  (Inl e, w1) \<Rightarrow> (Inl e, w1)
                | (Inr _, w1) \<Rightarrow>
                    (case apply_directional_exit_cooldown (en_registry w1) trade (ti_now ti) of
                       Inl e \<Rightarrow> (Inl e, w1)
                     | Inr r1 \<Rightarrow>
                         (case apply_long_straddle_exit_cooldown r1 trade (ti_now ti) of
                            Inl e \<Rightarrow> (Inl e, w1\<lparr>en_registry := r1\<rparr>)
                          | Inr r2 \<Rightarrow> (Inr (), w1\<lparr>en_registry := r2, en_runtimes := dict_pop (t_id trade) (en_runtimes w1)\<rparr>)))))
      | (EXIT_UPDATE_STOP, _, Some new_stop) \<Rightarrow>
          persist_trail_stop xe (ti_epoch ti) (ti_clock ti (t_id trade)) trade legs new_stop [] (the_or VNone (ti_wallet ti)) w
      | _ \<Rightarrow> (Inr (), w))"

fun handle_directives ::
  "engine_config \<Rightarrow> 'x executor \<Rightarrow> tick_input \<Rightarrow> market_state \<Rightarrow> trade_row \<Rightarrow> leg_row list \<Rightarrow> exit_directive list \<Rightarrow> ('x, unit) eng" where
  "handle_directives c xe ti m trade legs [] w = (Inr (), w)"
| "handle_directives c xe ti m trade legs (d # ds) w =
     en_bind (handle_directive c xe ti m trade legs d) (\<lambda>_. handle_directives c xe ti m trade legs ds) w"

definition runtime_for :: "position_state \<Rightarrow> (int, position_runtime) dict \<Rightarrow> position_runtime" where
  "runtime_for pos rts =
     (case dict_get rts (trade_id pos) of None \<Rightarrow> PositionRuntime pos | Some rt \<Rightarrow> rt\<lparr>rt_position := pos\<rparr>)"

definition process_position ::
  "engine_config \<Rightarrow> 'x executor \<Rightarrow> tick_input \<Rightarrow> market_state \<Rightarrow> (trade_row \<times> leg_row list) list \<Rightarrow> position_state \<Rightarrow>
   (int, flt) dict \<Rightarrow> ('x, (int, flt) dict) eng" where
  "process_position c xe ti m rows pos peaks w =
     (case List.find (\<lambda>row. t_id (fst row) = trade_id pos) rows of
        None \<Rightarrow> (Inr peaks, w)
      | Some (trade, legs) \<Rightarrow>
          let rt = runtime_for pos (en_runtimes w)
          in (case step (ec_parse_float c) (en_registry w) (trail_update_throttle_seconds (execution (ec_global c))) rt m of
                Inl e \<Rightarrow> (Inl e, w\<lparr>en_runtimes := dict_set (trade_id pos) rt (en_runtimes w)\<rparr>)
              | Inr (ds, rt') \<Rightarrow>
                  let peak = max (rt_peak_pnl_inr rt') (the_or 0 (peak_pnl_inr (rt_position rt')));
                      w1 = w\<lparr>en_runtimes := dict_set (trade_id pos) rt' (en_runtimes w)\<rparr>
                  in en_bind (handle_directives c xe ti m trade legs ds) (\<lambda>_ w2. (Inr (dict_set (t_id trade) peak peaks), w2)) w1))"

fun process_positions ::
  "engine_config \<Rightarrow> 'x executor \<Rightarrow> tick_input \<Rightarrow> market_state \<Rightarrow> (trade_row \<times> leg_row list) list \<Rightarrow> position_state list \<Rightarrow>
   (int, flt) dict \<Rightarrow> ('x, (int, flt) dict) eng" where
  "process_positions c xe ti m rows [] peaks w = (Inr peaks, w)"
| "process_positions c xe ti m rows (pos # ps) peaks w =
     en_bind (process_position c xe ti m rows pos peaks) (process_positions c xe ti m rows ps) w"

section \<open>Intents\<close>

text \<open>An approved intent: the snapshot of the round serves, and is asked for again when there is none.\<close>

definition execute_intent ::
  "engine_config \<Rightarrow> 'x executor \<Rightarrow> tick_input \<Rightarrow> market_state \<Rightarrow> intent \<Rightarrow> sizing_result \<Rightarrow> ('x, bool) eng" where
  "execute_intent c xe ti m i sz w =
     (case (if ti_wallet ti = None then wallet_request (ti_wallet_entry_fault ti i) else Inr ()) of
        Inl e \<Rightarrow> (Inl e, w)
      | Inr _ \<Rightarrow>
          persist_entry_and_execute (ec_parse_float c) xe i sz m (ec_mode c) (the_or (ti_wallet_entry ti i) (ti_wallet ti))
            (Some (quote_for m)) (Some (ti_chain ti)) (maker_limit_timeout_seconds (execution (ec_global c))) w)"

fun run_intents ::
  "engine_config \<Rightarrow> 'x executor \<Rightarrow> tick_input \<Rightarrow> market_state \<Rightarrow> portfolio_greeks option \<Rightarrow> trade_accounting_snapshot \<Rightarrow> intent list \<Rightarrow>
   decision_rec list \<Rightarrow> ('x, decision_rec list) eng" where
  "run_intents c xe ti m book acc [] records w = (Inr records, w)"
| "run_intents c xe ti m book acc (i # is) records w =
     (case gate (risk_of c w) i (ti_now ti) acc book (Some (quote_for m)) (Some (ti_chain ti)) (Some (ti_marks ti)) (ec_usd_inr c) of
        Inl e \<Rightarrow> (Inl e, w)
      | Inr sz \<Rightarrow>
          let records = records @ [risk_record i sz]
          in if \<not> approved sz then run_intents c xe ti m book acc is records w
             else
               (case execute_intent c xe ti m i sz w of
                  (Inl e, w1) \<Rightarrow> (Inl e, w1)
                | (Inr opened, w1) \<Rightarrow>
                    let w2 = (if opened then w1
                              else w1\<lparr>en_registry := apply_directional_entry_failure_cooldown (en_registry w1) i (ti_now ti)\<rparr>)
                    in (case accounting_snapshot (en_db w2) of
                          Inl e \<Rightarrow> (Inl e, w2)
                        | Inr acc2 \<Rightarrow> run_intents c xe ti m book acc2 is records w2)))"

definition portfolio_book ::
  "engine_config \<Rightarrow> tick_input \<Rightarrow> (trade_row \<times> leg_row list) list \<Rightarrow> (string, quote_snapshot) dict \<Rightarrow> portfolio_greeks option" where
  "portfolio_book c ti rows qf =
     (if desk_enabled (desk (ec_global c)) then Some (from_open_trades rows qf (Some (ti_chain ti))) else None)"

section \<open>The round\<close>

definition manage_phase ::
  "engine_config \<Rightarrow> 'x executor \<Rightarrow> tick_input \<Rightarrow> market_state \<Rightarrow> (trade_row \<times> leg_row list) list \<Rightarrow> ('x, unit) eng" where
  "manage_phase c xe ti m rows w =
     (let ids = map (t_id \<circ> fst) rows;
          w1 = w\<lparr>en_runtimes := filter (\<lambda>p. fst p \<in> set ids) (en_runtimes w)\<rparr>
      in case map_result (\<lambda>(t, legs). trade_to_position_state (ec_parse_float c) (ti_now ti) t legs (ti_chain ti)) rows of
           Inl e \<Rightarrow> (Inl e, w1)
         | Inr ps \<Rightarrow>
             (case process_positions c xe ti m rows ps [] w1 of
                (Inl e, w2) \<Rightarrow> (Inl e, w2)
              | (Inr peaks, w2) \<Rightarrow>
                  if rows = [] then (Inr (), w2)
                  else (case refresh_all_open_trades (ec_parse_float c) rows (ti_chain ti) m (ti_wallet ti) peaks (en_db w2) of
                          (Inl e, db) \<Rightarrow> (Inl e, w2\<lparr>en_db := db\<rparr>)
                        | (Inr _, db) \<Rightarrow> (Inr (), w2\<lparr>en_db := db\<rparr>))))"

definition entry_phase ::
  "engine_config \<Rightarrow> 'x executor \<Rightarrow> tick_input \<Rightarrow> market_state \<Rightarrow> (trade_row \<times> leg_row list) list \<Rightarrow> ('x, decision_rec list) eng" where
  "entry_phase c xe ti m rows w =
     (let (disp, r) = evaluate_all (en_registry w) m None; w1 = w\<lparr>en_registry := r\<rparr>
      in case accounting_snapshot (en_db w1) of
           Inl e \<Rightarrow> (Inl e, w1)
         | Inr acc \<Rightarrow>
             run_intents c xe ti m (portfolio_book c ti rows (quote_for m)) acc (all_intents disp) (all_decisions disp) w1)"

definition finish_phase :: "engine_config \<Rightarrow> tick_input \<Rightarrow> decision_rec list \<Rightarrow> ('x, unit) eng" where
  "finish_phase c ti records w =
     (case sync_circuit_breaker_from_risk (en_nav_rows w) (risk_of c w) (ti_now ti) (en_marker w) of
        Inl e \<Rightarrow> (Inl e, w)
      | Inr (rows, n, marker) \<Rightarrow>
          let w1 = w\<lparr>en_nav_rows := rows, en_nav := n, en_marker := marker\<rparr>
          in (case write_decisions (ti_log_clock ti) (ti_log_fault ti) 500 records (en_decisions w1) of
                (Inl e, table) \<Rightarrow> (Inl e, w1\<lparr>en_decisions := table\<rparr>)
              | (Inr _, table) \<Rightarrow>
                  (Inr (), w1\<lparr>en_decisions := table, en_nav := n\<lparr>peak_nav := max (peak_nav n) (nav_now n)\<rparr>\<rparr>)))"

definition roll_phase :: "tick_input \<Rightarrow> 'x engine \<Rightarrow> 'x engine" where
  "roll_phase ti w =
     (let (n, d) = maybe_roll_ist_trading_day (en_nav w) (ti_now ti) (en_ist_date w) in w\<lparr>en_nav := n, en_ist_date := Some d\<rparr>)"

definition round_phases :: "engine_config \<Rightarrow> 'x executor \<Rightarrow> tick_input \<Rightarrow> ('x, unit) eng" where
  "round_phases c xe ti w =
     (let rows = load_open_trades (en_db w);
          m = market_of c ti (quotes_for (ti_chain ti) rows)
      in en_bind (manage_phase c xe ti m rows)
           (\<lambda>_. en_bind (entry_phase c xe ti m rows) (finish_phase c ti)) w)"

definition tick :: "engine_config \<Rightarrow> 'x executor \<Rightarrow> tick_input \<Rightarrow> ('x, unit) eng" where
  "tick c xe ti w =
     (let w0 = roll_phase ti w
      in case wallet_request (ti_wallet_fault ti) of
           Inl e \<Rightarrow> (Inl e, w0)
         | Inr _ \<Rightarrow> round_phases c xe ti w0)"

section \<open>Properties: managing positions\<close>

lemma en_bind_cases:
  assumes "en_bind m f w = (r, w')"
  obtains (Raise) e where "m w = (Inl e, w')" "r = Inl e" | (Go) x w1 where "m w = (Inr x, w1)" "f x w1 = (r, w')"
proof (cases "m w")
  case (Pair out w1)
  show thesis
  proof (cases out)
    case (Inl e)
    with Pair assms show thesis by (intro Raise [of e]) (simp_all add: en_bind_def)
  next
    case (Inr x)
    with Pair assms show thesis by (intro Go [of x w1]) (simp_all add: en_bind_def)
  qed
qed

lemma unexplained_cong: "en_db w' = en_db w \<Longrightarrow> en_nav w' = en_nav w \<Longrightarrow> unexplained_nav w' = unexplained_nav w"
  by (simp add: unexplained_nav_def)

text \<open>What a directive for a trade may do: shrink the open trades, touch no other trade, and keep the ledger.\<close>

definition handles :: "int \<Rightarrow> 'x engine \<Rightarrow> 'x engine \<Rightarrow> bool \<Rightarrow> bool" where
  "handles tid w w' ok \<longleftrightarrow>
     trades_shrink w w' \<and> (\<forall>t. t \<noteq> tid \<longrightarrow> get_trade t (en_db w') = get_trade t (en_db w)) \<and>
     (ok \<longrightarrow> db_wf (en_db w) \<longrightarrow> (\<exists>t. get_trade tid (en_db w) = Some t \<and> is_open_trade t) \<longrightarrow> unexplained_nav w' = unexplained_nav w)"

lemma handles_cong:
  assumes "handles tid w w' ok" and "en_db w'' = en_db w'" and "en_nav w'' = en_nav w'"
    and "en_nav_rows w'' = en_nav_rows w'" and "en_marker w'' = en_marker w'" and "en_decisions w'' = en_decisions w'"
  shows "handles tid w w'' ok"
  using assms trades_shrink_cong [of w w' w''] unexplained_cong [of w'' w'] by (simp add: handles_def)

lemma handle_directive_handles:
  assumes "handle_directive c xe ti m trade legs d w = (r, w')"
  shows "handles (t_id trade) w w' (r = Inr ())"
proof -
  have same: "handles (t_id trade) w w' ok" if "w' = w" for ok using that by (simp add: handles_def)
  consider (Close) trigger where "ed_kind d = EXIT_CLOSE" "ed_trigger d = Some trigger"
    | (Stop) x where "ed_kind d = EXIT_UPDATE_STOP" "ed_new_stop_price d = Some x"
    | (Other) "handle_directive c xe ti m trade legs d w = (Inr (), w)"
    by (cases "ed_kind d"; cases "ed_trigger d"; cases "ed_new_stop_price d") (auto simp: handle_directive_def)
  then show ?thesis
  proof cases
    case Other
    with assms show ?thesis using same by simp
  next
    case (Stop x)
    with assms have "persist_trail_stop xe (ti_epoch ti) (ti_clock ti (t_id trade)) trade legs x [] (the_or VNone (ti_wallet ti)) w = (r, w')"
      by (simp add: handle_directive_def)
    from persist_trail_effect(1,4,5) [OF this] show ?thesis by (simp add: handles_def)
  next
    case (Close trigger)
    show ?thesis
    proof (cases "bind_result (wallet_request (ti_wallet_exit_fault ti (t_id trade))) (\<lambda>_. indicator_snapshot_for_trade trade m)")
      case (Inl e)
      with assms Close show ?thesis using same by (simp add: handle_directive_def)
    next
      case (Inr ind)
      obtain out w1 where p: "persist_exit (ec_parse_float c) xe (ti_clock ti (t_id trade)) trade legs trigger
          (ti_wallet_exit ti (t_id trade)) (Some ind) (Some (quote_for m)) (Some (ti_chain ti)) w = (out, w1)" by fastforce
      have h: "handles (t_id trade) w w1 (out = Inr ())"
        using persist_exit_shrinks(1,4) [OF p] persist_exit_ledger p unfolding handles_def by blast
      have "en_db w' = en_db w1 \<and> en_nav w' = en_nav w1 \<and> en_nav_rows w' = en_nav_rows w1 \<and> en_marker w' = en_marker w1 \<and>
          en_decisions w' = en_decisions w1 \<and> (r = Inr () \<longrightarrow> out = Inr ())"
        using assms Close Inr p by (auto simp: handle_directive_def split: sum.splits)
      with handles_cong [OF h, of w'] show ?thesis by (auto simp: handles_def)
    qed
  qed
qed

lemma process_position_handles:
  assumes "process_position c xe ti m rows pos peaks w = (r, w')"
  shows "handles (trade_id pos) w w' (\<exists>ps. r = Inr ps)"
proof -
  have same: "handles (trade_id pos) w v ok" if "en_db v = en_db w" "en_nav v = en_nav w" "en_nav_rows v = en_nav_rows w"
    "en_marker v = en_marker w" "en_decisions v = en_decisions w" for v ok
    using handles_cong [of "trade_id pos" w w ok v] that by (simp add: handles_def)
  show ?thesis
  proof (cases "List.find (\<lambda>row. t_id (fst row) = trade_id pos) rows")
    case None
    with assms show ?thesis using same by (simp add: process_position_def)
  next
    case (Some row)
    obtain trade legs where row: "row = (trade, legs)" by (cases row)
    have "t_id (fst row) = trade_id pos" using Some by (auto simp: find_Some_iff)
    then have id: "t_id trade = trade_id pos" using row by simp
    let ?rt = "runtime_for pos (en_runtimes w)"
    show ?thesis
    proof (cases "step (ec_parse_float c) (en_registry w) (trail_update_throttle_seconds (execution (ec_global c))) ?rt m")
      case (Inl e)
      with assms Some row have "w' = w\<lparr>en_runtimes := dict_set (trade_id pos) ?rt (en_runtimes w)\<rparr>"
        by (simp add: process_position_def Let_def)
      then show ?thesis using same by simp
    next
      case (Inr q)
      obtain ds rt' where q: "q = (ds, rt')" by (cases q)
      obtain d where d: "ds = [d]" using step_one_directive Inr q by blast
      define w1 where "w1 = w\<lparr>en_runtimes := dict_set (trade_id pos) rt' (en_runtimes w)\<rparr>"
      obtain out w2 where h: "handle_directive c xe ti m trade legs d w1 = (out, w2)" by fastforce
      have "w' = w2 \<and> ((\<exists>ps. r = Inr ps) \<longrightarrow> out = Inr ())"
        using assms Some row Inr q d h
        by (auto simp: process_position_def Let_def en_bind_def w1_def [symmetric] split: sum.splits prod.splits)
      moreover have "handles (trade_id pos) w1 w2 (out = Inr ())" using handle_directive_handles [OF h] id by simp
      moreover have "en_db w1 = en_db w" "trades_shrink w w1" "unexplained_nav w1 = unexplained_nav w"
        using same [of w1 False] by (simp_all add: w1_def handles_def unexplained_nav_def)
      ultimately show ?thesis using trades_shrink_trans by (auto simp: handles_def)
    qed
  qed
qed

lemma process_positions_effect:
  assumes "process_positions c xe ti m rows ps peaks w = (r, w')"
  shows "trades_shrink w w'"
    and "r = Inr out \<Longrightarrow> db_wf (en_db w) \<Longrightarrow> distinct (map trade_id ps) \<Longrightarrow>
      \<forall>p \<in> set ps. \<exists>t. get_trade (trade_id p) (en_db w) = Some t \<and> is_open_trade t \<Longrightarrow> unexplained_nav w' = unexplained_nav w"
  using assms
proof (induction ps arbitrary: peaks w)
  case (Cons pos ps)
  { case 1
    then have "en_bind (process_position c xe ti m rows pos peaks) (process_positions c xe ti m rows ps) w = (r, w')" by simp
    then show ?case
    proof (cases rule: en_bind_cases)
      case (Raise e)
      then show ?thesis using process_position_handles by (fastforce simp: handles_def)
    next
      case (Go x w1)
      then show ?thesis using process_position_handles [OF Go(1)] Cons.IH(1) trades_shrink_trans
        by (fastforce simp: handles_def)
    qed }
  { case 2
    then have b: "en_bind (process_position c xe ti m rows pos peaks) (process_positions c xe ti m rows ps) w = (r, w')" by simp
    obtain x w1 where g: "process_position c xe ti m rows pos peaks w = (Inr x, w1)" "process_positions c xe ti m rows ps x w1 = (r, w')"
      using b 2(1) by (cases rule: en_bind_cases) auto
    note h = process_position_handles [OF g(1), unfolded handles_def]
    have u: "unexplained_nav w1 = unexplained_nav w" using h 2(2,4) by auto
    have wf: "db_wf (en_db w1)" using h 2(2) by (simp add: trades_shrink_def)
    have "\<forall>p \<in> set ps. trade_id p \<noteq> trade_id pos" using 2(3) by (auto simp: image_iff)
    then have "\<forall>p \<in> set ps. \<exists>t. get_trade (trade_id p) (en_db w1) = Some t \<and> is_open_trade t" using h 2(4) by auto
    with Cons.IH(2) [OF 2(1) wf _ _ g(2)] 2(3) u show ?case by simp }
qed simp_all

text \<open>The positions of the open rows: one per open trade, with its id.\<close>

lemma trade_to_position_id: "trade_to_position_state pf now t legs chain = Inr p \<Longrightarrow> trade_id p = t_id t"
  by (auto simp: trade_to_position_state_def Let_def)

lemma positions_of_rows:
  assumes "db_wf db"
    and "map_result (\<lambda>(t, legs). trade_to_position_state pf now t legs chain) (load_open_trades db) = Inr ps"
  shows "distinct (map trade_id ps)" and "\<forall>p \<in> set ps. \<exists>t. get_trade (trade_id p) db = Some t \<and> is_open_trade t"
proof -
  let ?rows = "load_open_trades db"
  have len: "length ps = length ?rows" and ids: "\<forall>k < length ?rows. trade_id (ps ! k) = t_id (fst (?rows ! k))"
    using map_result_InrD [OF assms(2)] trade_to_position_id by (fastforce split: prod.splits)+
  have eq: "map trade_id ps = map (t_id \<circ> fst) ?rows" using len ids by (intro nth_equalityI) simp_all
  have fst: "map fst ?rows = sort_key t_id (open_trades db)" by (simp add: load_open_trades_def comp_def)
  have "distinct (map t_id (open_trades db))"
    using assms(1) by (simp add: db_wf_def open_trades_def distinct_map_filter)
  then have "distinct (map t_id (sort_key t_id (open_trades db)))"
    by (metis distinct_map distinct_sort set_sort)
  then show "distinct (map trade_id ps)" unfolding eq fst [symmetric] by (simp add: comp_def)
  show "\<forall>p \<in> set ps. \<exists>t. get_trade (trade_id p) db = Some t \<and> is_open_trade t"
  proof
    fix p assume "p \<in> set ps"
    then have "trade_id p \<in> set (map trade_id ps)" by simp
    then have "trade_id p \<in> t_id ` set (map fst ?rows)" unfolding eq by auto
    then obtain t where "t \<in> set (open_trades db)" "t_id t = trade_id p" unfolding fst by auto
    then show "\<exists>t. get_trade (trade_id p) db = Some t \<and> is_open_trade t"
      using get_trade_iff [OF assms(1)] by (auto simp: open_trades_def)
  qed
qed

lemma refresh_trades:
  assumes "refresh_all_open_trades pf rows chain m wallet peaks db = (r, db')" and "db_wf db"
  shows "db_wf db'" and "count_open (of_strategy s) db' \<le> count_open (of_strategy s) db"
    and "sum_realised_pnl_inr (tb_trades db') = sum_realised_pnl_inr (tb_trades db)"
    and "map t_id (tb_trades db') = map t_id (tb_trades db)"
proof -
  let ?I = "\<lambda>d. db_wf d \<and> count_open (of_strategy s) d \<le> count_open (of_strategy s) db \<and>
    sum_realised_pnl_inr (tb_trades d) = sum_realised_pnl_inr (tb_trades db) \<and> map t_id (tb_trades d) = map t_id (tb_trades db)"
  have "?I db'"
  proof (rule refresh_all_keeps [where I = ?I, OF _ _ assms(1)])
    fix d t ns tid assume i: "?I d" and g: "get_trade tid d = Some t"
    let ?t = "t\<lparr>t_notes := ns\<rparr>"
    have id: "t_id ?t = tid" using get_trade_SomeD [OF g] by simp
    have "count_open (of_strategy s) (put_trade ?t d) \<le> count_open (of_strategy s) d"
      by (rule count_open_replace [OF _ g id]) (use i in \<open>simp_all add: is_open_trade_def\<close>)
    moreover have "sum_realised_pnl_inr (tb_trades (put_trade ?t d)) = sum_realised_pnl_inr (tb_trades d)"
      using ledger_put [OF _ g id] i by (simp add: closed_value_def)
    ultimately show "?I (put_trade ?t d)" using i by simp
  qed (use assms(2) in simp)
  then show "db_wf db'" "count_open (of_strategy s) db' \<le> count_open (of_strategy s) db"
    "sum_realised_pnl_inr (tb_trades db') = sum_realised_pnl_inr (tb_trades db)"
    "map t_id (tb_trades db') = map t_id (tb_trades db)" by simp_all
qed

lemma manage_phase_effect:
  assumes "manage_phase c xe ti m (load_open_trades (en_db w)) w = (r, w')" and wf: "db_wf (en_db w)"
  shows "trades_shrink w w'" and "r = Inr () \<Longrightarrow> unexplained_nav w' = unexplained_nav w"
proof -
  let ?rows = "load_open_trades (en_db w)"
  define w1 where "w1 = w\<lparr>en_runtimes := filter (\<lambda>p. fst p \<in> set (map (t_id \<circ> fst) ?rows)) (en_runtimes w)\<rparr>"
  have w1: "trades_shrink w w1" "unexplained_nav w1 = unexplained_nav w" "en_db w1 = en_db w"
    by (simp_all add: w1_def trades_shrink_def unexplained_nav_def)
  have "trades_shrink w w' \<and> (r = Inr () \<longrightarrow> unexplained_nav w' = unexplained_nav w)"
  proof (cases "map_result (\<lambda>(t, legs). trade_to_position_state (ec_parse_float c) (ti_now ti) t legs (ti_chain ti)) ?rows")
    case (Inl e)
    with assms(1) have "w' = w1" "r = Inl e" by (simp_all add: manage_phase_def Let_def w1_def)
    with w1 show ?thesis by simp
  next
    case (Inr ps)
    note pos = positions_of_rows [OF wf Inr]
    obtain out w2 where p: "process_positions c xe ti m ?rows ps [] w1 = (out, w2)" by fastforce
    note eff = process_positions_effect [OF p]
    have s2: "trades_shrink w w2" using trades_shrink_trans [OF w1(1) eff(1)] .
    show ?thesis
    proof (cases out)
      case (Inl e)
      with assms(1) Inr p have "w' = w2" "r = Inl e" by (simp_all add: manage_phase_def Let_def w1_def)
      with s2 show ?thesis by simp
    next
      case out: (Inr peaks)
      have u2: "unexplained_nav w2 = unexplained_nav w" using eff(2) [OF out] wf pos w1 by simp
      show ?thesis
      proof (cases "?rows = []")
        case True
        with assms(1) Inr p out have "w' = w2" by (simp add: manage_phase_def Let_def w1_def)
        with s2 u2 show ?thesis by simp
      next
        case False
        obtain q db where q: "refresh_all_open_trades (ec_parse_float c) ?rows (ti_chain ti) m (ti_wallet ti) peaks (en_db w2) = (q, db)"
          by fastforce
        with assms(1) Inr p out False have w': "w' = w2\<lparr>en_db := db\<rparr>"
          by (simp add: manage_phase_def Let_def w1_def split: sum.splits)
        have "db_wf (en_db w2)" using s2 wf by (simp add: trades_shrink_def)
        note rf = refresh_trades [OF q this]
        have "trades_shrink w2 w'" using rf(1,2,4) by (simp add: trades_shrink_def w')
        with trades_shrink_trans [OF s2] u2 rf(3) show ?thesis by (simp add: w' unexplained_nav_def)
      qed
    qed
  qed
  then show "trades_shrink w w'" "r = Inr () \<Longrightarrow> unexplained_nav w' = unexplained_nav w" by blast+
qed

section \<open>Properties: raising intents\<close>

definition limit_of :: "engine_config \<Rightarrow> strategy_id option \<Rightarrow> nat" where
  "limit_of c s =
     nat (case s of None \<Rightarrow> max_total (concurrency (ec_global c)) | Some _ \<Rightarrow> max_per_strategy (concurrency (ec_global c)))"

lemma approved_has_room:
  assumes "gate (risk_of c w) i now acc book qf chain marks rate = Inr sz" and "approved sz"
    and "accounting_snapshot (en_db w) = Inr acc" and "matches_intent s i"
  shows "count_open (of_strategy s) (en_db w) + 1 \<le> limit_of c s"
proof -
  have g: "open_count_total acc < max_total (concurrency (ec_global c))"
    "the_or 0 (dict_get (open_count_by_strategy acc) (in_strategy_id i)) < max_per_strategy (concurrency (ec_global c))"
    using gate_approved [OF assms(1,2)] by (auto simp: risk_of_def)
  show ?thesis
    using g accounting_counts [OF assms(3)] assms(4) by (auto simp: limit_of_def matches_intent_def split: option.splits)
qed

text \<open>The part of the state an intent does not touch.\<close>

definition entry_frame :: "'x engine \<Rightarrow> 'x engine \<Rightarrow> bool" where
  "entry_frame w w' \<longleftrightarrow> en_nav w' = en_nav w \<and> en_nav_rows w' = en_nav_rows w \<and> en_marker w' = en_marker w \<and> en_decisions w' = en_decisions w"

lemma execute_intent_cases:
  assumes "execute_intent c xe ti m i sz w = (r, w')"
  obtains (Fault) e where "r = Inl e" "w' = w"
  | (Entry) "persist_entry_and_execute (ec_parse_float c) xe i sz m (ec_mode c) (the_or (ti_wallet_entry ti i) (ti_wallet ti))
      (Some (quote_for m)) (Some (ti_chain ti)) (maker_limit_timeout_seconds (execution (ec_global c))) w = (r, w')"
  using assms by (auto simp: execute_intent_def split: sum.splits)

lemma execute_intent_effect:
  assumes "execute_intent c xe ti m i sz w = (r, w')" and wf: "db_wf (en_db w)"
  shows "db_wf (en_db w')" and "unexplained_nav w' = unexplained_nav w"
    and "count_open (of_strategy s) (en_db w') \<le> count_open (of_strategy s) (en_db w) + (if matches_intent s i then 1 else 0)"
    and "en_nav w' = en_nav w" "en_registry w' = en_registry w" "en_nav_rows w' = en_nav_rows w" "en_marker w' = en_marker w"
    "en_decisions w' = en_decisions w"
  using assms(1)
  by (cases rule: execute_intent_cases; use persist_entry_effect [OF _ wf] wf in fastforce)+

lemma run_intents_effect:
  assumes "run_intents c xe ti m book acc is records w = (r, w')" and "db_wf (en_db w)"
    and "accounting_snapshot (en_db w) = Inr acc"
  shows "db_wf (en_db w') \<and> unexplained_nav w' = unexplained_nav w \<and> entry_frame w w' \<and>
    count_open (of_strategy s) (en_db w') \<le> max (count_open (of_strategy s) (en_db w)) (limit_of c s) \<and>
    (circuit_breaker_tripped (en_nav w) \<longrightarrow> en_db w' = en_db w) \<and>
    (\<forall>out. r = Inr out \<longrightarrow> length out = length records + length is)"
  using assms
proof (induction "is" arbitrary: acc records w)
  case Nil
  then show ?case by (auto simp: entry_frame_def)
next
  case (Cons i "is")
  let ?gate = "gate (risk_of c w) i (ti_now ti) acc book (Some (quote_for m)) (Some (ti_chain ti)) (Some (ti_marks ti)) (ec_usd_inr c)"
  show ?case
  proof (cases ?gate)
    case (Inl e)
    with Cons.prems show ?thesis by (auto simp: entry_frame_def)
  next
    case (Inr sz)
    show ?thesis
    proof (cases "approved sz")
      case False
      with Cons.prems(1) Inr have "run_intents c xe ti m book acc is (records @ [risk_record i sz]) w = (r, w')" by simp
      from Cons.IH [OF this Cons.prems(2,3)] show ?thesis by simp
    next
      case True
      have ntrip: "\<not> circuit_breaker_tripped (en_nav w)"
        using tripped_gate_closed [OF _ Inr] True by (auto simp: risk_of_def)
      obtain out w1 where p: "execute_intent c xe ti m i sz w = (out, w1)" by fastforce
      note eff = execute_intent_effect [OF p Cons.prems(2)]
      have room: "count_open (of_strategy s) (en_db w1) \<le> max (count_open (of_strategy s) (en_db w)) (limit_of c s)"
        using eff(3) [of s] approved_has_room [OF Inr True Cons.prems(3), of s] by (auto split: if_splits)
      have fr: "entry_frame w w1" using eff by (simp add: entry_frame_def)
      show ?thesis
      proof (cases out)
        case (Inl e)
        with Cons.prems(1) \<open>?gate = Inr sz\<close> True p have "w' = w1" "r = Inl e" by (auto simp: Let_def)
        with eff room fr ntrip show ?thesis by simp
      next
        case out: (Inr opened)
        define w2 where "w2 = (if opened then w1
          else w1\<lparr>en_registry := apply_directional_entry_failure_cooldown (en_registry w1) i (ti_now ti)\<rparr>)"
        have w2: "en_db w2 = en_db w1" "en_nav w2 = en_nav w1" "entry_frame w1 w2" by (simp_all add: w2_def entry_frame_def)
        show ?thesis
        proof (cases "accounting_snapshot (en_db w2)")
          case (Inl e)
          with Cons.prems(1) \<open>?gate = Inr sz\<close> True p out have "w' = w2" "r = Inl e" by (auto simp: Let_def w2_def)
          with eff room fr ntrip w2 show ?thesis by (simp add: unexplained_nav_def entry_frame_def)
        next
          case acc2: (Inr acc2)
          with Cons.prems(1) Inr True p out
          have run: "run_intents c xe ti m book acc2 is (records @ [risk_record i sz]) w2 = (r, w')"
            by (simp add: Let_def w2_def)
          have "db_wf (en_db w2)" using eff(1) w2(1) by simp
          from Cons.IH [OF run this acc2] eff(2) room fr ntrip w2 show ?thesis
            by (auto simp: unexplained_nav_def entry_frame_def)
        qed
      qed
    qed
  qed
qed

lemma entry_phase_effect:
  assumes "entry_phase c xe ti m rows w = (r, w')" and "db_wf (en_db w)"
  shows "db_wf (en_db w') \<and> unexplained_nav w' = unexplained_nav w \<and> entry_frame w w' \<and>
    count_open (of_strategy s) (en_db w') \<le> max (count_open (of_strategy s) (en_db w)) (limit_of c s) \<and>
    (circuit_breaker_tripped (en_nav w) \<longrightarrow> en_db w' = en_db w)"
proof -
  obtain disp reg where e: "evaluate_all (en_registry w) m None = (disp, reg)" by fastforce
  define w1 where "w1 = w\<lparr>en_registry := reg\<rparr>"
  have w1: "en_db w1 = en_db w" "en_nav w1 = en_nav w" "entry_frame w w1" "unexplained_nav w1 = unexplained_nav w"
    by (simp_all add: w1_def entry_frame_def unexplained_nav_def)
  show ?thesis
  proof (cases "accounting_snapshot (en_db w1)")
    case (Inl err)
    with assms(1) e have "w' = w1" by (simp add: entry_phase_def w1_def)
    with w1 assms(2) show ?thesis by simp
  next
    case (Inr acc)
    with assms(1) e have "run_intents c xe ti m (portfolio_book c ti rows (quote_for m)) acc (all_intents disp) (all_decisions disp) w1 = (r, w')"
      by (simp add: entry_phase_def w1_def)
    from run_intents_effect [OF this _ Inr, of s] assms(2) w1 show ?thesis by (simp add: entry_frame_def)
  qed
qed

lemma finish_phase_effect:
  assumes "finish_phase c ti records w = (r, w')"
  shows "en_db w' = en_db w" and "nav_now (en_nav w') = nav_now (en_nav w)"
    and "circuit_breaker_tripped (en_nav w) \<Longrightarrow> circuit_breaker_tripped (en_nav w')"
    and "peak_nav (en_nav w) \<le> peak_nav (en_nav w')"
    and "r = Inr () \<Longrightarrow> nav_now (en_nav w') \<le> peak_nav (en_nav w')"
proof -
  have "en_db w' = en_db w \<and> nav_now (en_nav w') = nav_now (en_nav w) \<and>
    (circuit_breaker_tripped (en_nav w) \<longrightarrow> circuit_breaker_tripped (en_nav w')) \<and> peak_nav (en_nav w) \<le> peak_nav (en_nav w') \<and>
    (r = Inr () \<longrightarrow> nav_now (en_nav w') \<le> peak_nav (en_nav w'))"
  proof (cases "sync_circuit_breaker_from_risk (en_nav_rows w) (risk_of c w) (ti_now ti) (en_marker w)")
    case (Inl e)
    with assms show ?thesis by (auto simp: finish_phase_def)
  next
    case (Inr q)
    obtain rows n marker where q: "q = (rows, n, marker)" by (cases q)
    have n: "nav_now n = nav_now (en_nav w)" "peak_nav n = peak_nav (en_nav w)"
      "circuit_breaker_tripped (en_nav w) \<longrightarrow> circuit_breaker_tripped n"
      using sync_cases [OF Inr [unfolded q]] by (auto simp: risk_of_def)
    then show ?thesis using assms Inr q
      by (cases "write_decisions (ti_log_clock ti) (ti_log_fault ti) 500 records (en_decisions w)")
        (auto simp: finish_phase_def Let_def split: sum.splits)
  qed
  then show "en_db w' = en_db w" "nav_now (en_nav w') = nav_now (en_nav w)"
    "circuit_breaker_tripped (en_nav w) \<Longrightarrow> circuit_breaker_tripped (en_nav w')" "peak_nav (en_nav w) \<le> peak_nav (en_nav w')"
    "r = Inr () \<Longrightarrow> nav_now (en_nav w') \<le> peak_nav (en_nav w')" by blast+
qed

section \<open>Properties of a round\<close>

lemma roll_phase_frame [simp]:
  "en_db (roll_phase ti w) = en_db w" "nav_now (en_nav (roll_phase ti w)) = nav_now (en_nav w)"
  "peak_nav (en_nav (roll_phase ti w)) = peak_nav (en_nav w)"
  "circuit_breaker_tripped (en_nav (roll_phase ti w)) = circuit_breaker_tripped (en_nav w)"
  using roll_nav [of "en_nav w" "ti_now ti" "en_ist_date w"]
  by (cases "maybe_roll_ist_trading_day (en_nav w) (ti_now ti) (en_ist_date w)"; simp add: roll_phase_def)+

lemma tick_cases:
  assumes "tick c xe ti w = (r, w')"
  obtains (Fault) e where "r = Inl e" "w' = roll_phase ti w" | (Phases) "round_phases c xe ti (roll_phase ti w) = (r, w')"
proof (cases "wallet_request (ti_wallet_fault ti)")
  case (Inl e)
  with assms show thesis by (intro Fault [of e]) (simp_all add: tick_def)
next
  case (Inr u)
  with assms show thesis by (intro Phases) (simp add: tick_def)
qed

lemma tick_effect:
  assumes "tick c xe ti w = (r, w')" and wf: "db_wf (en_db w)"
  shows "db_wf (en_db w')"
    and "count_open (of_strategy s) (en_db w') \<le> max (count_open (of_strategy s) (en_db w)) (limit_of c s)"
    and "r = Inr () \<Longrightarrow> unexplained_nav w' = unexplained_nav w"
    and "circuit_breaker_tripped (en_nav w) \<Longrightarrow> circuit_breaker_tripped (en_nav w') \<and> map t_id (tb_trades (en_db w')) = map t_id (tb_trades (en_db w))"
    and "peak_nav (en_nav w) \<le> peak_nav (en_nav w')"
    and "r = Inr () \<Longrightarrow> nav_now (en_nav w') \<le> peak_nav (en_nav w')"
proof -
  define w0 where "w0 = roll_phase ti w"
  define rows where "rows = load_open_trades (en_db w0)"
  define m where "m = market_of c ti (quotes_for (ti_chain ti) rows)"
  have w0: "en_db w0 = en_db w" "unexplained_nav w0 = unexplained_nav w" "peak_nav (en_nav w0) = peak_nav (en_nav w)"
    "circuit_breaker_tripped (en_nav w0) = circuit_breaker_tripped (en_nav w)" by (simp_all add: w0_def unexplained_nav_def)
  consider (Fault) e where "r = Inl e" "w' = w0"
    | (Phases) "en_bind (manage_phase c xe ti m rows) (\<lambda>_. en_bind (entry_phase c xe ti m rows) (finish_phase c ti)) w0 = (r, w')"
    using tick_cases [OF assms(1)] by (metis w0_def rows_def m_def round_phases_def Let_def)
  then have "db_wf (en_db w') \<and> count_open (of_strategy s) (en_db w') \<le> max (count_open (of_strategy s) (en_db w)) (limit_of c s) \<and>
    (r = Inr () \<longrightarrow> unexplained_nav w' = unexplained_nav w) \<and>
    (circuit_breaker_tripped (en_nav w) \<longrightarrow> circuit_breaker_tripped (en_nav w') \<and> map t_id (tb_trades (en_db w')) = map t_id (tb_trades (en_db w))) \<and>
    peak_nav (en_nav w) \<le> peak_nav (en_nav w') \<and> (r = Inr () \<longrightarrow> nav_now (en_nav w') \<le> peak_nav (en_nav w'))"
  proof cases
    case Fault
    with w0 wf show ?thesis by simp
  next
    case Phases
    then show ?thesis
    proof (cases rule: en_bind_cases)
      case (Raise e)
      from manage_phase_effect(1) [OF Raise(1) [unfolded rows_def]] wf w0 Raise(2) show ?thesis
        by (auto simp: trades_shrink_def le_max_iff_disj)
    next
      case (Go u w1)
      have sh: "trades_shrink w0 w1" and u1: "unexplained_nav w1 = unexplained_nav w"
        using manage_phase_effect [OF Go(1) [unfolded rows_def]] wf w0 by simp_all
      have wf1: "db_wf (en_db w1)" and c1: "count_open (of_strategy s) (en_db w1) \<le> count_open (of_strategy s) (en_db w)"
        using sh wf w0 by (simp_all add: trades_shrink_def)
      have n1: "circuit_breaker_tripped (en_nav w1) = circuit_breaker_tripped (en_nav w)" "peak_nav (en_nav w1) = peak_nav (en_nav w)"
        "map t_id (tb_trades (en_db w1)) = map t_id (tb_trades (en_db w))" using sh w0 by (simp_all add: trades_shrink_def)
      from Go(2) show ?thesis
      proof (cases rule: en_bind_cases)
        case (Raise e)
        from entry_phase_effect [OF Raise(1) wf1, of s] Raise(2) c1 n1 show ?thesis by (auto simp: entry_frame_def)
      next
        case g: (Go recs w2)
        note ep = entry_phase_effect [OF g(1) wf1, of s]
        note fin = finish_phase_effect [OF g(2)]
        from ep fin c1 n1 u1 show ?thesis by (auto simp: entry_frame_def unexplained_nav_def)
      qed
    qed
  qed
  then show "db_wf (en_db w')" "count_open (of_strategy s) (en_db w') \<le> max (count_open (of_strategy s) (en_db w)) (limit_of c s)"
    "r = Inr () \<Longrightarrow> unexplained_nav w' = unexplained_nav w"
    "circuit_breaker_tripped (en_nav w) \<Longrightarrow> circuit_breaker_tripped (en_nav w') \<and> map t_id (tb_trades (en_db w')) = map t_id (tb_trades (en_db w))"
    "peak_nav (en_nav w) \<le> peak_nav (en_nav w')" "r = Inr () \<Longrightarrow> nav_now (en_nav w') \<le> peak_nav (en_nav w')" by blast+
qed

section \<open>Runs of the engine\<close>

text \<open>Rounds that completed, one after the other, on any inputs.\<close>

inductive engine_run :: "engine_config \<Rightarrow> 'x executor \<Rightarrow> 'x engine \<Rightarrow> 'x engine \<Rightarrow> bool" for c xe where
  start: "engine_run c xe w w"
| round: "engine_run c xe w w1 \<Longrightarrow> tick c xe ti w1 = (Inr (), w2) \<Longrightarrow> engine_run c xe w w2"

lemma engine_run_effect:
  assumes "engine_run c xe w w'" and "db_wf (en_db w)"
  shows "db_wf (en_db w') \<and> unexplained_nav w' = unexplained_nav w \<and> peak_nav (en_nav w) \<le> peak_nav (en_nav w') \<and>
    count_open (of_strategy s) (en_db w') \<le> max (count_open (of_strategy s) (en_db w)) (limit_of c s) \<and>
    (circuit_breaker_tripped (en_nav w) \<longrightarrow> circuit_breaker_tripped (en_nav w') \<and> map t_id (tb_trades (en_db w')) = map t_id (tb_trades (en_db w)))"
  using assms
proof (induction rule: engine_run.induct)
  case (round w w1 ti w2)
  note ih = round.IH [OF round.prems]
  then have wf: "db_wf (en_db w1)" by simp
  from tick_effect(2) [OF round.hyps(2) wf, of s] tick_effect(1,3-5) [OF round.hyps(2) wf] ih show ?case by auto
qed simp

section \<open>Claims\<close>

text \<open>
  Whatever the executor and the market do, the rounds of the engine never raise the number of open trades
  above the global limit, nor that of a strategy above the limit per strategy: a count that starts within its
  limit stays within it, also through a round that ends in an exception.
\<close>

theorem engine_respects_limits:
  assumes "engine_run c xe w w1" and "db_wf (en_db w)" and "tick c xe ti w1 = (r, w')"
  shows "db_wf (en_db w') \<and> count_open (of_strategy s) (en_db w') \<le> max (count_open (of_strategy s) (en_db w)) (limit_of c s)"
proof -
  note run = engine_run_effect [OF assms(1,2), of s]
  then have wf: "db_wf (en_db w1)" by simp
  with tick_effect(1) [OF assms(3)] tick_effect(2) [OF assms(3) wf, of s] run show ?thesis by auto
qed

text \<open>
  When the NAV is the base NAV plus the realised profits of the stored trades, it is so after any number of
  completed rounds, and the tracker a restart rebuilds from the tables carries the same NAV.
\<close>

theorem nav_survives_restart:
  assumes "engine_run c xe w w'" and "db_wf (en_db w)"
    and "nav_now (en_nav w) = base_nav + sum_realised_pnl_inr (tb_trades (en_db w))"
  shows "nav_now (load_nav_tracker (tb_trades (en_db w')) rows base_nav later) = nav_now (en_nav w')"
proof -
  have "unexplained_nav w' = base_nav" using engine_run_effect [OF assms(1,2)] assms(3) by (simp add: unexplained_nav_def)
  then show ?thesis by (simp add: unexplained_nav_def load_nav_tracker_def Let_def)
qed

text \<open>
  With the circuit breaker tripped, the rounds of the engine open no trade at all and leave the breaker
  tripped, while they go on managing and closing the open ones.
\<close>

theorem halted_engine_opens_nothing:
  assumes "engine_run c xe w w1" and "db_wf (en_db w)" and "circuit_breaker_tripped (en_nav w)" and "tick c xe ti w1 = (r, w')"
  shows "circuit_breaker_tripped (en_nav w') \<and> map t_id (tb_trades (en_db w')) = map t_id (tb_trades (en_db w))"
proof -
  note run = engine_run_effect [OF assms(1,2)]
  then have wf: "db_wf (en_db w1)" by simp
  from tick_effect(4) [OF assms(4) wf] run assms(3) show ?thesis by simp
qed

text \<open>A sample engine: the simulated executor, one closed and one open trade, no strategy registered.\<close>

definition sample_trade :: "int \<Rightarrow> trade_status \<Rightarrow> flt option \<Rightarrow> trade_row" where
  "sample_trade tid st pnl =
     \<lparr>t_id = tid, t_strategy_id = ''directional'', t_underlying = ''BTC'', t_expiry = Some day_us, t_entry_ts = 0,
      t_exit_ts = None, t_status = trade_status_value st, t_mode = ''dry'', t_lots = 1, premium_paid_inr = Some 50,
      credit_received_inr = None, realised_pnl_inr = pnl, delta_pnl_inr = None, theta_pnl_inr = None, t_fees_inr = None,
      slippage_bps = None, r_multiple = None, exit_reason = None, entry_iv = None, exit_iv = None, t_peak_pnl_inr = None,
      trough_pnl_inr = None, t_signal_id = None, t_notes = None\<rparr>"

definition sample_engine :: "trade_row list \<Rightarrow> (dry_executor \<times> nat) engine" where
  "sample_engine trades =
     \<lparr>en_db = \<lparr>tb_signals = [], tb_trades = trades, tb_legs = [], tb_orders = []\<rparr>,
      en_exec = (DryExecutor sample_chain 50 50 50, 0), en_nav = sample_nav\<lparr>nav_now := 50500, peak_nav := 50500\<rparr>, en_registry = [],
      en_runtimes = [], en_nav_rows = [], en_marker = False, en_ist_date = None, en_decisions = []\<rparr>"

definition sample_config :: engine_config where
  "sample_config = \<lparr>ec_global = GlobalConfig, ec_strategies = [], ec_is_live = False, ec_mode = ''dry'', ec_usd_inr = 85,
     ec_parse_float = (\<lambda>_. None)\<rparr>"

definition sample_input :: tick_input where
  "sample_input = \<lparr>ti_now = 5 * hour_us, ti_chain = sample_chain, ti_candles = [], ti_marks = [(BTC, 220)],
     ti_iv_store = mk_iv_history_store, ti_iv_table = [], ti_wallet = None, ti_wallet_exit = (\<lambda>_. VNone),
     ti_wallet_entry = (\<lambda>_. VNone), ti_clock = (\<lambda>_. 5 * hour_us), ti_epoch = 0, ti_log_clock = (\<lambda>_. 5 * hour_us),
     ti_wallet_fault = None, ti_wallet_exit_fault = (\<lambda>_. None), ti_wallet_entry_fault = (\<lambda>_. None), ti_log_fault = (\<lambda>_. None)\<rparr>"

definition sample_router :: "(dry_executor \<times> nat) executor" where
  "sample_router = dry_router (\<lambda>s. s) (\<lambda>_ _. 1 / 2) (\<lambda>_ _. ''s'') (\<lambda>_. 5 * hour_us)"

lemma sample_tick:
  "tick sample_config sample_router sample_input (sample_engine [sample_trade 1 TRADE_CLOSED (Some 500)]) =
     (Inr (), (sample_engine [sample_trade 1 TRADE_CLOSED (Some 500)])\<lparr>en_ist_date := Some 0\<rparr>)"
  by (simp add: sample_engine_def sample_trade_def tick_def round_phases_def wallet_request_def roll_phase_def maybe_roll_ist_trading_day_def load_open_trades_def open_trades_def
      is_open_trade_def manage_phase_def entry_phase_def evaluate_all_def registry_enabled_def dict_values_def DispatchResult_def
      accounting_snapshot_def all_intents_def all_decisions_def finish_phase_def sync_circuit_breaker_from_risk_def risk_of_def
      sample_config_def sample_nav_def evaluate_caps_def rm_caps_def GlobalConfig_def RiskCapsConfig_def caps_defs en_bind_def
      write_decisions_def sample_input_def utc_to_ist_def IST_def date_of_def time_defs Let_def)

definition sample_busy_engine :: "(dry_executor \<times> nat) engine" where
  "sample_busy_engine = (sample_engine [sample_trade 1 TRADE_CLOSED (Some 500), sample_trade 2 TRADE_OPEN None])
     \<lparr>en_registry := [(DIRECTIONAL, mk_strategy (DirectionalConfig sample_directional))]\<rparr>"

lemma sample_busy:
  "db_wf (en_db sample_busy_engine)" "map t_id (tb_trades (en_db sample_busy_engine)) = [1, 2]"
  "count_open (of_strategy s) (en_db sample_busy_engine) \<le> 1"
  by (simp_all add: sample_busy_engine_def sample_engine_def sample_trade_def db_wf_def count_open_def open_trades_def is_open_trade_def)

theorem engine_respects_limits_witness:
  "\<exists>r w'. tick (sample_config\<lparr>ec_strategies := [(DIRECTIONAL, DirectionalConfig sample_directional)]\<rparr>) sample_router sample_input
       sample_busy_engine = (r, w') \<and>
     count_open (of_strategy None) (en_db w') \<le> 3 \<and> count_open (of_strategy (Some DIRECTIONAL)) (en_db w') \<le> 1"
proof -
  let ?c = "sample_config\<lparr>ec_strategies := [(DIRECTIONAL, DirectionalConfig sample_directional)]\<rparr>"
  obtain r w' where t: "tick ?c sample_router sample_input sample_busy_engine = (r, w')" by fastforce
  note lim = engine_respects_limits [OF engine_run.start sample_busy(1) t]
  have "limit_of ?c None \<le> 3" "limit_of ?c (Some DIRECTIONAL) \<le> 1"
    by (simp_all add: limit_of_def sample_config_def GlobalConfig_def ConcurrencyConfig_def)
  with lim [of None] lim [of "Some DIRECTIONAL"] sample_busy(3) [of None] sample_busy(3) [of "Some DIRECTIONAL"]
  have "count_open (of_strategy None) (en_db w') \<le> 3 \<and> count_open (of_strategy (Some DIRECTIONAL)) (en_db w') \<le> 1" by linarith
  with t show ?thesis by blast
qed

theorem nav_survives_restart_witness:
  "\<exists>w'. tick sample_config sample_router sample_input (sample_engine [sample_trade 1 TRADE_CLOSED (Some 500)]) = (Inr (), w') \<and>
     nav_now (load_nav_tracker (tb_trades (en_db w')) [] 50000 day_us) = nav_now (en_nav w')"
proof -
  let ?w = "sample_engine [sample_trade 1 TRADE_CLOSED (Some 500)]"
  have "engine_run sample_config sample_router ?w (?w\<lparr>en_ist_date := Some 0\<rparr>)"
    by (rule engine_run.round [OF engine_run.start sample_tick])
  moreover have "db_wf (en_db ?w)" by (simp add: sample_engine_def sample_trade_def db_wf_def)
  moreover have "nav_now (en_nav ?w) = 50000 + sum_realised_pnl_inr (tb_trades (en_db ?w))"
    by (simp add: sample_engine_def sample_trade_def sum_realised_pnl_inr_def List.map_filter_simps)
  ultimately show ?thesis using sample_tick nav_survives_restart by blast
qed

theorem halted_engine_opens_nothing_witness:
  "\<exists>r w'. tick (sample_config\<lparr>ec_strategies := [(DIRECTIONAL, DirectionalConfig sample_directional)]\<rparr>) sample_router sample_input
       (sample_busy_engine\<lparr>en_nav := sample_nav\<lparr>circuit_breaker_tripped := True\<rparr>\<rparr>) = (r, w') \<and>
     circuit_breaker_tripped (en_nav w') \<and> map t_id (tb_trades (en_db w')) = [1, 2]"
proof -
  let ?c = "sample_config\<lparr>ec_strategies := [(DIRECTIONAL, DirectionalConfig sample_directional)]\<rparr>"
  let ?w = "sample_busy_engine\<lparr>en_nav := sample_nav\<lparr>circuit_breaker_tripped := True\<rparr>\<rparr>"
  obtain r w' where t: "tick ?c sample_router sample_input ?w = (r, w')" by fastforce
  have "db_wf (en_db ?w)" "circuit_breaker_tripped (en_nav ?w)" using sample_busy(1) by simp_all
  from halted_engine_opens_nothing [OF engine_run.start this t] sample_busy(2) t show ?thesis by auto
qed

end
