(* ===== verification/Lifecycle.thy ===== *)
theory Lifecycle
  imports Tick
begin

text \<open>
  The abstract ledger of the bot and the refinement of it by the engine.  Abstractly a trade is live, failed, or
  done with the profit that was booked; a trade is opened once, and a live trade fails or is closed once.  The
  stored rows carry a status text and many columns that every tick rewrites; this theory shows that whatever a
  tick does to the rows, on every path and with every exception, is a sequence of abstract steps.
\<close>

section \<open>The abstract ledger\<close>

datatype life = Live | Failed | Done "flt option"

inductive ledger_step :: "(int \<rightharpoonup> life) \<Rightarrow> (int \<rightharpoonup> life) \<Rightarrow> bool" where
  opens: "A tid = None \<Longrightarrow> ledger_step A (A(tid \<mapsto> Live))"
| fails: "A tid = Some Live \<Longrightarrow> ledger_step A (A(tid \<mapsto> Failed))"
| closes: "A tid = Some Live \<Longrightarrow> ledger_step A (A(tid \<mapsto> Done (Some pnl)))"

abbreviation ledger_run where "ledger_run \<equiv> ledger_step\<^sup>*\<^sup>*"

inductive_cases ledger_stepE: "ledger_step A B"

text \<open>What the abstract ledger promises: a trade that is over stays as it ended.\<close>

lemma ledger_step_final:
  "ledger_step A B \<Longrightarrow> A tid = Some s \<Longrightarrow> s \<noteq> Live \<Longrightarrow> B tid = Some s"
  by (erule ledger_stepE) auto

lemma ledger_step_known: "ledger_step A B \<Longrightarrow> A tid \<noteq> None \<Longrightarrow> B tid \<noteq> None"
  by (erule ledger_stepE) auto

lemma ledger_run_final: "ledger_run A B \<Longrightarrow> A tid = Some s \<Longrightarrow> s \<noteq> Live \<Longrightarrow> B tid = Some s"
  by (induction rule: rtranclp_induct) (auto dest: ledger_step_final)

lemma ledger_run_known: "ledger_run A B \<Longrightarrow> A tid \<noteq> None \<Longrightarrow> B tid \<noteq> None"
  by (induction rule: rtranclp_induct) (auto dest: ledger_step_known)

section \<open>The abstraction\<close>

definition life_of_row :: "trade_row \<Rightarrow> life option" where
  "life_of_row t =
     (if t_status t = trade_status_value TRADE_OPEN then Some Live
      else if t_status t = trade_status_value TRADE_CLOSED then Some (Done (realised_pnl_inr t))
      else if t_status t = trade_status_value TRADE_ERRORED then Some Failed else None)"

definition life :: "database \<Rightarrow> int \<Rightarrow> life option" where
  "life db tid = Option.bind (get_trade tid db) life_of_row"

text \<open>Every stored status is the value of a member of the enumeration.\<close>

definition typed_trades :: "database \<Rightarrow> bool" where
  "typed_trades db \<longleftrightarrow> (\<forall>t \<in> set (tb_trades db). \<exists>s. t_status t = trade_status_value s)"

lemma typed_row: "(\<exists>s. t_status t = trade_status_value s) \<longleftrightarrow> life_of_row t \<noteq> None"
proof
  assume "\<exists>s. t_status t = trade_status_value s"
  then obtain s where "t_status t = trade_status_value s" by blast
  then show "life_of_row t \<noteq> None" by (cases s) (simp_all add: life_of_row_def)
qed (auto simp: life_of_row_def simp del: trade_status_value.simps split: if_splits)

definition evolves :: "database \<Rightarrow> database \<Rightarrow> bool" where
  "evolves db db' \<longleftrightarrow>
     (db_wf db \<longrightarrow> typed_trades db \<longrightarrow> db_wf db' \<and> typed_trades db' \<and> ledger_run (life db) (life db'))"

lemma evolves_refl [simp, intro]: "evolves db db"
  by (simp add: evolves_def)

lemma evolves_trans [trans]: "evolves a b \<Longrightarrow> evolves b c \<Longrightarrow> evolves a c"
  by (auto simp: evolves_def)

lemma life_cong: "tb_trades db' = tb_trades db \<Longrightarrow> life db' = life db"
  by (simp add: life_def fun_eq_iff get_trade_cong [of db' db])

lemma evolves_cong:
  assumes "evolves db db'" and "tb_trades db'' = tb_trades db'" and "db_wf db' \<Longrightarrow> db_wf db''"
  shows "evolves db db''"
  using assms life_cong [OF assms(2)] by (simp add: evolves_def typed_trades_def)

lemma life_put:
  assumes "get_trade tid db = Some t" and "t_id t' = tid"
  shows "life (put_trade t' db) = (life db)(tid := life_of_row t')"
  using assms by (auto simp: life_def get_trade_put fun_eq_iff)

lemma typed_put: "typed_trades db \<Longrightarrow> life_of_row t' \<noteq> None \<Longrightarrow> typed_trades (put_trade t' db)"
  by (auto simp: typed_trades_def typed_row put_trade_def)

text \<open>The three writes of a trade row: the same life, the end of a live trade, a new trade.\<close>

lemma evolves_same:
  assumes "get_trade tid db = Some t" and "t_id t' = tid" and "life_of_row t' = life_of_row t"
  shows "evolves db (put_trade t' db)"
proof -
  have "life_of_row t \<noteq> None" if "typed_trades db"
    using that get_trade_SomeD [OF assms(1)] by (auto simp: typed_trades_def typed_row)
  moreover have "life (put_trade t' db) = life db"
    using life_put [OF assms(1,2)] assms(1,3) by (auto simp: life_def fun_eq_iff)
  ultimately show ?thesis using typed_put assms(3) by (simp add: evolves_def)
qed

lemma evolves_end:
  assumes "get_trade tid db = Some t" and "t_id t' = tid" and "is_open_trade t"
    and "life_of_row t' = Some Failed \<or> (\<exists>pnl. life_of_row t' = Some (Done (Some pnl)))"
  shows "evolves db (put_trade t' db)"
proof -
  have "life db tid = Some Live" using assms(1,3) by (simp add: life_def life_of_row_def is_open_trade_def)
  then have "ledger_step (life db) (life (put_trade t' db))"
    using assms(4) life_put [OF assms(1,2)] ledger_step.intros by auto
  then show ?thesis using typed_put assms(4) by (auto simp: evolves_def)
qed

lemma get_trade_append:
  "tb_trades db' = tb_trades db @ [t] \<Longrightarrow> t_id t \<notin> t_id ` set (tb_trades db) \<Longrightarrow>
   get_trade tid db' = (if tid = t_id t then Some t else get_trade tid db)"
proof -
  assume a: "tb_trades db' = tb_trades db @ [t]" and f: "t_id t \<notin> t_id ` set (tb_trades db)"
  have "List.find P (xs @ [t]) = (case List.find P xs of Some x \<Rightarrow> Some x | None \<Rightarrow> if P t then Some t else None)" for P xs
    by (induction xs) auto
  moreover have "List.find (\<lambda>s. t_id s = t_id t) (tb_trades db) = None" using f by (auto simp: find_None_iff image_iff)
  ultimately show ?thesis using a by (auto simp: get_trade_def split: option.split)
qed

lemma evolves_open:
  assumes "tb_trades db' = tb_trades db @ [t]" and "t_id t \<notin> t_id ` set (tb_trades db)" and "is_open_trade t"
    and "db_wf db \<Longrightarrow> db_wf db'"
  shows "evolves db db'" and "get_trade (t_id t) db' = Some t"
proof -
  note get = get_trade_append [OF assms(1,2)]
  show "get_trade (t_id t) db' = Some t" by (simp add: get)
  have l: "life_of_row t = Some Live" using assms(3) by (simp add: life_of_row_def is_open_trade_def)
  have "get_trade (t_id t) db = None" using assms(2) by (auto simp: get_trade_def find_None_iff image_iff)
  then have "life db (t_id t) = None" by (simp add: life_def)
  moreover have "life db' = (life db)(t_id t \<mapsto> Live)" using l by (auto simp: life_def get fun_eq_iff)
  ultimately have "ledger_step (life db) (life db')" using ledger_step.opens by simp
  moreover have "typed_trades db \<Longrightarrow> typed_trades db'" using l by (auto simp: typed_trades_def assms(1) typed_row)
  ultimately show "evolves db db'" using assms(4) by (auto simp: evolves_def)
qed

section \<open>The operations of the engine\<close>

lemma persist_exit_evolves:
  assumes "persist_exit pf xe now trade legs trigger wallet ind qf chain w = (r, w')"
    and "\<exists>t. get_trade (t_id trade) (en_db w) = Some t \<and> is_open_trade t"
  shows "evolves (en_db w) (en_db w')"
  using assms(1)
proof (cases rule: persist_exit_outcomes)
  case (Stored req res x db')
  obtain t where t: "get_trade (t_id trade) (en_db w) = Some t" "is_open_trade t" using assms(2) by blast
  from record_exit_cases [OF Stored(5)] t obtain t' where
    t': "t_id t' = t_id t" "t_status t' = trade_status_value TRADE_CLOSED" "realised_pnl_inr t' = Some (exit_pnl trade res)"
      "tb_trades db' = tb_trades (put_trade t' (en_db w))" "db_wf (en_db w) \<longrightarrow> db_wf db'" by auto
  have "t_id t' = t_id trade" using t'(1) get_trade_SomeD [OF t(1)] by simp
  from evolves_end [OF t(1) this t(2)] t'(2,3) have e: "evolves (en_db w) (put_trade t' (en_db w))" by (simp add: life_of_row_def)
  have "db_wf db'" if "db_wf (put_trade t' (en_db w))" using t'(5) that by (simp add: db_wf_def)
  from evolves_cong [OF e t'(4) this] Stored(6) show ?thesis by simp
qed simp_all

lemma persist_entry_evolves:
  assumes "persist_entry_and_execute pf xe i sz m mode wallet qf chain timeout w = (r, w')"
  shows "evolves (en_db w) (en_db w')"
proof -
  from persist_entry_db [OF assms] consider (Same) "w' = w" | (Db) tid db1 x db where
    "open_trade_rows pf i sz m mode wallet (en_db w) = Inr (tid, db1)" "w' = w\<lparr>en_db := db, en_exec := x\<rparr>"
    "db = db1 \<or> (\<exists>res. db = mark_errored tid res db1) \<or> (\<exists>res opened. record_entry i sz (mk_now m) qf chain tid res db1 = Inr (opened, db))"
    by blast
  then show ?thesis
  proof cases
    case Db
    from open_trade_rows_InrD(1) [OF Db(1)] obtain t where t: "tb_trades db1 = tb_trades (en_db w) @ [t]" "t_id t = tid"
      "tid \<notin> t_id ` set (tb_trades (en_db w))" "is_open_trade t" by blast
    have o: "evolves (en_db w) db1" "get_trade tid db1 = Some t"
      using evolves_open [of db1 "en_db w" t] t open_trade_rows_InrD(3) [OF Db(1)] by auto
    have "evolves db1 db"
      using Db(3)
    proof (elim disjE exE)
      fix res assume "db = mark_errored tid res db1"
      moreover from mark_errored_cases [of tid db1 res] o(2) obtain t' where "t_id t' = t_id t"
        "t_status t' = trade_status_value TRADE_ERRORED" "mark_errored tid res db1 = put_trade t' db1" by auto
      ultimately show ?thesis using evolves_end [OF o(2), of t'] t(2,4) by (simp add: life_of_row_def)
    next
      fix res opened assume "record_entry i sz (mk_now m) qf chain tid res db1 = Inr (opened, db)"
      from record_entry_cases [OF this] o(2) obtain t' where t': "t' = filled_trade i sz qf chain (er_fills res) t"
        "tb_trades db = tb_trades (put_trade t' db1)" "db_wf db1 \<longrightarrow> db_wf db" by auto
      have e: "evolves db1 (put_trade t' db1)"
        by (rule evolves_same [OF o(2)]) (simp_all add: t'(1) t(2) filled_trade_fields life_of_row_def)
      have "db_wf db" if "db_wf (put_trade t' db1)" using t'(3) that by (simp add: db_wf_def)
      from evolves_cong [OF e t'(2) this] show ?thesis by simp
    qed simp
    with o(1) Db(2) show ?thesis using evolves_trans by auto
  qed simp
qed

lemma persist_trail_evolves:
  assumes "persist_trail_stop xe epoch now trade legs new_stop ns wallet w = (r, w')"
  shows "evolves (en_db w) (en_db w')"
proof (cases legs)
  case Nil
  with assms show ?thesis by (simp add: persist_trail_stop_def)
next
  case (Cons leg rest)
  with assms have "en_db w' = en_db w \<or> (\<exists>t ms. get_trade (t_id trade) (en_db w) = Some t \<and> en_db w' = put_trade (t\<lparr>t_notes := ms\<rparr>) (en_db w))"
    by (auto simp: persist_trail_stop_def Let_def split: prod.splits sum.splits option.splits)
  then show ?thesis
  proof (elim disjE exE conjE)
    fix t ms assume t: "get_trade (t_id trade) (en_db w) = Some t" and e: "en_db w' = put_trade (t\<lparr>t_notes := ms\<rparr>) (en_db w)"
    have "evolves (en_db w) (put_trade (t\<lparr>t_notes := ms\<rparr>) (en_db w))"
      by (rule evolves_same [OF t]) (use get_trade_SomeD [OF t] in \<open>simp_all add: life_of_row_def\<close>)
    with e show ?thesis by simp
  qed simp
qed

lemma handle_directive_evolves:
  assumes "handle_directive c xe ti m trade legs d w = (r, w')"
    and "\<exists>t. get_trade (t_id trade) (en_db w) = Some t \<and> is_open_trade t"
  shows "evolves (en_db w) (en_db w')"
proof -
  consider (Close) trigger where "ed_kind d = EXIT_CLOSE" "ed_trigger d = Some trigger"
    | (Stop) x where "ed_kind d = EXIT_UPDATE_STOP" "ed_new_stop_price d = Some x"
    | (Other) "handle_directive c xe ti m trade legs d w = (Inr (), w)"
    by (cases "ed_kind d"; cases "ed_trigger d"; cases "ed_new_stop_price d") (auto simp: handle_directive_def)
  then show ?thesis
  proof cases
    case (Close trigger)
    show ?thesis
    proof (cases "bind_result (wallet_request (ti_wallet_exit_fault ti (t_id trade))) (\<lambda>_. indicator_snapshot_for_trade trade m)")
      case (Inl e)
      with assms(1) Close show ?thesis by (simp add: handle_directive_def)
    next
      case (Inr ind)
      obtain out w1 where p: "persist_exit (ec_parse_float c) xe (ti_clock ti (t_id trade)) trade legs trigger
          (ti_wallet_exit ti (t_id trade)) (Some ind) (Some (quote_for m)) (Some (ti_chain ti)) w = (out, w1)" by fastforce
      have "en_db w' = en_db w1" using assms(1) Close Inr p by (auto simp: handle_directive_def split: sum.splits)
      with persist_exit_evolves [OF p assms(2)] show ?thesis by simp
    qed
  next
    case (Stop x)
    with assms(1) show ?thesis by (auto simp: handle_directive_def intro: persist_trail_evolves)
  qed (use assms(1) in simp)
qed

lemma process_position_evolves:
  assumes "process_position c xe ti m rows pos peaks w = (r, w')"
    and "\<exists>t. get_trade (trade_id pos) (en_db w) = Some t \<and> is_open_trade t"
  shows "evolves (en_db w) (en_db w')"
proof (cases "List.find (\<lambda>row. t_id (fst row) = trade_id pos) rows")
  case None
  with assms(1) show ?thesis by (simp add: process_position_def)
next
  case (Some row)
  obtain trade legs where row: "row = (trade, legs)" by (cases row)
  have "t_id (fst row) = trade_id pos" using Some by (auto simp: find_Some_iff)
  then have id: "t_id trade = trade_id pos" using row by simp
  let ?rt = "runtime_for pos (en_runtimes w)"
  show ?thesis
  proof (cases "step (ec_parse_float c) (en_registry w) (trail_update_throttle_seconds (execution (ec_global c))) ?rt m")
    case (Inl e)
    with assms(1) Some row have "w' = w\<lparr>en_runtimes := dict_set (trade_id pos) ?rt (en_runtimes w)\<rparr>"
      by (simp add: process_position_def Let_def)
    then show ?thesis by simp
  next
    case (Inr q)
    obtain ds rt' where q: "q = (ds, rt')" by (cases q)
    obtain d where d: "ds = [d]" using step_one_directive Inr q by blast
    define w1 where "w1 = w\<lparr>en_runtimes := dict_set (trade_id pos) rt' (en_runtimes w)\<rparr>"
    obtain out w2 where h: "handle_directive c xe ti m trade legs d w1 = (out, w2)" by fastforce
    have "w' = w2"
      using assms(1) Some row Inr q d h
      by (auto simp: process_position_def Let_def en_bind_def w1_def [symmetric] split: sum.splits prod.splits)
    moreover have "evolves (en_db w1) (en_db w2)" using handle_directive_evolves [OF h] assms(2) id by (simp add: w1_def)
    ultimately show ?thesis by (simp add: w1_def)
  qed
qed

lemma process_positions_evolves:
  assumes "process_positions c xe ti m rows ps peaks w = (r, w')" and "distinct (map trade_id ps)"
    and "\<forall>p \<in> set ps. \<exists>t. get_trade (trade_id p) (en_db w) = Some t \<and> is_open_trade t"
  shows "evolves (en_db w) (en_db w')"
  using assms
proof (induction ps arbitrary: peaks w)
  case (Cons pos ps)
  from Cons.prems(1) have b: "en_bind (process_position c xe ti m rows pos peaks) (process_positions c xe ti m rows ps) w = (r, w')" by simp
  from b show ?case
  proof (cases rule: en_bind_cases)
    case (Raise e)
    with process_position_evolves Cons.prems(3) show ?thesis by fastforce
  next
    case (Go x w1)
    have e1: "evolves (en_db w) (en_db w1)" using process_position_evolves [OF Go(1)] Cons.prems(3) by simp
    have "\<forall>p \<in> set ps. \<exists>t. get_trade (trade_id p) (en_db w1) = Some t \<and> is_open_trade t"
    proof
      fix p assume p: "p \<in> set ps"
      with Cons.prems(2) have "trade_id p \<noteq> trade_id pos" by (auto simp: image_iff)
      with process_position_handles [OF Go(1)] have "get_trade (trade_id p) (en_db w1) = get_trade (trade_id p) (en_db w)"
        by (simp add: handles_def)
      with Cons.prems(3) p show "\<exists>t. get_trade (trade_id p) (en_db w1) = Some t \<and> is_open_trade t" by simp
    qed
    with Cons.IH [OF Go(2)] Cons.prems(2) have "evolves (en_db w1) (en_db w')" by simp
    with e1 show ?thesis by (rule evolves_trans)
  qed
qed simp

lemma refresh_evolves:
  assumes "refresh_all_open_trades pf rows chain m wallet peaks db = (r, db')"
  shows "evolves db db'"
proof -
  have step: "evolves db (put_trade (t\<lparr>t_notes := ns\<rparr>) db1)" if "evolves db db1" "get_trade tid db1 = Some t" for db1 t ns tid
  proof -
    have "evolves db1 (put_trade (t\<lparr>t_notes := ns\<rparr>) db1)"
      by (rule evolves_same [OF that(2)]) (use get_trade_SomeD [OF that(2)] in \<open>simp_all add: life_of_row_def\<close>)
    with that(1) show ?thesis by (rule evolves_trans)
  qed
  show ?thesis by (rule refresh_all_keeps [where I = "evolves db", OF _ evolves_refl assms]) (rule step)
qed

lemma manage_phase_evolves:
  assumes "manage_phase c xe ti m (load_open_trades (en_db w)) w = (r, w')"
  shows "evolves (en_db w) (en_db w')"
proof (cases "db_wf (en_db w)")
  case True
  let ?rows = "load_open_trades (en_db w)"
  define w1 where "w1 = w\<lparr>en_runtimes := filter (\<lambda>p. fst p \<in> set (map (t_id \<circ> fst) ?rows)) (en_runtimes w)\<rparr>"
  have w1: "en_db w1 = en_db w" by (simp add: w1_def)
  show ?thesis
  proof (cases "map_result (\<lambda>(t, legs). trade_to_position_state (ec_parse_float c) (ti_now ti) t legs (ti_chain ti)) ?rows")
    case (Inl e)
    with assms have "w' = w1" by (simp add: manage_phase_def Let_def w1_def)
    with w1 show ?thesis by simp
  next
    case (Inr ps)
    obtain out w2 where p: "process_positions c xe ti m ?rows ps [] w1 = (out, w2)" by fastforce
    have e: "evolves (en_db w) (en_db w2)" using process_positions_evolves [OF p] positions_of_rows [OF True Inr] w1 by simp
    consider (Stop) "w' = w2" | (Refresh) peaks q db where
      "refresh_all_open_trades (ec_parse_float c) ?rows (ti_chain ti) m (ti_wallet ti) peaks (en_db w2) = (q, db)" "en_db w' = db"
      using assms Inr p by (auto simp: manage_phase_def Let_def w1_def split: sum.splits if_splits prod.splits)
    then show ?thesis
    proof cases
      case Refresh
      with e refresh_evolves [OF Refresh(1)] show ?thesis using evolves_trans by blast
    qed (use e in simp)
  qed
qed (simp add: evolves_def)

lemma execute_intent_evolves: "execute_intent c xe ti m i sz w = (r, w') \<Longrightarrow> evolves (en_db w) (en_db w')"
  by (erule execute_intent_cases) (simp_all add: persist_entry_evolves)

lemma run_intents_evolves:
  assumes "run_intents c xe ti m book acc is records w = (r, w')"
  shows "evolves (en_db w) (en_db w')"
  using assms
proof (induction "is" arbitrary: acc records w)
  case (Cons i "is")
  let ?gate = "gate (risk_of c w) i (ti_now ti) acc book (Some (quote_for m)) (Some (ti_chain ti)) (Some (ti_marks ti)) (ec_usd_inr c)"
  show ?case
  proof (cases ?gate)
    case (Inl e)
    with Cons.prems show ?thesis by simp
  next
    case gate: (Inr sz)
    show ?thesis
    proof (cases "approved sz")
      case False
      with Cons.prems gate have "run_intents c xe ti m book acc is (records @ [risk_record i sz]) w = (r, w')" by simp
      then show ?thesis by (rule Cons.IH)
    next
      case True
      obtain out w1 where p: "execute_intent c xe ti m i sz w = (out, w1)" by fastforce
      note e1 = execute_intent_evolves [OF p]
      show ?thesis
      proof (cases out)
        case (Inl e)
        with Cons.prems gate True p have "w' = w1" by (auto simp: Let_def)
        with e1 show ?thesis by simp
      next
        case out: (Inr opened)
        define w2 where "w2 = (if opened then w1
          else w1\<lparr>en_registry := apply_directional_entry_failure_cooldown (en_registry w1) i (ti_now ti)\<rparr>)"
        have w2: "en_db w2 = en_db w1" by (simp add: w2_def)
        show ?thesis
        proof (cases "accounting_snapshot (en_db w2)")
          case (Inl e)
          with Cons.prems gate True p out have "w' = w2" by (auto simp: Let_def w2_def)
          with e1 w2 show ?thesis by simp
        next
          case (Inr acc2)
          with Cons.prems gate True p out
          have "run_intents c xe ti m book acc2 is (records @ [risk_record i sz]) w2 = (r, w')"
            by (simp add: Let_def w2_def)
          from Cons.IH [OF this] w2 e1 evolves_trans show ?thesis by metis
        qed
      qed
    qed
  qed
qed simp

lemma round_phases_evolves:
  assumes "round_phases c xe ti w = (r, w')"
  shows "evolves (en_db w) (en_db w')"
proof -
  let ?rows = "load_open_trades (en_db w)" let ?m = "market_of c ti (quotes_for (ti_chain ti) ?rows)"
  have "en_bind (manage_phase c xe ti ?m ?rows) (\<lambda>_. en_bind (entry_phase c xe ti ?m ?rows) (finish_phase c ti)) w = (r, w')"
    using assms by (simp add: round_phases_def Let_def)
  then show ?thesis
  proof (cases rule: en_bind_cases)
    case (Raise e)
    with manage_phase_evolves show ?thesis by metis
  next
    case (Go x w1)
    note e1 = manage_phase_evolves [OF Go(1)]
    have entry: "evolves (en_db v) (en_db v')" if "entry_phase c xe ti ?m ?rows v = (q, v')" for q v v'
      using that by (auto simp: entry_phase_def Let_def split: prod.splits sum.splits dest: run_intents_evolves)
    from Go(2) show ?thesis
    proof (cases rule: en_bind_cases)
      case (Raise e)
      with entry e1 evolves_trans show ?thesis by blast
    next
      case (Go y w2)
      have "en_db w' = en_db w2" using finish_phase_effect(1) [OF Go(2)] .
      with entry [OF Go(1)] e1 evolves_trans show ?thesis by metis
    qed
  qed
qed

lemma tick_evolves:
  assumes "tick c xe ti w = (r, w')"
  shows "evolves (en_db w) (en_db w')"
  using assms
proof (cases rule: tick_cases)
  case Phases
  from round_phases_evolves [OF this] show ?thesis by simp
qed simp

lemma engine_run_evolves:
  assumes "engine_run c xe w w'"
  shows "evolves (en_db w) (en_db w')"
  using assms by (induction rule: engine_run.induct) (auto intro: evolves_trans tick_evolves)

section \<open>Claims\<close>

text \<open>
  The engine refines the abstract ledger.  Whatever any run of ticks and one more tick, completed or ended by an
  exception, do to the stored trades is, seen through the abstraction, a sequence of steps of the ledger: trades are
  opened with fresh ids, and a live trade fails or is closed with its profit, once.
\<close>

theorem engine_refines_ledger:
  assumes "engine_run c xe w w1" and "tick c xe ti w1 = (r, w')" and "db_wf (en_db w)" and "typed_trades (en_db w)"
  shows "ledger_run (life (en_db w)) (life (en_db w'))"
  using engine_run_evolves [OF assms(1)] tick_evolves [OF assms(2)] assms(3,4) by (auto simp: evolves_def)

lemma sample_busy_typed: "typed_trades (en_db sample_busy_engine)"
  unfolding typed_trades_def by (auto simp: sample_busy_engine_def sample_engine_def sample_trade_def simp del: trade_status_value.simps)

theorem engine_refines_ledger_witness:
  "\<exists>r w'. tick (sample_config\<lparr>ec_strategies := [(DIRECTIONAL, DirectionalConfig sample_directional)]\<rparr>) sample_router sample_input
       sample_busy_engine = (r, w') \<and>
     ledger_run (life (en_db sample_busy_engine)) (life (en_db w')) \<and>
     life (en_db sample_busy_engine) 1 = Some (Done (Some 500)) \<and> life (en_db sample_busy_engine) 2 = Some Live"
proof -
  let ?c = "sample_config\<lparr>ec_strategies := [(DIRECTIONAL, DirectionalConfig sample_directional)]\<rparr>"
  obtain r w' where t: "tick ?c sample_router sample_input sample_busy_engine = (r, w')" by fastforce
  have "life (en_db sample_busy_engine) 1 = Some (Done (Some 500)) \<and> life (en_db sample_busy_engine) 2 = Some Live"
    by (simp add: life_def life_of_row_def get_trade_def sample_busy_engine_def sample_engine_def sample_trade_def)
  with engine_refines_ledger [OF engine_run.start t sample_busy(1) sample_busy_typed] t show ?thesis by blast
qed

end
