(* ===== verification/Daily.thy ===== *)
theory Daily
  imports NavState Tables "HOL-Library.List_Lexorder" "HOL-Library.Char_ord"
begin

text \<open>
  The daily report (\<open>bot/analytics/daily.py\<close>): statistics of the closed trades of a date per strategy and for all,
  their upsert into \<open>daily_pnl\<close> and the upsert of the NAV row.  The Markdown file is in \<open>Reports\<close>.
\<close>

section \<open>Statistics\<close>

definition GLOBAL_KEY :: string where
  "GLOBAL_KEY = ''__global__''"

record strategy_daily_stats =
  sd_strategy_id :: string
  sd_n_trades :: nat
  sd_n_wins :: nat
  sd_n_losses :: nat
  sd_gross_pnl_inr :: flt
  sd_net_pnl_inr :: flt
  sd_fees_inr :: flt
  sd_delta_pnl_inr :: flt
  sd_theta_pnl_inr :: flt
  sd_avg_r :: "flt option"
  sd_win_rate :: "flt option"
  sd_avg_slippage_bps :: "flt option"

definition fmean :: "flt list \<Rightarrow> flt option" where
  "fmean xs = (if xs = [] then None else Some (sum_list xs / of_nat (length xs)))"

definition summarise :: "string \<Rightarrow> trade_row list \<Rightarrow> strategy_daily_stats" where
  "summarise sid trades =
     (if trades = []
      then \<lparr>sd_strategy_id = sid, sd_n_trades = 0, sd_n_wins = 0, sd_n_losses = 0, sd_gross_pnl_inr = 0, sd_net_pnl_inr = 0, sd_fees_inr = 0,
            sd_delta_pnl_inr = 0, sd_theta_pnl_inr = 0, sd_avg_r = None, sd_win_rate = None, sd_avg_slippage_bps = None\<rparr>
      else
        let realised = map (\<lambda>t. the_or 0 (realised_pnl_inr t)) trades;
            fees = map (\<lambda>t. the_or 0 (t_fees_inr t)) trades;
            wins = filter (\<lambda>r. r > 0) realised;
            losses = filter (\<lambda>r. r < 0) realised;
            n = length trades
        in \<lparr>sd_strategy_id = sid, sd_n_trades = n, sd_n_wins = length wins, sd_n_losses = length losses,
            sd_gross_pnl_inr = sum_list realised, sd_net_pnl_inr = sum_list realised - sum_list fees, sd_fees_inr = sum_list fees,
            sd_delta_pnl_inr = sum_list (map (\<lambda>t. the_or 0 (delta_pnl_inr t)) trades),
            sd_theta_pnl_inr = sum_list (map (\<lambda>t. the_or 0 (theta_pnl_inr t)) trades),
            sd_avg_r = fmean (List.map_filter r_multiple trades),
            sd_win_rate = Some (of_nat (length wins) / of_nat n),
            sd_avg_slippage_bps = fmean (List.map_filter slippage_bps trades)\<rparr>)"

definition closed_on :: "date \<Rightarrow> trade_row list \<Rightarrow> trade_row list" where
  "closed_on d ts =
     (let start = combine d 0; stop = start + day_us
      in filter (\<lambda>t. t_status t = trade_status_value TRADE_CLOSED \<and>
                     (case t_exit_ts t of None \<Rightarrow> False | Some x \<Rightarrow> start \<le> x \<and> x < stop)) ts)"

definition by_strategy :: "trade_row list \<Rightarrow> (string, trade_row list) dict" where
  "by_strategy ts = fold (\<lambda>t d. dict_set (t_strategy_id t) (the_or [] (dict_get d (t_strategy_id t)) @ [t]) d) ts []"

definition compute_per_strategy :: "date \<Rightarrow> trade_row list \<Rightarrow> strategy_daily_stats list" where
  "compute_per_strategy d all_trades =
     (let trades = closed_on d all_trades
      in summarise GLOBAL_KEY trades # map (\<lambda>(sid, items). summarise sid items) (sort_key fst (by_strategy trades)))"

section \<open>Tables\<close>

record daily_pnl_row =
  dp_trading_date :: date
  dp_stats :: strategy_daily_stats

definition dp_key :: "daily_pnl_row \<Rightarrow> date \<times> string" where
  "dp_key r = (dp_trading_date r, sd_strategy_id (dp_stats r))"

definition restat :: "date \<Rightarrow> strategy_daily_stats \<Rightarrow> daily_pnl_row \<Rightarrow> daily_pnl_row" where
  "restat d s r = (if dp_key r = (d, sd_strategy_id s) then r\<lparr>dp_stats := s\<rparr> else r)"

text \<open>
  A row is looked up among the rows of the date that were there before the loop; a statistic without one adds a
  row.  Rows that the loop added are not looked up again.
\<close>

definition upsert_daily :: "date \<Rightarrow> daily_pnl_row list \<Rightarrow> strategy_daily_stats \<Rightarrow> daily_pnl_row list \<Rightarrow> daily_pnl_row list" where
  "upsert_daily d before s rows =
     (if \<exists>r \<in> set before. dp_key r = (d, sd_strategy_id s)
      then map (restat d s) rows
      else rows @ [\<lparr>dp_trading_date = d, dp_stats = s\<rparr>])"

definition persist_daily_pnl :: "date \<Rightarrow> strategy_daily_stats list \<Rightarrow> daily_pnl_row list \<Rightarrow> daily_pnl_row list result" where
  "persist_daily_pnl d stats rows =
     (if stats = [] then Inr rows
      else let rows' = fold (upsert_daily d rows) stats rows
           in if distinct (map dp_key rows') then Inr rows' else Inl IntegrityError)"

definition persist_nav :: "date \<Rightarrow> flt \<Rightarrow> flt \<Rightarrow> bool \<Rightarrow> nav_history_row list \<Rightarrow> (nav_history_row \<times> nav_history_row list) result" where
  "persist_nav d nav peak tripped rows =
     (let dd = (if peak > 0 then max 0 ((peak - nav) / peak * 100) else 0);
          row = \<lparr>nh_trading_date = d, nh_nav_inr = nav, nh_peak_nav_inr = peak, nh_drawdown_from_peak_pct = dd,
                 nh_circuit_breaker_tripped = tripped\<rparr>
      in bind_result
           (nav_check nav
              (case row_on rows d of
                 None \<Rightarrow> rows @ [row]
               | Some _ \<Rightarrow> map (\<lambda>r. if nh_trading_date r = d then row else r) rows))
           (\<lambda>rows'. Inr (row, rows')))"

definition daily_run ::
  "date \<Rightarrow> flt \<Rightarrow> flt \<Rightarrow> bool \<Rightarrow> database \<Rightarrow> daily_pnl_row list \<Rightarrow> nav_history_row list \<Rightarrow>
   ((nav_history_row \<times> strategy_daily_stats list) result \<times> daily_pnl_row list \<times> nav_history_row list)" where
  "daily_run d nav peak tripped db pnl rows =
     (let stats = compute_per_strategy d (tb_trades db)
      in case persist_daily_pnl d stats pnl of
           Inl e \<Rightarrow> (Inl e, pnl, rows)
         | Inr pnl' \<Rightarrow>
             (case persist_nav d nav peak tripped rows of
                Inl e \<Rightarrow> (Inl e, pnl', rows)
              | Inr (row, rows') \<Rightarrow> (Inr (row, stats), pnl', rows')))"

section \<open>Properties\<close>

lemma summarise_simps:
  "sd_strategy_id (summarise sid ts) = sid" "sd_n_trades (summarise sid ts) = length ts"
  "sd_n_wins (summarise sid ts) = length (filter (\<lambda>t. 0 < the_or 0 (realised_pnl_inr t)) ts)"
  "sd_n_losses (summarise sid ts) = length (filter (\<lambda>t. the_or 0 (realised_pnl_inr t) < 0) ts)"
  "sd_gross_pnl_inr (summarise sid ts) = sum_list (map (\<lambda>t. the_or 0 (realised_pnl_inr t)) ts)"
  "sd_fees_inr (summarise sid ts) = sum_list (map (\<lambda>t. the_or 0 (t_fees_inr t)) ts)"
  "sd_net_pnl_inr (summarise sid ts) = sd_gross_pnl_inr (summarise sid ts) - sd_fees_inr (summarise sid ts)"
  by (simp_all add: summarise_def Let_def filter_map comp_def)

lemma length_filter_sum: "length (filter P xs) = sum_list (map (\<lambda>x. if P x then 1 else 0) xs)"
  by (induction xs) simp_all

text \<open>Writing one key changes a sum over the values by the difference of the values.\<close>

lemma sum_dict_set:
  fixes g :: "'v \<Rightarrow> 'a :: ab_group_add"
  assumes "dict_wf d"
  shows "sum_list (map (\<lambda>p. g (snd p)) (dict_set k v d)) =
    sum_list (map (\<lambda>p. g (snd p)) d) + g v - (case dict_get d k of None \<Rightarrow> 0 | Some w \<Rightarrow> g w)"
  using assms unfolding dict_wf_def dict_set_def dict_get_def
  by (induction d) (auto simp: algebra_simps split: option.splits)

lemma by_strategy_snoc:
  "by_strategy (ts @ [t]) = dict_set (t_strategy_id t) (the_or [] (dict_get (by_strategy ts) (t_strategy_id t)) @ [t]) (by_strategy ts)"
  by (simp add: by_strategy_def)

lemma by_strategy_wf: "dict_wf (by_strategy ts)"
  by (induction ts rule: rev_induct) (simp_all add: by_strategy_snoc, simp add: by_strategy_def)

lemma by_strategy_get:
  "dict_get (by_strategy ts) sid = (let g = filter (\<lambda>t. t_strategy_id t = sid) ts in if g = [] then None else Some g)"
  by (induction ts rule: rev_induct) (auto simp: by_strategy_snoc Let_def, simp add: by_strategy_def)

lemma by_strategy_sum:
  fixes f :: "trade_row \<Rightarrow> 'a :: ab_group_add"
  shows "sum_list (map (\<lambda>p. sum_list (map f (snd p))) (by_strategy ts)) = sum_list (map f ts)"
proof (induction ts rule: rev_induct)
  case (snoc t ts)
  show ?case
    unfolding by_strategy_snoc sum_dict_set [OF by_strategy_wf, of "\<lambda>xs. sum_list (map f xs)"] snoc.IH
    by (cases "dict_get (by_strategy ts) (t_strategy_id t)") simp_all
qed (simp add: by_strategy_def)

lemma sum_list_sort_key: "sum_list (map h (sort_key f xs)) = sum_list (map h xs :: 'a :: comm_monoid_add list)"
  by (metis mset_map mset_sort sum_mset_sum_list)

lemma per_strategy_sum:
  fixes f :: "trade_row \<Rightarrow> 'a :: ab_group_add"
  assumes "\<And>sid ts. h (summarise sid ts) = sum_list (map f ts)"
  shows "sum_list (map h (tl (compute_per_strategy d ts))) = h (hd (compute_per_strategy d ts))"
  using by_strategy_sum [of f "closed_on d ts"]
  by (simp add: compute_per_strategy_def Let_def assms sum_list_sort_key comp_def case_prod_beta)

text \<open>The table as a map from its key.\<close>

definition dp_lookup :: "daily_pnl_row list \<Rightarrow> date \<times> string \<Rightarrow> strategy_daily_stats option" where
  "dp_lookup rows k = map_of (map (\<lambda>r. (dp_key r, dp_stats r)) rows) k"

lemma dp_lookup_None: "dp_lookup rows k = None \<longleftrightarrow> k \<notin> dp_key ` set rows"
  by (simp add: dp_lookup_def map_of_eq_None_iff image_image)

lemma restat_simps [simp]:
  "dp_key (restat d s r) = dp_key r" "dp_stats (restat d s r) = (if dp_key r = (d, sd_strategy_id s) then s else dp_stats r)"
  by (simp_all add: restat_def dp_key_def)

lemma dp_key_mk [simp]: "dp_key \<lparr>dp_trading_date = d, dp_stats = s\<rparr> = (d, sd_strategy_id s)"
  by (simp add: dp_key_def)

lemma upsert_keys:
  "map dp_key (upsert_daily d before s rows) =
     map dp_key rows @ (if (d, sd_strategy_id s) \<in> dp_key ` set before then [] else [(d, sd_strategy_id s)])"
  by (simp add: upsert_daily_def comp_def image_iff eq_commute)

lemma fold_upsert_keys:
  "map dp_key (fold (upsert_daily d before) ss rows) =
     map dp_key rows @ filter (\<lambda>k. k \<notin> dp_key ` set before) (map (\<lambda>s. (d, sd_strategy_id s)) ss)"
  by (induction ss arbitrary: rows) (simp_all add: upsert_keys)

lemma dp_lookup_Cons: "dp_lookup (r # rows) k = (if dp_key r = k then Some (dp_stats r) else dp_lookup rows k)"
  by (simp add: dp_lookup_def)

lemma dp_lookup_map:
  "dp_lookup (map (restat d s) rows) k = (if k = (d, sd_strategy_id s) \<and> k \<in> dp_key ` set rows then Some s else dp_lookup rows k)"
proof (induction rows)
  case (Cons r rows)
  then show ?case by (auto simp: dp_lookup_Cons)
qed (simp add: dp_lookup_def)

lemma upsert_lookup:
  assumes "(d, sd_strategy_id s) \<in> dp_key ` set before \<longleftrightarrow> (d, sd_strategy_id s) \<in> dp_key ` set rows"
  shows "dp_lookup (upsert_daily d before s rows) k = (if k = (d, sd_strategy_id s) then Some s else dp_lookup rows k)"
proof (cases "(d, sd_strategy_id s) \<in> dp_key ` set before")
  case True
  then have "upsert_daily d before s rows = map (restat d s) rows" by (auto simp: upsert_daily_def)
  with True assms show ?thesis by (simp add: dp_lookup_map)
next
  case False
  then have u: "upsert_daily d before s rows = rows @ [\<lparr>dp_trading_date = d, dp_stats = s\<rparr>]" by (simp add: upsert_daily_def image_iff eq_commute)
  have "dp_lookup rows (d, sd_strategy_id s) = None" using False assms dp_lookup_None by metis
  with u show ?thesis by (auto simp: dp_lookup_def dp_key_def map_add_def split: option.splits)
qed

lemma fold_upsert_lookup:
  assumes "distinct (map sd_strategy_id ss)"
    and "\<forall>s \<in> set ss. (d, sd_strategy_id s) \<in> dp_key ` set before \<longleftrightarrow> (d, sd_strategy_id s) \<in> dp_key ` set rows"
  shows "dp_lookup (fold (upsert_daily d before) ss rows) k =
    (case List.find (\<lambda>s. k = (d, sd_strategy_id s)) ss of Some s \<Rightarrow> Some s | None \<Rightarrow> dp_lookup rows k)"
  using assms
proof (induction ss arbitrary: rows)
  case (Cons s ss)
  let ?r = "upsert_daily d before s rows"
  have "dp_key ` set ?r = dp_key ` set rows \<union> {(d, sd_strategy_id s)}"
    using arg_cong [OF upsert_keys [of d before s rows], of set] Cons.prems(2) by auto
  moreover have "sd_strategy_id s' \<noteq> sd_strategy_id s" if "s' \<in> set ss" for s' using Cons.prems(1) that by (metis distinct.simps(2) image_eqI list.simps(9) list.set_map)
  ultimately have "\<forall>s' \<in> set ss. (d, sd_strategy_id s') \<in> dp_key ` set before \<longleftrightarrow> (d, sd_strategy_id s') \<in> dp_key ` set ?r"
    using Cons.prems(2) by auto
  from Cons.IH [OF _ this] Cons.prems(1) upsert_lookup [of d s before rows k] Cons.prems(2)
  have *: "dp_lookup (fold (upsert_daily d before) ss ?r) k =
    (case List.find (\<lambda>s. k = (d, sd_strategy_id s)) ss of Some s \<Rightarrow> Some s | None \<Rightarrow> if k = (d, sd_strategy_id s) then Some s else dp_lookup rows k)"
    by (auto split: option.split)
  have "List.find (\<lambda>s. k = (d, sd_strategy_id s)) ss = None" if "k = (d, sd_strategy_id s)"
    using that Cons.prems(1) by (auto simp: find_None_iff)
  with * show ?case by (auto split: option.split)
qed simp

lemma stats_ids:
  "map sd_strategy_id (compute_per_strategy d ts) = GLOBAL_KEY # map fst (sort_key fst (by_strategy (closed_on d ts)))"
  by (simp add: compute_per_strategy_def Let_def comp_def case_prod_beta summarise_simps)

lemma stats_ids_distinct:
  assumes "\<forall>t \<in> set ts. t_strategy_id t \<noteq> GLOBAL_KEY"
  shows "distinct (map sd_strategy_id (compute_per_strategy d ts))"
proof -
  let ?g = "by_strategy (closed_on d ts)"
  have "dict_get ?g GLOBAL_KEY = None" using assms by (auto simp: by_strategy_get closed_on_def Let_def filter_empty_conv)
  then have "GLOBAL_KEY \<notin> fst ` set ?g" by (simp add: dict_get_def map_of_eq_None_iff)
  moreover have "distinct (map fst (sort_key fst ?g))" using by_strategy_wf [of "closed_on d ts"]
    by (simp add: dict_wf_def distinct_map)
  ultimately show ?thesis unfolding stats_ids by simp
qed

lemma persist_nav_row:
  "persist_nav d nav peak tripped rows = Inr (row, rows') \<Longrightarrow> row_on rows' d = Some row \<and> (e \<noteq> d \<longrightarrow> row_on rows' e = row_on rows e) \<and>
     nh_trading_date row = d \<and> nh_circuit_breaker_tripped row = tripped \<and> set rows' \<subseteq> insert row (set rows) \<and> row \<in> set rows' \<and>
     (\<forall>r \<in> set rows'. nh_trading_date r = d \<longrightarrow> r = row)"
proof -
  assume p: "persist_nav d nav peak tripped rows = Inr (row, rows')"
  let ?f = "\<lambda>row. case row_on rows d of None \<Rightarrow> rows @ [row] | Some _ \<Rightarrow> map (\<lambda>r. if nh_trading_date r = d then row else r) rows"
  have key: "row = row0 \<and> rows' = ?f row0" if "bind_result (nav_check nav (?f row0)) (\<lambda>rows'. Inr (row0, rows')) = Inr (row, rows')" for row0
    using that by (simp add: nav_check_def split: if_split_asm)
  note k = key [OF p [unfolded persist_nav_def Let_def]]
  then have r: "nh_trading_date row = d" "nh_circuit_breaker_tripped row = tripped" by simp_all
  from k have rows': "rows' = ?f row" by metis
  show ?thesis
  proof (cases "row_on rows d")
    case None
    have "row_on (rows @ [row]) e = (case row_on rows e of None \<Rightarrow> if e = d then Some row else None | Some x \<Rightarrow> Some x)" for e
      using r(1) by (induction rows) (auto simp: row_on_def)
    with None rows' r row_on_None [OF None] show ?thesis by (auto split: option.splits)
  next
    case (Some x)
    have f: "row_on (map (\<lambda>r. if nh_trading_date r = d then row else r) rows) e =
        (if e = d then map_option (\<lambda>_. row) (row_on rows d) else row_on rows e)" for e
      using r(1) by (induction rows) (auto simp: row_on_def)
    with Some rows' r row_on_Some [OF Some] show ?thesis by (auto split: if_splits)
  qed
qed

lemma fold_upsert_distinct:
  assumes "distinct (map dp_key rows)" and "distinct (map sd_strategy_id ss)"
  shows "distinct (map dp_key (fold (upsert_daily d rows) ss rows))"
proof -
  have "distinct (map (\<lambda>s. (d, sd_strategy_id s)) ss)" using assms(2) by (induction ss) auto
  with assms(1) show ?thesis unfolding fold_upsert_keys by auto
qed

lemma load_nav_tracker_latest:
  assumes "row \<in> set rows" and "nh_trading_date row = d" and "\<forall>r \<in> set rows. nh_trading_date r = d \<longrightarrow> r = row"
    and "\<forall>r \<in> set rows. nh_trading_date r \<le> d"
  shows "latest_row rows = Some row"
proof (cases "latest_row rows")
  case None
  then have "sort_key (\<lambda>r. - nh_trading_date r) rows = []" by (simp add: latest_row_def split: list.splits)
  then have "set (sort_key (\<lambda>r. - nh_trading_date r) rows) = {}" by (simp only: list.set(1))
  with assms(1) show ?thesis by (metis empty_iff set_sort)
next
  case (Some r)
  then have "nh_trading_date r = d" using latest_row_max [OF Some] assms(1,2,4) by (auto intro: antisym)
  with latest_row_max(1) [OF Some] assms(3) Some show ?thesis by simp
qed

section \<open>Claims\<close>

text \<open>
  The figures of all strategies are the sums of the figures of each: trades, wins, losses, gross and net
  profit and fees of the first line of a report are the totals of the lines below it, every trade of the date is in
  exactly one of them, and wins and losses never exceed the trades.
\<close>

theorem daily_totals_partition:
  "(let total_line = hd (compute_per_strategy d ts); lines = tl (compute_per_strategy d ts)
    in int (sd_n_trades total_line) = sum_list (map (\<lambda>s. int (sd_n_trades s)) lines) \<and>
       int (sd_n_wins total_line) = sum_list (map (\<lambda>s. int (sd_n_wins s)) lines) \<and>
       int (sd_n_losses total_line) = sum_list (map (\<lambda>s. int (sd_n_losses s)) lines) \<and>
       sd_gross_pnl_inr total_line = sum_list (map sd_gross_pnl_inr lines) \<and>
       sd_fees_inr total_line = sum_list (map sd_fees_inr lines) \<and>
       sd_net_pnl_inr total_line = sum_list (map sd_net_pnl_inr lines) \<and>
       sorted (map sd_strategy_id lines) \<and> distinct (map sd_strategy_id lines) \<and>
       sd_n_wins total_line + sd_n_losses total_line \<le> sd_n_trades total_line)"
proof -
  have count: "int (length (filter P xs)) = sum_list (map (\<lambda>x. if P x then 1 else 0) xs)" for P and xs :: "trade_row list"
    by (induction xs) simp_all
  have len: "int (length xs) = sum_list (map (\<lambda>_. 1) xs)" for xs :: "trade_row list" by (induction xs) simp_all
  have n: "int (sd_n_trades (summarise sid xs)) = sum_list (map (\<lambda>_. 1) xs)"
    "int (sd_n_wins (summarise sid xs)) = sum_list (map (\<lambda>t. if 0 < the_or 0 (realised_pnl_inr t) then 1 else 0) xs)"
    "int (sd_n_losses (summarise sid xs)) = sum_list (map (\<lambda>t. if the_or 0 (realised_pnl_inr t) < 0 then 1 else 0) xs)"
    "sd_net_pnl_inr (summarise sid xs) = sum_list (map (\<lambda>t. the_or 0 (realised_pnl_inr t) - the_or 0 (t_fees_inr t)) xs)" for sid xs
    by (simp_all only: summarise_simps count sum_list_subtractf) (simp only: len)
  note sums = per_strategy_sum [of "\<lambda>s. int (sd_n_trades s)", OF n(1)] per_strategy_sum [of "\<lambda>s. int (sd_n_wins s)", OF n(2)]
    per_strategy_sum [of "\<lambda>s. int (sd_n_losses s)", OF n(3)] per_strategy_sum [of sd_gross_pnl_inr, OF summarise_simps(5)]
    per_strategy_sum [of sd_fees_inr, OF summarise_simps(6)] per_strategy_sum [of sd_net_pnl_inr, OF n(4)]
  have ids: "map sd_strategy_id (tl (compute_per_strategy d ts)) = map fst (sort_key fst (by_strategy (closed_on d ts)))"
    using stats_ids [of d ts] by (simp add: map_tl)
  have "distinct (map fst (sort_key fst (by_strategy (closed_on d ts))))"
    using by_strategy_wf [of "closed_on d ts"] by (simp add: dict_wf_def distinct_map)
  moreover have "sorted (map fst (sort_key fst (by_strategy (closed_on d ts))))" by simp
  moreover have "sd_n_wins (summarise sid xs) + sd_n_losses (summarise sid xs) \<le> sd_n_trades (summarise sid xs)" for sid xs
    using length_filter_disjoint [of "\<lambda>t. 0 < the_or 0 (realised_pnl_inr t)" "\<lambda>t. the_or 0 (realised_pnl_inr t) < 0" xs]
    by (simp add: summarise_simps)
  then have "sd_n_wins (hd (compute_per_strategy d ts)) + sd_n_losses (hd (compute_per_strategy d ts)) \<le> sd_n_trades (hd (compute_per_strategy d ts))"
    by (simp add: compute_per_strategy_def Let_def)
  ultimately show ?thesis using sums unfolding Let_def ids by simp
qed

text \<open>
  C37: the report of a date replaces the figures of that date and nothing else.  With one row per date and strategy and
  no strategy of the reserved name and a NAV that is not negative, it succeeds; each of its lines is afterwards the row of its date and strategy, all
  other keys read as before, one row per key remains, the NAV row of the date is the new one, and, when no later date
  has a row, a restart takes its breaker from the tracker that was reported.
\<close>

theorem daily_run_upserts:
  assumes "distinct (map dp_key pnl)" and "\<forall>t \<in> set (tb_trades db). t_strategy_id t \<noteq> GLOBAL_KEY"
    and "\<forall>r \<in> set rows. nh_trading_date r \<le> d" and "0 \<le> nav"
  shows "\<exists>row pnl' rows'. daily_run d nav peak tripped db pnl rows = (Inr (row, compute_per_strategy d (tb_trades db)), pnl', rows') \<and>
    distinct (map dp_key pnl') \<and>
    (\<forall>k. dp_lookup pnl' k =
       (case List.find (\<lambda>s. k = (d, sd_strategy_id s)) (compute_per_strategy d (tb_trades db)) of Some s \<Rightarrow> Some s | None \<Rightarrow> dp_lookup pnl k)) \<and>
    row_on rows' d = Some row \<and> (\<forall>e. e = d \<or> row_on rows' e = row_on rows e) \<and>
    circuit_breaker_tripped (load_nav_tracker (tb_trades db) rows' base later) = tripped"
proof -
  let ?stats = "compute_per_strategy d (tb_trades db)" let ?pnl = "fold (upsert_daily d pnl) ?stats pnl"
  have ids: "distinct (map sd_strategy_id ?stats)" using stats_ids_distinct [OF assms(2)] .
  have dist: "distinct (map dp_key ?pnl)" using fold_upsert_distinct [OF assms(1) ids] .
  have "?stats \<noteq> []" by (simp add: compute_per_strategy_def Let_def)
  with dist have p: "persist_daily_pnl d ?stats pnl = Inr ?pnl" by (simp add: persist_daily_pnl_def Let_def)
  have "\<exists>p. persist_nav d nav peak tripped rows = Inr p" using assms(4) by (simp add: persist_nav_def nav_check_def Let_def)
  then obtain row rows' where n: "persist_nav d nav peak tripped rows = Inr (row, rows')" by auto
  note r = persist_nav_row [OF n]
  have sub: "set rows' \<subseteq> insert row (set rows)" "nh_trading_date row = d" using r [of d] by blast+
  then have "\<forall>r \<in> set rows'. nh_trading_date r \<le> d" using assms(3) by auto
  then have "latest_row rows' = Some row" using r [of d] by (intro load_nav_tracker_latest [of row rows' d]) blast+
  then have "circuit_breaker_tripped (load_nav_tracker (tb_trades db) rows' base later) = tripped"
    using r by (simp add: load_nav_tracker_def Let_def)
  with p n r dist fold_upsert_lookup [OF ids, of d pnl pnl] show ?thesis
    by (intro exI [of _ row] exI [of _ ?pnl] exI [of _ rows']) (auto simp: daily_run_def Let_def)
qed

theorem daily_run_upserts_witness:
  "\<exists>row stats pnl' rows'. daily_run 5 49000 50000 True \<lparr>tb_signals = [], tb_trades = [], tb_legs = [], tb_orders = []\<rparr> []
      [\<lparr>nh_trading_date = 4, nh_nav_inr = 50000, nh_peak_nav_inr = 50000, nh_drawdown_from_peak_pct = 0, nh_circuit_breaker_tripped = False\<rparr>] =
      (Inr (row, stats), pnl', rows') \<and>
    row_on rows' 5 = Some row \<and> nh_drawdown_from_peak_pct row = 2 \<and> length rows' = 2 \<and> map dp_key pnl' = [(5, ''__global__'')] \<and>
    circuit_breaker_tripped (load_nav_tracker [] rows' 50000 day_us)"
proof -
  let ?db = "\<lparr>tb_signals = [], tb_trades = [], tb_legs = [], tb_orders = []\<rparr>"
  let ?rows = "[\<lparr>nh_trading_date = 4, nh_nav_inr = 50000, nh_peak_nav_inr = 50000, nh_drawdown_from_peak_pct = 0, nh_circuit_breaker_tripped = False\<rparr>]"
  have h: "distinct (map dp_key [])" "\<forall>t \<in> set (tb_trades ?db). t_strategy_id t \<noteq> GLOBAL_KEY" "\<forall>r \<in> set ?rows. nh_trading_date r \<le> 5"
    "0 \<le> (49000 :: flt)" by simp_all
  from daily_run_upserts [OF h, of 50000 True 50000 day_us] obtain row pnl' rows' where
    r: "daily_run 5 49000 50000 True ?db [] ?rows = (Inr (row, compute_per_strategy 5 []), pnl', rows')" "row_on rows' 5 = Some row"
       "circuit_breaker_tripped (load_nav_tracker [] rows' 50000 day_us)" by auto
  moreover have "nh_drawdown_from_peak_pct row = 2" "length rows' = 2" "map dp_key pnl' = [(5, ''__global__'')]"
    using r(1) by (auto simp: daily_run_def persist_nav_def nav_check_def persist_daily_pnl_def compute_per_strategy_def closed_on_def by_strategy_def
        summarise_def upsert_daily_def row_on_def GLOBAL_KEY_def Let_def split: if_splits)
  ultimately show ?thesis by (intro exI conjI) auto
qed

end
