(* ===== verification/Feeds.thy ===== *)
theory Feeds
  imports Tick
begin

text \<open>
  The tasks beside the main loop (\<open>bot/runtime/engine.py\<close>): the start of the engine, the refresh of the
  chain, the websocket messages that move marks, candles and quotes, and the schedule of the daily report.
  \<open>tz\<close> is the offset of the host's clock that \<open>CandleAggregator\<close> adds when it reads a naive time.
\<close>

section \<open>Start of the engine\<close>

text \<open>
  \<open>run_trading_engine\<close> up to its tasks: the keys a live session needs, the tracker from the tables and the
  marker file, and the registry.
\<close>

definition require_keys :: "engine_config \<Rightarrow> bool \<Rightarrow> unit result" where
  "require_keys c keys_set = (if ec_is_live c \<and> \<not> keys_set then Inl RuntimeError else Inr ())"

definition boot_engine ::
  "strategy_config list \<Rightarrow> database \<Rightarrow> nav_history_row list \<Rightarrow> bool \<Rightarrow> flt \<Rightarrow> datetime \<Rightarrow> 'x \<Rightarrow> decision_row list \<Rightarrow> 'x engine result" where
  "boot_engine configs db rows marker base_nav now x decisions =
     (let n = load_nav_tracker (tb_trades db) rows base_nav now;
          n' = (if marker then n\<lparr>circuit_breaker_tripped := True\<rparr> else n)
      in bind_result (mk_registry (build_strategies configs)) (\<lambda>r.
           Inr \<lparr>en_db = db, en_exec = x, en_nav = n', en_registry = r, en_runtimes = [], en_nav_rows = rows,
                en_marker = marker, en_ist_date = None, en_decisions = decisions\<rparr>))"

definition boot ::
  "engine_config \<Rightarrow> bool \<Rightarrow> strategy_config list \<Rightarrow> database \<Rightarrow> nav_history_row list \<Rightarrow> bool \<Rightarrow> flt \<Rightarrow> datetime \<Rightarrow> 'x \<Rightarrow>
   decision_row list \<Rightarrow> 'x engine result" where
  "boot c keys_set configs db rows marker base_nav now x decisions =
     bind_result (require_keys c keys_set) (\<lambda>_. boot_engine configs db rows marker base_nav now x decisions)"

section \<open>Market data\<close>

record feeds =
  fd_marks :: "(underlying, flt) dict"
  fd_candles :: "(underlying, (string, candle_aggregator) dict) dict"
  fd_chain :: chain_cache
  fd_iv_store :: iv_history_store
  fd_iv_table :: "iv_snapshot_row list"

definition new_candles :: "(underlying, (string, candle_aggregator) dict) dict result" where
  "new_candles =
     bind_result (mk_aggregator ''15m'' 512) (\<lambda>a.
     bind_result (mk_aggregator ''1h'' 512) (\<lambda>b.
       Inr (map (\<lambda>u. (u, [(''15m'', a), (''1h'', b)])) [BTC, ETH])))"

text \<open>The loop over the aggregators of an underlying: what was added before an exception stays.\<close>

fun tick_aggregators ::
  "int \<Rightarrow> datetime \<Rightarrow> flt \<Rightarrow> (string, candle_aggregator) dict \<Rightarrow> unit result \<times> (string, candle_aggregator) dict" where
  "tick_aggregators tz now px [] = (Inr (), [])"
| "tick_aggregators tz now px ((tf, a) # aggs) =
     (case add_tick tz now px 0 a of
        Inl e \<Rightarrow> (Inl e, (tf, a) # aggs)
      | Inr a' \<Rightarrow> let (r, aggs') = tick_aggregators tz now px aggs in (r, (tf, a') # aggs'))"

definition mark_of_message :: "(string, pyval) dict \<Rightarrow> pyval" where
  "mark_of_message msg =
     (if vget msg ''mark_price'' \<noteq> VNone then vget msg ''mark_price''
      else py_or (vget msg ''spot_price'')
             (py_or (vget msg ''underlying_mark'') (py_or (vget msg ''close'') (vget msg ''last_price''))))"

definition apply_mark :: "(string \<Rightarrow> flt option) \<Rightarrow> int \<Rightarrow> datetime \<Rightarrow> underlying \<Rightarrow> pyval \<Rightarrow> feeds \<Rightarrow> unit result \<times> feeds" where
  "apply_mark pf tz now u mp fd =
     (if mp = VNone then (Inr (), fd)
      else case float_of pf mp of
        Inl e \<Rightarrow> (Inr (), fd)
      | Inr px \<Rightarrow>
          let fd1 = fd\<lparr>fd_marks := dict_set u px (fd_marks fd)\<rparr>
          in (case dict_get (fd_candles fd1) u of
                None \<Rightarrow> (Inl KeyError, fd1)
              | Some aggs \<Rightarrow>
                  let (r, aggs') = tick_aggregators tz now px aggs; fd2 = fd1\<lparr>fd_candles := dict_set u aggs' (fd_candles fd1)\<rparr>
                  in (case r of
                        Inl e \<Rightarrow> (if e \<in> {TypeError, ValueError} then Inr () else Inl e, fd2)
                      | Inr _ \<Rightarrow> (Inr (), fd2))))"

definition handle_ws_message ::
  "(string \<Rightarrow> flt option) \<Rightarrow> int \<Rightarrow> datetime \<Rightarrow> flt \<Rightarrow> (string, pyval) dict \<Rightarrow> feeds \<Rightarrow> unit result \<times> feeds" where
  "handle_ws_message pf tz now stamp msg fd =
     (if vget msg ''type'' \<noteq> VStr ''v2/ticker'' then (Inr (), fd)
      else case vget msg ''symbol'' of
        VStr s \<Rightarrow>
          (case mark_underlying s of
             Some u \<Rightarrow> apply_mark pf tz now u (mark_of_message msg) fd
           | None \<Rightarrow>
               (case quote_from_ws_ticker pf stamp msg of
                  Inl e \<Rightarrow> (Inl e, fd)
                | Inr None \<Rightarrow> (Inr (), fd)
                | Inr (Some q) \<Rightarrow> (Inr (), fd\<lparr>fd_chain := upsert_quote q (fd_chain fd)\<rparr>)))
      | _ \<Rightarrow> (Inr (), fd))"

text \<open>
  One round of \<open>chain_refresh_loop\<close>: every exception is logged and dropped.  The REST answers, the clocks
  and the parsers are inputs.
\<close>

definition chain_refresh ::
  "(string \<Rightarrow> flt option) \<Rightarrow> (string \<Rightarrow> int option) \<Rightarrow> flt \<Rightarrow> (string \<times> string \<Rightarrow> flt) \<Rightarrow> datetime \<Rightarrow>
   (string, pyval) dict list result \<Rightarrow> (string, pyval) dict list result \<Rightarrow> feeds \<Rightarrow> feeds" where
  "chain_refresh pf pint clock iv_clock now products tickers fd =
     (case refresh_instruments pf pint False clock products (fd_chain fd) of
        Inl _ \<Rightarrow> fd
      | Inr (_, c1) \<Rightarrow>
          (case refresh_quotes pf clock tickers c1 of
             (Inl _, c2) \<Rightarrow> fd\<lparr>fd_chain := c2\<rparr>
           | (Inr _, c2) \<Rightarrow>
               let (_, s, table) = record_from_chain iv_clock c2 (fd_marks fd) now (fd_iv_store fd) (fd_iv_table fd)
               in fd\<lparr>fd_chain := c2, fd_iv_store := s, fd_iv_table := table\<rparr>))"

text \<open>\<open>daily_loop\<close>: the report of a day is due from 22:35 to 22:59 IST, once.\<close>

definition daily_due :: "datetime \<Rightarrow> date option \<Rightarrow> bool" where
  "daily_due now last_date =
     (let t = utc_to_ist now; h = time_of t div hour_us; mi = time_of t mod hour_us div minute_us
      in h = 22 \<and> 35 \<le> mi \<and> last_date \<noteq> Some (date_of t))"

section \<open>Properties\<close>

text \<open>A marker file left by an earlier process trips the breaker of the new one, whatever the tables say.\<close>

lemma boot_marker_trips:
  "boot c keys_set configs db rows True base_nav now x decisions = Inr e \<Longrightarrow> circuit_breaker_tripped (en_nav e)"
  by (auto simp: boot_def boot_engine_def require_keys_def Let_def split: if_splits)

lemma boot_live_needs_keys:
  "ec_is_live c \<Longrightarrow> boot c False configs db rows marker base_nav now x decisions = Inl RuntimeError"
  by (simp add: boot_def require_keys_def)

lemma daily_once: "\<not> daily_due now (Some (date_of (utc_to_ist now)))"
  by (simp add: daily_due_def Let_def)

text \<open>An aggregator that is well formed, gapless and not ahead of the clock.\<close>

definition agg_at :: "int \<Rightarrow> datetime \<Rightarrow> candle_aggregator \<Rightarrow> bool" where
  "agg_at tz now a \<longleftrightarrow>
     agg_inv a \<and> contiguous a \<and> 0 < history a \<and> (current a = None \<longrightarrow> closed a = []) \<and> current_bucket a \<le> tick_bucket tz now a"

definition feeds_ok :: "int \<Rightarrow> datetime \<Rightarrow> feeds \<Rightarrow> bool" where
  "feeds_ok tz now fd \<longleftrightarrow>
     chain_wf (fd_chain fd) \<and> dict_wf (fd_candles fd) \<and>
     (\<forall>p \<in> set (fd_candles fd). \<forall>q \<in> set (snd p). agg_at tz now (snd q)) \<and>
     BTC \<in> fst ` set (fd_candles fd) \<and> ETH \<in> fst ` set (fd_candles fd)"

lemma agg_at_mono:
  assumes "agg_at tz now a" and "tz \<le> now" and "now \<le> later"
  shows "agg_at tz later a"
  using assms tick_bucket_mono [of a tz now later] by (auto simp: agg_at_def agg_inv_def)

lemma agg_at_tick:
  assumes "agg_at tz now a"
  shows "\<exists>a'. add_tick tz now px v a = Inr a' \<and> agg_at tz now a'"
proof -
  have f: "agg_inv a" "contiguous a" "0 < history a" "current a = None \<Longrightarrow> closed a = []" "current_bucket a \<le> tick_bucket tz now a"
    using assms by (simp_all add: agg_at_def)
  obtain a' where a': "add_tick tz now px v a = Inr a'" using add_tick_defined [OF f(3)] by blast
  note c = add_tick_contiguous [OF a' f(2,3,5,4)]
  have "tick_bucket tz now a' = tick_bucket tz now a" using c(4) by (simp add: tick_bucket_def)
  with add_tick_inv [OF a' f(1,5)] c f(3) a' show ?thesis by (auto simp: agg_at_def)
qed

lemma tick_aggregators_ok:
  assumes "\<forall>q \<in> set aggs. agg_at tz now (snd q)"
  shows "\<exists>aggs'. tick_aggregators tz now px aggs = (Inr (), aggs') \<and> map fst aggs' = map fst aggs \<and> (\<forall>q \<in> set aggs'. agg_at tz now (snd q))"
  using assms
proof (induction aggs)
  case (Cons p aggs)
  obtain tf a where p: "p = (tf, a)" by (cases p)
  from Cons.prems p agg_at_tick [of tz now a px 0] obtain a' where "add_tick tz now px 0 a = Inr a'" "agg_at tz now a'" by auto
  with Cons p show ?case by auto
qed simp

lemma dict_get_mem: "dict_get d k = None \<longleftrightarrow> k \<notin> fst ` set d"
  by (simp add: dict_get_def map_of_eq_None_iff)

lemma keys_dict_set: "fst ` set (dict_set k v d) = insert k (fst ` set d)"
  by (simp add: dict_set_def dom_update)

lemma apply_mark_ok:
  assumes "feeds_ok tz now fd" and "apply_mark pf tz now u mp fd = (r, fd')"
  shows "r = Inr () \<and> feeds_ok tz now fd'"
proof (cases "mp = VNone \<or> \<not> (\<exists>x. float_of pf mp = Inr x)")
  case True
  then have "apply_mark pf tz now u mp fd = (Inr (), fd)" by (cases "float_of pf mp") (auto simp add: apply_mark_def)
  with assms show ?thesis by simp
next
  case False
  then obtain px where px: "mp \<noteq> VNone" "float_of pf mp = Inr px" by (cases "float_of pf mp") auto
  obtain aggs where aggs: "dict_get (fd_candles fd) u = Some aggs"
    using assms(1) dict_get_mem [of "fd_candles fd" u] by (cases u) (auto simp: feeds_ok_def)
  have mem: "(u, aggs) \<in> set (fd_candles fd)" using dict_get_SomeD [OF aggs] .
  then have "\<forall>q \<in> set aggs. agg_at tz now (snd q)" using assms(1) by (auto simp: feeds_ok_def)
  from tick_aggregators_ok [OF this, of px] obtain aggs' where
    t: "tick_aggregators tz now px aggs = (Inr (), aggs')" "\<forall>q \<in> set aggs'. agg_at tz now (snd q)" by blast
  have r: "r = Inr ()" and fd': "fd' = fd\<lparr>fd_marks := dict_set u px (fd_marks fd), fd_candles := dict_set u aggs' (fd_candles fd)\<rparr>"
    using assms(2) px aggs t(1) by (simp_all add: apply_mark_def Let_def)
  have old: "\<forall>p \<in> set (fd_candles fd). \<forall>q \<in> set (snd p). agg_at tz now (snd q)" using assms(1) by (simp add: feeds_ok_def)
  have "\<forall>p \<in> insert (u, aggs') (set (fd_candles fd)). \<forall>q \<in> set (snd p). agg_at tz now (snd q)" using old t(2) by simp
  then have "\<forall>p \<in> set (dict_set u aggs' (fd_candles fd)). \<forall>q \<in> set (snd p). agg_at tz now (snd q)"
    using set_dict_set_subset [of u aggs' "fd_candles fd"] by blast
  then show ?thesis using assms(1) r by (simp add: feeds_ok_def fd' keys_dict_set)
qed

lemma handle_ws_message_cases:
  "handle_ws_message pf tz now stamp msg fd = (r, fd') \<Longrightarrow>
   fd' = fd \<or> (\<exists>q. fd' = fd\<lparr>fd_chain := upsert_quote q (fd_chain fd)\<rparr>) \<or>
   (\<exists>u. apply_mark pf tz now u (mark_of_message msg) fd = (r, fd'))"
  unfolding handle_ws_message_def
  by (cases "vget msg ''symbol''") (simp_all split: if_splits option.splits sum.splits; blast)+

lemma feeds_ok_chain: "feeds_ok tz now fd \<Longrightarrow> feeds_ok tz now (fd\<lparr>fd_chain := upsert_quote q (fd_chain fd)\<rparr>)"
  using chain_wf_upsert by (simp add: feeds_ok_def)

lemma handle_ws_message_ok:
  assumes "feeds_ok tz now fd" and "handle_ws_message pf tz now stamp msg fd = (r, fd')"
  shows "feeds_ok tz now fd'"
  using handle_ws_message_cases [OF assms(2)] assms(1) apply_mark_ok [OF assms(1)] feeds_ok_chain by blast

lemma chain_refresh_ok:
  assumes "feeds_ok tz now fd"
  shows "feeds_ok tz now (chain_refresh pf pint clock iv_clock when products tickers fd)"
proof (cases "refresh_instruments pf pint False clock products (fd_chain fd)")
  case (Inl e)
  with assms show ?thesis by (simp add: chain_refresh_def)
next
  case (Inr p)
  obtain n c1 where p: "p = (n, c1)" by (cases p)
  have c1: "chain_wf c1" using chain_wf_refresh_instruments(1) Inr p assms by (auto simp: feeds_ok_def)
  obtain out c2 where q: "refresh_quotes pf clock tickers c1 = (out, c2)" by fastforce
  have "chain_wf c2" using chain_wf_refresh_quotes [OF c1, of pf clock tickers] q by simp
  with assms Inr p q show ?thesis by (auto simp: chain_refresh_def feeds_ok_def Let_def split: sum.split prod.split)
qed

text \<open>The market data over time: messages and refreshes in any order, on a clock that does not go back.\<close>

inductive feed_run :: "(string \<Rightarrow> flt option) \<Rightarrow> (string \<Rightarrow> int option) \<Rightarrow> int \<Rightarrow> datetime \<Rightarrow> feeds \<Rightarrow> datetime \<Rightarrow> feeds \<Rightarrow> bool"
  for pf pint tz where
  idle: "feed_run pf pint tz t0 fd0 t0 fd0"
| message: "feed_run pf pint tz t0 fd0 t fd \<Longrightarrow> t \<le> t' \<Longrightarrow> handle_ws_message pf tz t' stamp msg fd = (r, fd') \<Longrightarrow>
    feed_run pf pint tz t0 fd0 t' fd'"
| refresh: "feed_run pf pint tz t0 fd0 t fd \<Longrightarrow> t \<le> t' \<Longrightarrow>
    feed_run pf pint tz t0 fd0 t' (chain_refresh pf pint clock iv_clock t' products tickers fd)"

lemma feeds_ok_mono: "feeds_ok tz t fd \<Longrightarrow> tz \<le> t \<Longrightarrow> t \<le> t' \<Longrightarrow> feeds_ok tz t' fd"
  using agg_at_mono by (fastforce simp: feeds_ok_def)

lemma feed_run_ok:
  assumes "feed_run pf pint tz t0 fd0 t fd" and "feeds_ok tz t0 fd0" and "tz \<le> t0"
  shows "feeds_ok tz t fd \<and> t0 \<le> t"
  using assms
proof (induction rule: feed_run.induct)
  case (message t0 fd0 t fd t' stamp msg r fd')
  then have "feeds_ok tz t' fd" "t0 \<le> t'" using feeds_ok_mono by auto
  with handle_ws_message_ok message.hyps(3) show ?case by blast
next
  case (refresh t0 fd0 t fd t' clock iv_clock products tickers)
  then have "feeds_ok tz t' fd" "t0 \<le> t'" using feeds_ok_mono by auto
  then show ?case using chain_refresh_ok by blast
qed simp

lemma new_candles_ok:
  assumes "new_candles = Inr cs" and "tz \<le> t"
  shows "feeds_ok tz t \<lparr>fd_marks = [], fd_candles = cs, fd_chain = c, fd_iv_store = s, fd_iv_table = tab\<rparr> \<longleftrightarrow> chain_wf c"
proof -
  have fresh: "agg_at tz t a" if "mk_aggregator tf 512 = Inr a" for tf a
  proof -
    have a: "current a = None" "closed a = []" "current_bucket a = - 1" "history a = 512" "0 < period_s a"
      using that TIMEFRAME_pos [of tf] by (auto simp: mk_aggregator_def split: option.splits)
    have "0 \<le> tick_bucket tz t a"
      using a(5) assms(2) by (simp add: tick_bucket_def epoch_seconds_def us_per_s_def pos_imp_zdiv_nonneg_iff Let_def)
    with a show ?thesis by (simp add: agg_at_def agg_inv_def contiguous_def bars_def)
  qed
  from assms(1) obtain a b where "mk_aggregator ''15m'' 512 = Inr a" "mk_aggregator ''1h'' 512 = Inr b"
    "cs = map (\<lambda>u. (u, [(''15m'', a), (''1h'', b)])) [BTC, ETH]" by (auto simp: new_candles_def)
  then show ?thesis using fresh by (auto simp: feeds_ok_def dict_wf_def)
qed

definition start_feeds :: "(underlying, (string, candle_aggregator) dict) dict \<Rightarrow> flt \<Rightarrow> iv_history_store \<Rightarrow> iv_snapshot_row list \<Rightarrow> feeds" where
  "start_feeds cs ttl s table =
     \<lparr>fd_marks = [], fd_candles = cs, fd_chain = mk_chain_cache ttl, fd_iv_store = s, fd_iv_table = table\<rparr>"

lemma agg_at_bars: "agg_at tz t a \<Longrightarrow> contiguous a \<and> (\<forall>c \<in> set (bars a). candle_ok c) \<and> length (closed a) \<le> history a"
  by (auto simp: agg_at_def agg_inv_def bars_def split: option.splits)

text \<open>
  From the start of the engine, whatever messages and refreshes arrive in whatever order on a clock that
  does not go back, the instrument and quote cache keys every entry by its own symbol, the candles of every
  underlying and timeframe are well formed, gapless and bounded by their history, and no mark price raises.
\<close>

theorem feeds_stay_well_formed:
  assumes "new_candles = Inr cs" and "tz \<le> t0" and "feed_run pf pint tz t0 (start_feeds cs ttl s table) t fd" and "t \<le> t'"
  shows "chain_wf (fd_chain fd) \<and>
    (\<forall>p \<in> set (fd_candles fd). \<forall>q \<in> set (snd p).
       contiguous (snd q) \<and> (\<forall>c \<in> set (bars (snd q)). candle_ok c) \<and> length (closed (snd q)) \<le> history (snd q)) \<and>
    fst (apply_mark pf tz t' u mp fd) = Inr ()"
proof -
  have "chain_wf (mk_chain_cache ttl)" by (simp add: chain_wf_def mk_chain_cache_def dict_wf_def)
  then have "feeds_ok tz t0 (start_feeds cs ttl s table)" using new_candles_ok [OF assms(1,2)] by (simp add: start_feeds_def)
  from feed_run_ok [OF assms(3) this assms(2)] have ok: "feeds_ok tz t fd" "t0 \<le> t" by auto
  have "feeds_ok tz t' fd" using feeds_ok_mono [OF ok(1)] ok(2) assms(2,4) by simp
  then have "fst (apply_mark pf tz t' u mp fd) = Inr ()" using apply_mark_ok by (metis prod.collapse)
  with ok(1) agg_at_bars show ?thesis unfolding feeds_ok_def by blast
qed

text \<open>Two marks of BTC, two hours apart.\<close>

definition mark_message :: "flt \<Rightarrow> (string, pyval) dict" where
  "mark_message px = [(''type'', VStr ''v2/ticker''), (''symbol'', VStr ''BTCUSD''), (''mark_price'', VFlt px)]"

definition marked_feeds :: "feeds" where
  "marked_feeds =
     (case new_candles of
        Inl _ \<Rightarrow> start_feeds [] 300 mk_iv_history_store []
      | Inr cs \<Rightarrow> snd (handle_ws_message (\<lambda>_. None) 0 (50 * minute_us) 0 (mark_message 101)
          (snd (handle_ws_message (\<lambda>_. None) 0 0 0 (mark_message 100) (start_feeds cs 300 mk_iv_history_store [])))))"

theorem feeds_stay_well_formed_witness:
  "\<exists>cs a. new_candles = Inr cs \<and>
     feed_run (\<lambda>_. None) (\<lambda>_. None) 0 0 (start_feeds cs 300 mk_iv_history_store []) (50 * minute_us) marked_feeds \<and>
     dict_get (fd_marks marked_feeds) BTC = Some 101 \<and> (''15m'', a) \<in> set (snd (hd (fd_candles marked_feeds))) \<and>
     length (bars a) = 4 \<and> contiguous a"
proof -
  obtain cs where cs: "new_candles = Inr cs"
    by (simp add: new_candles_def mk_aggregator_def TIMEFRAME_SECONDS_def dict_get_def)
  let ?fd0 = "start_feeds cs 300 mk_iv_history_store []"
  have "feed_run (\<lambda>_. None) (\<lambda>_. None) 0 0 ?fd0 0 (snd (handle_ws_message (\<lambda>_. None) 0 0 0 (mark_message 100) ?fd0))"
    by (rule feed_run.message [OF feed_run.idle order_refl prod.collapse [symmetric]])
  then have run: "feed_run (\<lambda>_. None) (\<lambda>_. None) 0 0 ?fd0 (50 * minute_us) marked_feeds"
    unfolding marked_feeds_def cs sum.case
    by (rule feed_run.message [OF _ _ prod.collapse [symmetric]]) (simp add: minute_us_def us_per_s_def)
  note ok = feeds_stay_well_formed [OF cs order_refl run order_refl]
  have "\<exists>a rest ds. fd_candles marked_feeds = (BTC, (''15m'', a) # rest) # ds \<and> length (bars a) = 4 \<and>
      dict_get (fd_marks marked_feeds) BTC = Some 101"
    by (simp add: marked_feeds_def new_candles_def mk_aggregator_def TIMEFRAME_SECONDS_def handle_ws_message_def
        apply_mark_def float_of_def mark_message_def mark_of_message_def mark_underlying_def vget_def start_feeds_def dict_get_def dict_set_def
        add_tick_def tick_bucket_def epoch_seconds_def minute_us_def us_per_s_def Let_def open_new_def close_current_def deque_append_def bars_def upto.simps)
  then obtain a rest ds where e: "fd_candles marked_feeds = (BTC, (''15m'', a) # rest) # ds" "length (bars a) = 4"
      "dict_get (fd_marks marked_feeds) BTC = Some 101" by blast
  then have "contiguous a" using ok by simp
  with cs run e show ?thesis by (intro exI conjI) auto
qed

end
