(* ===== verification/Resume.thy ===== *)
theory Resume
  imports Feeds
begin

text \<open>
  The manual recovery from a tripped breaker (\<open>bot/runtime/resume.py\<close>).  The runtime directory is the
  presence of its two marker files and the lines of the audit file; \<open>trading_date\<close> is unique in
  \<open>nav_history\<close>.  The notes of the report are kept, its rendering as text is in \<open>Reports\<close>.
\<close>

section \<open>State\<close>

record runtime_dir =
  rd_shutdown_json :: bool
  rd_circuit_breaker_json :: bool
  rd_resume_audit :: "(string, pyval) dict list"

record resume_report =
  rr_nav_inr :: "flt option"
  rr_peak_nav_inr :: "flt option"
  rr_drawdown_pct :: "flt option"
  rr_trading_date :: "date option"
  breaker_was_tripped :: bool
  cleared :: bool
  confirmed :: bool
  marker_removed :: "string option"
  rr_notes :: "string list"

section \<open>Operations\<close>

definition maybe_remove_marker :: "runtime_dir \<Rightarrow> string option \<times> runtime_dir" where
  "maybe_remove_marker d =
     (if rd_shutdown_json d then (Some ''shutdown.json'', d\<lparr>rd_shutdown_json := False\<rparr>) else (None, d))"

definition write_audit :: "datetime \<Rightarrow> nav_history_row \<Rightarrow> runtime_dir \<Rightarrow> runtime_dir" where
  "write_audit now latest d =
     d\<lparr>rd_resume_audit := rd_resume_audit d @
         [[(''resumed_at'', VStr (isoformat now)), (''trading_date'', VStr (date_isoformat (nh_trading_date latest))),
           (''nav_inr'', VFlt (nh_nav_inr latest)), (''peak_nav_inr'', VFlt (nh_peak_nav_inr latest)),
           (''drawdown_pct'', VFlt (nh_drawdown_from_peak_pct latest))]]\<rparr>"

definition clear_row :: "date \<Rightarrow> nav_history_row list \<Rightarrow> nav_history_row list" where
  "clear_row d rows = map (\<lambda>r. if nh_trading_date r = d then r\<lparr>nh_circuit_breaker_tripped := False\<rparr> else r) rows"

definition resume_evaluate ::
  "bool \<Rightarrow> datetime \<Rightarrow> nav_history_row list \<Rightarrow> runtime_dir \<Rightarrow> resume_report \<times> nav_history_row list \<times> runtime_dir" where
  "resume_evaluate confirm now rows d =
     (case latest_row rows of
        None \<Rightarrow>
          (\<lparr>rr_nav_inr = None, rr_peak_nav_inr = None, rr_drawdown_pct = None, rr_trading_date = None,
            breaker_was_tripped = False, cleared = False, confirmed = confirm, marker_removed = None,
            rr_notes = [''no NAV history rows found; nothing to resume from'']\<rparr>, rows, d)
      | Some latest \<Rightarrow>
          let tripped = nh_circuit_breaker_tripped latest;
              notes0 = (if tripped then [] else [''circuit breaker is not currently tripped'']);
              (removed, d1) = (if tripped \<and> confirm then maybe_remove_marker d else (None, d))
          in (\<lparr>rr_nav_inr = Some (nh_nav_inr latest), rr_peak_nav_inr = Some (nh_peak_nav_inr latest),
               rr_drawdown_pct = Some (nh_drawdown_from_peak_pct latest), rr_trading_date = Some (nh_trading_date latest),
               breaker_was_tripped = tripped, cleared = (tripped \<and> confirm), confirmed = confirm, marker_removed = removed,
               rr_notes = notes0 @
                 (if tripped \<and> confirm then [''circuit breaker cleared on '' @ date_isoformat (nh_trading_date latest)]
                  else if tripped then [''breaker is tripped; pass --confirm to clear''] else [])\<rparr>,
              if tripped \<and> confirm then clear_row (nh_trading_date latest) rows else rows,
              if tripped \<and> confirm then write_audit now latest d1 else d1))"

section \<open>Properties\<close>

definition rows_wf :: "nav_history_row list \<Rightarrow> bool" where
  "rows_wf rows \<longleftrightarrow> distinct (map nh_trading_date rows)"

lemma latest_row_None: "latest_row rows = None \<longleftrightarrow> rows = []"
proof -
  have "sort_key f rows = [] \<longleftrightarrow> rows = []" for f :: "nav_history_row \<Rightarrow> int" by (metis length_0_conv length_sort)
  then have "(case sort_key f rows of [] \<Rightarrow> None | r # _ \<Rightarrow> Some r) = None \<longleftrightarrow> rows = []" for f :: "nav_history_row \<Rightarrow> int"
    by (metis list.case_eq_if option.distinct(1))
  then show ?thesis by (simp add: latest_row_def)
qed

lemma latest_row_clear:
  "latest_row (clear_row d rows) =
     map_option (\<lambda>r. if nh_trading_date r = d then r\<lparr>nh_circuit_breaker_tripped := False\<rparr> else r) (latest_row rows)"
  unfolding latest_row_def clear_row_def by (subst sort_key_map) (auto split: list.split)

lemma find_map_same:
  assumes "\<And>y. P (g y) = P y"
  shows "List.find P (map g xs) = map_option g (List.find P xs)"
  by (induction xs) (simp_all add: assms)

lemma row_on_clear: "map_option nh_nav_inr (row_on (clear_row d rows) e) = map_option nh_nav_inr (row_on rows e)"
  unfolding row_on_def clear_row_def by (subst find_map_same) (auto simp: option.map_comp comp_def intro!: option.map_cong)

lemma case_row_clear: "(case row_on (clear_row d rows) e of None \<Rightarrow> a | Some r \<Rightarrow> nh_nav_inr r) =
    (case row_on rows e of None \<Rightarrow> a | Some r \<Rightarrow> nh_nav_inr r)"
  using row_on_clear [of d rows e] by (auto split: option.splits)

lemma load_after_clear:
  assumes "latest_row rows = Some r"
  shows "load_nav_tracker trades (clear_row (nh_trading_date r) rows) base now =
    (load_nav_tracker trades rows base now)\<lparr>circuit_breaker_tripped := False\<rparr>"
  by (simp add: load_nav_tracker_def latest_row_clear assms case_row_clear Let_def cong: option.case_cong)

lemma resume_evaluate_cleared:
  assumes "latest_row rows = Some r" and "nh_circuit_breaker_tripped r"
  shows "\<exists>rep d'. resume_evaluate True now rows d = (rep, clear_row (nh_trading_date r) rows, d') \<and> cleared rep \<and>
     \<not> rd_shutdown_json d' \<and> rd_circuit_breaker_json d' = rd_circuit_breaker_json d \<and>
     length (rd_resume_audit d') = Suc (length (rd_resume_audit d))"
  using assms by (cases d) (auto simp: resume_evaluate_def maybe_remove_marker_def write_audit_def Let_def)

section \<open>Claims\<close>

text \<open>
  Recovery needs the confirmation, and clears no more than the flag.  Without it nothing changes.  With it
  and a tripped latest row, the tracker that the next start builds from the tables is the one it would have
  built, with the breaker clear; every row but the latest is as it was, and one audit line is added.
\<close>

theorem resume_needs_confirmation:
  assumes "latest_row rows = Some r" and "nh_circuit_breaker_tripped r" and "rows_wf rows"
    and "resume_evaluate confirm now rows d = (rep, rows', d')"
  shows "if confirm
    then cleared rep \<and> load_nav_tracker trades rows' base later = (load_nav_tracker trades rows base later)\<lparr>circuit_breaker_tripped := False\<rparr> \<and>
         (\<forall>i < length rows. rows ! i = r \<or> rows' ! i = rows ! i) \<and> length (rd_resume_audit d') = Suc (length (rd_resume_audit d))
    else \<not> cleared rep \<and> rows' = rows \<and> d' = d"
proof (cases confirm)
  case True
  have keep: "rows ! i = r \<or> clear_row (nh_trading_date r) rows ! i = rows ! i" if "i < length rows" for i
  proof -
    have "rows ! i = r" if "nh_trading_date (rows ! i) = nh_trading_date r"
      using that \<open>i < length rows\<close> latest_row_max(1) [OF assms(1)] assms(3)
      by (auto simp: rows_wf_def distinct_map dest: inj_onD)
    with \<open>i < length rows\<close> show ?thesis by (auto simp: clear_row_def)
  qed
  obtain rep0 d0 where e: "resume_evaluate True now rows d = (rep0, clear_row (nh_trading_date r) rows, d0)" "cleared rep0"
      "length (rd_resume_audit d0) = Suc (length (rd_resume_audit d))"
    using resume_evaluate_cleared [OF assms(1,2)] by blast
  with assms(4) True have "rep = rep0" "rows' = clear_row (nh_trading_date r) rows" "d' = d0" by simp_all
  with e keep True load_after_clear [OF assms(1)] show ?thesis by simp
next
  case False
  with assms show ?thesis by (auto simp: resume_evaluate_def Let_def)
qed

text \<open>
  C25: the recovery does not reach the marker that the trip wrote.  After a trip is persisted and a confirmed
  recovery on any later day before new rows are written, the breaker of the tables is clear, but the engine
  that starts next finds \<open>circuit_breaker.json\<close> and has its breaker tripped.
\<close>

theorem resume_leaves_breaker_marker:
  assumes "\<forall>r \<in> set rows. nh_trading_date r \<le> date_of (utc_to_ist now)"
    and "persist_circuit_breaker_trip rows n now marker = Inr (rows1, n1, marker1)"
    and "resume_evaluate True later rows1 \<lparr>rd_shutdown_json = sd, rd_circuit_breaker_json = marker1, rd_resume_audit = audit\<rparr> = (rep, rows2, d2)"
    and "boot c keys_set configs db rows2 (rd_circuit_breaker_json d2) base_nav start x decisions = Inr e"
  shows "cleared rep \<and> \<not> circuit_breaker_tripped (load_nav_tracker (tb_trades db) rows2 base_nav start) \<and>
    circuit_breaker_tripped (en_nav e)"
proof -
  let ?d = "date_of (utc_to_ist now)"
  have r1: "marker1" "\<exists>dd. rows1 = upsert_tripped ?d n dd rows"
    using assms(2) by (auto simp: persist_cases)
  then obtain dd where dd: "rows1 = upsert_tripped ?d n dd rows" by blast
  note u = upsert_tripped_row [of ?d n dd rows]
  have ne: "rows1 \<noteq> []" using u(1) dd by auto
  then obtain r where r: "latest_row rows1 = Some r" using latest_row_None by blast
  have "nh_trading_date r = ?d"
  proof (rule antisym)
    obtain s where "s \<in> set rows1" "nh_trading_date s = ?d" using u(1) dd by blast
    with latest_row_max(2) [OF r] show "?d \<le> nh_trading_date r" by auto
    from latest_row_max(1) [OF r] u(3) dd have "nh_trading_date r = ?d \<or> r \<in> set rows" by blast
    with assms(1) show "nh_trading_date r \<le> ?d" by auto
  qed
  then have "nh_circuit_breaker_tripped r" using latest_row_max(1) [OF r] u(2) dd by blast
  from resume_evaluate_cleared [OF r this, of later "\<lparr>rd_shutdown_json = sd, rd_circuit_breaker_json = marker1, rd_resume_audit = audit\<rparr>"]
  have *: "cleared rep" "rows2 = clear_row (nh_trading_date r) rows1" "rd_circuit_breaker_json d2"
    using assms(3) r1(1) by simp_all
  have "circuit_breaker_tripped (en_nav e)" using boot_marker_trips assms(4) *(3) by simp
  with * load_after_clear [OF r] show ?thesis by simp
qed

theorem resume_needs_confirmation_witness:
  "\<exists>rep rows' d'. resume_evaluate True 0 (upsert_tripped 0 sample_nav 0 [])
      \<lparr>rd_shutdown_json = True, rd_circuit_breaker_json = True, rd_resume_audit = []\<rparr> = (rep, rows', d') \<and>
    cleared rep \<and> \<not> circuit_breaker_tripped (load_nav_tracker [] rows' 50000 day_us) \<and> length (rd_resume_audit d') = 1"
proof -
  let ?rows = "upsert_tripped 0 sample_nav 0 []"
  let ?d = "\<lparr>rd_shutdown_json = True, rd_circuit_breaker_json = True, rd_resume_audit = []\<rparr>"
  obtain rep rows' d' where e: "resume_evaluate True 0 ?rows ?d = (rep, rows', d')" by (metis prod_cases3)
  have "?rows = [hd ?rows] \<and> nh_circuit_breaker_tripped (hd ?rows)"
    by (simp add: upsert_tripped_def row_on_def)
  then have "latest_row ?rows = Some (hd ?rows)" "nh_circuit_breaker_tripped (hd ?rows)" "rows_wf ?rows"
    by (simp_all add: upsert_tripped_def row_on_def latest_row_def rows_wf_def)
  from resume_needs_confirmation [OF this e, of "[]" 50000 day_us] e show ?thesis by (intro exI conjI) auto
qed

theorem resume_leaves_breaker_marker_witness:
  "\<exists>rows1 n1 rep rows2 d2 e. persist_circuit_breaker_trip [] sample_nav 0 False = Inr (rows1, n1, True) \<and>
    resume_evaluate True 0 rows1 \<lparr>rd_shutdown_json = True, rd_circuit_breaker_json = True, rd_resume_audit = []\<rparr> = (rep, rows2, d2) \<and>
    boot sample_config False [] \<lparr>tb_signals = [], tb_trades = [], tb_legs = [], tb_orders = []\<rparr> rows2 (rd_circuit_breaker_json d2) 50000 day_us () [] = Inr e \<and>
    cleared rep \<and> circuit_breaker_tripped (en_nav e)"
proof -
  let ?db = "\<lparr>tb_signals = [], tb_trades = [], tb_legs = [], tb_orders = []\<rparr>"
  let ?rows = "upsert_tripped (date_of (utc_to_ist 0)) sample_nav 0 []" and ?n = "fst (trip_breaker True sample_nav False)"
  have p: "persist_circuit_breaker_trip [] sample_nav 0 False = Inr (?rows, ?n, True)" by (simp add: persist_cases sample_nav_def)
  obtain rep rows2 d2 where
    e: "resume_evaluate True 0 ?rows \<lparr>rd_shutdown_json = True, rd_circuit_breaker_json = True, rd_resume_audit = []\<rparr> = (rep, rows2, d2)"
    by (metis prod_cases3)
  obtain w where b: "boot sample_config False [] ?db rows2 (rd_circuit_breaker_json d2) 50000 day_us () [] = Inr w"
    by (simp add: boot_def boot_engine_def require_keys_def sample_config_def mk_registry_def build_strategies_def Let_def)
  from resume_leaves_breaker_marker [OF _ p e b] have "cleared rep \<and> circuit_breaker_tripped (en_nav w)" by simp
  with p e b show ?thesis
    by (intro exI [of _ ?rows] exI [of _ ?n] exI [of _ rep] exI [of _ rows2] exI [of _ d2] exI [of _ w]) simp
qed

end
