(* ===== verification/RateLimit.thy ===== *)
theory RateLimit
  imports Prelude
begin

text \<open>
  The token bucket (\<open>bot/exchange/rate_limit.py\<close>).  Readings of the monotonic clock are real numbers; \<open>wake\<close>
  gives the reading after a sleep of \<open>d\<close> seconds that begins at \<open>t\<close>.  The lock admits one call at a time, so
  calls run one after another.  The loop has fuel, and two rounds are enough when a sleep lasts as long as asked.
\<close>

section \<open>State and operations\<close>

record token_bucket =
  tb_rate :: flt
  tb_capacity :: flt
  tb_tokens :: flt
  tb_last_refill :: flt

definition mk_token_bucket :: "flt \<Rightarrow> flt option \<Rightarrow> flt \<Rightarrow> token_bucket result" where
  "mk_token_bucket rate cap now =
     (if rate \<le> 0 then Inl ValueError
      else
        let c = (case cap of Some x \<Rightarrow> x | None \<Rightarrow> max 1 rate)
        in if c \<le> 0 then Inl ValueError
           else Inr \<lparr>tb_rate = rate, tb_capacity = c, tb_tokens = c, tb_last_refill = now\<rparr>)"

definition refill_locked :: "flt \<Rightarrow> token_bucket \<Rightarrow> token_bucket" where
  "refill_locked now b =
     (let elapsed = now - tb_last_refill b
      in if elapsed > 0
         then b\<lparr>tb_tokens := min (tb_capacity b) (tb_tokens b + elapsed * tb_rate b), tb_last_refill := now\<rparr>
         else b)"

fun acquire_loop :: "(flt \<Rightarrow> flt \<Rightarrow> flt) \<Rightarrow> nat \<Rightarrow> flt \<Rightarrow> flt \<Rightarrow> token_bucket \<Rightarrow> (token_bucket \<times> flt) option" where
  "acquire_loop wake 0 n now b = None"
| "acquire_loop wake (Suc fuel) n now b =
     (let b1 = refill_locked now b
      in if tb_tokens b1 \<ge> n then Some (b1\<lparr>tb_tokens := tb_tokens b1 - n\<rparr>, now)
         else acquire_loop wake fuel n (wake now ((n - tb_tokens b1) / tb_rate b1)) b1)"

definition acquire :: "(flt \<Rightarrow> flt \<Rightarrow> flt) \<Rightarrow> nat \<Rightarrow> flt \<Rightarrow> flt \<Rightarrow> token_bucket \<Rightarrow> (token_bucket \<times> flt) option result" where
  "acquire wake fuel n now b =
     (if n \<le> 0 then Inl ValueError
      else if n > tb_capacity b then Inl ValueError
      else Inr (acquire_loop wake fuel n now b))"

definition bucket_snapshot :: "flt \<Rightarrow> token_bucket \<Rightarrow> (string, flt) dict \<times> token_bucket" where
  "bucket_snapshot now b =
     (let b1 = refill_locked now b
      in ([(''rate'', tb_rate b1), (''capacity'', tb_capacity b1), (''tokens'', tb_tokens b1)], b1))"

section \<open>Properties\<close>

definition bucket_ok :: "flt \<Rightarrow> token_bucket \<Rightarrow> bool" where
  "bucket_ok now b \<longleftrightarrow>
     0 < tb_rate b \<and> 0 < tb_capacity b \<and> 0 \<le> tb_tokens b \<and> tb_tokens b \<le> tb_capacity b \<and> tb_last_refill b \<le> now"

text \<open>What is documented of a sleep: it lasts at least as long as asked, and a negative delay is none.\<close>

definition sleeps :: "(flt \<Rightarrow> flt \<Rightarrow> flt) \<Rightarrow> bool" where
  "sleeps wake \<longleftrightarrow> (\<forall>t d. t + max 0 d \<le> wake t d)"

lemma sleepsD: "sleeps wake \<Longrightarrow> t \<le> wake t d" "sleeps wake \<Longrightarrow> t + d \<le> wake t d"
proof -
  assume "sleeps wake"
  then have "t + max 0 d \<le> wake t d" by (simp add: sleeps_def)
  then show "t \<le> wake t d" "t + d \<le> wake t d" by auto
qed

text \<open>The tokens that a refill at \<open>now\<close> would leave.\<close>

definition level :: "flt \<Rightarrow> token_bucket \<Rightarrow> flt" where
  "level now b = min (tb_capacity b) (tb_tokens b + (now - tb_last_refill b) * tb_rate b)"

lemma mk_token_bucket_ok: "mk_token_bucket rate cap now = Inr b \<Longrightarrow> bucket_ok now b \<and> tb_tokens b = tb_capacity b"
  by (auto simp: mk_token_bucket_def bucket_ok_def Let_def split: if_splits option.splits)

lemma refill_frame [simp]: "tb_rate (refill_locked now b) = tb_rate b" "tb_capacity (refill_locked now b) = tb_capacity b"
  by (simp_all add: refill_locked_def Let_def)

lemma refill_level:
  assumes "bucket_ok now b"
  shows "tb_tokens (refill_locked now b) = level now b" and "tb_last_refill (refill_locked now b) = now"
  using assms by (auto simp: refill_locked_def level_def bucket_ok_def Let_def)

lemma level_bounds: "bucket_ok now b \<Longrightarrow> 0 \<le> level now b \<and> level now b \<le> tb_capacity b \<and> tb_tokens b \<le> level now b"
  by (auto simp: bucket_ok_def level_def)

lemma refill_ok: "bucket_ok now b \<Longrightarrow> bucket_ok now (refill_locked now b)"
  using level_bounds [of now b] refill_level [of now b] by (auto simp: bucket_ok_def)

lemma bucket_ok_mono: "bucket_ok now b \<Longrightarrow> now \<le> t \<Longrightarrow> bucket_ok t b"
  by (auto simp: bucket_ok_def)

lemma level_later: "bucket_ok now b \<Longrightarrow> now \<le> t \<Longrightarrow> level t b \<le> level now b + (t - now) * tb_rate b"
proof -
  assume "bucket_ok now b" and "now \<le> t"
  then have "0 \<le> (t - now) * tb_rate b" by (simp add: bucket_ok_def)
  then show ?thesis by (auto simp: level_def algebra_simps min_def)
qed

lemma level_refill: "bucket_ok now b \<Longrightarrow> level now (refill_locked now b) = level now b"
  using refill_level [of now b] level_bounds [of now b] by (simp add: level_def)

text \<open>A grant costs its tokens, and time adds at most the rate.\<close>

lemma acquire_loop_grant:
  assumes "sleeps wake" and "acquire_loop wake fuel n now b = Some (b', t)" and "bucket_ok now b" and "0 < n"
  shows "now \<le> t \<and> bucket_ok t b' \<and> level t b' + n \<le> level now b + (t - now) * tb_rate b \<and>
    tb_rate b' = tb_rate b \<and> tb_capacity b' = tb_capacity b"
  using assms
proof (induction fuel arbitrary: now b)
  case (Suc fuel)
  let ?b = "refill_locked now b" let ?w = "wake now ((n - tb_tokens ?b) / tb_rate b)"
  note lv = refill_level [OF Suc.prems(3)]
  show ?case
  proof (cases "n \<le> tb_tokens ?b")
    case True
    with Suc.prems(2) have r: "b' = ?b\<lparr>tb_tokens := tb_tokens ?b - n\<rparr>" "t = now" by (auto simp: Let_def)
    have "level now b' = level now b - n"
      using lv level_bounds [OF Suc.prems(3)] Suc.prems(4) by (simp add: r level_def)
    moreover have "bucket_ok now b'"
      using refill_ok [OF Suc.prems(3)] True Suc.prems(4) by (auto simp: r bucket_ok_def)
    ultimately show ?thesis using r by simp
  next
    case False
    have w: "now \<le> ?w" using sleepsD(1) [OF Suc.prems(1)] .
    have "acquire_loop wake fuel n ?w ?b = Some (b', t)" using Suc.prems(2) False by (simp add: Let_def)
    from Suc.IH [OF Suc.prems(1) this bucket_ok_mono [OF refill_ok [OF Suc.prems(3)] w] Suc.prems(4)]
    have ih: "?w \<le> t" "bucket_ok t b'" "level t b' + n \<le> level ?w ?b + (t - ?w) * tb_rate b" "tb_rate b' = tb_rate b"
      "tb_capacity b' = tb_capacity b" by simp_all
    have "level ?w ?b \<le> level now b + (?w - now) * tb_rate b"
      using level_later [OF refill_ok [OF Suc.prems(3)] w] level_refill [OF Suc.prems(3)] by simp
    with ih w show ?thesis by (auto simp: algebra_simps)
  qed
qed simp

text \<open>One sleep is enough.\<close>

lemma acquire_loop_returns:
  assumes "sleeps wake" and "bucket_ok now b" and "n \<le> tb_capacity b"
  shows "\<exists>b' t. acquire_loop wake (Suc (Suc fuel)) n now b = Some (b', t)"
proof (cases "n \<le> tb_tokens (refill_locked now b)")
  case True
  then show ?thesis by (simp add: Let_def)
next
  case False
  let ?b = "refill_locked now b" let ?d = "(n - tb_tokens ?b) / tb_rate b" let ?w = "wake now ?d"
  have rate: "0 < tb_rate b" using assms(2) by (simp add: bucket_ok_def)
  with False have d: "0 \<le> ?d" by simp
  have w: "now + ?d \<le> ?w" using sleepsD(2) [OF assms(1)] .
  have ok: "bucket_ok ?w ?b" using bucket_ok_mono [OF refill_ok [OF assms(2)]] w d by simp
  have "?d * tb_rate b \<le> (?w - now) * tb_rate b" using w rate by (intro mult_right_mono) simp_all
  then have "n - tb_tokens ?b \<le> (?w - now) * tb_rate b" using rate by simp
  then have "n \<le> level ?w ?b" using refill_level(2) [OF assms(2)] assms(3) by (simp add: level_def)
  then have "n \<le> tb_tokens (refill_locked ?w ?b)" using refill_level(1) [OF ok] by simp
  with False show ?thesis by (simp add: Let_def)
qed

text \<open>A sequence of calls, each after an idle time: the total of the granted tokens, the bucket and the clock.\<close>

fun acquires :: "(flt \<Rightarrow> flt \<Rightarrow> flt) \<Rightarrow> nat \<Rightarrow> (flt \<times> flt) list \<Rightarrow> flt \<Rightarrow> token_bucket \<Rightarrow> (token_bucket \<times> flt) option" where
  "acquires wake fuel [] now b = Some (b, now)"
| "acquires wake fuel ((idle, n) # calls) now b =
     (case acquire wake fuel n (now + idle) b of
        Inl _ \<Rightarrow> acquires wake fuel calls (now + idle) b
      | Inr None \<Rightarrow> None
      | Inr (Some (b', t)) \<Rightarrow> acquires wake fuel calls t b')"

definition granted :: "flt \<Rightarrow> (flt \<times> flt) list \<Rightarrow> flt" where
  "granted cap calls = sum_list (map snd (filter (\<lambda>c. 0 < snd c \<and> snd c \<le> cap) calls))"

lemma acquires_bound:
  assumes "sleeps wake" and "2 \<le> fuel" and "bucket_ok now b" and "\<forall>c \<in> set calls. 0 \<le> fst c"
  shows "\<exists>b' t. acquires wake fuel calls now b = Some (b', t) \<and> now \<le> t \<and> bucket_ok t b' \<and>
    level t b' + granted (tb_capacity b) calls \<le> level now b + (t - now) * tb_rate b"
  using assms(3,4)
proof (induction calls arbitrary: now b)
  case (Cons c calls)
  obtain idle n where c: "c = (idle, n)" by (cases c)
  with Cons.prems have i: "0 \<le> idle" "bucket_ok (now + idle) b" using bucket_ok_mono [OF Cons.prems(1)] by simp_all
  have lat: "level (now + idle) b \<le> level now b + idle * tb_rate b" using level_later [OF Cons.prems(1), of "now + idle"] i(1) by simp
  show ?case
  proof (cases "n \<le> 0 \<or> n > tb_capacity b")
    case True
    then have "acquires wake fuel (c # calls) now b = acquires wake fuel calls (now + idle) b"
      "granted (tb_capacity b) (c # calls) = granted (tb_capacity b) calls" by (auto simp: c acquire_def granted_def)
    moreover obtain b' t where "acquires wake fuel calls (now + idle) b = Some (b', t)" "now + idle \<le> t" "bucket_ok t b'"
      "level t b' + granted (tb_capacity b) calls \<le> level (now + idle) b + (t - (now + idle)) * tb_rate b"
      using Cons.IH [OF i(2)] Cons.prems(2) by auto
    ultimately show ?thesis using lat i(1) by (auto simp: algebra_simps)
  next
    case False
    obtain k where k: "fuel = Suc (Suc k)" using assms(2) by (metis add_2_eq_Suc le_Suc_ex)
    obtain b1 t1 where a: "acquire_loop wake fuel n (now + idle) b = Some (b1, t1)"
      using acquire_loop_returns [OF assms(1) i(2), of n k] False k by auto
    from acquire_loop_grant [OF assms(1) a i(2)] False
    have g: "now + idle \<le> t1" "bucket_ok t1 b1" "level t1 b1 + n \<le> level (now + idle) b + (t1 - (now + idle)) * tb_rate b"
      "tb_rate b1 = tb_rate b" "tb_capacity b1 = tb_capacity b" by simp_all
    obtain b' t where r: "acquires wake fuel calls t1 b1 = Some (b', t)" "t1 \<le> t" "bucket_ok t b'"
      "level t b' + granted (tb_capacity b) calls \<le> level t1 b1 + (t - t1) * tb_rate b"
      using Cons.IH [OF g(2)] Cons.prems(2) g(4,5) by auto
    have "acquires wake fuel (c # calls) now b = Some (b', t)" using a r(1) False by (simp add: c acquire_def)
    moreover have "granted (tb_capacity b) (c # calls) = n + granted (tb_capacity b) calls" using False by (simp add: c granted_def)
    ultimately show ?thesis using g r lat i(1) by (auto simp: algebra_simps)
  qed
qed (simp add: granted_def)

text \<open>
  With a clock on which sleeps last as long as asked, every call that asks for a positive number of tokens
  within the capacity returns after at most one sleep, and in any stretch of a bucket's life, however its calls
  are spaced, no more tokens are granted than the capacity plus the rate times the elapsed time.
\<close>

theorem token_bucket_bounds_rate:
  assumes "sleeps wake" and "bucket_ok now b" and "\<forall>c \<in> set calls. 0 \<le> fst c"
  shows "\<exists>b' t. acquires wake 2 calls now b = Some (b', t) \<and> now \<le> t \<and>
    granted (tb_capacity b) calls \<le> tb_capacity b + (t - now) * tb_rate b"
proof -
  obtain b' t where a: "acquires wake 2 calls now b = Some (b', t)" "now \<le> t" "bucket_ok t b'"
      "level t b' + granted (tb_capacity b) calls \<le> level now b + (t - now) * tb_rate b"
    using acquires_bound [OF assms(1) _ assms(2,3), of 2] by auto
  with level_bounds [OF assms(2)] level_bounds [OF a(3)] show ?thesis by auto
qed

theorem token_bucket_bounds_rate_witness:
  "\<exists>b t. mk_token_bucket 1 (Some 2) 0 = Inr b \<and> acquires (\<lambda>t d. t + max 0 d) 2 [(0, 1), (0, 1), (0, 2)] 0 b = Some (b\<lparr>tb_tokens := 0, tb_last_refill := 2\<rparr>, t) \<and>
     t = 2 \<and> 4 \<le> tb_capacity b + t * tb_rate b"
proof -
  obtain b where b: "mk_token_bucket 1 (Some 2) 0 = Inr b" by (simp add: mk_token_bucket_def)
  then have d: "b = \<lparr>tb_rate = 1, tb_capacity = 2, tb_tokens = 2, tb_last_refill = 0\<rparr>" by (simp add: mk_token_bucket_def)
  have s: "sleeps (\<lambda>t d. t + max 0 d)" by (simp add: sleeps_def)
  have e: "acquires (\<lambda>t d. t + max 0 d) 2 [(0, 1), (0, 1), (0, 2)] 0 b = Some (b\<lparr>tb_tokens := 0, tb_last_refill := 2\<rparr>, 2)"
    by (simp add: d acquire_def refill_locked_def numeral_2_eq_2)
  from token_bucket_bounds_rate [OF s conjunct1 [OF mk_token_bucket_ok [OF b]], of "[(0, 1), (0, 1), (0, 2)]"] e
  have "4 \<le> tb_capacity b + 2 * tb_rate b" by (auto simp: granted_def d)
  with b e show ?thesis by (intro exI [of _ b] exI [of _ 2]) simp
qed

end
