(* ===== verification/Rest.thy ===== *)
theory Rest
  imports Live RateLimit
begin

text \<open>
  The exchange client: request signing (\<open>bot/exchange/auth.py\<close>), the REST client (\<open>bot/exchange/rest.py\<close>) and
  the wallet view (\<open>bot/exchange/wallet.py\<close>).  The HTTP transport is a parameter that answers a request from a
  state of its own and tells how long it took; HMAC-SHA256, the text of a float and the wall clock are parameters too.
  The retry library is a parameter \<open>re_policy\<close>: after the given number of failed attempts it either names the time
  to wait or gives up, and then the last exception is raised again.
\<close>

section \<open>Text on the wire\<close>

fun join_text :: "string \<Rightarrow> string list \<Rightarrow> string" where
  "join_text sep [] = []"
| "join_text sep [s] = s"
| "join_text sep (s # t # ts) = s @ sep @ join_text sep (t # ts)"

definition hex_digit :: "nat \<Rightarrow> char" where
  "hex_digit n = (if n < 10 then char_of (48 + n) else char_of (87 + n))"

definition upper_hex_digit :: "nat \<Rightarrow> char" where
  "upper_hex_digit n = (if n < 10 then char_of (48 + n) else char_of (55 + n))"

text \<open>\<open>json.dumps\<close> with the separators \<open>","\<close> and \<open>":"\<close>: characters outside printable ASCII are escaped.\<close>

definition json_char :: "char \<Rightarrow> string" where
  "json_char c =
     (let n = (of_char c :: nat)
      in if n = 34 \<or> n = 92 then [CHR 0x5C, c]
         else if n = 10 then [CHR 0x5C, CHR ''n''] else if n = 13 then [CHR 0x5C, CHR ''r'']
         else if n = 9 then [CHR 0x5C, CHR ''t''] else if n = 8 then [CHR 0x5C, CHR ''b'']
         else if n = 12 then [CHR 0x5C, CHR ''f'']
         else if n < 32 \<or> 128 \<le> n then CHR 0x5C # ''u00'' @ [hex_digit (n div 16), hex_digit (n mod 16)]
         else [c])"

definition json_string :: "string \<Rightarrow> string" where
  "json_string s = CHR 0x22 # concat (map json_char s) @ [CHR 0x22]"

fun json_text :: "(flt \<Rightarrow> string) \<Rightarrow> pyval \<Rightarrow> string"
  and json_items :: "(flt \<Rightarrow> string) \<Rightarrow> pyval list \<Rightarrow> string list"
  and json_pairs :: "(flt \<Rightarrow> string) \<Rightarrow> (string \<times> pyval) list \<Rightarrow> string list" where
  "json_text rep VNone = ''null''"
| "json_text rep (VBool b) = (if b then ''true'' else ''false'')"
| "json_text rep (VInt i) = str_of_int i"
| "json_text rep (VFlt x) = rep x"
| "json_text rep (VStr s) = json_string s"
| "json_text rep (VList xs) = ''['' @ join_text '','' (json_items rep xs) @ '']''"
| "json_text rep (VDict d) = ''{'' @ join_text '','' (json_pairs rep d) @ ''}''"
| "json_items rep [] = []"
| "json_items rep (x # xs) = json_text rep x # json_items rep xs"
| "json_pairs rep [] = []"
| "json_pairs rep ((k, v) # d) = (json_string k @ '':'' @ json_text rep v) # json_pairs rep d"

text \<open>\<open>urllib.parse.urlencode\<close>, for ASCII text.\<close>

definition unreserved :: "char \<Rightarrow> bool" where
  "unreserved c \<longleftrightarrow>
     (let n = (of_char c :: nat) in 48 \<le> n \<and> n \<le> 57 \<or> 65 \<le> n \<and> n \<le> 90 \<or> 97 \<le> n \<and> n \<le> 122) \<or> c \<in> set ''_.-~''"

definition quote_plus_char :: "char \<Rightarrow> string" where
  "quote_plus_char c =
     (if unreserved c then [c] else if c = CHR '' '' then ''+''
      else let n = (of_char c :: nat) in [CHR ''%'', upper_hex_digit (n div 16), upper_hex_digit (n mod 16)])"

definition quote_plus :: "string \<Rightarrow> string" where
  "quote_plus s = concat (map quote_plus_char s)"

definition urlencode :: "(string, string) dict \<Rightarrow> string" where
  "urlencode ps = join_text ''&'' (map (\<lambda>(k, v). quote_plus k @ ''='' @ quote_plus v) ps)"

definition py_upper :: "string \<Rightarrow> string" where
  "py_upper s = map (\<lambda>c. let n = (of_char c :: nat) in if 97 \<le> n \<and> n \<le> 122 then char_of (n - 32) else c) s"

section \<open>Signing\<close>

record request_signer =
  sg_api_key :: string
  sg_api_secret :: string

definition signer_configured :: "request_signer \<Rightarrow> bool" where
  "signer_configured sg \<longleftrightarrow> sg_api_key sg \<noteq> [] \<and> sg_api_secret sg \<noteq> []"

definition now_timestamp :: "flt \<Rightarrow> string" where
  "now_timestamp epoch = str_of_int (trunc epoch)"

definition sign ::
  "(string \<Rightarrow> string \<Rightarrow> string) \<Rightarrow> flt \<Rightarrow> request_signer \<Rightarrow> string \<Rightarrow> string \<Rightarrow> string \<Rightarrow> string \<Rightarrow> string option \<Rightarrow> (string \<times> string) result" where
  "sign hmac_hex epoch sg http_method path query_string body timestamp =
     (if \<not> signer_configured sg then Inl RuntimeError
      else
        let given = the_or [] timestamp; ts = (if given \<noteq> [] then given else now_timestamp epoch)
        in Inr (ts, hmac_hex (sg_api_secret sg) (py_upper http_method @ ts @ path @ query_string @ body)))"

definition headers ::
  "(string \<Rightarrow> string \<Rightarrow> string) \<Rightarrow> flt \<Rightarrow> request_signer \<Rightarrow> string \<Rightarrow> string \<Rightarrow> string \<Rightarrow> string \<Rightarrow> string option \<Rightarrow> (string, string) dict result" where
  "headers hmac_hex epoch sg http_method path query_string body timestamp =
     bind_result (sign hmac_hex epoch sg http_method path query_string body timestamp) (\<lambda>(ts, signature).
       Inr [(''api-key'', sg_api_key sg), (''timestamp'', ts), (''signature'', signature)])"

section \<open>Requests\<close>

record http_request =
  hr_method :: string
  hr_url :: string
  hr_content :: "string option"
  hr_headers :: "(string, string) dict"

text \<open>The status of a response and the JSON value of its body, if it has one.\<close>

datatype http_answer = TransportError | Response int "pyval option"

record 'w rest_env =
  re_http :: "http_request \<Rightarrow> 'w \<Rightarrow> http_answer \<times> flt \<times> 'w"
  re_wake :: "flt \<Rightarrow> flt \<Rightarrow> flt"
  re_policy :: "nat \<Rightarrow> flt option"
  re_hmac :: "string \<Rightarrow> string \<Rightarrow> string"
  re_epoch :: "'w \<Rightarrow> flt"
  re_repr :: "flt \<Rightarrow> string"
  re_signer :: request_signer

text \<open>The client: its two buckets, the monotonic clock, and the requests sent so far with the bucket each one used.\<close>

record 'w rest_client =
  rc_general :: token_bucket
  rc_order :: token_bucket
  rc_now :: flt
  rc_sent :: "(bool \<times> http_request) list"
  rc_ext :: 'w

definition mk_rest_client :: "int \<Rightarrow> int \<Rightarrow> flt \<Rightarrow> 'w \<Rightarrow> 'w rest_client result" where
  "mk_rest_client rest_rps order_rps now w =
     bind_result (mk_token_bucket (of_int rest_rps) (Some (max 1 (of_int rest_rps * 10))) now) (\<lambda>g.
     bind_result (mk_token_bucket (of_int order_rps) (Some (max 1 (of_int order_rps * 10))) now) (\<lambda>b.
       Inr \<lparr>rc_general = g, rc_order = b, rc_now = now, rc_sent = [], rc_ext = w\<rparr>))"

record rest_call =
  call_method :: string
  call_path :: string
  call_params :: "(string, string) dict"
  call_json :: "(string, pyval) dict option"
  call_signed :: bool
  call_is_order :: bool

definition bucket_of :: "bool \<Rightarrow> 'w rest_client \<Rightarrow> token_bucket" where
  "bucket_of is_order c = (if is_order then rc_order c else rc_general c)"

definition put_bucket :: "bool \<Rightarrow> token_bucket \<Rightarrow> 'w rest_client \<Rightarrow> 'w rest_client" where
  "put_bucket is_order b c = (if is_order then c\<lparr>rc_order := b\<rparr> else c\<lparr>rc_general := b\<rparr>)"

definition call_body :: "(flt \<Rightarrow> string) \<Rightarrow> rest_call \<Rightarrow> string" where
  "call_body rep q = (case call_json q of None \<Rightarrow> [] | Some d \<Rightarrow> json_text rep (VDict d))"

definition call_query :: "rest_call \<Rightarrow> string" where
  "call_query q = (if call_params q = [] then [] else ''?'' @ urlencode (call_params q))"

text \<open>What an attempt ends with: the envelope, an exception that is retried, or one that is not.\<close>

datatype attempt = Envelope "(string, pyval) dict" | Retryable | Raised py_error

definition read_answer :: "http_answer \<Rightarrow> attempt" where
  "read_answer a =
     (case a of
        TransportError \<Rightarrow> Retryable
      | Response st body \<Rightarrow>
          if st = 429 \<or> 500 \<le> st \<and> st < 600 then Retryable
          else if st \<ge> 400 then Raised DeltaRestError
          else (case body of
                  Some (VDict d) \<Rightarrow> if vget d ''success'' = VBool False then Raised DeltaRestError else Envelope d
                | _ \<Rightarrow> Raised DeltaRestError))"

definition call_headers :: "'w rest_env \<Rightarrow> rest_call \<Rightarrow> 'w \<Rightarrow> (string, string) dict result" where
  "call_headers env q w =
     bind_result
       (if call_signed q
        then headers (re_hmac env) (re_epoch env w) (re_signer env) (call_method q) (call_path q) (call_query q)
               (call_body (re_repr env) q) None
        else Inr [])
       (\<lambda>h. Inr (if call_body (re_repr env) q \<noteq> [] then dict_set ''Content-Type'' ''application/json'' h else h))"

definition http_request_of :: "'w rest_env \<Rightarrow> rest_call \<Rightarrow> (string, string) dict \<Rightarrow> http_request" where
  "http_request_of env q h =
     (let body = call_body (re_repr env) q
      in \<lparr>hr_method = call_method q, hr_url = call_path q @ call_query q,
          hr_content = (if body = [] then None else Some body), hr_headers = h\<rparr>)"

text \<open>One attempt of \<open>_request\<close>.  \<open>None\<close>: the bucket's loop used up its fuel.\<close>

definition rest_attempt :: "'w rest_env \<Rightarrow> rest_call \<Rightarrow> 'w rest_client \<Rightarrow> (attempt \<times> 'w rest_client) option" where
  "rest_attempt env q c =
     (case acquire (re_wake env) 2 1 (rc_now c) (bucket_of (call_is_order q) c) of
        Inl e \<Rightarrow> Some (Raised e, c)
      | Inr None \<Rightarrow> None
      | Inr (Some (b, t)) \<Rightarrow>
          let c1 = (put_bucket (call_is_order q) b c)\<lparr>rc_now := t\<rparr>
          in (case call_headers env q (rc_ext c1) of
                Inl e \<Rightarrow> Some (Raised e, c1)
              | Inr h \<Rightarrow>
                  let rq = http_request_of env q h; (a, dur, w) = re_http env rq (rc_ext c1)
                  in Some (read_answer a,
                       c1\<lparr>rc_now := t + dur, rc_sent := rc_sent c1 @ [(call_is_order q, rq)], rc_ext := w\<rparr>)))"

fun rest_loop :: "'w rest_env \<Rightarrow> rest_call \<Rightarrow> nat \<Rightarrow> nat \<Rightarrow> 'w rest_client \<Rightarrow> ((string, pyval) dict result \<times> 'w rest_client) option" where
  "rest_loop env q 0 k c = None"
| "rest_loop env q (Suc fuel) k c =
     (case rest_attempt env q c of
        None \<Rightarrow> None
      | Some (Envelope d, c') \<Rightarrow> Some (Inr d, c')
      | Some (Raised e, c') \<Rightarrow> Some (Inl e, c')
      | Some (Retryable, c') \<Rightarrow>
          (case re_policy env (Suc k) of
             None \<Rightarrow> Some (Inl DeltaRestError, c')
           | Some d \<Rightarrow> rest_loop env q fuel (Suc k) (c'\<lparr>rc_now := re_wake env (rc_now c') d\<rparr>)))"

type_synonym ('w, 'a) rest_op = "'w rest_client \<Rightarrow> ('a result \<times> 'w rest_client) option"

definition rest_request :: "'w rest_env \<Rightarrow> nat \<Rightarrow> rest_call \<Rightarrow> ('w, (string, pyval) dict) rest_op" where
  "rest_request env fuel q c = rest_loop env q fuel 0 c"

section \<open>Endpoints\<close>

definition rest_map :: "('a \<Rightarrow> 'b result) \<Rightarrow> ('w, 'a) rest_op \<Rightarrow> ('w, 'b) rest_op" where
  "rest_map f m c = (case m c of None \<Rightarrow> None | Some (r, c') \<Rightarrow> Some (bind_result r f, c'))"

definition get_call :: "string \<Rightarrow> (string, string) dict \<Rightarrow> bool \<Rightarrow> rest_call" where
  "get_call path params signed =
     \<lparr>call_method = ''GET'', call_path = path, call_params = params, call_json = None, call_signed = signed, call_is_order = False\<rparr>"

definition order_call :: "string \<Rightarrow> string \<Rightarrow> (string, pyval) dict \<Rightarrow> rest_call" where
  "order_call http_method path payload =
     \<lparr>call_method = http_method, call_path = path, call_params = [], call_json = Some payload, call_signed = True, call_is_order = True\<rparr>"

text \<open>\<open>list(envelope.get("result", []))\<close>\<close>

definition list_of :: "pyval \<Rightarrow> pyval list result" where
  "list_of v =
     (case v of
        VList xs \<Rightarrow> Inr xs
      | VDict d \<Rightarrow> Inr (map (\<lambda>p. VStr (fst p)) d)
      | VStr s \<Rightarrow> Inr (map (\<lambda>c. VStr [c]) s)
      | _ \<Rightarrow> Inl TypeError)"

definition result_list :: "(string, pyval) dict \<Rightarrow> pyval list result" where
  "result_list d = list_of (the_or (VList []) (dict_get d ''result''))"

definition contract_params :: "string list \<Rightarrow> (string, string) dict" where
  "contract_params types = (if types = [] then [] else [(''contract_types'', join_text '','' types)])"

definition rest_get_products :: "'w rest_env \<Rightarrow> nat \<Rightarrow> string list \<Rightarrow> ('w, pyval list) rest_op" where
  "rest_get_products env fuel types = rest_map result_list (rest_request env fuel (get_call ''/v2/products'' (contract_params types) False))"

definition rest_get_tickers :: "'w rest_env \<Rightarrow> nat \<Rightarrow> string list \<Rightarrow> ('w, pyval list) rest_op" where
  "rest_get_tickers env fuel types = rest_map result_list (rest_request env fuel (get_call ''/v2/tickers'' (contract_params types) False))"

definition rest_get_ticker :: "'w rest_env \<Rightarrow> nat \<Rightarrow> string \<Rightarrow> ('w, (string, pyval) dict) rest_op" where
  "rest_get_ticker env fuel symbol =
     rest_map (\<lambda>d. case vget d ''result'' of VDict r \<Rightarrow> Inr r | _ \<Rightarrow> Inl DeltaRestError)
       (rest_request env fuel (get_call (''/v2/tickers/'' @ symbol) [] False))"

definition rest_get_candles :: "'w rest_env \<Rightarrow> nat \<Rightarrow> string \<Rightarrow> string \<Rightarrow> int \<Rightarrow> int \<Rightarrow> ('w, pyval list) rest_op" where
  "rest_get_candles env fuel symbol resolution start end_ts =
     rest_map result_list (rest_request env fuel (get_call ''/v2/history/candles''
       [(''symbol'', symbol), (''resolution'', resolution), (''start'', str_of_int start), (''end'', str_of_int end_ts)] False))"

definition rest_get_wallet_balances :: "'w rest_env \<Rightarrow> nat \<Rightarrow> ('w, pyval list) rest_op" where
  "rest_get_wallet_balances env fuel = rest_map result_list (rest_request env fuel (get_call ''/v2/wallet/balances'' [] True))"

definition rest_get_positions :: "'w rest_env \<Rightarrow> nat \<Rightarrow> ('w, pyval list) rest_op" where
  "rest_get_positions env fuel = rest_map result_list (rest_request env fuel (get_call ''/v2/positions/margined'' [] True))"

definition rest_get_open_orders :: "'w rest_env \<Rightarrow> nat \<Rightarrow> ('w, pyval list) rest_op" where
  "rest_get_open_orders env fuel = rest_map result_list (rest_request env fuel (get_call ''/v2/orders'' [(''state'', ''open'')] True))"

text \<open>\<open>dict(x)\<close> of an entry of the result that is neither a dictionary nor empty raises; lists of pairs are outside the model.\<close>

definition rest_get_order_by_client_id :: "'w rest_env \<Rightarrow> nat \<Rightarrow> string \<Rightarrow> ('w, (string, pyval) dict option) rest_op" where
  "rest_get_order_by_client_id env fuel coid =
     rest_map (\<lambda>d. case vget d ''result'' of
                     VList [] \<Rightarrow> Inr None
                   | VList (VDict r # _) \<Rightarrow> Inr (Some r)
                   | VList (VList [] # _) \<Rightarrow> Inr (Some [])
                   | VList (VStr [] # _) \<Rightarrow> Inr (Some [])
                   | VList (_ # _) \<Rightarrow> Inl TypeError
                   | VDict r \<Rightarrow> Inr (Some r)
                   | _ \<Rightarrow> Inr None)
       (rest_request env fuel (get_call ''/v2/orders'' [(''client_order_id'', coid)] True))"

definition rest_place_order :: "'w rest_env \<Rightarrow> nat \<Rightarrow> (string, pyval) dict \<Rightarrow> ('w, (string, pyval) dict) rest_op" where
  "rest_place_order env fuel payload =
     rest_map (\<lambda>d. case the_or (VDict []) (dict_get d ''result'') of VDict r \<Rightarrow> Inr r | _ \<Rightarrow> Inl DeltaRestError)
       (rest_request env fuel (order_call ''POST'' ''/v2/orders'' payload))"

definition dict_result :: "(string, pyval) dict \<Rightarrow> (string, pyval) dict result" where
  "dict_result d = (case the_or (VDict []) (dict_get d ''result'') of VDict r \<Rightarrow> Inr r | _ \<Rightarrow> Inr [])"

definition rest_cancel_order ::
  "'w rest_env \<Rightarrow> nat \<Rightarrow> int option \<Rightarrow> string option \<Rightarrow> int option \<Rightarrow> ('w, (string, pyval) dict) rest_op" where
  "rest_cancel_order env fuel order_id coid pid c =
     (if order_id = None \<and> coid = None then Some (Inl ValueError, c)
      else
        let payload = (case order_id of None \<Rightarrow> [] | Some i \<Rightarrow> [(''id'', VInt i)]) @
                      (case coid of None \<Rightarrow> [] | Some s \<Rightarrow> [(''client_order_id'', VStr s)]) @
                      (case pid of None \<Rightarrow> [] | Some p \<Rightarrow> [(''product_id'', VInt p)])
        in rest_map dict_result (rest_request env fuel (order_call ''DELETE'' ''/v2/orders'' payload)) c)"

definition rest_cancel_all_orders :: "'w rest_env \<Rightarrow> nat \<Rightarrow> int option \<Rightarrow> ('w, (string, pyval) dict) rest_op" where
  "rest_cancel_all_orders env fuel pid =
     rest_map dict_result (rest_request env fuel (order_call ''DELETE'' ''/v2/orders/all''
       (case pid of None \<Rightarrow> [] | Some p \<Rightarrow> [(''product_id'', VInt p)])))"

section \<open>The wallet\<close>

text \<open>\<open>pf\<close> is \<open>float(str)\<close>; \<open>err\<close> the text of the exception.\<close>

definition wallet_row :: "(string \<Rightarrow> flt option) \<Rightarrow> (string, pyval) dict \<Rightarrow> pyval" where
  "wallet_row pf item =
     VDict [(''asset_symbol'', py_or (py_or (vget item ''asset_symbol'') (vget item ''symbol'')) (vget item ''asset_id'')),
            (''balance'', opt_flt (as_float pf (vget item ''balance''))),
            (''available_balance'', opt_flt (as_float pf (py_or (vget item ''available_balance'') (vget item ''available'')))),
            (''portfolio_id'', vget item ''portfolio_id'')]"

fun wallet_rows :: "(string \<Rightarrow> flt option) \<Rightarrow> pyval list \<Rightarrow> pyval list" where
  "wallet_rows pf [] = []"
| "wallet_rows pf (VDict item # xs) = wallet_row pf item # wallet_rows pf xs"
| "wallet_rows pf (_ # xs) = wallet_rows pf xs"

definition fetch_wallet_snapshot ::
  "(string \<Rightarrow> flt option) \<Rightarrow> (py_error \<Rightarrow> string) \<Rightarrow> datetime \<Rightarrow> pyval list result \<Rightarrow> (string, pyval) dict result" where
  "fetch_wallet_snapshot pf err now raw =
     (let ts = VStr (isoformat now)
      in case raw of
           Inl e \<Rightarrow> if e = DeltaRestError then Inr [(''ts'', ts), (''error'', VStr (err e)), (''balances'', VList [])] else Inl e
         | Inr items \<Rightarrow> Inr [(''ts'', ts), (''balances'', VList (wallet_rows pf items))])"

section \<open>Properties: rate and retries\<close>

definition sent_of :: "bool \<Rightarrow> 'w rest_client \<Rightarrow> nat" where
  "sent_of f c = length (filter (\<lambda>p. fst p = f) (rc_sent c))"

definition client_ok :: "'w rest_client \<Rightarrow> bool" where
  "client_ok c \<longleftrightarrow> (\<forall>f. bucket_ok (rc_now c) (bucket_of f c) \<and> 1 \<le> tb_capacity (bucket_of f c))"

text \<open>
  What is documented of the surroundings: sleeps last as long as asked, an answer takes no negative time, and the
  retry library gives up exactly from \<open>max_attempts\<close> failed attempts on.
\<close>

definition env_ok :: "nat \<Rightarrow> 'w rest_env \<Rightarrow> bool" where
  "env_ok max_attempts env \<longleftrightarrow>
     sleeps (re_wake env) \<and> (\<forall>rq w. 0 \<le> fst (snd (re_http env rq w))) \<and> (\<forall>k. re_policy env k = None \<longleftrightarrow> max_attempts \<le> k)"

text \<open>
  The progress of a client: the clock does not go back, and the tokens of each bucket pay for the requests sent
  with it.
\<close>

definition paid :: "'w rest_client \<Rightarrow> 'w rest_client \<Rightarrow> bool" where
  "paid c c' \<longleftrightarrow>
     rc_now c \<le> rc_now c' \<and> client_ok c' \<and>
     (\<forall>f. tb_rate (bucket_of f c') = tb_rate (bucket_of f c) \<and> tb_capacity (bucket_of f c') = tb_capacity (bucket_of f c) \<and>
        level (rc_now c') (bucket_of f c') + real (sent_of f c') \<le>
          level (rc_now c) (bucket_of f c) + real (sent_of f c) + (rc_now c' - rc_now c) * tb_rate (bucket_of f c))"

lemma paid_refl: "client_ok c \<Longrightarrow> paid c c"
  by (simp add: paid_def)

lemma paid_trans:
  assumes "paid a b" and "paid b c"
  shows "paid a c"
  unfolding paid_def
proof (intro conjI allI)
  fix f
  let ?r = "tb_rate (bucket_of f a)"
  have "(rc_now b - rc_now a) * ?r + (rc_now c - rc_now b) * ?r = (rc_now c - rc_now a) * ?r" by (simp add: algebra_simps)
  moreover from assms have "level (rc_now b) (bucket_of f b) + real (sent_of f b) \<le>
      level (rc_now a) (bucket_of f a) + real (sent_of f a) + (rc_now b - rc_now a) * ?r"
    "level (rc_now c) (bucket_of f c) + real (sent_of f c) \<le>
      level (rc_now b) (bucket_of f b) + real (sent_of f b) + (rc_now c - rc_now b) * ?r" by (simp_all add: paid_def)
  ultimately show "level (rc_now c) (bucket_of f c) + real (sent_of f c) \<le>
      level (rc_now a) (bucket_of f a) + real (sent_of f a) + (rc_now c - rc_now a) * ?r" by linarith
qed (use assms in \<open>auto simp: paid_def\<close>)

lemma bucket_of_simps [simp]:
  "bucket_of f (put_bucket f b c) = b" "f \<noteq> g \<Longrightarrow> bucket_of f (put_bucket g b c) = bucket_of f c"
  "bucket_of f (c\<lparr>rc_now := t\<rparr>) = bucket_of f c" "bucket_of f (c\<lparr>rc_sent := l\<rparr>) = bucket_of f c"
  "bucket_of f (c\<lparr>rc_ext := w\<rparr>) = bucket_of f c" "rc_sent (put_bucket g b c) = rc_sent c" "rc_now (put_bucket g b c) = rc_now c"
  "rc_ext (put_bucket g b c) = rc_ext c"
  by (auto simp: bucket_of_def put_bucket_def)

lemma sent_of_simps [simp]:
  "sent_of f (put_bucket g b c) = sent_of f c" "sent_of f (c\<lparr>rc_now := t\<rparr>) = sent_of f c" "sent_of f (c\<lparr>rc_ext := w\<rparr>) = sent_of f c"
  "sent_of f (c\<lparr>rc_sent := l @ [(g, rq)]\<rparr>) = length (filter (\<lambda>p. fst p = f) l) + (if f = g then 1 else 0)"
  by (simp_all add: sent_of_def)

text \<open>Time alone.\<close>

lemma paid_later:
  assumes "client_ok c" and "rc_now c \<le> t"
  shows "paid c (c\<lparr>rc_now := t\<rparr>)"
  using assms level_later [of "rc_now c" _ t] bucket_ok_mono [of "rc_now c" _ t]
  by (auto simp: paid_def client_ok_def)

text \<open>A token of the bucket that is asked.\<close>

lemma paid_token:
  assumes "sleeps wake" and "client_ok c" and "acquire_loop wake fuel 1 (rc_now c) (bucket_of f c) = Some (b, t)"
  defines "c' \<equiv> (put_bucket f b c)\<lparr>rc_now := t\<rparr>"
  shows "rc_now c \<le> t" and "client_ok c'"
    and "\<forall>g. tb_rate (bucket_of g c') = tb_rate (bucket_of g c) \<and> tb_capacity (bucket_of g c') = tb_capacity (bucket_of g c) \<and>
       level t (bucket_of g c') + (if g = f then 1 else 0) \<le> level (rc_now c) (bucket_of g c) + (t - rc_now c) * tb_rate (bucket_of g c)"
proof -
  have ok: "bucket_ok (rc_now c) (bucket_of g c)" "1 \<le> tb_capacity (bucket_of g c)" for g
    using assms(2) by (simp_all add: client_ok_def)
  note g = acquire_loop_grant [OF assms(1,3) ok(1)]
  show t: "rc_now c \<le> t" using g by simp
  have bo: "bucket_of h c' = (if h = f then b else bucket_of h c)" for h by (simp add: c'_def)
  show "client_ok c'" unfolding client_ok_def bo using g ok bucket_ok_mono [OF ok(1) t] by (auto simp: c'_def)
  show "\<forall>g. tb_rate (bucket_of g c') = tb_rate (bucket_of g c) \<and> tb_capacity (bucket_of g c') = tb_capacity (bucket_of g c) \<and>
       level t (bucket_of g c') + (if g = f then 1 else 0) \<le> level (rc_now c) (bucket_of g c) + (t - rc_now c) * tb_rate (bucket_of g c)"
    unfolding bo using g level_later [OF ok(1) t] by auto
qed

lemma rest_attempt_paid:
  assumes "env_ok m env" and "client_ok c"
  shows "\<exists>a c'. rest_attempt env q c = Some (a, c') \<and> paid c c' \<and>
    (\<exists>new. rc_sent c' = rc_sent c @ new \<and> length new \<le> 1 \<and> (a = Retryable \<or> (\<exists>d. a = Envelope d) \<longrightarrow> new \<noteq> []) \<and>
       (\<forall>p \<in> set new. \<exists>h. p = (call_is_order q, http_request_of env q h)))"
proof -
  let ?f = "call_is_order q" let ?b = "bucket_of ?f c"
  have s: "sleeps (re_wake env)" and dur: "\<And>rq w. 0 \<le> fst (snd (re_http env rq w))" using assms(1) by (simp_all add: env_ok_def)
  have ok: "bucket_ok (rc_now c) ?b" "1 \<le> tb_capacity ?b" using assms(2) by (simp_all add: client_ok_def)
  obtain b t where a: "acquire_loop (re_wake env) 2 1 (rc_now c) ?b = Some (b, t)"
    using acquire_loop_returns [OF s ok(1,2), of 0] by (auto simp: numeral_2_eq_2)
  then have acq: "acquire (re_wake env) 2 1 (rc_now c) ?b = Inr (Some (b, t))" using ok(2) by (simp add: acquire_def)
  let ?c1 = "(put_bucket ?f b c)\<lparr>rc_now := t\<rparr>"
  note tok = paid_token [OF s assms(2) a]
  have sent1: "sent_of g ?c1 = sent_of g c" for g by simp
  have p1: "paid c ?c1" unfolding paid_def using tok by (fastforce simp: sent1 split: if_splits)
  show ?thesis
  proof (cases "call_headers env q (rc_ext c)")
    case (Inl e)
    with acq p1 show ?thesis by (intro exI [of _ "Raised e"] exI [of _ ?c1]) (simp add: rest_attempt_def)
  next
    case (Inr h)
    let ?rq = "http_request_of env q h"
    obtain ans d w where r: "re_http env ?rq (rc_ext c) = (ans, d, w)" by (metis prod_cases3)
    have d: "0 \<le> d" using dur [of ?rq "rc_ext c"] r by simp
    let ?c2 = "?c1\<lparr>rc_now := t + d, rc_sent := rc_sent c @ [(?f, ?rq)], rc_ext := w\<rparr>"
    have "paid c ?c2"
      unfolding paid_def
    proof (intro conjI allI)
      have later: "client_ok (?c1\<lparr>rc_now := t + d\<rparr>)" using paid_later [OF tok(2), of "t + d"] d by (simp add: paid_def)
      then show "client_ok ?c2" by (simp add: client_ok_def)
      show "rc_now c \<le> rc_now ?c2" using tok(1) d by simp
      fix g
      have "level (t + d) (bucket_of g ?c1) \<le> level t (bucket_of g ?c1) + d * tb_rate (bucket_of g c)"
        using level_later [of t "bucket_of g ?c1" "t + d"] tok(2,3) d by (simp add: client_ok_def)
      moreover have "level t (bucket_of g ?c1) + (if g = ?f then 1 else 0) \<le>
          level (rc_now c) (bucket_of g c) + (t - rc_now c) * tb_rate (bucket_of g c)" using tok(3) by blast
      moreover have "(t - rc_now c) * tb_rate (bucket_of g c) + d * tb_rate (bucket_of g c) = (t + d - rc_now c) * tb_rate (bucket_of g c)"
        by (simp add: algebra_simps)
      moreover have "real (sent_of g ?c2) = real (sent_of g c) + (if g = ?f then 1 else 0)" by (simp add: sent_of_def)
      ultimately have "level (t + d) (bucket_of g ?c1) + real (sent_of g ?c2)
          \<le> level (rc_now c) (bucket_of g c) + real (sent_of g c) + (t + d - rc_now c) * tb_rate (bucket_of g c)" by linarith
      then show "level (rc_now ?c2) (bucket_of g ?c2) + real (sent_of g ?c2)
          \<le> level (rc_now c) (bucket_of g c) + real (sent_of g c) + (rc_now ?c2 - rc_now c) * tb_rate (bucket_of g c)" by simp
      show "tb_rate (bucket_of g ?c2) = tb_rate (bucket_of g c)" "tb_capacity (bucket_of g ?c2) = tb_capacity (bucket_of g c)"
        using tok(3) by simp_all
    qed
    moreover have "rest_attempt env q c = Some (read_answer ans, ?c2)" using acq Inr r by (simp add: rest_attempt_def)
    ultimately show ?thesis by (intro exI [of _ "read_answer ans"] exI [of _ ?c2]) auto
  qed
qed

text \<open>The requests of one call differ at most in their headers: the time and the signature.\<close>

definition same_request :: "'w rest_env \<Rightarrow> rest_call \<Rightarrow> bool \<times> http_request \<Rightarrow> bool" where
  "same_request env q p \<longleftrightarrow>
     fst p = call_is_order q \<and> hr_method (snd p) = call_method q \<and> hr_url (snd p) = call_path q @ call_query q \<and>
     hr_content (snd p) = (let body = call_body (re_repr env) q in if body = [] then None else Some body)"

lemma rest_loop_paid:
  assumes "env_ok m env" and "client_ok c" and "m - k \<le> Suc fuel"
  shows "\<exists>r c' new. rest_loop env q (Suc fuel) k c = Some (r, c') \<and> paid c c' \<and> rc_sent c' = rc_sent c @ new \<and>
    length new \<le> max 1 (m - k) \<and> (\<forall>p \<in> set new. same_request env q p) \<and> ((\<exists>d. r = Inr d) \<longrightarrow> new \<noteq> [])"
  using assms(2,3)
proof (induction fuel arbitrary: k c)
  case (0 k c)
  from rest_attempt_paid [OF assms(1) 0(1), of q] obtain a c' new where
    a: "rest_attempt env q c = Some (a, c')" "paid c c'" "rc_sent c' = rc_sent c @ new" "length new \<le> 1"
       "(\<exists>d. a = Envelope d) \<longrightarrow> new \<noteq> []" "\<forall>p \<in> set new. same_request env q p"
    by (fastforce simp: same_request_def http_request_of_def Let_def)
  have stop: "re_policy env (Suc k) = None" using assms(1) 0(2) by (simp add: env_ok_def)
  with a show ?case by (cases a) auto
next
  case (Suc fuel k c)
  from rest_attempt_paid [OF assms(1) Suc.prems(1), of q] obtain a c' new where
    a: "rest_attempt env q c = Some (a, c')" "paid c c'" "rc_sent c' = rc_sent c @ new" "length new \<le> 1"
       "(\<exists>d. a = Envelope d) \<longrightarrow> new \<noteq> []" "\<forall>p \<in> set new. same_request env q p"
    by (fastforce simp: same_request_def http_request_of_def Let_def)
  show ?case
  proof (cases "a = Retryable \<and> re_policy env (Suc k) \<noteq> None")
    case False
    with a show ?thesis by (cases a) auto
  next
    case True
    then obtain d where d: "re_policy env (Suc k) = Some d" by blast
    have "re_policy env (Suc k) = None \<longleftrightarrow> m \<le> Suc k" using assms(1) by (simp add: env_ok_def)
    with d have k: "Suc k < m" by simp
    let ?c2 = "c'\<lparr>rc_now := re_wake env (rc_now c') d\<rparr>"
    have ok: "client_ok c'" using a(2) by (simp add: paid_def)
    have "rc_now c' \<le> re_wake env (rc_now c') d" using assms(1) sleepsD(1) by (simp add: env_ok_def)
    from paid_later [OF ok this] have p2: "paid c' ?c2" .
    then have "client_ok ?c2" by (simp add: paid_def)
    moreover have "m - Suc k \<le> Suc fuel" using Suc.prems(2) by simp
    ultimately obtain r c3 new2 where
      ih: "rest_loop env q (Suc fuel) (Suc k) ?c2 = Some (r, c3)" "paid ?c2 c3" "rc_sent c3 = rc_sent c' @ new2"
          "length new2 \<le> max 1 (m - Suc k)" "\<forall>p \<in> set new2. same_request env q p" "(\<exists>d. r = Inr d) \<longrightarrow> new2 \<noteq> []"
      using Suc.IH [of ?c2 "Suc k"] by fastforce
    have "rest_loop env q (Suc (Suc fuel)) k c = Some (r, c3)" using True a(1) d ih(1) by simp
    moreover have "paid c c3" using paid_trans [OF a(2) paid_trans [OF p2 ih(2)]] .
    moreover have "length (new @ new2) \<le> max 1 (m - k)" using a(4) ih(4) k by (simp only: length_append)
    ultimately show ?thesis using a(3,6) ih(3,5,6)
      by (intro exI [of _ r] exI [of _ c3] exI [of _ "new @ new2"]) auto
  qed
qed

lemma rest_request_paid:
  assumes "env_ok m env" and "0 < m" and "client_ok c"
  shows "\<exists>r c' new. rest_request env m q c = Some (r, c') \<and> paid c c' \<and> rc_sent c' = rc_sent c @ new \<and>
    length new \<le> m \<and> (\<forall>p \<in> set new. same_request env q p) \<and> ((\<exists>d. r = Inr d) \<longrightarrow> new \<noteq> [])"
proof -
  obtain n where n: "m = Suc n" using assms(2) gr0_implies_Suc by blast
  from rest_loop_paid [OF assms(1,3), of 0 n q] show ?thesis by (simp add: rest_request_def n)
qed

text \<open>A session of the client: calls with idle times between them.\<close>

fun rest_session :: "'w rest_env \<Rightarrow> nat \<Rightarrow> (flt \<times> rest_call) list \<Rightarrow> 'w rest_client \<Rightarrow> 'w rest_client option" where
  "rest_session env fuel [] c = Some c"
| "rest_session env fuel ((idle, q) # qs) c =
     (case rest_request env fuel q (c\<lparr>rc_now := rc_now c + idle\<rparr>) of
        None \<Rightarrow> None
      | Some (_, c') \<Rightarrow> rest_session env fuel qs c')"

lemma rest_session_paid:
  assumes "env_ok m env" and "0 < m" and "client_ok c" and "\<forall>p \<in> set qs. 0 \<le> fst p"
  shows "\<exists>c'. rest_session env m qs c = Some c' \<and> paid c c'"
  using assms(3,4)
proof (induction qs arbitrary: c)
  case (Cons p qs)
  obtain idle q where p: "p = (idle, q)" by (cases p)
  let ?c1 = "c\<lparr>rc_now := rc_now c + idle\<rparr>"
  have p1: "paid c ?c1" using paid_later [OF Cons.prems(1)] Cons.prems(2) p by simp
  then have "client_ok ?c1" by (simp add: paid_def)
  from rest_request_paid [OF assms(1,2) this, of q] obtain r c2 where
    r: "rest_request env m q ?c1 = Some (r, c2)" "paid ?c1 c2" by blast
  then have "client_ok c2" by (simp add: paid_def)
  from Cons.IH [OF this] Cons.prems(2) obtain c3 where "rest_session env m qs c2 = Some c3" "paid c2 c3" by auto
  with r p show ?case using paid_trans [OF p1 paid_trans [OF r(2)]] by auto
qed (simp add: paid_refl)

lemma mk_rest_client_ok: "mk_rest_client rest_rps order_rps now w = Inr c \<Longrightarrow> client_ok c"
  by (auto simp: mk_rest_client_def client_ok_def bucket_of_def mk_token_bucket_def bucket_ok_def Let_def split: if_splits)

section \<open>Claims\<close>

text \<open>
  C16: a call of the client returns; it sends at most \<open>max_attempts\<close> requests, and all of them are the same request:
  method, address and body never change between attempts, so that a repeated order carries the same client order
  id.  A call that answers with an envelope has sent at least one.
\<close>

theorem rest_retries_same_request:
  assumes "env_ok max_attempts env" and "0 < max_attempts" and "client_ok c"
  shows "\<exists>r c' new. rest_request env max_attempts q c = Some (r, c') \<and> rc_sent c' = rc_sent c @ new \<and> length new \<le> max_attempts \<and>
    list_all (same_request env q) new \<and> (new \<noteq> [] \<or> (\<exists>e. r = Inl e))"
  using rest_request_paid [OF assms, of q] by (metis list.pred_set sum.exhaust)

text \<open>
  C15: over any session of the client, whatever the calls, the answers and the retries, the order requests sent are
  at most the capacity of the order bucket plus its rate times the elapsed time, and the other requests likewise with
  theirs.
\<close>

theorem rest_rate_bounded:
  assumes "env_ok max_attempts env" and "0 < max_attempts" and "mk_rest_client rest_rps order_rps now w = Inr c"
    and "\<forall>p \<in> set qs. 0 \<le> fst p"
  shows "\<exists>c'. rest_session env max_attempts qs c = Some c' \<and> now \<le> rc_now c' \<and>
    real (sent_of True c') \<le> tb_capacity (rc_order c) + (rc_now c' - now) * of_int order_rps \<and>
    real (sent_of False c') \<le> tb_capacity (rc_general c) + (rc_now c' - now) * of_int rest_rps"
proof -
  have ok: "client_ok c" using mk_rest_client_ok [OF assms(3)] .
  have c: "rc_now c = now" "sent_of f c = 0" "tb_rate (rc_order c) = of_int order_rps" "tb_rate (rc_general c) = of_int rest_rps" for f
    using assms(3) by (auto simp: mk_rest_client_def mk_token_bucket_def sent_of_def Let_def split: if_splits)
  obtain c' where c': "rest_session env max_attempts qs c = Some c'" "paid c c'"
    using rest_session_paid [OF assms(1,2) ok assms(4)] by blast
  have "real (sent_of f c') \<le> tb_capacity (bucket_of f c) + (rc_now c' - now) * tb_rate (bucket_of f c)" for f
  proof -
    have "bucket_ok (rc_now c) (bucket_of f c)" "bucket_ok (rc_now c') (bucket_of f c')" using ok c'(2) by (simp_all add: client_ok_def paid_def)
    note lb = level_bounds [OF this(1)] level_bounds [OF this(2)]
    have "level (rc_now c') (bucket_of f c') + real (sent_of f c') \<le>
        level (rc_now c) (bucket_of f c) + (rc_now c' - now) * tb_rate (bucket_of f c)" using c'(2) c(1,2) by (simp add: paid_def)
    with lb show ?thesis by linarith
  qed
  from this [of True] this [of False] c c' show ?thesis by (auto simp: bucket_of_def paid_def)
qed

text \<open>An exchange that answers 503 twice and then accepts; its state counts the requests.\<close>

definition flaky_env :: "nat rest_env" where
  "flaky_env =
     \<lparr>re_http = (\<lambda>_ n. (if n < 2 then Response 503 None else Response 200 (Some (VDict [(''success'', VBool True)])), 0, Suc n)),
      re_wake = (\<lambda>t d. t + max 0 d), re_policy = (\<lambda>k. if 4 \<le> k then None else Some 1), re_hmac = (\<lambda>_ _. ''h''), re_epoch = (\<lambda>_. 0),
      re_repr = (\<lambda>_. ''0''), re_signer = \<lparr>sg_api_key = ''k'', sg_api_secret = ''s''\<rparr>\<rparr>"

lemma flaky_env_ok: "env_ok 4 flaky_env"
  by (simp add: env_ok_def flaky_env_def sleeps_def)

definition flaky_client :: "nat rest_client" where
  "flaky_client =
     \<lparr>rc_general = \<lparr>tb_rate = 5, tb_capacity = 50, tb_tokens = 50, tb_last_refill = 0\<rparr>,
      rc_order = \<lparr>tb_rate = 5, tb_capacity = 50, tb_tokens = 50, tb_last_refill = 0\<rparr>, rc_now = 0, rc_sent = [], rc_ext = 0\<rparr>"

lemma flaky_client_made: "mk_rest_client 5 5 0 0 = Inr flaky_client"
  by (simp add: mk_rest_client_def mk_token_bucket_def flaky_client_def)

definition flaky_call :: rest_call where
  "flaky_call = order_call ''POST'' ''/v2/orders'' [(''client_order_id'', VStr ''c'')]"

lemma flaky_run:
  "\<exists>c'. rest_request flaky_env 4 flaky_call flaky_client = Some (Inr [(''success'', VBool True)], c') \<and> length (rc_sent c') = 3 \<and> rc_now c' = 2"
  by (simp add: rest_request_def eval_nat_numeral flaky_env_def flaky_client_def flaky_call_def order_call_def rest_attempt_def acquire_def refill_locked_def
      bucket_of_def put_bucket_def call_headers_def headers_def sign_def signer_configured_def read_answer_def vget_def dict_get_def Let_def)

theorem rest_retries_same_request_witness:
  "\<exists>r c'. rest_request flaky_env 4 flaky_call flaky_client = Some (r, c') \<and> length (rc_sent c') = 3 \<and>
     list_all (same_request flaky_env flaky_call) (rc_sent c')"
proof -
  obtain c' where e: "rest_request flaky_env 4 flaky_call flaky_client = Some (Inr [(''success'', VBool True)], c')" "length (rc_sent c') = 3"
    using flaky_run by blast
  have "rc_sent flaky_client = []" by (simp add: flaky_client_def)
  with rest_retries_same_request [OF flaky_env_ok _ mk_rest_client_ok [OF flaky_client_made], of flaky_call] e show ?thesis by auto
qed

theorem rest_rate_bounded_witness:
  "\<exists>c'. rest_session flaky_env 4 [(0, flaky_call)] flaky_client = Some c' \<and> sent_of True c' = 3 \<and> real 3 \<le> 50 + rc_now c' * 5"
proof -
  obtain c' where e: "rest_request flaky_env 4 flaky_call flaky_client = Some (Inr [(''success'', VBool True)], c')" "length (rc_sent c') = 3"
    using flaky_run by blast
  have same: "flaky_client\<lparr>rc_now := rc_now flaky_client + 0\<rparr> = flaky_client" by simp
  have s: "rest_session flaky_env 4 [(0, flaky_call)] flaky_client = Some c'" using e(1) same by simp
  obtain new where new: "rc_sent c' = rc_sent flaky_client @ new" "\<forall>p \<in> set new. same_request flaky_env flaky_call p"
    using rest_request_paid [OF flaky_env_ok _ mk_rest_client_ok [OF flaky_client_made], of flaky_call] e(1) by auto
  then have "\<forall>p \<in> set (rc_sent c'). fst p" by (simp add: same_request_def flaky_client_def flaky_call_def order_call_def)
  then have "sent_of True c' = 3" using e(2) by (simp add: sent_of_def filter_id_conv)
  with rest_rate_bounded [OF flaky_env_ok _ flaky_client_made, of "[(0, flaky_call)]"] s show ?thesis by (auto simp: flaky_client_def)
qed

end
