(* ===== verification/Ws.thy ===== *)
theory Ws
  imports Prelude "HOL-Library.Sublist"
begin

text \<open>
  The websocket client (\<open>bot/exchange/ws.py\<close>).  What happens on a connection is a list of events: frames with the
  time they arrive, the loss of the connection, a \<open>get\<close> of the consumer and a call of \<open>stop\<close>.  \<open>loads\<close> stands for
  \<open>json.loads\<close> (\<open>None\<close> is \<open>ValueError\<close>); what is sent is kept as the value whose JSON text goes out.  The messages
  that \<open>messages\<close> has yielded are a field of the state.
\<close>

section \<open>Subscriptions and the client\<close>

definition DEFAULT_MAX_BACKOFF :: flt where "DEFAULT_MAX_BACKOFF = 60"
definition DEFAULT_INITIAL_BACKOFF :: flt where "DEFAULT_INITIAL_BACKOFF = 1"

type_synonym message = "(string, pyval) dict"

record subscription =
  sub_channel :: string
  sub_symbols :: "string list"

definition sub_payload :: "subscription \<Rightarrow> pyval" where
  "sub_payload s = VDict [(''name'', VStr (sub_channel s)), (''symbols'', VList (map VStr (sub_symbols s)))]"

record ws_stats =
  connected :: bool
  connection_count :: nat
  last_message_ts :: flt
  messages_received :: nat
  reconnects :: nat

definition heartbeat_age_seconds :: "flt \<Rightarrow> ws_stats \<Rightarrow> flt" where
  "heartbeat_age_seconds now s = now - last_message_ts s"

record ws_client =
  ws_subs :: "subscription list"
  ws_queue :: "message list"
  ws_maxsize :: int
  ws_stop :: bool
  initial_backoff :: flt
  max_backoff :: flt
  ws_stats_of :: ws_stats
  ws_sent :: "pyval list"
  ws_yielded :: "message list"

definition mk_ws_client :: "subscription list \<Rightarrow> int \<Rightarrow> flt \<Rightarrow> flt \<Rightarrow> flt \<Rightarrow> ws_client result" where
  "mk_ws_client subs maxsize init mx now =
     (if subs = [] then Inl ValueError
      else Inr \<lparr>ws_subs = subs, ws_queue = [], ws_maxsize = maxsize, ws_stop = False, initial_backoff = init, max_backoff = mx,
                ws_stats_of = \<lparr>connected = False, connection_count = 0, last_message_ts = now, messages_received = 0, reconnects = 0\<rparr>,
                ws_sent = [], ws_yielded = []\<rparr>)"

definition ws_request_stop :: "ws_client \<Rightarrow> ws_client" where
  "ws_request_stop c = c\<lparr>ws_stop := True\<rparr>"

text \<open>\<open>put_nowait\<close> with \<open>QueueFull\<close> suppressed: a full queue drops the message.  A bound of zero is no bound.\<close>

definition put_nowait :: "message \<Rightarrow> ws_client \<Rightarrow> ws_client" where
  "put_nowait msg c =
     (if 0 < ws_maxsize c \<and> ws_maxsize c \<le> int (length (ws_queue c)) then c else c\<lparr>ws_queue := ws_queue c @ [msg]\<rparr>)"

text \<open>
  One round of \<open>messages\<close>: a round does not begin after a stop, and an empty queue waits.  A round that began before
  the stop still yields what it then gets.
\<close>

definition next_message :: "bool \<Rightarrow> ws_client \<Rightarrow> ws_client" where
  "next_message began c =
     (if ws_stop c \<and> \<not> began then c
      else case ws_queue c of [] \<Rightarrow> c | msg # rest \<Rightarrow> c\<lparr>ws_queue := rest, ws_yielded := ws_yielded c @ [msg]\<rparr>)"

section \<open>A connection\<close>

definition ws_parse :: "(string \<Rightarrow> pyval option) \<Rightarrow> string \<Rightarrow> message option" where
  "ws_parse loads raw = (case loads raw of Some (VDict d) \<Rightarrow> Some d | _ \<Rightarrow> None)"

definition receive :: "(string \<Rightarrow> pyval option) \<Rightarrow> string \<Rightarrow> flt \<Rightarrow> ws_client \<Rightarrow> ws_client" where
  "receive loads raw now c =
     (let s = ws_stats_of c;
          c1 = c\<lparr>ws_stats_of := s\<lparr>last_message_ts := now, messages_received := messages_received s + 1\<rparr>\<rparr>
      in case ws_parse loads raw of
           None \<Rightarrow> c1
         | Some msg \<Rightarrow> if vget msg ''type'' = VStr ''heartbeat'' then c1 else put_nowait msg c1)"

datatype ws_event = Frame string flt | Get bool | Stop | Lost

datatype pump_outcome = Stopped | Raised | Waiting

text \<open>
  \<open>_pump\<close>: the flag is tested before every \<open>recv\<close>, and a stop does not end a \<open>recv\<close> that waits.
\<close>

fun recv :: "(string \<Rightarrow> pyval option) \<Rightarrow> ws_event list \<Rightarrow> ws_client \<Rightarrow> pump_outcome \<times> ws_client" where
  "recv loads [] c = (Waiting, c)"
| "recv loads (e # es) c =
     (case e of
        Frame raw now \<Rightarrow> let c1 = receive loads raw now c in if ws_stop c1 then (Stopped, c1) else recv loads es c1
      | Get began \<Rightarrow> recv loads es (next_message began c)
      | Stop \<Rightarrow> recv loads es (ws_request_stop c)
      | Lost \<Rightarrow> (Raised, c))"

definition pump :: "(string \<Rightarrow> pyval option) \<Rightarrow> ws_event list \<Rightarrow> ws_client \<Rightarrow> pump_outcome \<times> ws_client" where
  "pump loads es c = (if ws_stop c then (Stopped, c) else recv loads es c)"

definition subscribe_message :: "ws_client \<Rightarrow> pyval" where
  "subscribe_message c =
     VDict [(''type'', VStr ''subscribe''), (''payload'', VDict [(''channels'', VList (map sub_payload (ws_subs c)))])]"

definition heartbeat_message :: pyval where
  "heartbeat_message = VDict [(''type'', VStr ''enable_heartbeat'')]"

text \<open>An attempt to connect: it is refused, or it is open and the first \<open>n\<close> sends of two succeed before the events.\<close>

datatype ws_attempt = Refused | Opened nat "ws_event list"

definition connect_and_pump :: "(string \<Rightarrow> pyval option) \<Rightarrow> ws_attempt \<Rightarrow> ws_client \<Rightarrow> pump_outcome \<times> ws_client" where
  "connect_and_pump loads a c =
     (case a of
        Refused \<Rightarrow> (Raised, c)
      | Opened n es \<Rightarrow>
          let s = ws_stats_of c;
              c1 = c\<lparr>ws_stats_of := s\<lparr>connected := True, connection_count := connection_count s + 1\<rparr>\<rparr>;
              c2 = c1\<lparr>ws_sent := ws_sent c1 @ take n [subscribe_message c1, heartbeat_message]\<rparr>
          in if n < 2 then (Raised, c2) else pump loads es c2)"

section \<open>The reconnect loop\<close>

definition next_backoff :: "ws_client \<Rightarrow> flt \<Rightarrow> flt \<Rightarrow> flt" where
  "next_backoff c backoff jitter = min (max_backoff c) (max (initial_backoff c) (backoff * 2 * jitter))"

definition note_loss :: "ws_client \<Rightarrow> ws_client" where
  "note_loss c = (let s = ws_stats_of c in c\<lparr>ws_stats_of := s\<lparr>connected := False, reconnects := reconnects s + 1\<rparr>\<rparr>)"

text \<open>
  \<open>run\<close>: each round has an attempt, whether a stop comes during the wait after it, and the jitter drawn.  The result
  lists the waits.
\<close>

fun ws_run :: "(string \<Rightarrow> pyval option) \<Rightarrow> (ws_attempt \<times> bool \<times> flt) list \<Rightarrow> flt \<Rightarrow> ws_client \<Rightarrow> flt list \<times> ws_client" where
  "ws_run loads [] backoff c = ([], c)"
| "ws_run loads ((a, stopped, jitter) # rest) backoff c =
     (if ws_stop c then ([], c)
      else
        case connect_and_pump loads a c of
          (Stopped, c1) \<Rightarrow> ws_run loads rest (initial_backoff c1) c1
        | (Waiting, c1) \<Rightarrow> ([], c1)
        | (Raised, c1) \<Rightarrow>
            let c2 = note_loss c1; c3 = (if stopped then ws_request_stop c2 else c2);
                (waits, c4) = ws_run loads rest (next_backoff c3 backoff jitter) c3
            in (backoff # waits, c4))"

section \<open>Properties\<close>

text \<open>What a connection never changes.\<close>

definition ws_frame :: "ws_client \<Rightarrow> ws_client \<Rightarrow> bool" where
  "ws_frame c c' \<longleftrightarrow> ws_subs c' = ws_subs c \<and> ws_maxsize c' = ws_maxsize c \<and> initial_backoff c' = initial_backoff c \<and>
     max_backoff c' = max_backoff c \<and> (ws_stop c \<longrightarrow> ws_stop c')"

lemma ws_frame_refl [simp, intro]: "ws_frame c c"
  by (simp add: ws_frame_def)

lemma ws_frame_trans [trans]: "ws_frame a b \<Longrightarrow> ws_frame b c \<Longrightarrow> ws_frame a c"
  by (simp add: ws_frame_def)

lemma ws_step_frame [simp]:
  "ws_frame c (put_nowait msg c)" "ws_frame c (next_message began c)" "ws_frame c (ws_request_stop c)" "ws_frame c (receive loads raw now c)"
  by (simp_all add: ws_frame_def put_nowait_def next_message_def ws_request_stop_def receive_def Let_def split: list.split option.split)

text \<open>What the client may still hand on: the yielded messages, then the queue.\<close>

definition handed_on :: "ws_client \<Rightarrow> message list" where
  "handed_on c = ws_yielded c @ ws_queue c"

definition accepted :: "(string \<Rightarrow> pyval option) \<Rightarrow> ws_event \<Rightarrow> message list" where
  "accepted loads e =
     (case e of
        Frame raw now \<Rightarrow> (case ws_parse loads raw of
             None \<Rightarrow> [] | Some msg \<Rightarrow> if vget msg ''type'' = VStr ''heartbeat'' then [] else [msg])
      | _ \<Rightarrow> [])"

definition queue_ok :: "ws_client \<Rightarrow> bool" where
  "queue_ok c \<longleftrightarrow> (0 < ws_maxsize c \<longrightarrow> int (length (ws_queue c)) \<le> ws_maxsize c)"

lemma handed_on_next [simp]: "handed_on (next_message began c) = handed_on c"
  by (simp add: next_message_def handed_on_def split: list.split)

lemma handed_on_stop [simp]: "handed_on (ws_request_stop c) = handed_on c"
  by (simp add: ws_request_stop_def handed_on_def)

lemma queue_ok_step [simp]:
  "queue_ok c \<Longrightarrow> queue_ok (next_message began c)" "queue_ok c \<Longrightarrow> queue_ok (ws_request_stop c)" "queue_ok c \<Longrightarrow> queue_ok (receive loads raw now c)"
  by (auto simp: queue_ok_def next_message_def ws_request_stop_def receive_def put_nowait_def Let_def split: list.split option.split)

lemma handed_on_receive:
  "handed_on (receive loads raw now c) = handed_on c \<or> handed_on (receive loads raw now c) = handed_on c @ accepted loads (Frame raw now)"
  by (simp add: receive_def accepted_def put_nowait_def handed_on_def Let_def split: option.split)

text \<open>The messages of a connection pass in order, without copies, and only a full queue drops some.\<close>

definition passes :: "(string \<Rightarrow> pyval option) \<Rightarrow> ws_event list \<Rightarrow> ws_client \<Rightarrow> ws_client \<Rightarrow> bool" where
  "passes loads es c c' \<longleftrightarrow> ws_frame c c' \<and> (queue_ok c \<longrightarrow> queue_ok c') \<and>
     (\<exists>xs. subseq xs (concat (map (accepted loads) es)) \<and> handed_on c' = handed_on c @ xs)"

lemma passes_refl [simp, intro]: "passes loads es c c"
  by (auto simp: passes_def intro: exI [of _ "[]"])

lemma passes_Cons:
  assumes "ws_frame c c1" and "queue_ok c \<longrightarrow> queue_ok c1"
    and "handed_on c1 = handed_on c @ ys" and "subseq ys (accepted loads e)"
    and "passes loads es c1 c'"
  shows "passes loads (e # es) c c'"
proof -
  obtain xs where xs: "subseq xs (concat (map (accepted loads) es))" "handed_on c' = handed_on c1 @ xs"
    using assms(5) by (auto simp: passes_def)
  have "subseq (ys @ xs) (concat (map (accepted loads) (e # es)))" using xs(1) assms(4) list_emb_append_mono by auto
  then have 1: "\<exists>zs. subseq zs (concat (map (accepted loads) (e # es))) \<and> handed_on c' = handed_on c @ zs"
    using xs(2) assms(3) by (intro exI [of _ "ys @ xs"]) simp
  have "ws_frame c c'" using assms(1,5) ws_frame_trans by (auto simp: passes_def)
  with 1 show ?thesis using assms(2,5) by (simp add: passes_def)
qed

lemma recv_order:
  "recv loads es c = (out, c') \<Longrightarrow> passes loads es c c' \<and> (out = Stopped \<longrightarrow> ws_stop c')"
proof (induction es arbitrary: c)
  case Nil
  then show ?case by auto
next
  case (Cons e es)
  show ?case
  proof (cases e)
    case (Frame raw now)
    let ?c = "receive loads raw now c"
    have ih: "passes loads es ?c c' \<and> (out = Stopped \<longrightarrow> ws_stop c')"
      using Cons Frame by (cases "ws_stop ?c") auto
    obtain ys where "handed_on ?c = handed_on c @ ys" "subseq ys (accepted loads e)"
      using handed_on_receive [of loads raw now c] Frame by auto
    from passes_Cons [OF _ _ this] ih show ?thesis by simp
  next
    case (Get began)
    with Cons.prems have "recv loads es (next_message began c) = (out, c')" by simp
    from Cons.IH [OF this] show ?thesis using Get by (auto simp: accepted_def intro: passes_Cons [of _ "next_message began c" "[]"])
  next
    case Stop
    with Cons.prems have "recv loads es (ws_request_stop c) = (out, c')" by simp
    from Cons.IH [OF this] show ?thesis using Stop by (auto simp: accepted_def intro: passes_Cons [of _ "ws_request_stop c" "[]"])
  next
    case Lost
    with Cons.prems show ?thesis by auto
  qed
qed

lemma pump_order: "pump loads es c = (out, c') \<Longrightarrow> passes loads es c c' \<and> (out = Stopped \<longrightarrow> ws_stop c')"
  using recv_order by (auto simp: pump_def split: if_splits)

section \<open>The reconnect loop\<close>

definition attempt_events :: "ws_attempt \<Rightarrow> ws_event list" where
  "attempt_events a = (case a of Refused \<Rightarrow> [] | Opened n es \<Rightarrow> es)"

lemma connect_order:
  assumes "connect_and_pump loads a c = (out, c')"
  shows "passes loads (attempt_events a) c c' \<and> (out = Stopped \<longrightarrow> ws_stop c')"
proof (cases a)
  case Refused
  with assms show ?thesis by (auto simp: connect_and_pump_def)
next
  case (Opened n es)
  define c2 where "c2 = (let s = ws_stats_of c; c1 = c\<lparr>ws_stats_of := s\<lparr>connected := True, connection_count := connection_count s + 1\<rparr>\<rparr>
    in c1\<lparr>ws_sent := ws_sent c1 @ take n [subscribe_message c1, heartbeat_message]\<rparr>)"
  have c2: "ws_frame c c2" "queue_ok c2 = queue_ok c" "handed_on c2 = handed_on c"
    by (simp_all add: c2_def ws_frame_def queue_ok_def handed_on_def Let_def)
  have lift: "passes loads es c c'" if "passes loads es c2 c'"
    using that c2 ws_frame_trans by (auto simp: passes_def)
  have "connect_and_pump loads a c = (if n < 2 then (Raised, c2) else pump loads es c2)"
    using Opened by (simp add: connect_and_pump_def c2_def Let_def)
  with assms lift pump_order [of loads es c2 out c'] Opened show ?thesis
    by (cases "n < 2") (auto simp: attempt_events_def)
qed

lemma next_backoff_grows:
  assumes "initial_backoff c \<le> b" and "b \<le> max_backoff c" and "0 \<le> b" and "1 / 2 \<le> jitter"
  shows "b \<le> next_backoff c b jitter" and "next_backoff c b jitter \<le> max_backoff c"
proof -
  have "b * 1 \<le> b * (2 * jitter)" using assms(3,4) by (intro mult_left_mono) auto
  with assms(2) show "b \<le> next_backoff c b jitter" by (simp add: next_backoff_def mult.assoc le_max_iff_disj)
qed (simp add: next_backoff_def)

lemma passes_append:
  assumes "passes loads es c c1" and "passes loads fs c1 c2"
  shows "passes loads (es @ fs) c c2"
proof -
  obtain xs ys where "subseq xs (concat (map (accepted loads) es))" "handed_on c1 = handed_on c @ xs"
    "subseq ys (concat (map (accepted loads) fs))" "handed_on c2 = handed_on c1 @ ys" using assms by (auto simp: passes_def)
  then have "\<exists>zs. subseq zs (concat (map (accepted loads) (es @ fs))) \<and> handed_on c2 = handed_on c @ zs"
    by (intro exI [of _ "xs @ ys"]) (simp add: list_emb_append_mono)
  with assms ws_frame_trans show ?thesis by (auto simp: passes_def)
qed

lemma passes_silent: "ws_frame c c1 \<Longrightarrow> ws_queue c1 = ws_queue c \<Longrightarrow> ws_yielded c1 = ws_yielded c \<Longrightarrow> passes loads [] c c1"
  by (auto simp: passes_def queue_ok_def handed_on_def ws_frame_def)

lemma passes_longer: "passes loads es c c' \<Longrightarrow> passes loads (es @ fs) c c'"
  by (rule passes_append) auto

lemma ws_run_round:
  assumes "ws_run loads (r # rs) b c = (waits, c')" and "\<not> ws_stop c"
  obtains (Ends) "waits = []" "passes loads (attempt_events (fst r)) c c'"
  | (Retries) c3 ws where "passes loads (attempt_events (fst r)) c c3" "waits = b # ws"
      "ws_run loads rs (next_backoff c3 b (snd (snd r))) c3 = (ws, c')"
proof -
  obtain a stopped jitter where r: "r = (a, stopped, jitter)" by (cases r)
  obtain out c1 where a: "connect_and_pump loads a c = (out, c1)" by fastforce
  note p = connect_order [OF a]
  show thesis
  proof (cases out)
    case Stopped
    with p have "ws_stop c1" by simp
    then have "ws_run loads rs (initial_backoff c1) c1 = ([], c1)" by (cases rs) auto
    with assms r a Stopped have "waits = []" "c' = c1" by simp_all
    with p r show thesis by (intro Ends) simp_all
  next
    case Waiting
    with assms r a have "waits = []" "c' = c1" by simp_all
    with p r show thesis by (intro Ends) simp_all
  next
    case Raised
    define c3 where "c3 = (if stopped then ws_request_stop (note_loss c1) else note_loss c1)"
    have "passes loads [] c1 c3" by (rule passes_silent) (simp_all add: c3_def ws_frame_def note_loss_def ws_request_stop_def Let_def)
    with p have 1: "passes loads (attempt_events (fst r)) c c3" using passes_append r by fastforce
    obtain ws c4 where "ws_run loads rs (next_backoff c3 b jitter) c3 = (ws, c4)" by fastforce
    with assms r a Raised have "waits = b # ws" "ws_run loads rs (next_backoff c3 b (snd (snd r))) c3 = (ws, c')"
      by (auto simp: Let_def c3_def [symmetric] split: prod.splits)
    with 1 show thesis by (rule Retries)
  qed
qed

lemma ws_run_stopped: "ws_stop c \<Longrightarrow> ws_run loads rs b c = ([], c)"
  by (cases rs) auto

lemma ws_run_waits:
  assumes "ws_run loads rs b c = (waits, c')" and "0 \<le> initial_backoff c" and "initial_backoff c \<le> b" and "b \<le> max_backoff c"
    and "\<forall>r \<in> set rs. 1 / 2 \<le> snd (snd r)"
  shows "sorted waits \<and> (\<forall>x \<in> set waits. b \<le> x \<and> x \<le> max_backoff c) \<and> (waits = [] \<or> hd waits = b)"
  using assms
proof (induction rs arbitrary: b c waits)
  case (Cons r rs)
  show ?case
  proof (cases "ws_stop c")
    case False
    from Cons.prems(1) False show ?thesis
    proof (cases rule: ws_run_round)
      case (Retries c3 ws)
      have f: "initial_backoff c3 = initial_backoff c" "max_backoff c3 = max_backoff c"
        using Retries(1) by (simp_all add: passes_def ws_frame_def)
      have g: "b \<le> next_backoff c3 b (snd (snd r))" "next_backoff c3 b (snd (snd r)) \<le> max_backoff c3"
        using next_backoff_grows [of c3 b "snd (snd r)"] Cons.prems(2-5) f by auto
      have "sorted ws \<and> (\<forall>x \<in> set ws. next_backoff c3 b (snd (snd r)) \<le> x \<and> x \<le> max_backoff c3)"
        using Cons.IH [OF Retries(3)] Cons.prems(2,3,5) f g by auto
      with Retries(2) g f Cons.prems(4) show ?thesis by fastforce
    qed simp
  qed (use Cons.prems in \<open>simp add: ws_run_stopped\<close>)
qed simp

lemma ws_run_passes:
  assumes "ws_run loads rs b c = (waits, c')"
  shows "passes loads (concat (map (attempt_events \<circ> fst) rs)) c c'"
  using assms
proof (induction rs arbitrary: b c waits)
  case (Cons r rs)
  show ?case
  proof (cases "ws_stop c")
    case True
    with Cons.prems show ?thesis by (simp add: ws_run_stopped passes_refl)
  next
    case False
    from Cons.prems False show ?thesis
    proof (cases rule: ws_run_round)
      case Ends
      then show ?thesis using passes_longer by simp
    next
      case (Retries c3 ws)
      with Cons.IH [OF Retries(3)] show ?thesis using passes_append by simp
    qed
  qed
qed simp

section \<open>Claims\<close>

text \<open>
  C21: the waits between reconnects start at the initial backoff, never exceed the maximal one and never decrease, over
  the whole life of the client: as \<open>_connect_and_pump\<close> only returns after a stop, a connection that worked for hours
  does not reset the backoff.
\<close>

theorem ws_backoff_never_resets:
  assumes "mk_ws_client subs maxsize init mx now = Inr c" and "0 \<le> init" and "init \<le> mx"
    and "\<forall>r \<in> set rs. 1 / 2 \<le> snd (snd r)" and "ws_run loads rs (initial_backoff c) c = (waits, c')"
  shows "sorted waits \<and> (\<forall>x \<in> set waits. init \<le> x \<and> x \<le> mx) \<and> (waits = [] \<or> hd waits = init)"
proof -
  have "initial_backoff c = init" "max_backoff c = mx" using assms(1) by (auto simp: mk_ws_client_def split: if_splits)
  with ws_run_waits [OF assms(5)] assms(2-4) show ?thesis by simp
qed

text \<open>
  C20: whatever the connections of a run deliver, lose and refuse, and whenever the consumer reads, the messages yielded
  followed by the queued ones are accepted messages in the order of their arrival, each at most once: no heartbeat, no
  frame that is not a JSON object; and the queue never exceeds its bound.
\<close>

theorem ws_messages_in_order:
  assumes "mk_ws_client subs maxsize init mx now = Inr c" and "ws_run loads rs b c = (waits, c')"
  shows "subseq (ws_yielded c' @ ws_queue c') (concat (map (accepted loads) (concat (map (attempt_events \<circ> fst) rs)))) \<and>
    (maxsize \<le> 0 \<or> int (length (ws_queue c')) \<le> maxsize)"
proof -
  have c: "queue_ok c" "handed_on c = []" "ws_maxsize c = maxsize"
    using assms(1) by (auto simp: mk_ws_client_def queue_ok_def handed_on_def split: if_splits)
  from ws_run_passes [OF assms(2)] c show ?thesis
    by (auto simp: passes_def handed_on_def queue_ok_def ws_frame_def)
qed

definition sample_loads :: "string \<Rightarrow> pyval option" where
  "sample_loads s = (if s = ''t'' then Some (VDict [(''type'', VStr ''ticker'')]) else if s = ''h'' then Some heartbeat_message else None)"

definition sample_rounds :: "(ws_attempt \<times> bool \<times> flt) list" where
  "sample_rounds =
     [(Refused, False, 1), (Opened 2 [Frame ''t'' 1, Frame ''x'' 2, Get False, Lost], False, 1), (Opened 2 [Frame ''t'' 3, Frame ''t'' 4], False, 1)]"

definition sample_ws :: ws_client where
  "sample_ws = projr (mk_ws_client [\<lparr>sub_channel = ''v2/ticker'', sub_symbols = [''BTCUSD'']\<rparr>] 1 1 60 0)"

lemma sample_ws: "mk_ws_client [\<lparr>sub_channel = ''v2/ticker'', sub_symbols = [''BTCUSD'']\<rparr>] 1 1 60 0 = Inr sample_ws"
  by (simp add: sample_ws_def mk_ws_client_def)

lemma sample_ws_run:
  "\<exists>c'. ws_run sample_loads sample_rounds (initial_backoff sample_ws) sample_ws = ([1, 2], c') \<and> length (ws_yielded c') = 1 \<and> length (ws_queue c') = 1"
  by (simp add: sample_rounds_def sample_ws_def mk_ws_client_def connect_and_pump_def pump_def sample_loads_def receive_def ws_parse_def put_nowait_def
      next_message_def vget_def dict_get_def next_backoff_def note_loss_def Let_def)

theorem ws_backoff_never_resets_witness:
  "\<exists>c'. ws_run sample_loads sample_rounds (initial_backoff sample_ws) sample_ws = ([1, 2], c') \<and> sorted [1, 2 :: flt]"
proof -
  obtain c' where r: "ws_run sample_loads sample_rounds (initial_backoff sample_ws) sample_ws = ([1, 2], c')" using sample_ws_run by blast
  have "\<forall>r \<in> set sample_rounds. 1 / 2 \<le> snd (snd r)" by (simp add: sample_rounds_def)
  from ws_backoff_never_resets [OF sample_ws _ _ this r] r show ?thesis by auto
qed

theorem ws_messages_in_order_witness:
  "\<exists>ws c'. ws_run sample_loads sample_rounds (initial_backoff sample_ws) sample_ws = (ws, c') \<and> length (ws_yielded c') = 1 \<and> length (ws_queue c') \<le> 1"
proof -
  obtain c' where r: "ws_run sample_loads sample_rounds (initial_backoff sample_ws) sample_ws = ([1, 2], c')" "length (ws_yielded c') = 1"
    using sample_ws_run by blast
  from ws_messages_in_order [OF sample_ws r(1)] r show ?thesis by auto
qed

end
