(* ===== verification/Server.thy ===== *)
theory Server
  imports Rest Feeds Ws
begin

text \<open>
  The HTTP server of the bot (\<open>bot/observability/server.py\<close>) and the liveness functions that the engine gives it.  A
  connection is the list of the lines that \<open>readline\<close> returns, each with its end, and the empty line stands for the
  end of the stream.  The Prometheus text and \<open>json.dumps\<close> are parameters.
\<close>

section \<open>Requests\<close>

text \<open>The white space of \<open>str.split\<close> in Latin-1.\<close>

definition latin1_space :: "char \<Rightarrow> bool" where
  "latin1_space c \<longleftrightarrow> (let n = (of_char c :: nat) in 9 \<le> n \<and> n \<le> 13 \<or> 28 \<le> n \<and> n \<le> 32 \<or> n = 133 \<or> n = 160)"

fun split_words :: "string \<Rightarrow> string \<Rightarrow> string list" where
  "split_words acc [] = (if acc = [] then [] else [rev acc])"
| "split_words acc (c # s) =
     (if latin1_space c then (if acc = [] then split_words [] s else rev acc # split_words [] s)
      else split_words (c # acc) s)"

definition crlf :: string where
  "crlf = [CHR 0x0D, CHR 0x0A]"

text \<open>The header lines are read up to an empty line, or to the end of the stream.\<close>

fun read_headers :: "string list \<Rightarrow> string list" where
  "read_headers [] = []"
| "read_headers (l # ls) = (if l = crlf \<or> l = [CHR 0x0A] \<or> l = [] then ls else read_headers ls)"

section \<open>Health\<close>

record metrics_server =
  ms_render :: string
  ms_liveness_check :: "bool result option"
  ms_liveness_extra :: "(string, pyval) dict result option"
  ms_now :: datetime
  ms_dumps :: "pyval \<Rightarrow> string"

definition health_payload :: "metrics_server \<Rightarrow> nat \<times> (string, pyval) dict" where
  "health_payload ms =
     (let ok = (case ms_liveness_check ms of None \<Rightarrow> True | Some (Inl _) \<Rightarrow> False | Some (Inr b) \<Rightarrow> b);
          extra = (case ms_liveness_extra ms of None \<Rightarrow> [] | Some (Inl _) \<Rightarrow> [] | Some (Inr d) \<Rightarrow> d);
          payload = dict_update
            [(''status'', VStr (if ok then ''ok'' else ''unhealthy'')), (''ts'', VStr (isoformat (ms_now ms)))] extra
      in (if ok then 200 else 503, payload))"

section \<open>Responses\<close>

record response =
  rs_status :: nat
  rs_body :: string
  rs_content_type :: string

definition plain_response :: "nat \<Rightarrow> string \<Rightarrow> response" where
  "plain_response st body = \<lparr>rs_status = st, rs_body = body, rs_content_type = ''text/plain''\<rparr>"

definition route :: "metrics_server \<Rightarrow> string \<Rightarrow> response" where
  "route ms path =
     (if path = ''/metrics''
      then \<lparr>rs_status = 200, rs_body = ms_render ms, rs_content_type = ''text/plain; version=0.0.4''\<rparr>
      else if path = ''/health''
      then let (st, payload) = health_payload ms
           in \<lparr>rs_status = st, rs_body = ms_dumps ms (VDict payload), rs_content_type = ''application/json''\<rparr>
      else plain_response 404 ''not found'')"

text \<open>The response, if there is one, and the lines that were not read.\<close>

definition handle :: "metrics_server \<Rightarrow> string list \<Rightarrow> response option \<times> string list" where
  "handle ms lines =
     (case lines of
        [] \<Rightarrow> (None, [])
      | request_line # rest \<Rightarrow>
          if request_line = [] then (None, rest)
          else
            (case split_words [] request_line of
               http_method # path # _ \<Rightarrow>
                 (Some (if http_method \<noteq> ''GET'' then plain_response 405 ''Method Not Allowed'' else route ms path), read_headers rest)
             | _ \<Rightarrow> (Some (plain_response 400 ''Bad Request''), rest)))"

definition reason_of :: "nat \<Rightarrow> string" where
  "reason_of st =
     (if st = 200 then ''OK'' else if st = 400 then ''Bad Request'' else if st = 404 then ''Not Found''
      else if st = 405 then ''Method Not Allowed'' else if st = 503 then ''Service Unavailable'' else ''OK'')"

definition write_response :: "response \<Rightarrow> string" where
  "write_response r =
     ''HTTP/1.1 '' @ str_of_nat (rs_status r) @ '' '' @ reason_of (rs_status r) @ crlf @
     ''Content-Type: '' @ rs_content_type r @ crlf @
     ''Content-Length: '' @ str_of_nat (length (rs_body r)) @ crlf @
     ''Connection: close'' @ crlf @ crlf @ rs_body r"

section \<open>The liveness of the engine\<close>

definition liveness :: "feeds \<Rightarrow> bool" where
  "liveness fd \<longleftrightarrow> chain_size (fd_chain fd) > 0"

definition liveness_extra :: "bool \<Rightarrow> feeds \<Rightarrow> ws_client \<Rightarrow> (string, pyval) dict" where
  "liveness_extra is_live fd ws =
     [(''mode'', VStr (if is_live then ''live'' else ''dry'')), (''skeleton'', VBool False),
      (''chain_instruments'', VInt (int (chain_size (fd_chain fd)))),
      (''marks'', VDict (map (\<lambda>(u, px). (underlying_value u, VFlt px)) (fd_marks fd))),
      (''ws_connected'', VBool (connected (ws_stats_of ws)))]"

definition engine_server :: "string \<Rightarrow> (pyval \<Rightarrow> string) \<Rightarrow> datetime \<Rightarrow> bool \<Rightarrow> feeds \<Rightarrow> ws_client \<Rightarrow> metrics_server" where
  "engine_server page dumps now is_live fd ws =
     \<lparr>ms_render = page, ms_liveness_check = Some (Inr (liveness fd)),
      ms_liveness_extra = Some (Inr (liveness_extra is_live fd ws)), ms_now = now, ms_dumps = dumps\<rparr>"

section \<open>A client\<close>

text \<open>
  The reader of a response: the status is the second word, the head ends at the first empty line, and the body is as many
  bytes as the header \<open>Content-Length\<close> says.
\<close>

fun take_line :: "string \<Rightarrow> string \<times> string" where
  "take_line (a # b # s) = (if [a, b] = crlf then ([], s) else let (l, rest) = take_line (b # s) in (a # l, rest))"
| "take_line s = (s, [])"

definition content_length :: "string list \<Rightarrow> nat option" where
  "content_length head =
     map_option (\<lambda>l. nat_of_digits (drop 16 l)) (List.find (\<lambda>l. take 16 l = ''Content-Length: '') head)"

fun take_head :: "nat \<Rightarrow> string \<Rightarrow> string list \<times> string" where
  "take_head 0 s = ([], s)"
| "take_head (Suc k) s =
     (let (l, rest) = take_line s in if l = [] then ([], rest) else let (ls, rest') = take_head k rest in (l # ls, rest'))"

definition read_response :: "string \<Rightarrow> (nat \<times> string) option" where
  "read_response s =
     (let (head, rest) = take_head (length s) s
      in case head of
           [] \<Rightarrow> None
         | status_line # hs \<Rightarrow>
             (case (split_words [] status_line, content_length hs) of
                (_ # code # _, Some n) \<Rightarrow> if length rest = n then Some (nat_of_digits code, rest) else None
              | _ \<Rightarrow> None))"

section \<open>Properties\<close>

lemma take_line_append:
  assumes "CHR 0x0D \<notin> set l"
  shows "take_line (l @ crlf @ s) = (l, s)"
  using assms
proof (induction l)
  case Nil
  then show ?case by (simp add: crlf_def)
next
  case (Cons a l)
  then obtain b u where u: "l @ crlf @ s = b # u" by (cases l) (auto simp: crlf_def)
  with Cons show ?case by (auto simp: crlf_def)
qed

lemma split_words_plain: "\<forall>c \<in> set w. \<not> latin1_space c \<Longrightarrow> split_words acc (w @ s) = split_words (rev w @ acc) s"
  by (induction w arbitrary: acc) auto

lemma digits_not_space: "c \<in> set (str_of_nat n) \<Longrightarrow> \<not> latin1_space c"
  using str_of_nat_digits [of c n] by (auto simp: is_digit_def latin1_space_def Let_def)

lemma digits_not_cr: "CHR 0x0D \<notin> set (str_of_nat n)"
  using digits_not_space [of "CHR 0x0D" n] by (auto simp: latin1_space_def)

lemma reason_not_cr: "CHR 0x0D \<notin> set (reason_of st)"
  by (simp add: reason_of_def)

lemma take_head_lines:
  "\<forall>l \<in> set ls. CHR 0x0D \<notin> set l \<and> l \<noteq> [] \<Longrightarrow> length ls < k \<Longrightarrow>
     take_head k (concat (map (\<lambda>l. l @ crlf) ls) @ crlf @ body) = (ls, body)"
proof (induction ls arbitrary: k)
  case Nil
  then obtain j where "k = Suc j" by (cases k) auto
  then show ?case using take_line_append [of "[]" body] by simp
next
  case (Cons l ls)
  then obtain j where k: "k = Suc j" "length ls < j" by (cases k) auto
  have "take_line ((l @ crlf) @ concat (map (\<lambda>l. l @ crlf) ls) @ crlf @ body) = (l, concat (map (\<lambda>l. l @ crlf) ls) @ crlf @ body)"
    using take_line_append [of l] Cons.prems(1) by simp
  with Cons.IH [of j] Cons.prems(1) k show ?case by simp
qed

definition head_lines :: "response \<Rightarrow> string list" where
  "head_lines r =
     [''HTTP/1.1 '' @ str_of_nat (rs_status r) @ '' '' @ reason_of (rs_status r), ''Content-Type: '' @ rs_content_type r,
      ''Content-Length: '' @ str_of_nat (length (rs_body r)), ''Connection: close'']"

lemma read_write_response:
  assumes "CHR 0x0D \<notin> set (rs_content_type r)"
  shows "read_response (write_response r) = Some (rs_status r, rs_body r)"
proof -
  have w: "write_response r = concat (map (\<lambda>l. l @ crlf) (head_lines r)) @ crlf @ rs_body r"
    by (simp add: write_response_def head_lines_def)
  have ok: "\<forall>l \<in> set (head_lines r). CHR 0x0D \<notin> set l \<and> l \<noteq> []"
    using assms digits_not_cr reason_not_cr by (auto simp: head_lines_def)
  have "length (head_lines r) < length (write_response r)" by (simp add: head_lines_def write_response_def crlf_def)
  from take_head_lines [OF ok this] have h: "take_head (length (write_response r)) (write_response r) = (head_lines r, rs_body r)"
    unfolding w .
  have "split_words [] (''HTTP/1.1 '' @ str_of_nat (rs_status r) @ '' '' @ reason_of (rs_status r)) =
      ''HTTP/1.1'' # str_of_nat (rs_status r) # split_words [] (reason_of (rs_status r))"
  proof -
    have a: "split_words [] (''HTTP/1.1 '' @ s) = ''HTTP/1.1'' # split_words [] s" for s by (simp add: latin1_space_def)
    have b: "split_words [] (str_of_nat n @ '' '' @ s) = str_of_nat n # split_words [] s" for n s
      using split_words_plain [of "str_of_nat n" "[]" "'' '' @ s"] digits_not_space by (simp add: latin1_space_def)
    show ?thesis unfolding a b ..
  qed
  moreover have "content_length (tl (head_lines r)) = Some (length (rs_body r))"
    by (simp add: content_length_def head_lines_def)
  ultimately show ?thesis unfolding read_response_def h by (simp add: head_lines_def)
qed

lemma health_payload_status:
  "fst (health_payload (engine_server page dumps now is_live fd ws)) = (if liveness fd then 200 else 503)"
  "vget (snd (health_payload (engine_server page dumps now is_live fd ws))) ''status'' = VStr (if liveness fd then ''ok'' else ''unhealthy'')"
  "vget (snd (health_payload (engine_server page dumps now is_live fd ws))) ''chain_instruments'' = VInt (int (chain_size (fd_chain fd)))"
  by (simp_all add: health_payload_def engine_server_def liveness_extra_def dict_update_def Let_def)
    (simp_all add: vget_def dict_get_def)

lemma handle_get:
  assumes "split_words [] l = ''GET'' # path # rest" and "l \<noteq> []"
  shows "fst (handle ms (l # ls)) = Some (route ms path)"
  using assms by (simp add: handle_def)

section \<open>Claims\<close>

text \<open>
  Every request that sends a line gets one response, and a client reads from its bytes the status and the body that
  were meant, whatever the body holds: the status is one of the five that the server names, and the
  announced length is that of the body.
\<close>

theorem request_answered:
  assumes "l \<noteq> []"
  shows "\<exists>r. fst (handle ms (l # ls)) = Some r \<and> rs_status r \<in> {200, 400, 404, 405, 503} \<and>
    read_response (write_response r) = Some (rs_status r, rs_body r)"
proof -
  obtain r where r: "fst (handle ms (l # ls)) = Some r"
    using assms by (cases "fst (handle ms (l # ls))") (auto simp: handle_def split: list.splits)
  have p: "rs_status (route ms path) \<in> {200, 404, 503} \<and> CHR 0x0D \<notin> set (rs_content_type (route ms path))" for path
    by (simp add: route_def plain_response_def health_payload_def Let_def)
  have "rs_status r \<in> {200, 400, 404, 405, 503} \<and> CHR 0x0D \<notin> set (rs_content_type r)"
    using r assms p by (auto simp: handle_def plain_response_def split: list.splits if_splits)
  with r read_write_response [of r] show ?thesis by simp
qed

text \<open>
  The health endpoint answers for the option chain alone.  With the functions of the engine, it is 200 and says ok
  exactly when the chain cache holds an instrument, whatever the loss caps, the circuit breaker and the main loop do.
\<close>

theorem health_is_chain_size:
  assumes "split_words [] l = [''GET'', ''/health'', ''HTTP/1.1'']"
  shows "\<exists>p. fst (handle (engine_server page dumps now is_live fd ws) (l # ls)) =
      Some \<lparr>rs_status = (if 0 < chain_size (fd_chain fd) then 200 else 503), rs_body = dumps (VDict p), rs_content_type = ''application/json''\<rparr> \<and>
    vget p ''status'' = VStr (if 0 < chain_size (fd_chain fd) then ''ok'' else ''unhealthy'') \<and>
    vget p ''chain_instruments'' = VInt (int (chain_size (fd_chain fd)))"
proof -
  let ?ms = "engine_server page dumps now is_live fd ws" let ?p = "snd (health_payload ?ms)"
  have "l \<noteq> []" using assms by auto
  from handle_get [OF _ this] assms have "fst (handle ?ms (l # ls)) = Some (route ?ms ''/health'')" by simp
  moreover have "route ?ms ''/health'' =
      \<lparr>rs_status = fst (health_payload ?ms), rs_body = dumps (VDict ?p), rs_content_type = ''application/json''\<rparr>"
    by (simp add: route_def case_prod_beta Let_def engine_server_def)
  ultimately show ?thesis using health_payload_status [of page dumps now is_live fd ws]
    by (intro exI [of _ ?p]) (simp add: liveness_def)
qed

theorem request_answered_witness:
  "\<exists>r. fst (handle (engine_server ''up 1'' (\<lambda>_. ''{}'') 0 False marked_feeds sample_ws) [''POST /metrics'']) = Some r \<and> rs_status r = 405 \<and>
     read_response (write_response r) = Some (405, ''Method Not Allowed'')"
proof -
  let ?ms = "engine_server ''up 1'' (\<lambda>_. ''{}'') 0 False marked_feeds sample_ws"
  have "''POST /metrics'' \<noteq> []" by simp
  from request_answered [OF this, of ?ms "[]"] obtain r where r: "fst (handle ?ms [''POST /metrics'']) = Some r"
    "read_response (write_response r) = Some (rs_status r, rs_body r)" by auto
  moreover have "rs_status r = 405 \<and> rs_body r = ''Method Not Allowed''"
    using r(1) by (simp add: handle_def plain_response_def latin1_space_def) auto
  ultimately show ?thesis by simp
qed

theorem health_is_chain_size_witness:
  "\<exists>p. fst (handle (engine_server [] (\<lambda>_. ''{}'') 0 True (marked_feeds\<lparr>fd_chain := sample_chain\<rparr>) sample_ws) [''GET /health HTTP/1.1'' @ crlf, crlf]) =
      Some \<lparr>rs_status = 200, rs_body = ''{}'', rs_content_type = ''application/json''\<rparr> \<and> vget p ''status'' = VStr ''ok''"
proof -
  have w: "split_words [] (''GET /health HTTP/1.1'' @ crlf) = [''GET'', ''/health'', ''HTTP/1.1'']"
    by (simp add: latin1_space_def crlf_def)
  have "0 < chain_size (fd_chain (marked_feeds\<lparr>fd_chain := sample_chain\<rparr>))" by (simp add: chain_size_def sample_chain_def)
  with health_is_chain_size [OF w, of "[]" "\<lambda>_. ''{}''" 0 True "marked_feeds\<lparr>fd_chain := sample_chain\<rparr>" sample_ws "[crlf]"]
  show ?thesis by (elim exE conjE) (simp only: if_True simp_thms, intro exI)
qed

end
