(* ===== verification/System.thy ===== *)
theory System
  imports Lifecycle Daily Resume Server
begin

text \<open>
  The whole engine (\<open>run_trading_engine\<close> in \<open>bot/runtime/engine.py\<close>): the tasks that share the tracker, the tables and the
  market data, put together with the two things an operator does beside them, starting the process again and the command
  \<open>resume\<close>.  A run is a list of events with the time of each.  One event is one round of one task: a round of the main
  loop, a websocket message, a refresh of the chain, or a wake-up of the daily loop; tasks interleave between rounds
  and not within one.  A task whose round raises ends, and nothing looks at it again until the process is started anew.
\<close>

section \<open>State\<close>

text \<open>What does not change while the bot is installed: the configuration, the executor and the parameters of the host.\<close>

record 'x installation =
  su_config :: engine_config
  su_executor :: "'x executor"
  su_keys_set :: bool
  su_strategies :: "strategy_config list"
  su_base_nav :: flt
  su_parse_float :: "string \<Rightarrow> flt option"
  su_parse_int :: "string \<Rightarrow> int option"
  su_tz :: int
  su_rest_rps :: int
  su_order_rps :: int

text \<open>
  \<open>sy_up\<close>: the process runs.  \<open>sy_main_alive\<close> and \<open>sy_drain_alive\<close>: the main loop and the loop over the websocket
  queue have not ended.  The tables are part of the engine, of the feeds and of \<open>sy_pnl\<close>; they and the files of the
  runtime directory survive the process.
\<close>

record 'x bot =
  sy_now :: datetime
  sy_up :: bool
  sy_main_alive :: bool
  sy_drain_alive :: bool
  sy_engine :: "'x engine"
  sy_feeds :: feeds
  sy_pnl :: "daily_pnl_row list"
  sy_last_daily :: "date option"
  sy_shutdown_json :: bool
  sy_resume_audit :: "(string, pyval) dict list"

text \<open>
  What a start needs of the host, in the order of the code: the directory and the sink of the log, the database, the read
  of its tables, a look at the marker file, the directories of the mirror, the journals, the reports and the text file, the port of
  the server, and the signal handlers.  \<open>ps_host\<close> is the exception that the host raises there, if it does.
\<close>

datatype host_step =
    ConfigureLogging | OpenDatabase | ReadNav | CheckMarker | MirrorDirectory | JournalsDirectory | ReportsDirectory
  | TextfileDirectory | BindServer | SignalHandlers

definition host_steps :: "host_step list" where
  "host_steps =
     [ConfigureLogging, OpenDatabase, ReadNav, CheckMarker, MirrorDirectory, JournalsDirectory, ReportsDirectory,
      TextfileDirectory, BindServer, SignalHandlers]"

record 'x process_start =
  ps_executor :: 'x
  ps_mono :: flt
  ps_host :: "host_step \<Rightarrow> py_error option"

datatype 'x event =
    MainTick tick_input
  | WsMessage flt "(string, pyval) dict"
  | ChainRefresh flt "string \<times> string \<Rightarrow> flt" "(string, pyval) dict list result" "(string, pyval) dict list result"
  | DailyTimer
  | ResumeCommand bool
  | StopSignal
  | StartProcess "'x process_start"

section \<open>Steps\<close>

text \<open>The market data a round of the main loop reads is that of the other tasks; the rest of its input comes from outside.\<close>

definition tick_of :: "datetime \<Rightarrow> feeds \<Rightarrow> tick_input \<Rightarrow> tick_input" where
  "tick_of t fd ti =
     ti\<lparr>ti_now := t, ti_chain := fd_chain fd, ti_candles := fd_candles fd, ti_marks := fd_marks fd,
        ti_iv_store := fd_iv_store fd, ti_iv_table := fd_iv_table fd\<rparr>"

definition main_round :: "'x installation \<Rightarrow> datetime \<Rightarrow> tick_input \<Rightarrow> 'x bot \<Rightarrow> 'x bot" where
  "main_round su t ti s =
     (if sy_up s \<and> sy_main_alive s
      then let (r, w) = tick (su_config su) (su_executor su) (tick_of t (sy_feeds s) ti) (sy_engine s)
           in s\<lparr>sy_engine := w, sy_main_alive := (case r of Inl _ \<Rightarrow> False | Inr _ \<Rightarrow> True)\<rparr>
      else s)"

definition drain_round :: "'x installation \<Rightarrow> datetime \<Rightarrow> flt \<Rightarrow> (string, pyval) dict \<Rightarrow> 'x bot \<Rightarrow> 'x bot" where
  "drain_round su t stamp msg s =
     (if sy_up s \<and> sy_drain_alive s
      then let (r, fd) = handle_ws_message (su_parse_float su) (su_tz su) t stamp msg (sy_feeds s)
           in s\<lparr>sy_feeds := fd, sy_drain_alive := (case r of Inl _ \<Rightarrow> False | Inr _ \<Rightarrow> True)\<rparr>
      else s)"

definition refresh_round ::
  "'x installation \<Rightarrow> datetime \<Rightarrow> flt \<Rightarrow> (string \<times> string \<Rightarrow> flt) \<Rightarrow> (string, pyval) dict list result \<Rightarrow>
   (string, pyval) dict list result \<Rightarrow> 'x bot \<Rightarrow> 'x bot" where
  "refresh_round su t clock iv_clock products tickers s =
     (if sy_up s
      then s\<lparr>sy_feeds := chain_refresh (su_parse_float su) (su_parse_int su) clock iv_clock t products tickers (sy_feeds s)\<rparr>
      else s)"

text \<open>The daily loop logs an exception and tries again at the next wake-up.\<close>

definition daily_round :: "datetime \<Rightarrow> 'x bot \<Rightarrow> 'x bot" where
  "daily_round t s =
     (if sy_up s \<and> daily_due t (sy_last_daily s)
      then let w = sy_engine s; n = en_nav w; today = date_of (utc_to_ist t);
               (r, pnl, rows) = daily_run today (nav_now n) (max (peak_nav n) (nav_now n)) (circuit_breaker_tripped n)
                                  (en_db w) (sy_pnl s) (en_nav_rows w)
           in s\<lparr>sy_engine := w\<lparr>en_nav_rows := rows\<rparr>, sy_pnl := pnl,
                sy_last_daily := (case r of Inl _ \<Rightarrow> sy_last_daily s | Inr _ \<Rightarrow> Some today)\<rparr>
      else s)"

text \<open>The command \<open>resume\<close> is a process of its own: it sees the tables and the runtime directory and nothing of the engine.\<close>

definition resume_command :: "datetime \<Rightarrow> bool \<Rightarrow> 'x bot \<Rightarrow> 'x bot" where
  "resume_command t confirm s =
     (let w = sy_engine s;
          (report, rows, d) = resume_evaluate confirm t (en_nav_rows w)
             \<lparr>rd_shutdown_json = sy_shutdown_json s, rd_circuit_breaker_json = en_marker w, rd_resume_audit = sy_resume_audit s\<rparr>
      in s\<lparr>sy_engine := w\<lparr>en_nav_rows := rows, en_marker := rd_circuit_breaker_json d\<rparr>,
           sy_shutdown_json := rd_shutdown_json d, sy_resume_audit := rd_resume_audit d\<rparr>)"

definition host :: "'x process_start \<Rightarrow> host_step \<Rightarrow> unit result" where
  "host p k = (case ps_host p k of None \<Rightarrow> Inr () | Some e \<Rightarrow> Inl e)"

definition subscriptions :: "subscription list" where
  "subscriptions = [\<lparr>sub_channel = ''v2/ticker'', sub_symbols = [''BTCUSD'', ''ETHUSD'']\<rparr>]"

definition start_ws_client :: "flt \<Rightarrow> ws_client result" where
  "start_ws_client now = mk_ws_client subscriptions 4096 DEFAULT_INITIAL_BACKOFF DEFAULT_MAX_BACKOFF now"

text \<open>
  \<open>run_trading_engine\<close> up to its tasks: the log, the keys, the engine from the tables and the marker file, the clients of
  the exchange, the writers, market data that is empty, and the server.  The REST client is behind the executor and the
  inputs of the rounds, so that only its construction is seen here.
\<close>

definition start_engine :: "'x installation \<Rightarrow> datetime \<Rightarrow> 'x process_start \<Rightarrow> 'x bot \<Rightarrow> ('x engine \<times> feeds) result" where
  "start_engine su t p s =
     (let w = sy_engine s
      in bind_result (host p ConfigureLogging) (\<lambda>_.
         bind_result (require_keys (su_config su) (su_keys_set su)) (\<lambda>_.
         bind_result (host p OpenDatabase) (\<lambda>_.
         bind_result (host p ReadNav) (\<lambda>_.
         bind_result (host p CheckMarker) (\<lambda>_.
         bind_result (boot_engine (su_strategies su) (en_db w) (en_nav_rows w) (en_marker w) (su_base_nav su) t (ps_executor p)
                        (en_decisions w)) (\<lambda>w'.
         bind_result (mk_rest_client (su_rest_rps su) (su_order_rps su) (ps_mono p) ()) (\<lambda>_.
         bind_result (host p MirrorDirectory) (\<lambda>_.
         bind_result (host p JournalsDirectory) (\<lambda>_.
         bind_result (host p ReportsDirectory) (\<lambda>_.
         bind_result (host p TextfileDirectory) (\<lambda>_.
         bind_result (start_ws_client (ps_mono p)) (\<lambda>_.
         bind_result new_candles (\<lambda>cs.
         bind_result (host p BindServer) (\<lambda>_.
         bind_result (host p SignalHandlers) (\<lambda>_.
           Inr (w', start_feeds cs 300 mk_iv_history_store (fd_iv_table (sy_feeds s)))))))))))))))))))"

text \<open>A new process: when its start raises, nothing runs and nothing is stored; else every task is alive.\<close>

definition start_process :: "'x installation \<Rightarrow> datetime \<Rightarrow> 'x process_start \<Rightarrow> 'x bot \<Rightarrow> 'x bot" where
  "start_process su t p s =
     (case start_engine su t p s of
        Inl e \<Rightarrow> s\<lparr>sy_up := False\<rparr>
      | Inr (w, fd) \<Rightarrow>
          s\<lparr>sy_up := True, sy_main_alive := True, sy_drain_alive := True, sy_engine := w, sy_feeds := fd, sy_last_daily := None\<rparr>)"

definition bot_step :: "'x installation \<Rightarrow> datetime \<times> 'x event \<Rightarrow> 'x bot \<Rightarrow> 'x bot" where
  "bot_step su ev s =
     (let t = fst ev
      in (case snd ev of
            MainTick ti \<Rightarrow> main_round su t ti s
          | WsMessage stamp msg \<Rightarrow> drain_round su t stamp msg s
          | ChainRefresh clock iv_clock products tickers \<Rightarrow> refresh_round su t clock iv_clock products tickers s
          | DailyTimer \<Rightarrow> daily_round t s
          | ResumeCommand confirm \<Rightarrow> resume_command t confirm s
          | StopSignal \<Rightarrow> s\<lparr>sy_up := False\<rparr>
          | StartProcess x \<Rightarrow> start_process su t x s)\<lparr>sy_now := t\<rparr>)"

definition bot_run :: "'x installation \<Rightarrow> (datetime \<times> 'x event) list \<Rightarrow> 'x bot \<Rightarrow> 'x bot" where
  "bot_run su evs s = fold (bot_step su) evs s"

text \<open>The clock of a run does not go back.\<close>

definition in_order :: "datetime \<Rightarrow> (datetime \<times> 'x event) list \<Rightarrow> bool" where
  "in_order t evs \<longleftrightarrow> sorted (t # map fst evs)"

section \<open>The history of the NAV\<close>

text \<open>One row per date, and none of a later date than that of the Indian clock.\<close>

definition dated :: "datetime \<Rightarrow> nav_history_row list \<Rightarrow> bool" where
  "dated t rows \<longleftrightarrow> rows_wf rows \<and> (\<forall>d \<in> nh_trading_date ` set rows. d \<le> date_of (utc_to_ist t))"

text \<open>What a start would find.\<close>

definition latest_tripped :: "nav_history_row list \<Rightarrow> bool" where
  "latest_tripped rows \<longleftrightarrow> (case latest_row rows of None \<Rightarrow> False | Some r \<Rightarrow> nh_circuit_breaker_tripped r)"

definition stored_trip :: "'x engine \<Rightarrow> bool" where
  "stored_trip w \<longleftrightarrow> en_marker w \<or> latest_tripped (en_nav_rows w)"

lemma ist_date_mono: "t \<le> t' \<Longrightarrow> date_of (utc_to_ist t) \<le> date_of (utc_to_ist t')"
  by (simp add: date_of_def utc_to_ist_def zdiv_mono1 day_us_def hour_us_def minute_us_def us_per_s_def)

lemma dated_mono: "dated t rows \<Longrightarrow> t \<le> t' \<Longrightarrow> dated t' rows"
  using ist_date_mono [of t t'] by (fastforce simp: dated_def)

lemma dates_clear [simp]: "map nh_trading_date (clear_row d rows) = map nh_trading_date rows"
  by (simp add: clear_row_def)

lemma dated_dates: "map nh_trading_date rows' = map nh_trading_date rows \<Longrightarrow> dated t rows' = dated t rows"
  unfolding dated_def rows_wf_def by (metis list.set_map)

lemma dates_new:
  assumes "map nh_trading_date rows' = map nh_trading_date rows @ (if row_on rows d = None then [d] else [])"
    and "dated t rows" and "d = date_of (utc_to_ist t)"
  shows "dated t rows'"
proof (cases "row_on rows d")
  case None
  have new: "d \<notin> set (map nh_trading_date rows)" using row_on_None [OF None] by auto
  have ds: "map nh_trading_date rows' = map nh_trading_date rows @ [d]" using assms(1) unfolding None by (simp only: simp_thms if_True)
  have "distinct (map nh_trading_date rows)" using assms(2) by (simp add: dated_def rows_wf_def)
  then have "rows_wf rows'" unfolding rows_wf_def ds using new by simp
  moreover have "set (map nh_trading_date rows') = insert d (set (map nh_trading_date rows))" unfolding ds by simp
  then have eq: "nh_trading_date ` set rows' = insert d (nh_trading_date ` set rows)" by (simp only: set_map)
  have "\<forall>x \<in> nh_trading_date ` set rows'. x \<le> date_of (utc_to_ist t)"
    unfolding eq ball_simps(7) using assms(2) by (simp only: dated_def assms(3)) simp
  ultimately show ?thesis by (simp only: dated_def simp_thms)
next
  case (Some r)
  with assms dated_dates [of rows' rows t] show ?thesis by simp
qed

lemma dates_upsert:
  "map nh_trading_date (upsert_tripped d n dd rows) = map nh_trading_date rows @ (if row_on rows d = None then [d] else [])"
  by (cases "row_on rows d") (auto simp: upsert_tripped_def)

lemma upsert_latest_tripped:
  assumes "dated t rows"
  shows "latest_tripped (upsert_tripped (date_of (utc_to_ist t)) n dd rows)"
proof -
  let ?d = "date_of (utc_to_ist t)" let ?rows = "upsert_tripped ?d n dd rows"
  obtain r where r: "r \<in> set ?rows" "nh_trading_date r = ?d" using upsert_tripped_row(1) by blast
  then have "latest_row ?rows \<noteq> None" using latest_row_None [of ?rows] by (metis empty_iff empty_set)
  then obtain x where x: "latest_row ?rows = Some x" by blast
  have "nh_trading_date x \<le> ?d" using upsert_tripped_row(3) latest_row_max(1) [OF x] assms by (fastforce simp: dated_def)
  with latest_row_max [OF x] r have "nh_trading_date x = ?d" by fastforce
  with upsert_tripped_row(2) latest_row_max(1) [OF x] x show ?thesis by (simp add: latest_tripped_def)
qed

lemma dates_persist_nav:
  assumes "persist_nav d nav peak tripped rows = Inr (row, rows')"
  shows "map nh_trading_date rows' = map nh_trading_date rows @ (if row_on rows d = None then [d] else [])"
proof -
  have key: "rows' = (case row_on rows d of None \<Rightarrow> rows @ [row0] | Some _ \<Rightarrow> map (\<lambda>r. if nh_trading_date r = d then row0 else r) rows)"
    if "bind_result (nav_check nav (case row_on rows d of None \<Rightarrow> rows @ [row0]
        | Some _ \<Rightarrow> map (\<lambda>r. if nh_trading_date r = d then row0 else r) rows)) (\<lambda>rows'. Inr (row0, rows')) = Inr (row, rows')" for row0
    using that by (simp add: nav_check_def split: if_split_asm)
  from key [OF assms [unfolded persist_nav_def Let_def]] show ?thesis
    by (cases "row_on rows d") auto
qed

text \<open>A daily report leaves the rows as they are, or makes the row of its date the latest one.\<close>

lemma daily_run_rows:
  assumes "daily_run d nav peak tripped db pnl rows = (r, pnl', rows')" and "dated t rows" and "d = date_of (utc_to_ist t)"
    and "distinct (map dp_key pnl)"
  shows "dated t rows'" and "distinct (map dp_key pnl')"
    and "rows' = rows \<and> (\<exists>e. r = Inl e) \<or> latest_tripped rows' = tripped \<and> (\<exists>out. r = Inr out)"
proof -
  have pnl: "distinct (map dp_key p)" if "persist_daily_pnl d stats pnl = Inr p" for stats p
    using that assms(4) by (auto simp: persist_daily_pnl_def Let_def split: if_splits)
  have "dated t rows' \<and> distinct (map dp_key pnl') \<and>
      (rows' = rows \<and> (\<exists>e. r = Inl e) \<or> latest_tripped rows' = tripped \<and> (\<exists>out. r = Inr out))"
  proof (cases "persist_daily_pnl d (compute_per_strategy d (tb_trades db)) pnl")
    case (Inl e)
    with assms show ?thesis by (auto simp: daily_run_def)
  next
    case p: (Inr p)
    show ?thesis
    proof (cases "persist_nav d nav peak tripped rows")
      case (Inl e)
      with assms p pnl show ?thesis by (auto simp: daily_run_def)
    next
      case (Inr q)
      obtain row rows2 where q: "q = (row, rows2)" by (cases q)
      have out: "rows' = rows2" "pnl' = p" "\<exists>out. r = Inr out" using assms(1) p Inr q by (auto simp: daily_run_def Let_def)
      have d': "dated t rows2" using dates_new [OF dates_persist_nav [OF Inr [unfolded q]] assms(2,3)] .
      note k = persist_nav_row [OF Inr [unfolded q], of d]
      have "\<forall>r \<in> set rows2. nh_trading_date r \<le> d" using d' assms(3) by (simp add: dated_def)
      then have "latest_row rows2 = Some row" using k by (intro load_nav_tracker_latest [of row rows2 d]) blast+
      with k have "latest_tripped rows2 = tripped" by (simp add: latest_tripped_def)
      with out d' pnl [OF p] show ?thesis by simp
    qed
  qed
  then show "dated t rows'" "distinct (map dp_key pnl')"
    "rows' = rows \<and> (\<exists>e. r = Inl e) \<or> latest_tripped rows' = tripped \<and> (\<exists>out. r = Inr out)" by blast+
qed

text \<open>A round of the main loop touches the rows and the marker only when it trips the breaker.\<close>

definition tick_stores :: "datetime \<Rightarrow> 'x engine \<Rightarrow> 'x engine \<Rightarrow> bool" where
  "tick_stores t w w' \<longleftrightarrow>
     en_nav_rows w' = en_nav_rows w \<and> en_marker w' = en_marker w \<and>
       circuit_breaker_tripped (en_nav w') = circuit_breaker_tripped (en_nav w) \<or>
     en_marker w' \<and> circuit_breaker_tripped (en_nav w') \<and>
       (\<exists>n dd. en_nav_rows w' = upsert_tripped (date_of (utc_to_ist t)) n dd (en_nav_rows w))"

lemma finish_phase_stores:
  assumes "finish_phase c ti records w = (r, w')"
  shows "tick_stores (ti_now ti) w w'"
proof (cases "sync_circuit_breaker_from_risk (en_nav_rows w) (risk_of c w) (ti_now ti) (en_marker w)")
  case (Inl e)
  with assms show ?thesis by (auto simp: finish_phase_def tick_stores_def)
next
  case (Inr q)
  obtain rows n marker where q: "q = (rows, n, marker)" by (cases q)
  have nav: "rm_nav (risk_of c w) = en_nav w" by (simp add: risk_of_def)
  have s: "rows = en_nav_rows w \<and> n = en_nav w \<and> marker = en_marker w \<or>
      persist_circuit_breaker_trip (en_nav_rows w) (en_nav w) (ti_now ti) (en_marker w) = Inr (rows, n, marker)"
  proof (cases "circuit_breaker_tripped (en_nav w)")
    case True
    with Inr q nav show ?thesis by (simp add: sync_circuit_breaker_from_risk_def Let_def)
  next
    case False
    with Inr q nav show ?thesis
      by (cases "evaluate_caps (risk_of c w)") (auto simp: sync_circuit_breaker_from_risk_def Let_def split: if_splits)
  qed
  have w': "en_nav_rows w' = rows" "en_marker w' = marker" "circuit_breaker_tripped (en_nav w') = circuit_breaker_tripped n"
    using assms Inr q by (auto simp: finish_phase_def Let_def split: sum.splits prod.splits)
  from s show ?thesis
  proof
    assume "rows = en_nav_rows w \<and> n = en_nav w \<and> marker = en_marker w"
    with w' show ?thesis by (simp add: tick_stores_def)
  next
    assume "persist_circuit_breaker_trip (en_nav_rows w) (en_nav w) (ti_now ti) (en_marker w) = Inr (rows, n, marker)"
    from this [unfolded persist_cases] w' show ?thesis by (auto simp: tick_stores_def)
  qed
qed

lemma tick_stores_tick:
  assumes "tick c xe ti w = (r, w')" and "db_wf (en_db w)"
  shows "tick_stores (ti_now ti) w w'"
proof -
  define w0 where "w0 = roll_phase ti w"
  define rows where "rows = load_open_trades (en_db w0)"
  define m where "m = market_of c ti (quotes_for (ti_chain ti) rows)"
  have w0: "en_db w0 = en_db w" "circuit_breaker_tripped (en_nav w0) = circuit_breaker_tripped (en_nav w)"
    "en_nav_rows w0 = en_nav_rows w" "en_marker w0 = en_marker w"
    by (simp_all add: w0_def) (simp_all add: roll_phase_def split: prod.split)
  consider (Fault) e where "r = Inl e" "w' = w0"
    | (Phases) "en_bind (manage_phase c xe ti m rows) (\<lambda>_. en_bind (entry_phase c xe ti m rows) (finish_phase c ti)) w0 = (r, w')"
    using tick_cases [OF assms(1)] by (metis w0_def rows_def m_def round_phases_def Let_def)
  then show ?thesis
  proof cases
    case Fault
    with w0 show ?thesis by (simp add: tick_stores_def)
  next
    case Phases
    then show ?thesis
    proof (cases rule: en_bind_cases)
      case (Raise e)
      from manage_phase_effect(1) [OF Raise(1) [unfolded rows_def]] assms(2) w0 show ?thesis
        by (simp add: trades_shrink_def tick_stores_def)
    next
      case (Go u w1)
      have sh: "trades_shrink w0 w1" using manage_phase_effect(1) [OF Go(1) [unfolded rows_def]] assms(2) w0 by simp
      then have wf1: "db_wf (en_db w1)" using assms(2) w0 by (simp add: trades_shrink_def)
      have w1: "circuit_breaker_tripped (en_nav w1) = circuit_breaker_tripped (en_nav w)" "en_nav_rows w1 = en_nav_rows w"
        "en_marker w1 = en_marker w" using sh w0 by (simp_all add: trades_shrink_def)
      from Go(2) show ?thesis
      proof (cases rule: en_bind_cases)
        case (Raise e)
        from entry_phase_effect [OF Raise(1) wf1] w1 show ?thesis by (simp add: entry_frame_def tick_stores_def)
      next
        case g: (Go recs w2)
        have "entry_frame w1 w2" using entry_phase_effect [OF g(1) wf1] by blast
        with finish_phase_stores [OF g(2)] w1 show ?thesis by (simp add: entry_frame_def tick_stores_def)
      qed
    qed
  qed
qed

section \<open>What every step keeps\<close>

text \<open>
  The tables at any time, and what holds of a process while it runs: the market data is well formed, a marker file means
  a tripped tracker, and while the main loop lives the NAV in memory is the base and the profit booked in the tables.
\<close>

definition tables_ok :: "datetime \<Rightarrow> 'x bot \<Rightarrow> bool" where
  "tables_ok t s \<longleftrightarrow> db_wf (en_db (sy_engine s)) \<and> dated t (en_nav_rows (sy_engine s)) \<and> distinct (map dp_key (sy_pnl s))"

definition process_ok :: "'x installation \<Rightarrow> datetime \<Rightarrow> 'x bot \<Rightarrow> bool" where
  "process_ok su t s \<longleftrightarrow>
     sy_up s \<longrightarrow>
       feeds_ok (su_tz su) t (sy_feeds s) \<and> (en_marker (sy_engine s) \<longrightarrow> circuit_breaker_tripped (en_nav (sy_engine s))) \<and>
       (sy_main_alive s \<longrightarrow> unexplained_nav (sy_engine s) = su_base_nav su)"

definition bot_ok :: "'x installation \<Rightarrow> datetime \<Rightarrow> 'x bot \<Rightarrow> bool" where
  "bot_ok su t s \<longleftrightarrow> su_tz su \<le> t \<and> tables_ok t s \<and> process_ok su t s"

lemma bot_ok_mono: "bot_ok su t s \<Longrightarrow> t \<le> t' \<Longrightarrow> bot_ok su t' s"
  using feeds_ok_mono dated_mono by (fastforce simp: bot_ok_def tables_ok_def process_ok_def)

lemma bot_ok_clock [simp]: "bot_ok su t (s\<lparr>sy_now := t'\<rparr>) = bot_ok su t s"
  by (simp add: bot_ok_def tables_ok_def process_ok_def)

text \<open>What a step may do to the stored trades and to a breaker that is tripped, for each kind of event.\<close>

definition ids_of :: "'x bot \<Rightarrow> int list" where
  "ids_of s = map t_id (tb_trades (en_db (sy_engine s)))"

definition same_trades :: "'x bot \<Rightarrow> 'x bot \<Rightarrow> bool" where
  "same_trades s s' \<longleftrightarrow> en_db (sy_engine s') = en_db (sy_engine s)"

definition keeps_breaker :: "'x bot \<Rightarrow> 'x bot \<Rightarrow> bool" where
  "keeps_breaker s s' \<longleftrightarrow>
     (en_marker (sy_engine s) \<longrightarrow> en_marker (sy_engine s')) \<and>
     (sy_up s \<longrightarrow> circuit_breaker_tripped (en_nav (sy_engine s)) \<longrightarrow> ids_of s' = ids_of s \<and> circuit_breaker_tripped (en_nav (sy_engine s'))) \<and>
     (\<not> sy_up s \<longrightarrow> ids_of s' = ids_of s)"

lemma main_round_ok:
  assumes "bot_ok su t s"
  shows "bot_ok su t (main_round su t ti s)"
    and "keeps_breaker s (main_round su t ti s)"
    and "tick_stores t (sy_engine s) (sy_engine (main_round su t ti s))"
    and "evolves (en_db (sy_engine s)) (en_db (sy_engine (main_round su t ti s)))"
    and "count_open (of_strategy k) (en_db (sy_engine (main_round su t ti s))) \<le>
      max (count_open (of_strategy k) (en_db (sy_engine s))) (limit_of (su_config su) k)"
proof -
  let ?s = "main_round su t ti s" let ?w = "sy_engine s"
  have wf: "db_wf (en_db ?w)" and dt: "dated t (en_nav_rows ?w)" using assms by (simp_all add: bot_ok_def tables_ok_def)
  have "bot_ok su t ?s \<and> keeps_breaker s ?s \<and> tick_stores t ?w (sy_engine ?s) \<and> evolves (en_db ?w) (en_db (sy_engine ?s)) \<and>
    count_open (of_strategy k) (en_db (sy_engine ?s)) \<le> max (count_open (of_strategy k) (en_db ?w)) (limit_of (su_config su) k)"
  proof (cases "sy_up s \<and> sy_main_alive s")
    case False
    then have "?s = s" by (auto simp: main_round_def)
    then show ?thesis using assms by (simp add: keeps_breaker_def tick_stores_def)
  next
    case True
    obtain r w where tk: "tick (su_config su) (su_executor su) (tick_of t (sy_feeds s) ti) ?w = (r, w)" by fastforce
    have s': "?s = s\<lparr>sy_engine := w, sy_main_alive := (case r of Inl _ \<Rightarrow> False | Inr _ \<Rightarrow> True)\<rparr>"
      using True tk by (simp add: main_round_def)
    note eff = tick_effect [OF tk wf]
    have st: "tick_stores t ?w w" using tick_stores_tick [OF tk wf] by (simp add: tick_of_def)
    have "dated t (en_nav_rows w)"
      using st dates_new [OF dates_upsert dt refl] dt by (auto simp: tick_stores_def)
    then have tab: "tables_ok t ?s" using assms eff(1) by (simp add: bot_ok_def tables_ok_def s')
    have ex: "unexplained_nav w = su_base_nav su" if "r = Inr u" for u
      using assms True eff(3) that by (simp add: bot_ok_def process_ok_def)
    have mk: "en_marker w \<longrightarrow> circuit_breaker_tripped (en_nav w)"
      using st assms True by (auto simp: tick_stores_def bot_ok_def process_ok_def)
    have "process_ok su t ?s" using assms mk ex by (simp add: bot_ok_def process_ok_def s' split: sum.split)
    moreover have "keeps_breaker s ?s" using eff(4) True st by (auto simp: keeps_breaker_def ids_of_def s' tick_stores_def)
    ultimately show ?thesis using tab assms st tick_evolves [OF tk] eff(2) by (simp add: bot_ok_def s')
  qed
  then show "bot_ok su t ?s" "keeps_breaker s ?s" "tick_stores t ?w (sy_engine ?s)" "evolves (en_db ?w) (en_db (sy_engine ?s))"
    "count_open (of_strategy k) (en_db (sy_engine ?s)) \<le> max (count_open (of_strategy k) (en_db ?w)) (limit_of (su_config su) k)"
    by blast+
qed

text \<open>The rounds of the other tasks leave the engine alone, but for the rows of the daily report.\<close>

lemma feed_rounds_frame:
  "sy_engine (drain_round su t stamp msg s) = sy_engine s" "sy_engine (refresh_round su t clock ivc products tickers s) = sy_engine s"
  "sy_up (drain_round su t stamp msg s) = sy_up s" "sy_up (refresh_round su t clock ivc products tickers s) = sy_up s"
  "sy_main_alive (drain_round su t stamp msg s) = sy_main_alive s"
  "sy_main_alive (refresh_round su t clock ivc products tickers s) = sy_main_alive s"
  by (simp_all add: drain_round_def refresh_round_def split: prod.split)

lemma feed_rounds_ok:
  assumes "bot_ok su t s"
  shows "bot_ok su t (drain_round su t stamp msg s)" and "bot_ok su t (refresh_round su t clock ivc products tickers s)"
proof -
  obtain r fd where h: "handle_ws_message (su_parse_float su) (su_tz su) t stamp msg (sy_feeds s) = (r, fd)" by fastforce
  have "sy_up s \<Longrightarrow> feeds_ok (su_tz su) t fd" using assms handle_ws_message_ok [OF _ h] by (simp add: bot_ok_def process_ok_def)
  then show "bot_ok su t (drain_round su t stamp msg s)"
    using assms h by (simp add: drain_round_def bot_ok_def tables_ok_def process_ok_def)
  have "sy_up s \<Longrightarrow> feeds_ok (su_tz su) t (chain_refresh (su_parse_float su) (su_parse_int su) clock ivc t products tickers (sy_feeds s))"
    using assms chain_refresh_ok by (simp add: bot_ok_def process_ok_def)
  then show "bot_ok su t (refresh_round su t clock ivc products tickers s)"
    using assms by (simp add: refresh_round_def bot_ok_def tables_ok_def process_ok_def)
qed

lemma daily_round_ok:
  assumes "bot_ok su t s"
  shows "bot_ok su t (daily_round t s)" and "same_trades s (daily_round t s)" and "keeps_breaker s (daily_round t s)"
    and "en_nav (sy_engine (daily_round t s)) = en_nav (sy_engine s)" "en_marker (sy_engine (daily_round t s)) = en_marker (sy_engine s)"
    and "sy_up (daily_round t s) = sy_up s" "sy_main_alive (daily_round t s) = sy_main_alive s" "sy_feeds (daily_round t s) = sy_feeds s"
    and "en_nav_rows (sy_engine (daily_round t s)) = en_nav_rows (sy_engine s) \<and> sy_last_daily (daily_round t s) = sy_last_daily s \<or>
      sy_up s \<and> latest_tripped (en_nav_rows (sy_engine (daily_round t s))) = circuit_breaker_tripped (en_nav (sy_engine s))"
proof -
  let ?s = "daily_round t s" let ?w = "sy_engine s" let ?n = "en_nav (sy_engine s)"
  have "bot_ok su t ?s \<and> same_trades s ?s \<and> en_nav (sy_engine ?s) = ?n \<and> en_marker (sy_engine ?s) = en_marker ?w \<and>
    sy_up ?s = sy_up s \<and> sy_main_alive ?s = sy_main_alive s \<and> sy_feeds ?s = sy_feeds s \<and>
    (en_nav_rows (sy_engine ?s) = en_nav_rows ?w \<and> sy_last_daily ?s = sy_last_daily s \<or>
     sy_up s \<and> latest_tripped (en_nav_rows (sy_engine ?s)) = circuit_breaker_tripped ?n)"
  proof (cases "sy_up s \<and> daily_due t (sy_last_daily s)")
    case False
    then have "?s = s" by (auto simp: daily_round_def)
    then show ?thesis using assms by (simp add: same_trades_def)
  next
    case True
    obtain r pnl rows where d: "daily_run (date_of (utc_to_ist t)) (nav_now ?n) (max (peak_nav ?n) (nav_now ?n)) (circuit_breaker_tripped ?n)
        (en_db ?w) (sy_pnl s) (en_nav_rows ?w) = (r, pnl, rows)" by (metis prod_cases3)
    have s': "?s = s\<lparr>sy_engine := ?w\<lparr>en_nav_rows := rows\<rparr>, sy_pnl := pnl,
        sy_last_daily := (case r of Inl _ \<Rightarrow> sy_last_daily s | Inr _ \<Rightarrow> Some (date_of (utc_to_ist t)))\<rparr>"
      using True d by (simp add: daily_round_def Let_def)
    have h: "dated t (en_nav_rows ?w)" "distinct (map dp_key (sy_pnl s))" using assms by (simp_all add: bot_ok_def tables_ok_def)
    note k = daily_run_rows [OF d h(1) refl h(2)]
    have "bot_ok su t ?s" using assms k(1,2) by (simp add: bot_ok_def tables_ok_def process_ok_def s' unexplained_nav_def)
    with k(3) True show ?thesis by (auto simp: s' same_trades_def)
  qed
  then show "bot_ok su t ?s" "same_trades s ?s" "en_nav (sy_engine ?s) = ?n" "en_marker (sy_engine ?s) = en_marker ?w"
    "sy_up ?s = sy_up s" "sy_main_alive ?s = sy_main_alive s" "sy_feeds ?s = sy_feeds s"
    "en_nav_rows (sy_engine ?s) = en_nav_rows ?w \<and> sy_last_daily ?s = sy_last_daily s \<or>
     sy_up s \<and> latest_tripped (en_nav_rows (sy_engine ?s)) = circuit_breaker_tripped ?n"
    by blast+
  then show "keeps_breaker s ?s" by (simp add: keeps_breaker_def ids_of_def same_trades_def)
qed

lemma resume_keeps:
  "resume_evaluate confirm t rows d = (rep, rows', d') \<Longrightarrow>
     map nh_trading_date rows' = map nh_trading_date rows \<and> rd_circuit_breaker_json d' = rd_circuit_breaker_json d \<and>
     (\<not> confirm \<longrightarrow> rows' = rows)"
  by (auto simp: resume_evaluate_def maybe_remove_marker_def write_audit_def Let_def split: option.splits if_splits)

lemma resume_command_ok:
  assumes "bot_ok su t s"
  shows "bot_ok su t (resume_command t confirm s)" and "same_trades s (resume_command t confirm s)"
    and "keeps_breaker s (resume_command t confirm s)"
    and "en_nav (sy_engine (resume_command t confirm s)) = en_nav (sy_engine s)"
    and "en_marker (sy_engine (resume_command t confirm s)) = en_marker (sy_engine s)"
    and "sy_up (resume_command t confirm s) = sy_up s" and "sy_main_alive (resume_command t confirm s) = sy_main_alive s"
    and "sy_feeds (resume_command t confirm s) = sy_feeds s"
    and "\<not> confirm \<Longrightarrow> en_nav_rows (sy_engine (resume_command t confirm s)) = en_nav_rows (sy_engine s)"
proof -
  let ?s = "resume_command t confirm s" let ?w = "sy_engine s"
  let ?d = "\<lparr>rd_shutdown_json = sy_shutdown_json s, rd_circuit_breaker_json = en_marker ?w, rd_resume_audit = sy_resume_audit s\<rparr>"
  obtain rep rows d where r: "resume_evaluate confirm t (en_nav_rows ?w) ?d = (rep, rows, d)" by (metis prod_cases3)
  note k = resume_keeps [OF r]
  have s': "?s = s\<lparr>sy_engine := ?w\<lparr>en_nav_rows := rows, en_marker := en_marker ?w\<rparr>, sy_shutdown_json := rd_shutdown_json d,
      sy_resume_audit := rd_resume_audit d\<rparr>" using r k by (simp add: resume_command_def Let_def)
  have "dated t rows" using assms k dated_dates [of rows "en_nav_rows ?w" t] by (simp add: bot_ok_def tables_ok_def)
  with assms show "bot_ok su t ?s" by (simp add: bot_ok_def tables_ok_def process_ok_def s' unexplained_nav_def)
  show "same_trades s ?s" "keeps_breaker s ?s" "en_nav (sy_engine ?s) = en_nav ?w" "en_marker (sy_engine ?s) = en_marker ?w"
    "sy_up ?s = sy_up s" "sy_main_alive ?s = sy_main_alive s" "sy_feeds ?s = sy_feeds s"
    using k by (simp_all add: s' same_trades_def keeps_breaker_def ids_of_def)
  show "en_nav_rows (sy_engine ?s) = en_nav_rows ?w" if "\<not> confirm"
    unfolding s' using k that by simp
qed

lemma latest_tripped_load:
  "circuit_breaker_tripped (load_nav_tracker trades rows base t) = latest_tripped rows"
  by (simp add: load_nav_tracker_def latest_tripped_def Let_def split: option.split)

lemma nav_load: "nav_now (load_nav_tracker trades rows base t) = base + sum_realised_pnl_inr trades"
  by (simp add: load_nav_tracker_def Let_def)

lemma boot_fields:
  assumes "boot_engine configs db rows marker base t x decisions = Inr e"
  shows "en_db e = db" "en_nav_rows e = rows" "en_marker e = marker" "circuit_breaker_tripped (en_nav e) = (marker \<or> latest_tripped rows)"
    and "unexplained_nav e = base" "en_decisions e = decisions"
  using assms
  by (auto simp: boot_engine_def Let_def latest_tripped_load unexplained_nav_def nav_load split: if_splits)

lemma start_engine_Inr:
  assumes "start_engine su t p s = Inr (w, fd)"
  shows "boot_engine (su_strategies su) (en_db (sy_engine s)) (en_nav_rows (sy_engine s)) (en_marker (sy_engine s)) (su_base_nav su) t
      (ps_executor p) (en_decisions (sy_engine s)) = Inr w"
    and "\<exists>cs. new_candles = Inr cs \<and> fd = start_feeds cs 300 mk_iv_history_store (fd_iv_table (sy_feeds s))"
  using assms by (auto simp: start_engine_def Let_def bind_result_Inr_iff)

text \<open>A start keeps the tables, and the new tracker is tripped exactly when the marker or the latest row says so.\<close>

lemma start_process_ok:
  assumes "bot_ok su t s"
  shows "bot_ok su t (start_process su t x s)" and "same_trades s (start_process su t x s)"
    and "en_nav_rows (sy_engine (start_process su t x s)) = en_nav_rows (sy_engine s)"
    and "en_marker (sy_engine (start_process su t x s)) = en_marker (sy_engine s)"
    and "sy_up (start_process su t x s) \<Longrightarrow>
      circuit_breaker_tripped (en_nav (sy_engine (start_process su t x s))) = stored_trip (sy_engine s)"
proof -
  let ?s = "start_process su t x s" let ?w = "sy_engine s"
  have tab: "su_tz su \<le> t" "tables_ok t s" using assms by (simp_all add: bot_ok_def)
  have "bot_ok su t ?s \<and> same_trades s ?s \<and> en_nav_rows (sy_engine ?s) = en_nav_rows ?w \<and> en_marker (sy_engine ?s) = en_marker ?w \<and>
    (sy_up ?s \<longrightarrow> circuit_breaker_tripped (en_nav (sy_engine ?s)) = stored_trip ?w)"
  proof (cases "start_engine su t x s")
    case (Inl e)
    with tab show ?thesis by (simp add: start_process_def bot_ok_def tables_ok_def process_ok_def same_trades_def)
  next
    case (Inr q)
    obtain e fd where q: "q = (e, fd)" by (cases q)
    note b = boot_fields [OF start_engine_Inr(1) [OF Inr [unfolded q]]]
    obtain cs where cs: "new_candles = Inr cs" "fd = start_feeds cs 300 mk_iv_history_store (fd_iv_table (sy_feeds s))"
      using start_engine_Inr(2) [OF Inr [unfolded q]] by blast
    have s': "?s = s\<lparr>sy_up := True, sy_main_alive := True, sy_drain_alive := True, sy_engine := e,
        sy_feeds := fd, sy_last_daily := None\<rparr>"
      using Inr q by (simp add: start_process_def)
    have "chain_wf (mk_chain_cache 300)" by (simp add: chain_wf_def mk_chain_cache_def dict_wf_def)
    then have "feeds_ok (su_tz su) t fd"
      using new_candles_ok [OF cs(1) tab(1)] by (simp add: cs(2) start_feeds_def)
    with tab b show ?thesis
      by (simp add: s' bot_ok_def tables_ok_def process_ok_def same_trades_def stored_trip_def)
  qed
  then show "bot_ok su t ?s" "same_trades s ?s" "en_nav_rows (sy_engine ?s) = en_nav_rows ?w" "en_marker (sy_engine ?s) = en_marker ?w"
    "sy_up ?s \<Longrightarrow> circuit_breaker_tripped (en_nav (sy_engine ?s)) = stored_trip ?w" by blast+
qed

section \<open>Steps and runs\<close>

text \<open>The steps one by one, as cases of a proof about a step.\<close>

lemma bot_step_cases:
  fixes ev :: "datetime \<times> 'x event"
  obtains (Tick) ti where "snd ev = MainTick ti" "bot_step su ev s = (main_round su (fst ev) ti s)\<lparr>sy_now := fst ev\<rparr>"
  | (Feed) s' where "sy_engine s' = sy_engine s" "sy_up s' = sy_up s" "sy_main_alive s' = sy_main_alive s" "snd ev \<noteq> ResumeCommand True"
      "\<forall>x. snd ev \<noteq> StartProcess x" "bot_ok su (fst ev) s \<longrightarrow> bot_ok su (fst ev) s'" "bot_step su ev s = s'\<lparr>sy_now := fst ev\<rparr>"
  | (Daily) "snd ev = DailyTimer" "bot_step su ev s = (daily_round (fst ev) s)\<lparr>sy_now := fst ev\<rparr>"
  | (Resume) confirm where "snd ev = ResumeCommand confirm" "bot_step su ev s = (resume_command (fst ev) confirm s)\<lparr>sy_now := fst ev\<rparr>"
  | (Stop) "snd ev = StopSignal" "bot_step su ev s = s\<lparr>sy_up := False, sy_now := fst ev\<rparr>"
  | (Start) x where "snd ev = StartProcess x" "bot_step su ev s = (start_process su (fst ev) x s)\<lparr>sy_now := fst ev\<rparr>"
proof (cases "snd ev")
  case (WsMessage stamp msg)
  show thesis
    by (rule Feed [of "drain_round su (fst ev) stamp msg s"])
      (simp_all add: bot_step_def WsMessage feed_rounds_frame Let_def feed_rounds_ok)
next
  case (ChainRefresh clock ivc products tickers)
  show thesis
    by (rule Feed [of "refresh_round su (fst ev) clock ivc products tickers s"])
      (simp_all add: bot_step_def ChainRefresh feed_rounds_frame Let_def feed_rounds_ok)
next
  case (MainTick ti)
  show thesis by (rule Tick [OF MainTick]) (simp add: bot_step_def MainTick Let_def)
next
  case DailyTimer
  show thesis by (rule Daily [OF DailyTimer]) (simp add: bot_step_def DailyTimer Let_def)
next
  case (ResumeCommand confirm)
  show thesis by (rule Resume [OF ResumeCommand]) (simp add: bot_step_def ResumeCommand Let_def)
next
  case StopSignal
  show thesis by (rule Stop [OF StopSignal]) (simp add: bot_step_def StopSignal Let_def)
next
  case (StartProcess x)
  show thesis by (rule Start [OF StartProcess]) (simp add: bot_step_def StartProcess Let_def)
qed

lemma in_order_snoc: "in_order t (evs @ [ev]) \<longleftrightarrow> in_order t evs \<and> t \<le> fst ev \<and> (\<forall>e \<in> set evs. fst e \<le> fst ev)"
  by (auto simp: in_order_def sorted_append)

lemma in_order_append: "in_order t (xs @ ys) \<Longrightarrow> in_order t xs"
  by (auto simp: in_order_def sorted_append)

lemma in_order_Cons: "in_order t (ev # evs) \<longleftrightarrow> t \<le> fst ev \<and> in_order (fst ev) evs"
  by (auto simp: in_order_def)

lemma bot_run_simps [simp]:
  "bot_run su [] s = s" "bot_run su (ev # evs) s = bot_run su evs (bot_step su ev s)"
  "bot_run su (xs @ ys) s = bot_run su ys (bot_run su xs s)"
  by (simp_all add: bot_run_def)

lemma bot_step_now [simp]: "sy_now (bot_step su ev s) = fst ev"
  by (simp add: bot_step_def Let_def)

text \<open>The rule for runs: a fact that every step keeps, for events of some kind.\<close>

lemma bot_run_keeps:
  assumes "in_order (sy_now s) evs" and "P s"
    and "\<And>s ev. P s \<Longrightarrow> sy_now s \<le> fst ev \<Longrightarrow> ev \<in> set evs \<Longrightarrow> P (bot_step su ev s)"
  shows "P (bot_run su evs s)"
  using assms
proof (induction evs arbitrary: s)
  case (Cons ev evs)
  have o: "sy_now s \<le> fst ev" "in_order (sy_now (bot_step su ev s)) evs" using Cons.prems(1) by (simp_all add: in_order_Cons)
  have "P (bot_step su ev s)" using Cons.prems(2,3) o(1) by simp
  from Cons.IH [OF o(2) this] Cons.prems(3) show ?case by simp
qed simp

lemma bot_step_ok:
  assumes "bot_ok su (sy_now s) s" and "sy_now s \<le> fst ev"
  shows "bot_ok su (fst ev) (bot_step su ev s)"
    and "evolves (en_db (sy_engine s)) (en_db (sy_engine (bot_step su ev s)))"
    and "count_open (of_strategy k) (en_db (sy_engine (bot_step su ev s))) \<le>
      max (count_open (of_strategy k) (en_db (sy_engine s))) (limit_of (su_config su) k)"
proof -
  have ok: "bot_ok su (fst ev) s" using bot_ok_mono [OF assms] .
  have "bot_ok su (fst ev) (bot_step su ev s) \<and> evolves (en_db (sy_engine s)) (en_db (sy_engine (bot_step su ev s))) \<and>
    count_open (of_strategy k) (en_db (sy_engine (bot_step su ev s))) \<le>
      max (count_open (of_strategy k) (en_db (sy_engine s))) (limit_of (su_config su) k)"
  proof (cases rule: bot_step_cases [of ev su s])
    case (Tick ti)
    then show ?thesis using main_round_ok(1,4,5) [OF ok] by simp
  next
    case (Feed s')
    then show ?thesis using ok by simp
  next
    case Daily
    then show ?thesis using daily_round_ok(1,2) [OF ok] by (simp add: same_trades_def)
  next
    case (Resume confirm)
    then show ?thesis using resume_command_ok(1,2) [OF ok] by (simp add: same_trades_def)
  next
    case Stop
    then show ?thesis using ok by (simp add: bot_ok_def tables_ok_def process_ok_def)
  next
    case (Start x)
    then show ?thesis using start_process_ok(1,2) [OF ok] by (simp add: same_trades_def)
  qed
  then show "bot_ok su (fst ev) (bot_step su ev s)" "evolves (en_db (sy_engine s)) (en_db (sy_engine (bot_step su ev s)))"
    "count_open (of_strategy k) (en_db (sy_engine (bot_step su ev s))) \<le>
      max (count_open (of_strategy k) (en_db (sy_engine s))) (limit_of (su_config su) k)" by blast+
qed

lemma bot_run_ok:
  fixes s :: "'x bot"
  assumes "in_order (sy_now s) evs" and "bot_ok su (sy_now s) s"
  shows "bot_ok su (sy_now (bot_run su evs s)) (bot_run su evs s) \<and>
    evolves (en_db (sy_engine s)) (en_db (sy_engine (bot_run su evs s))) \<and>
    count_open (of_strategy k) (en_db (sy_engine (bot_run su evs s))) \<le>
      max (count_open (of_strategy k) (en_db (sy_engine s))) (limit_of (su_config su) k)"
proof (rule bot_run_keeps [OF assms(1)])
  fix u :: "'x bot" and ev :: "datetime \<times> 'x event"
  assume h: "bot_ok su (sy_now u) u \<and> evolves (en_db (sy_engine s)) (en_db (sy_engine u)) \<and>
    count_open (of_strategy k) (en_db (sy_engine u)) \<le> max (count_open (of_strategy k) (en_db (sy_engine s))) (limit_of (su_config su) k)"
    "sy_now u \<le> fst ev"
  note st = bot_step_ok [of su u ev, OF conjunct1 [OF h(1)] h(2)]
  have "evolves (en_db (sy_engine s)) (en_db (sy_engine (bot_step su ev u)))" using h(1) st(2) evolves_trans by blast
  moreover have "count_open (of_strategy k) (en_db (sy_engine (bot_step su ev u))) \<le>
      max (count_open (of_strategy k) (en_db (sy_engine s))) (limit_of (su_config su) k)"
    using h(1) st(3) [of k] by linarith
  ultimately show "bot_ok su (sy_now (bot_step su ev u)) (bot_step su ev u) \<and>
     evolves (en_db (sy_engine s)) (en_db (sy_engine (bot_step su ev u))) \<and>
     count_open (of_strategy k) (en_db (sy_engine (bot_step su ev u))) \<le> max (count_open (of_strategy k) (en_db (sy_engine s))) (limit_of (su_config su) k)"
    using st(1) by simp
qed (use assms(2) in simp)

section \<open>The breaker over a run\<close>

abbreviation tripped :: "'x bot \<Rightarrow> bool" where
  "tripped s \<equiv> circuit_breaker_tripped (en_nav (sy_engine s))"

text \<open>A marker stays, and the trades are those that are there.\<close>

lemma marker_step:
  assumes "bot_ok su (sy_now s) s" and "sy_now s \<le> fst ev" and "en_marker (sy_engine s)"
  shows "en_marker (sy_engine (bot_step su ev s)) \<and> ids_of (bot_step su ev s) = ids_of s"
proof -
  have ok: "bot_ok su (fst ev) s" using bot_ok_mono [OF assms(1,2)] .
  have up: "sy_up s \<Longrightarrow> tripped s" using ok assms(3) by (simp add: bot_ok_def process_ok_def)
  show ?thesis
  proof (cases rule: bot_step_cases [of ev su s])
    case (Tick ti)
    then show ?thesis using main_round_ok(2) [OF ok, of ti] up assms(3) by (cases "sy_up s") (simp_all add: keeps_breaker_def ids_of_def)
  next
    case (Feed s')
    then show ?thesis using assms(3) by (simp add: ids_of_def)
  next
    case Daily
    then show ?thesis using daily_round_ok(2,5) [OF ok] assms(3) by (simp add: same_trades_def ids_of_def)
  next
    case (Resume confirm)
    then show ?thesis using resume_command_ok(2,5) [OF ok] assms(3) by (simp add: same_trades_def ids_of_def)
  next
    case Stop
    then show ?thesis using assms(3) by (simp add: ids_of_def)
  next
    case (Start x)
    then show ?thesis using start_process_ok(2,4) [OF ok] assms(3) by (simp add: same_trades_def ids_of_def)
  qed
qed

text \<open>Every trip is stored when the tracker is tripped, as long as no recovery is confirmed.\<close>

definition trip_stored :: "'x bot \<Rightarrow> bool" where
  "trip_stored s \<longleftrightarrow> (sy_up s \<and> tripped s \<longrightarrow> stored_trip (sy_engine s))"

definition halted :: "'x bot \<Rightarrow> bool" where
  "halted s \<longleftrightarrow> stored_trip (sy_engine s) \<and> (sy_up s \<longrightarrow> tripped s)"

lemma tick_stores_trip:
  "tick_stores t w w' \<Longrightarrow> dated t (en_nav_rows w) \<Longrightarrow>
     (stored_trip w' \<longleftrightarrow> stored_trip w) \<and> circuit_breaker_tripped (en_nav w') = circuit_breaker_tripped (en_nav w) \<or> stored_trip w'"
  by (auto simp: tick_stores_def stored_trip_def)

lemma quiet_step:
  assumes "bot_ok su (sy_now s) s" and "sy_now s \<le> fst ev" and "snd ev \<noteq> ResumeCommand True"
  shows "trip_stored s \<Longrightarrow> trip_stored (bot_step su ev s)"
    and "halted s \<Longrightarrow> halted (bot_step su ev s) \<and> ids_of (bot_step su ev s) = ids_of s"
proof -
  have ok: "bot_ok su (fst ev) s" using bot_ok_mono [OF assms(1,2)] .
  have "(trip_stored s \<longrightarrow> trip_stored (bot_step su ev s)) \<and>
    (halted s \<longrightarrow> halted (bot_step su ev s) \<and> ids_of (bot_step su ev s) = ids_of s)"
  proof (cases rule: bot_step_cases [of ev su s])
    case (Tick ti)
    let ?s = "main_round su (fst ev) ti s"
    have up: "sy_up ?s = sy_up s" by (simp add: main_round_def split: prod.split)
    have idle: "\<not> sy_up s \<Longrightarrow> ?s = s" by (simp add: main_round_def)
    have "dated (fst ev) (en_nav_rows (sy_engine s))" using ok by (simp add: bot_ok_def tables_ok_def)
    note st = tick_stores_trip [OF main_round_ok(3) [OF ok] this, of ti]
    have kb: "sy_up s \<Longrightarrow> tripped s \<Longrightarrow> ids_of ?s = ids_of s \<and> tripped ?s"
      using main_round_ok(2) [OF ok, of ti] by (simp add: keeps_breaker_def)
    have "trip_stored s \<longrightarrow> trip_stored ?s" using st up by (auto simp: trip_stored_def)
    moreover have "halted s \<longrightarrow> halted ?s \<and> ids_of ?s = ids_of s"
    proof (cases "sy_up s")
      case True
      with st kb up show ?thesis by (auto simp: halted_def)
    next
      case False
      with idle show ?thesis by simp
    qed
    ultimately show ?thesis using Tick(2) by (simp add: trip_stored_def halted_def ids_of_def)
  next
    case (Feed s')
    then show ?thesis by (simp add: trip_stored_def halted_def ids_of_def)
  next
    case Daily
    note d = daily_round_ok [OF ok]
    from d(9) d(2,4,5,6) Daily(2) show ?thesis
      by (auto simp: trip_stored_def halted_def ids_of_def same_trades_def stored_trip_def)
  next
    case (Resume confirm)
    then have c: "\<not> confirm" using assms(3) by simp
    note r = resume_command_ok(2,4,5,6) [OF ok, of confirm] resume_command_ok(9) [OF ok c]
    then show ?thesis using Resume(2) by (simp add: trip_stored_def halted_def ids_of_def same_trades_def stored_trip_def)
  next
    case Stop
    then show ?thesis by (simp add: trip_stored_def halted_def ids_of_def)
  next
    case (Start x)
    note st = start_process_ok [OF ok, of x]
    then have "stored_trip (sy_engine (start_process su (fst ev) x s)) = stored_trip (sy_engine s)" by (simp add: stored_trip_def)
    with st Start(2) show ?thesis by (auto simp: trip_stored_def halted_def ids_of_def same_trades_def)
  qed
  then show "trip_stored s \<Longrightarrow> trip_stored (bot_step su ev s)"
    "halted s \<Longrightarrow> halted (bot_step su ev s) \<and> ids_of (bot_step su ev s) = ids_of s" by blast+
qed

text \<open>A process that runs tripped stays so until it is started anew, whatever the operator confirms.\<close>

lemma running_step:
  assumes "bot_ok su (sy_now s) s" and "sy_now s \<le> fst ev" and "\<forall>x. snd ev \<noteq> StartProcess x" and "tripped s" and "ids_of s = ids"
  shows "tripped (bot_step su ev s) \<and> ids_of (bot_step su ev s) = ids"
proof -
  have ok: "bot_ok su (fst ev) s" using bot_ok_mono [OF assms(1,2)] .
  show ?thesis
  proof (cases rule: bot_step_cases [of ev su s])
    case (Tick ti)
    have idle: "\<not> sy_up s \<Longrightarrow> main_round su (fst ev) ti s = s" by (simp add: main_round_def)
    show ?thesis
      using Tick(2) main_round_ok(2) [OF ok, of ti] idle assms(4,5) by (cases "sy_up s") (simp_all add: keeps_breaker_def ids_of_def)
  next
    case (Feed s')
    then show ?thesis using assms(4,5) by (simp add: ids_of_def)
  next
    case Daily
    then show ?thesis using daily_round_ok(2,4) [OF ok] assms(4,5) by (simp add: same_trades_def ids_of_def)
  next
    case (Resume confirm)
    then show ?thesis using resume_command_ok(2,4) [OF ok] assms(4,5) by (simp add: same_trades_def ids_of_def)
  next
    case Stop
    then show ?thesis using assms(4,5) by (simp add: ids_of_def)
  next
    case (Start x)
    with assms(3) show ?thesis by simp
  qed
qed

text \<open>After the main loop has ended, a process that is not started anew never touches a stored trade or the tracker.\<close>

lemma dead_step:
  assumes "\<not> sy_main_alive s" and "\<forall>x. snd ev \<noteq> StartProcess x"
  shows "\<not> sy_main_alive (bot_step su ev s) \<and> en_db (sy_engine (bot_step su ev s)) = en_db (sy_engine s) \<and>
    en_nav (sy_engine (bot_step su ev s)) = en_nav (sy_engine s)"
proof (cases rule: bot_step_cases [of ev su s])
  case (Tick ti)
  then show ?thesis using assms(1) by (simp add: main_round_def)
next
  case (Feed s')
  then show ?thesis using assms(1) by simp
next
  case Daily
  then show ?thesis using assms(1) by (simp add: daily_round_def Let_def split: prod.split)
next
  case (Resume confirm)
  then show ?thesis using assms(1) by (simp add: resume_command_def Let_def split: prod.split)
next
  case Stop
  then show ?thesis using assms(1) by simp
next
  case (Start x)
  with assms(2) show ?thesis by simp
qed

section \<open>Claims\<close>

text \<open>A machine on which the bot is installed and does not run, with tables that respect their keys.\<close>

definition installed :: "'x installation \<Rightarrow> 'x bot \<Rightarrow> bool" where
  "installed su s \<longleftrightarrow> \<not> sy_up s \<and> su_tz su \<le> sy_now s \<and> tables_ok (sy_now s) s"

lemma installed_ok: "installed su s \<Longrightarrow> bot_ok su (sy_now s) s"
  by (simp add: installed_def bot_ok_def process_ok_def)

lemma run_in_order: "in_order (sy_now s) (xs @ ys) \<Longrightarrow> in_order (sy_now (bot_run su xs s)) ys"
  by (induction xs arbitrary: s) (auto simp: in_order_Cons)

lemma installed_run_ok:
  assumes "installed su s0" and "in_order (sy_now s0) evs"
  shows "bot_ok su (sy_now (bot_run su evs s0)) (bot_run su evs s0)"
  using bot_run_ok [OF assms(2) installed_ok [OF assms(1)]] by blast

lemma halted_run:
  fixes s :: "'x bot"
  assumes "bot_ok su (sy_now s) s" and "in_order (sy_now s) evs" and "\<forall>ev \<in> set evs. snd ev \<noteq> ResumeCommand True" and "halted s"
  shows "halted (bot_run su evs s) \<and> ids_of (bot_run su evs s) = ids_of s"
proof -
  let ?P = "\<lambda>u. bot_ok su (sy_now u) u \<and> halted u \<and> ids_of u = ids_of s"
  have "?P (bot_run su evs s)"
  proof (rule bot_run_keeps [where P = ?P, OF assms(2)])
    fix u :: "'x bot" and ev :: "datetime \<times> 'x event" assume h: "?P u" "sy_now u \<le> fst ev" "ev \<in> set evs"
    then have ok: "bot_ok su (sy_now u) u" by simp
    have "bot_ok su (fst ev) (bot_step su ev u)" using bot_step_ok(1) [OF ok h(2)] .
    moreover have "snd ev \<noteq> ResumeCommand True" using h(3) assms(3) by simp
    ultimately show "?P (bot_step su ev u)" using quiet_step(2) [OF ok h(2)] h(1) by simp
  qed (use assms(1,4) in simp)
  then show ?thesis by simp
qed

text \<open>
  C2: the whole bot keeps its books.  From tables that respect their keys, whatever rounds of the main loop, messages,
  refreshes, reports, recoveries, stops and starts follow one another, completed or ended by an exception: the keys of
  the tables stay unique, the open trades, in all and per strategy, are at most the configured limit or what was
  there at the beginning; and while a process runs its market data is well formed, and the NAV in memory is the base
  and the profit booked in the tables for as long as its main loop lives.
\<close>

theorem bot_keeps_its_books:
  fixes s0 :: "'x bot"
  assumes "installed su s0" and "in_order (sy_now s0) evs" and "s = bot_run su evs s0"
  shows "db_wf (en_db (sy_engine s)) \<and> rows_wf (en_nav_rows (sy_engine s)) \<and> distinct (map dp_key (sy_pnl s)) \<and>
    count_open (of_strategy k) (en_db (sy_engine s)) \<le>
      max (count_open (of_strategy k) (en_db (sy_engine s0))) (limit_of (su_config su) k) \<and>
    (if sy_up s then
       chain_wf (fd_chain (sy_feeds s)) \<and>
       list_all (\<lambda>(u, aggs). list_all (\<lambda>(tf, a). contiguous a \<and> length (closed a) \<le> history a) aggs) (fd_candles (sy_feeds s)) \<and>
       (if sy_main_alive s then nav_now (en_nav (sy_engine s)) = su_base_nav su + sum_realised_pnl_inr (tb_trades (en_db (sy_engine s)))
        else True)
     else True)"
proof -
  have ok: "bot_ok su (sy_now s) s" using installed_run_ok [OF assms(1,2)] assms(3) by simp
  have ct: "count_open (of_strategy k) (en_db (sy_engine s)) \<le>
      max (count_open (of_strategy k) (en_db (sy_engine s0))) (limit_of (su_config su) k)"
    using bot_run_ok [OF assms(2) installed_ok [OF assms(1)]] assms(3) by blast
  have tab: "db_wf (en_db (sy_engine s))" "rows_wf (en_nav_rows (sy_engine s))" "distinct (map dp_key (sy_pnl s))"
    using ok by (simp_all add: bot_ok_def tables_ok_def dated_def)
  show ?thesis
  proof (cases "sy_up s")
    case True
    then have f: "feeds_ok (su_tz su) (sy_now s) (sy_feeds s)"
      and n: "sy_main_alive s \<Longrightarrow> unexplained_nav (sy_engine s) = su_base_nav su" using ok by (simp_all add: bot_ok_def process_ok_def)
    have "\<forall>p \<in> set (fd_candles (sy_feeds s)). \<forall>q \<in> set (snd p). contiguous (snd q) \<and> length (closed (snd q)) \<le> history (snd q)"
      using f agg_at_bars unfolding feeds_ok_def by blast
    then have c: "list_all (\<lambda>(u, aggs). list_all (\<lambda>(tf, a). contiguous a \<and> length (closed a) \<le> history a) aggs) (fd_candles (sy_feeds s))"
      by (simp add: list_all_iff case_prod_beta)
    have "chain_wf (fd_chain (sy_feeds s))" using f by (simp add: feeds_ok_def)
    moreover have "nav_now (en_nav (sy_engine s)) = su_base_nav su + sum_realised_pnl_inr (tb_trades (en_db (sy_engine s)))"
      if "sy_main_alive s" using n [OF that] by (simp add: unexplained_nav_def)
    ultimately show ?thesis using tab ct c True by simp
  next
    case False
    with tab ct show ?thesis by simp
  qed
qed

text \<open>
  C3: the whole bot refines the ledger.  Over any run of all its tasks and over any number of starts, the stored trades
  go through steps of the abstract ledger only: a trade is opened once, fails or is closed once, and one that is over is not
  touched again.
\<close>

theorem bot_refines_ledger:
  assumes "installed su s0" and "in_order (sy_now s0) evs" and "typed_trades (en_db (sy_engine s0))"
  shows "ledger_run (life (en_db (sy_engine s0))) (life (en_db (sy_engine (bot_run su evs s0)))) \<and>
    typed_trades (en_db (sy_engine (bot_run su evs s0)))"
proof -
  have "evolves (en_db (sy_engine s0)) (en_db (sy_engine (bot_run su evs s0)))"
    using bot_run_ok [OF assms(2) installed_ok [OF assms(1)]] by blast
  moreover have "db_wf (en_db (sy_engine s0))" using assms(1) by (simp add: installed_def tables_ok_def)
  ultimately show ?thesis using assms(3) by (auto simp: evolves_def)
qed

text \<open>
  C4: only a confirmed recovery can end a trip.  Once the tracker of a running process is tripped, then whatever follows
  without a confirmed recovery, including crashes, stops and starts, every process that runs is tripped, a next start
  would be tripped too, and no trade is opened.
\<close>

theorem trip_lasts_until_recovery:
  fixes s0 :: "'x bot"
  assumes "installed su s0" and "in_order (sy_now s0) (evs1 @ evs2)"
    and "\<forall>ev \<in> set (evs1 @ evs2). snd ev \<noteq> ResumeCommand True"
    and "s1 = bot_run su evs1 s0" and "sy_up s1" and "tripped s1" and "s2 = bot_run su evs2 s1"
  shows "stored_trip (sy_engine s2) \<and> (sy_up s2 \<longrightarrow> tripped s2) \<and> ids_of s2 = ids_of s1"
proof -
  have o1: "in_order (sy_now s0) evs1" using in_order_append [OF assms(2)] .
  have ok: "bot_ok su (sy_now s1) s1" using installed_run_ok [OF assms(1) o1] assms(4) by simp
  let ?P = "\<lambda>u. bot_ok su (sy_now u) u \<and> trip_stored u"
  have "?P (bot_run su evs1 s0)"
  proof (rule bot_run_keeps [where P = ?P, OF o1])
    show "?P s0" using installed_ok [OF assms(1)] assms(1) by (simp add: installed_def trip_stored_def)
    fix u :: "'x bot" and ev :: "datetime \<times> 'x event" assume h: "?P u" "sy_now u \<le> fst ev" "ev \<in> set evs1"
    then have ok: "bot_ok su (sy_now u) u" by simp
    have "bot_ok su (fst ev) (bot_step su ev u)" using bot_step_ok(1) [OF ok h(2)] .
    moreover have "snd ev \<noteq> ResumeCommand True" using h(3) assms(3) by simp
    ultimately show "?P (bot_step su ev u)" using quiet_step(1) [OF ok h(2)] h(1) by simp
  qed
  then have "halted s1" using assms(4,5,6) by (simp add: trip_stored_def halted_def)
  moreover have "in_order (sy_now s1) evs2" using run_in_order [OF assms(2)] assms(4) by simp
  ultimately have "halted s2 \<and> ids_of s2 = ids_of s1" using halted_run [OF ok] assms(3,7) by simp
  then show ?thesis by (simp add: halted_def)
qed

text \<open>
  C23: the marker file of a trip outlives every recovery.  Once it is there, no run of the bot clears it, with any number of
  confirmed recoveries and starts: every process that runs is tripped and no trade is opened.
\<close>

theorem marker_outlives_recovery:
  fixes s0 :: "'x bot"
  assumes "installed su s0" and "in_order (sy_now s0) (evs1 @ evs2)" and "s1 = bot_run su evs1 s0"
    and "en_marker (sy_engine s1)" and "s2 = bot_run su evs2 s1"
  shows "en_marker (sy_engine s2) \<and> (sy_up s2 \<longrightarrow> tripped s2) \<and> ids_of s2 = ids_of s1"
proof -
  have o1: "in_order (sy_now s0) evs1" using in_order_append [OF assms(2)] .
  have ok: "bot_ok su (sy_now s1) s1" using installed_run_ok [OF assms(1) o1] assms(3) by simp
  have o2: "in_order (sy_now s1) evs2" using run_in_order [OF assms(2)] assms(3) by simp
  let ?P = "\<lambda>u. bot_ok su (sy_now u) u \<and> en_marker (sy_engine u) \<and> ids_of u = ids_of s1"
  have "?P (bot_run su evs2 s1)"
  proof (rule bot_run_keeps [where P = ?P, OF o2])
    show "?P s1" using ok assms(4) by simp
    fix u :: "'x bot" and ev :: "datetime \<times> 'x event" assume h: "?P u" "sy_now u \<le> fst ev"
    then have ok: "bot_ok su (sy_now u) u" by simp
    have "bot_ok su (fst ev) (bot_step su ev u)" using bot_step_ok(1) [OF ok h(2)] .
    then show "?P (bot_step su ev u)" using marker_step [OF ok h(2)] h(1) by simp
  qed
  then show ?thesis using assms(5) by (auto simp: bot_ok_def process_ok_def)
qed

text \<open>
  C24: a confirmed recovery does not reach a running process.  A process that runs tripped stays tripped whatever the operator
  confirms, and the next daily report that it writes marks the latest row as tripped again: after it,
  the recovery is undone, and without a further one every later process starts tripped.
\<close>

theorem report_undoes_recovery:
  fixes s0 :: "'x bot"
  assumes "installed su s0" and "s = bot_run su evs0 s0" and "tripped s"
    and "in_order (sy_now s0) (evs0 @ evs1 @ (t, DailyTimer) # evs2)"
    and "\<forall>ev \<in> set evs1. \<forall>x. snd ev \<noteq> StartProcess x" and "\<forall>ev \<in> set evs2. snd ev \<noteq> ResumeCommand True"
    and "s1 = bot_run su evs1 s" and "s2 = bot_step su (t, DailyTimer) s1" and "sy_last_daily s2 \<noteq> sy_last_daily s1"
    and "s3 = bot_run su evs2 s2"
  shows "tripped s1 \<and> stored_trip (sy_engine s3) \<and> (sy_up s3 \<longrightarrow> tripped s3) \<and> ids_of s3 = ids_of s"
proof -
  have ok: "bot_ok su (sy_now s) s" using installed_run_ok [OF assms(1) in_order_append [OF assms(4)]] assms(2) by simp
  have o: "in_order (sy_now s) (evs1 @ (t, DailyTimer) # evs2)" using run_in_order [OF assms(4)] assms(2) by simp
  let ?P = "\<lambda>u. bot_ok su (sy_now u) u \<and> tripped u \<and> ids_of u = ids_of s"
  have "?P (bot_run su evs1 s)"
  proof (rule bot_run_keeps [where P = ?P, OF in_order_append [OF o]])
    show "?P s" using ok assms(3) by simp
    fix u :: "'x bot" and ev :: "datetime \<times> 'x event" assume h: "?P u" "sy_now u \<le> fst ev" "ev \<in> set evs1"
    then have ok: "bot_ok su (sy_now u) u" "tripped u" "ids_of u = ids_of s" by simp_all
    have "\<forall>x. snd ev \<noteq> StartProcess x" using h(3) assms(5) by simp
    from running_step [OF ok(1) h(2) this ok(2,3)] bot_step_ok(1) [OF ok(1) h(2)] show "?P (bot_step su ev u)" by simp
  qed
  then have s1: "bot_ok su (sy_now s1) s1" "tripped s1" "ids_of s1 = ids_of s" using assms(7) by simp_all
  have o1: "in_order (sy_now s1) ((t, DailyTimer) # evs2)" using run_in_order [OF o] assms(7) by simp
  then have le: "sy_now s1 \<le> t" by (simp add: in_order_Cons)
  have okt: "bot_ok su t s1" using bot_ok_mono [OF s1(1) le] .
  have s2: "s2 = (daily_round t s1)\<lparr>sy_now := t\<rparr>" using assms(8) by (simp add: bot_step_def)
  note d = daily_round_ok [OF okt]
  have "sy_up s1 \<and> latest_tripped (en_nav_rows (sy_engine (daily_round t s1)))" using d(9) assms(9) s1(2) s2 by auto
  then have h2: "halted s2" "ids_of s2 = ids_of s" using d(2,4) s1(2,3) s2
    by (simp_all add: halted_def stored_trip_def ids_of_def same_trades_def)
  have ok2: "bot_ok su (sy_now s2) s2" using d(1) s2 by simp
  have "in_order (sy_now s2) evs2" using o1 s2 by (simp add: in_order_Cons)
  from halted_run [OF ok2 this assms(6) h2(1)] assms(10) h2(2) s1(2) show ?thesis by (simp add: halted_def)
qed

text \<open>
  C8: the end of the main loop goes unnoticed.  When a round of the main loop raises, then until the process is started
  anew no stored trade changes, so that no open position is managed or closed and no stop is moved, whatever marks
  arrive; and the health endpoint goes on answering for the size of the chain alone.
\<close>

theorem dead_main_loop_unnoticed:
  assumes "sy_up s" and "sy_main_alive s"
    and "tick (su_config su) (su_executor su) (tick_of t (sy_feeds s) ti) (sy_engine s) = (Inl e, w)"
    and "\<forall>ev \<in> set evs. \<forall>x. snd ev \<noteq> StartProcess x" and "s' = bot_run su ((t, MainTick ti) # evs) s"
    and "split_words [] l = [''GET'', ''/health'', ''HTTP/1.1'']"
  shows "\<not> sy_main_alive s' \<and> en_db (sy_engine s') = en_db w \<and> en_nav (sy_engine s') = en_nav w \<and>
    (\<exists>p. fst (handle (engine_server page dumps now is_live (sy_feeds s') ws) (l # ls)) =
       Some \<lparr>rs_status = (if 0 < chain_size (fd_chain (sy_feeds s')) then 200 else 503), rs_body = dumps (VDict p),
             rs_content_type = ''application/json''\<rparr>)"
proof -
  define s1 where "s1 = bot_step su (t, MainTick ti) s"
  have s1: "s1 = s\<lparr>sy_engine := w, sy_main_alive := False, sy_now := t\<rparr>"
    using assms(1-3) by (simp add: s1_def bot_step_def main_round_def)
  let ?P = "\<lambda>u. \<not> sy_main_alive u \<and> en_db (sy_engine u) = en_db w \<and> en_nav (sy_engine u) = en_nav w"
  have "?P (bot_run su evs s1)" if "?P s1" "\<forall>ev \<in> set evs. \<forall>x. snd ev \<noteq> StartProcess x" for evs s1
    using that
  proof (induction evs arbitrary: s1)
    case (Cons ev evs)
    have "?P (bot_step su ev s1)" using dead_step [of s1 ev su] Cons.prems by simp
    with Cons show ?case by simp
  qed simp
  from this [of s1 evs] have "?P s'" using s1 assms(4,5) by (simp add: s1_def)
  moreover have "\<exists>p. fst (handle (engine_server page dumps now is_live (sy_feeds s') ws) (l # ls)) =
       Some \<lparr>rs_status = (if 0 < chain_size (fd_chain (sy_feeds s')) then 200 else 503), rs_body = dumps (VDict p),
             rs_content_type = ''application/json''\<rparr>"
    using health_is_chain_size [OF assms(6)] by blast
  ultimately show ?thesis by blast
qed

section \<open>Witnesses\<close>

definition sample_installation :: "(dry_executor \<times> nat) installation" where
  "sample_installation = \<lparr>su_config = sample_config, su_executor = sample_router, su_keys_set = False, su_strategies = [],
     su_base_nav = 50000, su_parse_float = (\<lambda>_. None), su_parse_int = (\<lambda>_. None), su_tz = 0,
     su_rest_rps = 8, su_order_rps = 4\<rparr>"

abbreviation sample_exec :: "dry_executor \<times> nat" where
  "sample_exec \<equiv> (DryExecutor sample_chain 50 50 50, 0)"

definition sample_start :: "(dry_executor \<times> nat) process_start" where
  "sample_start = \<lparr>ps_executor = sample_exec, ps_mono = 0, ps_host = (\<lambda>_. None)\<rparr>"

definition sample_bot :: "trade_row list \<Rightarrow> nav_history_row list \<Rightarrow> bool \<Rightarrow> (dry_executor \<times> nat) bot" where
  "sample_bot trades rows marker =
     \<lparr>sy_now = 0, sy_up = False, sy_main_alive = False, sy_drain_alive = False,
      sy_engine = (sample_engine trades)\<lparr>en_nav_rows := rows, en_marker := marker\<rparr>,
      sy_feeds = start_feeds [] 300 mk_iv_history_store [], sy_pnl = [], sy_last_daily = None, sy_shutdown_json = False,
      sy_resume_audit = []\<rparr>"

definition sample_tripped_row :: nav_history_row where
  "sample_tripped_row = \<lparr>nh_trading_date = 0, nh_nav_inr = 44000, nh_peak_nav_inr = 50000, nh_drawdown_from_peak_pct = - 12 / 100,
     nh_circuit_breaker_tripped = True\<rparr>"

lemma sample_candles: "\<exists>cs. new_candles = Inr cs"
  by (simp add: new_candles_def mk_aggregator_def TIMEFRAME_SECONDS_def dict_get_def)

text \<open>A start of the sample installation succeeds from any tables.\<close>

lemma sample_starts:
  "\<exists>cs. start_process sample_installation t sample_start s =
     s\<lparr>sy_up := True, sy_main_alive := True, sy_drain_alive := True,
       sy_engine := \<lparr>en_db = en_db (sy_engine s), en_exec = sample_exec,
         en_nav = (let n = load_nav_tracker (tb_trades (en_db (sy_engine s))) (en_nav_rows (sy_engine s)) 50000 t
                   in if en_marker (sy_engine s) then n\<lparr>circuit_breaker_tripped := True\<rparr> else n),
         en_registry = [], en_runtimes = [], en_nav_rows = en_nav_rows (sy_engine s), en_marker = en_marker (sy_engine s),
         en_ist_date = None, en_decisions = en_decisions (sy_engine s)\<rparr>,
       sy_feeds := start_feeds cs 300 mk_iv_history_store (fd_iv_table (sy_feeds s)), sy_last_daily := None\<rparr>"
proof -
  obtain cs where cs: "new_candles = Inr cs" using sample_candles by blast
  then show ?thesis
    by (intro exI [of _ cs])
      (simp add: start_process_def start_engine_def cs host_def sample_start_def require_keys_def boot_engine_def sample_installation_def
        sample_config_def build_strategies_def mk_registry_def mk_rest_client_def mk_token_bucket_def start_ws_client_def subscriptions_def
        mk_ws_client_def Let_def)
qed

lemma sample_up [simp]: "sy_up (bot_step sample_installation (t, StartProcess sample_start) s)"
  using sample_starts [of t s] by (auto simp: bot_step_def)

lemma sample_installed:
  assumes "rows = [] \<or> rows = [sample_tripped_row]" and "trades = [] \<or> trades = [sample_trade 1 TRADE_CLOSED (Some 500)]"
  shows "installed sample_installation (sample_bot trades rows marker)"
  using assms
  by (auto simp: installed_def sample_bot_def sample_installation_def tables_ok_def sample_engine_def db_wf_def sample_trade_def
      dated_def rows_wf_def sample_tripped_row_def utc_to_ist_def IST_def date_of_def time_defs)

theorem trip_lasts_until_recovery_witness:
  "\<exists>s1 s2. s1 = bot_run sample_installation [(0, StartProcess sample_start)]
        (sample_bot [sample_trade 1 TRADE_CLOSED (Some 500)] [sample_tripped_row] False) \<and>
     s2 = bot_run sample_installation [(5 * hour_us, MainTick sample_input), (6 * hour_us, StopSignal), (7 * hour_us, StartProcess sample_start)] s1 \<and>
     tripped s1 \<and> \<not> en_marker (sy_engine s1) \<and> sy_up s2 \<and> tripped s2 \<and> ids_of s2 = [1]"
proof -
  let ?su = sample_installation let ?s0 = "sample_bot [sample_trade 1 TRADE_CLOSED (Some 500)] [sample_tripped_row] False"
  let ?e1 = "[(0, StartProcess sample_start)]"
  let ?e2 = "[(5 * hour_us, MainTick sample_input), (6 * hour_us, StopSignal), (7 * hour_us, StartProcess sample_start)]"
  define s1 where "s1 = bot_run ?su ?e1 ?s0" define s2 where "s2 = bot_run ?su ?e2 s1"
  have i: "installed ?su ?s0" by (rule sample_installed) simp_all
  have o: "in_order (sy_now ?s0) (?e1 @ ?e2)" by (simp add: in_order_def sample_bot_def time_defs)
  have st: "s1 = (start_process ?su 0 sample_start ?s0)\<lparr>sy_now := 0\<rparr>" by (simp add: s1_def bot_step_def)
  have t: "tripped s1 \<and> \<not> en_marker (sy_engine s1) \<and> sy_up s1 \<and> ids_of s1 = [1]"
    using sample_starts [of 0 ?s0]
    by (auto simp: st sample_bot_def sample_engine_def latest_tripped_load latest_tripped_def latest_row_def sample_tripped_row_def
        ids_of_def sample_trade_def Let_def)
  have "snd ev \<noteq> ResumeCommand True" if "ev \<in> set (?e1 @ ?e2)" for ev :: "datetime \<times> (dry_executor \<times> nat) event" using that by auto
  then have "stored_trip (sy_engine s2) \<and> (sy_up s2 \<longrightarrow> tripped s2) \<and> ids_of s2 = ids_of s1"
    using trip_lasts_until_recovery [OF i o _ s1_def _ _ s2_def] t by blast
  moreover have "sy_up s2" by (simp add: s2_def)
  ultimately have f: "tripped s1" "\<not> en_marker (sy_engine s1)" "sy_up s2" "tripped s2" "ids_of s2 = [1]" using t by simp_all
  show ?thesis by (intro exI [of _ s1] exI [of _ s2] conjI) (rule s1_def s2_def f)+
qed

theorem marker_outlives_recovery_witness:
  "\<exists>s. s = bot_run sample_installation
        [(0, StartProcess sample_start), (hour_us, ResumeCommand True), (2 * hour_us, StopSignal), (3 * hour_us, StartProcess sample_start)]
        (sample_bot [sample_trade 1 TRADE_CLOSED (Some 500)] [sample_tripped_row] True) \<and>
     sy_up s \<and> tripped s \<and> ids_of s = [1]"
proof -
  let ?su = sample_installation let ?s0 = "sample_bot [sample_trade 1 TRADE_CLOSED (Some 500)] [sample_tripped_row] True"
  let ?e = "[(0, StartProcess sample_start), (hour_us, ResumeCommand True), (2 * hour_us, StopSignal), (3 * hour_us, StartProcess sample_start)]"
  define s where "s = bot_run ?su ?e ?s0"
  have i: "installed ?su ?s0" by (rule sample_installed) simp_all
  have o: "in_order (sy_now ?s0) ([] @ ?e)" by (simp add: in_order_def sample_bot_def time_defs)
  have m: "en_marker (sy_engine ?s0)" "ids_of ?s0 = [1]" by (simp_all add: sample_bot_def ids_of_def sample_engine_def sample_trade_def)
  have "?s0 = bot_run ?su [] ?s0" by simp
  from marker_outlives_recovery [OF i o this m(1) s_def] m(2) have "(sy_up s \<longrightarrow> tripped s) \<and> ids_of s = [1]" by simp
  moreover have "sy_up s" by (simp add: s_def)
  ultimately have f: "sy_up s" "tripped s" "ids_of s = [1]" by simp_all
  show ?thesis by (intro exI [of _ s] conjI) (rule s_def f)+
qed

text \<open>A recovery is confirmed at noon and undone by the report of 22:40 on the Indian clock.\<close>

theorem report_undoes_recovery_witness:
  "\<exists>s1 s2 s3. s1 = bot_run sample_installation [(0, StartProcess sample_start), (7 * hour_us, ResumeCommand True)]
        (sample_bot [] [sample_tripped_row] False) \<and> \<not> latest_tripped (en_nav_rows (sy_engine s1)) \<and>
     s2 = bot_step sample_installation (17 * hour_us + 10 * minute_us, DailyTimer) s1 \<and> sy_last_daily s2 = Some 0 \<and>
     s3 = bot_run sample_installation [(18 * hour_us, StopSignal), (19 * hour_us, StartProcess sample_start)] s2 \<and>
     sy_up s3 \<and> tripped s3"
proof -
  let ?su = sample_installation let ?s0 = "sample_bot [] [sample_tripped_row] False" let ?t = "17 * hour_us + 10 * minute_us"
  let ?e0 = "[(0, StartProcess sample_start)]" let ?e1 = "[(7 * hour_us, ResumeCommand True)]"
  let ?e2 = "[(18 * hour_us, StopSignal), (19 * hour_us, StartProcess sample_start)]"
  define s where "s = bot_run ?su ?e0 ?s0" define s1 where "s1 = bot_run ?su ?e1 s"
  define s2 where "s2 = bot_step ?su (?t, DailyTimer) s1" define s3 where "s3 = bot_run ?su ?e2 s2"
  have i: "installed ?su ?s0" by (rule sample_installed) simp_all
  have o: "in_order (sy_now ?s0) (?e0 @ ?e1 @ (?t, DailyTimer) # ?e2)" by (simp add: in_order_def sample_bot_def time_defs)
  have s: "sy_up s" "tripped s" "en_nav_rows (sy_engine s) = [sample_tripped_row]" "sy_last_daily s = None" "sy_pnl s = []"
    "tb_trades (en_db (sy_engine s)) = []" "nav_now (en_nav (sy_engine s)) = 50000" "en_marker (sy_engine s) = False"
    using sample_starts [of 0 ?s0]
    by (auto simp: s_def bot_step_def sample_bot_def sample_engine_def latest_tripped_load latest_tripped_def latest_row_def sample_tripped_row_def
        nav_load sum_realised_pnl_inr_def Let_def List.map_filter_simps)
  have "s1 = (resume_command (7 * hour_us) True s)\<lparr>sy_now := 7 * hour_us\<rparr>" by (simp add: s1_def bot_step_def Let_def)
  then have s1: "sy_up s1" "tripped s1" "en_nav_rows (sy_engine s1) = [sample_tripped_row\<lparr>nh_circuit_breaker_tripped := False\<rparr>]"
    "sy_last_daily s1 = None" "sy_pnl s1 = []" "tb_trades (en_db (sy_engine s1)) = []" "nav_now (en_nav (sy_engine s1)) = 50000"
    using s by (simp_all add: resume_command_def resume_evaluate_def latest_row_def sample_tripped_row_def maybe_remove_marker_def write_audit_def
        clear_row_def Let_def)
  have due: "daily_due ?t None" and today: "date_of (utc_to_ist ?t) = 0"
    by (simp_all add: daily_due_def utc_to_ist_def IST_def date_of_def time_of_def time_defs)
  have last2: "sy_last_daily s2 = Some 0"
    using s1 due today
    by (simp add: s2_def bot_step_def daily_round_def daily_run_def compute_per_strategy_def closed_on_def by_strategy_def persist_daily_pnl_def
        upsert_daily_def persist_nav_def nav_check_def row_on_def sample_tripped_row_def Let_def dp_key_def)
  have r: "\<And>ev x. ev \<in> set ?e1 \<Longrightarrow> snd ev \<noteq> StartProcess x" "\<And>ev. ev \<in> set ?e2 \<Longrightarrow> snd ev \<noteq> ResumeCommand True" by auto
  have "tripped s1 \<and> stored_trip (sy_engine s3) \<and> (sy_up s3 \<longrightarrow> tripped s3) \<and> ids_of s3 = ids_of s"
    by (rule report_undoes_recovery [OF i s_def s(2) o _ _ s1_def s2_def _ s3_def]) (use r last2 s1(4) in auto)
  moreover have "sy_up s3" by (simp add: s3_def)
  moreover have "\<not> latest_tripped (en_nav_rows (sy_engine s1))" using s1(3) by (simp add: latest_tripped_def latest_row_def)
  ultimately have f: "\<not> latest_tripped (en_nav_rows (sy_engine s1))" "sy_up s3" "tripped s3" by simp_all
  have "s1 = bot_run ?su [(0, StartProcess sample_start), (7 * hour_us, ResumeCommand True)] ?s0" by (simp add: s1_def s_def)
  then show ?thesis by (intro exI [of _ s1] exI [of _ s2] exI [of _ s3] conjI) (assumption | rule s2_def s3_def f last2)+
qed

text \<open>The first round with an empty market.\<close>

lemma sample_first_round:
  assumes "ti = tick_of t (start_feeds cs 300 mk_iv_history_store table) sample_input"
  shows "\<exists>w. tick sample_config sample_router ti
      (sy_engine (start_process sample_installation 0 sample_start (sample_bot [sample_trade 1 TRADE_CLOSED (Some 500)] [] False))) = (Inr (), w) \<and>
    en_db w = en_db (sample_engine [sample_trade 1 TRADE_CLOSED (Some 500)])"
  using sample_starts [of 0 "sample_bot [sample_trade 1 TRADE_CLOSED (Some 500)] [] False"] assms
  by (elim exE) (simp add: sample_bot_def load_nav_tracker_def latest_row_def row_on_def sum_realised_pnl_inr_def List.map_filter_simps
      tick_of_def start_feeds_def mk_chain_cache_def
      sample_engine_def sample_trade_def tick_def round_phases_def wallet_request_def roll_phase_def maybe_roll_ist_trading_day_def load_open_trades_def open_trades_def
      is_open_trade_def manage_phase_def entry_phase_def evaluate_all_def registry_enabled_def dict_values_def DispatchResult_def
      accounting_snapshot_def all_intents_def all_decisions_def finish_phase_def sync_circuit_breaker_from_risk_def risk_of_def
      sample_config_def evaluate_caps_def rm_caps_def GlobalConfig_def RiskCapsConfig_def caps_defs en_bind_def
      write_decisions_def sample_input_def utc_to_ist_def IST_def date_of_def time_defs Let_def)

definition sample_evs :: "(datetime \<times> (dry_executor \<times> nat) event) list" where
  "sample_evs = [(0, StartProcess sample_start), (5 * hour_us, MainTick sample_input)]"

lemma sample_evs_run:
  "\<exists>s. s = bot_run sample_installation sample_evs (sample_bot [sample_trade 1 TRADE_CLOSED (Some 500)] [] False) \<and>
     sy_up s \<and> sy_main_alive s \<and> en_db (sy_engine s) = en_db (sample_engine [sample_trade 1 TRADE_CLOSED (Some 500)])"
proof -
  let ?s0 = "sample_bot [sample_trade 1 TRADE_CLOSED (Some 500)] [] False"
  let ?s1 = "start_process sample_installation 0 sample_start ?s0"
  obtain cs where s1: "sy_up ?s1" "sy_main_alive ?s1" "sy_feeds ?s1 = start_feeds cs 300 mk_iv_history_store (fd_iv_table (sy_feeds ?s0))"
    using sample_starts [of 0 ?s0] by auto
  obtain w where w: "tick sample_config sample_router (tick_of (5 * hour_us) (sy_feeds ?s1) sample_input) (sy_engine ?s1) = (Inr (), w)"
    "en_db w = en_db (sample_engine [sample_trade 1 TRADE_CLOSED (Some 500)])"
    using sample_first_round [of _ "5 * hour_us" cs] s1(3) by metis
  have c: "su_config sample_installation = sample_config" "su_executor sample_installation = sample_router"
    by (simp_all add: sample_installation_def)
  have "bot_run sample_installation sample_evs ?s0 = ?s1\<lparr>sy_engine := w, sy_main_alive := True, sy_now := 5 * hour_us\<rparr>"
    using s1(1,2) w(1) by (simp add: sample_evs_def bot_step_def main_round_def c Let_def)
  with s1(1) w(2) show ?thesis by simp
qed

lemma sample_evs_order: "in_order (sy_now (sample_bot trades rows marker)) sample_evs"
  by (simp add: in_order_def sample_bot_def sample_evs_def time_defs)

theorem bot_keeps_its_books_witness:
  "\<exists>s. s = bot_run sample_installation sample_evs (sample_bot [sample_trade 1 TRADE_CLOSED (Some 500)] [] False) \<and>
     sy_up s \<and> nav_now (en_nav (sy_engine s)) = 50500 \<and> db_wf (en_db (sy_engine s))"
proof -
  obtain s where s: "s = bot_run sample_installation sample_evs (sample_bot [sample_trade 1 TRADE_CLOSED (Some 500)] [] False)"
    "sy_up s" "sy_main_alive s" "en_db (sy_engine s) = en_db (sample_engine [sample_trade 1 TRADE_CLOSED (Some 500)])"
    using sample_evs_run by blast
  have "sum_realised_pnl_inr (tb_trades (en_db (sy_engine s))) = 500" "su_base_nav sample_installation = 50000"
    by (simp_all add: s(4) sample_engine_def sample_trade_def sum_realised_pnl_inr_def List.map_filter_simps sample_installation_def)
  moreover have "installed sample_installation (sample_bot [sample_trade 1 TRADE_CLOSED (Some 500)] [] False)" by (rule sample_installed) simp_all
  note ok = bot_keeps_its_books [OF this sample_evs_order s(1), of None]
  then have "nav_now (en_nav (sy_engine s)) = su_base_nav sample_installation + sum_realised_pnl_inr (tb_trades (en_db (sy_engine s)))"
    using s(2,3) by simp
  ultimately have f: "nav_now (en_nav (sy_engine s)) = 50500" "db_wf (en_db (sy_engine s))" using ok by simp_all
  show ?thesis by (intro exI [of _ s] conjI) (rule s f)+
qed

theorem bot_refines_ledger_witness:
  "\<exists>s. s = bot_run sample_installation sample_evs (sample_bot [sample_trade 1 TRADE_CLOSED (Some 500)] [] False) \<and>
     ledger_run [1 \<mapsto> Done (Some 500)] (life (en_db (sy_engine s))) \<and> typed_trades (en_db (sy_engine s))"
proof -
  let ?s0 = "sample_bot [sample_trade 1 TRADE_CLOSED (Some 500)] [] False"
  define s where "s = bot_run sample_installation sample_evs ?s0"
  have i: "installed sample_installation ?s0" by (rule sample_installed) simp_all
  have ty: "typed_trades (en_db (sy_engine ?s0))"
    by (auto simp: sample_bot_def sample_engine_def typed_trades_def sample_trade_def simp del: trade_status_value.simps)
  have "life (en_db (sy_engine ?s0)) = [1 \<mapsto> Done (Some 500)]"
    by (rule ext) (simp add: life_def sample_bot_def sample_engine_def get_trade_def life_of_row_def sample_trade_def)
  with bot_refines_ledger [OF i sample_evs_order ty] have f: "ledger_run [1 \<mapsto> Done (Some 500)] (life (en_db (sy_engine s)))"
    "typed_trades (en_db (sy_engine s))" by (simp_all add: s_def)
  show ?thesis by (intro exI [of _ s] conjI) (rule s_def f)+
qed

text \<open>A NAV below zero ends the main loop; the chain holds instruments, so that the endpoint answers 200.\<close>

definition sample_sinking :: "(dry_executor \<times> nat) bot" where
  "sample_sinking = (sample_bot [] [] False)
     \<lparr>sy_up := True, sy_main_alive := True, sy_drain_alive := True, sy_feeds := (start_feeds [] 300 mk_iv_history_store [])\<lparr>fd_chain := sample_chain\<rparr>,
      sy_engine := (sample_engine [])\<lparr>en_nav := sample_nav\<lparr>nav_now := - 1\<rparr>\<rparr>\<rparr>"

lemma sample_sinking_round:
  "tick sample_config sample_router (tick_of (5 * hour_us) (sy_feeds sample_sinking) sample_input) (sy_engine sample_sinking) =
     (Inl IntegrityError, (sy_engine sample_sinking)\<lparr>en_ist_date := Some 0\<rparr>)"
  by (simp add: sample_sinking_def sample_bot_def tick_of_def start_feeds_def
      sample_engine_def tick_def round_phases_def wallet_request_def roll_phase_def maybe_roll_ist_trading_day_def load_open_trades_def open_trades_def
      is_open_trade_def manage_phase_def entry_phase_def evaluate_all_def registry_enabled_def dict_values_def DispatchResult_def
      accounting_snapshot_def all_intents_def all_decisions_def finish_phase_def sync_circuit_breaker_from_risk_def risk_of_def
      sample_config_def sample_nav_def evaluate_caps_def rm_caps_def GlobalConfig_def RiskCapsConfig_def caps_defs en_bind_def
      persist_circuit_breaker_trip_def nav_check_def
      write_decisions_def sample_input_def utc_to_ist_def IST_def date_of_def time_defs Let_def)

theorem dead_main_loop_unnoticed_witness:
  "\<exists>s. s = bot_run sample_installation [(5 * hour_us, MainTick sample_input), (6 * hour_us, MainTick sample_input)] sample_sinking \<and>
     \<not> sy_main_alive s \<and> nav_now (en_nav (sy_engine s)) = - 1 \<and>
     fst (handle (engine_server [] (\<lambda>_. ''{}'') 0 True (sy_feeds s) sample_ws) [''GET /health HTTP/1.1'' @ crlf, crlf]) =
       Some \<lparr>rs_status = 200, rs_body = ''{}'', rs_content_type = ''application/json''\<rparr>"
proof -
  let ?e = "[(6 * hour_us, MainTick sample_input)]"
  define s where "s = bot_run sample_installation ((5 * hour_us, MainTick sample_input) # ?e) sample_sinking"
  have w: "split_words [] (''GET /health HTTP/1.1'' @ crlf) = [''GET'', ''/health'', ''HTTP/1.1'']" by (simp add: latin1_space_def crlf_def)
  have up: "sy_up sample_sinking" "sy_main_alive sample_sinking" by (simp_all add: sample_sinking_def)
  have tk: "tick (su_config sample_installation) (su_executor sample_installation) (tick_of (5 * hour_us) (sy_feeds sample_sinking) sample_input)
      (sy_engine sample_sinking) = (Inl IntegrityError, (sy_engine sample_sinking)\<lparr>en_ist_date := Some 0\<rparr>)"
    using sample_sinking_round by (simp add: sample_installation_def)
  have "\<forall>ev \<in> set ?e. \<forall>x. snd ev \<noteq> StartProcess x" by simp
  note d = dead_main_loop_unnoticed [OF up tk this s_def w, of "[]" "\<lambda>_. ''{}''" 0 True sample_ws "[crlf]"]
  have n: "nav_now (en_nav (sy_engine s)) = - 1" using d by (simp add: sample_sinking_def)
  have "sy_feeds s = sy_feeds sample_sinking" by (simp add: s_def bot_step_def main_round_def Let_def split: prod.split)
  then have "0 < chain_size (fd_chain (sy_feeds s))" by (simp add: sample_sinking_def start_feeds_def chain_size_def sample_chain_def)
  with d have f: "\<not> sy_main_alive s" "fst (handle (engine_server [] (\<lambda>_. ''{}'') 0 True (sy_feeds s) sample_ws) [''GET /health HTTP/1.1'' @ crlf, crlf]) =
       Some \<lparr>rs_status = 200, rs_body = ''{}'', rs_content_type = ''application/json''\<rparr>" by auto
  show ?thesis by (intro exI [of _ s] conjI) (rule s_def f n)+
qed

end
