(* ===== verification/Trades.thy ===== *)
theory Trades
  imports Tick
begin

text \<open>
  The life of a trade across the components: what an entry leaves in the tables, the cash an entry and its
  exit move, the cooldown an exit starts, and what the exit engine makes of a stored credit vertical.
\<close>

section \<open>Entries\<close>

lemma length_legs_of_add:
  "leg_trade_id l = tid' \<Longrightarrow> length (legs_of (add_leg l db) tid) = length (legs_of db tid) + (if tid' = tid then 1 else 0)"
  by (auto simp: legs_of_def add_leg_def Let_def)

lemma add_fill_rows_legs:
  "add_fill_rows ts i tid lots fs db = Inr db' \<Longrightarrow> length (legs_of db' tid) = length (legs_of db tid) + length fs"
proof (induction fs arbitrary: db)
  case (Cons f fs)
  then obtain li where rest: "add_fill_rows ts i tid lots fs
      (add_leg (leg_of_fill (strategy_value (in_strategy_id i)) tid lots li f)
        (add_order (order_of_fill ts (strategy_value (in_strategy_id i)) tid f) db)) = Inr db'" by (auto simp: Let_def)
  have "legs_of (add_order q db) tid = legs_of db tid" for q by (simp add: legs_of_def)
  with Cons.IH [OF rest] length_legs_of_add [of "leg_of_fill (strategy_value (in_strategy_id i)) tid lots li f" tid _ tid]
  show ?case by (simp add: leg_of_fill_def)
qed simp

text \<open>Every leg belongs to a stored trade (the foreign key of the table).\<close>

definition legs_owned :: "database \<Rightarrow> bool" where
  "legs_owned db \<longleftrightarrow> (\<forall>l \<in> set (tb_legs db). leg_trade_id l \<in> t_id ` set (tb_trades db))"

lemma fresh_no_legs:
  assumes "legs_owned db" and "tid \<notin> t_id ` set (tb_trades db)" and "tb_legs db' = tb_legs db"
  shows "legs_of db' tid = []"
  using assms by (auto simp: legs_of_def legs_owned_def filter_empty_conv)

definition status_in :: "database \<Rightarrow> int \<Rightarrow> trade_status \<Rightarrow> bool" where
  "status_in db tid st \<longleftrightarrow> (\<exists>t. get_trade tid db = Some t \<and> t_status t = trade_status_value st)"

lemma entry_stores:
  assumes "persist_entry_and_execute pf xe i sz m mode wallet qf chain timeout w = (r, w')"
    and wf: "db_wf (en_db w)" "legs_owned (en_db w)" and new: "w' \<noteq> w"
  obtains tid where "map t_id (tb_trades (en_db w')) = map t_id (tb_trades (en_db w)) @ [tid]"
    and "tid \<notin> t_id ` set (tb_trades (en_db w))"
    and "\<And>e. r = Inl e \<Longrightarrow> status_in (en_db w') tid TRADE_OPEN \<and> legs_of (en_db w') tid = []"
    and "r = Inr False \<Longrightarrow> status_in (en_db w') tid TRADE_ERRORED \<and> legs_of (en_db w') tid = []"
    and "r = Inr True \<Longrightarrow> status_in (en_db w') tid TRADE_OPEN \<and>
      (\<exists>res x. xe_submit_entry xe (entry_request_of i sz tid timeout) (en_exec w) = (Inr res, x) \<and> er_success res \<and>
        length (legs_of (en_db w') tid) = length (er_fills res))"
proof -
  have opened: "\<exists>t. tb_trades db1 = tb_trades (en_db w) @ [t] \<and> t_id t = tid \<and> tid \<notin> t_id ` set (tb_trades (en_db w)) \<and>
      get_trade tid db1 = Some t \<and> is_open_trade t \<and> db_wf db1 \<and> legs_of db1 tid = []"
    if o1: "open_trade_rows pf i sz m mode wallet (en_db w) = Inr (tid, db1)" for tid db1
  proof -
    obtain t where t: "tb_trades db1 = tb_trades (en_db w) @ [t]" "t_id t = tid" "tid \<notin> t_id ` set (tb_trades (en_db w))" "is_open_trade t"
      using open_trade_rows_InrD(1) [OF o1] by blast
    have wf1: "db_wf db1" by (rule open_trade_rows_InrD(3) [OF o1 wf(1)])
    have "get_trade tid db1 = Some t" using get_trade_iff [OF wf1] t(1,2) by simp
    with t wf1 fresh_no_legs [OF wf(2) t(3) open_trade_rows_InrD(2) [OF o1]] show ?thesis by blast
  qed
  from assms(1) show thesis
  proof (cases rule: persist_entry_outcomes)
    case (Refused e)
    with new show thesis by simp
  next
    case (Raised e tid db1 x)
    from opened [OF Raised(1)] obtain t where t: "tb_trades db1 = tb_trades (en_db w) @ [t]" "t_id t = tid"
      "tid \<notin> t_id ` set (tb_trades (en_db w))" "get_trade tid db1 = Some t" "is_open_trade t" "legs_of db1 tid = []" by blast
    show thesis by (rule that [of tid]) (use t Raised in \<open>simp_all add: status_in_def is_open_trade_def\<close>)
  next
    case (Failed tid db1 res x)
    from opened [OF Failed(1)] obtain t where t: "tb_trades db1 = tb_trades (en_db w) @ [t]" "t_id t = tid"
      "tid \<notin> t_id ` set (tb_trades (en_db w))" "get_trade tid db1 = Some t" "is_open_trade t" "legs_of db1 tid = []" by blast
    from mark_errored_cases [of tid db1 res] t(4) obtain t' where t': "t_id t' = t_id t"
      "t_status t' = trade_status_value TRADE_ERRORED" "mark_errored tid res db1 = put_trade t' db1" by auto
    have "get_trade tid (put_trade t' db1) = Some t'" using t t' by (simp add: get_trade_put)
    moreover have "legs_of (put_trade t' db1) tid = []" using t(6) by (simp add: legs_of_def)
    ultimately show thesis by (intro that [of tid]) (use t t' Failed in \<open>simp_all add: status_in_def\<close>)
  next
    case (Filled tid db1 res x opened db2)
    from opened [OF Filled(1)] obtain t where t: "tb_trades db1 = tb_trades (en_db w) @ [t]" "t_id t = tid"
      "tid \<notin> t_id ` set (tb_trades (en_db w))" "get_trade tid db1 = Some t" "is_open_trade t" "legs_of db1 tid = []" by blast
    let ?t = "filled_trade i sz qf chain (er_fills res) t"
    from Filled(4) t(4) obtain db3 where a: "add_fill_rows (the_or (mk_now m) (er_completed_at res)) i tid (sized_lots sz) (er_fills res)
        (put_trade ?t db1) = Inr db3" and c: "commit db3 = Inr db2" and o2: "opened"
      by (auto simp: record_entry_def)
    have legs: "length (legs_of db2 tid) = length (er_fills res)"
      using add_fill_rows_legs [OF a] commit_InrD [OF c] t(6) by (simp add: legs_of_def)
    have tr: "tb_trades db2 = tb_trades (put_trade ?t db1)" using add_fill_rows_frame [OF a] commit_InrD [OF c] by simp
    have "get_trade tid db2 = Some ?t" using get_trade_cong [OF tr, of tid] t(2,4) by (simp add: get_trade_put)
    moreover have "map t_id (tb_trades db2) = map t_id (tb_trades (en_db w)) @ [tid]" using tr t(1,2) by simp
    ultimately show thesis
      by (intro that [of tid]) (use t Filled legs o2 in \<open>auto simp: status_in_def is_open_trade_def\<close>)
  qed
qed

section \<open>Executors that keep the router's contract\<close>

context execution_router
begin

text \<open>Behind an executor that keeps the contract, a successful entry stores one leg per leg of the intent.\<close>

lemma stored_legs:
  assumes "xe_submit_entry xe = submit_entry"
    and "persist_entry_and_execute pf xe i sz m mode wallet qf chain timeout w = (Inr True, w')"
    and "db_wf (en_db w)" "legs_owned (en_db w)" "w' \<noteq> w"
  obtains tid where "map t_id (tb_trades (en_db w')) = map t_id (tb_trades (en_db w)) @ [tid]"
    and "tid \<notin> t_id ` set (tb_trades (en_db w))" and "status_in (en_db w') tid TRADE_OPEN"
    and "length (legs_of (en_db w') tid) = length (in_legs i)"
proof -
  from assms(2-) obtain tid where t: "map t_id (tb_trades (en_db w')) = map t_id (tb_trades (en_db w)) @ [tid]"
    "tid \<notin> t_id ` set (tb_trades (en_db w))" "status_in (en_db w') tid TRADE_OPEN"
    and r: "\<exists>res x. submit_entry (entry_request_of i sz tid timeout) (en_exec w) = (Inr res, x) \<and> er_success res \<and>
      length (legs_of (en_db w') tid) = length (er_fills res)"
    by (rule entry_stores) (use assms(1) in auto)
  then have "length (legs_of (en_db w') tid) = length (in_legs i)"
    using entry_fills by (fastforce simp: entry_request_of_def)
  with t show thesis by (rule that)
qed

end

interpretation dry_engine: execution_router "xe_submit_entry (dry_router sha1_hex rnd salt clock)" for sha1_hex rnd salt clock
proof unfold_locales
  fix req s r s' f
  assume "xe_submit_entry (dry_router sha1_hex rnd salt clock) req s = (Inr r, s')"
  then obtain ex' where d: "dry_submit_entry sha1_hex (rnd (snd s)) (salt (snd s)) (clock (snd s)) req (fst s) = (Inr r, ex')"
    by (auto simp: dry_router_def split: prod.splits)
  show "er_trade_id r = rq_trade_id req" by (rule dry.entry_trade [OF d])
  show "length (er_fills r) = length (rq_legs req)" by (rule dry.entry_fills [OF d])
  show "er_success r \<longleftrightarrow> (\<forall>f \<in> set (er_fills r). is_complete f)" by (rule dry.entry_success [OF d])
  show "f \<in> set (er_fills r) \<Longrightarrow> qty_requested f = of_int (rq_lots req)" by (rule dry.entry_requested [OF d])
qed

interpretation live_engine: execution_router "xe_submit_entry (live_router env le ex fuel)" for env le ex fuel
  using live.execution_router_axioms by (simp add: live_router_def)

section \<open>A credit vertical in the exit engine\<close>

text \<open>
  The leg states built from stored legs carry no side, and the exit engine reads a missing side as a buy: the
  cost of unwinding is minus the sum of the mids.
\<close>

lemma unwind_without_sides:
  assumes "\<forall>leg \<in> set legs. ls_side leg = None" and "\<forall>s x. quoted_mid m s = Some x \<longrightarrow> 0 \<le> x" and "unwind_cost m legs acc = Some y"
  shows "y \<le> acc"
  using assms(1,3)
proof (induction legs arbitrary: acc)
  case (Cons leg legs)
  then obtain x where x: "quoted_mid m (ls_symbol leg) = Some x" "unwind_cost m legs (acc - x) = Some y"
    by (auto split: option.splits)
  then have "y \<le> acc - x" using Cons by simp
  with assms(2) x(1) show ?case by force
qed simp

lemma position_fields:
  assumes "trade_to_position_state pf now t legs chain = Inr pos"
  shows "entry_credit_inr pos = credit_received_inr t" and "ps_notes pos = the_or [] (t_notes t)"
    and "leg_states pos = map (leg_state_of chain) legs" and "StrategyId (t_strategy_id t) = Inr (ps_strategy_id pos)"
    and "trade_id pos = t_id t"
  using assms by (auto simp: trade_to_position_state_def Let_def)

text \<open>The mids of the legs, when all of them are quoted.\<close>

definition leg_mids :: "market_state \<Rightarrow> leg_row list \<Rightarrow> flt list option" where
  "leg_mids m legs = those (map (\<lambda>leg. quoted_mid m (leg_symbol leg)) legs)"

lemma unwind_of_stored_legs:
  "unwind_cost m (map (leg_state_of chain) legs) acc = map_option (\<lambda>mids. acc - sum_list mids) (leg_mids m legs)"
proof (induction legs arbitrary: acc)
  case (Cons leg legs)
  then show ?case
    by (cases "quoted_mid m (leg_symbol leg)"; cases "leg_mids m legs") (simp_all add: leg_mids_def leg_state_of_def Let_def)
qed (simp add: leg_mids_def)

lemma credit_vertical_unwind:
  assumes "trade_to_position_state pf now t legs chain = Inr pos" and "\<forall>s x. quoted_mid m s = Some x \<longrightarrow> 0 \<le> x"
    and "vget (the_or [] (t_notes t)) ''current_unwind_cost'' = VNone"
    and "rt1 = refresh_position_state m (CreditVerticalConfig cfg) ((PositionRuntime pos)\<lparr>history_ticks := n\<rparr>)"
  shows "\<exists>u. u \<le> 0 \<and> float_of pf (py_or (vget (ps_notes (rt_position rt1)) ''current_unwind_cost'') (VFlt 0)) = Inr u"
    and "entry_credit_inr (rt_position rt1) = credit_received_inr t" and "ps_strategy_id (rt_position rt1) = ps_strategy_id pos"
    and "ps_expiry (rt_position rt1) = ps_expiry pos"
    and "vget (ps_notes (rt_position rt1)) ''current_unwind_cost'' = opt_flt (map_option (\<lambda>mids. - sum_list mids) (leg_mids m legs))"
proof -
  note f = position_fields [OF assms(1)]
  let ?u = "unwind_cost m (leg_states pos) 0"
  have rt1: "rt1 = note_position ''current_unwind_cost'' ?u ((PositionRuntime pos)\<lparr>history_ticks := n\<rparr>)"
    using assms(4) by (simp add: refresh_position_state_def PositionRuntime_def)
  have neg: "y \<le> 0" if "?u = Some y" for y
    by (rule unwind_without_sides [OF _ assms(2) that]) (auto simp: f(3) leg_state_of_def)
  have u: "?u = map_option (\<lambda>mids. - sum_list mids) (leg_mids m legs)" by (simp add: f(3) unwind_of_stored_legs)
  show "\<exists>u. u \<le> 0 \<and> float_of pf (py_or (vget (ps_notes (rt_position rt1)) ''current_unwind_cost'') (VFlt 0)) = Inr u"
  proof (cases ?u)
    case None
    then show ?thesis using assms(3) f(2) by (simp add: rt1 note_position_def PositionRuntime_def py_or_def float_of_def)
  next
    case (Some y)
    then show ?thesis using neg by (simp add: rt1 note_position_def PositionRuntime_def py_or_def float_of_def)
  qed
  show "vget (ps_notes (rt_position rt1)) ''current_unwind_cost'' = opt_flt (map_option (\<lambda>mids. - sum_list mids) (leg_mids m legs))"
    using assms(3) f(2) unfolding u [symmetric]
    by (cases ?u) (simp_all add: rt1 note_position_def PositionRuntime_def opt_flt_def vget_def)
  show "entry_credit_inr (rt_position rt1) = credit_received_inr t" "ps_strategy_id (rt_position rt1) = ps_strategy_id pos"
    "ps_expiry (rt_position rt1) = ps_expiry pos"
    using f(1) by (simp_all add: rt1 note_position_def PositionRuntime_def split: option.split)
qed

section \<open>Cooldowns\<close>

lemma registry_get_set: "registry_get (dict_set sid s r) sid' = (if sid' = sid then Inr s else registry_get r sid')"
  by (simp add: registry_get_def)

lemma dir_evaluate_cooldown:
  assumes "dir_evaluate sm cfg ctx m = Inr (is, ds)" and "i \<in> set is"
  shows "\<not> is_underlying_in_cooldown ctx (underlying_value (in_underlying i)) (mk_now m)"
proof -
  obtain u d where d: "dir_evaluate_one sm cfg ctx m u = Inr (d, Some i)"
    using evaluate_each_intents [OF assms(1) [unfolded dir_evaluate_def] assms(2)] by blast
  from dir_evaluate_one_intent [OF d] obtain sp opt fv where
    "\<not> is_underlying_in_cooldown ctx (underlying_value u) (mk_now m)" "dir_enter sm cfg m u sp opt fv = (d, Some i)" by metis
  then show ?thesis using dir_enter_intent by metis
qed

section \<open>Claims\<close>

text \<open>
  C10: an entry that stored anything stored exactly one new trade.  When the executor raised, or the rows of the
  fills could not be written, the trade stays open without a leg; when the executor reported a failure it is
  errored; when it reported success the trade is open with one leg per leg of the intent.
\<close>

theorem entry_leaves_one_trade:
  assumes "execution_router (xe_submit_entry xe)"
    and "persist_entry_and_execute pf xe i sz m mode wallet qf chain timeout w = (r, w')"
    and "db_wf (en_db w)" and "legs_owned (en_db w)" and "w' \<noteq> w"
  shows "\<exists>tid. map t_id (tb_trades (en_db w')) = map t_id (tb_trades (en_db w)) @ [tid] \<and>
     tid \<notin> t_id ` set (tb_trades (en_db w)) \<and>
     (case r of
        Inl _ \<Rightarrow> status_in (en_db w') tid TRADE_OPEN \<and> legs_of (en_db w') tid = []
      | Inr False \<Rightarrow> status_in (en_db w') tid TRADE_ERRORED \<and> legs_of (en_db w') tid = []
      | Inr True \<Rightarrow> status_in (en_db w') tid TRADE_OPEN \<and> length (legs_of (en_db w') tid) = length (in_legs i))"
proof (cases "r = Inr True")
  case True
  with assms(2) have a: "persist_entry_and_execute pf xe i sz m mode wallet qf chain timeout w = (Inr True, w')" by simp
  show ?thesis
    by (rule execution_router.stored_legs [OF assms(1) refl a assms(3-5)]) (use True in auto)
next
  case False
  from assms(2-) show ?thesis
    by (rule entry_stores) (use False in \<open>auto split: sum.split bool.split\<close>)
qed

text \<open>
  C7: a trade moves the NAV by exactly the cash of its fills.  The row the engine stored for an entry, whatever
  notes were written to it since, makes the successful exit book the sum over all fills of the entry and the
  exit, sells positive and buys negative.
\<close>

theorem trade_moves_nav_by_its_cash:
  assumes "persist_entry_and_execute pf xe i sz m mode wallet qf chain timeout w = (Inr True, w1)"
    and "xe_submit_entry xe (entry_request_of i sz tid timeout) (en_exec w) = (Inr res, x)"
    and "db_wf (en_db w)" and "tid \<notin> t_id ` set (tb_trades (en_db w))" and "get_trade tid (en_db w1) = Some t"
    and "1 \<le> sized_lots sz"
    and "exit_request_of now (t\<lparr>t_notes := ns\<rparr>) legs trigger = Inr req" and "xe_submit_exit xe req (en_exec w2) = (Inr xres, y)"
    and "xr_success xres"
    and "persist_exit pf xe now (t\<lparr>t_notes := ns\<rparr>) legs trigger wal ind qf2 chain2 w2 = (r, w3)"
  shows "nav_now (en_nav w3) = nav_now (en_nav w2) + sum_list (map (fill_cash SELL) (er_fills res @ xr_fills xres))"
proof -
  from assms(1) have "premium_paid_inr t = fst (per_lot_premium_from_net (total_premium_inr (er_fills res)) (sized_lots sz)) \<and>
    credit_received_inr t = snd (per_lot_premium_from_net (total_premium_inr (er_fills res)) (sized_lots sz)) \<and> t_lots t = sized_lots sz"
  proof (cases rule: persist_entry_outcomes)
    case (Filled tid' db1 res' x' opened db2)
    obtain t1 where t1: "tb_trades db1 = tb_trades (en_db w) @ [t1]" "t_id t1 = tid'" "t_lots t1 = sized_lots sz"
      using open_trade_rows_InrD(1) [OF Filled(1)] by blast
    have wf1: "db_wf db1" by (rule open_trade_rows_InrD(3) [OF Filled(1) assms(3)])
    have g1: "get_trade tid' db1 = Some t1" using get_trade_iff [OF wf1] t1 by simp
    let ?t = "filled_trade i sz qf chain (er_fills res') t1"
    have tr: "tb_trades db2 = tb_trades (put_trade ?t db1)" using record_entry_cases [OF Filled(4)] Filled(5) g1 by auto
    have "tid = tid'"
    proof -
      have "tid \<in> set (map t_id (tb_trades db2))" using get_trade_SomeD [OF assms(5)] Filled(6) by auto
      then show ?thesis using assms(4) t1 by (simp add: tr)
    qed
    moreover have "get_trade tid' db2 = Some ?t" using get_trade_cong [OF tr] g1 t1(2) by (simp add: get_trade_put)
    ultimately have "t = ?t" "res' = res" using assms(2,5) Filled(2,6) by simp_all
    then show ?thesis using t1(3) by (simp add: filled_trade_def Let_def split: prod.split)
  qed simp_all
  then obtain p q where pq: "per_lot_premium_from_net (total_premium_inr (er_fills res)) (sized_lots sz) = (p, q)"
    "premium_paid_inr t = p" "credit_received_inr t = q" "t_lots t = sized_lots sz"
    by (cases "per_lot_premium_from_net (total_premium_inr (er_fills res)) (sized_lots sz)") auto
  have nav: "nav_now (en_nav w3) = nav_now (en_nav w2) + exit_pnl t xres"
    using assms(7-10) by (auto simp: persist_exit_def exit_pnl_def Let_def split: sum.splits)
  have "entry_cashflow_inr p q (sized_lots sz) = - total_premium_inr (er_fills res)"
    using entry_cashflow_roundtrip [OF assms(6), of "total_premium_inr (er_fills res)"] pq(1) by simp
  then have "exit_pnl t xres = sum_list (map (fill_cash SELL) (er_fills res @ xr_fills xres))"
    by (simp add: exit_pnl_def pq compute_realised_pnl_inr_def total_premium_sum exit_cashflow_sum fill_cash_flip [abs_def] uminus_sum_list_map comp_def)
  with nav show ?thesis by simp
qed

text \<open>
  C27: a stored credit vertical is closed in the first round that manages it, whatever the market: with the
  reason \<open>FORCE_CLOSE_EXPIRY\<close> in the last days before its expiry, and else because its profit target is
  reached.  Every leg is read back without its side and counted as bought, so that the cost of unwinding the
  round notes is minus the sum of the mids of its legs, also of the sold ones.
\<close>

theorem stored_credit_vertical_closes:
  assumes "trade_to_position_state pf now t legs chain = Inr pos"
    and "registry_get r (ps_strategy_id pos) = Inr s" and "st_config s = CreditVerticalConfig cfg"
    and "credit_received_inr t = Some credit" and "0 \<le> credit" and "profit_take_pct_of_credit (cv_exits cfg) \<le> 1"
    and "vget (the_or [] (t_notes t)) ''current_unwind_cost'' = VNone" and "\<forall>sym x. quoted_mid m sym = Some x \<longrightarrow> 0 \<le> x"
  shows "\<exists>d rt. step pf r throttle (PositionRuntime pos) m = Inr ([d], rt) \<and> ed_trade_id d = t_id t \<and> ed_kind d = EXIT_CLOSE \<and>
     ed_trigger d =
       Some (if date_of (utc_to_ist (ps_expiry pos)) - date_of (utc_to_ist (mk_now m)) \<le> force_close_days_before_expiry (cv_exits cfg)
             then FORCE_CLOSE_EXPIRY else TARGET) \<and>
     list_all (\<lambda>l. ls_side l = None) (leg_states pos) \<and>
     vget (ps_notes (rt_position rt)) ''current_unwind_cost'' = opt_flt (map_option (\<lambda>mids. - sum_list mids) (leg_mids m legs))"
proof -
  define rt1 where "rt1 = refresh_position_state m (CreditVerticalConfig cfg) ((PositionRuntime pos)\<lparr>history_ticks := 1\<rparr>)"
  define trg where "trg = (if date_of (utc_to_ist (ps_expiry pos)) - date_of (utc_to_ist (mk_now m)) \<le> force_close_days_before_expiry (cv_exits cfg)
             then FORCE_CLOSE_EXPIRY else TARGET)"
  note u = credit_vertical_unwind [OF assms(1,8,7) rt1_def]
  from u(1) obtain y where y: "y \<le> 0" "float_of pf (py_or (vget (ps_notes (rt_position rt1)) ''current_unwind_cost'') (VFlt 0)) = Inr y"
    by blast
  have "profit_take_pct_of_credit (cv_exits cfg) * credit \<le> 1 * credit" using assms(5,6) by (intro mult_right_mono) auto
  then have target: "profit_take_pct_of_credit (cv_exits cfg) * credit \<le> credit - y" using y(1) by linarith
  have mng: "cv_manage pf cfg (rt_position rt1) m = Inr [CLOSE trg []]"
    using y(2) target u(2,4) assms(4) by (simp add: cv_manage_def trg_def Let_def)
  have id: "trade_id (rt_position rt1) = t_id t"
    using position_fields(5) [OF assms(1)] by (simp add: rt1_def refresh_position_keeps PositionRuntime_def)
  have "step pf r throttle (PositionRuntime pos) m = translate_actions r throttle m [CLOSE trg []] rt1"
    using assms(2,3) mng by (simp add: step_def Let_def strategy_manage_def rt1_def PositionRuntime_def)
  moreover have "list_all (\<lambda>l. ls_side l = None) (leg_states pos)"
    by (simp add: position_fields(3) [OF assms(1)] list_all_iff leg_state_of_def)
  ultimately show ?thesis using id u(5) unfolding trg_def [symmetric] by simp
qed

text \<open>
  After an exit of a directional trade, the strategy in the updated registry raises no intent on the
  trade's underlying until the configured cooldown has passed.
\<close>

theorem exit_cooldown_blocks_reentry:
  assumes "apply_directional_exit_cooldown r trade now = Inr r'"
    and "StrategyId (t_strategy_id trade) = Inr sid" and "registry_get r sid = Inr s" and "st_config s = DirectionalConfig cfg"
    and "0 < cooldown_minutes_after_underlying_stop (dir_entry cfg)"
    and "mk_now m < now + timedelta_minutes (cooldown_minutes_after_underlying_stop (dir_entry cfg))"
    and "registry_get r' sid = Inr s'" and "strategy_evaluate s' m = Inr (is, ds)"
  shows "list_all (\<lambda>i. underlying_value (in_underlying i) \<noteq> t_underlying trade) is"
proof -
  let ?until = "now + timedelta_minutes (cooldown_minutes_after_underlying_stop (dir_entry cfg))"
  have s': "s' = s\<lparr>st_context := set_underlying_cooldown (t_underlying trade) ?until (st_context s)\<rparr>"
    using assms(1-5,7) by (auto simp: apply_directional_exit_cooldown_def update_context_def Let_def registry_get_set)
  have "underlying_value (in_underlying i) \<noteq> t_underlying trade" if "i \<in> set is" for i
    using dir_evaluate_cooldown [of DEFAULT_SPREAD_PCT_MAX cfg "st_context s'" m "is" ds i] assms(4,6,8) that
    by (auto simp: strategy_evaluate_def s')
  then show ?thesis by (simp add: list_all_iff)
qed

section \<open>Samples\<close>

definition sample_sizing :: sizing_result where
  "sample_sizing = \<lparr>decision = APPROVED, sz_intent = sample_intent, sized_lots = 2, risk_inr = 100, sz_notes = []\<rparr>"

lemma sample_sized [simp]: "sized_lots sample_sizing = 2"
  by (simp add: sample_sizing_def)

lemma sample_submit:
  "\<exists>f x. xe_submit_entry sample_router (entry_request_of sample_intent sample_sizing tid 30) (en_exec (sample_engine trades)) =
     (Inr \<lparr>er_success = True, er_trade_id = tid, er_fills = [f], er_error = None, rollback_actions = [], er_completed_at = Some (5 * hour_us)\<rparr>, x) \<and>
     lf_leg_idx f = 0"
  by (simp add: sample_engine_def sample_router_def dry_router_def dry_submit_entry_def fill_legs_def fill_leg_def entry_request_of_def
    sample_leg_def sample_sizing_def DryExecutor_def mk_slip_bps_def sample_chain_def get_quote_def dict_get_def sample_quote_def mid_def
    LegSide_def sample_intent_def is_complete_def Let_def)

lemma sample_open_rows:
  "\<exists>tid db1. open_trade_rows pf sample_intent sample_sizing sample_market ''dry'' VNone (en_db (sample_engine [])) = Inr (tid, db1) \<and>
     tb_orders db1 = []"
  by (simp add: open_trade_rows_def add_signal_def add_trade_def sample_engine_def commit_def sample_intent_def Let_def)

lemma sample_dry_entry:
  "\<exists>w1 tid t. persist_entry_and_execute (\<lambda>_. None) sample_router sample_intent sample_sizing
     sample_market ''dry'' VNone None None 30 (sample_engine []) = (Inr True, w1) \<and> get_trade tid (en_db w1) = Some t \<and>
     t_strategy_id t = ''directional'' \<and> t_underlying t = ''BTC'' \<and> t_expiry t \<noteq> None"
proof -
  obtain tid db1 where o1: "open_trade_rows (\<lambda>_. None) sample_intent sample_sizing sample_market ''dry'' VNone (en_db (sample_engine [])) = Inr (tid, db1)"
    and ord: "tb_orders db1 = []" using sample_open_rows by blast
  have wf: "db_wf (en_db (sample_engine []))" by (simp add: sample_engine_def db_wf_def)
  obtain t where t: "tb_trades db1 = [t]" "t_id t = tid" "t_strategy_id t = ''directional''" "t_underlying t = ''BTC''" "t_expiry t \<noteq> None"
    using open_trade_rows_InrD(1) [OF o1] by (auto simp: sample_engine_def sample_intent_def)
  have g: "get_trade tid db1 = Some t" using t by (simp add: get_trade_def)
  obtain f x where f: "xe_submit_entry sample_router (entry_request_of sample_intent sample_sizing tid 30) (en_exec (sample_engine [])) =
     (Inr \<lparr>er_success = True, er_trade_id = tid, er_fills = [f], er_error = None, rollback_actions = [], er_completed_at = Some (5 * hour_us)\<rparr>, x)"
    "lf_leg_idx f = 0" using sample_submit by blast
  let ?db = "put_trade (filled_trade sample_intent sample_sizing None None [f] t) db1"
  obtain db2 where a: "add_fill_rows (5 * hour_us) sample_intent tid 2 [f] ?db = Inr db2"
    by (simp add: f(2) py_index_def sample_intent_def Let_def)
  then have "distinct (map o_client_order_id (tb_orders db2))"
    using ord by (auto simp: f(2) py_index_def sample_intent_def Let_def add_order_def)
  then have c: "commit db2 = Inr db2" by (simp add: commit_def)
  have "persist_entry_and_execute (\<lambda>_. None) sample_router sample_intent sample_sizing
     sample_market ''dry'' VNone None None 30 (sample_engine []) = (Inr True, (sample_engine [])\<lparr>en_db := db2, en_exec := x\<rparr>)"
    using a c by (simp add: persist_entry_and_execute_def o1 f(1) record_entry_def g del: add_fill_rows.simps)
  moreover have "get_trade tid db2 = Some (filled_trade sample_intent sample_sizing None None [f] t)"
    using add_fill_rows_frame [OF a] get_trade_cong [of db2 ?db tid] g t(2) by (simp add: get_trade_put)
  ultimately show ?thesis using t(3-5)
    by (intro exI [of _ "(sample_engine [])\<lparr>en_db := db2, en_exec := x\<rparr>"] exI [of _ tid]) (simp del: not_None_eq)
qed

theorem entry_leaves_one_trade_witness:
  "\<exists>w' tid. persist_entry_and_execute (\<lambda>_. None) sample_router sample_intent sample_sizing
     sample_market ''dry'' VNone None None 30 (sample_engine []) = (Inr True, w') \<and>
     map t_id (tb_trades (en_db w')) = [tid] \<and> length (legs_of (en_db w') tid) = 1"
proof -
  obtain w1 tid t where e: "persist_entry_and_execute (\<lambda>_. None) sample_router sample_intent sample_sizing
     sample_market ''dry'' VNone None None 30 (sample_engine []) = (Inr True, w1)" and g: "get_trade tid (en_db w1) = Some t"
    using sample_dry_entry by blast
  have r: "execution_router (xe_submit_entry sample_router)"
    unfolding sample_router_def by (rule dry_engine.execution_router_axioms)
  have wf: "db_wf (en_db (sample_engine []))" "legs_owned (en_db (sample_engine []))"
    by (simp_all add: sample_engine_def db_wf_def legs_owned_def)
  have "w1 \<noteq> sample_engine []" using g by (auto simp: sample_engine_def get_trade_def)
  from entry_leaves_one_trade [OF r e wf this] obtain tid' where "map t_id (tb_trades (en_db w1)) = [tid']"
    "length (legs_of (en_db w1) tid') = 1" by (auto simp: sample_engine_def sample_intent_def)
  with e show ?thesis by (intro exI conjI)
qed

lemma sample_exit:
  assumes "t_strategy_id t = ''directional''" and "t_underlying t = ''BTC''" and "t_expiry t = Some e"
  shows "\<exists>req res y. exit_request_of 0 t [] TARGET = Inr req \<and> xe_submit_exit sample_router req xs = (Inr res, y) \<and> xr_success res"
  using assms by (cases xs) (simp add: exit_request_of_def StrategyId_def Underlying_def sample_router_def dry_router_def dry_submit_exit_def fill_legs_def Let_def)

theorem trade_moves_nav_by_its_cash_witness:
  "\<exists>w1 w3 r res (xres :: exit_result) t tid x. persist_entry_and_execute (\<lambda>_. None) sample_router sample_intent sample_sizing
     sample_market ''dry'' VNone None None 30 (sample_engine []) = (Inr True, w1) \<and>
     xe_submit_entry sample_router (entry_request_of sample_intent sample_sizing tid 30) (en_exec (sample_engine [])) = (Inr res, x) \<and>
     persist_exit (\<lambda>_. None) sample_router 0 t [] TARGET VNone None None None w1 = (r, w3) \<and>
     nav_now (en_nav w3) = nav_now (en_nav w1) + sum_list (map (fill_cash SELL) (er_fills res @ xr_fills xres))"
proof -
  obtain w1 tid t where e: "persist_entry_and_execute (\<lambda>_. None) sample_router sample_intent sample_sizing
     sample_market ''dry'' VNone None None 30 (sample_engine []) = (Inr True, w1)" and g: "get_trade tid (en_db w1) = Some t"
    and t: "t_strategy_id t = ''directional''" "t_underlying t = ''BTC''" "t_expiry t \<noteq> None"
    using sample_dry_entry by blast
  obtain res x where f: "xe_submit_entry sample_router (entry_request_of sample_intent sample_sizing tid 30) (en_exec (sample_engine [])) = (Inr res, x)"
    using sample_submit by blast
  have wf: "db_wf (en_db (sample_engine []))" "tid \<notin> t_id ` set (tb_trades (en_db (sample_engine [])))" "1 \<le> sized_lots sample_sizing"
    by (simp_all add: sample_engine_def db_wf_def)
  let ?t = "t\<lparr>t_notes := None\<rparr>"
  obtain e0 where e0: "t_expiry t = Some e0" using t(3) by blast
  have "\<exists>req res y. exit_request_of 0 ?t [] TARGET = Inr req \<and> xe_submit_exit sample_router req (en_exec w1) = (Inr res, y) \<and> xr_success res"
    by (rule sample_exit) (use t e0 in simp_all)
  then obtain req xres y where q: "exit_request_of 0 ?t [] TARGET = Inr req" "xe_submit_exit sample_router req (en_exec w1) = (Inr xres, y)" "xr_success xres"
    by blast
  obtain r w3 where p: "persist_exit (\<lambda>_. None) sample_router 0 ?t [] TARGET VNone None None None w1 = (r, w3)" by fastforce
  from trade_moves_nav_by_its_cash [OF e f wf(1,2) g wf(3) q p] e f p show ?thesis by (intro exI conjI)
qed

definition sample_credit_trade :: trade_row where
  "sample_credit_trade = (sample_trade 7 TRADE_OPEN None)
     \<lparr>t_strategy_id := ''credit_vertical'', credit_received_inr := Some 20, t_expiry := Some (9 * day_us)\<rparr>"

text \<open>Its legs: a call sold at a mid of 50 and one bought at 20, so that unwinding really costs 30, more than the credit.\<close>

definition sample_credit_legs :: "leg_row list" where
  "sample_credit_legs = map (\<lambda>(i, sym, side).
     \<lparr>leg_id = i, leg_trade_id = 7, leg_strategy_id = ''credit_vertical'', leg_idx = i, leg_symbol = sym, leg_option_type = Some ''call'',
      leg_strike = None, leg_side = side, leg_lots = 1, leg_entry_price = None, leg_exit_price = None, leg_pnl_inr = None,
      leg_status = ''open''\<rparr>) [(0, ''C2'', ''sell''), (1, ''C3'', ''buy'')]"

definition credit_market :: market_state where
  "credit_market = sample_market\<lparr>quote_for := [(''C2'', sample_quote ''C2'' 50 (1 / 2)), (''C3'', sample_quote ''C3'' 20 (1 / 5))]\<rparr>"

theorem stored_credit_vertical_closes_witness:
  "\<exists>pos d rt. trade_to_position_state (\<lambda>_. None) 0 sample_credit_trade sample_credit_legs sample_chain = Inr pos \<and>
     step (\<lambda>_. None) [(CREDIT_VERTICAL, mk_strategy (CreditVerticalConfig sample_credit))] 60 (PositionRuntime pos) credit_market = Inr ([d], rt) \<and>
     ed_trade_id d = 7 \<and> ed_kind d = EXIT_CLOSE \<and> ed_trigger d = Some TARGET \<and>
     map leg_side sample_credit_legs = [''sell'', ''buy''] \<and> map ls_side (leg_states pos) = [None, None] \<and>
     vget (ps_notes (rt_position rt)) ''current_unwind_cost'' = VFlt (- 70)"
proof -
  obtain pos where pos: "trade_to_position_state (\<lambda>_. None) 0 sample_credit_trade sample_credit_legs sample_chain = Inr pos"
    by (simp add: trade_to_position_state_def sample_credit_trade_def sample_trade_def StrategyId_def Underlying_def required_float_def vget_def Let_def)
  have pf: "ps_strategy_id pos = CREDIT_VERTICAL" "leg_states pos = map (leg_state_of sample_chain) sample_credit_legs"
    using position_fields(3,4) [OF pos] by (simp_all add: sample_credit_trade_def StrategyId_def)
  have expiry: "ps_expiry pos = 9 * day_us"
    using pos by (auto simp: trade_to_position_state_def sample_credit_trade_def sample_trade_def StrategyId_def Underlying_def required_float_def vget_def Let_def)
  have reg: "registry_get [(CREDIT_VERTICAL, mk_strategy (CreditVerticalConfig sample_credit))] (ps_strategy_id pos) = Inr (mk_strategy (CreditVerticalConfig sample_credit))"
    by (simp add: registry_get_def dict_get_def pf(1))
  have pos_mids: "\<forall>sym x. quoted_mid credit_market sym = Some x \<longrightarrow> 0 \<le> x"
    by (auto simp: quoted_mid_def credit_market_def dict_get_def sample_quote_def mid_def split: if_splits)
  have mids: "leg_mids credit_market sample_credit_legs = Some [50, 20]"
    by (simp add: leg_mids_def sample_credit_legs_def quoted_mid_def credit_market_def dict_get_def sample_quote_def mid_def)
  have late: "\<not> date_of (utc_to_ist (9 * day_us)) - date_of (utc_to_ist (mk_now credit_market)) \<le> force_close_days_before_expiry (cv_exits sample_credit)"
    by (simp add: credit_market_def sample_market_def sample_credit_def CreditVerticalExits_def utc_to_ist_def date_of_def IST_def time_defs)
  have sides: "map leg_side sample_credit_legs = [''sell'', ''buy'']" "map ls_side (leg_states pos) = [None, None]"
    by (simp_all add: sample_credit_legs_def pf(2) leg_state_of_def)
  from stored_credit_vertical_closes [OF pos reg _ _ _ _ _ pos_mids, of sample_credit 20 60] obtain d rt where
    "step (\<lambda>_. None) [(CREDIT_VERTICAL, mk_strategy (CreditVerticalConfig sample_credit))] 60 (PositionRuntime pos) credit_market = Inr ([d], rt)"
    "ed_trade_id d = t_id sample_credit_trade" "ed_kind d = EXIT_CLOSE" "ed_trigger d = Some TARGET"
    "vget (ps_notes (rt_position rt)) ''current_unwind_cost'' = VFlt (- 70)"
    unfolding expiry mids using late
    by (auto simp: mk_strategy_def sample_credit_trade_def sample_trade_def sample_credit_def CreditVerticalExits_def vget_def opt_flt_def)
  moreover have "t_id sample_credit_trade = 7" by (simp add: sample_credit_trade_def sample_trade_def)
  ultimately show ?thesis using pos sides by auto
qed

theorem exit_cooldown_blocks_reentry_witness:
  "\<exists>r' s' is ds. apply_directional_exit_cooldown [(DIRECTIONAL, mk_strategy (DirectionalConfig sample_directional))] (sample_trade 1 TRADE_OPEN None) 0 = Inr r' \<and>
     registry_get r' DIRECTIONAL = Inr s' \<and> strategy_evaluate s' sample_market = Inr (is, ds) \<and>
     list_all (\<lambda>i. underlying_value (in_underlying i) \<noteq> ''BTC'') is"
proof -
  let ?r = "[(DIRECTIONAL, mk_strategy (DirectionalConfig sample_directional))]" and ?t = "sample_trade 1 TRADE_OPEN None"
  let ?s = "mk_strategy (DirectionalConfig sample_directional)"
  let ?s' = "?s\<lparr>st_context := set_underlying_cooldown ''BTC'' (timedelta_minutes 45) (st_context ?s)\<rparr>"
  have sid: "StrategyId (t_strategy_id ?t) = Inr DIRECTIONAL" by (simp add: sample_trade_def StrategyId_def)
  have get: "registry_get ?r DIRECTIONAL = Inr ?s" by (simp add: registry_get_def dict_get_def)
  have cfg: "st_config ?s = DirectionalConfig sample_directional" by (simp add: mk_strategy_def)
  have mins: "cooldown_minutes_after_underlying_stop (dir_entry sample_directional) = 45"
    by (simp add: sample_directional_def sample_entry_def DirectionalEntry_def)
  have now: "mk_now sample_market < 0 + timedelta_minutes 45"
    by (simp add: sample_market_def timedelta_minutes_def py_round0_def Let_def)
  have app: "apply_directional_exit_cooldown ?r ?t 0 = Inr (dict_set DIRECTIONAL ?s' ?r)"
    using sid get cfg mins by (simp add: apply_directional_exit_cooldown_def update_context_def sample_trade_def Let_def)
  have get': "registry_get (dict_set DIRECTIONAL ?s' ?r) DIRECTIONAL = Inr ?s'" by (simp add: registry_get_set)
  have "\<exists>is ds. strategy_evaluate ?s' sample_market = Inr (is, ds)"
    using now by (simp add: strategy_evaluate_def mk_strategy_def dir_evaluate_def evaluate_each_def sample_directional_def sample_base_def dir_evaluate_one_def Let_def)
  then obtain "is" ds where ev: "strategy_evaluate ?s' sample_market = Inr (is, ds)" by blast
  have "list_all (\<lambda>i. underlying_value (in_underlying i) \<noteq> t_underlying ?t) is"
    by (rule exit_cooldown_blocks_reentry [OF app sid get cfg _ _ get' ev]) (use mins now in simp_all)
  then have "list_all (\<lambda>i. underlying_value (in_underlying i) \<noteq> ''BTC'') is" by (simp add: sample_trade_def)
  with app get' ev show ?thesis by (intro exI conjI)
qed

end
