(* ===== verification/Journal.thy ===== *)
theory Journal
  imports Tick Rest "HOL-Library.List_Lexorder" "HOL-Library.Char_ord"
begin

text \<open>
  The journal of a trade (\<open>bot/analytics/journal.py\<close>).  A text is the list of the bytes of its UTF-8 encoding; the
  directory of the journals is a map from paths to texts.  The text of a value that is not a string is the parameter
  \<open>env_repr\<close>, \<open>float(str)\<close> is \<open>env_float\<close>; a line whose rendering raises is an \<open>Inl\<close>.
\<close>

section \<open>Text\<close>

definition em_dash :: string where
  "em_dash = [CHR 0xE2, CHR 0x80, CHR 0x94]"

definition rupee :: string where
  "rupee = [CHR 0xE2, CHR 0x82, CHR 0xB9]"

definition arrow :: string where
  "arrow = [CHR 0xE2, CHR 0x86, CHR 0x92]"

definition nl :: string where
  "nl = [CHR 0x0A]"

text \<open>The format specification \<open>,.nf\<close>: a comma before every third digit of the integral part, from the right.\<close>

fun group_rev :: "string \<Rightarrow> string" where
  "group_rev (a # b # c # d # ds) = a # b # c # CHR '','' # group_rev (d # ds)"
| "group_rev ds = ds"

definition fmt_grouped :: "nat \<Rightarrow> flt \<Rightarrow> string" where
  "fmt_grouped n x =
     (let s = fmt_fixed n \<bar>x\<bar>
      in (if x < 0 then ''-'' else []) @ rev (group_rev (rev (takeWhile is_digit s))) @ dropWhile is_digit s)"

definition j_fmt :: "nat \<Rightarrow> flt option \<Rightarrow> string" where
  "j_fmt ndigits v = (case v of None \<Rightarrow> em_dash | Some x \<Rightarrow> fmt_grouped ndigits x)"

definition fmt_val :: "py_env \<Rightarrow> nat \<Rightarrow> pyval \<Rightarrow> string result" where
  "fmt_val env ndigits v =
     (if v = VNone then Inr em_dash
      else bind_result (float_of (env_float env) v) (\<lambda>x. Inr (fmt_grouped ndigits x)))"

definition get_or :: "(string, pyval) dict \<Rightarrow> string \<Rightarrow> pyval \<Rightarrow> pyval" where
  "get_or d k v = the_or v (dict_get d k)"

definition iter_values :: "pyval \<Rightarrow> pyval list result" where
  "iter_values v =
     (case v of VList xs \<Rightarrow> Inr xs | VDict d \<Rightarrow> Inr (map (VStr \<circ> fst) d) | VStr s \<Rightarrow> Inr (map (\<lambda>c. VStr [c]) s)
      | _ \<Rightarrow> Inl TypeError)"

section \<open>Blocks\<close>

definition render_wallet_block :: "py_env \<Rightarrow> pyval \<Rightarrow> string result" where
  "render_wallet_block env obj =
     (if obj = VNone then Inr ''_no wallet data (missing API keys or request failed)_''
      else case obj of
        VDict d \<Rightarrow>
          if truthy (vget d ''error'') then Inr (''_error_: `'' @ py_str env (vget d ''error'') @ ''`'')
          else bind_result (iter_values (py_or (vget d ''balances'') (VList []))) (\<lambda>bs.
            let lines = (''- Captured: `'' @ py_str env (get_or d ''ts'' (VStr em_dash)) @ ''`'') #
                  List.map_filter (\<lambda>b. case b of
                      VDict e \<Rightarrow>
                        Some (''- **'' @ py_str env (get_or e ''asset_symbol'' (VStr ''?'')) @ ''**: balance='' @
                          py_str env (vget e ''balance'') @ '' available='' @ py_str env (vget e ''available_balance''))
                    | _ \<Rightarrow> None) bs
            in Inr (if length lines > 1 then join_text nl lines else ''_empty balances_''))
      | _ \<Rightarrow> Inr (py_str env obj))"

definition greeks_row :: "py_env \<Rightarrow> string \<Rightarrow> (string, pyval) dict \<Rightarrow> string result" where
  "greeks_row env symbol row =
     bind_result (fmt_val env 3 (vget row ''iv'')) (\<lambda>iv.
     bind_result (fmt_val env 3 (vget row ''delta'')) (\<lambda>delta.
     bind_result (fmt_val env 4 (vget row ''gamma'')) (\<lambda>gamma.
     bind_result (fmt_val env 3 (vget row ''theta'')) (\<lambda>theta.
     bind_result (fmt_val env 3 (vget row ''vega'')) (\<lambda>vega.
     bind_result (fmt_val env 0 (vget row ''open_interest'')) (\<lambda>oi.
       Inr (''| '' @ symbol @ '' | '' @ iv @ '' | '' @ delta @ '' | '' @ gamma @ '' | '' @ theta @ '' | '' @ vega @ '' | '' @ oi @ '' |'')))))))"

definition greeks_head :: "string list" where
  "greeks_head =
     [''| Symbol | IV | '' @ [CHR 0xCE, CHR 0x94] @ '' | '' @ [CHR 0xCE, CHR 0x93] @ '' | '' @ [CHR 0xCE, CHR 0x98] @ '' | Vega | OI |'',
      ''|---|---:|---:|---:|---:|---:|---:|'']"

definition render_greeks_block :: "py_env \<Rightarrow> pyval \<Rightarrow> string result" where
  "render_greeks_block env greeks =
     (case greeks of
        VDict d \<Rightarrow>
          if d = [] then Inr ''_none_''
          else
            bind_result (map_result id (List.map_filter (\<lambda>symbol. case vget d symbol of
                VDict row \<Rightarrow> Some (greeks_row env symbol row) | _ \<Rightarrow> None) (sort (map fst d)))) (\<lambda>rows.
            let lines = greeks_head @ rows
            in Inr (if length lines > 2 then join_text nl lines else ''_none_''))
      | _ \<Rightarrow> Inr ''_none_'')"

definition dict_lines :: "py_env \<Rightarrow> string \<Rightarrow> string \<Rightarrow> (string, pyval) dict \<Rightarrow> string list" where
  "dict_lines env before after d = map (\<lambda>(k, v). before @ k @ after @ py_str env v) (sort_key fst d)"

definition render_dict_block :: "py_env \<Rightarrow> pyval \<Rightarrow> string result" where
  "render_dict_block env v =
     (if \<not> truthy v then Inr ''_none_''
      else case v of
        VDict d \<Rightarrow> Inr (join_text nl (dict_lines env ''- `'' ''`: '' d))
      | _ \<Rightarrow> Inl AttributeError)"

definition trail_event_line :: "py_env \<Rightarrow> nat \<times> pyval \<Rightarrow> string result" where
  "trail_event_line env p =
     (case snd p of
        VDict ev \<Rightarrow>
          bind_result (fmt_val env 2 (vget ev ''new_stop'')) (\<lambda>stop.
            Inr (str_of_nat (fst p + 1) @ ''. `'' @ py_str env (vget ev ''ts'') @ ''` '' @ arrow @ '' stop '' @ rupee @ stop @ '' '' @
              em_dash @ '' '' @ py_str env (get_or ev ''notes'' (VDict []))))
      | ev \<Rightarrow> Inr (str_of_nat (fst p + 1) @ ''. '' @ env_repr env ev))"

definition render_trail_events :: "py_env \<Rightarrow> pyval \<Rightarrow> string result" where
  "render_trail_events env events =
     (if \<not> truthy events then Inr ''_no trail adjustments yet_''
      else case events of
        VList evs \<Rightarrow>
          bind_result (map_result (trail_event_line env) (List.enumerate 0 evs)) (\<lambda>lines. Inr (join_text nl lines))
      | _ \<Rightarrow> Inr (py_str env events))"

definition STRUCTURED_NOTE_KEYS :: "string list" where
  "STRUCTURED_NOTE_KEYS =
     [''wallet_at_entry'', ''wallet_at_exit'', ''wallet_last_tick'', ''indicators_at_entry'', ''indicators_at_exit'',
      ''last_indicator_snapshot'', ''trade_outcome'', ''trail_events'', ''unrealized_pnl_inr'', ''peak_pnl_inr'',
      ''current_trail_stop_price'', ''current_stop_price'', ''entry_underlying_price'', ''entry_atr'', ''entry_fill_prices'',
      ''entry_net_premium_inr'', ''trade_lifecycle'', ''rationale'', ''entry_greeks'', ''exit_greeks'']"

definition render_notes :: "py_env \<Rightarrow> (string, pyval) dict option \<Rightarrow> string" where
  "render_notes env notes0 =
     (let ns = the_or [] notes0
      in if ns = [] then ''_no notes_''
         else
           let items = map (\<lambda>(k, v). ''- **'' @ k @ ''**: '' @ py_str env v)
                 (filter (\<lambda>(k, _). \<not> List.member STRUCTURED_NOTE_KEYS k) (sort_key fst ns))
           in if items = [] then ''_(structured fields rendered in sections above)_'' else join_text nl items)"

section \<open>Documents\<close>

definition document :: "string result list \<Rightarrow> string result" where
  "document lines = bind_result (map_result id lines) (\<lambda>ls. Inr (join_text nl ls @ nl))"

definition feature_lines :: "py_env \<Rightarrow> signal_row \<Rightarrow> string result list" where
  "feature_lines env signal =
     (if s_features signal = [] then [Inr ''_no features captured_'']
      else map Inr (dict_lines env ''- `'' ''`: '' (s_features signal)))"

definition signal_lines_open :: "py_env \<Rightarrow> signal_row option \<Rightarrow> string result list" where
  "signal_lines_open env sg =
     (case sg of
        None \<Rightarrow> []
      | Some signal \<Rightarrow>
          [Inr ''## Signal (Entry Context)'', Inr [], Inr (''- Symbol: '' @ intended_symbol signal),
           Inr (''- Strike: '' @ j_fmt 2 (intended_strike signal)), Inr [], Inr ''### Feature vector'', Inr []] @
          feature_lines env signal @ [Inr []])"

definition render_open :: "py_env \<Rightarrow> trade_row \<Rightarrow> signal_row option \<Rightarrow> string result" where
  "render_open env trade sg =
     (let ns = the_or [] (t_notes trade);
          money = (\<lambda>label k. bind_result (fmt_val env 2 (vget ns k)) (\<lambda>s. Inr (label @ rupee @ s)))
      in document
        ([Inr (''# Open trade #'' @ str_of_int (t_id trade) @ '' '' @ em_dash @ '' '' @ t_strategy_id trade), Inr [],
          Inr ''## Summary'', Inr [],
          Inr (''- Underlying: '' @ t_underlying trade), Inr (''- Lots: '' @ str_of_int (t_lots trade)),
          Inr (''- Mode: '' @ t_mode trade), Inr (''- Status: '' @ t_status trade),
          Inr (''- Entry: '' @ isoformat (t_entry_ts trade)), Inr [],
          Inr ''## Wallet (at entry)'', Inr [], render_wallet_block env (vget ns ''wallet_at_entry''), Inr [],
          Inr ''## Indicators (at entry)'', Inr [], render_dict_block env (vget ns ''indicators_at_entry''), Inr [],
          Inr ''## Latest snapshot (from bot ticks)'', Inr [],
          money ''- Unrealised PnL (est.): '' ''unrealized_pnl_inr'', money ''- Peak PnL (est.): '' ''peak_pnl_inr'',
          money ''- Trail stop: '' ''current_trail_stop_price'', Inr [],
          Inr ''### Last indicator snapshot'', Inr [], render_dict_block env (vget ns ''last_indicator_snapshot''), Inr [],
          Inr ''### Last wallet tick'', Inr [], render_wallet_block env (vget ns ''wallet_last_tick''), Inr []] @
         signal_lines_open env sg @
         [Inr ''## Trail events'', Inr [], render_trail_events env (vget ns ''trail_events''), Inr [],
          Inr ''## Raw notes'', Inr [], Inr (render_notes env (Some ns)), Inr []]))"

definition text_or_dash :: "string option \<Rightarrow> string" where
  "text_or_dash x = (case x of None \<Rightarrow> em_dash | Some s \<Rightarrow> if s = [] then em_dash else s)"

definition time_or_dash :: "datetime option \<Rightarrow> string" where
  "time_or_dash x = (case x of None \<Rightarrow> em_dash | Some t \<Rightarrow> isoformat t)"

definition money_line :: "string \<Rightarrow> flt option \<Rightarrow> string result" where
  "money_line label v = Inr (''- '' @ label @ '': '' @ rupee @ j_fmt 2 v)"

definition summary_lines :: "trade_row \<Rightarrow> string result list" where
  "summary_lines trade =
     [Inr (''# Trade #'' @ str_of_int (t_id trade) @ '' '' @ em_dash @ '' '' @ t_strategy_id trade), Inr [],
      Inr ''## Summary'', Inr [],
      Inr (''- Underlying: '' @ t_underlying trade), Inr (''- Lots: '' @ str_of_int (t_lots trade)),
      Inr (''- Mode: '' @ t_mode trade), Inr (''- Status: '' @ t_status trade),
      Inr (''- Entry: '' @ isoformat (t_entry_ts trade)), Inr (''- Exit: '' @ time_or_dash (t_exit_ts trade)),
      Inr (''- Expiry: '' @ time_or_dash (t_expiry trade)), Inr (''- Exit reason: '' @ text_or_dash (exit_reason trade)), Inr [],
      Inr ''## P&L'', Inr [],
      money_line ''Realised PnL'' (realised_pnl_inr trade), money_line ''Premium paid (per lot)'' (premium_paid_inr trade),
      money_line ''Credit received (per lot)'' (credit_received_inr trade), money_line ''Fees'' (t_fees_inr trade),
      money_line ''Delta PnL'' (delta_pnl_inr trade), money_line ''Theta PnL'' (theta_pnl_inr trade),
      Inr (''- R-multiple: '' @ j_fmt 2 (r_multiple trade)), Inr (''- Slippage: '' @ j_fmt 1 (slippage_bps trade) @ '' bps''),
      money_line ''Peak PnL'' (t_peak_pnl_inr trade), money_line ''Trough PnL'' (trough_pnl_inr trade),
      Inr (''- IV entry '' @ arrow @ '' exit: '' @ j_fmt 2 (entry_iv trade) @ '' '' @ arrow @ '' '' @ j_fmt 2 (exit_iv trade)), Inr []]"

definition outcome_lines :: "py_env \<Rightarrow> trade_row \<Rightarrow> (string, pyval) dict \<Rightarrow> string result list" where
  "outcome_lines env trade ns =
     [Inr ''## Trade outcome'', Inr []] @
     (case vget ns ''trade_outcome'' of
        VDict d \<Rightarrow> [render_dict_block env (VDict d)]
      | _ \<Rightarrow> [money_line ''Realised (final)'' (realised_pnl_inr trade), Inr (''- Exit: `'' @ text_or_dash (exit_reason trade) @ ''`'')])"

definition context_lines :: "py_env \<Rightarrow> (string, pyval) dict \<Rightarrow> string result list" where
  "context_lines env ns =
     [Inr [], Inr ''## Wallet'', Inr [],
      Inr ''### At entry'', Inr [], render_wallet_block env (vget ns ''wallet_at_entry''), Inr [],
      Inr ''### At exit'', Inr [], render_wallet_block env (vget ns ''wallet_at_exit''), Inr [],
      Inr ''## Indicators'', Inr [],
      Inr ''### At entry'', Inr [], render_dict_block env (vget ns ''indicators_at_entry''), Inr [],
      Inr ''### At exit'', Inr [], render_dict_block env (vget ns ''indicators_at_exit''), Inr [],
      Inr ''## Greeks'', Inr [],
      Inr ''### At entry'', Inr [], render_greeks_block env (vget ns ''entry_greeks''), Inr [],
      Inr ''### At exit'', Inr [], render_greeks_block env (vget ns ''exit_greeks''), Inr [],
      Inr ''## Trail events'', Inr [], render_trail_events env (vget ns ''trail_events''), Inr []]"

definition signal_lines :: "py_env \<Rightarrow> signal_row option \<Rightarrow> string result list" where
  "signal_lines env sg =
     (case sg of
        None \<Rightarrow> []
      | Some signal \<Rightarrow>
          [Inr ''## Signal (Entry Context)'', Inr [], Inr (''- Symbol: '' @ intended_symbol signal),
           Inr (''- Strike: '' @ j_fmt 2 (intended_strike signal)), Inr (''- Expiry: '' @ time_or_dash (intended_expiry signal)),
           Inr (''- Premium target: '' @ rupee @ j_fmt 2 (intended_premium_inr signal)), Inr [], Inr ''### Feature Vector'', Inr []] @
          feature_lines env signal @ [Inr []])"

definition leg_line :: "leg_row \<Rightarrow> string result" where
  "leg_line leg =
     Inr (''| '' @ str_of_int (leg_idx leg) @ '' | '' @ leg_symbol leg @ '' | '' @ leg_side leg @ '' | '' @
       text_or_dash (leg_option_type leg) @ '' | '' @ j_fmt 0 (leg_strike leg) @ '' | '' @ str_of_int (leg_lots leg) @ '' | '' @
       j_fmt 2 (leg_entry_price leg) @ '' | '' @ j_fmt 2 (leg_exit_price leg) @ '' | '' @ j_fmt 2 (leg_pnl_inr leg) @ '' | '' @
       leg_status leg @ '' |'')"

definition order_line :: "py_env \<Rightarrow> order_row \<Rightarrow> string result" where
  "order_line env ord =
     Inr (''| '' @ isoformat (o_ts ord) @ '' | '' @ (case o_leg_idx ord of None \<Rightarrow> em_dash | Some i \<Rightarrow> str_of_int i) @ '' | `'' @
       o_client_order_id ord @ ''` | '' @ o_side ord @ '' | '' @ o_order_type ord @ '' | '' @ py_str env (VFlt (o_qty ord)) @ '' | '' @
       py_str env (VFlt (o_filled_qty ord)) @ '' | '' @ j_fmt 2 (o_filled_price ord) @ '' | '' @ o_state ord @ '' |'')"

definition render :: "py_env \<Rightarrow> trade_row \<Rightarrow> leg_row list \<Rightarrow> signal_row option \<Rightarrow> order_row list \<Rightarrow> string result" where
  "render env trade legs sg orders =
     (let ns = the_or [] (t_notes trade)
      in document
        (summary_lines trade @ outcome_lines env trade ns @ context_lines env ns @ signal_lines env sg @
         [Inr ''## Legs'', Inr [],
          Inr (''| # | Symbol | Side | Type | Strike | Lots | Entry '' @ rupee @ '' | Exit '' @ rupee @ '' | PnL '' @ rupee @ '' | Status |''),
          Inr ''|---:|---|---|---|---:|---:|---:|---:|---:|---|''] @
         map leg_line (sort_key leg_idx legs) @
         [Inr [], Inr ''## Orders'', Inr [],
          Inr ''| ts | leg | client_order_id | side | type | qty | filled | price | state |'',
          Inr ''|---|---:|---|---|---|---:|---:|---:|---|''] @
         map (order_line env) orders @
         [Inr [], Inr ''## Notes'', Inr [], Inr (render_notes env (t_notes trade)), Inr []]))"

section \<open>Files\<close>

type_synonym files = "(string, string) dict"

definition open_path :: "string \<Rightarrow> trade_row \<Rightarrow> string" where
  "open_path dir trade =
     dir @ ''/'' @ date_isoformat (date_of (t_entry_ts trade)) @ ''/'' @ t_strategy_id trade @ ''__'' @ str_of_int (t_id trade) @ ''_open.md''"

definition closed_path :: "string \<Rightarrow> trade_row \<Rightarrow> string" where
  "closed_path dir trade =
     dir @ ''/'' @ date_isoformat (date_of (the_or (t_entry_ts trade) (t_exit_ts trade))) @ ''/'' @ t_strategy_id trade @ ''__'' @
     str_of_int (t_id trade) @ ''.md''"

definition trade_by_id :: "database \<Rightarrow> int \<Rightarrow> trade_row option" where
  "trade_by_id db i = List.find (\<lambda>t. t_id t = i) (tb_trades db)"

definition signal_of :: "database \<Rightarrow> trade_row \<Rightarrow> signal_row option" where
  "signal_of db trade = (case t_signal_id trade of None \<Rightarrow> None | Some i \<Rightarrow> List.find (\<lambda>s. s_id s = i) (tb_signals db))"

definition write_open_trade :: "py_env \<Rightarrow> string \<Rightarrow> database \<Rightarrow> int \<Rightarrow> files \<Rightarrow> string option result \<times> files" where
  "write_open_trade env dir db i fs =
     (case trade_by_id db i of
        None \<Rightarrow> (Inr None, fs)
      | Some trade \<Rightarrow>
          (case render_open env trade (signal_of db trade) of
             Inl e \<Rightarrow> (Inl e, fs)
           | Inr text \<Rightarrow> (Inr (Some (open_path dir trade)), dict_set (open_path dir trade) text fs)))"

definition write_for_trade :: "py_env \<Rightarrow> string \<Rightarrow> database \<Rightarrow> int \<Rightarrow> files \<Rightarrow> string option result \<times> files" where
  "write_for_trade env dir db i fs =
     (case trade_by_id db i of
        None \<Rightarrow> (Inr None, fs)
      | Some trade \<Rightarrow>
          let orders = sort_key o_ts (filter (\<lambda>ord. o_trade_id ord = Some i) (tb_orders db));
              legs = filter (\<lambda>l. leg_trade_id l = i) (tb_legs db)
          in (case render env trade legs (signal_of db trade) orders of
                Inl e \<Rightarrow> (Inl e, fs)
              | Inr text \<Rightarrow> (Inr (Some (closed_path dir trade)), dict_set (closed_path dir trade) text fs)))"

text \<open>A sequence of journals written from the same tables; a journal that raises writes no file.\<close>

datatype journal_write = OpenJournal int | ClosedJournal int

fun write_journal :: "py_env \<Rightarrow> string \<Rightarrow> database \<Rightarrow> journal_write \<Rightarrow> files \<Rightarrow> string option result \<times> files" where
  "write_journal env dir db (OpenJournal i) fs = write_open_trade env dir db i fs"
| "write_journal env dir db (ClosedJournal i) fs = write_for_trade env dir db i fs"

fun write_journals :: "py_env \<Rightarrow> string \<Rightarrow> database \<Rightarrow> journal_write list \<Rightarrow> files \<Rightarrow> files" where
  "write_journals env dir db [] fs = fs"
| "write_journals env dir db (w # ws) fs = write_journals env dir db ws (snd (write_journal env dir db w fs))"

definition closed_text :: "py_env \<Rightarrow> database \<Rightarrow> trade_row \<Rightarrow> string result" where
  "closed_text env db t =
     render env t (filter (\<lambda>l. leg_trade_id l = t_id t) (tb_legs db)) (signal_of db t)
       (sort_key o_ts (filter (\<lambda>ord. o_trade_id ord = Some (t_id t)) (tb_orders db)))"

section \<open>Properties\<close>

lemma str_of_int_chars: "c \<in> set (str_of_int i) \<Longrightarrow> is_digit c \<or> c = CHR ''-''"
  using str_of_nat_digits [of c] by (auto simp: str_of_int_def split: if_splits)

lemma str_of_int_plain: "CHR ''_'' \<notin> set (str_of_int i)" "CHR ''o'' \<notin> set (str_of_int i)"
  using str_of_int_chars [of "CHR ''_''" i] str_of_int_chars [of "CHR ''o''" i] by (auto simp: is_digit_def)

lemma str_of_nat_inj: "str_of_nat a = str_of_nat b \<Longrightarrow> a = b"
  by (metis nat_of_digits_str_of_nat)

lemma str_of_nat_not_minus: "str_of_nat a \<noteq> CHR ''-'' # s"
  using str_of_nat_digits [of "CHR ''-''" a] by (metis is_digit_not_dash list.set_intros(1))

lemma str_of_int_inj: "str_of_int i = str_of_int j \<Longrightarrow> i = j"
  using str_of_nat_not_minus [of "nat i"] str_of_nat_not_minus [of "nat j"]
  by (auto simp: str_of_int_def dest!: str_of_nat_inj split: if_splits) (metis str_of_nat_not_minus)

text \<open>What a path has after its last underscore.\<close>

definition after_underscore :: "string \<Rightarrow> string" where
  "after_underscore p = rev (takeWhile (\<lambda>c. c \<noteq> CHR ''_'') (rev p))"

lemma after_underscore_append: "CHR ''_'' \<notin> set b \<Longrightarrow> after_underscore (a @ CHR ''_'' # b) = b"
  by (simp add: after_underscore_def takeWhile_append takeWhile_eq_all_conv [THEN iffD2])

lemma closed_path_tail: "after_underscore (closed_path dir t) = str_of_int (t_id t) @ ''.md''"
proof -
  let ?a = "dir @ ''/'' @ date_isoformat (date_of (the_or (t_entry_ts t) (t_exit_ts t))) @ ''/'' @ t_strategy_id t @ ''_''"
  have "closed_path dir t = ?a @ CHR ''_'' # (str_of_int (t_id t) @ ''.md'')" by (simp add: closed_path_def)
  with after_underscore_append [of "str_of_int (t_id t) @ ''.md''" ?a] str_of_int_plain show ?thesis by simp
qed

lemma open_path_tail: "after_underscore (open_path dir t) = ''open.md''"
proof -
  let ?a = "dir @ ''/'' @ date_isoformat (date_of (t_entry_ts t)) @ ''/'' @ t_strategy_id t @ ''__'' @ str_of_int (t_id t)"
  have "open_path dir t = ?a @ CHR ''_'' # ''open.md''" by (simp add: open_path_def)
  with after_underscore_append [of "''open.md''" ?a] show ?thesis by simp
qed

lemma open_path_stem:
  "\<exists>a. open_path dir t = (a @ CHR ''_'' # str_of_int (t_id t)) @ ''_open.md''"
  by (rule exI [of _ "dir @ ''/'' @ date_isoformat (date_of (t_entry_ts t)) @ ''/'' @ t_strategy_id t @ ''_''"]) (simp add: open_path_def)

lemma closed_path_inj: "closed_path dir t = closed_path dir u \<Longrightarrow> t_id t = t_id u"
  using closed_path_tail [of dir t] closed_path_tail [of dir u] by (auto dest: str_of_int_inj)

lemma open_path_inj:
  assumes "open_path dir t = open_path dir u"
  shows "t_id t = t_id u"
proof -
  obtain a b where "open_path dir t = (a @ CHR ''_'' # str_of_int (t_id t)) @ ''_open.md''"
    "open_path dir u = (b @ CHR ''_'' # str_of_int (t_id u)) @ ''_open.md''"
    using open_path_stem by blast
  with assms have "a @ CHR ''_'' # str_of_int (t_id t) = b @ CHR ''_'' # str_of_int (t_id u)" by (metis append_same_eq)
  then have "str_of_int (t_id t) = str_of_int (t_id u)" by (metis after_underscore_append str_of_int_plain(1))
  then show ?thesis by (rule str_of_int_inj)
qed

lemma open_not_closed: "open_path dir t \<noteq> closed_path dir u"
proof
  assume "open_path dir t = closed_path dir u"
  then have "''open.md'' = str_of_int (t_id u) @ ''.md''" using open_path_tail [of dir t] closed_path_tail [of dir u] by simp
  then have "CHR ''o'' \<in> set (str_of_int (t_id u) @ ''.md'')" by (metis list.set_intros(1))
  with str_of_int_plain show False by simp
qed

lemma trade_by_id_Some: "trade_by_id db i = Some t \<Longrightarrow> t \<in> set (tb_trades db) \<and> t_id t = i"
  by (auto simp: trade_by_id_def find_Some_iff)

lemma dict_set_present:
  assumes "dict_wf d" and "dict_get d k \<noteq> None"
  shows "dict_set k v d = map (\<lambda>p. (fst p, if fst p = k then v else snd p)) d"
  using assms
proof (induction d)
  case (Cons p d)
  have "map (\<lambda>p. (fst p, if fst p = k then v else snd p)) d = d" if "k \<notin> fst ` set d" for d :: "('a \<times> 'b) list"
    using that by (induction d) auto
  with Cons show ?case by (cases p; cases "fst p = k") (simp_all add: dict_set_def dict_get_def dict_wf_def)
qed (simp add: dict_get_def)

lemma render_notes_structured:
  assumes "dict_wf ns" and "dict_get ns k \<noteq> None" and "List.member STRUCTURED_NOTE_KEYS k"
  shows "render_notes env (Some (dict_set k v ns)) = render_notes env (Some ns)"
proof -
  let ?g = "\<lambda>p. (fst p, if fst p = k then v else snd p)"
  have s: "sort_key fst (dict_set k v ns) = map ?g (sort_key fst ns)"
    unfolding dict_set_present [OF assms(1,2)] by (rule sort_key_map) simp
  have f: "filter (\<lambda>(k, _). \<not> List.member STRUCTURED_NOTE_KEYS k) (map ?g xs) =
      filter (\<lambda>(k, _). \<not> List.member STRUCTURED_NOTE_KEYS k) xs" for xs
    using assms(3) by (induction xs) auto
  have "ns \<noteq> []" "dict_set k v ns \<noteq> []" using assms(2) dict_set_present [OF assms(1,2)] by auto
  then show ?thesis unfolding render_notes_def Let_def the_or_simps s f by simp
qed

text \<open>The keys of the notes that the closed journal shows in a section of their own.\<close>

definition shown_keys :: "string list" where
  "shown_keys =
     [''wallet_at_entry'', ''wallet_at_exit'', ''indicators_at_entry'', ''indicators_at_exit'', ''trade_outcome'',
      ''trail_events'', ''entry_greeks'', ''exit_greeks'']"

lemma fmt_grouped_commas: "CHR '','' \<notin> set s \<Longrightarrow> filter (\<lambda>c. c \<noteq> CHR '','') (group_rev s) = s"
  by (induction s rule: group_rev.induct) auto

lemma fmt_fixed_split: "fmt_fixed n x = (if x < 0 then ''-'' else []) @ fmt_fixed n \<bar>x\<bar>"
  by (simp add: fmt_fixed_def Let_def)

lemma fmt_fixed_no_comma: "CHR '','' \<notin> set (fmt_fixed n x)"
proof -
  have "\<not> is_digit CHR '',''" by (simp add: is_digit_def)
  then have "CHR '','' \<notin> set (str_of_nat k)" for k using str_of_nat_digits by blast
  then show ?thesis by (auto simp: fmt_fixed_def Let_def)
qed

lemma trade_by_id_of:
  assumes "distinct (map t_id (tb_trades db))" and "t \<in> set (tb_trades db)"
  shows "trade_by_id db (t_id t) = Some t"
proof (cases "trade_by_id db (t_id t)")
  case None
  with assms(2) show ?thesis by (auto simp: trade_by_id_def find_None_iff)
next
  case (Some u)
  from trade_by_id_Some [OF this] assms have "u = t" by (auto simp: distinct_map dest: inj_onD)
  with Some show ?thesis by simp
qed

lemma write_closed:
  assumes "trade_by_id db (t_id t) = Some t"
  shows "dict_get (snd (write_journal env dir db w fs)) (closed_path dir t) =
    (case closed_text env db t of Inl _ \<Rightarrow> dict_get fs (closed_path dir t)
     | Inr text \<Rightarrow> if w = ClosedJournal (t_id t) then Some text else dict_get fs (closed_path dir t))"
proof (cases w)
  case (OpenJournal i)
  then show ?thesis using open_not_closed [of dir _ t]
    by (simp add: write_open_trade_def eq_commute [of "closed_path dir t"] split: option.split sum.split)
next
  case (ClosedJournal i)
  show ?thesis
  proof (cases "i = t_id t")
    case True
    with ClosedJournal assms show ?thesis by (simp add: write_for_trade_def closed_text_def Let_def split: sum.split)
  next
    case False
    have "closed_path dir t \<noteq> closed_path dir u" if "trade_by_id db i = Some u" for u
      using trade_by_id_Some [OF that] False closed_path_inj [of dir t u] by auto
    with ClosedJournal False show ?thesis by (simp add: write_for_trade_def Let_def split: option.split sum.split)
  qed
qed

lemma write_open:
  assumes "trade_by_id db (t_id t) = Some t"
  shows "dict_get (snd (write_journal env dir db w fs)) (open_path dir t) =
    (case render_open env t (signal_of db t) of Inl _ \<Rightarrow> dict_get fs (open_path dir t)
     | Inr text \<Rightarrow> if w = OpenJournal (t_id t) then Some text else dict_get fs (open_path dir t))"
proof (cases w)
  case (ClosedJournal i)
  then show ?thesis using open_not_closed [of dir t]
    by (simp add: write_for_trade_def Let_def split: option.split sum.split)
next
  case (OpenJournal i)
  show ?thesis
  proof (cases "i = t_id t")
    case True
    with OpenJournal assms show ?thesis by (simp add: write_open_trade_def split: sum.split)
  next
    case False
    have "open_path dir t \<noteq> open_path dir u" if "trade_by_id db i = Some u" for u
      using trade_by_id_Some [OF that] False open_path_inj [of dir t u] by auto
    with OpenJournal False show ?thesis by (simp add: write_open_trade_def split: option.split sum.split)
  qed
qed

lemma write_journals_closed:
  assumes "trade_by_id db (t_id t) = Some t" and "closed_text env db t = Inr text"
  shows "dict_get (write_journals env dir db ws fs) (closed_path dir t) =
    (if ClosedJournal (t_id t) \<in> set ws then Some text else dict_get fs (closed_path dir t))"
  by (induction ws arbitrary: fs) (auto simp: write_closed [OF assms(1)] assms(2) simp del: write_journal.simps)

lemma write_journals_open:
  assumes "trade_by_id db (t_id t) = Some t" and "render_open env t (signal_of db t) = Inr text"
  shows "dict_get (write_journals env dir db ws fs) (open_path dir t) =
    (if OpenJournal (t_id t) \<in> set ws then Some text else dict_get fs (open_path dir t))"
  by (induction ws arbitrary: fs) (auto simp: write_open [OF assms(1)] assms(2) simp del: write_journal.simps)

section \<open>Claims\<close>

text \<open>
  C30: no journal overwrites another.  After any sequence of open and closed journals of any trades, in any order and with
  any that raise among them, the file of each trade whose journal was written holds the rendering of that trade, and
  the files of the others hold what they held.
\<close>

theorem journals_do_not_overwrite:
  assumes "distinct (map t_id (tb_trades db))" and "t \<in> set (tb_trades db)"
    and "closed_text env db t = Inr final" and "render_open env t (signal_of db t) = Inr early"
  shows "dict_get (write_journals env dir db ws fs) (closed_path dir t) =
      (if ClosedJournal (t_id t) \<in> set ws then Some final else dict_get fs (closed_path dir t)) \<and>
    dict_get (write_journals env dir db ws fs) (open_path dir t) =
      (if OpenJournal (t_id t) \<in> set ws then Some early else dict_get fs (open_path dir t))"
  using write_journals_closed [OF trade_by_id_of [OF assms(1,2)] assms(3)]
    write_journals_open [OF trade_by_id_of [OF assms(1,2)] assms(4)] by simp

text \<open>
  The closed journal never shows a note whose key is structured but has no section: the rationale, the entry
  price of the underlying, the fill prices, the net premium, the life cycle and six more.  Whatever their values, the
  document is the same.
\<close>

theorem journal_hides_notes:
  assumes "t_notes t = Some ns" and "dict_wf ns" and "dict_get ns k \<noteq> None"
    and "List.member STRUCTURED_NOTE_KEYS k" and "\<not> List.member shown_keys k"
  shows "render env (t\<lparr>t_notes := Some (dict_set k v ns)\<rparr>) legs sg orders = render env t legs sg orders"
proof -
  have k: "k \<noteq> ''wallet_at_entry''" "k \<noteq> ''wallet_at_exit''" "k \<noteq> ''indicators_at_entry''" "k \<noteq> ''indicators_at_exit''"
    "k \<noteq> ''trade_outcome''" "k \<noteq> ''trail_events''" "k \<noteq> ''entry_greeks''" "k \<noteq> ''exit_greeks''"
    using assms(5) unfolding shown_keys_def by auto
  have c: "context_lines env (dict_set k v ns) = context_lines env ns"
    using k by (simp add: context_lines_def eq_commute [of _ k])
  have o: "outcome_lines env (t\<lparr>t_notes := Some (dict_set k v ns)\<rparr>) (dict_set k v ns) = outcome_lines env t ns"
    using k by (simp add: outcome_lines_def eq_commute [of _ k] split: pyval.split)
  have s: "summary_lines (t\<lparr>t_notes := x\<rparr>) = summary_lines t" for x by (simp add: summary_lines_def)
  show ?thesis using assms(1) render_notes_structured [OF assms(2-4)] by (simp add: render_def c o s)
qed

text \<open>
  The grouped format is the fixed format with commas in it.
\<close>

theorem fmt_grouped_is_fixed: "filter (\<lambda>c. c \<noteq> CHR '','') (fmt_grouped n x) = fmt_fixed n x"
proof -
  let ?s = "fmt_fixed n \<bar>x\<bar>"
  have n: "CHR '','' \<notin> set ?s" by (rule fmt_fixed_no_comma)
  have "CHR '','' \<notin> set (rev (takeWhile is_digit ?s))" using n by (auto dest: set_takeWhileD)
  then have "filter (\<lambda>c. c \<noteq> CHR '','') (rev (group_rev (rev (takeWhile is_digit ?s)))) = takeWhile is_digit ?s"
    by (simp add: rev_filter [symmetric] fmt_grouped_commas)
  moreover have "filter (\<lambda>c. c \<noteq> CHR '','') (dropWhile is_digit ?s) = dropWhile is_digit ?s"
    using n by (auto simp: filter_id_conv dest: set_dropWhileD)
  ultimately show ?thesis by (simp add: fmt_grouped_def Let_def fmt_fixed_split [of n x])
qed

section \<open>Notes that the engine writes\<close>

definition num_note :: "pyval \<Rightarrow> bool" where
  "num_note v = (case v of VNone \<Rightarrow> True | VBool _ \<Rightarrow> True | VInt _ \<Rightarrow> True | VFlt _ \<Rightarrow> True | _ \<Rightarrow> False)"

definition dict_note :: "pyval \<Rightarrow> bool" where
  "dict_note v = (case v of VNone \<Rightarrow> True | VDict _ \<Rightarrow> True | _ \<Rightarrow> False)"

definition wallet_note :: "pyval \<Rightarrow> bool" where
  "wallet_note v =
     (case v of
        VDict d \<Rightarrow> truthy (vget d ''error'') \<or> (case vget d ''balances'' of VNone \<Rightarrow> True | VList _ \<Rightarrow> True | _ \<Rightarrow> False)
      | _ \<Rightarrow> True)"

definition greeks_fields :: "string list" where
  "greeks_fields = [''iv'', ''delta'', ''gamma'', ''theta'', ''vega'', ''open_interest'']"

definition greeks_note :: "pyval \<Rightarrow> bool" where
  "greeks_note v =
     (case v of
        VDict d \<Rightarrow> list_all (\<lambda>(s, row). case row of VDict r \<Rightarrow> list_all (\<lambda>f. num_note (vget r f)) greeks_fields | _ \<Rightarrow> True) d
      | _ \<Rightarrow> True)"

definition trail_note :: "pyval \<Rightarrow> bool" where
  "trail_note v =
     (case v of
        VNone \<Rightarrow> True
      | VList evs \<Rightarrow> list_all (\<lambda>e. case e of VDict ev \<Rightarrow> num_note (vget ev ''new_stop'') | _ \<Rightarrow> True) evs
      | _ \<Rightarrow> False)"

definition notes_typed :: "(string, pyval) dict \<Rightarrow> bool" where
  "notes_typed ns \<longleftrightarrow>
     wallet_note (vget ns ''wallet_at_entry'') \<and> wallet_note (vget ns ''wallet_at_exit'') \<and>
     wallet_note (vget ns ''wallet_last_tick'') \<and> dict_note (vget ns ''indicators_at_entry'') \<and>
     dict_note (vget ns ''indicators_at_exit'') \<and> dict_note (vget ns ''last_indicator_snapshot'') \<and>
     greeks_note (vget ns ''entry_greeks'') \<and> greeks_note (vget ns ''exit_greeks'') \<and>
     trail_note (vget ns ''trail_events'') \<and> num_note (vget ns ''unrealized_pnl_inr'') \<and>
     num_note (vget ns ''peak_pnl_inr'') \<and> num_note (vget ns ''current_trail_stop_price'')"

text \<open>The notes of a trade from its entry on: the steps by which the engine writes them.\<close>

inductive engine_notes :: "(string \<Rightarrow> flt option) \<Rightarrow> (string, pyval) dict \<Rightarrow> bool" for pf where
  opened: "wallet_note wallet \<Longrightarrow> t_notes (entry_trade pf i sz m mode wallet sid) = Some ns \<Longrightarrow> engine_notes pf ns"
| filled: "engine_notes pf ns \<Longrightarrow> engine_notes pf (entry_notes fills net (greeks_by_symbol symbols q chain) ns)"
| trailed: "engine_notes pf ns \<Longrightarrow> trail_notes now stop action_notes wallet ns = Inr ns' \<Longrightarrow> engine_notes pf ns'"
| refreshed: "engine_notes pf ns \<Longrightarrow> (case wallet of None \<Rightarrow> True | Some w \<Rightarrow> wallet_note w) \<Longrightarrow>
    engine_notes pf (refreshed_notes pf ind wallet unreal peak ns)"
| exited: "engine_notes pf ns \<Longrightarrow> wallet_note wallet \<Longrightarrow>
    engine_notes pf (exit_notes wallet ind (trade_outcome trigger realised) (greeks_by_symbol symbols q chain) ns)"

lemma opt_flt_num [simp]: "num_note (opt_flt x)"
  by (simp add: opt_flt_def num_note_def split: option.split)

lemma note_simps [simp]:
  "num_note VNone" "num_note (VFlt x)" "dict_note VNone" "dict_note (VDict d)" "wallet_note VNone" "greeks_note VNone" "trail_note VNone"
  "num_note (VBool b)" "num_note (VInt i)"
  by (simp_all add: num_note_def dict_note_def wallet_note_def greeks_note_def trail_note_def)

lemma greeks_of_quote_num: "f \<in> set greeks_fields \<Longrightarrow> num_note (vget (leg_greeks_from_quote q) f)"
  by (auto simp: greeks_fields_def leg_greeks_from_quote_def vget_def dict_get_def)

lemma greeks_by_symbol_typed: "greeks_note (VDict (map (\<lambda>(s, g). (s, VDict g)) (greeks_by_symbol symbols q chain)))"
proof -
  define ok where "ok = (\<lambda>d :: (string, (string, pyval) dict) dict. \<forall>p \<in> set d. \<forall>f \<in> set greeks_fields. num_note (vget (snd p) f))"
  have "ok (dict_set s (leg_greeks_from_quote x) d)" if "ok d" for s x d
    using that set_dict_set_subset [of s "leg_greeks_from_quote x" d] greeks_of_quote_num [of _ x] unfolding ok_def by fastforce
  then have "ok (fold (\<lambda>s out. case resolve_quote s q chain of None \<Rightarrow> out | Some x \<Rightarrow> dict_set s (leg_greeks_from_quote x) out) symbols d)"
    if "ok d" for d using that by (induction symbols arbitrary: d) (simp_all split: option.split)
  from this [of "[]"] have "ok (greeks_by_symbol symbols q chain)" unfolding greeks_by_symbol_def by (simp add: ok_def)
  then show ?thesis by (auto simp: ok_def greeks_note_def list_all_iff)
qed

lemma trail_events_typed:
  assumes "trail_note (vget ns ''trail_events'')" and "trail_notes now stop action_notes wallet ns = Inr ns'"
  shows "trail_note (vget ns' ''trail_events'')"
  using assms by (cases "vget ns ''trail_events''")
    (auto simp: trail_notes_def Let_def py_list_def trail_note_def vget_def [of "[(_, _), (_, _), (_, _), (_, _)]"] dict_get_def list_all_iff
      split: if_splits)

lemma trail_notes_other:
  "trail_notes now stop action_notes wallet ns = Inr ns' \<Longrightarrow> k \<noteq> ''trail_events'' \<Longrightarrow>
     vget ns' k = (if k = ''current_trail_stop_price'' then VFlt stop else vget ns k)"
  by (auto simp: trail_notes_def Let_def)

lemma engine_notes_typed: "engine_notes pf ns \<Longrightarrow> notes_typed ns"
proof (induction rule: engine_notes.induct)
  case (opened wallet i sz m mode sid ns)
  then show ?case by (auto simp: entry_trade_def notes_typed_def vget_def dict_get_def)
next
  case (filled ns fills net symbols q chain)
  then show ?case using greeks_by_symbol_typed [of symbols q chain] by (simp add: notes_typed_def entry_notes_def Let_def)
next
  case (trailed ns now stop action_notes wallet ns')
  then show ?case
    using trail_events_typed [OF _ trailed.hyps(2)] unfolding notes_typed_def
    by (simp add: trail_notes_other [OF trailed.hyps(2)])
next
  case (refreshed ns wallet ind unreal peak)
  then show ?case by (auto simp: notes_typed_def refreshed_notes_def raise_peak_def Let_def split: option.splits)
next
  case (exited ns wallet ind trigger realised symbols q chain)
  then show ?case using greeks_by_symbol_typed [of symbols q chain]
    by (simp add: notes_typed_def exit_notes_def opt_dict_def Let_def split: option.split)
qed

lemma fmt_val_typed: "num_note v \<Longrightarrow> \<exists>s. fmt_val env n v = Inr s"
  by (cases v) (auto simp: num_note_def fmt_val_def float_of_def)

lemma money_typed: "num_note v \<Longrightarrow> \<exists>s. bind_result (fmt_val env n v) (\<lambda>s. Inr (f s)) = Inr s"
  using fmt_val_typed [of v env n] by auto

lemma wallet_block_typed: "wallet_note v \<Longrightarrow> \<exists>s. render_wallet_block env v = Inr s"
  by (cases v) (auto simp: wallet_note_def render_wallet_block_def iter_values_def py_or_def split: pyval.splits)

lemma dict_block_typed: "dict_note v \<Longrightarrow> \<exists>s. render_dict_block env v = Inr s"
  by (cases v) (auto simp: dict_note_def render_dict_block_def)

lemma map_result_all: "(\<And>x. x \<in> set xs \<Longrightarrow> \<exists>y. f x = Inr y) \<Longrightarrow> \<exists>ys. map_result f xs = Inr ys"
proof (induction xs)
  case (Cons x xs)
  from Cons.prems [of x] obtain y where "f x = Inr y" by auto
  moreover obtain ys where "map_result f xs = Inr ys" using Cons.IH Cons.prems by (meson list.set_intros(2))
  ultimately show ?case by simp
qed simp

lemma greeks_row_typed:
  assumes "\<forall>f \<in> set greeks_fields. num_note (vget r f)"
  shows "\<exists>s. greeks_row env symbol r = Inr s"
proof -
  have n: "\<exists>s. fmt_val env k (vget r f) = Inr s" if "f \<in> set greeks_fields" for f k using assms that fmt_val_typed by blast
  obtain a b c d e g where "fmt_val env 3 (vget r ''iv'') = Inr a" "fmt_val env 3 (vget r ''delta'') = Inr b"
    "fmt_val env 4 (vget r ''gamma'') = Inr c" "fmt_val env 3 (vget r ''theta'') = Inr d" "fmt_val env 3 (vget r ''vega'') = Inr e"
    "fmt_val env 0 (vget r ''open_interest'') = Inr g"
    using n [of "''iv''" 3] n [of "''delta''" 3] n [of "''gamma''" 4] n [of "''theta''" 3] n [of "''vega''" 3] n [of "''open_interest''" 0]
    by (auto simp: greeks_fields_def)
  then show ?thesis by (simp add: greeks_row_def)
qed

lemma greeks_block_typed:
  assumes "greeks_note v"
  shows "\<exists>s. render_greeks_block env v = Inr s"
proof (cases v)
  case (VDict d)
  let ?rows = "List.map_filter (\<lambda>symbol. case vget d symbol of VDict row \<Rightarrow> Some (greeks_row env symbol row) | _ \<Rightarrow> None) (sort (map fst d))"
  have "\<exists>y. id x = Inr y" if "x \<in> set ?rows" for x
  proof -
    from that obtain symbol where
      "(case vget d symbol of VDict row \<Rightarrow> Some (greeks_row env symbol row) | _ \<Rightarrow> None) = Some x"
      by (auto simp: set_map_filter_eq)
    then obtain r where r: "vget d symbol = VDict r" "x = greeks_row env symbol r" by (cases "vget d symbol") simp_all
    then have "(symbol, VDict r) \<in> set d" by (auto simp: vget_def split: option.splits dest: dict_get_SomeD)
    with assms VDict have "\<forall>f \<in> set greeks_fields. num_note (vget r f)" by (auto simp: greeks_note_def list_all_iff)
    with greeks_row_typed r(2) show ?thesis by simp
  qed
  from map_result_all [of ?rows id, OF this] VDict show ?thesis by (auto simp: render_greeks_block_def Let_def)
qed (simp_all add: render_greeks_block_def)

lemma trail_block_typed:
  assumes "trail_note v"
  shows "\<exists>s. render_trail_events env v = Inr s"
proof (cases v)
  case (VList evs)
  have all: "\<forall>e \<in> set evs. case e of VDict ev \<Rightarrow> num_note (vget ev ''new_stop'') | _ \<Rightarrow> True"
    using assms unfolding VList trail_note_def pyval.case list_all_iff .
  have "\<exists>y. trail_event_line env x = Inr y" if "x \<in> set (List.enumerate 0 evs)" for x
  proof -
    from that have "fst x < length evs" "evs ! fst x = snd x" by (simp_all add: in_set_enumerate_eq)
    from nth_mem [OF this(1)] this(2) have x: "snd x \<in> set evs" by simp
    have n: "case snd x of VDict ev \<Rightarrow> num_note (vget ev ''new_stop'') | _ \<Rightarrow> True"
      by (rule bspec [OF all x])
    show ?thesis
    proof (cases "snd x")
      case (VDict ev)
      with n have "num_note (vget ev ''new_stop'')" by simp
      from fmt_val_typed [OF this, of env 2] obtain s where "fmt_val env 2 (vget ev ''new_stop'') = Inr s" by blast
      with VDict show ?thesis by (simp add: trail_event_line_def)
    qed (simp_all add: trail_event_line_def)
  qed
  from map_result_all [of "List.enumerate 0 evs" "trail_event_line env", OF this] VList
  show ?thesis by (auto simp: render_trail_events_def)
qed (use assms in \<open>auto simp: trail_note_def render_trail_events_def\<close>)

lemma document_typed: "list_all (\<lambda>l. \<exists>s. l = Inr s) lines \<Longrightarrow> \<exists>s. document lines = Inr s"
  using map_result_all [of lines id] by (auto simp: document_def list_all_iff)

lemma feature_lines_typed: "list_all (\<lambda>l. \<exists>s. l = Inr s) (feature_lines env sg)"
  by (simp add: feature_lines_def list_all_iff)

lemma render_typed:
  assumes "notes_typed (the_or [] (t_notes t))"
  shows "\<exists>s. render env t legs sg orders = Inr s"
proof -
  let ?ns = "the_or [] (t_notes t)"
  have "list_all (\<lambda>l. \<exists>s. l = Inr s) (context_lines env ?ns)"
    using assms by (simp add: notes_typed_def context_lines_def wallet_block_typed dict_block_typed greeks_block_typed trail_block_typed)
  moreover have "list_all (\<lambda>l. \<exists>s. l = Inr s) (outcome_lines env t ?ns)"
    by (simp add: outcome_lines_def money_line_def dict_block_typed split: pyval.split)
  moreover have "list_all (\<lambda>l. \<exists>s. l = Inr s) (summary_lines t)" by (simp add: summary_lines_def money_line_def)
  moreover have "list_all (\<lambda>l. \<exists>s. l = Inr s) (signal_lines env sg)"
    by (simp add: signal_lines_def feature_lines_typed split: option.split)
  moreover have "list_all (\<lambda>l. \<exists>s. l = Inr s) (map leg_line ls)" "list_all (\<lambda>l. \<exists>s. l = Inr s) (map (order_line env) os)" for ls os
    by (simp_all add: list_all_iff leg_line_def order_line_def)
  ultimately show ?thesis unfolding render_def Let_def
    by (intro document_typed) simp
qed

lemma render_open_typed:
  assumes "notes_typed (the_or [] (t_notes t))"
  shows "\<exists>s. render_open env t sg = Inr s"
proof -
  have "list_all (\<lambda>l. \<exists>s. l = Inr s) (signal_lines_open env sg)"
    by (simp add: signal_lines_open_def feature_lines_typed split: option.split)
  then show ?thesis using assms unfolding render_open_def Let_def notes_typed_def
    by (intro document_typed) (simp add: wallet_block_typed dict_block_typed trail_block_typed money_typed)
qed

text \<open>
  C31: a journal never fails on what the engine has noted.  The notes of a trade, written by its entry, its fills, its
  trailing stops, its refreshes and its exit in any order, with wallet snapshots in either of their two forms, render
  in both journals without an exception.
\<close>

theorem engine_notes_render:
  assumes "engine_notes pf ns" and "t_notes t = Some ns"
  shows "(\<exists>text. render env t legs sg orders = Inr text) \<and> (\<exists>text. render_open env t sg = Inr text)"
  using engine_notes_typed [OF assms(1)] assms(2) render_typed render_open_typed by simp

theorem journals_do_not_overwrite_witness:
  "\<exists>text. closed_text sample_env
      \<lparr>tb_signals = [], tb_trades = [sample_trade 1 TRADE_CLOSED (Some 5), sample_trade 2 TRADE_CLOSED (Some 7)], tb_legs = [], tb_orders = []\<rparr>
      (sample_trade 1 TRADE_CLOSED (Some 5)) = Inr text \<and>
    dict_get (write_journals sample_env ''journals''
        \<lparr>tb_signals = [], tb_trades = [sample_trade 1 TRADE_CLOSED (Some 5), sample_trade 2 TRADE_CLOSED (Some 7)], tb_legs = [], tb_orders = []\<rparr>
        [ClosedJournal 1, OpenJournal 1, ClosedJournal 2] [])
      (closed_path ''journals'' (sample_trade 1 TRADE_CLOSED (Some 5))) = Some text"
proof -
  let ?t = "sample_trade 1 TRADE_CLOSED (Some 5)"
  let ?db = "\<lparr>tb_signals = [], tb_trades = [?t, sample_trade 2 TRADE_CLOSED (Some 7)], tb_legs = [], tb_orders = []\<rparr>"
  have n: "notes_typed (the_or [] (t_notes ?t))" by (simp add: sample_trade_def notes_typed_def vget_def)
  obtain a b where ab: "closed_text sample_env ?db ?t = Inr a" "render_open sample_env ?t (signal_of ?db ?t) = Inr b"
    using render_typed [OF n] render_open_typed [OF n] unfolding closed_text_def by blast
  have i: "t_id ?t = 1" by (simp add: sample_trade_def)
  have "distinct (map t_id (tb_trades ?db))" "?t \<in> set (tb_trades ?db)" by (simp_all add: sample_trade_def)
  from journals_do_not_overwrite [OF this ab, of "''journals''" "[ClosedJournal 1, OpenJournal 1, ClosedJournal 2]" "[]"] ab(1)
  show ?thesis unfolding i by (intro exI [of _ a]) simp
qed

theorem journal_hides_notes_witness:
  "render sample_env (sample_trade 1 TRADE_CLOSED None\<lparr>t_notes := Some [(''rationale'', VStr ''breakout'')]\<rparr>) [] None [] =
   render sample_env (sample_trade 1 TRADE_CLOSED None\<lparr>t_notes := Some [(''rationale'', VStr [])]\<rparr>) [] None []"
proof -
  let ?t = "sample_trade 1 TRADE_CLOSED None\<lparr>t_notes := Some [(''rationale'', VStr [])]\<rparr>"
  have "t_notes ?t = Some [(''rationale'', VStr [])]" "dict_wf [(''rationale'', VStr [])]"
    "dict_get [(''rationale'', VStr [])] ''rationale'' \<noteq> None" "List.member STRUCTURED_NOTE_KEYS ''rationale''"
    "\<not> List.member shown_keys ''rationale''"
    by (simp_all add: dict_wf_def dict_get_def STRUCTURED_NOTE_KEYS_def shown_keys_def)
  from journal_hides_notes [OF this, of sample_env "VStr ''breakout''" "[]" None "[]"] show ?thesis by (simp add: dict_set_def)
qed

theorem engine_notes_render_witness:
  "\<exists>ns text. engine_notes (\<lambda>_. None) ns \<and> dict_get ns ''rationale'' = Some (VStr (rationale sample_intent)) \<and>
     dict_get ns ''wallet_at_exit'' = Some VNone \<and>
     render sample_env (sample_trade 1 TRADE_CLOSED None\<lparr>t_notes := Some ns\<rparr>) [] None [] = Inr text"
proof -
  let ?z = "\<lparr>decision = APPROVED, sz_intent = sample_intent, sized_lots = 1, risk_inr = 10, sz_notes = []\<rparr>"
  obtain ns where ns: "t_notes (entry_trade (\<lambda>_. None) sample_intent ?z sample_market ''dry'' VNone 1) = Some ns"
    "dict_get ns ''rationale'' = Some (VStr (rationale sample_intent))"
    by (simp add: entry_trade_def dict_get_def)
  let ?ns = "exit_notes VNone None (trade_outcome TIME_STOP 5) (greeks_by_symbol [] [] None) ns"
  have e: "engine_notes (\<lambda>_. None) ?ns" by (intro engine_notes.exited engine_notes.opened [OF _ ns(1)]) simp_all
  have d: "dict_get ?ns ''rationale'' = Some (VStr (rationale sample_intent))" "dict_get ?ns ''wallet_at_exit'' = Some VNone"
    using ns(2) by (simp_all add: exit_notes_def greeks_by_symbol_def Let_def)
  obtain s where "render sample_env (sample_trade 1 TRADE_CLOSED None\<lparr>t_notes := Some ?ns\<rparr>) [] None [] = Inr s"
    using engine_notes_render [OF e, of "sample_trade 1 TRADE_CLOSED None\<lparr>t_notes := Some ?ns\<rparr>" sample_env "[]" None "[]"] by auto
  with e d show ?thesis by (intro exI [of _ ?ns] exI [of _ s]) simp
qed

end
