(* ===== verification/GoLive.thy ===== *)
theory GoLive
  imports Journal Tables
begin

text \<open>
  The promotion of a strategy to live trading (\<open>bot/runtime/go_live.py\<close>).  A YAML file is absent, not
  parsable (with the text of the error), or a parsed value; the answer of \<open>PRAGMA integrity_check\<close> is an input, or the
  \<open>repr\<close> of what it raised.  Texts are the bytes of their UTF-8 encoding.
\<close>

section \<open>State\<close>

definition CHECK_THRESHOLDS :: "(string, int \<times> int) dict" where
  "CHECK_THRESHOLDS = [(''directional'', (10, 20)), (''credit_vertical'', (14, 12)), (''long_straddle'', (14, 6))]"

datatype yaml_file = NoFile | YAMLError string | Parsed pyval

record go_live_check =
  ck_name :: string
  ck_passed :: bool
  ck_detail :: string

record go_live_report =
  gl_strategy_id :: string
  gl_checks :: "go_live_check list"
  gl_yaml_path :: "string option"
  gl_written :: bool

definition gl_passed :: "go_live_report \<Rightarrow> bool" where
  "gl_passed r = list_all ck_passed (gl_checks r)"

definition gl_add :: "string \<Rightarrow> bool \<Rightarrow> string \<Rightarrow> go_live_report \<Rightarrow> go_live_report" where
  "gl_add name ok detail r = r\<lparr>gl_checks := gl_checks r @ [\<lparr>ck_name = name, ck_passed = ok, ck_detail = detail\<rparr>]\<rparr>"

text \<open>An f-string's \<open>!r\<close> of a text, and \<open>.0%\<close>.\<close>

definition quoted :: "py_env \<Rightarrow> string \<Rightarrow> string" where
  "quoted env s = env_repr env (VStr s)"

definition percent :: "flt \<Rightarrow> string" where
  "percent x = fmt_fixed 0 (x * 100) @ ''%''"

text \<open>\<open>x.get\<close> of a value that is no dictionary raises \<open>AttributeError\<close>.\<close>

definition as_dict :: "pyval \<Rightarrow> (string, pyval) dict result" where
  "as_dict v = (case v of VDict d \<Rightarrow> Inr d | _ \<Rightarrow> Inl AttributeError)"

definition dict_get_or :: "pyval \<Rightarrow> (string, pyval) dict \<Rightarrow> string \<Rightarrow> pyval" where
  "dict_get_or v d k = (case dict_get d k of None \<Rightarrow> v | Some w \<Rightarrow> w)"

section \<open>Checks\<close>

text \<open>The rows of \<open>PRAGMA integrity_check\<close> with the probe \<open>coalesce(1, 1)\<close>.\<close>

definition check_db_integrity :: "py_env \<Rightarrow> string + (int \<times> string list) \<Rightarrow> go_live_report \<Rightarrow> go_live_report" where
  "check_db_integrity env answer r =
     (case answer of
        Inl exc \<Rightarrow> gl_add ''db_integrity_check'' False (''integrity check raised: '' @ exc) r
      | Inr (row, rows) \<Rightarrow>
          let payload = (case rows of [] \<Rightarrow> ''unknown'' | p # _ \<Rightarrow> p)
          in gl_add ''db_integrity_check'' (payload = ''ok'' \<and> row = 1) (''PRAGMA integrity_check='' @ quoted env payload) r)"

definition check_circuit_breaker :: "nav_history_row list \<Rightarrow> go_live_report \<Rightarrow> go_live_report" where
  "check_circuit_breaker rows r =
     (case filter nh_circuit_breaker_tripped rows of
        [] \<Rightarrow> gl_add ''circuit_breaker_clean'' True ''no circuit-breaker rows tripped'' r
      | x # _ \<Rightarrow>
          gl_add ''circuit_breaker_clean'' False
            (''circuit-breaker tripped on '' @ date_isoformat (nh_trading_date x) @ '' '' @ em_dash @ '' run `make resume` first'') r)"

definition closed_dry :: "string \<Rightarrow> trade_row list \<Rightarrow> trade_row list" where
  "closed_dry sid ts =
     filter (\<lambda>t. t_strategy_id t = sid \<and> t_status t = trade_status_value TRADE_CLOSED \<and> t_mode t = ''dry'') ts"

definition check_min_days :: "trade_row list \<Rightarrow> string \<Rightarrow> int \<Rightarrow> go_live_report \<Rightarrow> go_live_report" where
  "check_min_days ts sid min_days r =
     (let days = length (remdups (map date_of (List.map_filter t_exit_ts (closed_dry sid ts))))
      in gl_add ''min_dry_days'' (int days \<ge> min_days)
           (str_of_nat days @ '' distinct dry-run days with closed trades (>= '' @ str_of_int min_days @ '' required)'') r)"

definition check_min_trades :: "trade_row list \<Rightarrow> string \<Rightarrow> int \<Rightarrow> go_live_report \<Rightarrow> go_live_report" where
  "check_min_trades ts sid min_trades r =
     (let n = length (closed_dry sid ts)
      in gl_add ''min_closed_trades'' (int n \<ge> min_trades)
           (str_of_nat n @ '' closed dry-run trades (>= '' @ str_of_int min_trades @ '' required)'') r)"

text \<open>SQLite reads a negative limit as none.\<close>

definition sql_limit :: "int \<Rightarrow> 'a list \<Rightarrow> 'a list" where
  "sql_limit n xs = (if n < 0 then xs else take (nat n) xs)"

text \<open>The settings of the IV check from the global file: an error in them is a value, other exceptions pass.\<close>

definition iv_settings ::
  "(string \<Rightarrow> flt option) \<Rightarrow> (string \<Rightarrow> int option) \<Rightarrow> yaml_file \<Rightarrow> (flt \<times> int) option result" where
  "iv_settings pf pint f =
     (case f of
        NoFile \<Rightarrow> Inr (Some (80 / 100, 20))
      | YAMLError _ \<Rightarrow> Inr None
      | Parsed v \<Rightarrow>
          bind_result (as_dict (py_or v (VDict []))) (\<lambda>g.
          bind_result (as_dict (py_or (vget g ''desk'') (VDict []))) (\<lambda>desk.
            case bind_result (float_of pf (dict_get_or (VFlt (80 / 100)) desk ''go_live_min_entry_iv_pct'')) (\<lambda>p.
                 bind_result (int_of_val pint (dict_get_or (VInt 20) desk ''go_live_entry_iv_lookback_trades'')) (\<lambda>n.
                   Inr (p, n))) of
              Inr s \<Rightarrow> Inr (Some s)
            | Inl e \<Rightarrow> if e \<in> {TypeError, ValueError} then Inr None else Inl e)))"

definition recent_closed :: "string \<Rightarrow> int \<Rightarrow> trade_row list \<Rightarrow> trade_row list" where
  "recent_closed sid lookback ts =
     sql_limit lookback (sort_key (\<lambda>t. - the (t_exit_ts t)) (filter (\<lambda>t. t_exit_ts t \<noteq> None) (closed_dry sid ts)))"

definition check_entry_iv_coverage ::
  "py_env \<Rightarrow> string \<Rightarrow> yaml_file \<Rightarrow> trade_row list \<Rightarrow> string \<Rightarrow> go_live_report \<Rightarrow> go_live_report result" where
  "check_entry_iv_coverage env config_dir global ts sid r =
     bind_result (iv_settings (env_float env) (env_int env) global) (\<lambda>s.
       case s of
         None \<Rightarrow>
           Inr (gl_add ''entry_iv_coverage'' False (''could not parse desk go-live settings in '' @ config_dir @ ''/global.yaml'') r)
       | Some (min_pct, lookback) \<Rightarrow>
           let rows = map entry_iv (recent_closed sid lookback ts)
           in if rows = []
              then Inr (gl_add ''entry_iv_coverage'' True (''no closed dry trades yet '' @ em_dash @ '' entry IV coverage waived'') r)
              else
                let with_iv = length (filter (\<lambda>iv. iv \<noteq> None) rows); ratio = real with_iv / real (length rows)
                in Inr (gl_add ''entry_iv_coverage'' (ratio \<ge> min_pct)
                     (str_of_nat with_iv @ ''/'' @ str_of_nat (length rows) @ '' recent trades have entry_iv ('' @ percent ratio @
                      '', need >= '' @ percent min_pct @ '')'') r))"

section \<open>The gate\<close>

definition strategy_yaml :: "string \<Rightarrow> string \<Rightarrow> string" where
  "strategy_yaml config_dir sid = config_dir @ ''/strategies/'' @ sid @ ''.yaml''"

text \<open>The report and the strategy's file after the call; the file is rewritten or not touched.\<close>

definition go_live_evaluate ::
  "py_env \<Rightarrow> string \<Rightarrow> string + (int \<times> string list) \<Rightarrow> database \<Rightarrow> nav_history_row list \<Rightarrow> yaml_file \<Rightarrow> bool \<Rightarrow> string \<Rightarrow> yaml_file \<Rightarrow>
   (go_live_report \<times> yaml_file) result" where
  "go_live_evaluate env config_dir integrity db nav_rows global dry_run sid file =
     (let r0 = \<lparr>gl_strategy_id = sid, gl_checks = [], gl_yaml_path = None, gl_written = False\<rparr>
      in case dict_get CHECK_THRESHOLDS sid of
           None \<Rightarrow> Inr (gl_add ''known_strategy'' False (''unknown strategy_id='' @ quoted env sid) r0, file)
         | Some (min_days, min_trades) \<Rightarrow>
             let path = strategy_yaml config_dir sid; r1 = r0\<lparr>gl_yaml_path := Some path\<rparr>
             in (case file of
                   NoFile \<Rightarrow> Inr (gl_add ''yaml_present'' False (''missing '' @ path) r0, file)
                 | YAMLError exc \<Rightarrow> Inr (gl_add ''yaml_parses'' False (''yaml parse error: '' @ exc) r1, file)
                 | Parsed v \<Rightarrow>
                     bind_result (as_dict (py_or v (VDict []))) (\<lambda>payload.
                       let enabled = truthy (dict_get_or (VBool True) payload ''enabled'');
                           r2 = gl_add ''strategy_enabled'' enabled
                                  (if enabled then ''strategy.enabled is true'' else ''strategy.enabled is false'')
                                  (gl_add ''yaml_parses'' True (''parsed '' @ path) r1);
                           r3 = check_min_trades (tb_trades db) sid min_trades
                                  (check_min_days (tb_trades db) sid min_days
                                    (check_circuit_breaker nav_rows (check_db_integrity env integrity r2)))
                       in bind_result (check_entry_iv_coverage env config_dir global (tb_trades db) sid r3) (\<lambda>r4.
                            if gl_passed r4 \<and> \<not> dry_run
                            then Inr (r4\<lparr>gl_written := True\<rparr>, Parsed (VDict (dict_set ''enabled_live'' (VBool True) payload)))
                            else Inr (r4, file)))))"

text \<open>\<open>format_report\<close> of this module; \<open>now\<close> is the time of the rendering.\<close>

definition check_line :: "go_live_check \<Rightarrow> string" where
  "check_line c = ''  ['' @ (if ck_passed c then ''PASS'' else ''FAIL'') @ ''] '' @ ck_name c @ '': '' @ ck_detail c"

definition go_live_text :: "py_env \<Rightarrow> datetime \<Rightarrow> go_live_report \<Rightarrow> string" where
  "go_live_text env now r =
     join_text nl
       ([''Go-live gate for '' @ quoted env (gl_strategy_id r) @ '' '' @ em_dash @ '' '' @ isoformat now, []] @
        map check_line (gl_checks r) @
        [[], ''Result: '' @ (if gl_passed r then ''ALL PASSED'' else ''FAILED'')] @
        (if gl_written r then [''enabled_live=true written to '' @ (case gl_yaml_path r of None \<Rightarrow> ''None'' | Some p \<Rightarrow> p)]
         else if gl_passed r then [''(dry-run '' @ em_dash @ '' yaml NOT modified)''] else []))"

section \<open>Properties\<close>

text \<open>What the gate asks for, over the tables.\<close>

definition iv_covered :: "flt \<times> int \<Rightarrow> trade_row list \<Rightarrow> string \<Rightarrow> bool" where
  "iv_covered s ts sid =
     (let rows = recent_closed sid (snd s) ts
      in real (length (filter (\<lambda>t. entry_iv t \<noteq> None) rows)) \<ge> fst s * real (length rows))"

definition evidence :: "database \<Rightarrow> nav_history_row list \<Rightarrow> string + (int \<times> string list) \<Rightarrow> (flt \<times> int) option \<Rightarrow> string \<Rightarrow> bool" where
  "evidence db nav_rows integrity s sid \<longleftrightarrow>
     (\<exists>min_days min_trades p. dict_get CHECK_THRESHOLDS sid = Some (min_days, min_trades) \<and>
        (\<exists>rows. integrity = Inr (1, ''ok'' # rows)) \<and> (\<forall>r \<in> set nav_rows. \<not> nh_circuit_breaker_tripped r) \<and>
        min_days \<le> int (card (date_of ` {x. \<exists>t \<in> set (closed_dry sid (tb_trades db)). t_exit_ts t = Some x})) \<and>
        min_trades \<le> int (length (closed_dry sid (tb_trades db))) \<and> s = Some p \<and> iv_covered p (tb_trades db) sid)"

lemma gl_add_simps [simp]:
  "gl_checks (gl_add n ok d r) = gl_checks r @ [\<lparr>ck_name = n, ck_passed = ok, ck_detail = d\<rparr>]"
  "gl_written (gl_add n ok d r) = gl_written r" "gl_strategy_id (gl_add n ok d r) = gl_strategy_id r"
  "gl_passed (gl_add n ok d r) \<longleftrightarrow> gl_passed r \<and> ok"
  by (simp_all add: gl_add_def gl_passed_def)

lemma set_map_filter: "set (List.map_filter f xs) = {y. \<exists>x \<in> set xs. f x = Some y}"
  by (induction xs) (auto simp: List.map_filter_simps split: option.splits)

lemma check_min_days_passed:
  "gl_passed (check_min_days ts sid n r) \<longleftrightarrow>
     gl_passed r \<and> n \<le> int (card (date_of ` {x. \<exists>t \<in> set (closed_dry sid ts). t_exit_ts t = Some x}))"
  by (simp add: check_min_days_def Let_def length_remdups_card_conv set_map_filter)

lemma check_circuit_breaker_passed:
  "gl_passed (check_circuit_breaker rows r) \<longleftrightarrow> gl_passed r \<and> (\<forall>x \<in> set rows. \<not> nh_circuit_breaker_tripped x)"
  by (auto simp: check_circuit_breaker_def filter_empty_conv split: list.split dest: filter_eq_ConsD)

lemma check_db_integrity_passed:
  "gl_passed (check_db_integrity env a r) \<longleftrightarrow> gl_passed r \<and> (\<exists>rows. a = Inr (1, ''ok'' # rows))"
  by (auto simp: check_db_integrity_def Let_def split: sum.splits prod.splits list.splits)

lemma check_entry_iv_coverage_passed:
  assumes "check_entry_iv_coverage env config_dir global ts sid r = Inr r'"
  shows "\<exists>s. iv_settings (env_float env) (env_int env) global = Inr s \<and> (gl_passed r' \<longleftrightarrow> gl_passed r \<and> (\<exists>p. s = Some p \<and> iv_covered p ts sid))"
proof -
  from assms obtain s where s: "iv_settings (env_float env) (env_int env) global = Inr s" by (auto simp: check_entry_iv_coverage_def)
  show ?thesis
  proof (cases s)
    case None
    with assms s show ?thesis by (auto simp: check_entry_iv_coverage_def)
  next
    case (Some q)
    let ?rows = "recent_closed sid (snd q) ts"
    have len: "length (filter (\<lambda>iv. iv \<noteq> None) (map entry_iv ?rows)) = length (filter (\<lambda>t. entry_iv t \<noteq> None) ?rows)"
      by (simp add: filter_map comp_def)
    show ?thesis
    proof (cases "?rows = []")
      case True
      with assms s Some show ?thesis by (auto simp: check_entry_iv_coverage_def iv_covered_def split: prod.splits)
    next
      case False
      then have pos: "0 < real (length ?rows)" by simp
      obtain m n where q: "q = (m, n)" by (cases q)
      have "gl_passed r' \<longleftrightarrow> gl_passed r \<and> m \<le> real (length (filter (\<lambda>t. entry_iv t \<noteq> None) ?rows)) / real (length ?rows)"
        using assms s Some False q len by (auto simp: check_entry_iv_coverage_def Let_def)
      with pos s Some q show ?thesis by (auto simp: iv_covered_def pos_le_divide_eq)
    qed
  qed
qed

lemma go_live_early:
  "dict_get CHECK_THRESHOLDS sid = None \<or> file = NoFile \<or> (\<exists>exc. file = YAMLError exc) \<Longrightarrow>
   go_live_evaluate env config_dir integrity db nav_rows global dry_run sid file = Inr (rep, file') \<Longrightarrow>
   \<not> gl_written rep \<and> \<not> gl_passed rep \<and> file' = file"
  by (auto simp: go_live_evaluate_def Let_def split: option.splits yaml_file.splits)

lemma go_live_changes:
  assumes "go_live_evaluate env config_dir integrity db nav_rows global dry_run sid file = Inr (rep, file')" and "file' \<noteq> file"
  shows "gl_passed rep \<and> \<not> dry_run"
proof -
  have "gl_passed (r\<lparr>gl_written := b\<rparr>) = gl_passed r" for r b by (simp add: gl_passed_def)
  with assms show ?thesis
    by (auto simp: go_live_evaluate_def Let_def bind_result_Inr_iff split: option.splits yaml_file.splits if_splits prod.splits)
qed

section \<open>Claims\<close>

text \<open>
  C19: the promotion gate writes the strategy's file exactly when it is not a dry run and all the evidence is
  there: a known, enabled strategy with a parsable file, a sound database, no tripped row, enough distinct days
  and closed dry-run trades, and enough of the recent ones with an entry volatility.  What it writes is the
  file with \<open>enabled_live\<close> set; otherwise the file is as it was.
\<close>

theorem go_live_written_iff:
  assumes "go_live_evaluate env config_dir integrity db nav_rows global dry_run sid file = Inr (rep, file')"
  shows "(gl_written rep \<longleftrightarrow>
      \<not> dry_run \<and>
      (\<exists>v payload s. file = Parsed v \<and> as_dict (py_or v (VDict [])) = Inr payload \<and>
         truthy (dict_get_or (VBool True) payload ''enabled'') \<and> iv_settings (env_float env) (env_int env) global = Inr s \<and>
         evidence db nav_rows integrity s sid)) \<and>
    (if gl_written rep
     then \<exists>v payload. file = Parsed v \<and> as_dict (py_or v (VDict [])) = Inr payload \<and>
       file' = Parsed (VDict (dict_set ''enabled_live'' (VBool True) payload))
     else file' = file)"
proof (cases "dict_get CHECK_THRESHOLDS sid = None \<or> file = NoFile \<or> (\<exists>exc. file = YAMLError exc)")
  case True
  from go_live_early [OF this assms] True show ?thesis by (auto simp: evidence_def)
next
  case False
  then obtain d n where f1: "dict_get CHECK_THRESHOLDS sid = Some (d, n)" by auto
  from False obtain v where f2: "file = Parsed v" by (cases "file") simp_all
  note f = f1 f2
  let ?path = "strategy_yaml config_dir sid"
  let ?r2 = "\<lambda>payload. let enabled = truthy (dict_get_or (VBool True) payload ''enabled'') in
      gl_add ''strategy_enabled'' enabled (if enabled then ''strategy.enabled is true'' else ''strategy.enabled is false'')
        (gl_add ''yaml_parses'' True (''parsed '' @ ?path) \<lparr>gl_strategy_id = sid, gl_checks = [], gl_yaml_path = Some ?path, gl_written = False\<rparr>)"
  let ?r3 = "\<lambda>payload. check_min_trades (tb_trades db) sid n (check_min_days (tb_trades db) sid d
      (check_circuit_breaker nav_rows (check_db_integrity env integrity (?r2 payload))))"
  from assms f obtain payload r4 where p: "as_dict (py_or v (VDict [])) = Inr payload"
      "check_entry_iv_coverage env config_dir global (tb_trades db) sid (?r3 payload) = Inr r4"
      "(rep, file') = (if gl_passed r4 \<and> \<not> dry_run
         then (r4\<lparr>gl_written := True\<rparr>, Parsed (VDict (dict_set ''enabled_live'' (VBool True) payload))) else (r4, file))"
    by (auto simp: go_live_evaluate_def Let_def split: if_splits)
  obtain s where s: "iv_settings (env_float env) (env_int env) global = Inr s"
      "gl_passed r4 \<longleftrightarrow> gl_passed (?r3 payload) \<and> (\<exists>p. s = Some p \<and> iv_covered p (tb_trades db) sid)"
    using check_entry_iv_coverage_passed [OF p(2)] by blast
  have "gl_passed (?r2 payload) \<longleftrightarrow> truthy (dict_get_or (VBool True) payload ''enabled'')" by (simp add: gl_passed_def gl_add_def Let_def)
  then have all: "gl_passed r4 \<longleftrightarrow> truthy (dict_get_or (VBool True) payload ''enabled'') \<and> evidence db nav_rows integrity s sid"
    unfolding s(2) evidence_def f(1)
    by (auto simp: check_min_trades_def Let_def check_min_days_passed check_circuit_breaker_passed check_db_integrity_passed)
  have w: "\<not> gl_written r4" using p(2)
    by (auto simp: check_entry_iv_coverage_def check_min_trades_def check_min_days_def check_circuit_breaker_def check_db_integrity_def Let_def
        split: option.splits if_splits list.splits sum.splits prod.splits)
  show ?thesis
  proof (cases "gl_passed r4 \<and> \<not> dry_run")
    case True
    with p(3) have "rep = r4\<lparr>gl_written := True\<rparr>" "file' = Parsed (VDict (dict_set ''enabled_live'' (VBool True) payload))" by simp_all
    with True all p(1) f(2) s(1) show ?thesis by auto
  next
    case False
    with p(3) have "rep = r4" "file' = file" by (simp_all only: if_False prod.inject)
    with False all p(1) f(2) s(1) w show ?thesis by auto
  qed
qed

text \<open>Twenty closed dry-run trades on twenty days.\<close>

definition dry_trade :: "nat \<Rightarrow> trade_row" where
  "dry_trade i =
     \<lparr>t_id = int i, t_strategy_id = ''directional'', t_underlying = ''BTC'', t_expiry = None, t_entry_ts = 0,
      t_exit_ts = Some (int i * day_us), t_status = ''closed'', t_mode = ''dry'', t_lots = 1, premium_paid_inr = None,
      credit_received_inr = None, realised_pnl_inr = None, delta_pnl_inr = None, theta_pnl_inr = None, t_fees_inr = None,
      slippage_bps = None, r_multiple = None, exit_reason = None, entry_iv = Some 1, exit_iv = None, t_peak_pnl_inr = None,
      trough_pnl_inr = None, t_signal_id = None, t_notes = None\<rparr>"

definition dry_db :: "nat \<Rightarrow> database" where
  "dry_db n = \<lparr>tb_signals = [], tb_trades = map dry_trade [0..<n], tb_legs = [], tb_orders = []\<rparr>"

lemma dry_db_evidence: "evidence (dry_db n) [] (Inr (1, [''ok''])) (Some (80 / 100, 20)) ''directional'' \<longleftrightarrow> 20 \<le> n"
proof -
  have c: "closed_dry ''directional'' (tb_trades (dry_db n)) = map dry_trade [0..<n]"
    by (auto simp: dry_db_def closed_dry_def dry_trade_def filter_id_conv)
  have "{x. \<exists>t \<in> set (map dry_trade [0..<n]). t_exit_ts t = Some x} = (\<lambda>i. int i * day_us) ` {0..<n}"
    by (auto simp: dry_trade_def)
  then have "date_of ` {x. \<exists>t \<in> set (map dry_trade [0..<n]). t_exit_ts t = Some x} = int ` {0..<n}"
    by (simp add: image_image date_of_def day_us_def)
  then have d: "card (date_of ` {x. \<exists>t \<in> set (map dry_trade [0..<n]). t_exit_ts t = Some x}) = n" by (simp add: card_image)
  have rec: "set (recent_closed ''directional'' 20 (tb_trades (dry_db n))) \<subseteq> set (map dry_trade [0..<n])"
    unfolding recent_closed_def c sql_limit_def by (auto dest!: in_set_takeD)
  have "filter (\<lambda>t. entry_iv t \<noteq> None) (recent_closed ''directional'' 20 (tb_trades (dry_db n))) = recent_closed ''directional'' 20 (tb_trades (dry_db n))"
    using rec by (auto simp: filter_id_conv dry_trade_def)
  then have "iv_covered (80 / 100, 20) (tb_trades (dry_db n)) ''directional''" by (simp add: iv_covered_def Let_def)
  then show ?thesis unfolding evidence_def c d by (auto simp: CHECK_THRESHOLDS_def dict_get_def)
qed

theorem go_live_written_iff_witness:
  "(\<exists>rep file'. go_live_evaluate sample_env ''config'' (Inr (1, [''ok''])) (dry_db 20) [] NoFile False ''directional''
      (Parsed (VDict [(''enabled'', VBool True)])) = Inr (rep, file') \<and> gl_written rep \<and>
      file' = Parsed (VDict [(''enabled'', VBool True), (''enabled_live'', VBool True)])) \<and>
   (\<exists>rep file'. go_live_evaluate sample_env ''config'' (Inr (1, [''ok''])) (dry_db 19) [] NoFile False ''directional''
      (Parsed (VDict [(''enabled'', VBool True)])) = Inr (rep, file') \<and> \<not> gl_written rep)"
proof -
  let ?e = "\<lambda>n. go_live_evaluate sample_env ''config'' (Inr (1, [''ok''])) (dry_db n) [] NoFile False ''directional''
      (Parsed (VDict [(''enabled'', VBool True)]))"
  have ev: "\<exists>rep file'. ?e n = Inr (rep, file')" for n
    by (auto simp: go_live_evaluate_def CHECK_THRESHOLDS_def dict_get_def Let_def as_dict_def py_or_def check_entry_iv_coverage_def
        iv_settings_def)
  obtain r1 f1 r2 f2 where e: "?e 20 = Inr (r1, f1)" "?e 19 = Inr (r2, f2)" using ev by blast
  have s: "iv_settings (env_float sample_env) (env_int sample_env) NoFile = Inr (Some (80 / 100, 20))" by (simp add: iv_settings_def)
  note g = go_live_written_iff [OF e(1)] go_live_written_iff [OF e(2)]
  have "gl_written r1 \<and> f1 = Parsed (VDict [(''enabled'', VBool True), (''enabled_live'', VBool True)])"
    using g(1) dry_db_evidence [of 20] unfolding s by (auto simp: as_dict_def py_or_def dict_get_or_def dict_get_def dict_set_def)
  moreover have "\<not> gl_written r2"
    using g(2) dry_db_evidence [of 19] unfolding s by (simp add: as_dict_def py_or_def dict_get_or_def dict_get_def)
  ultimately show ?thesis using e by blast
qed

end
