(* ===== verification/KillSwitch.thy ===== *)
theory KillSwitch
  imports Live Dry "HOL-Library.Sublist"
begin

text \<open>
  The cooperative shutdown (\<open>bot/runtime/kill_switch.py\<close>).  The executor is a state with the operation
  \<open>cancel_all_for_trade\<close>; the clock readings are arguments.  The state file is the payload last written to
  it; the write itself succeeds.  The callback \<open>on_shutdown\<close> only sees the report and its exceptions are
  dropped, so it has no part in the state.
\<close>

section \<open>State\<close>

datatype kill_switch_reason = SIGTERM | SIGINT | CIRCUIT_BREAKER | OPERATOR_FILE | MANUAL | ERROR

fun reason_value :: "kill_switch_reason \<Rightarrow> string" where
  "reason_value SIGTERM = ''sigterm''"
| "reason_value SIGINT = ''sigint''"
| "reason_value CIRCUIT_BREAKER = ''circuit_breaker''"
| "reason_value OPERATOR_FILE = ''operator_file''"
| "reason_value MANUAL = ''manual''"
| "reason_value ERROR = ''error''"

record shutdown_report =
  sr_requested_at :: datetime
  sr_completed_at :: "datetime option"
  sr_reason :: kill_switch_reason
  cancellations :: "(int, nat) dict"
  sr_error :: "py_error option"
  sr_persisted :: bool

record kill_switch =
  ks_event :: bool
  ks_reason :: "kill_switch_reason option"
  ks_completed :: bool
  ks_report :: "shutdown_report option"
  ks_state_file :: "(string, pyval) dict option"

section \<open>Operations\<close>

definition mk_kill_switch :: "(string, pyval) dict option \<Rightarrow> kill_switch" where
  "mk_kill_switch file =
     \<lparr>ks_event = False, ks_reason = None, ks_completed = False, ks_report = None, ks_state_file = file\<rparr>"

definition requested :: "kill_switch \<Rightarrow> bool" where
  "requested k = ks_event k"

definition trip :: "kill_switch_reason \<Rightarrow> kill_switch \<Rightarrow> kill_switch" where
  "trip reason k = (if ks_event k then k else k\<lparr>ks_reason := Some reason, ks_event := True\<rparr>)"

definition poll_file :: "bool \<Rightarrow> kill_switch \<Rightarrow> bool \<times> kill_switch" where
  "poll_file exists k = (if exists then (True, trip OPERATOR_FILE k) else (False, k))"

text \<open>The loop over the open trades: an exception ends it, and the report keeps what was cancelled before.\<close>

fun cancel_trades ::
  "(int \<Rightarrow> 'x \<Rightarrow> nat result \<times> 'x) \<Rightarrow> int list \<Rightarrow> (int, nat) dict \<Rightarrow> 'x \<Rightarrow> py_error option \<times> (int, nat) dict \<times> 'x" where
  "cancel_trades cancel [] cs x = (None, cs, x)"
| "cancel_trades cancel (tid # tids) cs x =
     (case cancel tid x of
        (Inl e, x') \<Rightarrow> (Some e, cs, x')
      | (Inr n, x') \<Rightarrow> cancel_trades cancel tids (dict_set tid n cs) x')"

definition state_payload :: "(py_error \<Rightarrow> string) \<Rightarrow> shutdown_report \<Rightarrow> (string, pyval) dict" where
  "state_payload repr r =
     [(''reason'', VStr (reason_value (sr_reason r))),
      (''requested_at'', VStr (isoformat (sr_requested_at r))),
      (''completed_at'', case sr_completed_at r of None \<Rightarrow> VNone | Some t \<Rightarrow> VStr (isoformat t)),
      (''cancellations'', VDict (map (\<lambda>(t, n). (str_of_int t, VInt (int n))) (cancellations r))),
      (''error'', case sr_error r of None \<Rightarrow> VNone | Some e \<Rightarrow> VStr (''cancel_all_failed: '' @ repr e))]"

definition shutdown ::
  "(int \<Rightarrow> 'x \<Rightarrow> nat result \<times> 'x) \<Rightarrow> (py_error \<Rightarrow> string) \<Rightarrow> datetime \<Rightarrow> datetime \<Rightarrow> int list \<Rightarrow> kill_switch \<Rightarrow> 'x \<Rightarrow>
   shutdown_report \<times> kill_switch \<times> 'x" where
  "shutdown cancel repr now1 now2 open_trade_ids k x =
     (case (ks_completed k, ks_report k) of
        (True, Some r) \<Rightarrow> (r, k, x)
      | _ \<Rightarrow>
          let reason = the_or MANUAL (ks_reason k);
              (err, cs, x') = cancel_trades cancel open_trade_ids [] x;
              r = \<lparr>sr_requested_at = now1, sr_completed_at = Some now2, sr_reason = reason, cancellations = cs,
                   sr_error = err, sr_persisted = True\<rparr>
          in (r, k\<lparr>ks_reason := Some reason, ks_completed := True, ks_report := Some r,
                   ks_state_file := Some (state_payload repr r)\<rparr>, x'))"

text \<open>The handlers that \<open>install_signal_handlers\<close> attaches.\<close>

datatype signal = SigTerm | SigInt | OtherSignal

fun on_signal :: "signal \<Rightarrow> kill_switch \<Rightarrow> kill_switch" where
  "on_signal SigTerm k = trip SIGTERM k"
| "on_signal SigInt k = trip SIGINT k"
| "on_signal OtherSignal k = k"

section \<open>Cancelling orders: the contract of the executors\<close>

text \<open>
  What the shutdown needs of an executor: a cancellation that returns has swept the trade, and no later
  cancellation takes that back.
\<close>

locale order_canceller =
  fixes cancel :: "int \<Rightarrow> 'x \<Rightarrow> nat result \<times> 'x"
    and swept :: "'x \<Rightarrow> int \<Rightarrow> bool"
  assumes cancel_sweeps: "cancel t x = (Inr n, x') \<Longrightarrow> swept x' t"
    and cancel_keeps: "cancel t x = (r, x') \<Longrightarrow> swept x u \<Longrightarrow> swept x' u"
begin

lemma cancel_trades_keeps: "cancel_trades cancel tids cs x = (e, cs', x') \<Longrightarrow> swept x u \<Longrightarrow> swept x' u"
  by (induction tids arbitrary: cs x) (auto split: prod.splits sum.splits dest: cancel_keeps)

lemma cancel_trades_sweeps:
  "cancel_trades cancel tids cs x = (None, cs', x') \<Longrightarrow> t \<in> set tids \<Longrightarrow> swept x' t"
proof (induction tids arbitrary: cs x)
  case (Cons a tids)
  then obtain n x1 where a: "cancel a x = (Inr n, x1)" "cancel_trades cancel tids (dict_set a n cs) x1 = (None, cs', x')"
    by (auto split: prod.splits sum.splits)
  show ?case
  proof (cases "t \<in> set tids")
    case True
    with Cons.IH [OF a(2)] show ?thesis by blast
  next
    case False
    with Cons.prems have "t = a" by simp
    with cancel_sweeps [OF a(1)] cancel_trades_keeps [OF a(2)] show ?thesis by simp
  qed
qed simp

end

definition dry_cancel_result :: "int \<Rightarrow> dry_executor \<Rightarrow> nat result \<times> dry_executor" where
  "dry_cancel_result t ex = map_prod Inr id (dry_cancel_all_for_trade t ex)"

interpretation dry_cancel: order_canceller
  dry_cancel_result "\<lambda>ex t. dict_get (open_orders ex) t = None"
  by unfold_locales (auto simp: dry_cancel_result_def dry_cancel_all_for_trade_def split: if_splits)

text \<open>Of the live executor: the exchange was told to cancel every order of the account.\<close>

definition live_cancel :: "'w exchange \<Rightarrow> int \<Rightarrow> 'w live_world \<Rightarrow> nat result \<times> 'w live_world" where
  "live_cancel ex t s = the_or (Inl RuntimeError, s) (live_cancel_all_for_trade ex t s)"

lemma live_cancel_log: "lw_log (snd (live_cancel ex t s)) = lw_log s @ [CancelAll]"
  by (auto simp: live_cancel_def live_cancel_all_for_trade_def io_bind_def io_try_def io_lift_def io_return_def
      cancel_all_orders_def Let_def split: prod.split sum.split)

interpretation live_cancel: order_canceller "live_cancel ex" "\<lambda>s _. CancelAll \<in> set (lw_log s)" for ex
proof unfold_locales
  fix t s n s'
  assume "live_cancel ex t s = (Inr n, s')"
  with live_cancel_log [of ex t s] show "CancelAll \<in> set (lw_log s')" by simp
next
  fix t s r s'
  assume "live_cancel ex t s = (r, s')" and "CancelAll \<in> set (lw_log s)"
  with live_cancel_log [of ex t s] show "CancelAll \<in> set (lw_log s')" by simp
qed

section \<open>Runs\<close>

text \<open>The calls that reach a kill switch, in any order.\<close>

inductive kill_step ::
  "(int \<Rightarrow> 'x \<Rightarrow> nat result \<times> 'x) \<Rightarrow> (py_error \<Rightarrow> string) \<Rightarrow> kill_switch \<times> 'x \<Rightarrow> kill_switch \<times> 'x \<Rightarrow> bool"
  for cancel repr where
  call_trip: "kill_step cancel repr (k, x) (trip reason k, x)"
| call_signal: "kill_step cancel repr (k, x) (on_signal sg k, x)"
| call_poll: "kill_step cancel repr (k, x) (snd (poll_file exists k), x)"
| call_shutdown: "shutdown cancel repr now1 now2 ids k x = (r, k', x') \<Longrightarrow> kill_step cancel repr (k, x) (k', x')"

abbreviation kill_run where "kill_run cancel repr \<equiv> (kill_step cancel repr)\<^sup>*\<^sup>*"

definition switch_wf :: "kill_switch \<Rightarrow> bool" where
  "switch_wf k \<longleftrightarrow>
     (ks_event k \<longrightarrow> ks_reason k \<noteq> None) \<and> (ks_completed k \<longleftrightarrow> ks_report k \<noteq> None)"

lemma trip_simps [simp]:
  "ks_event (trip reason k)" "ks_completed (trip reason k) = ks_completed k" "ks_report (trip reason k) = ks_report k"
  "ks_state_file (trip reason k) = ks_state_file k" "ks_event k \<Longrightarrow> trip reason k = k"
  by (simp_all add: trip_def)

lemma switch_wf_trip [simp]: "switch_wf k \<Longrightarrow> switch_wf (trip reason k)"
  by (auto simp: switch_wf_def trip_def)

lemma shutdown_completed: "ks_completed k \<Longrightarrow> ks_report k = Some r \<Longrightarrow> shutdown cancel repr now1 now2 ids k x = (r, k, x)"
  by (simp add: shutdown_def)

lemma shutdown_first:
  assumes "\<not> ks_completed k" and "cancel_trades cancel ids [] x = (err, cs, x')"
  shows "\<exists>r. shutdown cancel repr now1 now2 ids k x =
      (r, k\<lparr>ks_reason := Some (sr_reason r), ks_completed := True, ks_report := Some r, ks_state_file := Some (state_payload repr r)\<rparr>, x') \<and>
    sr_reason r = the_or MANUAL (ks_reason k) \<and> cancellations r = cs \<and> sr_error r = err"
  using assms by (simp add: shutdown_def Let_def)

lemma kill_step_wf:
  assumes "kill_step cancel repr (k, x) (k', x')" and "switch_wf k"
  shows "switch_wf k' \<and> (ks_event k \<longrightarrow> ks_event k' \<and> ks_reason k' = ks_reason k) \<and>
    (ks_completed k \<longrightarrow> ks_completed k' \<and> ks_report k' = ks_report k \<and> ks_state_file k' = ks_state_file k \<and> x' = x)"
  using assms(1)
proof (cases rule: kill_step.cases)
  case (call_signal sg)
  with assms(2) show ?thesis by (cases sg) simp_all
next
  case (call_shutdown now1 now2 ids r)
  show ?thesis
  proof (cases "ks_completed k")
    case True
    then obtain r' where "ks_report k = Some r'" using assms(2) by (auto simp: switch_wf_def)
    with shutdown_completed [OF True this, of cancel repr now1 now2 ids x] call_shutdown assms(2) True show ?thesis by simp
  next
    case False
    obtain err cs x1 where c: "cancel_trades cancel ids [] x = (err, cs, x1)" by (metis prod_cases3)
    from shutdown_first [OF False c, of repr now1 now2] call_shutdown False assms(2) show ?thesis
      by (auto simp: switch_wf_def)
  qed
qed (use assms(2) in \<open>auto simp: poll_file_def\<close>)

lemma kill_run_wf:
  assumes "kill_run cancel repr s s'" and "switch_wf (fst s)"
  shows "switch_wf (fst s') \<and> (ks_event (fst s) \<longrightarrow> ks_event (fst s') \<and> ks_reason (fst s') = ks_reason (fst s)) \<and>
    (ks_completed (fst s) \<longrightarrow> ks_completed (fst s') \<and> ks_report (fst s') = ks_report (fst s) \<and>
       ks_state_file (fst s') = ks_state_file (fst s) \<and> snd s' = snd s)"
  using assms
proof (induction rule: rtranclp_induct)
  case (step s1 s2)
  obtain k1 x1 k2 x2 where s: "s1 = (k1, x1)" "s2 = (k2, x2)" by fastforce
  from kill_step_wf [of cancel repr k1 x1 k2 x2] step s show ?case by auto
qed simp

text \<open>
  What a first shutdown reports: a count for each trade it cancelled, and these are all the open trades, or the
  ones before the trade whose cancellation raised.
\<close>

lemma cancel_trades_report:
  assumes "cancel_trades cancel ids cs x = (err, cs', x')"
  shows "\<exists>ds. prefix ds ids \<and> fst ` set cs' = fst ` set cs \<union> set ds \<and> (err = None \<longleftrightarrow> ds = ids)"
  using assms
proof (induction ids arbitrary: cs x)
  case Nil
  then show ?case by auto
next
  case (Cons t ids)
  obtain r x1 where c: "cancel t x = (r, x1)" by fastforce
  show ?case
  proof (cases r)
    case (Inl e)
    with Cons.prems c have "cs' = cs" "err \<noteq> None" by auto
    then show ?thesis by (intro exI [of _ "[]"]) simp
  next
    case (Inr n)
    with Cons.prems c Cons.IH [of "dict_set t n cs" x1] obtain ds where
      "prefix ds ids" "fst ` set cs' = fst ` set (dict_set t n cs) \<union> set ds" "err = None \<longleftrightarrow> ds = ids" by auto
    moreover have "fst ` set (dict_set t n cs) = insert t (fst ` set cs)" by (simp add: dict_set_def dom_update)
    ultimately show ?thesis by (intro exI [of _ "t # ds"]) auto
  qed
qed

text \<open>
  Whatever calls reach a fresh kill switch, once it is requested the request and its first reason stay; a
  shutdown then reports this reason, a count of cancelled orders for every open trade unless a cancellation
  raised, and writes the reason to the state file; and after it no call changes the report, the state file or
  the executor.
\<close>

theorem kill_switch_latched:
  assumes "kill_run cancel repr (mk_kill_switch file, x0) (k, x)" and "requested k" and "\<not> ks_completed k"
    and "kill_run cancel repr (k, x) (k1, x1)" and "\<not> ks_completed k1"
    and "shutdown cancel repr now1 now2 ids k1 x1 = (r, k2, x2)"
    and "kill_run cancel repr (k2, x2) (k3, x3)"
  shows "requested k3 \<and> ks_reason k3 = ks_reason k \<and> ks_reason k = Some (sr_reason r) \<and>
    (\<exists>ds. prefix ds ids \<and> fst ` set (cancellations r) = set ds \<and> (sr_error r = None \<longleftrightarrow> ds = ids)) \<and>
    vget (the (ks_state_file k3)) ''reason'' = VStr (reason_value (sr_reason r)) \<and> ks_report k3 = Some r \<and> x3 = x2"
proof -
  have k: "switch_wf k" using kill_run_wf [OF assms(1)] by (simp add: mk_kill_switch_def switch_wf_def)
  have k1: "switch_wf k1" "ks_event k1" "ks_reason k1 = ks_reason k"
    using kill_run_wf [OF assms(4)] k assms(2) by (auto simp: requested_def)
  obtain v where v: "ks_reason k = Some v" using k assms(2) by (auto simp: switch_wf_def requested_def)
  obtain err cs x' where c: "cancel_trades cancel ids [] x1 = (err, cs, x')" by (metis prod_cases3)
  from shutdown_first [OF assms(5) c, of repr now1 now2] assms(6) k1(3) v have
    s: "k2 = k1\<lparr>ks_reason := Some v, ks_completed := True, ks_report := Some r, ks_state_file := Some (state_payload repr r)\<rparr>"
       "sr_reason r = v" "cancellations r = cs" "sr_error r = err" by auto
  have k2: "switch_wf k2" "ks_event k2" using s(1) k1 by (auto simp: switch_wf_def)
  have k3: "ks_event k3" "ks_reason k3 = ks_reason k2" "ks_report k3 = ks_report k2" "ks_state_file k3 = ks_state_file k2" "x3 = x2"
    using kill_run_wf [OF assms(7)] k2 s(1) by simp_all
  have "vget (state_payload repr r) ''reason'' = VStr (reason_value v)"
    by (simp add: state_payload_def vget_def dict_get_def s(2))
  with k3 s v cancel_trades_report [OF c] show ?thesis by (simp add: requested_def)
qed

text \<open>An operator's flag file, a late signal, a dry executor with two resting orders of one of two open trades.\<close>

definition resting_executor :: dry_executor where
  "resting_executor = (DryExecutor (mk_chain_cache 300) 0 0 0)\<lparr>open_orders := [(7, [''a'', ''b''])]\<rparr>"

theorem kill_switch_latched_witness:
  "\<exists>k1 r k2 x2. k1 = on_signal SigTerm (snd (poll_file True (mk_kill_switch None))) \<and>
     shutdown dry_cancel_result (\<lambda>_. ''e'') 0 1 [7, 8] k1 resting_executor = (r, k2, x2) \<and>
     sr_reason r = OPERATOR_FILE \<and> cancellations r = [(7, 2), (8, 0)] \<and> open_orders x2 = [] \<and>
     ks_report (trip MANUAL k2) = Some r \<and> requested (trip MANUAL k2) \<and>
     vget (the (ks_state_file (trip MANUAL k2))) ''reason'' = VStr ''operator_file''"
proof -
  let ?k = "snd (poll_file True (mk_kill_switch None))" let ?k1 = "on_signal SigTerm ?k"
  let ?run = "kill_run dry_cancel_result (\<lambda>_. ''e'')"
  obtain r k2 x2 where s: "shutdown dry_cancel_result (\<lambda>_. ''e'') 0 1 [7, 8] ?k1 resting_executor = (r, k2, x2)"
    by (metis prod_cases3)
  have "?run (mk_kill_switch None, resting_executor) (?k, resting_executor)" by (rule r_into_rtranclp [of "kill_step _ _"], rule call_poll)
  moreover have "?run (?k, resting_executor) (?k1, resting_executor)" by (rule r_into_rtranclp [of "kill_step _ _"], rule call_signal)
  moreover have "?run (k2, x2) (trip MANUAL k2, x2)" by (rule r_into_rtranclp [of "kill_step _ _"], rule call_trip)
  moreover have "requested ?k" "\<not> ks_completed ?k" "\<not> ks_completed ?k1"
    by (simp_all add: requested_def poll_file_def mk_kill_switch_def)
  ultimately have *: "requested (trip MANUAL k2) \<and> ks_reason ?k = Some (sr_reason r) \<and>
      vget (the (ks_state_file (trip MANUAL k2))) ''reason'' = VStr (reason_value (sr_reason r)) \<and> ks_report (trip MANUAL k2) = Some r"
    using kill_switch_latched [OF _ _ _ _ _ s] by blast
  moreover have "ks_reason ?k = Some OPERATOR_FILE" by (simp add: poll_file_def trip_def mk_kill_switch_def)
  moreover have "cancellations r = [(7, 2), (8, 0)] \<and> open_orders x2 = []"
    using s by (auto simp: shutdown_def poll_file_def trip_def mk_kill_switch_def dry_cancel_result_def dry_cancel_all_for_trade_def
        resting_executor_def DryExecutor_def dict_set_def dict_pop_def dict_get_def Let_def)
  ultimately show ?thesis using s
    by (intro exI [of _ ?k1] exI [of _ r] exI [of _ k2] exI [of _ x2]) (simp del: on_signal.simps trip_simps)
qed

end
