(* ===== verification/Reconcile.thy ===== *)
theory Reconcile
  imports Journal Tables
begin

text \<open>
  The reconciliation of the stored orders with the exchange (\<open>bot/execution/reconcile.py\<close>).  The answers of the
  exchange are parameters: the list of open orders, and the envelope of a lookup by client order id.  Each of the
  phases is a session of its own, so that an exception in the second phase leaves the tables as they were.
  Nothing in the program calls this module; \<open>ReconcileError\<close> is for a caller that finds a report that must halt.
\<close>

section \<open>Reports\<close>

datatype mismatch_kind = ForeignOpen | FillStateRegression | PartialLegGroup | RestError

fun mismatch_kind_value :: "mismatch_kind \<Rightarrow> string" where
  "mismatch_kind_value ForeignOpen = ''foreign_open''"
| "mismatch_kind_value FillStateRegression = ''fill_state_regression''"
| "mismatch_kind_value PartialLegGroup = ''partial_leg_group''"
| "mismatch_kind_value RestError = ''rest_error''"

record reconcile_mismatch =
  mm_kind :: mismatch_kind
  mm_detail :: string
  mm_order_id :: "int option"
  mm_trade_id :: "int option"
  mm_client_order_id :: "string option"

record reconcile_report =
  rp_started_at :: datetime
  rp_finished_at :: datetime
  orders_checked :: nat
  orders_updated :: nat
  trades_checked :: nat
  mismatches :: "reconcile_mismatch list"

definition must_halt :: "reconcile_report \<Rightarrow> bool" where
  "must_halt r \<longleftrightarrow> mismatches r \<noteq> []"

text \<open>The text of a \<open>ReconcileError\<close>.\<close>

definition reconcile_error_text :: "reconcile_report \<Rightarrow> string" where
  "reconcile_error_text r =
     join_text nl
       ([''Reconciliation found unresolved mismatches:''] @
        map (\<lambda>m. ''  - ['' @ mismatch_kind_value (mm_kind m) @ ''] '' @ mm_detail m) (mismatches r) @
        [''Refusing to start trading loop. Run `make resume` after manual review.''])"

section \<open>Phases\<close>

definition is_open_order :: "order_row \<Rightarrow> bool" where
  "is_open_order r \<longleftrightarrow> o_state r \<in> {state_value PENDING, state_value OPEN, state_value PARTIALLY_FILLED}"

definition terminal_local_states :: "string list" where
  "terminal_local_states = [state_value FILLED, state_value CANCELED, state_value REJECTED]"

text \<open>The open orders of the exchange by client order id; entries that are no dictionary raise.\<close>

fun live_by_coid :: "py_env \<Rightarrow> pyval list \<Rightarrow> (string, (string, pyval) dict) dict \<Rightarrow> (string, (string, pyval) dict) dict result" where
  "live_by_coid env [] acc = Inr acc"
| "live_by_coid env (VDict d # xs) acc =
     (let coid = py_str env (py_or (vget d ''client_order_id'') (VStr []))
      in live_by_coid env xs (if coid \<noteq> [] then dict_set coid d acc else acc))"
| "live_by_coid env (_ # xs) acc = Inl AttributeError"

definition foreign_mismatches :: "py_env \<Rightarrow> string list \<Rightarrow> (string, (string, pyval) dict) dict \<Rightarrow> reconcile_mismatch list" where
  "foreign_mismatches env db_coids live =
     map (\<lambda>p. \<lparr>mm_kind = ForeignOpen,
               mm_detail = ''Open exchange order without DB record: client_order_id='' @ env_repr env (VStr (fst p)) @
                 '' symbol='' @ env_repr env (vget (snd p) ''symbol''), mm_order_id = None, mm_trade_id = None, mm_client_order_id = Some (fst p)\<rparr>)
       (filter (\<lambda>p. fst p \<notin> set db_coids) live)"

definition fetch_order :: "(string \<Rightarrow> (string, pyval) dict result) \<Rightarrow> string \<Rightarrow> (string, pyval) dict option result" where
  "fetch_order lookup coid =
     (case lookup coid of
        Inl e \<Rightarrow> if e = DeltaRestError then Inr None else Inl e
      | Inr envelope \<Rightarrow>
          (case vget envelope ''result'' of
             VList (VDict d # _) \<Rightarrow> Inr (Some d)
           | VList (VList [] # _) \<Rightarrow> Inr (Some [])
           | VList (VStr [] # _) \<Rightarrow> Inr (Some [])
           | VList (_ # _) \<Rightarrow> Inl TypeError
           | VDict d \<Rightarrow> Inr (Some d)
           | _ \<Rightarrow> Inr None))"

definition fetched_state :: "py_env \<Rightarrow> (string, pyval) dict option \<Rightarrow> string" where
  "fetched_state env fetched =
     (let s = (case fetched of
                 Some d \<Rightarrow> if d \<noteq> [] then py_str env (vget d ''state'') else ''canceled''
               | None \<Rightarrow> ''canceled'')
      in if s = [] then ''canceled'' else s)"

text \<open>One stored open order: the row, whether it counts as updated, and the mismatch if there is one.\<close>

definition reconcile_order ::
  "py_env \<Rightarrow> (string \<Rightarrow> (string, pyval) dict result) \<Rightarrow> (string, (string, pyval) dict) dict \<Rightarrow> order_row \<Rightarrow>
   (order_row \<times> nat \<times> reconcile_mismatch list) result" where
  "reconcile_order env lookup live r =
     (case dict_get live (o_client_order_id r) of
        Some d \<Rightarrow>
          (let live_state = py_str env (the_or (VStr (state_value OPEN)) (dict_get d ''state''))
           in if live_state \<noteq> o_state r then Inr (r\<lparr>o_state := live_state\<rparr>, 1, []) else Inr (r, 0, []))
      | None \<Rightarrow>
          bind_result (fetch_order lookup (o_client_order_id r)) (\<lambda>fetched.
            let st = fetched_state env fetched
            in if st = state_value FILLED \<and> fetched \<noteq> None
               then
                 bind_result (float_of (env_float env) (py_or (vget (the fetched) ''filled_size'') (VFlt (o_qty r)))) (\<lambda>q.
                 bind_result
                   (case vget (the fetched) ''average_fill_price'' of
                      VNone \<Rightarrow> Inr (o_filled_price r)
                    | v \<Rightarrow> map_sum id Some (float_of (env_float env) v)) (\<lambda>px.
                   Inr (r\<lparr>o_state := state_value FILLED, o_filled_qty := q, o_filled_price := px\<rparr>, 1, [])))
               else if st \<in> set terminal_local_states then Inr (r\<lparr>o_state := state_value CANCELED\<rparr>, 1, [])
               else Inr (r, 0, [\<lparr>mm_kind = FillStateRegression,
                                  mm_detail = ''DB order open but exchange returned state='' @ env_repr env (VStr st), mm_order_id = Some (o_id r), mm_trade_id = None,
                                  mm_client_order_id = Some (o_client_order_id r)\<rparr>])))"

fun reconcile_rows ::
  "py_env \<Rightarrow> (string \<Rightarrow> (string, pyval) dict result) \<Rightarrow> (string, (string, pyval) dict) dict \<Rightarrow> order_row list \<Rightarrow>
   (order_row list \<times> nat \<times> reconcile_mismatch list) result" where
  "reconcile_rows env lookup live [] = Inr ([], 0, [])"
| "reconcile_rows env lookup live (r # rs) =
     bind_result (if is_open_order r then reconcile_order env lookup live r else Inr (r, 0, [])) (\<lambda>(r', n, ms).
     bind_result (reconcile_rows env lookup live rs) (\<lambda>(rs', n', ms'). Inr (r' # rs', n + n', ms @ ms')))"

definition leg_orders :: "order_row list \<Rightarrow> int \<Rightarrow> order_row list" where
  "leg_orders rows tid = filter (\<lambda>r. o_trade_id r = Some tid \<and> o_leg_idx r \<noteq> None) rows"

text \<open>The state of the newest order of each leg.\<close>

definition leg_states :: "order_row list \<Rightarrow> string list" where
  "leg_states rows =
     map (\<lambda>i. o_state (hd (sort_key (\<lambda>r. - o_ts r) (filter (\<lambda>r. o_leg_idx r = Some i) rows))))
       (sort (remdups (List.map_filter o_leg_idx rows)))"

definition mixed_legs :: "string list \<Rightarrow> bool" where
  "mixed_legs states \<longleftrightarrow>
     state_value FILLED \<in> set states \<and> set states - {state_value FILLED, state_value CANCELED, state_value REJECTED} \<noteq> {}"

definition leg_mismatches :: "py_env \<Rightarrow> order_row list \<Rightarrow> trade_row list \<Rightarrow> reconcile_mismatch list" where
  "leg_mismatches env rows trades =
     map (\<lambda>t. \<lparr>mm_kind = PartialLegGroup,
               mm_detail = ''Trade '' @ str_of_int (t_id t) @ '' has mixed leg states: '' @
                 env_repr env (VList (map VStr (leg_states (leg_orders rows (t_id t))))), mm_order_id = None, mm_trade_id = Some (t_id t), mm_client_order_id = None\<rparr>)
       (filter (\<lambda>t. leg_orders rows (t_id t) \<noteq> [] \<and> mixed_legs (leg_states (leg_orders rows (t_id t)))) trades)"

definition all_canceled :: "order_row list \<Rightarrow> int \<Rightarrow> bool" where
  "all_canceled rows tid \<longleftrightarrow>
     leg_orders rows tid \<noteq> [] \<and> list_all (\<lambda>r. o_state r = state_value CANCELED) (leg_orders rows tid)"

definition close_canceled :: "database \<Rightarrow> database" where
  "close_canceled db =
     (let gone = filter (\<lambda>t. is_open_trade t \<and> all_canceled (tb_orders db) (t_id t)) (tb_trades db)
      in db\<lparr>tb_trades := map (\<lambda>t. if t \<in> set gone then t\<lparr>t_status := trade_status_value TRADE_CLOSED\<rparr> else t) (tb_trades db),
            tb_legs := map (\<lambda>l. if leg_trade_id l \<in> t_id ` set gone then l\<lparr>leg_status := leg_status_value LEG_CLOSED\<rparr> else l) (tb_legs db)\<rparr>)"

section \<open>The run\<close>

definition reconcile_run ::
  "py_env \<Rightarrow> (string \<Rightarrow> (string, pyval) dict result) \<Rightarrow> pyval list result \<Rightarrow> datetime \<Rightarrow> datetime \<Rightarrow> database \<Rightarrow>
   reconcile_report result \<times> database" where
  "reconcile_run env lookup live_open started finished db =
     (let db_open = filter is_open_order (tb_orders db);
          rep0 = \<lparr>rp_started_at = started, rp_finished_at = finished, orders_checked = length db_open, orders_updated = 0,
                  trades_checked = length (open_trades db), mismatches = []\<rparr>
      in case live_open of
           Inl e \<Rightarrow>
             if e = DeltaRestError
             then (Inr (rep0\<lparr>mismatches := [\<lparr>mm_kind = RestError, mm_detail = ''get_open_orders failed: '' @ env_err env e, mm_order_id = None, mm_trade_id = None, mm_client_order_id = None\<rparr>]\<rparr>), db)
             else (Inl e, db)
         | Inr orders \<Rightarrow>
             (case live_by_coid env orders [] of
                Inl e \<Rightarrow> (Inl e, db)
              | Inr live \<Rightarrow>
                  (case reconcile_rows env lookup live (tb_orders db) of
                     Inl e \<Rightarrow> (Inl e, db)
                   | Inr (rows, n, ms) \<Rightarrow>
                       let db1 = db\<lparr>tb_orders := rows\<rparr>;
                           all_ms = foreign_mismatches env (map o_client_order_id db_open) live @ ms @ leg_mismatches env rows (open_trades db)
                       in (Inr (rep0\<lparr>orders_updated := n, mismatches := all_ms\<rparr>), close_canceled db1))))"

section \<open>Properties\<close>

text \<open>What one order ends as: it follows the exchange's open order, or is finished, or leaves a mismatch.\<close>

lemma reconcile_order_cases:
  assumes "reconcile_order env lookup live r = Inr (r', n, ms)"
  shows "o_client_order_id r' = o_client_order_id r"
    and "ms = [] \<Longrightarrow> (\<exists>d. dict_get live (o_client_order_id r) = Some d \<and>
        o_state r' = py_str env (the_or (VStr (state_value OPEN)) (dict_get d ''state''))) \<or>
      (dict_get live (o_client_order_id r) = None \<and> o_state r' \<in> {state_value FILLED, state_value CANCELED})"
  using assms by (auto simp: reconcile_order_def Let_def split: option.splits if_splits)

lemma reconcile_rows_all:
  assumes "reconcile_rows env lookup live rs = Inr (rs', n, ms)"
  shows "list_all2 (\<lambda>r r'. if is_open_order r then \<exists>k l. reconcile_order env lookup live r = Inr (r', k, l) \<and> set l \<subseteq> set ms else r' = r) rs rs'"
  using assms
proof (induction rs arbitrary: rs' n ms)
  case (Cons r rs)
  then obtain r1 n1 m1 rs2 n2 m2 where
    s: "(if is_open_order r then reconcile_order env lookup live r else Inr (r, 0, [])) = Inr (r1, n1, m1)"
       "reconcile_rows env lookup live rs = Inr (rs2, n2, m2)" "rs' = r1 # rs2" "ms = m1 @ m2" by auto
  have "list_all2 (\<lambda>r r'. if is_open_order r then \<exists>k l. reconcile_order env lookup live r = Inr (r', k, l) \<and> set l \<subseteq> set ms else r' = r) rs rs2"
    by (rule list_all2_mono [OF Cons.IH [OF s(2)]]) (use s(4) in \<open>auto split: if_splits\<close>)
  moreover have "if is_open_order r then \<exists>k l. reconcile_order env lookup live r = Inr (r1, k, l) \<and> set l \<subseteq> set ms else r1 = r"
    using s(1,4) by (auto split: if_splits)
  ultimately show ?case using s(3) by simp
qed simp

lemma close_canceled_orders [simp]: "tb_orders (close_canceled db) = tb_orders db"
  by (simp add: close_canceled_def Let_def)

lemma close_canceled_open:
  assumes "t \<in> set (tb_trades (close_canceled db))" and "is_open_trade t"
  shows "t \<in> set (tb_trades db) \<and> \<not> all_canceled (tb_orders db) (t_id t)"
  using assms by (auto simp: close_canceled_def Let_def is_open_trade_def split: if_splits)

lemma reconcile_run_clean:
  assumes "reconcile_run env lookup (Inr orders) started finished db = (Inr rep, db')" and "\<not> must_halt rep"
  obtains live rows n where "live_by_coid env orders [] = Inr live" and "reconcile_rows env lookup live (tb_orders db) = Inr (rows, n, [])"
    and "db' = close_canceled (db\<lparr>tb_orders := rows\<rparr>)"
    and "foreign_mismatches env (map o_client_order_id (filter is_open_order (tb_orders db))) live = []"
    and "leg_mismatches env rows (open_trades db) = []"
  using assms by (auto simp: reconcile_run_def must_halt_def Let_def split: sum.splits prod.splits)

section \<open>Claims\<close>

text \<open>
  C11: after a reconciliation that does not ask to halt, the tables and the exchange agree.  Every open order of the
  exchange that has a client order id is a stored order; every stored order that is still open is open at the
  exchange, in the state the exchange gives; and no open trade has a filled leg beside one that is still working, or
  only cancelled legs.
\<close>

theorem reconcile_clean_agrees:
  assumes "reconcile_run env lookup (Inr orders) started finished db = (Inr rep, db')" and "\<not> must_halt rep"
  shows "\<exists>live. live_by_coid env orders [] = Inr live \<and>
    fst ` set live \<subseteq> o_client_order_id ` set (tb_orders db') \<and>
    (\<forall>r \<in> set (tb_orders db'). is_open_order r \<longrightarrow>
       (\<exists>d. dict_get live (o_client_order_id r) = Some d \<and> o_state r = py_str env (the_or (VStr (state_value OPEN)) (dict_get d ''state'')))) \<and>
    (\<forall>t \<in> set (open_trades db').
       \<not> mixed_legs (leg_states (leg_orders (tb_orders db') (t_id t))) \<and> \<not> all_canceled (tb_orders db') (t_id t))"
proof -
  from assms obtain live rows n where
    l: "live_by_coid env orders [] = Inr live" "reconcile_rows env lookup live (tb_orders db) = Inr (rows, n, [])"
       "db' = close_canceled (db\<lparr>tb_orders := rows\<rparr>)"
       "foreign_mismatches env (map o_client_order_id (filter is_open_order (tb_orders db))) live = []"
       "leg_mismatches env rows (open_trades db) = []" by (rule reconcile_run_clean)
  have all: "list_all2 (\<lambda>r r'. if is_open_order r then \<exists>k. reconcile_order env lookup live r = Inr (r', k, []) else r' = r) (tb_orders db) rows"
    by (rule list_all2_mono [OF reconcile_rows_all [OF l(2)]]) auto
  have coids: "map o_client_order_id rows = map o_client_order_id (tb_orders db)"
    using all reconcile_order_cases(1) by (induction rule: list_all2_induct) (auto split: if_splits)
  have "fst ` set live \<subseteq> o_client_order_id ` set (tb_orders db)"
    using l(4) by (auto simp: foreign_mismatches_def filter_empty_conv)
  moreover have "o_client_order_id ` set rows = o_client_order_id ` set (tb_orders db)" using arg_cong [OF coids, of set] by simp
  moreover have db': "tb_orders db' = rows" using l(3) by simp
  ultimately have "fst ` set live \<subseteq> o_client_order_id ` set (tb_orders db')" by simp
  moreover have "\<exists>d. dict_get live (o_client_order_id r') = Some d \<and> o_state r' = py_str env (the_or (VStr (state_value OPEN)) (dict_get d ''state''))"
    if r': "r' \<in> set rows" "is_open_order r'" for r'
  proof -
    from r'(1) obtain i where i: "i < length rows" "r' = rows ! i" by (metis in_set_conv_nth)
    from list_all2_nthD2 [OF all i(1)] i(2) have "if is_open_order (tb_orders db ! i)
        then \<exists>k. reconcile_order env lookup live (tb_orders db ! i) = Inr (r', k, []) else r' = tb_orders db ! i" by simp
    with r'(2) obtain k where k: "reconcile_order env lookup live (tb_orders db ! i) = Inr (r', k, [])" by (auto split: if_splits)
    from reconcile_order_cases [OF k] r'(2) show ?thesis by (auto simp: is_open_order_def)
  qed
  moreover have "\<not> mixed_legs (leg_states (leg_orders rows (t_id t))) \<and> \<not> all_canceled rows (t_id t)"
    if t: "t \<in> set (open_trades db')" for t
  proof -
    from t have o: "t \<in> set (open_trades db)" "\<not> all_canceled rows (t_id t)"
      using close_canceled_open [of t "db\<lparr>tb_orders := rows\<rparr>"] l(3) by (auto simp: open_trades_def)
    have "\<not> mixed_legs (leg_states [])" by (simp add: leg_states_def mixed_legs_def List.map_filter_simps)
    with o l(5) show ?thesis by (auto simp: leg_mismatches_def filter_empty_conv)
  qed
  ultimately show ?thesis using l(1) db' by (intro exI [of _ live]) simp
qed

text \<open>
  A failed lookup is read as a cancellation.  When an open order is not among the open orders of the exchange and
  the lookup of it fails with a REST error, the order is stored as cancelled, and the failure is no mismatch.
\<close>

theorem failed_lookup_cancels:
  assumes "is_open_order r" and "dict_get live (o_client_order_id r) = None" and "lookup (o_client_order_id r) = Inl DeltaRestError"
  shows "reconcile_order env lookup live r = Inr (r\<lparr>o_state := state_value CANCELED\<rparr>, 1, [])"
  using assms by (simp add: reconcile_order_def fetch_order_def fetched_state_def terminal_local_states_def Let_def)

text \<open>One stored order that is open at the exchange, one that the exchange has filled.\<close>

definition stored_order :: "int \<Rightarrow> string \<Rightarrow> order_state \<Rightarrow> order_row" where
  "stored_order i coid st =
     \<lparr>o_id = i, o_ts = 0, o_strategy_id = ''directional'', o_trade_id = Some 1, o_leg_idx = Some i, o_client_order_id = coid,
      o_exchange_order_id = None, o_symbol = ''X'', o_side = ''buy'', o_order_type = ''limit'', o_limit_price = None, o_stop_price = None,
      o_qty = 1, o_filled_qty = 0, o_filled_price = None, o_reduce_only = False, o_state = state_value st, o_raw_response = None\<rparr>"

definition stored_db :: database where
  "stored_db = \<lparr>tb_signals = [], tb_trades = [], tb_legs = [], tb_orders = [stored_order 0 ''a'' OPEN, stored_order 1 ''b'' PENDING]\<rparr>"

definition filled_lookup :: "string \<Rightarrow> (string, pyval) dict result" where
  "filled_lookup _ = Inr [(''result'', VList [VDict [(''state'', VStr ''filled''), (''filled_size'', VFlt 1)]])]"

theorem reconcile_clean_agrees_witness:
  "\<exists>(rep :: reconcile_report) db' live d. reconcile_run sample_env filled_lookup (Inr [VDict [(''client_order_id'', VStr ''a''), (''state'', VStr ''open'')]]) 0 1 stored_db = (Inr rep, db') \<and>
     map o_state (tb_orders db') = [''open'', ''filled''] \<and> dict_get live ''a'' = Some d \<and> vget d ''state'' = VStr ''open'' \<and>
     live_by_coid sample_env [VDict [(''client_order_id'', VStr ''a''), (''state'', VStr ''open'')]] [] = Inr live"
proof -
  let ?os = "[VDict [(''client_order_id'', VStr ''a''), (''state'', VStr ''open'')]]"
  have "\<exists>(rep :: reconcile_report) db'. reconcile_run sample_env filled_lookup (Inr ?os) 0 1 stored_db = (Inr rep, db') \<and> \<not> must_halt rep \<and>
      map o_state (tb_orders db') = [''open'', ''filled''] \<and> o_client_order_id (hd (tb_orders db')) = ''a''"
    by (simp add: reconcile_run_def stored_db_def stored_order_def is_open_order_def reconcile_order_def fetch_order_def fetched_state_def
        filled_lookup_def vget_def dict_get_def py_or_def float_of_def py_str_def terminal_local_states_def must_halt_def foreign_mismatches_def
        leg_mismatches_def open_trades_def dict_set_def Let_def)
  then obtain rep :: reconcile_report and db' where e: "reconcile_run sample_env filled_lookup (Inr ?os) 0 1 stored_db = (Inr rep, db')" "\<not> must_halt rep"
      "map o_state (tb_orders db') = [''open'', ''filled'']" "o_client_order_id (hd (tb_orders db')) = ''a''" by (elim exE conjE)
  from reconcile_clean_agrees [OF e(1,2)] obtain live where l: "live_by_coid sample_env ?os [] = Inr live"
      "\<forall>r \<in> set (tb_orders db'). is_open_order r \<longrightarrow> (\<exists>d. dict_get live (o_client_order_id r) = Some d \<and>
         o_state r = py_str sample_env (the_or (VStr (state_value OPEN)) (dict_get d ''state'')))" by blast
  obtain r rs where r: "tb_orders db' = r # rs" "o_state r = ''open''" using e(3) by (cases "tb_orders db'") auto
  with l(2) e(4) obtain d where d: "dict_get live ''a'' = Some d" by (auto simp: is_open_order_def)
  moreover have "vget d ''state'' = VStr ''open''"
    using l(1) d by (auto simp: vget_def dict_get_def py_or_def py_str_def dict_set_def Let_def)
  ultimately show ?thesis using e l(1) by (intro exI conjI) auto
qed

theorem failed_lookup_cancels_witness:
  "reconcile_order sample_env (\<lambda>_. Inl DeltaRestError) [] (stored_order 0 ''a'' OPEN) = Inr (stored_order 0 ''a'' CANCELED, 1, [])"
  using failed_lookup_cancels [of "stored_order 0 ''a'' OPEN" "[]" "\<lambda>_. Inl DeltaRestError" sample_env]
  by (simp add: stored_order_def is_open_order_def)

end
