(* ===== verification/Reports.thy ===== *)
theory Reports
  imports Journal Daily Resume
begin

text \<open>
  The texts for the operator: the status dashboard (\<open>bot/observability/status.py\<close>), the Markdown of the daily report
  (\<open>bot/analytics/daily.py\<close>) and the text of a recovery (\<open>bot/runtime/resume.py\<close>).  The dashboard is the list of the
  cells of its tables; frames and colours belong to the terminal library.  \<open>today\<close> is the date on the clock of the
  host.
\<close>

section \<open>Dashboard\<close>

record table_view =
  tv_title :: string
  tv_columns :: "string list"
  tv_rows :: "string list list"

record dashboard =
  db_nav_panel :: "string list"
  db_open_trades :: table_view
  db_daily_pnl :: table_view
  db_decisions :: table_view

definition dash_nav :: "nav_history_row list \<Rightarrow> date \<Rightarrow> nav_history_row option" where
  "dash_nav rows today = latest_row (filter (\<lambda>r. nh_trading_date r \<le> today) rows)"

definition render_nav_panel :: "nav_history_row option \<Rightarrow> string list" where
  "render_nav_panel nav =
     (case nav of
        None \<Rightarrow> [''no NAV history yet'']
      | Some r \<Rightarrow>
          [''NAV: '' @ rupee @ fmt_grouped 2 (nh_nav_inr r), ''Peak NAV: '' @ rupee @ fmt_grouped 2 (nh_peak_nav_inr r),
           ''Drawdown: '' @ fmt_fixed 2 (nh_drawdown_from_peak_pct r) @ ''%'',
           ''Circuit Breaker: '' @ (if nh_circuit_breaker_tripped r then ''TRIPPED'' else ''OK''),
           ''As of '' @ date_isoformat (nh_trading_date r)])"

definition open_trade_cells :: "py_env \<Rightarrow> leg_row list \<Rightarrow> trade_row \<Rightarrow> string list" where
  "open_trade_cells env legs t =
     [str_of_int (t_id t), t_strategy_id t, t_underlying t, str_of_int (t_lots t), isoformat (t_entry_ts t),
      fmt_grouped 0 (the_or 0 (t_peak_pnl_inr t)), fmt_grouped 0 (the_or 0 (trough_pnl_inr t)),
      py_str env (get_or (the_or [] (t_notes t)) ''trail_stop'' (VStr em_dash)),
      str_of_nat (length (filter (\<lambda>l. leg_trade_id l = t_id t) legs))]"

definition render_open_trades_table :: "py_env \<Rightarrow> leg_row list \<Rightarrow> trade_row list \<Rightarrow> table_view" where
  "render_open_trades_table env legs trades =
     \<lparr>tv_title = ''Open Positions'',
      tv_columns = [''Trade'', ''Strategy'', ''Underlying'', ''Lots'', ''Entry'', ''Peak'', ''Trough'', ''Stop'', ''Legs''],
      tv_rows = (if trades = [] then [replicate 9 em_dash] else map (open_trade_cells env legs) trades)\<rparr>"

definition daily_pnl_cells :: "strategy_daily_stats \<Rightarrow> string list" where
  "daily_pnl_cells s =
     [sd_strategy_id s, str_of_nat (sd_n_trades s), str_of_nat (sd_n_wins s), str_of_nat (sd_n_losses s),
      (case sd_win_rate s of None \<Rightarrow> em_dash | Some w \<Rightarrow> fmt_fixed 1 (w * 100)),
      fmt_grouped 0 (sd_gross_pnl_inr s), fmt_grouped 0 (sd_net_pnl_inr s)]"

definition render_daily_pnl_table :: "date \<Rightarrow> strategy_daily_stats list \<Rightarrow> table_view" where
  "render_daily_pnl_table today stats =
     \<lparr>tv_title = ''Daily PnL ('' @ date_isoformat today @ '')'',
      tv_columns = [''Strategy'', ''Trades'', ''Wins'', ''Losses'', ''Win %'', ''Gross '' @ rupee, ''Net '' @ rupee],
      tv_rows = (if stats = [] then [[em_dash, ''0'', ''0'', ''0'', em_dash, ''0'', ''0'']] else map daily_pnl_cells stats)\<rparr>"

definition clock_text :: "datetime \<Rightarrow> string" where
  "clock_text t =
     (let s = time_of t div us_per_s
      in pad_left 2 (str_of_int (s div 3600)) @ '':'' @ pad_left 2 (str_of_int (s div 60 mod 60)) @ '':'' @ pad_left 2 (str_of_int (s mod 60)))"

definition decision_cells :: "decision_row \<Rightarrow> string list" where
  "decision_cells d =
     [clock_text (d_ts d), d_strategy_id d, (if d_passed d then ''yes'' else ''no''), d_reason d, text_or_dash (d_symbol d)]"

definition render_decisions_table :: "decision_row list \<Rightarrow> table_view" where
  "render_decisions_table ds =
     \<lparr>tv_title = ''Last 10 Decisions'', tv_columns = [''ts'', ''strategy'', ''passed'', ''reason'', ''symbol''],
      tv_rows = (if ds = [] then [replicate 5 em_dash] else map decision_cells ds)\<rparr>"

definition render_status_dashboard ::
  "py_env \<Rightarrow> date \<Rightarrow> database \<Rightarrow> nav_history_row list \<Rightarrow> daily_pnl_row list \<Rightarrow> decision_row list \<Rightarrow> dashboard" where
  "render_status_dashboard env today db rows pnl decisions =
     \<lparr>db_nav_panel = render_nav_panel (dash_nav rows today),
      db_open_trades = render_open_trades_table env (tb_legs db)
        (filter (\<lambda>t. t_status t = trade_status_value TRADE_OPEN) (tb_trades db)),
      db_daily_pnl = render_daily_pnl_table today
        (map dp_stats (sort_key (\<lambda>r. sd_strategy_id (dp_stats r)) (filter (\<lambda>r. dp_trading_date r = today) pnl))),
      db_decisions = render_decisions_table (take 10 (sort_key (\<lambda>d. - d_ts d) decisions))\<rparr>"

section \<open>The daily report\<close>

definition daily_line :: "strategy_daily_stats \<Rightarrow> string" where
  "daily_line s =
     ''| '' @ sd_strategy_id s @ '' | '' @ str_of_nat (sd_n_trades s) @ '' | '' @ str_of_nat (sd_n_wins s) @ '' | '' @
     str_of_nat (sd_n_losses s) @ '' | '' @ (case sd_win_rate s of None \<Rightarrow> em_dash | Some w \<Rightarrow> fmt_fixed 1 (w * 100)) @ '' | '' @
     fmt_grouped 0 (sd_gross_pnl_inr s) @ '' | '' @ fmt_grouped 0 (sd_net_pnl_inr s) @ '' | '' @ fmt_grouped 0 (sd_fees_inr s) @ '' | '' @
     (case sd_avg_r s of None \<Rightarrow> em_dash | Some x \<Rightarrow> fmt_fixed 2 x) @ '' | '' @
     (case sd_avg_slippage_bps s of None \<Rightarrow> em_dash | Some x \<Rightarrow> fmt_fixed 1 x) @ '' |''"

definition daily_markdown :: "nav_history_row \<Rightarrow> strategy_daily_stats list \<Rightarrow> string" where
  "daily_markdown nav stats =
     join_text nl
       ([''# Daily Report '' @ em_dash @ '' '' @ date_isoformat (nh_trading_date nav), [], ''## NAV'',
         ''- NAV: '' @ rupee @ fmt_grouped 2 (nh_nav_inr nav), ''- Peak NAV: '' @ rupee @ fmt_grouped 2 (nh_peak_nav_inr nav),
         ''- Drawdown from peak: '' @ fmt_fixed 2 (nh_drawdown_from_peak_pct nav) @ ''%'',
         ''- Circuit breaker: '' @ (if nh_circuit_breaker_tripped nav then ''TRIPPED'' else ''OK''), [], ''## Strategy Summary'', [],
         ''| Strategy | Trades | Wins | Losses | Win % | Gross '' @ rupee @ '' | Net '' @ rupee @ '' | Fees '' @ rupee @ '' | Avg R | Slip (bps) |'',
         ''|---|---:|---:|---:|---:|---:|---:|---:|---:|---:|''] @ map daily_line stats) @ nl"

definition write_markdown :: "string \<Rightarrow> nav_history_row \<Rightarrow> strategy_daily_stats list \<Rightarrow> files \<Rightarrow> files" where
  "write_markdown dir nav stats fs =
     dict_set (dir @ ''/'' @ date_isoformat (nh_trading_date nav) @ ''.md'') (daily_markdown nav stats) fs"

text \<open>The report with its file: nothing is written when a table cannot be.\<close>

definition daily_run_files ::
  "string \<Rightarrow> date \<Rightarrow> flt \<Rightarrow> flt \<Rightarrow> bool \<Rightarrow> database \<Rightarrow> daily_pnl_row list \<Rightarrow> nav_history_row list \<Rightarrow> files \<Rightarrow>
   ((nav_history_row \<times> strategy_daily_stats list) result \<times> daily_pnl_row list \<times> nav_history_row list) \<times> files" where
  "daily_run_files dir d nav peak tripped db pnl rows fs =
     (let out = daily_run d nav peak tripped db pnl rows
      in (out, case fst out of Inl e \<Rightarrow> fs | Inr (row, stats) \<Rightarrow> write_markdown dir row stats fs))"

section \<open>The text of a recovery\<close>

definition resume_text :: "resume_report \<Rightarrow> string" where
  "resume_text r =
     join_text nl
       ([''NAV (latest):     '' @ (case rr_nav_inr r of None \<Rightarrow> em_dash | Some x \<Rightarrow> rupee @ fmt_grouped 2 x),
         ''Peak NAV:         '' @ (case rr_peak_nav_inr r of None \<Rightarrow> em_dash | Some x \<Rightarrow> rupee @ fmt_grouped 2 x),
         ''Drawdown:         '' @ (case rr_drawdown_pct r of None \<Rightarrow> em_dash | Some x \<Rightarrow> fmt_fixed 2 x @ ''%''),
         ''Trading date:     '' @ (case rr_trading_date r of None \<Rightarrow> em_dash | Some d \<Rightarrow> date_isoformat d),
         ''Breaker tripped:  '' @ (if breaker_was_tripped r then ''YES'' else ''no''),
         ''Confirm flag:     '' @ (if confirmed r then ''set'' else ''NOT set''),
         ''Cleared this run: '' @ (if cleared r then ''YES'' else ''no'')] @
        (case marker_removed r of None \<Rightarrow> [] | Some m \<Rightarrow> [''Removed marker:   '' @ m]) @
        (if rr_notes r = [] then [] else [] # map (\<lambda>n. ''  - '' @ n) (rr_notes r)))"

section \<open>Claims\<close>

lemma filter_upsert_tripped:
  assumes "today < d"
  shows "filter (\<lambda>r. nh_trading_date r \<le> today) (upsert_tripped d n dd rows) = filter (\<lambda>r. nh_trading_date r \<le> today) rows"
proof (cases "row_on rows d")
  case None
  with assms show ?thesis by (simp add: upsert_tripped_def)
next
  case (Some x)
  have "filter (\<lambda>r. nh_trading_date r \<le> today) (map (\<lambda>r. if nh_trading_date r = d then mark_tripped n dd r else r) rows) =
      filter (\<lambda>r. nh_trading_date r \<le> today) rows" for rows
    using assms by (induction rows) auto
  with Some show ?thesis by (simp add: upsert_tripped_def)
qed

text \<open>
  C18: the dashboard does not show a trip of the night.  A trip that is persisted between midnight and 05:30 on the Indian
  clock is stored under the Indian date; on a host whose clock is UTC, the dashboard of that UTC day shows the same NAV
  panel as before the trip, with the breaker as it was.
\<close>

theorem dashboard_hides_night_trip:
  assumes "time_of (utc_to_ist now) < IST"
    and "persist_circuit_breaker_trip rows n now marker = Inr (rows', n', marker')"
  shows "circuit_breaker_tripped n' \<and>
    render_status_dashboard env (date_of now) db rows' pnl decisions = render_status_dashboard env (date_of now) db rows pnl decisions"
proof -
  have "date_of now < date_of (utc_to_ist now)" using roll_weekday_lag [OF assms(1)] by simp
  with assms(2) show ?thesis by (simp add: persist_cases render_status_dashboard_def dash_nav_def filter_upsert_tripped)
qed

theorem dashboard_hides_night_trip_witness:
  "\<exists>rows n. persist_circuit_breaker_trip [] sample_nav (20 * hour_us) False = Inr (rows, n, True) \<and> circuit_breaker_tripped n \<and>
     db_nav_panel (render_status_dashboard sample_env (date_of (20 * hour_us)) \<lparr>tb_signals = [], tb_trades = [], tb_legs = [], tb_orders = []\<rparr>
       rows [] []) = [''no NAV history yet'']"
proof -
  let ?db = "\<lparr>tb_signals = [], tb_trades = [], tb_legs = [], tb_orders = []\<rparr>" and ?now = "20 * hour_us"
  let ?rows = "upsert_tripped (date_of (utc_to_ist ?now)) sample_nav 0 []" and ?n = "fst (trip_breaker True sample_nav False)"
  have p: "persist_circuit_breaker_trip [] sample_nav ?now False = Inr (?rows, ?n, True)" by (simp add: persist_cases sample_nav_def)
  have "time_of (utc_to_ist ?now) < IST" by (simp add: utc_to_ist_def IST_def time_of_def time_defs)
  from dashboard_hides_night_trip [OF this p, of sample_env ?db "[]" "[]"]
  have "db_nav_panel (render_status_dashboard sample_env (date_of ?now) ?db ?rows [] []) =
      db_nav_panel (render_status_dashboard sample_env (date_of ?now) ?db [] [] [])" "circuit_breaker_tripped ?n" by simp_all
  moreover have "db_nav_panel (render_status_dashboard sample_env (date_of ?now) ?db [] [] []) = [''no NAV history yet'']"
    by (simp add: render_status_dashboard_def dash_nav_def latest_row_def render_nav_panel_def)
  ultimately show ?thesis using p by (intro exI [of _ ?rows] exI [of _ ?n]) simp
qed

end
