(* ===== verification/DeltaApi.thy ===== *)
theory DeltaApi
  imports Rest
begin

text \<open>
  The client of the exchange as the offline studies of \<open>bot/analytics/\<close> hold it: the reads they call, and the orders and
  cancellations that the same object offers them too.  An answer may change what the next one is, so that each call
  passes a state on.  \<open>rest_api\<close> is the REST client of \<open>bot/exchange/rest.py\<close> in this place.  The locale \<open>reader\<close> says
  what a study may rely on: the reads keep an invariant of the state, of the other operations nothing is assumed, and
  what is composed of the reads keeps it too.
\<close>

named_theorems keeps_intros \<open>calls that keep an invariant of the state\<close>

section \<open>Calls\<close>

type_synonym ('w, 'a) call = "'w \<Rightarrow> 'a result \<times> 'w"

definition c_lift :: "'a result \<Rightarrow> ('w, 'a) call" where
  "c_lift r w = (r, w)"

definition c_bind :: "('w, 'a) call \<Rightarrow> ('a \<Rightarrow> ('w, 'b) call) \<Rightarrow> ('w, 'b) call" where
  "c_bind m f w = (case m w of (Inl e, w1) \<Rightarrow> (Inl e, w1) | (Inr x, w1) \<Rightarrow> f x w1)"

text \<open>A \<open>try\<close> whose handler takes \<open>DeltaRestError\<close>; other exceptions pass.\<close>

definition c_try :: "('w, 'a) call \<Rightarrow> ('w, 'a option) call" where
  "c_try m w = (case m w of (Inl DeltaRestError, w1) \<Rightarrow> (Inr None, w1) | (Inl e, w1) \<Rightarrow> (Inl e, w1) | (Inr x, w1) \<Rightarrow> (Inr (Some x), w1))"

fun c_fold :: "('b \<Rightarrow> 's \<Rightarrow> ('w, 's) call) \<Rightarrow> 'b list \<Rightarrow> 's \<Rightarrow> ('w, 's) call" where
  "c_fold f [] s = c_lift (Inr s)"
| "c_fold f (x # xs) s = c_bind (f x s) (c_fold f xs)"

lemma c_simps [simp]: "c_lift r w = (r, w)" "c_bind (c_lift (Inr x)) f = f x" "c_bind (c_lift (Inl e)) f = c_lift (Inl e)"
  by (simp_all add: c_lift_def c_bind_def fun_eq_iff)

lemma c_bind_InrE:
  assumes "c_bind m f w = (Inr y, w')"
  obtains x w1 where "m w = (Inr x, w1)" "f x w1 = (Inr y, w')"
  using assms by (auto simp: c_bind_def split: prod.splits sum.splits)

text \<open>A fold that returns: an invariant of its accumulator that every round keeps.\<close>

lemma c_fold_inv:
  assumes "c_fold f xs s w = (Inr s', w')" and "P s"
    and "\<And>x s w s' w'. x \<in> set xs \<Longrightarrow> P s \<Longrightarrow> f x s w = (Inr s', w') \<Longrightarrow> P s'"
  shows "P s'"
  using assms
proof (induction xs arbitrary: s w)
  case (Cons x xs)
  from Cons.prems(1) obtain s1 w1 where 1: "f x s w = (Inr s1, w1)" "c_fold f xs s1 w1 = (Inr s', w')" by (auto elim: c_bind_InrE)
  have "P s1" using Cons.prems(2,3) 1(1) by (meson list.set_intros(1))
  from Cons.IH [OF 1(2) this] Cons.prems(3) show ?case by (meson list.set_intros(2))
qed simp

section \<open>The client\<close>

record 'w delta_api =
  da_positions :: "('w, pyval list) call"
  da_candles :: "string \<Rightarrow> string \<Rightarrow> int \<Rightarrow> int \<Rightarrow> ('w, pyval list) call"
  da_ticker :: "string \<Rightarrow> ('w, (string, pyval) dict) call"
  da_orders :: "(string, string) dict \<Rightarrow> ('w, (string, pyval) dict) call"
  da_place_order :: "(string, pyval) dict \<Rightarrow> ('w, (string, pyval) dict) call"
  da_cancel_order :: "int option \<Rightarrow> string option \<Rightarrow> int option \<Rightarrow> ('w, (string, pyval) dict) call"
  da_cancel_all_orders :: "int option \<Rightarrow> ('w, (string, pyval) dict) call"

text \<open>
  The operations of the client as total functions: with a clock that sleeps, a policy that stops and the fuel of its
  attempts no operation runs out of fuel (\<open>rest_op_returns\<close>), so that the default of \<open>rest_total\<close> is never taken then.
\<close>

definition rest_total :: "('w, 'a) rest_op \<Rightarrow> 'w rest_client \<Rightarrow> 'a result \<times> 'w rest_client" where
  "rest_total m c = the_or (Inl RuntimeError, c) (m c)"

definition rest_api :: "'w rest_env \<Rightarrow> nat \<Rightarrow> 'w rest_client delta_api" where
  "rest_api env fuel =
     \<lparr>da_positions = rest_total (rest_get_positions env fuel),
      da_candles = (\<lambda>symbol resolution start stop. rest_total (rest_get_candles env fuel symbol resolution start stop)),
      da_ticker = (\<lambda>symbol. rest_total (rest_get_ticker env fuel symbol)),
      da_orders = (\<lambda>params. rest_total (rest_request env fuel (get_call ''/v2/orders'' params True))),
      da_place_order = (\<lambda>payload. rest_total (rest_place_order env fuel payload)),
      da_cancel_order = (\<lambda>oid coid pid. rest_total (rest_cancel_order env fuel oid coid pid)),
      da_cancel_all_orders = (\<lambda>pid. rest_total (rest_cancel_all_orders env fuel pid))\<rparr>"

definition op_returns :: "'w rest_client \<Rightarrow> ('w, 'a) rest_op \<Rightarrow> bool" where
  "op_returns c m \<longleftrightarrow> (\<exists>r c'. m c = Some (r, c') \<and> rest_total m c = (r, c') \<and> client_ok c')"

lemma rest_op_returns:
  assumes "env_ok m env" and "0 < m" and "client_ok c"
  shows "op_returns c (rest_get_positions env m)" "op_returns c (rest_get_candles env m symbol resolution start stop)"
    "op_returns c (rest_get_ticker env m symbol)" "op_returns c (rest_request env m (get_call path params signed))"
    "op_returns c (rest_place_order env m payload)" "op_returns c (rest_cancel_order env m oid coid pid)"
    "op_returns c (rest_cancel_all_orders env m pid)"
proof -
  have r: "op_returns c (rest_request env m q)" for q
    using rest_request_paid [OF assms, of q] by (auto simp: op_returns_def rest_total_def paid_def)
  have f: "op_returns c (rest_map f (rest_request env m q))" for f :: "(string, pyval) dict \<Rightarrow> 'b result" and q
    using r [of q] by (auto simp: op_returns_def rest_total_def rest_map_def)
  show "op_returns c (rest_cancel_order env m oid coid pid)"
  proof (cases "oid = None \<and> coid = None")
    case True
    then show ?thesis using assms(3) by (simp add: op_returns_def rest_total_def rest_cancel_order_def)
  next
    case False
    then obtain q where "rest_cancel_order env m oid coid pid c = rest_map dict_result (rest_request env m q) c"
      by (simp add: rest_cancel_order_def Let_def)
    with f [of dict_result q] show ?thesis by (simp add: op_returns_def rest_total_def)
  qed
  show "op_returns c (rest_get_positions env m)" "op_returns c (rest_get_candles env m symbol resolution start stop)"
    "op_returns c (rest_get_ticker env m symbol)" "op_returns c (rest_request env m (get_call path params signed))"
    "op_returns c (rest_place_order env m payload)" "op_returns c (rest_cancel_all_orders env m pid)"
    unfolding rest_get_positions_def rest_get_candles_def rest_get_ticker_def rest_place_order_def rest_cancel_all_orders_def
    by (rule f r)+
qed

definition keeps :: "('w \<Rightarrow> bool) \<Rightarrow> ('w, 'a) call \<Rightarrow> bool" where
  "keeps I m \<longleftrightarrow> (\<forall>w. I w \<longrightarrow> I (snd (m w)))"

lemma keepsD: "keeps I m \<Longrightarrow> I w \<Longrightarrow> m w = (r, w') \<Longrightarrow> I w'"
  by (metis keeps_def snd_conv)

lemma keeps_lift [keeps_intros]: "keeps I (c_lift r)"
  by (simp add: keeps_def)

lemma keeps_bind [keeps_intros]: "keeps I m \<Longrightarrow> (\<And>x. keeps I (f x)) \<Longrightarrow> keeps I (c_bind m f)"
  by (auto simp: keeps_def c_bind_def split: prod.split sum.split)

lemma keeps_try [keeps_intros]: "keeps I m \<Longrightarrow> keeps I (c_try m)"
  by (auto simp: keeps_def c_try_def split: prod.split sum.split py_error.split)

lemma keeps_fold [keeps_intros]: "(\<And>x s. keeps I (f x s)) \<Longrightarrow> keeps I (c_fold f xs s)"
  by (induction xs arbitrary: s) (auto intro: keeps_intros)

lemma keeps_if [keeps_intros]: "keeps I a \<Longrightarrow> keeps I b \<Longrightarrow> keeps I (if c then a else b)"
  by simp

lemma keeps_option [keeps_intros]: "keeps I a \<Longrightarrow> (\<And>x. keeps I (f x)) \<Longrightarrow> keeps I (case x of None \<Rightarrow> a | Some x \<Rightarrow> f x)"
  by (simp split: option.split)

lemma keeps_prod [keeps_intros]: "(\<And>a b. keeps I (f a b)) \<Longrightarrow> keeps I (case p of (a, b) \<Rightarrow> f a b)"
  by (simp split: prod.split)

locale reader =
  fixes api :: "'w delta_api" and I :: "'w \<Rightarrow> bool"
  assumes positions_keep: "keeps I (da_positions api)"
    and candles_keep: "keeps I (da_candles api symbol resolution start stop)"
    and ticker_keep: "keeps I (da_ticker api symbol)"
    and orders_keep: "keeps I (da_orders api params)"
begin

lemmas reads_keep = positions_keep candles_keep ticker_keep orders_keep keeps_intros

end

section \<open>The REST client only reads\<close>

text \<open>What the client has sent since the state \<open>c0\<close> are \<open>GET\<close> requests, none of them with the order budget.\<close>

definition is_read :: "bool \<times> http_request \<Rightarrow> bool" where
  "is_read p \<longleftrightarrow> \<not> fst p \<and> hr_method (snd p) = ''GET'' \<and> hr_content (snd p) = None"

definition only_reads :: "'w rest_client \<Rightarrow> 'w rest_client \<Rightarrow> bool" where
  "only_reads c0 c \<longleftrightarrow> (\<exists>new. rc_sent c = rc_sent c0 @ new \<and> list_all is_read new)"

lemma only_reads_refl [simp, intro]: "only_reads c c"
  by (simp add: only_reads_def)

lemma only_reads_trans: "only_reads a b \<Longrightarrow> only_reads b c \<Longrightarrow> only_reads a c"
  unfolding only_reads_def by (metis append.assoc list_all_append)

lemma only_reads_silent: "rc_sent c' = rc_sent c \<Longrightarrow> only_reads c c'"
  by (simp add: only_reads_def)

lemma get_attempt_reads:
  assumes "rest_attempt env (get_call path params signed) c = Some (a, c')"
  shows "only_reads c c'"
proof -
  let ?q = "get_call path params signed"
  have r: "is_read (call_is_order ?q, http_request_of env ?q h)" for h
    by (simp add: is_read_def http_request_of_def get_call_def call_body_def)
  from assms show ?thesis
    unfolding rest_attempt_def Let_def
    by (auto simp: only_reads_def r put_bucket_def split: sum.splits option.splits prod.splits)
qed

lemma get_loop_reads:
  "rest_loop env (get_call path params signed) fuel k c = Some (r, c') \<Longrightarrow> only_reads c c'"
proof (induction fuel arbitrary: k c)
  case (Suc fuel)
  let ?q = "get_call path params signed"
  obtain a c1 where a: "rest_attempt env ?q c = Some (a, c1)" using Suc.prems by (auto split: option.splits)
  note r1 = get_attempt_reads [OF a]
  show ?case
  proof (cases "a = Retryable \<and> re_policy env (Suc k) \<noteq> None")
    case True
    then obtain d where d: "re_policy env (Suc k) = Some d" by blast
    have "rest_loop env ?q fuel (Suc k) (c1\<lparr>rc_now := re_wake env (rc_now c1) d\<rparr>) = Some (r, c')"
      using Suc.prems a d True by simp
    from Suc.IH [OF this] have "only_reads c1 c'" by (simp add: only_reads_def)
    with r1 show ?thesis by (rule only_reads_trans)
  next
    case False
    with Suc.prems a have "c' = c1" by (cases a) auto
    with r1 show ?thesis by simp
  qed
qed simp

lemma total_reads:
  assumes "\<And>c r c'. m c = Some (r, c') \<Longrightarrow> only_reads c c'"
  shows "keeps (only_reads c0) (rest_total m)"
  unfolding keeps_def
proof (intro allI impI)
  fix w assume "only_reads c0 w"
  then show "only_reads c0 (snd (rest_total m w))"
    using assms [of w] only_reads_trans by (cases "m w") (auto simp: rest_total_def)
qed

lemma get_reads:
  "rest_map f (rest_request env fuel (get_call path params signed)) c = Some (r, c') \<Longrightarrow> only_reads c c'"
  "rest_request env fuel (get_call path params signed) c = Some (s, c') \<Longrightarrow> only_reads c c'"
  by (auto simp: rest_map_def rest_request_def split: option.splits dest: get_loop_reads)

interpretation rest_reader: reader "rest_api env fuel" "only_reads c0" for env fuel c0
  by unfold_locales
    (auto simp: rest_api_def rest_get_positions_def rest_get_candles_def rest_get_ticker_def intro!: total_reads dest: get_reads)

end
