(* ===== verification/Postmortem.thy ===== *)
theory Postmortem
  imports DeltaApi Exits Tables "HOL-Library.Sublist"
begin

text \<open>
  The post-mortem of directional trades (\<open>bot/analytics/directional_postmortem.py\<close>): the stored attempts, the spot
  path after each, and the stops of the positions open on the exchange.  \<open>off\<close> is the offset of the local time zone in
  microseconds: \<open>timestamp()\<close> of a naive time reads it as local time.  The texts of times that SQLite compares are
  compared as the times they denote; rows with equal times keep the order of their ids.  The Markdown reports and
  the wording of warnings are in \<open>StudyReports\<close>.
\<close>

section \<open>Attempts\<close>

definition UNDERLYING_CANDLE_SYMBOL :: "(string, string) dict" where
  "UNDERLYING_CANDLE_SYMBOL = [(''BTC'', ''BTCUSD''), (''ETH'', ''ETHUSD'')]"

definition FORWARD_BARS :: "nat list" where
  "FORWARD_BARS = [1, 2, 4, 8]"

record trade_attempt =
  ta_trade_id :: int
  ta_entry_ts :: datetime
  ta_underlying :: string
  ta_status :: string
  ta_mode :: string
  ta_error :: "string option"
  ta_symbol :: "string option"
  ta_strike :: "flt option"
  ta_premium :: "flt option"
  ta_option_type :: "string option"
  ta_spot :: "flt option"
  ta_ema_sep :: "flt option"
  ta_atr :: "flt option"
  ta_features :: "(string, pyval) dict"

definition option_type_from_symbol :: "string option \<Rightarrow> string option" where
  "option_type_from_symbol symbol =
     (case symbol of
        None \<Rightarrow> None
      | Some s \<Rightarrow> if prefix ''C-'' s then Some ''call'' else if prefix ''P-'' s then Some ''put'' else None)"

definition dict_of_json :: "(string, pyval) dict option \<Rightarrow> (string, pyval) dict" where
  "dict_of_json d = the_or [] d"

definition str_error :: "(string, pyval) dict \<Rightarrow> string option" where
  "str_error d = (case vget d ''error'' of VStr e \<Rightarrow> Some e | _ \<Rightarrow> None)"

definition signal_of :: "database \<Rightarrow> trade_row \<Rightarrow> signal_row option" where
  "signal_of db t = List.find (\<lambda>s. Some (s_id s) = t_signal_id t) (tb_signals db)"

definition attempt_of :: "(string \<Rightarrow> flt option) \<Rightarrow> database \<Rightarrow> trade_row \<Rightarrow> trade_attempt" where
  "attempt_of pf db t =
     (let s = signal_of db t;
          symb = map_option intended_symbol s;
          fv = (case s of None \<Rightarrow> [] | Some s \<Rightarrow> s_features s)
      in \<lparr>ta_trade_id = t_id t, ta_entry_ts = t_entry_ts t, ta_underlying = t_underlying t, ta_status = t_status t, ta_mode = t_mode t,
          ta_error = str_error (dict_of_json (t_notes t)), ta_symbol = symb,
          ta_strike = Option.bind s intended_strike, ta_premium = Option.bind s intended_premium_inr,
          ta_option_type = option_type_from_symbol symb, ta_spot = as_float pf (vget fv ''spot''),
          ta_ema_sep = as_float pf (vget fv ''ema_sep''), ta_atr = as_float pf (vget fv ''atr''), ta_features = fv\<rparr>)"

text \<open>A filter that is absent or the empty text is no filter.\<close>

definition text_is :: "string option \<Rightarrow> string \<Rightarrow> bool" where
  "text_is wanted s \<longleftrightarrow> (case wanted of None \<Rightarrow> True | Some x \<Rightarrow> x = [] \<or> s = x)"

definition entered_within :: "datetime option \<Rightarrow> datetime option \<Rightarrow> trade_row \<Rightarrow> bool" where
  "entered_within since until t \<longleftrightarrow>
     (case since of None \<Rightarrow> True | Some x \<Rightarrow> x \<le> t_entry_ts t) \<and> (case until of None \<Rightarrow> True | Some x \<Rightarrow> t_entry_ts t < x)"

definition load_attempts ::
  "(string \<Rightarrow> flt option) \<Rightarrow> database \<Rightarrow> datetime option \<Rightarrow> datetime option \<Rightarrow> string option \<Rightarrow> string option \<Rightarrow> trade_attempt list" where
  "load_attempts pf db since until mode status =
     map (attempt_of pf db)
       (sort_key t_entry_ts
         (filter (\<lambda>t. t_strategy_id t = ''directional'' \<and> entered_within since until t \<and> text_is mode (t_mode t) \<and> text_is status (t_status t))
           (tb_trades db)))"

text \<open>\<open>int(ts.timestamp())\<close>\<close>

definition epoch_of :: "int \<Rightarrow> datetime \<Rightarrow> int" where
  "epoch_of off t = trunc (of_int (t - off) / 1000000)"

definition attempt_key :: "int \<Rightarrow> int \<Rightarrow> trade_attempt \<Rightarrow> string \<times> string \<times> int" where
  "attempt_key off minutes a = (ta_underlying a, the_or [] (ta_symbol a), epoch_of off (ta_entry_ts a) div (minutes * 60))"

definition keep_attempt ::
  "int \<Rightarrow> int \<Rightarrow> trade_attempt \<Rightarrow> (string \<times> string \<times> int, trade_attempt) dict \<Rightarrow> (string \<times> string \<times> int, trade_attempt) dict" where
  "keep_attempt off minutes a seen =
     (case dict_get seen (attempt_key off minutes a) of
        None \<Rightarrow> dict_set (attempt_key off minutes a) a seen
      | Some b \<Rightarrow> if ta_trade_id a < ta_trade_id b then dict_set (attempt_key off minutes a) a seen else seen)"

definition dedupe_attempts :: "int \<Rightarrow> int \<Rightarrow> trade_attempt list \<Rightarrow> trade_attempt list" where
  "dedupe_attempts off minutes attempts = sort_key ta_entry_ts (dict_values (fold (keep_attempt off minutes) attempts []))"

section \<open>Candles\<close>

type_synonym candle_row = "(string, pyval) dict"

definition candle_time :: "candle_row \<Rightarrow> int" where
  "candle_time c =
     (case vget c ''time'' of VInt i \<Rightarrow> i | VBool b \<Rightarrow> (if b then 1 else 0) | VFlt x \<Rightarrow> trunc x | _ \<Rightarrow> 0)"

definition as_obj :: "pyval \<Rightarrow> (string, pyval) dict result" where
  "as_obj v = (case v of VDict d \<Rightarrow> Inr d | _ \<Rightarrow> Inl AttributeError)"

definition sorted_candles :: "pyval list \<Rightarrow> candle_row list result" where
  "sorted_candles rows = bind_result (map_result as_obj rows) (\<lambda>cs. Inr (sort_key candle_time cs))"

definition fetch_candles :: "'w delta_api \<Rightarrow> int \<Rightarrow> string \<Rightarrow> datetime \<Rightarrow> datetime \<Rightarrow> ('w, candle_row list) call" where
  "fetch_candles api off symbol start stop =
     c_bind (da_candles api symbol ''15m'' (epoch_of off start) (epoch_of off stop)) (\<lambda>rows. c_lift (sorted_candles rows))"

fun nearest_loop :: "int \<Rightarrow> nat \<Rightarrow> candle_row list \<Rightarrow> nat \<Rightarrow> int \<Rightarrow> nat" where
  "nearest_loop target i [] best_i best_d = best_i"
| "nearest_loop target i (c # cs) best_i best_d =
     (let d = \<bar>candle_time c - target\<bar>
      in if d < best_d then nearest_loop target (Suc i) cs i d else nearest_loop target (Suc i) cs best_i best_d)"

definition nearest_candle_index :: "int \<Rightarrow> candle_row list \<Rightarrow> datetime \<Rightarrow> nat option" where
  "nearest_candle_index off cs entry_ts =
     (case cs of
        [] \<Rightarrow> None
      | c # _ \<Rightarrow> let target = epoch_of off entry_ts in Some (nearest_loop target 0 cs 0 \<bar>candle_time c - target\<bar>))"

text \<open>\<open>float(c.get(k) or default)\<close>\<close>

definition price_or :: "(string \<Rightarrow> flt option) \<Rightarrow> candle_row \<Rightarrow> string \<Rightarrow> flt \<Rightarrow> flt result" where
  "price_or pf c k x = float_of pf (py_or (vget c k) (VFlt x))"

section \<open>The spot path after an attempt\<close>

definition spot_favorable :: "string option \<Rightarrow> flt \<Rightarrow> string" where
  "spot_favorable option_type ret =
     (if option_type \<noteq> Some ''call'' \<and> option_type \<noteq> Some ''put'' then ''unknown''
      else if \<bar>ret\<bar> * 100 < 5 then ''flat''
      else if option_type = Some ''call'' then (if ret > 0 then ''favorable'' else ''adverse'')
      else (if ret < 0 then ''favorable'' else ''adverse''))"

record excursion =
  xc_spot_at :: "(nat, flt) dict"
  xc_ret_at :: "(nat, flt) dict"
  xc_mfe :: flt
  xc_mae :: flt

record movement_row =
  mv_attempt :: trade_attempt
  mv_entry_spot :: flt
  mv_spot_at_bar :: "(nat, flt) dict"
  mv_ret_pct_at_bar :: "(nat, flt) dict"
  mv_mfe_pct :: flt
  mv_mae_pct :: flt
  mv_verdict_60m :: string

definition movement_bar :: "string option \<Rightarrow> flt \<Rightarrow> nat \<Rightarrow> flt \<Rightarrow> flt \<Rightarrow> flt \<Rightarrow> excursion \<Rightarrow> excursion" where
  "movement_bar option_type entry_spot fwd close high low x =
     (let x1 = (if fwd \<in> set FORWARD_BARS
                then x\<lparr>xc_spot_at := dict_set fwd close (xc_spot_at x),
                       xc_ret_at := dict_set fwd ((close - entry_spot) / entry_spot) (xc_ret_at x)\<rparr>
                else x);
          ret_high = (high - entry_spot) / entry_spot; ret_low = (low - entry_spot) / entry_spot
      in if option_type = Some ''call'' then x1\<lparr>xc_mfe := max (xc_mfe x) ret_high, xc_mae := min (xc_mae x) ret_low\<rparr>
         else if option_type = Some ''put'' then x1\<lparr>xc_mfe := max (xc_mfe x) (- ret_low), xc_mae := min (xc_mae x) (- ret_high)\<rparr>
         else x1\<lparr>xc_mfe := max (max (xc_mfe x) \<bar>ret_high\<bar>) \<bar>ret_low\<bar>\<rparr>)"

fun movement_loop :: "(string \<Rightarrow> flt option) \<Rightarrow> string option \<Rightarrow> flt \<Rightarrow> nat \<Rightarrow> candle_row list \<Rightarrow> excursion \<Rightarrow> excursion result" where
  "movement_loop pf option_type entry_spot fwd [] x = Inr x"
| "movement_loop pf option_type entry_spot fwd (c # cs) x =
     bind_result (price_or pf c ''close'' entry_spot) (\<lambda>close.
     bind_result (price_or pf c ''high'' close) (\<lambda>high.
     bind_result (price_or pf c ''low'' close) (\<lambda>low.
       movement_loop pf option_type entry_spot (Suc fwd) cs (movement_bar option_type entry_spot fwd close high low x))))"

text \<open>The candles after index \<open>idx\<close>, as far as the last forward bar.\<close>

definition forward_candles :: "nat \<Rightarrow> candle_row list \<Rightarrow> candle_row list" where
  "forward_candles idx cs = take (Max (set FORWARD_BARS)) (drop (Suc idx) cs)"

definition entry_spot_of ::
  "(string \<Rightarrow> flt option) \<Rightarrow> int \<Rightarrow> flt option \<Rightarrow> candle_row list \<Rightarrow> datetime \<Rightarrow> flt option result" where
  "entry_spot_of pf off signalled cs entry_ts =
     (if (case signalled of None \<Rightarrow> True | Some s \<Rightarrow> s \<le> 0)
      then (case nearest_candle_index off cs entry_ts of
              None \<Rightarrow> Inr None
            | Some i \<Rightarrow> bind_result (price_or pf (cs ! i) ''close'' 0) (\<lambda>x. Inr (Some x)))
      else Inr signalled)"

definition analyze_movement ::
  "(string \<Rightarrow> flt option) \<Rightarrow> int \<Rightarrow> trade_attempt \<Rightarrow> candle_row list \<Rightarrow> movement_row option result" where
  "analyze_movement pf off a cs =
     bind_result (entry_spot_of pf off (ta_spot a) cs (ta_entry_ts a)) (\<lambda>found.
       case (found, nearest_candle_index off cs (ta_entry_ts a)) of
         (Some entry_spot, Some idx) \<Rightarrow>
           if entry_spot \<le> 0 then Inr None
           else
             bind_result
               (movement_loop pf (ta_option_type a) entry_spot 1 (forward_candles idx cs)
                 \<lparr>xc_spot_at = [], xc_ret_at = [], xc_mfe = 0, xc_mae = 0\<rparr>)
               (\<lambda>x. Inr (Some
                  \<lparr>mv_attempt = a, mv_entry_spot = entry_spot, mv_spot_at_bar = xc_spot_at x, mv_ret_pct_at_bar = xc_ret_at x,
                   mv_mfe_pct = xc_mfe x * 100, mv_mae_pct = xc_mae x * 100,
                   mv_verdict_60m = spot_favorable (ta_option_type a) (the_or 0 (dict_get (xc_ret_at x) 4))\<rparr>))
       | _ \<Rightarrow> Inr None)"

section \<open>Orders of a trade on the exchange\<close>

text \<open>\<open>sub in s\<close>\<close>

definition py_in :: "string \<Rightarrow> string \<Rightarrow> bool" where
  "py_in sub s \<longleftrightarrow> list_ex (prefix sub) (suffixes s)"

text \<open>The rows of \<open>env.get("result") or []\<close>, a single object being one row.\<close>

definition order_rows :: "(string, pyval) dict \<Rightarrow> pyval list result" where
  "order_rows d =
     (case py_or (vget d ''result'') (VList []) of
        VDict o1 \<Rightarrow> Inr [VDict o1] | VList rows \<Rightarrow> Inr rows | VStr s \<Rightarrow> Inr (map (\<lambda>c. VStr [c]) s) | _ \<Rightarrow> Inl TypeError)"

definition coid_of :: "py_env \<Rightarrow> (string, pyval) dict \<Rightarrow> string" where
  "coid_of env ord = py_str env (py_or (vget ord ''client_order_id'') (VStr []))"

definition belongs_to :: "py_env \<Rightarrow> int \<Rightarrow> (string, pyval) dict \<Rightarrow> bool" where
  "belongs_to env tid ord \<longleftrightarrow> prefix ''dr-'' (coid_of env ord) \<and> py_in (''-'' @ str_of_int tid @ ''-'') (coid_of env ord)"

definition objects_of :: "pyval list \<Rightarrow> (string, pyval) dict list" where
  "objects_of rows = List.map_filter (\<lambda>v. case v of VDict d \<Rightarrow> Some d | _ \<Rightarrow> None) rows"

definition fetch_delta_orders_for_trade :: "py_env \<Rightarrow> 'w delta_api \<Rightarrow> int \<Rightarrow> ('w, (string, pyval) dict list) call" where
  "fetch_delta_orders_for_trade env api tid =
     c_fold (\<lambda>params found.
       c_bind (c_try (da_orders api params)) (\<lambda>answer.
         case answer of
           None \<Rightarrow> c_lift (Inr found)
         | Some d \<Rightarrow> c_lift (bind_result (order_rows d) (\<lambda>rows. Inr (found @ filter (belongs_to env tid) (objects_of rows))))))
       [[(''state'', ''open'')], [(''state'', ''closed'')], []] []"

section \<open>The report on the attempts\<close>

datatype warning =
    PositionsFailed
  | UnknownUnderlying int string
  | CandlesFailed string
  | OrdersFailed int
  | TickerFailed string
  | OptionTickerFailed string

record postmortem_report =
  pr_attempts_loaded :: nat
  pr_attempts_analyzed :: nat
  pr_movement_rows :: "movement_row list"
  pr_exchange_orders :: "(int, (string, pyval) dict list) dict"
  pr_positions :: "(string, pyval) dict list"
  pr_errors :: "warning list"

text \<open>The candles of a window are cached under the symbol and the dates of its ends.\<close>

type_synonym candle_cache = "(string \<times> date \<times> date, candle_row list) dict"

record study =
  sy_rows :: "movement_row list"
  sy_orders :: "(int, (string, pyval) dict list) dict"
  sy_errors :: "warning list"
  sy_cache :: candle_cache

definition window_start :: "trade_attempt \<Rightarrow> datetime" where "window_start a = ta_entry_ts a - 2 * hour_us"
definition window_end :: "trade_attempt \<Rightarrow> datetime" where "window_end a = ta_entry_ts a + 3 * hour_us"

text \<open>Reading through the cache: a failed fetch warns and caches no candles.\<close>

definition cached_candles ::
  "'w delta_api \<Rightarrow> int \<Rightarrow> 'e \<Rightarrow> string \<Rightarrow> datetime \<Rightarrow> datetime \<Rightarrow> candle_cache \<times> 'e list \<Rightarrow>
   ('w, candle_cache \<times> 'e list) call" where
  "cached_candles api off warn symbol start stop s =
     (let key = (symbol, date_of start, date_of stop)
      in if dict_get (fst s) key \<noteq> None then c_lift (Inr s)
         else c_bind (c_try (fetch_candles api off symbol start stop)) (\<lambda>answer.
           c_lift (Inr (case answer of
             None \<Rightarrow> (dict_set key [] (fst s), snd s @ [warn]) | Some cs \<Rightarrow> (dict_set key cs (fst s), snd s)))))"

definition size_of :: "py_env \<Rightarrow> (string, pyval) dict \<Rightarrow> flt result" where
  "size_of env p = float_of (env_float env) (py_or (vget p ''size'') (VInt 0))"

text \<open>The positions whose size is not zero.\<close>

definition open_positions :: "py_env \<Rightarrow> pyval list \<Rightarrow> (string, pyval) dict list result" where
  "open_positions env rows =
     bind_result (map_result as_obj rows) (\<lambda>ps.
     bind_result (map_result (size_of env) ps) (\<lambda>sizes.
       Inr (map fst (filter (\<lambda>q. snd q \<noteq> 0) (zip ps sizes)))))"

definition study_attempt :: "py_env \<Rightarrow> 'w delta_api \<Rightarrow> int \<Rightarrow> bool \<Rightarrow> trade_attempt \<Rightarrow> study \<Rightarrow> ('w, study) call" where
  "study_attempt env api off fetch_exchange a s =
     (case dict_get UNDERLYING_CANDLE_SYMBOL (ta_underlying a) of
        None \<Rightarrow> c_lift (Inr (s\<lparr>sy_errors := sy_errors s @ [UnknownUnderlying (ta_trade_id a) (ta_underlying a)]\<rparr>))
      | Some symb \<Rightarrow>
          c_bind (cached_candles api off (CandlesFailed symb) symb (window_start a) (window_end a) (sy_cache s, sy_errors s)) (\<lambda>(cache, errs).
          c_bind (c_lift (analyze_movement (env_float env) off a
                    (the_or [] (dict_get cache (symb, date_of (window_start a), date_of (window_end a)))))) (\<lambda>row.
            let s1 = s\<lparr>sy_cache := cache, sy_errors := errs, sy_rows := sy_rows s @ (case row of None \<Rightarrow> [] | Some r \<Rightarrow> [r])\<rparr>
            in if fetch_exchange \<and> 1000 \<le> ta_trade_id a
               then c_bind (c_try (fetch_delta_orders_for_trade env api (ta_trade_id a))) (\<lambda>answer.
                      c_lift (Inr (case answer of
                        None \<Rightarrow> s1\<lparr>sy_errors := sy_errors s1 @ [OrdersFailed (ta_trade_id a)]\<rparr>
                      | Some orders \<Rightarrow>
                          if orders = [] then s1 else s1\<lparr>sy_orders := dict_set (ta_trade_id a) orders (sy_orders s1)\<rparr>)))
               else c_lift (Inr s1))))"

definition selected_attempts ::
  "py_env \<Rightarrow> int \<Rightarrow> database \<Rightarrow> datetime option \<Rightarrow> datetime option \<Rightarrow> string \<Rightarrow> string option \<Rightarrow> bool \<Rightarrow> int \<Rightarrow> trade_attempt list" where
  "selected_attempts env off db since until mode status dedupe max_samples =
     (let loaded = load_attempts (env_float env) db since until (Some mode) status;
          kept = (if dedupe then dedupe_attempts off 15 loaded else loaded)
      in if 0 < max_samples \<and> max_samples < int (length kept) then py_slice_from kept (- max_samples) else kept)"

definition build_report ::
  "py_env \<Rightarrow> 'w delta_api \<Rightarrow> int \<Rightarrow> database \<Rightarrow> datetime option \<Rightarrow> datetime option \<Rightarrow> string \<Rightarrow> string option \<Rightarrow> bool \<Rightarrow> int \<Rightarrow> bool \<Rightarrow>
   ('w, postmortem_report) call" where
  "build_report env api off db since until mode status dedupe max_samples fetch_exchange =
     (let attempts = selected_attempts env off db since until mode status dedupe max_samples
      in c_bind
           (if fetch_exchange
            then c_bind (c_try (da_positions api)) (\<lambda>answer.
                   case answer of
                     None \<Rightarrow> c_lift (Inr ([], [PositionsFailed]))
                   | Some rows \<Rightarrow> c_lift (bind_result (open_positions env rows) (\<lambda>ps. Inr (ps, []))))
            else c_lift (Inr ([], [])))
           (\<lambda>(positions, errs).
              c_bind (c_fold (study_attempt env api off fetch_exchange) attempts
                        \<lparr>sy_rows = [], sy_orders = [], sy_errors = errs, sy_cache = []\<rparr>)
                (\<lambda>s. c_lift (Inr
                   \<lparr>pr_attempts_loaded = length attempts, pr_attempts_analyzed = length (sy_rows s), pr_movement_rows = sy_rows s,
                    pr_exchange_orders = sy_orders s, pr_positions = positions, pr_errors = sy_errors s\<rparr>))))"

section \<open>The report on the open positions\<close>

definition is_bot_option_symbol :: "string \<Rightarrow> bool" where
  "is_bot_option_symbol symbol \<longleftrightarrow>
     (case split_on (CHR ''-'') symbol of
        kind # und # _ # _ # _ \<Rightarrow> kind \<in> {''C'', ''P''} \<and> und \<in> {''BTC'', ''ETH''}
      | _ \<Rightarrow> False)"

text \<open>\<open>LIKE\<close> of SQLite: \<open>%\<close> is any text, \<open>_\<close> any character, and the case of ASCII letters does not matter.\<close>

fun sql_like :: "string \<Rightarrow> string \<Rightarrow> bool" where
  "sql_like [] s = (s = [])"
| "sql_like (p # ps) s =
     (if p = CHR ''%'' then list_ex (sql_like ps) (suffixes s)
      else case s of [] \<Rightarrow> False | c # cs \<Rightarrow> (p = CHR ''_'' \<or> lower_char p = lower_char c) \<and> sql_like ps cs)"

text \<open>The newest directional trade whose signal meets a condition on its symbol.\<close>

definition newest_trade :: "database \<Rightarrow> (string \<Rightarrow> bool) \<Rightarrow> (trade_row \<times> signal_row) option" where
  "newest_trade db P =
     (let rows = List.map_filter (\<lambda>t.
                   if t_strategy_id t = ''directional''
                   then (case signal_of db t of Some s \<Rightarrow> if P (intended_symbol s) then Some (t, s) else None | None \<Rightarrow> None)
                   else None) (tb_trades db)
      in case sort_key (\<lambda>r. - t_entry_ts (fst r)) rows of [] \<Rightarrow> None | r # _ \<Rightarrow> Some r)"

definition find_trade_for_symbol :: "database \<Rightarrow> string \<Rightarrow> (trade_row \<times> signal_row) option" where
  "find_trade_for_symbol db symbol =
     (case newest_trade db (\<lambda>s. s = symbol) of
        Some r \<Rightarrow> Some r
      | None \<Rightarrow>
          (case split_on (CHR ''-'') symbol of
             _ # und # strike # _ \<Rightarrow> newest_trade db (sql_like (''%-'' @ und @ ''-'' @ strike @ ''-%''))
           | _ \<Rightarrow> None))"

definition explain_entry_from_features :: "py_env \<Rightarrow> (string, pyval) dict \<Rightarrow> string option \<Rightarrow> string" where
  "explain_entry_from_features env fv option_type =
     (let get = (\<lambda>k. as_float (env_float env) (vget fv k));
          setup = (\<lambda>k test. if vget fv k = VNone
                            then (case (get ''ema_sep'', get ''threshold'') of (Some e, Some t) \<Rightarrow> test e t | _ \<Rightarrow> False)
                            else truthy (vget fv k));
          parts =
            (if option_type = Some ''call'' \<or> setup ''long_setup'' (\<lambda>e t. e > t)
             then [''**Long breakout (call):** 15m EMA9>EMA21 by >= breakout x ATR and close above 4-bar high + threshold.'']
             else if option_type = Some ''put'' \<or> setup ''short_setup'' (\<lambda>e t. e < - t)
             then [''**Short breakout (put):** 15m EMA9<EMA21 by >= breakout x ATR and close below 4-bar low - threshold.'']
             else []) @
            (case (get ''ema_sep'', get ''threshold'') of
               (Some e, Some t) \<Rightarrow>
                 [''At signal: ema_sep='' @ fmt_fixed 2 e @ '', threshold='' @ fmt_fixed 2 t @ '' (~0.35 x ATR).'']
             | _ \<Rightarrow> []) @
            (case get ''atr'' of Some a \<Rightarrow> [''ATR(14)='' @ fmt_fixed 2 a @ ''.''] | None \<Rightarrow> []) @
            (case (get ''latest_close'', get ''prior_high'', get ''prior_low'') of
               (Some c, Some h, Some l) \<Rightarrow>
                 [''Close='' @ fmt_fixed 2 c @ '', prior_high='' @ fmt_fixed 2 h @ '', prior_low='' @ fmt_fixed 2 l @ ''.'']
             | _ \<Rightarrow> []) @
            (if vget fv ''iv_percentile'' = VNone then [] else [''IV percentile='' @ py_str env (vget fv ''iv_percentile'') @ ''.''])
      in if parts = [] then ''No feature_vector stored on signal.'' else join_text '' '' parts)"

definition underlying_sl_metrics :: "string \<Rightarrow> flt \<Rightarrow> flt \<Rightarrow> flt \<Rightarrow> flt \<Rightarrow> flt \<times> flt \<times> flt \<times> bool" where
  "underlying_sl_metrics option_type entry_spot atr_value spot_now atr_mult =
     (let threshold = atr_mult * atr_value;
          adverse = (if option_type = ''call'' then entry_spot - spot_now else spot_now - entry_spot)
      in (adverse, threshold, threshold - adverse, adverse \<ge> threshold))"

text \<open>What the report says of the management of a position.\<close>

datatype execution_note = NoteErrored | NoteOpen | NoteUntracked

definition execution_note_of :: "string option \<Rightarrow> execution_note" where
  "execution_note_of status =
     (if status = Some ''errored'' then NoteErrored else if status = Some ''open'' then NoteOpen else NoteUntracked)"

record skipped_position =
  sk_product_symbol :: string
  sk_size :: flt
  sk_entry_price :: "flt option"
  sk_unrealized_pnl :: "flt option"

record open_position_row =
  op_product_symbol :: string
  op_size :: flt
  op_exchange_entry_price :: "flt option"
  op_unrealized_pnl :: "flt option"
  op_trade_id :: "int option"
  op_trade_status :: "string option"
  op_trade_error :: "string option"
  op_entry_ts :: "datetime option"
  op_underlying :: "string option"
  op_option_type :: "string option"
  op_signal_spot :: "flt option"
  op_signal_atr :: "flt option"
  op_entry_reason :: string
  op_execution_note :: execution_note
  op_current_spot :: "flt option"
  op_adverse_move :: "flt option"
  op_underlying_sl_atr :: "flt option"
  op_underlying_sl_room :: "flt option"
  op_at_underlying_sl :: bool
  op_option_mark :: "flt option"
  op_premium_dd_pct :: "flt option"
  op_at_premium_sl :: bool
  op_exchange_orders :: "(string, pyval) dict list"

definition stop_limits :: "strategy_config list \<Rightarrow> flt \<times> flt \<Rightarrow> flt \<times> flt" where
  "stop_limits configs defaults =
     (case List.find (\<lambda>c. case c of DirectionalConfig d \<Rightarrow> cfg_id (dir_base d) = DIRECTIONAL | _ \<Rightarrow> False) configs of
        Some (DirectionalConfig d) \<Rightarrow> (premium_drawdown_pct (dir_exits d), underlying_atr_mult_stop (dir_exits d))
      | _ \<Rightarrow> defaults)"

definition symbol_text :: "py_env \<Rightarrow> (string, pyval) dict \<Rightarrow> string" where
  "symbol_text env p = py_str env (py_or (vget p ''product_symbol'') (VStr []))"

definition underlying_in :: "string \<Rightarrow> string option" where
  "underlying_in symb = (if py_in ''BTC'' symb then Some ''BTC'' else if py_in ''ETH'' symb then Some ''ETH'' else None)"

text \<open>The mark of a ticker: \<open>_as_float(t.get(a) or t.get(b))\<close>; a failed call warns.\<close>

definition ticker_price ::
  "py_env \<Rightarrow> 'w delta_api \<Rightarrow> warning \<Rightarrow> string \<Rightarrow> string \<Rightarrow> ('w, flt option \<times> warning list) call" where
  "ticker_price env api warn symbol other =
     c_bind (c_try (da_ticker api symbol)) (\<lambda>answer.
       c_lift (Inr (case answer of
         None \<Rightarrow> (None, [warn])
       | Some t \<Rightarrow> (as_float (env_float env) (py_or (vget t ''mark_price'') (vget t other)), []))))"

definition premium_stop :: "flt \<Rightarrow> flt option \<Rightarrow> flt option \<Rightarrow> flt option \<times> bool" where
  "premium_stop dd entry mark =
     (case (entry, mark) of
        (Some e, Some x) \<Rightarrow> if 0 < e then (Some ((e - x) / e * 100), x \<le> e * (1 - dd)) else (None, False)
      | _ \<Rightarrow> (None, False))"

definition position_row ::
  "py_env \<Rightarrow> 'w delta_api \<Rightarrow> database \<Rightarrow> flt \<Rightarrow> flt \<Rightarrow> (string, pyval) dict \<Rightarrow> open_position_row list \<times> warning list \<Rightarrow>
   ('w, open_position_row list \<times> warning list) call" where
  "position_row env api db dd stop_mult p acc =
     c_bind (c_lift (size_of env p)) (\<lambda>size_value.
       let symb = symbol_text env p;
           opt = option_type_from_symbol (Some symb);
           und = underlying_in symb;
           entry = as_float (env_float env) (vget p ''entry_price'');
           row = (if symb = [] then None else find_trade_for_symbol db symb);
           trade = map_option fst row;
           fv = (case row of None \<Rightarrow> [] | Some (t, s) \<Rightarrow> s_features s);
           sig_spot = as_float (env_float env) (vget fv ''spot'');
           sig_atr = as_float (env_float env) (vget fv ''atr'')
       in
         c_bind (case dict_get UNDERLYING_CANDLE_SYMBOL (the_or [] und) of
                   None \<Rightarrow> c_lift (Inr (None, []))
                 | Some u \<Rightarrow> ticker_price env api (TickerFailed u) u ''spot_price'') (\<lambda>(current, errs1).
         c_bind (if symb = [] then c_lift (Inr (None, []))
                 else ticker_price env api (OptionTickerFailed symb) symb ''close'') (\<lambda>(mark, errs2).
         c_bind (case trade of
                   None \<Rightarrow> c_lift (Inr ([], []))
                 | Some t \<Rightarrow> c_bind (c_try (fetch_delta_orders_for_trade env api (t_id t))) (\<lambda>answer.
                     c_lift (Inr (case answer of None \<Rightarrow> ([], [OrdersFailed (t_id t)]) | Some orders \<Rightarrow> (orders, []))))) (\<lambda>(orders, errs3).
           let metrics = (case (opt, sig_spot, sig_atr, current) of
                            (Some o1, Some s1, Some a1, Some c1) \<Rightarrow> Some (underlying_sl_metrics o1 s1 a1 c1 stop_mult)
                          | _ \<Rightarrow> None);
               prem = premium_stop dd entry mark
           in c_lift (Inr
                (fst acc @
                 [\<lparr>op_product_symbol = symb, op_size = size_value, op_exchange_entry_price = entry,
                   op_unrealized_pnl = as_float (env_float env) (vget p ''unrealized_pnl''),
                   op_trade_id = map_option t_id trade, op_trade_status = map_option t_status trade,
                   op_trade_error = Option.bind trade (\<lambda>t. str_error (dict_of_json (t_notes t))),
                   op_entry_ts = map_option t_entry_ts trade, op_underlying = und, op_option_type = opt,
                   op_signal_spot = sig_spot, op_signal_atr = sig_atr,
                   op_entry_reason = explain_entry_from_features env fv opt,
                   op_execution_note = execution_note_of (map_option t_status trade), op_current_spot = current,
                   op_adverse_move = map_option fst metrics, op_underlying_sl_atr = map_option (fst \<circ> snd) metrics,
                   op_underlying_sl_room = map_option (fst \<circ> snd \<circ> snd) metrics,
                   op_at_underlying_sl = (case metrics of None \<Rightarrow> False | Some x \<Rightarrow> snd (snd (snd x))),
                   op_option_mark = mark, op_premium_dd_pct = fst prem, op_at_premium_sl = snd prem,
                   op_exchange_orders = orders\<rparr>],
                 snd acc @ errs1 @ errs2 @ errs3))))))"

definition skipped_row :: "py_env \<Rightarrow> (string, pyval) dict \<Rightarrow> skipped_position result" where
  "skipped_row env p =
     bind_result (size_of env p) (\<lambda>size_value.
       Inr \<lparr>sk_product_symbol = symbol_text env p, sk_size = size_value,
            sk_entry_price = as_float (env_float env) (vget p ''entry_price''),
            sk_unrealized_pnl = as_float (env_float env) (vget p ''unrealized_pnl'')\<rparr>)"

definition build_open_positions_report ::
  "py_env \<Rightarrow> 'w delta_api \<Rightarrow> database \<Rightarrow> strategy_config result list \<Rightarrow> flt \<Rightarrow> flt \<Rightarrow> bool \<Rightarrow>
   ('w, open_position_row list \<times> skipped_position list \<times> warning list) call" where
  "build_open_positions_report env api db validated dd0 stop_mult0 options_only =
     c_bind (c_lift (load_strategy_configs validated)) (\<lambda>configs.
       let (dd, stop_mult) = stop_limits configs (dd0, stop_mult0)
       in c_bind (c_try (da_positions api)) (\<lambda>answer.
            case answer of
              None \<Rightarrow> c_lift (Inr ([], [], [PositionsFailed]))
            | Some rows \<Rightarrow>
                c_bind (c_lift (open_positions env rows)) (\<lambda>ps.
                  let out = (\<lambda>p. options_only \<and> \<not> is_bot_option_symbol (symbol_text env p))
                  in c_bind (c_lift (map_result (skipped_row env) (filter out ps))) (\<lambda>skipped.
                     c_bind (c_fold (position_row env api db dd stop_mult) (filter (\<lambda>p. \<not> out p) ps) ([], [])) (\<lambda>(done_rows, errs).
                       c_lift (Inr (done_rows, skipped, errs)))))))"

section \<open>Properties: attempts and candles\<close>

lemma nearest_loop_spec:
  assumes "best_i < i" and "i + length cs = n"
  shows "nearest_loop target i cs best_i best_d < n \<and>
    (nearest_loop target i cs best_i best_d = best_i \<and> (\<forall>c \<in> set cs. best_d \<le> \<bar>candle_time c - target\<bar>) \<or>
     (\<exists>k < length cs. nearest_loop target i cs best_i best_d = i + k \<and> \<bar>candle_time (cs ! k) - target\<bar> < best_d \<and>
        (\<forall>c \<in> set cs. \<bar>candle_time (cs ! k) - target\<bar> \<le> \<bar>candle_time c - target\<bar>)))"
  using assms
proof (induction cs arbitrary: i best_i best_d)
  case (Cons c cs)
  let ?d = "\<bar>candle_time c - target\<bar>"
  show ?case
  proof (cases "?d < best_d")
    case True
    have "nearest_loop target (Suc i) cs i ?d < n \<and>
      (nearest_loop target (Suc i) cs i ?d = i \<and> (\<forall>c \<in> set cs. ?d \<le> \<bar>candle_time c - target\<bar>) \<or>
       (\<exists>k < length cs. nearest_loop target (Suc i) cs i ?d = Suc i + k \<and> \<bar>candle_time (cs ! k) - target\<bar> < ?d \<and>
          (\<forall>c \<in> set cs. \<bar>candle_time (cs ! k) - target\<bar> \<le> \<bar>candle_time c - target\<bar>)))"
      using Cons.prems by (intro Cons.IH) auto
    then show ?thesis
    proof (elim conjE disjE exE)
      assume a: "nearest_loop target (Suc i) cs i ?d = i" "\<forall>c \<in> set cs. ?d \<le> \<bar>candle_time c - target\<bar>"
      with True Cons.prems show ?thesis by (simp add: Let_def)
    next
      fix k assume k: "k < length cs" "nearest_loop target (Suc i) cs i ?d = Suc i + k" "\<bar>candle_time (cs ! k) - target\<bar> < ?d"
        "\<forall>c \<in> set cs. \<bar>candle_time (cs ! k) - target\<bar> \<le> \<bar>candle_time c - target\<bar>"
      with True Cons.prems show ?thesis by (simp add: Let_def)
    qed
  next
    case False
    have "nearest_loop target (Suc i) cs best_i best_d < n \<and>
      (nearest_loop target (Suc i) cs best_i best_d = best_i \<and> (\<forall>c \<in> set cs. best_d \<le> \<bar>candle_time c - target\<bar>) \<or>
       (\<exists>k < length cs. nearest_loop target (Suc i) cs best_i best_d = Suc i + k \<and> \<bar>candle_time (cs ! k) - target\<bar> < best_d \<and>
          (\<forall>c \<in> set cs. \<bar>candle_time (cs ! k) - target\<bar> \<le> \<bar>candle_time c - target\<bar>)))"
      using Cons.prems by (intro Cons.IH) auto
    then show ?thesis
    proof (elim conjE disjE exE)
      fix k assume k: "nearest_loop target (Suc i) cs best_i best_d < n" "k < length cs" "nearest_loop target (Suc i) cs best_i best_d = Suc i + k"
        "\<bar>candle_time (cs ! k) - target\<bar> < best_d"
        "\<forall>c \<in> set cs. \<bar>candle_time (cs ! k) - target\<bar> \<le> \<bar>candle_time c - target\<bar>"
      with False Cons.prems show ?thesis by (simp add: Let_def)
    qed (use False Cons.prems in simp)
  qed
qed simp

lemma nearest_is_nearest:
  assumes "nearest_candle_index off cs ts = Some i"
  shows "i < length cs" and "\<And>c. c \<in> set cs \<Longrightarrow> \<bar>candle_time (cs ! i) - epoch_of off ts\<bar> \<le> \<bar>candle_time c - epoch_of off ts\<bar>"
proof -
  obtain c0 rest where cs: "cs = c0 # rest" using assms by (cases cs) (auto simp: nearest_candle_index_def)
  let ?t = "epoch_of off ts" let ?d = "\<bar>candle_time c0 - ?t\<bar>"
  have i: "i = nearest_loop ?t 1 rest 0 ?d" using assms by (simp add: nearest_candle_index_def cs Let_def)
  have s: "i < length cs \<and> (i = 0 \<and> (\<forall>c \<in> set rest. ?d \<le> \<bar>candle_time c - ?t\<bar>) \<or>
     (\<exists>k < length rest. i = 1 + k \<and> \<bar>candle_time (rest ! k) - ?t\<bar> < ?d \<and> (\<forall>c \<in> set rest. \<bar>candle_time (rest ! k) - ?t\<bar> \<le> \<bar>candle_time c - ?t\<bar>)))"
    unfolding i by (rule nearest_loop_spec) (simp_all add: cs)
  then show "i < length cs" by blast
  from s show "\<And>c. c \<in> set cs \<Longrightarrow> \<bar>candle_time (cs ! i) - ?t\<bar> \<le> \<bar>candle_time c - ?t\<bar>"
    by (auto simp: cs)
qed

text \<open>The least trade id of every key survives.\<close>

definition deduped :: "int \<Rightarrow> int \<Rightarrow> trade_attempt list \<Rightarrow> (string \<times> string \<times> int, trade_attempt) dict \<Rightarrow> bool" where
  "deduped off minutes as seen \<longleftrightarrow> dict_wf seen \<and>
     (\<forall>k a. dict_get seen k = Some a \<longrightarrow> a \<in> set as \<and> attempt_key off minutes a = k \<and>
        (\<forall>b \<in> set as. attempt_key off minutes b = k \<longrightarrow> ta_trade_id a \<le> ta_trade_id b)) \<and>
     (\<forall>b \<in> set as. dict_get seen (attempt_key off minutes b) \<noteq> None)"

lemma keep_attempt_deduped:
  assumes "deduped off minutes as seen"
  shows "deduped off minutes (as @ [a]) (keep_attempt off minutes a seen)"
proof (cases "dict_get seen (attempt_key off minutes a)")
  case None
  with assms show ?thesis by (fastforce simp: keep_attempt_def deduped_def)
next
  case (Some b)
  with assms have b: "b \<in> set as" "attempt_key off minutes b = attempt_key off minutes a"
    "\<And>c. c \<in> set as \<Longrightarrow> attempt_key off minutes c = attempt_key off minutes a \<Longrightarrow> ta_trade_id b \<le> ta_trade_id c"
    unfolding deduped_def by blast+
  show ?thesis
  proof (cases "ta_trade_id a < ta_trade_id b")
    case True
    with Some assms b(3) show ?thesis by (fastforce simp: keep_attempt_def deduped_def)
  next
    case False
    with Some assms b show ?thesis by (auto simp: keep_attempt_def deduped_def)
  qed
qed

lemma fold_keep_deduped: "deduped off minutes as (fold (keep_attempt off minutes) as [])"
  by (induction as rule: rev_induct) (simp_all add: keep_attempt_deduped, simp add: deduped_def)

lemma dict_values_iff: "dict_wf d \<Longrightarrow> v \<in> set (dict_values d) \<longleftrightarrow> (\<exists>k. dict_get d k = Some v)"
  by (force simp: dict_values_def dict_get_iff)

section \<open>Properties: the spot path\<close>

text \<open>What a walk over the bars keeps of an excursion.\<close>

definition excursion_ok :: "string option \<Rightarrow> flt \<Rightarrow> excursion \<Rightarrow> bool" where
  "excursion_ok option_type entry_spot x \<longleftrightarrow>
     0 \<le> xc_mfe x \<and> xc_mae x \<le> 0 \<and>
     (\<forall>b r. dict_get (xc_ret_at x) b = Some r \<longrightarrow>
        b \<in> set FORWARD_BARS \<and> (\<exists>s. dict_get (xc_spot_at x) b = Some s \<and> r = (s - entry_spot) / entry_spot))"

lemma movement_bar_ok: "excursion_ok ot sp x \<Longrightarrow> excursion_ok ot sp (movement_bar ot sp fwd close high low x)"
  by (auto simp: excursion_ok_def movement_bar_def Let_def split: if_splits)

lemma movement_loop_ok: "movement_loop pf ot sp fwd cs x = Inr x' \<Longrightarrow> excursion_ok ot sp x \<Longrightarrow> excursion_ok ot sp x'"
  by (induction cs arbitrary: fwd x) (auto dest: movement_bar_ok)

lemma analyze_movement_cases:
  assumes "analyze_movement pf off a cs = Inr (Some r)"
  obtains idx x where "nearest_candle_index off cs (ta_entry_ts a) = Some idx" "mv_attempt r = a" "0 < mv_entry_spot r"
    "movement_loop pf (ta_option_type a) (mv_entry_spot r) 1 (forward_candles idx cs) \<lparr>xc_spot_at = [], xc_ret_at = [], xc_mfe = 0, xc_mae = 0\<rparr> = Inr x"
    "mv_spot_at_bar r = xc_spot_at x" "mv_ret_pct_at_bar r = xc_ret_at x" "mv_mfe_pct r = xc_mfe x * 100" "mv_mae_pct r = xc_mae x * 100"
    "mv_verdict_60m r = spot_favorable (ta_option_type a) (the_or 0 (dict_get (xc_ret_at x) 4))"
  using assms by (auto simp: analyze_movement_def split: option.splits if_splits)

lemma spot_favorable_moves: "spot_favorable ot ret = ''favorable'' \<or> spot_favorable ot ret = ''adverse'' \<Longrightarrow> 5 / 100 \<le> \<bar>ret\<bar>"
  by (auto simp: spot_favorable_def split: if_splits)

text \<open>An attempt that entered after the last candle has no path at all.\<close>

lemma last_candle_no_path:
  assumes "analyze_movement pf off a cs = Inr (Some r)" and "sorted (map candle_time cs)" and "distinct (map candle_time cs)"
    and "\<forall>c \<in> set cs. candle_time c \<le> epoch_of off (ta_entry_ts a)"
  shows "mv_spot_at_bar r = [] \<and> mv_mfe_pct r = 0 \<and> mv_mae_pct r = 0 \<and> mv_verdict_60m r = spot_favorable (ta_option_type a) 0"
proof -
  obtain idx x where r: "nearest_candle_index off cs (ta_entry_ts a) = Some idx"
    "movement_loop pf (ta_option_type a) (mv_entry_spot r) 1 (forward_candles idx cs) \<lparr>xc_spot_at = [], xc_ret_at = [], xc_mfe = 0, xc_mae = 0\<rparr> = Inr x"
    "mv_spot_at_bar r = xc_spot_at x" "mv_mfe_pct r = xc_mfe x * 100" "mv_mae_pct r = xc_mae x * 100"
    "mv_verdict_60m r = spot_favorable (ta_option_type a) (the_or 0 (dict_get (xc_ret_at x) 4))"
    using assms(1) by (rule analyze_movement_cases)
  note n = nearest_is_nearest [OF r(1)]
  have "Suc idx = length cs"
  proof (rule ccontr)
    assume "Suc idx \<noteq> length cs"
    with n(1) have j: "Suc idx < length cs" by simp
    have "candle_time (cs ! idx) < candle_time (cs ! Suc idx)"
    proof -
      have "candle_time (cs ! idx) \<le> candle_time (cs ! Suc idx)" using sorted_nth_mono [OF assms(2), of idx "Suc idx"] j by simp
      moreover have "candle_time (cs ! idx) \<noteq> candle_time (cs ! Suc idx)" using nth_eq_iff_index_eq [OF assms(3), of idx "Suc idx"] j by simp
      ultimately show ?thesis by simp
    qed
    moreover have "cs ! Suc idx \<in> set cs" "cs ! idx \<in> set cs" using j by simp_all
    ultimately show False using n(2) [of "cs ! Suc idx"] assms(4) by force
  qed
  then have "forward_candles idx cs = []" by (simp add: forward_candles_def)
  with r show ?thesis by auto
qed

section \<open>Properties: reads\<close>

context reader
begin

lemma fetch_candles_keep: "keeps I (fetch_candles api off symbol start stop)"
  unfolding fetch_candles_def Let_def by (intro reads_keep)

lemma trade_orders_keep: "keeps I (fetch_delta_orders_for_trade env api tid)"
  unfolding fetch_delta_orders_for_trade_def Let_def by (intro reads_keep)

lemma cached_candles_keep: "keeps I (cached_candles api off warn symbol start stop s)"
  unfolding cached_candles_def Let_def by (intro reads_keep fetch_candles_keep)

lemma study_attempt_keep: "keeps I (study_attempt env api off fetch_exchange a s)"
  unfolding study_attempt_def Let_def by (intro reads_keep cached_candles_keep trade_orders_keep)

lemma build_report_keeps: "keeps I (build_report env api off db since until mode status dedupe max_samples fetch_exchange)"
  unfolding build_report_def Let_def by (intro reads_keep study_attempt_keep)

lemma ticker_price_keep: "keeps I (ticker_price env api warn symbol other)"
  unfolding ticker_price_def Let_def by (intro reads_keep)

lemma position_row_keep: "keeps I (position_row env api db dd stop_mult p acc)"
  unfolding position_row_def Let_def by (intro reads_keep ticker_price_keep trade_orders_keep)

lemma positions_report_keeps: "keeps I (build_open_positions_report env api db validated dd stop_mult options_only)"
  unfolding build_open_positions_report_def Let_def by (intro reads_keep position_row_keep)

end

section \<open>Claims\<close>

text \<open>
  The deduplication of a retry storm: of the attempts with the same underlying, symbol and time bucket exactly one
  remains, the one with the least trade id; every bucket keeps one, and the result is in the order of entry.
\<close>

theorem dedupe_keeps_first_attempt:
  assumes "b \<in> set as"
  shows "sorted (map ta_entry_ts (dedupe_attempts off minutes as)) \<and> distinct (map (attempt_key off minutes) (dedupe_attempts off minutes as)) \<and>
    set (dedupe_attempts off minutes as) \<subseteq> set as \<and>
    (\<exists>a \<in> set (dedupe_attempts off minutes as). attempt_key off minutes a = attempt_key off minutes b \<and> ta_trade_id a \<le> ta_trade_id b)"
proof -
  let ?d = "fold (keep_attempt off minutes) as []"
  note d = fold_keep_deduped [of off minutes as, unfolded deduped_def]
  have wf: "dict_wf ?d" using d by blast
  have keys: "attempt_key off minutes a = k" if "(k, a) \<in> set ?d" for k a
    using d that dict_get_iff [OF wf] by blast
  then have "map (attempt_key off minutes) (dict_values ?d) = map fst ?d"
    by (auto simp: dict_values_def)
  then have "distinct (map (attempt_key off minutes) (dict_values ?d))" using wf by (simp add: dict_wf_def)
  then have 1: "distinct (map (attempt_key off minutes) (dedupe_attempts off minutes as))"
    by (simp add: dedupe_attempts_def distinct_map)
  have 2: "set (dedupe_attempts off minutes as) \<subseteq> set as"
    unfolding dedupe_attempts_def set_sort using d dict_values_iff [OF wf] by blast
  obtain a where a: "dict_get ?d (attempt_key off minutes b) = Some a" using d assms by blast
  then have "a \<in> set (dedupe_attempts off minutes as)" unfolding dedupe_attempts_def set_sort using dict_values_iff [OF wf] by blast
  moreover have "attempt_key off minutes a = attempt_key off minutes b \<and> ta_trade_id a \<le> ta_trade_id b" using d a assms by blast
  ultimately show ?thesis using 1 2 by (auto simp: dedupe_attempts_def)
qed

text \<open>
  The excursions of an analysed attempt lie on both sides of zero, and it is only called favorable or adverse when
  the close of the fourth bar moved by at least five percent: the threshold of five basis points is compared with a
  percentage.
\<close>

theorem verdict_needs_five_percent:
  assumes "analyze_movement pf off a cs = Inr (Some r)"
  shows "0 \<le> mv_mfe_pct r \<and> mv_mae_pct r \<le> 0 \<and> 0 < mv_entry_spot r \<and>
    (mv_verdict_60m r \<noteq> ''favorable'' \<and> mv_verdict_60m r \<noteq> ''adverse'' \<or>
     (\<exists>s. dict_get (mv_spot_at_bar r) 4 = Some s \<and> 5 / 100 * mv_entry_spot r \<le> \<bar>s - mv_entry_spot r\<bar>))"
proof -
  obtain idx x where r: "0 < mv_entry_spot r"
    "movement_loop pf (ta_option_type a) (mv_entry_spot r) 1 (forward_candles idx cs) \<lparr>xc_spot_at = [], xc_ret_at = [], xc_mfe = 0, xc_mae = 0\<rparr> = Inr x"
    "mv_spot_at_bar r = xc_spot_at x" "mv_mfe_pct r = xc_mfe x * 100" "mv_mae_pct r = xc_mae x * 100"
    "mv_verdict_60m r = spot_favorable (ta_option_type a) (the_or 0 (dict_get (xc_ret_at x) 4))"
    using assms by (rule analyze_movement_cases)
  have ok: "excursion_ok (ta_option_type a) (mv_entry_spot r) x"
    by (rule movement_loop_ok [OF r(2)]) (simp add: excursion_ok_def)
  have move: "\<exists>s. dict_get (mv_spot_at_bar r) 4 = Some s \<and> 5 / 100 * mv_entry_spot r \<le> \<bar>s - mv_entry_spot r\<bar>"
    if five: "5 / 100 \<le> \<bar>the_or 0 (dict_get (xc_ret_at x) 4)\<bar>"
  proof -
    obtain y where y: "dict_get (xc_ret_at x) 4 = Some y" using five by (cases "dict_get (xc_ret_at x) 4") auto
    with ok obtain s where s: "dict_get (xc_spot_at x) 4 = Some s" "y = (s - mv_entry_spot r) / mv_entry_spot r"
      by (auto simp: excursion_ok_def)
    have "5 / 100 * mv_entry_spot r \<le> \<bar>s - mv_entry_spot r\<bar>"
      using five y s(2) r(1) by (simp add: abs_divide field_simps)
    with s(1) r(3) show ?thesis by simp
  qed
  have "5 / 100 \<le> \<bar>the_or 0 (dict_get (xc_ret_at x) 4)\<bar>" if "mv_verdict_60m r = ''favorable'' \<or> mv_verdict_60m r = ''adverse''"
    using spot_favorable_moves that unfolding r(6) .
  moreover have "0 \<le> mv_mfe_pct r" "mv_mae_pct r \<le> 0" using ok r(4,5) by (simp_all add: excursion_ok_def)
  ultimately show ?thesis using move r(1) by blast
qed

text \<open>
  The candle cache is keyed by symbol and dates, while a fetch covers five hours: of two attempts on one underlying
  whose windows have the same dates the second is analysed on the candles of the first.  When all of these are before
  its entry, its row has no bar, zero excursions and the verdict of no move.
\<close>

theorem cached_window_hides_second_attempt:
  assumes "dict_get UNDERLYING_CANDLE_SYMBOL (ta_underlying a1) = Some symb" and "ta_underlying a2 = ta_underlying a1"
    and "date_of (window_start a2) = date_of (window_start a1)" and "date_of (window_end a2) = date_of (window_end a1)"
    and "fetch_candles api off symb (window_start a1) (window_end a1) w = (Inr cs, w1)"
    and "sorted (map candle_time cs)" and "distinct (map candle_time cs)"
    and "\<forall>c \<in> set cs. candle_time c \<le> epoch_of off (ta_entry_ts a2)"
    and "c_fold (study_attempt env api off False) [a1, a2] \<lparr>sy_rows = [], sy_orders = [], sy_errors = errs, sy_cache = []\<rparr> w = (Inr s, w')"
  shows "w' = w1 \<and> (\<forall>r \<in> set (sy_rows s). mv_attempt r = a1 \<or>
    mv_attempt r = a2 \<and> mv_spot_at_bar r = [] \<and> mv_mfe_pct r = 0 \<and> mv_mae_pct r = 0 \<and> mv_verdict_60m r = spot_favorable (ta_option_type a2) 0)"
proof -
  let ?k = "(symb, date_of (window_start a1), date_of (window_end a1))"
  have c1: "cached_candles api off (CandlesFailed symb) symb (window_start a1) (window_end a1) ([], errs) w = (Inr ([(?k, cs)], errs), w1)"
    using assms(5) by (simp add: cached_candles_def c_bind_def c_try_def dict_set_def Let_def)
  obtain s1 w2 where s1: "study_attempt env api off False a1 \<lparr>sy_rows = [], sy_orders = [], sy_errors = errs, sy_cache = []\<rparr> w = (Inr s1, w2)"
    "study_attempt env api off False a2 s1 w2 = (Inr s, w')" using assms(9) by (auto elim!: c_bind_InrE)
  have r1: "w2 = w1" "sy_cache s1 = [(?k, cs)]" "\<forall>r \<in> set (sy_rows s1). mv_attempt r = a1"
    using s1(1) assms(1) c1 analyze_movement_cases
    by (auto simp: study_attempt_def c_bind_def Let_def dict_get_def split: sum.splits option.splits elim!: analyze_movement_cases)
  have c2: "cached_candles api off (CandlesFailed symb) symb (window_start a2) (window_end a2) ([(?k, cs)], sy_errors s1) w1 =
      (Inr ([(?k, cs)], sy_errors s1), w1)"
    using assms(3,4) by (simp add: cached_candles_def dict_get_def Let_def)
  obtain row where row: "analyze_movement (env_float env) off a2 cs = Inr row" "w' = w1"
      "sy_rows s = sy_rows s1 @ (case row of None \<Rightarrow> [] | Some r \<Rightarrow> [r])"
    using s1(2) assms(1-4) c2 r1(1,2) by (auto simp: study_attempt_def c_bind_def Let_def dict_get_def split: sum.splits)
  show ?thesis
  proof (cases row)
    case None
    with row r1(3) show ?thesis by simp
  next
    case (Some r)
    have "mv_attempt r = a2" using row(1) Some by (auto elim!: analyze_movement_cases)
    with last_candle_no_path [OF row(1) [unfolded Some] assms(6,7,8)] row(2,3) r1(3) Some show ?thesis by auto
  qed
qed


definition sample_attempt :: "int \<Rightarrow> datetime \<Rightarrow> trade_attempt" where
  "sample_attempt tid ts =
     \<lparr>ta_trade_id = tid, ta_entry_ts = ts, ta_underlying = ''BTC'', ta_status = ''errored'', ta_mode = ''live'', ta_error = None,
      ta_symbol = Some ''C-BTC-100-010170'', ta_strike = Some 100, ta_premium = None, ta_option_type = Some ''call'', ta_spot = Some 100,
      ta_ema_sep = None, ta_atr = Some 2, ta_features = []\<rparr>"

definition sample_bar :: "int \<Rightarrow> flt \<Rightarrow> candle_row" where
  "sample_bar t x = [(''time'', VInt t), (''high'', VFlt x), (''low'', VFlt x), (''close'', VFlt x)]"

definition sample_delta_api :: "nat delta_api" where
  "sample_delta_api =
     \<lparr>da_positions = (\<lambda>n. (Inr [], Suc n)), da_candles = (\<lambda>_ _ start _ n. (Inr [VDict (sample_bar (start + 7200) 100)], Suc n)),
      da_ticker = (\<lambda>_ n. (Inl DeltaRestError, Suc n)), da_orders = (\<lambda>_ n. (Inl DeltaRestError, Suc n)),
      da_place_order = (\<lambda>_ n. (Inl DeltaRestError, Suc n)), da_cancel_order = (\<lambda>_ _ _ n. (Inl DeltaRestError, Suc n)),
      da_cancel_all_orders = (\<lambda>_ n. (Inl DeltaRestError, Suc n))\<rparr>"

theorem dedupe_keeps_first_attempt_witness:
  "\<exists>a. a \<in> set (dedupe_attempts 0 15 [sample_attempt 2 0, sample_attempt 1 minute_us, sample_attempt 3 hour_us]) \<and>
     attempt_key 0 15 a = (''BTC'', ''C-BTC-100-010170'', 0) \<and> ta_trade_id a \<le> 1"
proof -
  let ?as = "[sample_attempt 2 0, sample_attempt 1 minute_us, sample_attempt 3 hour_us]"
  have "sample_attempt 1 minute_us \<in> set ?as" by simp
  from dedupe_keeps_first_attempt [OF this, of 0 15] show ?thesis
    by (auto simp: attempt_key_def sample_attempt_def epoch_of_def trunc_def minute_us_def)
qed

lemma sample_movement:
  "\<exists>r. analyze_movement (\<lambda>_. None) 0 (sample_attempt 1 0) [sample_bar 0 100, sample_bar 900 99, sample_bar 1800 103, sample_bar 2700 104, sample_bar 3600 106] = Inr (Some r) \<and>
     mv_verdict_60m r = ''favorable'' \<and> mv_mfe_pct r = 6 \<and> mv_mae_pct r = - 1"
  by (simp add: analyze_movement_def entry_spot_of_def sample_attempt_def nearest_candle_index_def sample_bar_def candle_time_def vget_def dict_get_def
      epoch_of_def trunc_def forward_candles_def FORWARD_BARS_def price_or_def py_or_def float_of_def movement_bar_def spot_favorable_def dict_set_def Let_def)

theorem verdict_needs_five_percent_witness:
  "\<exists>r. analyze_movement (\<lambda>_. None) 0 (sample_attempt 1 0) [sample_bar 0 100, sample_bar 900 99, sample_bar 1800 103, sample_bar 2700 104, sample_bar 3600 106] = Inr (Some r) \<and>
     mv_verdict_60m r = ''favorable'' \<and> (\<exists>s. dict_get (mv_spot_at_bar r) 4 = Some s \<and> 5 / 100 * mv_entry_spot r \<le> \<bar>s - mv_entry_spot r\<bar>)"
proof -
  obtain r where r: "analyze_movement (\<lambda>_. None) 0 (sample_attempt 1 0) [sample_bar 0 100, sample_bar 900 99, sample_bar 1800 103, sample_bar 2700 104, sample_bar 3600 106] = Inr (Some r)"
     "mv_verdict_60m r = ''favorable''" using sample_movement by blast
  from verdict_needs_five_percent [OF r(1)] r show ?thesis by blast
qed

lemmas sample_study_defs = study_attempt_def cached_candles_def fetch_candles_def sample_delta_api_def sample_attempt_def UNDERLYING_CANDLE_SYMBOL_def
  window_start_def window_end_def c_bind_def c_try_def sorted_candles_def as_obj_def sample_bar_def dict_get_def dict_set_def vget_def date_of_def
  epoch_of_def trunc_def hour_us_def day_us_def candle_time_def analyze_movement_def entry_spot_of_def nearest_candle_index_def forward_candles_def
  FORWARD_BARS_def Let_def

theorem cached_window_hides_second_attempt_witness:
  "\<exists>s. c_fold (study_attempt sample_env sample_delta_api 0 False) [sample_attempt 1 (3 * hour_us), sample_attempt 2 (10 * hour_us)]
       \<lparr>sy_rows = [], sy_orders = [], sy_errors = [], sy_cache = []\<rparr> 0 = (Inr s, 1) \<and> length (sy_rows s) = 2 \<and>
     mv_mfe_pct (last (sy_rows s)) = 0"
proof -
  let ?a1 = "sample_attempt 1 (3 * hour_us)" and ?a2 = "sample_attempt 2 (10 * hour_us)"
  have f: "fetch_candles sample_delta_api 0 ''BTCUSD'' (window_start ?a1) (window_end ?a1) 0 = (Inr [sample_bar 10800 100], 1)"
    by (simp add: sample_study_defs)
  obtain s where s: "c_fold (study_attempt sample_env sample_delta_api 0 False) [?a1, ?a2]
       \<lparr>sy_rows = [], sy_orders = [], sy_errors = [], sy_cache = []\<rparr> 0 = (Inr s, 1)" "length (sy_rows s) = 2" "mv_attempt (last (sy_rows s)) = ?a2"
    by (simp add: sample_study_defs)
  have "w = 1 \<and> (\<forall>r \<in> set (sy_rows s). mv_attempt r = ?a1 \<or>
    mv_attempt r = ?a2 \<and> mv_spot_at_bar r = [] \<and> mv_mfe_pct r = 0 \<and> mv_mae_pct r = 0 \<and> mv_verdict_60m r = spot_favorable (ta_option_type ?a2) 0)"
    if "w = 1" for w :: nat
    by (rule cached_window_hides_second_attempt [OF _ _ _ _ f _ _ _ s(1) [folded that]]) 
      (simp_all add: sample_study_defs that)
  then have "\<forall>r \<in> set (sy_rows s). mv_attempt r = ?a1 \<or> mv_attempt r = ?a2 \<and> mv_mfe_pct r = 0" by blast
  moreover have "last (sy_rows s) \<in> set (sy_rows s)" using s(2) by (cases "sy_rows s" rule: rev_cases) simp_all
  moreover have "?a2 \<noteq> ?a1" by (simp add: sample_attempt_def)
  ultimately have "mv_mfe_pct (last (sy_rows s)) = 0" using s(3) by metis
  with s(1,2) show ?thesis by blast
qed

definition sample_stopped :: position_state where
  "sample_stopped = sample_position\<lparr>entry_underlying_price := Some 230, entry_atr := Some 4,
     leg_states := [\<lparr>ls_symbol = ''C2'', ls_option_type = Some ''call'', ls_current_mid = Some 15, ls_side = None\<rparr>]\<rparr>"


end
