(* ===== verification/Optimize.thy ===== *)
theory Optimize
  imports Postmortem "HOL-Library.List_Lexorder" "HOL-Library.Char_ord"
begin

text \<open>
  The study of filled directional trades (\<open>bot/analytics/directional_optimize.py\<close>): trades of the database and trades
  rebuilt from the orders of the exchange, their price paths and the suggestions drawn from them.  \<open>parse\<close> stands for
  \<open>datetime.fromisoformat\<close> on a text without zone (\<open>None\<close> is \<open>ValueError\<close>).  The wording of the suggestions and the
  Markdown report are in \<open>StudyReports\<close>.
\<close>

section \<open>Filled trades of the database\<close>

definition PREMIUM_DD_PCT :: flt where "PREMIUM_DD_PCT = 50 / 100"
definition UNDERLYING_ATR_STOP_MULT :: flt where "UNDERLYING_ATR_STOP_MULT = 1"

record filled_trade =
  ft_trade_id :: int
  ft_entry_ts :: datetime
  ft_exit_ts :: "datetime option"
  ft_underlying :: string
  ft_mode :: string
  ft_status :: string
  ft_symbol :: string
  ft_option_type :: "string option"
  ft_strike :: "flt option"
  ft_lots :: int
  ft_entry_premium :: "flt option"
  ft_exit_premium :: "flt option"
  ft_realised_pnl_inr :: "flt option"
  ft_r_multiple :: "flt option"
  ft_exit_reason :: "string option"
  ft_spot :: "flt option"
  ft_atr :: "flt option"
  ft_ema_sep :: "flt option"
  ft_threshold :: "flt option"
  ft_source :: string

definition flt_truth :: "flt option \<Rightarrow> bool" where
  "flt_truth x \<longleftrightarrow> (case x of None \<Rightarrow> False | Some v \<Rightarrow> v \<noteq> 0)"

definition filled_of :: "(string \<Rightarrow> flt option) \<Rightarrow> database \<Rightarrow> trade_row \<Rightarrow> leg_row \<Rightarrow> filled_trade" where
  "filled_of pf db t l =
     (let fv = (case signal_of db t of None \<Rightarrow> [] | Some s \<Rightarrow> s_features s)
      in \<lparr>ft_trade_id = t_id t, ft_entry_ts = t_entry_ts t, ft_exit_ts = t_exit_ts t, ft_underlying = t_underlying t, ft_mode = t_mode t,
          ft_status = t_status t, ft_symbol = leg_symbol l,
          ft_option_type = (case option_type_from_symbol (Some (leg_symbol l)) of Some x \<Rightarrow> Some x | None \<Rightarrow> leg_option_type l),
          ft_strike = leg_strike l, ft_lots = (if t_lots t = 0 then 1 else t_lots t),
          ft_entry_premium = (if flt_truth (leg_entry_price l) then leg_entry_price l else premium_paid_inr t),
          ft_exit_premium = leg_exit_price l, ft_realised_pnl_inr = realised_pnl_inr t, ft_r_multiple = r_multiple t,
          ft_exit_reason = (if exit_reason t = Some [] then None else exit_reason t),
          ft_spot = as_float pf (vget fv ''spot''), ft_atr = as_float pf (vget fv ''atr''), ft_ema_sep = as_float pf (vget fv ''ema_sep''),
          ft_threshold = as_float pf (vget fv ''threshold''), ft_source = ''db''\<rparr>)"

definition first_legs :: "database \<Rightarrow> trade_row \<Rightarrow> leg_row list" where
  "first_legs db t = filter (\<lambda>l. leg_trade_id l = t_id t \<and> leg_idx l = 0 \<and> leg_entry_price l \<noteq> None) (tb_legs db)"

definition load_filled_trades_from_db ::
  "(string \<Rightarrow> flt option) \<Rightarrow> database \<Rightarrow> datetime option \<Rightarrow> datetime option \<Rightarrow> string list \<Rightarrow> filled_trade list" where
  "load_filled_trades_from_db pf db since until modes =
     (let ts = filter (\<lambda>t. t_strategy_id t = ''directional'' \<and> (t_status t = ''closed'' \<or> t_status t = ''open'') \<and>
                            entered_within since until t \<and> (modes = [] \<or> t_mode t \<in> set modes)) (tb_trades db)
      in map (\<lambda>(t, l). filled_of pf db t l) (sort_key (t_entry_ts \<circ> fst) (concat (map (\<lambda>t. map (Pair t) (first_legs db t)) ts))))"

section \<open>Filled trades of the exchange\<close>

text \<open>The regular expression \<open>^dr-(\d+)-\d+-\<close>, for ASCII digits.\<close>

definition trade_id_from_coid :: "string \<Rightarrow> int option" where
  "trade_id_from_coid coid =
     (let ds = takeWhile is_digit (drop 3 coid);
          rest = drop (Suc (length ds)) (drop 3 coid);
          es = takeWhile is_digit rest
      in if prefix ''dr-'' coid \<and> ds \<noteq> [] \<and> prefix (ds @ ''-'') (drop 3 coid) \<and> es \<noteq> [] \<and> prefix (es @ ''-'') rest
         then Some (int (nat_of_digits ds)) else None)"

text \<open>
  The time of an order: a number is in seconds, or in microseconds above \<open>10\<^sup>1\<^sup>2\<close>; anything else is read as text.  Times
  outside the years 1 to 9999 raise.
\<close>

definition naive_utc :: "int \<Rightarrow> datetime result" where
  "naive_utc us = (if - 62135596800000000 \<le> us \<and> us < 253402300800000000 then Inr us else Inl ValueError)"

definition time_of_number :: "flt \<Rightarrow> datetime result" where
  "time_of_number x = naive_utc (if x > 1000000000000 then trunc x else trunc x * us_per_s)"

definition order_time :: "py_env \<Rightarrow> (string \<Rightarrow> datetime option) \<Rightarrow> pyval \<Rightarrow> datetime result" where
  "order_time env parse v =
     (case v of
        VInt i \<Rightarrow> time_of_number (of_int i)
      | VFlt x \<Rightarrow> time_of_number x
      | VBool b \<Rightarrow> time_of_number (if b then 1 else 0)
      | _ \<Rightarrow> (case parse (filter (\<lambda>c. c \<noteq> CHR ''Z'') (py_str env v)) of None \<Rightarrow> Inl ValueError | Some t \<Rightarrow> Inr t))"

text \<open>Whether an order is one of a trade, recent enough and filled.\<close>

definition filled_order :: "py_env \<Rightarrow> (string \<Rightarrow> datetime option) \<Rightarrow> datetime \<Rightarrow> (string, pyval) dict \<Rightarrow> int option result" where
  "filled_order env parse since ord =
     (case trade_id_from_coid (coid_of env ord) of
        None \<Rightarrow> Inr None
      | Some tid \<Rightarrow>
          let created = py_or (vget ord ''created_at'') (vget ord ''updated_at'')
          in if created = VNone then Inr None
             else bind_result (order_time env parse created) (\<lambda>ts.
                    if ts < since then Inr None
                    else bind_result (float_of (env_float env) (py_or (vget ord ''filled_size'') (VInt 0))) (\<lambda>filled.
                      Inr (if filled \<le> 0 then None else Some tid))))"

type_synonym orders_by_trade = "(int, (string, pyval) dict list) dict"

fun group_orders ::
  "py_env \<Rightarrow> (string \<Rightarrow> datetime option) \<Rightarrow> datetime \<Rightarrow> (string, pyval) dict list \<Rightarrow> orders_by_trade \<Rightarrow> orders_by_trade result" where
  "group_orders env parse since [] by_tid = Inr by_tid"
| "group_orders env parse since (ord # rest) by_tid =
     bind_result (filled_order env parse since ord) (\<lambda>tid.
       group_orders env parse since rest
         (case tid of None \<Rightarrow> by_tid | Some i \<Rightarrow> dict_set i (the_or [] (dict_get by_tid i) @ [ord]) by_tid))"

definition is_entry_coid :: "string \<Rightarrow> bool" where
  "is_entry_coid coid \<longleftrightarrow>
     \<not> py_in ''exit'' coid \<and> \<not> py_in ''trail'' coid \<and> (py_in ''entry'' coid \<or> \<not> py_in ''rollback'' coid)"

definition is_exit_coid :: "string \<Rightarrow> bool" where
  "is_exit_coid coid \<longleftrightarrow> py_in ''exit'' coid \<or> py_in ''rollback'' coid"

definition created_key :: "py_env \<Rightarrow> (string, pyval) dict \<Rightarrow> string" where
  "created_key env ord = py_str env (py_or (vget ord ''created_at'') (VStr []))"

definition exchange_underlying :: "string \<Rightarrow> string" where
  "exchange_underlying symb = (if py_in ''BTC'' symb then ''BTC'' else if py_in ''ETH'' symb then ''ETH'' else ''?'')"

text \<open>The trade that the orders of one id make, or its orders as orphans.\<close>

definition rebuilt_trade ::
  "py_env \<Rightarrow> (string \<Rightarrow> datetime option) \<Rightarrow> int \<Rightarrow> (string, pyval) dict list \<Rightarrow> (filled_trade list \<times> (string, pyval) dict list) result" where
  "rebuilt_trade env parse tid orders =
     (let by_time = sort_key (created_key env) orders;
          exits = filter (\<lambda>x. is_exit_coid (coid_of env x)) by_time;
          exit_order = (if exits = [] then None else Some (last exits))
      in case List.find (\<lambda>x. is_entry_coid (coid_of env x)) by_time of
           None \<Rightarrow> Inr ([], by_time)
         | Some entry \<Rightarrow>
             let symb = symbol_text env entry
             in bind_result (order_time env parse (vget entry ''created_at'')) (\<lambda>entry_ts.
                bind_result (case exit_order of
                               None \<Rightarrow> Inr None
                             | Some x \<Rightarrow> bind_result (order_time env parse (vget x ''created_at'')) (\<lambda>t. Inr (Some t))) (\<lambda>exit_ts.
                bind_result (float_of (env_float env) (py_or (vget entry ''size'') (VInt 1))) (\<lambda>lots.
                  Inr ([\<lparr>ft_trade_id = tid, ft_entry_ts = entry_ts, ft_exit_ts = exit_ts, ft_underlying = exchange_underlying symb,
                         ft_mode = ''live'', ft_status = (if exit_order = None then ''open'' else ''closed''), ft_symbol = symb,
                         ft_option_type = option_type_from_symbol (Some symb), ft_strike = None, ft_lots = trunc lots,
                         ft_entry_premium = as_float (env_float env) (vget entry ''average_fill_price''),
                         ft_exit_premium = (case exit_order of None \<Rightarrow> None | Some x \<Rightarrow> as_float (env_float env) (vget x ''average_fill_price'')),
                         ft_realised_pnl_inr = None, ft_r_multiple = None, ft_exit_reason = Some ''exchange_only'', ft_spot = None,
                         ft_atr = None, ft_ema_sep = None, ft_threshold = None, ft_source = ''exchange''\<rparr>], [])))))"

definition rebuilt_trades ::
  "py_env \<Rightarrow> (string \<Rightarrow> datetime option) \<Rightarrow> orders_by_trade \<Rightarrow> (filled_trade list \<times> (string, pyval) dict list) result" where
  "rebuilt_trades env parse by_tid =
     bind_result (map_result (\<lambda>(tid, orders). rebuilt_trade env parse tid orders) (sort_key fst by_tid)) (\<lambda>parts.
       Inr (concat (map fst parts), concat (map snd parts)))"

definition load_filled_trades_from_exchange ::
  "py_env \<Rightarrow> (string \<Rightarrow> datetime option) \<Rightarrow> 'w delta_api \<Rightarrow> datetime \<Rightarrow> ('w, filled_trade list \<times> (string, pyval) dict list) call" where
  "load_filled_trades_from_exchange env parse api since =
     c_bind (c_fold (\<lambda>state by_tid.
               c_bind (c_try (da_orders api [(''state'', state)])) (\<lambda>answer.
                 case answer of
                   None \<Rightarrow> c_lift (Inr by_tid)
                 | Some d \<Rightarrow> c_lift (bind_result (order_rows d) (\<lambda>rows. group_orders env parse since (objects_of rows) by_tid))))
              [''closed'', ''open''] [])
       (\<lambda>by_tid. c_lift (rebuilt_trades env parse by_tid))"

section \<open>Price paths\<close>

text \<open>The walk over the candles after entry: the largest drawdown and the first bar that reaches the threshold.\<close>

fun dd_loop :: "(string \<Rightarrow> flt option) \<Rightarrow> flt \<Rightarrow> flt \<Rightarrow> nat \<Rightarrow> candle_row list \<Rightarrow> flt \<times> nat option \<Rightarrow> (flt \<times> nat option) result" where
  "dd_loop pf entry_close threshold fwd [] s = Inr s"
| "dd_loop pf entry_close threshold fwd (c # cs) s =
     bind_result (price_or pf c ''close'' entry_close) (\<lambda>close.
       let dd = 1 - close / entry_close
       in dd_loop pf entry_close threshold (Suc fwd) cs
            (max (fst s) dd, if snd s = None \<and> threshold \<le> dd then Some fwd else snd s))"

definition premium_dd_from_candles :: "(string \<Rightarrow> flt option) \<Rightarrow> candle_row list \<Rightarrow> nat \<Rightarrow> flt \<Rightarrow> (flt option \<times> nat option) result" where
  "premium_dd_from_candles pf cs entry_idx threshold =
     (if length cs \<le> entry_idx then Inr (None, None)
      else bind_result (price_or pf (cs ! entry_idx) ''close'' 0) (\<lambda>entry_close.
        if entry_close \<le> 0 then Inr (None, None)
        else bind_result (dd_loop pf entry_close threshold 1 (drop (Suc entry_idx) cs) (0, None)) (\<lambda>s.
          Inr (Some (fst s * 100), snd s))))"

fun sl_loop :: "(string \<Rightarrow> flt option) \<Rightarrow> string option \<Rightarrow> flt \<Rightarrow> flt \<Rightarrow> nat \<Rightarrow> candle_row list \<Rightarrow> nat option result" where
  "sl_loop pf option_type entry_spot limit fwd [] = Inr None"
| "sl_loop pf option_type entry_spot limit fwd (c # cs) =
     bind_result (price_or pf c ''high'' 0) (\<lambda>high.
     bind_result (price_or pf c ''low'' 0) (\<lambda>low.
       if option_type = Some ''call'' \<and> limit \<le> entry_spot - low \<or> option_type = Some ''put'' \<and> limit \<le> high - entry_spot
       then Inr (Some fwd) else sl_loop pf option_type entry_spot limit (Suc fwd) cs))"

definition underlying_sl_bar ::
  "(string \<Rightarrow> flt option) \<Rightarrow> candle_row list \<Rightarrow> nat \<Rightarrow> string option \<Rightarrow> flt \<Rightarrow> flt option \<Rightarrow> nat option result" where
  "underlying_sl_bar pf cs entry_idx option_type entry_spot atr_value =
     (case atr_value of
        None \<Rightarrow> Inr None
      | Some a \<Rightarrow>
          if a \<le> 0 \<or> length cs \<le> entry_idx then Inr None
          else sl_loop pf option_type entry_spot (UNDERLYING_ATR_STOP_MULT * a) 1 (drop (Suc entry_idx) cs))"

record trade_path =
  tp_trade :: filled_trade
  tp_hold_minutes :: flt
  tp_spot_ret_at_exit_pct :: "flt option"
  tp_spot_adverse_15m :: "bool option"
  tp_spot_verdict_60m :: string
  tp_premium_dd_pct_max :: "flt option"
  tp_premium_dd_hit_first_bar :: "nat option"
  tp_underlying_sl_hit_first_bar :: "nat option"
  tp_win :: bool

text \<open>The return of the spot at a candle, if there is one.\<close>

definition return_at :: "(string \<Rightarrow> flt option) \<Rightarrow> candle_row list \<Rightarrow> flt \<Rightarrow> nat \<Rightarrow> flt option result" where
  "return_at pf cs entry_spot i =
     (if i < length cs
      then bind_result (price_or pf (cs ! i) ''close'' entry_spot) (\<lambda>c. Inr (Some ((c - entry_spot) / entry_spot)))
      else Inr None)"

definition is_win :: "filled_trade \<Rightarrow> bool" where
  "is_win t =
     (case ft_realised_pnl_inr t of
        Some p \<Rightarrow> 0 < p
      | None \<Rightarrow> flt_truth (ft_entry_premium t) \<and> flt_truth (ft_exit_premium t) \<and>
          the_or 0 (ft_entry_premium t) < the_or 0 (ft_exit_premium t))"

definition analyze_trade_path ::
  "(string \<Rightarrow> flt option) \<Rightarrow> int \<Rightarrow> filled_trade \<Rightarrow> candle_row list \<Rightarrow> candle_row list \<Rightarrow> trade_path option result" where
  "analyze_trade_path pf off t ucs ocs =
     (case nearest_candle_index off ucs (ft_entry_ts t) of
        None \<Rightarrow> Inr None
      | Some u_idx \<Rightarrow>
          bind_result (entry_spot_of pf off (ft_spot t) ucs (ft_entry_ts t)) (\<lambda>found.
            let entry_spot = the_or 0 found
            in if entry_spot \<le> 0 then Inr None
               else
                 let end_ts = the_or (ft_entry_ts t + 4 * hour_us) (ft_exit_ts t);
                     exit_idx = (if ft_exit_ts t = None then Some u_idx else nearest_candle_index off ucs end_ts)
                 in bind_result (case exit_idx of
                                   Some i \<Rightarrow> if u_idx < i then return_at pf ucs entry_spot i else Inr None
                                 | None \<Rightarrow> Inr None) (\<lambda>ret_exit.
                    bind_result (return_at pf ucs entry_spot (u_idx + 1)) (\<lambda>r15.
                    bind_result (return_at pf ucs entry_spot (u_idx + 4)) (\<lambda>r60.
                    bind_result (underlying_sl_bar pf ucs u_idx (ft_option_type t) entry_spot (ft_atr t)) (\<lambda>sl_bar.
                    bind_result (case nearest_candle_index off ocs (ft_entry_ts t) of
                                   None \<Rightarrow> Inr (None, None)
                                 | Some o_idx \<Rightarrow> premium_dd_from_candles pf ocs o_idx PREMIUM_DD_PCT) (\<lambda>prem.
                      Inr (Some
                        \<lparr>tp_trade = t, tp_hold_minutes = total_seconds (end_ts - ft_entry_ts t) / 60,
                         tp_spot_ret_at_exit_pct = map_option (\<lambda>r. r * 100) ret_exit,
                         tp_spot_adverse_15m = map_option (\<lambda>r. spot_favorable (ft_option_type t) r = ''adverse'') r15,
                         tp_spot_verdict_60m = spot_favorable (ft_option_type t) (the_or 0 r60),
                         tp_premium_dd_pct_max = fst prem, tp_premium_dd_hit_first_bar = snd prem,
                         tp_underlying_sl_hit_first_bar = sl_bar, tp_win = is_win t\<rparr>))))))))"

section \<open>The report\<close>

datatype study_warning =
    ExchangeOrdersFailed
  | BadUnderlying int
  | UnderlyingCandlesFailed string
  | OptionCandlesFailed string

record optimization_report =
  or_trades :: "filled_trade list"
  or_paths :: "trade_path list"
  or_exchange_orphans :: "(string, pyval) dict list"
  or_errors :: "study_warning list"

record path_study =
  ps_paths :: "trade_path list"
  ps_errors :: "study_warning list"
  ps_u_cache :: candle_cache
  ps_o_cache :: candle_cache

definition study_trade :: "py_env \<Rightarrow> 'w delta_api \<Rightarrow> int \<Rightarrow> filled_trade \<Rightarrow> path_study \<Rightarrow> ('w, path_study) call" where
  "study_trade env api off t s =
     (case dict_get UNDERLYING_CANDLE_SYMBOL (ft_underlying t) of
        None \<Rightarrow> c_lift (Inr (s\<lparr>ps_errors := ps_errors s @ [BadUnderlying (ft_trade_id t)]\<rparr>))
      | Some usym \<Rightarrow>
          let stop = the_or (ft_entry_ts t + 6 * hour_us) (ft_exit_ts t); start = ft_entry_ts t - hour_us
          in c_bind (cached_candles api off (UnderlyingCandlesFailed usym) usym start stop (ps_u_cache s, ps_errors s)) (\<lambda>(u_cache, errs).
             c_bind (if ft_symbol t = [] then c_lift (Inr (ps_o_cache s, errs))
                     else cached_candles api off (OptionCandlesFailed (ft_symbol t)) (ft_symbol t) start stop (ps_o_cache s, errs)) (\<lambda>(o_cache, errs).
             c_bind (c_lift (analyze_trade_path (env_float env) off t
                       (the_or [] (dict_get u_cache (usym, date_of start, date_of stop)))
                       (if ft_symbol t = [] then [] else the_or [] (dict_get o_cache (ft_symbol t, date_of start, date_of stop))))) (\<lambda>row.
               c_lift (Inr (s\<lparr>ps_paths := ps_paths s @ (case row of None \<Rightarrow> [] | Some r \<Rightarrow> [r]), ps_errors := errs,
                              ps_u_cache := u_cache, ps_o_cache := o_cache\<rparr>))))))"

text \<open>Trades of the exchange are added when the database does not have their id.\<close>

definition merge_trades :: "filled_trade list \<Rightarrow> filled_trade list \<Rightarrow> filled_trade list" where
  "merge_trades known extra = known @ filter (\<lambda>t. ft_trade_id t \<notin> ft_trade_id ` set known) extra"

definition build_optimization_report ::
  "py_env \<Rightarrow> (string \<Rightarrow> datetime option) \<Rightarrow> 'w delta_api \<Rightarrow> int \<Rightarrow> database \<Rightarrow> datetime \<Rightarrow> datetime option \<Rightarrow> datetime option \<Rightarrow> bool \<Rightarrow>
   ('w, optimization_report) call" where
  "build_optimization_report env parse api off db now since until include_exchange =
     (let stored = load_filled_trades_from_db (env_float env) db since until [''dry'', ''live'']
      in c_bind
           (if include_exchange
            then c_bind (c_try (load_filled_trades_from_exchange env parse api (the_or (now - 14 * day_us) since))) (\<lambda>answer.
                   c_lift (Inr (case answer of
                     None \<Rightarrow> (stored, [], [ExchangeOrdersFailed])
                   | Some (extra, orphans) \<Rightarrow> (merge_trades stored extra, orphans, []))))
            else c_lift (Inr (stored, [], [])))
           (\<lambda>(trades, orphans, errs).
              c_bind (c_fold (study_trade env api off) trades \<lparr>ps_paths = [], ps_errors = errs, ps_u_cache = [], ps_o_cache = []\<rparr>)
                (\<lambda>s. c_lift (Inr
                   \<lparr>or_trades = trades, or_paths = ps_paths s, or_exchange_orphans = orphans, or_errors = ps_errors s\<rparr>))))"

datatype suggestion =
    NoPaths
  | EntryTiming nat nat
  | PremiumStops nat nat
  | UnderlyingStops nat nat
  | FastDrawdown nat
  | SmallSample

definition suggestions :: "trade_path list \<Rightarrow> suggestion list" where
  "suggestions paths =
     (if paths = [] then [NoPaths]
      else
        let n = length paths;
            count = (\<lambda>P. length (filter P paths));
            losses = count (\<lambda>p. \<not> tp_win p);
            sl_premium = count (\<lambda>p. ft_exit_reason (tp_trade p) = Some ''premium_stop'');
            sl_und = count (\<lambda>p. ft_exit_reason (tp_trade p) = Some ''underlying_stop'');
            adverse_15 = count (\<lambda>p. tp_spot_adverse_15m p = Some True);
            early = count (\<lambda>p. case tp_premium_dd_hit_first_bar p of None \<Rightarrow> False | Some b \<Rightarrow> b \<le> 2);
            found =
              (if max 1 (nat \<lfloor>6 / 10 * real n\<rfloor>) \<le> adverse_15 then [EntryTiming adverse_15 n] else []) @
              (if sl_und \<le> sl_premium \<and> n div 3 \<le> sl_premium then [PremiumStops sl_premium n] else []) @
              (if sl_premium < sl_und then [UnderlyingStops sl_und n] else []) @
              (if max 1 (nat \<lfloor>5 / 10 * real losses\<rfloor>) \<le> early then [FastDrawdown early] else [])
        in if found = [] then [SmallSample] else found)"

section \<open>Properties: client order ids\<close>

lemma nat_of_digits_append: "nat_of_digits (xs @ ys) = nat_of_digits xs * 10 ^ length ys + nat_of_digits ys"
proof (induction ys rule: rev_induct)
  case (snoc y ys)
  have "nat_of_digits (xs @ ys @ [y]) = 10 * nat_of_digits (xs @ ys) + digit_val y" using nat_of_digits_snoc [of "xs @ ys" y] by simp
  with snoc show ?case by (simp add: nat_of_digits_snoc algebra_simps)
qed (simp add: nat_of_digits_def)

lemma nat_of_digits_bound: "\<forall>c \<in> set s. is_digit c \<Longrightarrow> nat_of_digits s < 10 ^ length s"
proof (induction s rule: rev_induct)
  case (snoc c s)
  have "digit_val c \<le> 9" using snoc.prems by (auto simp: is_digit_def digit_val_def)
  with snoc show ?case by (auto simp: nat_of_digits_snoc)
qed (simp add: nat_of_digits_def)

lemma last_digits:
  assumes "\<forall>c \<in> set s. is_digit c"
  shows "nat_of_digits (drop (length s - k) s) = nat_of_digits s mod 10 ^ k"
proof (cases "k \<le> length s")
  case True
  let ?a = "take (length s - k) s" and ?b = "drop (length s - k) s"
  have "nat_of_digits s = nat_of_digits ?a * 10 ^ k + nat_of_digits ?b"
    using nat_of_digits_append [of ?a ?b] True by simp
  moreover have "nat_of_digits ?b < 10 ^ k" using nat_of_digits_bound [of ?b] assms True by (auto dest: in_set_dropD)
  ultimately show ?thesis by simp
next
  case False
  have "nat_of_digits s < 10 ^ length s" using nat_of_digits_bound [OF assms] .
  also have "10 ^ length s \<le> (10 :: nat) ^ k" by (rule power_increasing) (use False in simp_all)
  finally show ?thesis using False by simp
qed

lemma slice_bound_six: "slice_bound n (- 6) = n - 6"
  by (auto simp: slice_bound_def max_def)

lemma tid_digits:
  assumes "0 \<le> tid"
  shows "py_slice_from (str_of_int tid) (- 6) = drop (length (str_of_nat (nat tid)) - 6) (str_of_nat (nat tid))"
  using assms by (simp add: py_slice_from_def slice_bound_six str_of_int_def)

lemma takeWhile_digits: "\<forall>c \<in> set s. is_digit c \<Longrightarrow> takeWhile is_digit (s @ CHR ''-'' # r) = s"
  by (induction s) (auto simp: is_digit_def)

lemma trade_id_of_digits:
  assumes "\<forall>c \<in> set ds. is_digit c" and "ds \<noteq> []" and "\<forall>c \<in> set es. is_digit c" and "es \<noteq> []"
  shows "trade_id_from_coid (''dr-'' @ ds @ ''-'' @ es @ ''-'' @ rest) = Some (int (nat_of_digits ds))"
  using assms takeWhile_digits [of ds "es @ CHR ''-'' # rest"] takeWhile_digits [of es rest]
  by (simp add: trade_id_from_coid_def Let_def)

section \<open>Properties: paths\<close>

text \<open>The walk to the underlying stop finds the first bar that reaches it.\<close>

definition bar_price :: "(string \<Rightarrow> flt option) \<Rightarrow> candle_row \<Rightarrow> string \<Rightarrow> flt" where
  "bar_price pf c k = projr (price_or pf c k 0)"

definition reaches_stop :: "(string \<Rightarrow> flt option) \<Rightarrow> string option \<Rightarrow> flt \<Rightarrow> flt \<Rightarrow> candle_row \<Rightarrow> bool" where
  "reaches_stop pf option_type entry_spot limit c \<longleftrightarrow>
     option_type = Some ''call'' \<and> limit \<le> entry_spot - bar_price pf c ''low'' \<or>
     option_type = Some ''put'' \<and> limit \<le> bar_price pf c ''high'' - entry_spot"

lemma sl_loop_first:
  assumes "sl_loop pf ot sp limit fwd cs = Inr r"
  shows "case r of None \<Rightarrow> \<forall>c \<in> set cs. \<not> reaches_stop pf ot sp limit c
    | Some k \<Rightarrow> fwd \<le> k \<and> k < fwd + length cs \<and> reaches_stop pf ot sp limit (cs ! (k - fwd)) \<and>
        (\<forall>j < k - fwd. \<not> reaches_stop pf ot sp limit (cs ! j))"
  using assms
proof (induction cs arbitrary: fwd)
  case (Cons c cs)
  from Cons.prems obtain high low where hl: "price_or pf c ''high'' 0 = Inr high" "price_or pf c ''low'' 0 = Inr low" by auto
  have stop: "reaches_stop pf ot sp limit c \<longleftrightarrow> ot = Some ''call'' \<and> limit \<le> sp - low \<or> ot = Some ''put'' \<and> limit \<le> high - sp"
    by (simp add: reaches_stop_def bar_price_def hl)
  show ?case
  proof (cases "reaches_stop pf ot sp limit c")
    case True
    with Cons.prems stop hl have "r = Some fwd" by auto
    with True show ?thesis by simp
  next
    case False
    with Cons.prems stop hl have "sl_loop pf ot sp limit (Suc fwd) cs = Inr r" by auto
    from Cons.IH [OF this] False show ?thesis
    proof (cases r)
      case (Some k)
      with Cons.IH [OF \<open>sl_loop pf ot sp limit (Suc fwd) cs = Inr r\<close>] have k: "Suc fwd \<le> k" "k < Suc fwd + length cs"
        "reaches_stop pf ot sp limit (cs ! (k - Suc fwd))" "\<forall>j < k - Suc fwd. \<not> reaches_stop pf ot sp limit (cs ! j)" by auto
      then have "k - fwd = Suc (k - Suc fwd)" by simp
      moreover have "\<not> reaches_stop pf ot sp limit ((c # cs) ! j)" if "j < k - fwd" for j
        using that False k(1,4) by (cases j) auto
      ultimately show ?thesis using k Some by simp
    qed simp
  qed
qed simp

text \<open>The drawdown walk: its maximum bounds every drawdown seen, and the first hit is the first bar at the threshold.\<close>

lemma dd_loop_first:
  assumes "dd_loop pf e thr fwd cs s = Inr r" and "snd s = None"
  shows "fst s \<le> fst r \<and> (snd r = None \<or> (\<exists>k. snd r = Some k \<and> fwd \<le> k \<and> k < fwd + length cs \<and> thr \<le> fst r))"
proof -
  have "fst s \<le> fst r \<and> (snd s \<noteq> None \<longrightarrow> snd r = snd s) \<and>
    (snd s = None \<longrightarrow> snd r = None \<or> (\<exists>k. snd r = Some k \<and> fwd \<le> k \<and> k < fwd + length cs \<and> thr \<le> fst r))"
    using assms(1)
  proof (induction cs arbitrary: fwd s)
    case (Cons c cs)
    obtain close where c: "price_or pf c ''close'' e = Inr close" using Cons.prems by auto
    let ?dd = "1 - close / e" let ?s = "(max (fst s) ?dd, if snd s = None \<and> thr \<le> ?dd then Some fwd else snd s)"
    have "dd_loop pf e thr (Suc fwd) cs ?s = Inr r" using Cons.prems c by (simp add: Let_def)
    from Cons.IH [OF this] show ?case by (cases "snd s = None \<and> thr \<le> ?dd") auto
  qed simp
  with assms(2) show ?thesis by blast
qed

section \<open>Properties: reads\<close>

context reader
begin

lemma exchange_trades_keep: "keeps I (load_filled_trades_from_exchange env parse api since)"
  unfolding load_filled_trades_from_exchange_def by (intro reads_keep)

lemma study_trade_keep: "keeps I (study_trade env api off t s)"
  unfolding study_trade_def Let_def by (intro reads_keep cached_candles_keep)

lemma optimization_report_keeps: "keeps I (build_optimization_report env parse api off db now since until include_exchange)"
  unfolding build_optimization_report_def Let_def by (intro reads_keep exchange_trades_keep study_trade_keep)

end

section \<open>Properties: trades of the exchange\<close>

lemma group_orders_wf: "group_orders env parse since ords by_tid = Inr r \<Longrightarrow> dict_wf by_tid \<Longrightarrow> dict_wf r"
  by (induction ords arbitrary: by_tid) (auto split: option.splits)

lemma rebuilt_trade_id:
  "rebuilt_trade env parse tid orders = Inr (ts, os) \<Longrightarrow> ts = [] \<or> (\<exists>t. ts = [t] \<and> ft_trade_id t = tid)"
  by (auto simp: rebuilt_trade_def Let_def split: option.splits)

lemma rebuilt_parts_ids:
  "map_result (\<lambda>(tid, orders). rebuilt_trade env parse tid orders) xs = Inr parts \<Longrightarrow> distinct (map fst xs) \<Longrightarrow>
   distinct (map ft_trade_id (concat (map fst parts))) \<and> set (map ft_trade_id (concat (map fst parts))) \<subseteq> fst ` set xs"
proof (induction xs arbitrary: parts)
  case (Cons x xs)
  obtain tid orders where x: "x = (tid, orders)" by (cases x)
  from Cons.prems(1) x obtain ts os ps where p: "rebuilt_trade env parse tid orders = Inr (ts, os)" "parts = (ts, os) # ps"
    "map_result (\<lambda>(tid, orders). rebuilt_trade env parse tid orders) xs = Inr ps" by auto
  have ih: "distinct (map ft_trade_id (concat (map fst ps)))" "set (map ft_trade_id (concat (map fst ps))) \<subseteq> fst ` set xs"
    using Cons.IH [OF p(3)] Cons.prems(2) by auto
  have "tid \<notin> fst ` set xs" using Cons.prems(2) x by simp
  with ih(2) have n: "tid \<notin> set (map ft_trade_id (concat (map fst ps)))" by blast
  from rebuilt_trade_id [OF p(1)] show ?case
  proof (elim disjE exE conjE)
    assume "ts = []"
    with ih p(2) show ?thesis by auto
  next
    fix t assume "ts = [t]" "ft_trade_id t = tid"
    then have "map ft_trade_id (concat (map fst parts)) = tid # map ft_trade_id (concat (map fst ps))" using p(2) by simp
    with ih n x show ?thesis by auto
  qed
qed simp

lemma exchange_ids_distinct:
  assumes "load_filled_trades_from_exchange env parse api since w = (Inr (ts, orphans), w')"
  shows "distinct (map ft_trade_id ts)"
proof -
  obtain by_tid w1 where b: "c_fold (\<lambda>state by_tid.
               c_bind (c_try (da_orders api [(''state'', state)])) (\<lambda>answer.
                 case answer of
                   None \<Rightarrow> c_lift (Inr by_tid)
                 | Some d \<Rightarrow> c_lift (bind_result (order_rows d) (\<lambda>rows. group_orders env parse since (objects_of rows) by_tid))))
              [''closed'', ''open''] [] w = (Inr by_tid, w1)" "rebuilt_trades env parse by_tid = Inr (ts, orphans)"
    using assms unfolding load_filled_trades_from_exchange_def by (elim c_bind_InrE) simp
  have "dict_wf by_tid"
    by (rule c_fold_inv [where P = dict_wf, OF b(1)]) (auto elim!: c_bind_InrE split: option.splits dest: group_orders_wf)
  then have "distinct (map fst (sort_key fst by_tid))" by (simp add: dict_wf_def distinct_map)
  with b(2) rebuilt_parts_ids show ?thesis unfolding rebuilt_trades_def by blast
qed

lemma merge_ids:
  "distinct (map ft_trade_id known) \<Longrightarrow> distinct (map ft_trade_id extra) \<Longrightarrow> distinct (map ft_trade_id (merge_trades known extra))"
  by (auto simp: merge_trades_def distinct_map image_iff intro: inj_on_subset)

lemma map_result_raises: "x \<in> set xs \<Longrightarrow> f x = Inl e \<Longrightarrow> \<exists>e. map_result f xs = Inl e"
proof (induction xs)
  case (Cons y ys)
  then show ?case by (cases "f y") auto
qed simp

section \<open>Claims\<close>

text \<open>
  The id read back from a client order id that the bot generates for a directional trade is the trade id modulo
  one million, as six digits are kept; the ids of the orders that roll an entry back are not recognised, since
  they carry the prefix of their own.
\<close>

theorem coid_gives_trade_id:
  assumes "0 \<le> tid" and "0 \<le> idx"
  shows "trade_id_from_coid (generate_client_order_id sha1_hex ''directional'' tid idx purpose salt) = Some (tid mod 1000000) \<and>
    trade_id_from_coid (generate_client_order_id sha1_hex ''rollback'' tid idx ''rollback'' salt) = None"
proof -
  let ?s = "str_of_nat (nat tid)" and ?i = "str_of_nat (nat idx)"
  let ?d = "drop (length ?s - 6) ?s"
  have digits: "\<forall>c \<in> set ?s. is_digit c" "\<forall>c \<in> set ?i. is_digit c" using str_of_nat_digits by blast+
  have "0 < length ?s" by simp
  then have d: "?d \<noteq> []" unfolding drop_eq_Nil by linarith
  have d2: "\<forall>c \<in> set ?d. is_digit c" using digits(1) by (auto dest: in_set_dropD)
  have "nat_of_digits ?d = nat tid mod 10 ^ 6" using last_digits [OF digits(1), of 6] by simp
  then have v: "int (nat_of_digits ?d) = tid mod 1000000" using assms(1) by (simp add: zmod_int)
  obtain rest where "generate_client_order_id sha1_hex ''directional'' tid idx purpose salt = ''dr-'' @ ?d @ ''-'' @ ?i @ ''-'' @ rest"
    using assms tid_digits [OF assms(1)] by (simp add: generate_client_order_id_def compact_strategy_def str_of_int_def Let_def)
  moreover have "trade_id_from_coid (generate_client_order_id sha1_hex ''rollback'' tid idx ''rollback'' salt) = None"
    by (simp add: generate_client_order_id_def compact_strategy_def trade_id_from_coid_def Let_def)
  ultimately show ?thesis using trade_id_of_digits [OF d2 d digits(2)] v by simp
qed

text \<open>
  The bar at which the underlying stop is said to be hit is the first candle after entry whose low, for a call, or
  high, for a put, is a whole ATR away from the entry; without one no bar is named.
\<close>

theorem stop_bar_is_first:
  assumes "underlying_sl_bar pf cs i ot sp (Some a) = Inr r" and "0 < a" and "i < length cs"
  shows "(r = None \<and> (\<forall>c \<in> set (drop (Suc i) cs). \<not> reaches_stop pf ot sp a c)) \<or>
    (\<exists>k. r = Some k \<and> 1 \<le> k \<and> i + k < length cs \<and> reaches_stop pf ot sp a (cs ! (i + k)) \<and>
       (\<forall>j. 1 \<le> j \<longrightarrow> j < k \<longrightarrow> \<not> reaches_stop pf ot sp a (cs ! (i + j))))"
proof -
  have l: "sl_loop pf ot sp a 1 (drop (Suc i) cs) = Inr r"
    using assms by (simp add: underlying_sl_bar_def UNDERLYING_ATR_STOP_MULT_def)
  show ?thesis
  proof (cases r)
    case None
    with sl_loop_first [OF l] show ?thesis by simp
  next
    case (Some k)
    with sl_loop_first [OF l] have k: "1 \<le> k" "k < 1 + length (drop (Suc i) cs)" "reaches_stop pf ot sp a (drop (Suc i) cs ! (k - 1))"
      "\<forall>j < k - 1. \<not> reaches_stop pf ot sp a (drop (Suc i) cs ! j)" by auto
    have at: "drop (Suc i) cs ! (j - 1) = cs ! (i + j)" if "1 \<le> j" for j
      using that assms(3) by simp
    have "\<not> reaches_stop pf ot sp a (cs ! (i + j))" if "1 \<le> j" "j < k" for j
      using k(4) [rule_format, of "j - 1"] at [OF that(1)] that by simp
    moreover have "i + k < length cs" using k(1,2) assms(3) by simp
    ultimately show ?thesis using k(1,3) at [OF k(1)] Some by auto
  qed
qed

text \<open>
  The trades of a study have distinct ids when those of the database have: a trade rebuilt from the exchange is
  added only for an id that the database does not have, once per id, and never replaces a stored trade.
\<close>

theorem study_trades_distinct:
  assumes "build_optimization_report env parse api off db now since until fx w = (Inr rep, w')"
    and "distinct (map ft_trade_id (load_filled_trades_from_db (env_float env) db since until [''dry'', ''live'']))"
  shows "distinct (map ft_trade_id (or_trades rep)) \<and>
    (\<exists>extra. or_trades rep = load_filled_trades_from_db (env_float env) db since until [''dry'', ''live''] @ extra)"
proof -
  let ?db = "load_filled_trades_from_db (env_float env) db since until [''dry'', ''live'']"
  obtain trades orphans errs w1 where t: "(if fx
            then c_bind (c_try (load_filled_trades_from_exchange env parse api (the_or (now - 14 * day_us) since))) (\<lambda>answer.
                   c_lift (Inr (case answer of
                     None \<Rightarrow> (?db, [], [ExchangeOrdersFailed])
                   | Some (extra, orphans) \<Rightarrow> (merge_trades ?db extra, orphans, []))))
            else c_lift (Inr (?db, [], []))) w = (Inr (trades, orphans, errs), w1)" "or_trades rep = trades"
    using assms(1) unfolding build_optimization_report_def Let_def by (elim c_bind_InrE) (auto elim!: c_bind_InrE)
  from t(1) consider "trades = ?db" | extra os where "trades = merge_trades ?db extra"
      "load_filled_trades_from_exchange env parse api (the_or (now - 14 * day_us) since) w = (Inr (extra, os), w1)"
    by (auto simp: c_try_def split: if_splits option.splits prod.splits sum.splits py_error.splits elim!: c_bind_InrE)
  then show ?thesis
  proof cases
    case 2
    have "distinct (map ft_trade_id (merge_trades ?db extra))" by (rule merge_ids [OF assms(2) exchange_ids_distinct [OF 2(2)]])
    moreover have "\<exists>x. merge_trades ?db extra = ?db @ x" by (simp add: merge_trades_def)
    ultimately show ?thesis unfolding t(2) 2(1) by blast
  qed (use t(2) assms(2) in simp)
qed

text \<open>
  One entry order without a creation time ends the whole study: an order passes the filters with its update time
  alone, but the trade is rebuilt from the creation time, whose absence is read as the text
  \<open>None\<close>.
\<close>

theorem missing_creation_time_raises:
  assumes "(tid, orders) \<in> set by_tid" and "List.find (\<lambda>x. is_entry_coid (coid_of env x)) (sort_key (created_key env) orders) = Some entry"
    and "vget entry ''created_at'' = VNone" and "parse (filter (\<lambda>c. c \<noteq> CHR ''Z'') (env_repr env VNone)) = None"
  shows "\<exists>e. rebuilt_trades env parse by_tid = Inl e"
proof -
  have "rebuilt_trade env parse tid orders = Inl ValueError"
    using assms(2-4) by (simp add: rebuilt_trade_def order_time_def py_str_def Let_def)
  moreover have "(tid, orders) \<in> set (sort_key fst by_tid)" using assms(1) by simp
  ultimately obtain e where "map_result (\<lambda>(tid, orders). rebuilt_trade env parse tid orders) (sort_key fst by_tid) = Inl e"
    using map_result_raises [of "(tid, orders)" "sort_key fst by_tid" "\<lambda>(tid, orders). rebuilt_trade env parse tid orders"] by auto
  then show ?thesis by (simp add: rebuilt_trades_def)
qed

text \<open>
  C35: the offline studies only read: whatever the exchange answers, the three of them send \<open>GET\<close> requests without a
  body over the REST client, and none with the budget of the orders, also when they end with an exception.
\<close>

theorem studies_only_read:
  "only_reads c (snd (build_report env (rest_api renv fuel) off db since until mode status dedupe max_samples fx c)) \<and>
   only_reads c (snd (build_open_positions_report env (rest_api renv fuel) db validated dd stop_mult options_only c)) \<and>
   only_reads c (snd (build_optimization_report env parse (rest_api renv fuel) off db now since until fx c))"
  using rest_reader.build_report_keeps rest_reader.positions_report_keeps rest_reader.optimization_report_keeps
  by (meson keeps_def only_reads_refl)

section \<open>Witnesses\<close>

theorem coid_gives_trade_id_witness:
  "trade_id_from_coid (generate_client_order_id (\<lambda>_. ''da39a3ee5e6b4b0d'') ''directional'' 1000123 0 ''exit_target'' ''00'') = Some 123"
  using coid_gives_trade_id [of 1000123 0 "\<lambda>_. ''da39a3ee5e6b4b0d''" "''exit_target''" "''00''"] by simp

theorem stop_bar_is_first_witness:
  "underlying_sl_bar (\<lambda>_. None) [sample_bar 0 100, sample_bar 900 99, sample_bar 1800 97] 0 (Some ''call'') 100 (Some 2) = Inr (Some 2) \<and>
   reaches_stop (\<lambda>_. None) (Some ''call'') 100 2 (sample_bar 1800 97)"
proof -
  have e: "underlying_sl_bar (\<lambda>_. None) [sample_bar 0 100, sample_bar 900 99, sample_bar 1800 97] 0 (Some ''call'') 100 (Some 2) = Inr (Some 2)"
    by (simp add: underlying_sl_bar_def UNDERLYING_ATR_STOP_MULT_def sample_bar_def price_or_def py_or_def vget_def dict_get_def float_of_def)
  from stop_bar_is_first [OF e] e show ?thesis by simp
qed

definition sample_order :: "(string, pyval) dict" where
  "sample_order =
     [(''client_order_id'', VStr ''dr-7-0-entry-abc''), (''product_symbol'', VStr ''C-BTC-100-010170''), (''created_at'', VInt 3600),
      (''filled_size'', VInt 2), (''size'', VInt 2), (''average_fill_price'', VFlt 5)]"

definition sample_orders_api :: "nat delta_api" where
  "sample_orders_api = sample_delta_api\<lparr>da_orders := (\<lambda>_ n. (Inr [(''result'', VDict sample_order)], Suc n))\<rparr>"

definition no_trades :: database where
  "no_trades = \<lparr>tb_signals = [], tb_trades = [], tb_legs = [], tb_orders = []\<rparr>"

lemma sample_order_id: "coid_of env sample_order = ''dr-7-0-entry-abc''" "trade_id_from_coid ''dr-7-0-entry-abc'' = Some 7"
  "is_entry_coid ''dr-7-0-entry-abc''" "\<not> is_exit_coid ''dr-7-0-entry-abc''"
  by (simp_all add: coid_of_def sample_order_def vget_def dict_get_def py_or_def py_str_def trade_id_from_coid_def is_digit_def digit_val_def
      nat_of_digits_def is_entry_coid_def is_exit_coid_def py_in_def Let_def)

lemma sample_rebuilt:
  "\<exists>t. load_filled_trades_from_exchange sample_env (\<lambda>_. None) sample_orders_api 0 0 = (Inr ([t], []), 2) \<and> ft_trade_id t = 7 \<and>
     ft_underlying t = ''BTC'' \<and> ft_symbol t = ''C-BTC-100-010170'' \<and> ft_entry_ts t = hour_us \<and> ft_exit_ts t = None \<and> ft_spot t = None \<and> ft_atr t = None"
proof -
  have f: "filled_order sample_env (\<lambda>_. None) 0 sample_order = Inr (Some 7)"
    by (simp add: filled_order_def sample_order_id) (simp add: sample_order_def vget_def dict_get_def py_or_def order_time_def time_of_number_def
        naive_utc_def trunc_def us_per_s_def float_of_def)
  have o: "objects_of [VDict sample_order] = [sample_order]" by (simp add: objects_of_def List.map_filter_simps)
  have r: "order_rows [(''result'', VDict sample_order)] = Inr [VDict sample_order]"
    by (simp add: order_rows_def vget_def dict_get_def py_or_def sample_order_def)
  have g: "load_filled_trades_from_exchange sample_env (\<lambda>_. None) sample_orders_api 0 0 =
      (rebuilt_trades sample_env (\<lambda>_. None) [(7, [sample_order, sample_order])], 2)"
    by (simp add: load_filled_trades_from_exchange_def sample_orders_api_def c_bind_def c_try_def r o f dict_get_def dict_set_def)
  have "\<exists>t. rebuilt_trade sample_env (\<lambda>_. None) 7 [sample_order, sample_order] = Inr ([t], []) \<and> ft_trade_id t = 7 \<and>
      ft_underlying t = ''BTC'' \<and> ft_symbol t = ''C-BTC-100-010170'' \<and> ft_entry_ts t = hour_us \<and> ft_exit_ts t = None \<and> ft_spot t = None \<and> ft_atr t = None"
    by (simp add: rebuilt_trade_def sample_order_id Let_def)
      (simp add: sample_order_def symbol_text_def vget_def dict_get_def py_or_def py_str_def order_time_def time_of_number_def naive_utc_def trunc_def
        us_per_s_def hour_us_def float_of_def exchange_underlying_def py_in_def)
  then show ?thesis unfolding g by (auto simp: rebuilt_trades_def)
qed

lemmas sample_path_defs = cached_candles_def fetch_candles_def sample_orders_api_def sample_delta_api_def UNDERLYING_CANDLE_SYMBOL_def
  c_bind_def c_try_def sorted_candles_def as_obj_def sample_bar_def dict_get_def dict_set_def vget_def date_of_def epoch_of_def trunc_def
  hour_us_def day_us_def candle_time_def entry_spot_of_def nearest_candle_index_def price_or_def py_or_def float_of_def
  analyze_trade_path_def return_at_def underlying_sl_bar_def premium_dd_from_candles_def Let_def

lemma sample_study:
  "\<exists>rep n. build_optimization_report sample_env (\<lambda>_. None) sample_orders_api 0 no_trades 0 (Some 0) None True 0 = (Inr rep, n) \<and>
     map ft_trade_id (or_trades rep) = [7] \<and> length (or_paths rep) = 1"
proof -
  obtain t where t: "load_filled_trades_from_exchange sample_env (\<lambda>_. None) sample_orders_api 0 0 = (Inr ([t], []), 2)" "ft_trade_id t = 7"
     "ft_underlying t = ''BTC''" "ft_symbol t = ''C-BTC-100-010170''" "ft_entry_ts t = hour_us" "ft_exit_ts t = None" "ft_spot t = None" "ft_atr t = None"
    using sample_rebuilt by blast
  have "\<exists>s n. study_trade sample_env sample_orders_api 0 t \<lparr>ps_paths = [], ps_errors = [], ps_u_cache = [], ps_o_cache = []\<rparr> 2 = (Inr s, n) \<and>
      length (ps_paths s) = 1"
    by (simp add: study_trade_def t(2-8)) (simp add: sample_path_defs t(2-8))
  then show ?thesis
    using t(1,2) by (auto simp: build_optimization_report_def load_filled_trades_from_db_def no_trades_def merge_trades_def c_bind_def c_try_def)
qed

theorem study_trades_distinct_witness:
  "\<exists>rep n. build_optimization_report sample_env (\<lambda>_. None) sample_orders_api 0 no_trades 0 (Some 0) None True 0 = (Inr rep, n) \<and>
     map ft_trade_id (or_trades rep) = [7] \<and> distinct (map ft_trade_id (or_trades rep))"
proof -
  obtain rep n where r: "build_optimization_report sample_env (\<lambda>_. None) sample_orders_api 0 no_trades 0 (Some 0) None True 0 = (Inr rep, n)"
    "map ft_trade_id (or_trades rep) = [7]" using sample_study by (elim exE conjE)
  have "distinct (map ft_trade_id (load_filled_trades_from_db (env_float sample_env) no_trades (Some 0) None [''dry'', ''live'']))"
    by (simp add: load_filled_trades_from_db_def no_trades_def)
  from conjunct1 [OF study_trades_distinct [OF r(1) this]] r show ?thesis by (intro exI [of _ rep] exI [of _ n]) simp
qed

theorem missing_creation_time_raises_witness:
  "\<exists>e. rebuilt_trades sample_env (\<lambda>_. None) [(7, [[(''client_order_id'', VStr ''dr-7-0-entry-abc''), (''updated_at'', VInt 3600)]])] = Inl e"
proof -
  let ?ord = "[(''client_order_id'', VStr ''dr-7-0-entry-abc''), (''updated_at'', VInt 3600)]"
  have c: "coid_of sample_env ?ord = ''dr-7-0-entry-abc''" by (simp add: coid_of_def vget_def dict_get_def py_or_def py_str_def)
  have "(7, [?ord]) \<in> set [(7, [?ord])]" by simp
  moreover have "List.find (\<lambda>x. is_entry_coid (coid_of sample_env x)) (sort_key (created_key sample_env) [?ord]) = Some ?ord"
    by (simp add: c sample_order_id)
  moreover have "vget ?ord ''created_at'' = VNone" by (simp add: vget_def dict_get_def)
  ultimately show ?thesis by (rule missing_creation_time_raises) simp
qed

end
