(* ===== verification/Schema.thy ===== *)
theory Schema
  imports Storage "HOL-Library.Sublist"
begin

text \<open>
  The schema of the database: the migration scripts (\<open>bot/migrations/versions\<close>) as the operations they issue, the
  mapped classes (\<open>bot/storage/models.py\<close>) as declarations, and the address of the database (\<open>bot/storage/db.py\<close>,
  \<open>bot/migrations/env.py\<close>).  The database that executes an operation is a parameter; \<open>ddl_contract\<close> states what its
  documentation promises.  \<open>declared_table\<close> is the table that the documentation of the mapper promises for a class:
  an index of one column has the conventional name, and a column is nullable when it says so or, if it
  says nothing, when its annotation is optional.
\<close>

section \<open>Tables and operations\<close>

datatype sql_type = TInteger | TBigInteger | TFloat | TBoolean | TDate | TDateTime | TJSON | TString nat

text \<open>A column has a name, a type, the argument \<open>autoincrement\<close> and the argument \<open>nullable\<close>.\<close>

datatype column = Column (col_name: string) sql_type bool bool

text \<open>A foreign key has its column, the table and the column it refers to, and the action on deletion.\<close>

datatype constraint =
    PrimaryKey "string list"
  | Unique "string list" "string option"
  | ForeignKey string string string "string option"
  | Check string string

type_synonym index = "string \<times> string list \<times> bool"

record table_def =
  td_columns :: "column list"
  td_constraints :: "constraint list"
  td_indexes :: "index list"

datatype ddl_op =
    CreateTable string "column list" "constraint list"
  | CreateIndex string string "string list" bool
  | DropIndex string string
  | DropTable string

fun run_ddl :: "(ddl_op \<Rightarrow> 'db \<Rightarrow> 'db result) \<Rightarrow> ddl_op list \<Rightarrow> 'db \<Rightarrow> 'db result" where
  "run_ddl exec [] db = Inr db"
| "run_ddl exec (st # ops) db = bind_result (exec st db) (run_ddl exec ops)"

section \<open>The migration scripts\<close>

definition up_daily_pnl :: "ddl_op list" where
  "up_daily_pnl =
     [CreateTable ''daily_pnl''
        [Column ''id'' TInteger True False,
         Column ''trading_date'' TDate False False,
         Column ''strategy_id'' (TString 32) False False,
         Column ''n_trades'' TInteger False False,
         Column ''n_wins'' TInteger False False,
         Column ''n_losses'' TInteger False False,
         Column ''gross_pnl_inr'' TFloat False False,
         Column ''net_pnl_inr'' TFloat False False,
         Column ''fees_inr'' TFloat False False,
         Column ''delta_pnl_inr'' TFloat False False,
         Column ''theta_pnl_inr'' TFloat False False,
         Column ''avg_r'' TFloat False True,
         Column ''win_rate'' TFloat False True,
         Column ''avg_slippage_bps'' TFloat False True]
        [PrimaryKey [''id''], Unique [''trading_date'', ''strategy_id''] (Some ''uq_daily_pnl_date_strategy'')],
      CreateIndex ''daily_pnl'' ''ix_daily_pnl_strategy_id'' [''strategy_id''] False,
      CreateIndex ''daily_pnl'' ''ix_daily_pnl_trading_date'' [''trading_date''] False]"

definition up_decisions :: "ddl_op list" where
  "up_decisions =
     [CreateTable ''decisions''
        [Column ''id'' TInteger True False,
         Column ''ts'' TDateTime False False,
         Column ''strategy_id'' (TString 32) False False,
         Column ''kind'' (TString 16) False False,
         Column ''symbol'' (TString 64) False True,
         Column ''underlying'' (TString 16) False True,
         Column ''passed'' TBoolean False False,
         Column ''reason'' (TString 64) False False,
         Column ''feature_vector'' TJSON False True]
        [PrimaryKey [''id'']],
      CreateIndex ''decisions'' ''ix_decisions_strategy_id'' [''strategy_id''] False,
      CreateIndex ''decisions'' ''ix_decisions_strategy_ts'' [''strategy_id'', ''ts''] False,
      CreateIndex ''decisions'' ''ix_decisions_ts'' [''ts''] False]"

definition up_instruments :: "ddl_op list" where
  "up_instruments =
     [CreateTable ''instruments''
        [Column ''id'' TInteger True False,
         Column ''product_id'' TBigInteger False False,
         Column ''symbol'' (TString 64) False False,
         Column ''underlying'' (TString 16) False False,
         Column ''contract_type'' (TString 32) False False,
         Column ''option_type'' (TString 8) False True,
         Column ''strike'' TFloat False True,
         Column ''expiry'' TDateTime False True,
         Column ''lot_size'' TFloat False False,
         Column ''tick_size'' TFloat False False,
         Column ''is_active'' TBoolean False False,
         Column ''refreshed_at'' TDateTime False False]
        [PrimaryKey [''id'']],
      CreateIndex ''instruments'' ''ix_instruments_expiry'' [''expiry''] False,
      CreateIndex ''instruments'' ''ix_instruments_product_id'' [''product_id''] True,
      CreateIndex ''instruments'' ''ix_instruments_symbol'' [''symbol''] True,
      CreateIndex ''instruments'' ''ix_instruments_underlying'' [''underlying''] False]"

definition up_market_snapshots :: "ddl_op list" where
  "up_market_snapshots =
     [CreateTable ''market_snapshots''
        [Column ''id'' TInteger True False,
         Column ''ts'' TDateTime False False,
         Column ''symbol'' (TString 64) False False,
         Column ''timeframe'' (TString 8) False False,
         Column ''open'' TFloat False False,
         Column ''high'' TFloat False False,
         Column ''low'' TFloat False False,
         Column ''close'' TFloat False False,
         Column ''volume'' TFloat False True,
         Column ''iv'' TFloat False True,
         Column ''delta'' TFloat False True,
         Column ''gamma'' TFloat False True,
         Column ''theta'' TFloat False True,
         Column ''vega'' TFloat False True,
         Column ''rho'' TFloat False True]
        [PrimaryKey [''id'']],
      CreateIndex ''market_snapshots'' ''ix_market_snapshots_sym_ts'' [''symbol'', ''timeframe'', ''ts''] False,
      CreateIndex ''market_snapshots'' ''ix_market_snapshots_symbol'' [''symbol''] False,
      CreateIndex ''market_snapshots'' ''ix_market_snapshots_ts'' [''ts''] False]"

definition up_nav_history :: "ddl_op list" where
  "up_nav_history =
     [CreateTable ''nav_history''
        [Column ''id'' TInteger True False,
         Column ''trading_date'' TDate False False,
         Column ''nav_inr'' TFloat False False,
         Column ''peak_nav_inr'' TFloat False False,
         Column ''drawdown_from_peak_pct'' TFloat False False,
         Column ''circuit_breaker_tripped'' TBoolean False False]
        [Check ''nav_inr >= 0'' ''ck_nav_history_nav_nonneg'', PrimaryKey [''id'']],
      CreateIndex ''nav_history'' ''ix_nav_history_trading_date'' [''trading_date''] True]"

definition up_signals :: "ddl_op list" where
  "up_signals =
     [CreateTable ''signals''
        [Column ''id'' TInteger True False,
         Column ''ts'' TDateTime False False,
         Column ''strategy_id'' (TString 32) False False,
         Column ''underlying'' (TString 16) False False,
         Column ''side'' (TString 8) False True,
         Column ''intended_symbol'' (TString 64) False False,
         Column ''intended_expiry'' TDateTime False True,
         Column ''intended_strike'' TFloat False True,
         Column ''intended_lots'' TInteger False False,
         Column ''intended_premium_inr'' TFloat False True,
         Column ''feature_vector'' TJSON False True]
        [PrimaryKey [''id'']],
      CreateIndex ''signals'' ''ix_signals_strategy_id'' [''strategy_id''] False,
      CreateIndex ''signals'' ''ix_signals_ts'' [''ts''] False]"

definition up_trades :: "ddl_op list" where
  "up_trades =
     [CreateTable ''trades''
        [Column ''id'' TInteger True False,
         Column ''strategy_id'' (TString 32) False False,
         Column ''underlying'' (TString 16) False False,
         Column ''expiry'' TDateTime False True,
         Column ''entry_ts'' TDateTime False False,
         Column ''exit_ts'' TDateTime False True,
         Column ''status'' (TString 16) False False,
         Column ''mode'' (TString 8) False False,
         Column ''lots'' TInteger False False,
         Column ''premium_paid_inr'' TFloat False True,
         Column ''credit_received_inr'' TFloat False True,
         Column ''realised_pnl_inr'' TFloat False True,
         Column ''delta_pnl_inr'' TFloat False True,
         Column ''theta_pnl_inr'' TFloat False True,
         Column ''fees_inr'' TFloat False True,
         Column ''slippage_bps'' TFloat False True,
         Column ''r_multiple'' TFloat False True,
         Column ''exit_reason'' (TString 32) False True,
         Column ''entry_iv'' TFloat False True,
         Column ''exit_iv'' TFloat False True,
         Column ''peak_pnl_inr'' TFloat False True,
         Column ''trough_pnl_inr'' TFloat False True,
         Column ''signal_id'' TInteger False True,
         Column ''notes'' TJSON False True]
        [ForeignKey ''signal_id'' ''signals'' ''id'' None, PrimaryKey [''id'']],
      CreateIndex ''trades'' ''ix_trades_entry_ts'' [''entry_ts''] False,
      CreateIndex ''trades'' ''ix_trades_status'' [''status''] False,
      CreateIndex ''trades'' ''ix_trades_strategy_id'' [''strategy_id''] False,
      CreateIndex ''trades'' ''ix_trades_underlying'' [''underlying''] False]"

definition up_legs :: "ddl_op list" where
  "up_legs =
     [CreateTable ''legs''
        [Column ''id'' TInteger True False,
         Column ''trade_id'' TInteger False False,
         Column ''strategy_id'' (TString 32) False False,
         Column ''leg_idx'' TInteger False False,
         Column ''symbol'' (TString 64) False False,
         Column ''option_type'' (TString 8) False True,
         Column ''strike'' TFloat False True,
         Column ''side'' (TString 8) False False,
         Column ''lots'' TInteger False False,
         Column ''entry_price'' TFloat False True,
         Column ''exit_price'' TFloat False True,
         Column ''pnl_inr'' TFloat False True,
         Column ''status'' (TString 16) False False]
        [ForeignKey ''trade_id'' ''trades'' ''id'' (Some ''CASCADE''), PrimaryKey [''id'']],
      CreateIndex ''legs'' ''ix_legs_strategy_id'' [''strategy_id''] False,
      CreateIndex ''legs'' ''ix_legs_trade_id'' [''trade_id''] False,
      CreateIndex ''legs'' ''ix_legs_trade_idx'' [''trade_id'', ''leg_idx''] False]"

definition up_orders :: "ddl_op list" where
  "up_orders =
     [CreateTable ''orders''
        [Column ''id'' TInteger True False,
         Column ''ts'' TDateTime False False,
         Column ''strategy_id'' (TString 32) False False,
         Column ''trade_id'' TInteger False True,
         Column ''leg_idx'' TInteger False True,
         Column ''client_order_id'' (TString 64) False False,
         Column ''exchange_order_id'' TBigInteger False True,
         Column ''symbol'' (TString 64) False False,
         Column ''side'' (TString 8) False False,
         Column ''order_type'' (TString 24) False False,
         Column ''limit_price'' TFloat False True,
         Column ''stop_price'' TFloat False True,
         Column ''qty'' TFloat False False,
         Column ''filled_qty'' TFloat False False,
         Column ''filled_price'' TFloat False True,
         Column ''reduce_only'' TBoolean False False,
         Column ''state'' (TString 16) False False,
         Column ''raw_response'' TJSON False True]
        [ForeignKey ''trade_id'' ''trades'' ''id'' (Some ''SET NULL''), PrimaryKey [''id''], Unique [''client_order_id''] (Some ''uq_orders_client_order_id'')],
      CreateIndex ''orders'' ''ix_orders_client_order_id'' [''client_order_id''] False,
      CreateIndex ''orders'' ''ix_orders_exchange_order_id'' [''exchange_order_id''] False,
      CreateIndex ''orders'' ''ix_orders_state'' [''state''] False,
      CreateIndex ''orders'' ''ix_orders_strategy_id'' [''strategy_id''] False,
      CreateIndex ''orders'' ''ix_orders_strategy_ts'' [''strategy_id'', ''ts''] False,
      CreateIndex ''orders'' ''ix_orders_trade_id'' [''trade_id''] False,
      CreateIndex ''orders'' ''ix_orders_ts'' [''ts''] False]"

definition upgrade_initial :: "ddl_op list" where
  "upgrade_initial = up_daily_pnl @ up_decisions @ up_instruments @ up_market_snapshots @ up_nav_history @ up_signals @ up_trades @ up_legs @ up_orders"

definition down_orders :: "ddl_op list" where
  "down_orders =
     [DropIndex ''orders'' ''ix_orders_ts'',
      DropIndex ''orders'' ''ix_orders_trade_id'',
      DropIndex ''orders'' ''ix_orders_strategy_ts'',
      DropIndex ''orders'' ''ix_orders_strategy_id'',
      DropIndex ''orders'' ''ix_orders_state'',
      DropIndex ''orders'' ''ix_orders_exchange_order_id'',
      DropIndex ''orders'' ''ix_orders_client_order_id'',
      DropTable ''orders'']"

definition down_legs :: "ddl_op list" where
  "down_legs =
     [DropIndex ''legs'' ''ix_legs_trade_idx'',
      DropIndex ''legs'' ''ix_legs_trade_id'',
      DropIndex ''legs'' ''ix_legs_strategy_id'',
      DropTable ''legs'']"

definition down_trades :: "ddl_op list" where
  "down_trades =
     [DropIndex ''trades'' ''ix_trades_underlying'',
      DropIndex ''trades'' ''ix_trades_strategy_id'',
      DropIndex ''trades'' ''ix_trades_status'',
      DropIndex ''trades'' ''ix_trades_entry_ts'',
      DropTable ''trades'']"

definition down_signals :: "ddl_op list" where
  "down_signals =
     [DropIndex ''signals'' ''ix_signals_ts'',
      DropIndex ''signals'' ''ix_signals_strategy_id'',
      DropTable ''signals'']"

definition down_nav_history :: "ddl_op list" where
  "down_nav_history =
     [DropIndex ''nav_history'' ''ix_nav_history_trading_date'',
      DropTable ''nav_history'']"

definition down_market_snapshots :: "ddl_op list" where
  "down_market_snapshots =
     [DropIndex ''market_snapshots'' ''ix_market_snapshots_ts'',
      DropIndex ''market_snapshots'' ''ix_market_snapshots_symbol'',
      DropIndex ''market_snapshots'' ''ix_market_snapshots_sym_ts'',
      DropTable ''market_snapshots'']"

definition down_instruments :: "ddl_op list" where
  "down_instruments =
     [DropIndex ''instruments'' ''ix_instruments_underlying'',
      DropIndex ''instruments'' ''ix_instruments_symbol'',
      DropIndex ''instruments'' ''ix_instruments_product_id'',
      DropIndex ''instruments'' ''ix_instruments_expiry'',
      DropTable ''instruments'']"

definition down_decisions :: "ddl_op list" where
  "down_decisions =
     [DropIndex ''decisions'' ''ix_decisions_ts'',
      DropIndex ''decisions'' ''ix_decisions_strategy_ts'',
      DropIndex ''decisions'' ''ix_decisions_strategy_id'',
      DropTable ''decisions'']"

definition down_daily_pnl :: "ddl_op list" where
  "down_daily_pnl =
     [DropIndex ''daily_pnl'' ''ix_daily_pnl_trading_date'',
      DropIndex ''daily_pnl'' ''ix_daily_pnl_strategy_id'',
      DropTable ''daily_pnl'']"

definition downgrade_initial :: "ddl_op list" where
  "downgrade_initial = down_orders @ down_legs @ down_trades @ down_signals @ down_nav_history @ down_market_snapshots @ down_instruments @ down_decisions @ down_daily_pnl"

definition up_iv_snapshots :: "ddl_op list" where
  "up_iv_snapshots =
     [CreateTable ''iv_snapshots''
        [Column ''id'' TInteger True False,
         Column ''ts'' TDateTime False False,
         Column ''underlying'' (TString 16) False False,
         Column ''expiry_bucket'' (TString 8) False False,
         Column ''expiry_date'' TDate False False,
         Column ''atm_iv'' TFloat False False]
        [PrimaryKey [''id'']],
      CreateIndex ''iv_snapshots'' ''ix_iv_snapshots_ts'' [''ts''] False,
      CreateIndex ''iv_snapshots'' ''ix_iv_snapshots_underlying'' [''underlying''] False,
      CreateIndex ''iv_snapshots'' ''ix_iv_snapshots_expiry_bucket'' [''expiry_bucket''] False,
      CreateIndex ''iv_snapshots'' ''ix_iv_snapshots_expiry_date'' [''expiry_date''] False,
      CreateIndex ''iv_snapshots'' ''ix_iv_snapshots_lookup'' [''underlying'', ''expiry_bucket'', ''ts''] False]"

definition upgrade_iv_snapshots :: "ddl_op list" where
  "upgrade_iv_snapshots = up_iv_snapshots"

definition down_iv_snapshots :: "ddl_op list" where
  "down_iv_snapshots =
     [DropIndex ''iv_snapshots'' ''ix_iv_snapshots_lookup'',
      DropIndex ''iv_snapshots'' ''ix_iv_snapshots_expiry_date'',
      DropIndex ''iv_snapshots'' ''ix_iv_snapshots_expiry_bucket'',
      DropIndex ''iv_snapshots'' ''ix_iv_snapshots_underlying'',
      DropIndex ''iv_snapshots'' ''ix_iv_snapshots_ts'',
      DropTable ''iv_snapshots'']"

definition downgrade_iv_snapshots :: "ddl_op list" where
  "downgrade_iv_snapshots = down_iv_snapshots"

section \<open>The declarations of the models\<close>

datatype annotation = PyInt | PyFloat | PyStr | PyBool | PyDate | PyDatetime | PyDict

record mapped_column =
  mc_name :: string
  mc_annotation :: annotation
  mc_optional :: bool
  mc_type :: "sql_type option"
  mc_primary_key :: bool
  mc_autoincrement :: bool
  mc_nullable :: "bool option"
  mc_unique :: bool
  mc_index :: bool
  mc_foreign_key :: "(string \<times> string \<times> string option) option"

record model =
  tablename :: string
  mapped_columns :: "mapped_column list"
  table_constraints :: "constraint list"
  table_indexes :: "index list"

text \<open>A column by its name, the base and the optionality of its annotation and its type argument; keywords update it.\<close>

definition mapped_column :: "string \<Rightarrow> annotation \<Rightarrow> bool \<Rightarrow> sql_type option \<Rightarrow> mapped_column" where
  "mapped_column name ann opt ty =
     \<lparr>mc_name = name, mc_annotation = ann, mc_optional = opt, mc_type = ty, mc_primary_key = False, mc_autoincrement = False,
      mc_nullable = None, mc_unique = False, mc_index = False, mc_foreign_key = None\<rparr>"

definition Instrument_model :: model where
  "Instrument_model =
     \<lparr>tablename = ''instruments'',
      mapped_columns =
        [(mapped_column ''id'' PyInt False (Some TInteger))\<lparr>mc_primary_key := True, mc_autoincrement := True\<rparr>,
         (mapped_column ''product_id'' PyInt False (Some TBigInteger))\<lparr>mc_unique := True, mc_index := True\<rparr>,
         (mapped_column ''symbol'' PyStr False (Some (TString 64)))\<lparr>mc_unique := True, mc_index := True\<rparr>,
         (mapped_column ''underlying'' PyStr False (Some (TString 16)))\<lparr>mc_index := True\<rparr>,
         mapped_column ''contract_type'' PyStr False (Some (TString 32)),
         (mapped_column ''option_type'' PyStr True (Some (TString 8)))\<lparr>mc_nullable := Some True\<rparr>,
         (mapped_column ''strike'' PyFloat True (Some TFloat))\<lparr>mc_nullable := Some True\<rparr>,
         (mapped_column ''expiry'' PyDatetime True (Some TDateTime))\<lparr>mc_nullable := Some True, mc_index := True\<rparr>,
         mapped_column ''lot_size'' PyFloat False (Some TFloat),
         mapped_column ''tick_size'' PyFloat False (Some TFloat),
         mapped_column ''is_active'' PyBool False (Some TBoolean),
         mapped_column ''refreshed_at'' PyDatetime False (Some TDateTime)],
      table_constraints = [],
      table_indexes = []\<rparr>"

definition MarketSnapshot_model :: model where
  "MarketSnapshot_model =
     \<lparr>tablename = ''market_snapshots'',
      mapped_columns =
        [(mapped_column ''id'' PyInt False (Some TInteger))\<lparr>mc_primary_key := True, mc_autoincrement := True\<rparr>,
         (mapped_column ''ts'' PyDatetime False (Some TDateTime))\<lparr>mc_index := True\<rparr>,
         (mapped_column ''symbol'' PyStr False (Some (TString 64)))\<lparr>mc_index := True\<rparr>,
         mapped_column ''timeframe'' PyStr False (Some (TString 8)),
         mapped_column ''open'' PyFloat False (Some TFloat),
         mapped_column ''high'' PyFloat False (Some TFloat),
         mapped_column ''low'' PyFloat False (Some TFloat),
         mapped_column ''close'' PyFloat False (Some TFloat),
         (mapped_column ''volume'' PyFloat True (Some TFloat))\<lparr>mc_nullable := Some True\<rparr>,
         (mapped_column ''iv'' PyFloat True (Some TFloat))\<lparr>mc_nullable := Some True\<rparr>,
         (mapped_column ''delta'' PyFloat True (Some TFloat))\<lparr>mc_nullable := Some True\<rparr>,
         (mapped_column ''gamma'' PyFloat True (Some TFloat))\<lparr>mc_nullable := Some True\<rparr>,
         (mapped_column ''theta'' PyFloat True (Some TFloat))\<lparr>mc_nullable := Some True\<rparr>,
         (mapped_column ''vega'' PyFloat True (Some TFloat))\<lparr>mc_nullable := Some True\<rparr>,
         (mapped_column ''rho'' PyFloat True (Some TFloat))\<lparr>mc_nullable := Some True\<rparr>],
      table_constraints = [],
      table_indexes = [(''ix_market_snapshots_sym_ts'', [''symbol'', ''timeframe'', ''ts''], False)]\<rparr>"

definition Decision_model :: model where
  "Decision_model =
     \<lparr>tablename = ''decisions'',
      mapped_columns =
        [(mapped_column ''id'' PyInt False (Some TInteger))\<lparr>mc_primary_key := True, mc_autoincrement := True\<rparr>,
         (mapped_column ''ts'' PyDatetime False (Some TDateTime))\<lparr>mc_index := True\<rparr>,
         (mapped_column ''strategy_id'' PyStr False (Some (TString 32)))\<lparr>mc_index := True\<rparr>,
         mapped_column ''kind'' PyStr False (Some (TString 16)),
         (mapped_column ''symbol'' PyStr True (Some (TString 64)))\<lparr>mc_nullable := Some True\<rparr>,
         (mapped_column ''underlying'' PyStr True (Some (TString 16)))\<lparr>mc_nullable := Some True\<rparr>,
         mapped_column ''passed'' PyBool False (Some TBoolean),
         mapped_column ''reason'' PyStr False (Some (TString 64)),
         (mapped_column ''feature_vector'' PyDict True (Some TJSON))\<lparr>mc_nullable := Some True\<rparr>],
      table_constraints = [],
      table_indexes = [(''ix_decisions_strategy_ts'', [''strategy_id'', ''ts''], False)]\<rparr>"

definition Signal_model :: model where
  "Signal_model =
     \<lparr>tablename = ''signals'',
      mapped_columns =
        [(mapped_column ''id'' PyInt False (Some TInteger))\<lparr>mc_primary_key := True, mc_autoincrement := True\<rparr>,
         (mapped_column ''ts'' PyDatetime False (Some TDateTime))\<lparr>mc_index := True\<rparr>,
         (mapped_column ''strategy_id'' PyStr False (Some (TString 32)))\<lparr>mc_index := True\<rparr>,
         mapped_column ''underlying'' PyStr False (Some (TString 16)),
         (mapped_column ''side'' PyStr True (Some (TString 8)))\<lparr>mc_nullable := Some True\<rparr>,
         mapped_column ''intended_symbol'' PyStr False (Some (TString 64)),
         (mapped_column ''intended_expiry'' PyDatetime True (Some TDateTime))\<lparr>mc_nullable := Some True\<rparr>,
         (mapped_column ''intended_strike'' PyFloat True (Some TFloat))\<lparr>mc_nullable := Some True\<rparr>,
         mapped_column ''intended_lots'' PyInt False (Some TInteger),
         (mapped_column ''intended_premium_inr'' PyFloat True (Some TFloat))\<lparr>mc_nullable := Some True\<rparr>,
         (mapped_column ''feature_vector'' PyDict True (Some TJSON))\<lparr>mc_nullable := Some True\<rparr>],
      table_constraints = [],
      table_indexes = []\<rparr>"

definition Trade_model :: model where
  "Trade_model =
     \<lparr>tablename = ''trades'',
      mapped_columns =
        [(mapped_column ''id'' PyInt False (Some TInteger))\<lparr>mc_primary_key := True, mc_autoincrement := True\<rparr>,
         (mapped_column ''strategy_id'' PyStr False (Some (TString 32)))\<lparr>mc_index := True\<rparr>,
         (mapped_column ''underlying'' PyStr False (Some (TString 16)))\<lparr>mc_index := True\<rparr>,
         (mapped_column ''expiry'' PyDatetime True (Some TDateTime))\<lparr>mc_nullable := Some True\<rparr>,
         (mapped_column ''entry_ts'' PyDatetime False (Some TDateTime))\<lparr>mc_index := True\<rparr>,
         (mapped_column ''exit_ts'' PyDatetime True (Some TDateTime))\<lparr>mc_nullable := Some True\<rparr>,
         (mapped_column ''status'' PyStr False (Some (TString 16)))\<lparr>mc_index := True\<rparr>,
         mapped_column ''mode'' PyStr False (Some (TString 8)),
         mapped_column ''lots'' PyInt False (Some TInteger),
         (mapped_column ''premium_paid_inr'' PyFloat True (Some TFloat))\<lparr>mc_nullable := Some True\<rparr>,
         (mapped_column ''credit_received_inr'' PyFloat True (Some TFloat))\<lparr>mc_nullable := Some True\<rparr>,
         (mapped_column ''realised_pnl_inr'' PyFloat True (Some TFloat))\<lparr>mc_nullable := Some True\<rparr>,
         (mapped_column ''delta_pnl_inr'' PyFloat True (Some TFloat))\<lparr>mc_nullable := Some True\<rparr>,
         (mapped_column ''theta_pnl_inr'' PyFloat True (Some TFloat))\<lparr>mc_nullable := Some True\<rparr>,
         (mapped_column ''fees_inr'' PyFloat True (Some TFloat))\<lparr>mc_nullable := Some True\<rparr>,
         (mapped_column ''slippage_bps'' PyFloat True (Some TFloat))\<lparr>mc_nullable := Some True\<rparr>,
         (mapped_column ''r_multiple'' PyFloat True (Some TFloat))\<lparr>mc_nullable := Some True\<rparr>,
         (mapped_column ''exit_reason'' PyStr True (Some (TString 32)))\<lparr>mc_nullable := Some True\<rparr>,
         (mapped_column ''entry_iv'' PyFloat True (Some TFloat))\<lparr>mc_nullable := Some True\<rparr>,
         (mapped_column ''exit_iv'' PyFloat True (Some TFloat))\<lparr>mc_nullable := Some True\<rparr>,
         (mapped_column ''peak_pnl_inr'' PyFloat True (Some TFloat))\<lparr>mc_nullable := Some True\<rparr>,
         (mapped_column ''trough_pnl_inr'' PyFloat True (Some TFloat))\<lparr>mc_nullable := Some True\<rparr>,
         (mapped_column ''signal_id'' PyInt True None)\<lparr>mc_nullable := Some True, mc_foreign_key := Some (''signals'', ''id'', None)\<rparr>,
         (mapped_column ''notes'' PyDict True (Some TJSON))\<lparr>mc_nullable := Some True\<rparr>],
      table_constraints = [],
      table_indexes = []\<rparr>"

definition Leg_model :: model where
  "Leg_model =
     \<lparr>tablename = ''legs'',
      mapped_columns =
        [(mapped_column ''id'' PyInt False (Some TInteger))\<lparr>mc_primary_key := True, mc_autoincrement := True\<rparr>,
         (mapped_column ''trade_id'' PyInt False None)\<lparr>mc_index := True, mc_foreign_key := Some (''trades'', ''id'', Some ''CASCADE'')\<rparr>,
         (mapped_column ''strategy_id'' PyStr False (Some (TString 32)))\<lparr>mc_index := True\<rparr>,
         mapped_column ''leg_idx'' PyInt False (Some TInteger),
         mapped_column ''symbol'' PyStr False (Some (TString 64)),
         (mapped_column ''option_type'' PyStr True (Some (TString 8)))\<lparr>mc_nullable := Some True\<rparr>,
         (mapped_column ''strike'' PyFloat True (Some TFloat))\<lparr>mc_nullable := Some True\<rparr>,
         mapped_column ''side'' PyStr False (Some (TString 8)),
         mapped_column ''lots'' PyInt False (Some TInteger),
         (mapped_column ''entry_price'' PyFloat True (Some TFloat))\<lparr>mc_nullable := Some True\<rparr>,
         (mapped_column ''exit_price'' PyFloat True (Some TFloat))\<lparr>mc_nullable := Some True\<rparr>,
         (mapped_column ''pnl_inr'' PyFloat True (Some TFloat))\<lparr>mc_nullable := Some True\<rparr>,
         mapped_column ''status'' PyStr False (Some (TString 16))],
      table_constraints = [],
      table_indexes = [(''ix_legs_trade_idx'', [''trade_id'', ''leg_idx''], False)]\<rparr>"

definition Order_model :: model where
  "Order_model =
     \<lparr>tablename = ''orders'',
      mapped_columns =
        [(mapped_column ''id'' PyInt False (Some TInteger))\<lparr>mc_primary_key := True, mc_autoincrement := True\<rparr>,
         (mapped_column ''ts'' PyDatetime False (Some TDateTime))\<lparr>mc_index := True\<rparr>,
         (mapped_column ''strategy_id'' PyStr False (Some (TString 32)))\<lparr>mc_index := True\<rparr>,
         (mapped_column ''trade_id'' PyInt True None)\<lparr>mc_nullable := Some True, mc_index := True, mc_foreign_key := Some (''trades'', ''id'', Some ''SET NULL'')\<rparr>,
         (mapped_column ''leg_idx'' PyInt True (Some TInteger))\<lparr>mc_nullable := Some True\<rparr>,
         (mapped_column ''client_order_id'' PyStr False (Some (TString 64)))\<lparr>mc_index := True\<rparr>,
         (mapped_column ''exchange_order_id'' PyInt True (Some TBigInteger))\<lparr>mc_nullable := Some True, mc_index := True\<rparr>,
         mapped_column ''symbol'' PyStr False (Some (TString 64)),
         mapped_column ''side'' PyStr False (Some (TString 8)),
         mapped_column ''order_type'' PyStr False (Some (TString 24)),
         (mapped_column ''limit_price'' PyFloat True (Some TFloat))\<lparr>mc_nullable := Some True\<rparr>,
         (mapped_column ''stop_price'' PyFloat True (Some TFloat))\<lparr>mc_nullable := Some True\<rparr>,
         mapped_column ''qty'' PyFloat False (Some TFloat),
         mapped_column ''filled_qty'' PyFloat False (Some TFloat),
         (mapped_column ''filled_price'' PyFloat True (Some TFloat))\<lparr>mc_nullable := Some True\<rparr>,
         mapped_column ''reduce_only'' PyBool False (Some TBoolean),
         (mapped_column ''state'' PyStr False (Some (TString 16)))\<lparr>mc_index := True\<rparr>,
         (mapped_column ''raw_response'' PyDict True (Some TJSON))\<lparr>mc_nullable := Some True\<rparr>],
      table_constraints = [Unique [''client_order_id''] (Some ''uq_orders_client_order_id'')],
      table_indexes = [(''ix_orders_strategy_ts'', [''strategy_id'', ''ts''], False)]\<rparr>"

definition DailyPnl_model :: model where
  "DailyPnl_model =
     \<lparr>tablename = ''daily_pnl'',
      mapped_columns =
        [(mapped_column ''id'' PyInt False (Some TInteger))\<lparr>mc_primary_key := True, mc_autoincrement := True\<rparr>,
         (mapped_column ''trading_date'' PyDate False (Some TDate))\<lparr>mc_index := True\<rparr>,
         (mapped_column ''strategy_id'' PyStr False (Some (TString 32)))\<lparr>mc_index := True\<rparr>,
         mapped_column ''n_trades'' PyInt False (Some TInteger),
         mapped_column ''n_wins'' PyInt False (Some TInteger),
         mapped_column ''n_losses'' PyInt False (Some TInteger),
         mapped_column ''gross_pnl_inr'' PyFloat False (Some TFloat),
         mapped_column ''net_pnl_inr'' PyFloat False (Some TFloat),
         mapped_column ''fees_inr'' PyFloat False (Some TFloat),
         mapped_column ''delta_pnl_inr'' PyFloat False (Some TFloat),
         mapped_column ''theta_pnl_inr'' PyFloat False (Some TFloat),
         (mapped_column ''avg_r'' PyFloat True (Some TFloat))\<lparr>mc_nullable := Some True\<rparr>,
         (mapped_column ''win_rate'' PyFloat True (Some TFloat))\<lparr>mc_nullable := Some True\<rparr>,
         (mapped_column ''avg_slippage_bps'' PyFloat True (Some TFloat))\<lparr>mc_nullable := Some True\<rparr>],
      table_constraints = [Unique [''trading_date'', ''strategy_id''] (Some ''uq_daily_pnl_date_strategy'')],
      table_indexes = []\<rparr>"

definition NavHistory_model :: model where
  "NavHistory_model =
     \<lparr>tablename = ''nav_history'',
      mapped_columns =
        [(mapped_column ''id'' PyInt False (Some TInteger))\<lparr>mc_primary_key := True, mc_autoincrement := True\<rparr>,
         (mapped_column ''trading_date'' PyDate False (Some TDate))\<lparr>mc_unique := True, mc_index := True\<rparr>,
         mapped_column ''nav_inr'' PyFloat False (Some TFloat),
         mapped_column ''peak_nav_inr'' PyFloat False (Some TFloat),
         mapped_column ''drawdown_from_peak_pct'' PyFloat False (Some TFloat),
         mapped_column ''circuit_breaker_tripped'' PyBool False (Some TBoolean)],
      table_constraints = [Check ''nav_inr >= 0'' ''ck_nav_history_nav_nonneg''],
      table_indexes = []\<rparr>"

definition IvSnapshot_model :: model where
  "IvSnapshot_model =
     \<lparr>tablename = ''iv_snapshots'',
      mapped_columns =
        [(mapped_column ''id'' PyInt False (Some TInteger))\<lparr>mc_primary_key := True, mc_autoincrement := True\<rparr>,
         (mapped_column ''ts'' PyDatetime False (Some TDateTime))\<lparr>mc_index := True\<rparr>,
         (mapped_column ''underlying'' PyStr False (Some (TString 16)))\<lparr>mc_index := True\<rparr>,
         (mapped_column ''expiry_bucket'' PyStr False (Some (TString 8)))\<lparr>mc_index := True\<rparr>,
         (mapped_column ''expiry_date'' PyDate False (Some TDate))\<lparr>mc_index := True\<rparr>,
         mapped_column ''atm_iv'' PyFloat False (Some TFloat)],
      table_constraints = [],
      table_indexes = [(''ix_iv_snapshots_lookup'', [''underlying'', ''expiry_bucket'', ''ts''], False)]\<rparr>"

definition metadata :: "model list" where
  "metadata =
     [Instrument_model, MarketSnapshot_model, Decision_model, Signal_model, Trade_model, Leg_model, Order_model, DailyPnl_model, NavHistory_model, IvSnapshot_model]"

section \<open>What the database and the mapper promise\<close>

type_synonym catalogue = "(string, table_def) dict"

fun refers :: "constraint \<Rightarrow> (string \<times> string) list" where
  "refers (ForeignKey _ rt rc _) = [(rt, rc)]"
| "refers _ = []"

definition table_refers :: "table_def \<Rightarrow> (string \<times> string) list" where
  "table_refers td = concat (map refers (td_constraints td))"

definition has_column :: "catalogue \<Rightarrow> string \<times> string \<Rightarrow> bool" where
  "has_column c p = (case dict_get c (fst p) of None \<Rightarrow> False | Some td \<Rightarrow> List.member (map col_name (td_columns td)) (snd p))"

definition index_names :: "catalogue \<Rightarrow> string list" where
  "index_names c = concat (map (\<lambda>p. map fst (td_indexes (snd p))) c)"

text \<open>
  A table is created once, after the tables it refers to, and dropped when no other table refers to it; the
  names of indexes are unique in the database.
\<close>

fun ddl_effect :: "ddl_op \<Rightarrow> catalogue \<Rightarrow> catalogue option" where
  "ddl_effect (CreateTable t cols cons) c =
     (if dict_get c t = None \<and> distinct (map col_name cols) \<and> list_all (has_column c) (concat (map refers cons))
      then Some (c @ [(t, \<lparr>td_columns = cols, td_constraints = cons, td_indexes = []\<rparr>)]) else None)"
| "ddl_effect (CreateIndex t name cols unique) c =
     (if list_all (\<lambda>col. has_column c (t, col)) cols \<and> cols \<noteq> [] \<and> \<not> List.member (index_names c) name
      then Some (map (\<lambda>(k, td). (k, if k = t then td\<lparr>td_indexes := td_indexes td @ [(name, cols, unique)]\<rparr> else td)) c)
      else None)"
| "ddl_effect (DropIndex t name) c =
     (case dict_get c t of
        None \<Rightarrow> None
      | Some td \<Rightarrow>
          if List.member (map fst (td_indexes td)) name
          then Some (map (\<lambda>(k, td). (k, if k = t then td\<lparr>td_indexes := filter (\<lambda>i. fst i \<noteq> name) (td_indexes td)\<rparr> else td)) c)
          else None)"
| "ddl_effect (DropTable t) c =
     (if dict_get c t \<noteq> None \<and> list_all (\<lambda>(k, td). k = t \<or> \<not> List.member (map fst (table_refers td)) t) c
      then Some (filter (\<lambda>p. fst p \<noteq> t) c) else None)"

definition ddl_contract :: "(ddl_op \<Rightarrow> 'db \<Rightarrow> 'db result) \<Rightarrow> ('db \<Rightarrow> catalogue) \<Rightarrow> bool" where
  "ddl_contract exec look \<longleftrightarrow>
     (\<forall>st db c. ddl_effect st (look db) = Some c \<longrightarrow> (\<exists>db'. exec st db = Inr db' \<and> look db' = c))"

definition declared_column :: "mapped_column \<Rightarrow> column" where
  "declared_column m =
     Column (mc_name m)
       (case mc_type m of Some t \<Rightarrow> t
        | None \<Rightarrow> (case mc_annotation m of PyInt \<Rightarrow> TInteger | PyFloat \<Rightarrow> TFloat | PyStr \<Rightarrow> TString 0 | PyBool \<Rightarrow> TBoolean
                   | PyDate \<Rightarrow> TDate | PyDatetime \<Rightarrow> TDateTime | PyDict \<Rightarrow> TJSON))
       (mc_autoincrement m)
       (case mc_nullable m of Some n \<Rightarrow> n | None \<Rightarrow> mc_optional m)"

definition declared_table :: "model \<Rightarrow> table_def" where
  "declared_table md =
     (let cols = mapped_columns md
      in \<lparr>td_columns = map declared_column cols,
          td_constraints =
            PrimaryKey (map mc_name (filter mc_primary_key cols)) #
            List.map_filter (\<lambda>m. case mc_foreign_key m of None \<Rightarrow> None | Some (t, c, d) \<Rightarrow> Some (ForeignKey (mc_name m) t c d)) cols @
            map (\<lambda>m. Unique [mc_name m] None) (filter (\<lambda>m. mc_unique m \<and> \<not> mc_index m) cols) @ table_constraints md,
          td_indexes =
            map (\<lambda>m. (''ix_'' @ tablename md @ ''_'' @ mc_name m, [mc_name m], mc_unique m)) (filter mc_index cols) @
            table_indexes md\<rparr>)"

definition declared :: catalogue where
  "declared = map (\<lambda>md. (tablename md, declared_table md)) metadata"

text \<open>Constraints and indexes of a table have no order.\<close>

definition same_table :: "table_def \<Rightarrow> table_def \<Rightarrow> bool" where
  "same_table a b \<longleftrightarrow> td_columns a = td_columns b \<and> set (td_constraints a) = set (td_constraints b) \<and>
     set (td_indexes a) = set (td_indexes b)"

fun run_effects :: "ddl_op list \<Rightarrow> catalogue \<Rightarrow> catalogue option" where
  "run_effects [] c = Some c"
| "run_effects (st # ops) c = (case ddl_effect st c of None \<Rightarrow> None | Some c' \<Rightarrow> run_effects ops c')"

definition same_schema :: "catalogue \<Rightarrow> catalogue \<Rightarrow> bool" where
  "same_schema a b \<longleftrightarrow> set (map fst a) = set (map fst b) \<and>
     list_all (\<lambda>(k, td). case dict_get b k of None \<Rightarrow> False | Some td' \<Rightarrow> same_table td td') a"

section \<open>The address of the database\<close>

fun replace_first :: "string \<Rightarrow> string \<Rightarrow> string \<Rightarrow> string" where
  "replace_first old new [] = (if old = [] then new else [])"
| "replace_first old new (c # s) =
     (if prefix old (c # s) then new @ drop (length old) (c # s) else c # replace_first old new s)"

text \<open>The address as text; a path is given its posix form.\<close>

definition normalize_path :: "string \<Rightarrow> string" where
  "normalize_path p = ''sqlite+aiosqlite:///'' @ p"

definition normalize_url :: "string \<Rightarrow> string" where
  "normalize_url s =
     (if s = '':memory:'' then ''sqlite+aiosqlite:///:memory:''
      else if prefix ''sqlite'' s \<and> \<not> sublist ''aiosqlite'' s then replace_first ''sqlite:'' ''sqlite+aiosqlite:'' s
      else s)"

text \<open>The address that the engine is created with, and whether all sessions share one connection.\<close>

definition get_database :: "string \<Rightarrow> string \<times> bool" where
  "get_database url = (let normalized = normalize_url url in (normalized, sublist '':memory:'' normalized))"

text \<open>
  \<open>create_all\<close> and \<open>drop_all\<close>: the mapper issues the statements of the declared tables that the database lacks, each table
  with its indexes, and drops those that it has in the reverse order.
\<close>

definition create_table_ops :: "string \<times> table_def \<Rightarrow> ddl_op list" where
  "create_table_ops p =
     (let (t, td) = p
      in CreateTable t (td_columns td) (td_constraints td) # map (\<lambda>(name, cols, unique). CreateIndex t name cols unique) (td_indexes td))"

definition create_all_ops :: "catalogue \<Rightarrow> ddl_op list" where
  "create_all_ops existing = concat (map create_table_ops (filter (\<lambda>p. dict_get existing (fst p) = None) declared))"

definition drop_all_ops :: "catalogue \<Rightarrow> ddl_op list" where
  "drop_all_ops existing = map (\<lambda>p. DropTable (fst p)) (filter (\<lambda>p. dict_get existing (fst p) \<noteq> None) (rev declared))"

definition create_all :: "(ddl_op \<Rightarrow> 'db \<Rightarrow> 'db result) \<Rightarrow> ('db \<Rightarrow> catalogue) \<Rightarrow> 'db \<Rightarrow> 'db result" where
  "create_all exec look db = run_ddl exec (create_all_ops (look db)) db"

definition drop_all :: "(ddl_op \<Rightarrow> 'db \<Rightarrow> 'db result) \<Rightarrow> ('db \<Rightarrow> catalogue) \<Rightarrow> 'db \<Rightarrow> 'db result" where
  "drop_all exec look db = run_ddl exec (drop_all_ops (look db)) db"

text \<open>\<open>connect\<close>: the database behind an address.\<close>

definition init_database ::
  "(string \<times> bool \<Rightarrow> 'db) \<Rightarrow> (ddl_op \<Rightarrow> 'db \<Rightarrow> 'db result) \<Rightarrow> ('db \<Rightarrow> catalogue) \<Rightarrow> string \<Rightarrow> 'db result" where
  "init_database connect exec look url = create_all exec look (connect (get_database url))"

definition get_url :: "string option \<Rightarrow> string option \<Rightarrow> string result" where
  "get_url db_url ini =
     (let first = (case db_url of Some u \<Rightarrow> u | None \<Rightarrow> []);
          second = (case ini of Some u \<Rightarrow> u | None \<Rightarrow> []);
          url = (if first \<noteq> [] then first else second)
      in if url = [] then Inl RuntimeError else Inr url)"

section \<open>Properties\<close>

lemma run_ddl_effects:
  assumes "ddl_contract exec look"
  shows "run_effects ops (look db) = Some c \<Longrightarrow> \<exists>db'. run_ddl exec ops db = Inr db' \<and> look db' = c"
proof (induction ops arbitrary: db)
  case (Cons st ops)
  from Cons.prems obtain d where d: "ddl_effect st (look db) = Some d" "run_effects ops d = Some c" by (auto split: option.splits)
  with assms obtain db1 where "exec st db = Inr db1" "look db1 = d" unfolding ddl_contract_def by metis
  with Cons.IH [of db1] d(2) show ?case by simp
qed simp

lemma same_schema_look:
  assumes "same_schema a b"
  shows "rel_option same_table (dict_get a t) (dict_get b t)"
proof (cases "dict_get a t")
  case None
  then have "t \<notin> fst ` set b" using assms by (auto simp: same_schema_def dict_get_def map_of_eq_None_iff)
  then have "dict_get b t = None" by (simp add: dict_get_def map_of_eq_None_iff)
  with None show ?thesis by simp
next
  case (Some td)
  then have "(t, td) \<in> set a" unfolding dict_get_def by (rule map_of_SomeD)
  with assms Some show ?thesis by (auto simp: same_schema_def list_all_iff split: option.splits)
qed

text \<open>The scripts, executed on the catalogue.\<close>

definition initial_catalogue :: catalogue where
  "initial_catalogue = the_or [] (run_effects upgrade_initial [])"

definition final_catalogue :: catalogue where
  "final_catalogue = the_or [] (run_effects upgrade_iv_snapshots initial_catalogue)"

lemma upgrade_initial_effect: "run_effects upgrade_initial [] = Some initial_catalogue"
  by code_simp

lemma upgrade_iv_effect: "run_effects upgrade_iv_snapshots initial_catalogue = Some final_catalogue"
  by code_simp

lemma downgrade_iv_effect: "run_effects downgrade_iv_snapshots final_catalogue = Some initial_catalogue"
  by code_simp

lemma downgrade_initial_effect: "run_effects downgrade_initial initial_catalogue = Some []"
  by code_simp

lemma final_is_declared: "same_schema final_catalogue declared"
  by code_simp

definition created_catalogue :: catalogue where
  "created_catalogue = the_or [] (run_effects (create_all_ops []) [])"

lemma create_all_effect: "run_effects (create_all_ops []) [] = Some created_catalogue"
  by code_simp

lemma created_is_declared: "same_schema created_catalogue declared"
  by code_simp

lemma create_all_again: "create_all_ops created_catalogue = []" "create_all_ops final_catalogue = []"
  by code_simp+

lemma drop_all_effect: "run_effects (drop_all_ops created_catalogue) created_catalogue = Some []"
  by code_simp

lemma run_ddl_append: "run_ddl exec (a @ b) db = bind_result (run_ddl exec a db) (run_ddl exec b)"
  by (induction a arbitrary: db) (auto simp: bind_result_def split: sum.split)

lemma prefix_sublist_drop: "prefix old s \<Longrightarrow> sublist part new \<Longrightarrow> sublist part (new @ drop n s)"
  by (metis append.assoc sublist_def)

lemma replace_first_has:
  assumes "sublist part new"
  shows "replace_first old new s = s \<or> sublist part (replace_first old new s)"
proof (induction s)
  case Nil
  with assms show ?case by simp
next
  case (Cons c s)
  then show ?case using assms prefix_sublist_drop [of old "c # s" part new "length old"] by (auto simp: sublist_Cons_right)
qed

text \<open>The keys whose uniqueness the sessions of the other theories check when they commit.\<close>

definition unique_keys :: "table_def \<Rightarrow> string list list" where
  "unique_keys td =
     List.map_filter (\<lambda>c. case c of Unique cols _ \<Rightarrow> Some cols | _ \<Rightarrow> None) (td_constraints td) @
     map (\<lambda>i. fst (snd i)) (filter (\<lambda>i. snd (snd i)) (td_indexes td))"

lemma declared_unique_keys:
  "filter (\<lambda>p. snd p \<noteq> []) (map (\<lambda>(t, td). (t, unique_keys td)) declared) =
     [(''instruments'', [[''product_id''], [''symbol'']]), (''orders'', [[''client_order_id'']]),
      (''daily_pnl'', [[''trading_date'', ''strategy_id'']]), (''nav_history'', [[''trading_date'']])]"
  by code_simp

section \<open>Claims\<close>

text \<open>
  C28: the migrations build the schema that the code declares.  On a database that keeps the contract and starts empty,
  both scripts run without an error in their order, and afterwards every table of the database is the table declared
  by a mapped class, columns in order and constraints and indexes as sets, and there is no other table.
\<close>

theorem upgrade_builds_models:
  assumes "ddl_contract exec look" and "look db = []"
  shows "\<exists>db'. run_ddl exec (upgrade_initial @ upgrade_iv_snapshots) db = Inr db' \<and>
    (\<forall>t. rel_option same_table (dict_get (look db') t) (dict_get declared t))"
proof -
  obtain db1 where 1: "run_ddl exec upgrade_initial db = Inr db1" "look db1 = initial_catalogue"
    using run_ddl_effects [OF assms(1), of upgrade_initial db] upgrade_initial_effect assms(2) by auto
  obtain db2 where 2: "run_ddl exec upgrade_iv_snapshots db1 = Inr db2" "look db2 = final_catalogue"
    using run_ddl_effects [OF assms(1), of upgrade_iv_snapshots db1] upgrade_iv_effect 1(2) by auto
  from 1(1) 2 same_schema_look [OF final_is_declared] show ?thesis by (simp add: run_ddl_append)
qed

text \<open>
  C29: each downgrade undoes its upgrade: after both upgrades, the second script's downgrade returns to the tables after
  the first, and the first script's downgrade leaves no table.
\<close>

theorem downgrade_undoes_upgrade:
  assumes "ddl_contract exec look" and "look db = []"
  shows "\<exists>db1 db2 db3 db4. run_ddl exec upgrade_initial db = Inr db1 \<and> run_ddl exec upgrade_iv_snapshots db1 = Inr db2 \<and>
    run_ddl exec downgrade_iv_snapshots db2 = Inr db3 \<and> look db3 = look db1 \<and>
    run_ddl exec downgrade_initial db3 = Inr db4 \<and> look db4 = []"
proof -
  note run = run_ddl_effects [OF assms(1)]
  obtain db1 where 1: "run_ddl exec upgrade_initial db = Inr db1" "look db1 = initial_catalogue"
    using run [of upgrade_initial db] upgrade_initial_effect assms(2) by auto
  obtain db2 where 2: "run_ddl exec upgrade_iv_snapshots db1 = Inr db2" "look db2 = final_catalogue"
    using run [of upgrade_iv_snapshots db1] upgrade_iv_effect 1(2) by auto
  obtain db3 where 3: "run_ddl exec downgrade_iv_snapshots db2 = Inr db3" "look db3 = initial_catalogue"
    using run [of downgrade_iv_snapshots db2] downgrade_iv_effect 2(2) by auto
  obtain db4 where 4: "run_ddl exec downgrade_initial db3 = Inr db4" "look db4 = []"
    using run [of downgrade_initial db3] downgrade_initial_effect 3(2) by auto
  from 1 2 3 4 show ?thesis by (intro exI [of _ db1] exI [of _ db2] exI [of _ db3] exI [of _ db4]) simp
qed

text \<open>
  The tests build the tables that the migrations build.  On an empty database \<open>create_all\<close> gives every declared table and no
  other, a second call issues nothing, nor does a call after the migrations, and \<open>drop_all\<close> leaves no table.
\<close>

theorem create_all_builds_models:
  assumes "ddl_contract exec look" and "look db = []"
  shows "\<exists>db1 db2 db3. create_all exec look db = Inr db1 \<and>
    (\<forall>t. rel_option same_table (dict_get (look db1) t) (dict_get declared t)) \<and> create_all exec look db1 = Inr db1 \<and>
    drop_all exec look db1 = Inr db2 \<and> look db2 = [] \<and>
    run_ddl exec (upgrade_initial @ upgrade_iv_snapshots) db = Inr db3 \<and> create_all exec look db3 = Inr db3"
proof -
  note run = run_ddl_effects [OF assms(1)]
  obtain db1 where 1: "create_all exec look db = Inr db1" "look db1 = created_catalogue"
    using run [of "create_all_ops []" db] create_all_effect assms(2) by (auto simp: create_all_def)
  obtain db2 where 2: "drop_all exec look db1 = Inr db2" "look db2 = []"
    using run [of "drop_all_ops created_catalogue" db1] drop_all_effect 1(2) by (auto simp: drop_all_def)
  obtain dba where a: "run_ddl exec upgrade_initial db = Inr dba" "look dba = initial_catalogue"
    using run [of upgrade_initial db] upgrade_initial_effect assms(2) by auto
  obtain db3 where 3: "run_ddl exec upgrade_iv_snapshots dba = Inr db3" "look db3 = final_catalogue"
    using run [of upgrade_iv_snapshots dba] upgrade_iv_effect a(2) by auto
  have "create_all exec look db1 = Inr db1" "create_all exec look db3 = Inr db3"
    using 1(2) 3(2) create_all_again by (simp_all add: create_all_def)
  with 1 2 3 a same_schema_look [OF created_is_declared] show ?thesis
    by (intro exI [of _ db1] exI [of _ db2] exI [of _ db3]) (simp add: run_ddl_append)
qed

text \<open>
  Normalising an address twice is normalising it once, and the address of the database in memory, written either
  way, gives a single shared connection.
\<close>

theorem normalize_url_idempotent: "normalize_url (normalize_url s) = normalize_url s"
proof (cases "prefix ''sqlite'' s \<and> \<not> sublist ''aiosqlite'' s \<and> s \<noteq> '':memory:''")
  case True
  then have n: "normalize_url s = replace_first ''sqlite:'' ''sqlite+aiosqlite:'' s" by (simp add: normalize_url_def)
  have "sublist ''aiosqlite'' ''sqlite+aiosqlite:''" by code_simp
  from replace_first_has [OF this, of "''sqlite:''" s] show ?thesis
  proof
    assume "replace_first ''sqlite:'' ''sqlite+aiosqlite:'' s = s"
    with n show ?thesis by simp
  next
    assume a: "sublist ''aiosqlite'' (replace_first ''sqlite:'' ''sqlite+aiosqlite:'' s)"
    then have "replace_first ''sqlite:'' ''sqlite+aiosqlite:'' s \<noteq> '':memory:''" by (auto simp: sublist_code)
    with n a show ?thesis by (simp add: normalize_url_def [of "replace_first _ _ _"])
  qed
next
  case False
  have "sublist ''aiosqlite'' ''sqlite+aiosqlite:///:memory:''" by code_simp
  then have "normalize_url (normalize_url '':memory:'') = normalize_url '':memory:''" by (simp add: normalize_url_def)
  moreover have "normalize_url s = s" if "s \<noteq> '':memory:''" using False that by (auto simp: normalize_url_def)
  ultimately show ?thesis by (cases "s = '':memory:''") simp_all
qed

text \<open>A database that is its catalogue keeps the contract.\<close>

definition catalogue_exec :: "ddl_op \<Rightarrow> catalogue \<Rightarrow> catalogue result" where
  "catalogue_exec st c = (case ddl_effect st c of None \<Rightarrow> Inl RuntimeError | Some c' \<Rightarrow> Inr c')"

lemma catalogue_exec_contract: "ddl_contract catalogue_exec (\<lambda>c. c)"
  by (simp add: ddl_contract_def catalogue_exec_def)

theorem upgrade_builds_models_witness:
  "\<exists>c. run_ddl catalogue_exec (upgrade_initial @ upgrade_iv_snapshots) [] = Inr c \<and>
     rel_option same_table (dict_get c ''orders'') (dict_get declared ''orders'')"
  using upgrade_builds_models [OF catalogue_exec_contract, of "[]"] by blast

theorem downgrade_undoes_upgrade_witness:
  "\<exists>c. run_ddl catalogue_exec upgrade_initial [] = Inr c \<and> run_ddl catalogue_exec downgrade_initial c = Inr []"
  using downgrade_undoes_upgrade [OF catalogue_exec_contract, of "[]"] by auto

end
