(* ===== verification/Startup.thy ===== *)
theory Startup
  imports Schema GoLive Resume "HOL-Library.List_Lexorder" "HOL-Library.Char_ord"
begin

text \<open>
  Settings, configuration files and commands (\<open>bot/config/settings.py\<close>, \<open>bot/config/loader.py\<close>, \<open>bot/cli.py\<close>).  The
  environment is the function \<open>look\<close> from the names of a setting, in their order, to its text, as the settings library
  finds it; the file system, the YAML parser and the validation of the models are functions of a record.
\<close>

section \<open>Settings\<close>

datatype bot_mode = MODE_DRY | MODE_LIVE

fun bot_mode_value :: "bot_mode \<Rightarrow> string" where
  "bot_mode_value MODE_DRY = ''dry''"
| "bot_mode_value MODE_LIVE = ''live''"

datatype log_level = LOG_DEBUG | LOG_INFO | LOG_WARNING | LOG_ERROR | LOG_CRITICAL

fun log_level_value :: "log_level \<Rightarrow> string" where
  "log_level_value LOG_DEBUG = ''DEBUG''"
| "log_level_value LOG_INFO = ''INFO''"
| "log_level_value LOG_WARNING = ''WARNING''"
| "log_level_value LOG_ERROR = ''ERROR''"
| "log_level_value LOG_CRITICAL = ''CRITICAL''"

record settings =
  st_mode :: bot_mode
  st_log_level :: log_level
  st_data_dir :: string
  st_reports_dir :: string
  st_journals_dir :: string
  st_logs_dir :: string
  st_config_dir :: string
  st_runtime_dir :: string
  st_db_url :: string
  st_delta_base_url :: string
  st_delta_ws_url :: string
  st_delta_api_key :: string
  st_delta_api_secret :: string
  st_delta_rest_rps :: int
  st_delta_order_rps :: int
  st_delta_ws_mps :: int
  st_prom_textfile_path :: string
  st_prom_http_port :: int
  st_prom_http_host :: string
  st_nav_inr_override :: "flt option"
  st_usd_inr_rate_override :: "flt option"
  st_backblaze_b2_key :: string
  st_backblaze_b2_secret :: string
  st_backblaze_b2_bucket :: string

definition text_setting :: "(string list \<Rightarrow> string option) \<Rightarrow> string \<Rightarrow> string \<Rightarrow> string" where
  "text_setting look name dflt = the_or dflt (look [name])"

definition enum_setting :: "(string list \<Rightarrow> string option) \<Rightarrow> string list \<Rightarrow> 'a \<Rightarrow> (string \<times> 'a) list \<Rightarrow> 'a result" where
  "enum_setting look names dflt members =
     (case look names of
        None \<Rightarrow> Inr dflt
      | Some s \<Rightarrow> (case dict_get members s of None \<Rightarrow> Inl ValueError | Some v \<Rightarrow> Inr v))"

definition int_setting ::
  "(string \<Rightarrow> int option) \<Rightarrow> (string list \<Rightarrow> string option) \<Rightarrow> string \<Rightarrow> int \<Rightarrow> int \<Rightarrow> int option \<Rightarrow> int result" where
  "int_setting pint look name dflt ge le =
     (case look [name] of
        None \<Rightarrow> Inr dflt
      | Some s \<Rightarrow>
          (case pint s of
             None \<Rightarrow> Inl ValueError
           | Some i \<Rightarrow> if ge \<le> i \<and> (case le of None \<Rightarrow> True | Some m \<Rightarrow> i \<le> m) then Inr i else Inl ValueError))"

definition float_setting ::
  "(string \<Rightarrow> flt option) \<Rightarrow> (string list \<Rightarrow> string option) \<Rightarrow> string \<Rightarrow> flt option result" where
  "float_setting pf look name =
     (case look [name] of
        None \<Rightarrow> Inr None
      | Some s \<Rightarrow> (case pf s of None \<Rightarrow> Inl ValueError | Some x \<Rightarrow> Inr (Some x)))"

text \<open>\<open>url_ok\<close> is the validation of \<open>HttpUrl\<close>.\<close>

definition load_settings ::
  "py_env \<Rightarrow> (string \<Rightarrow> bool) \<Rightarrow> (string list \<Rightarrow> string option) \<Rightarrow> settings result" where
  "load_settings env url_ok look =
     (let s = text_setting look; i = int_setting (env_int env) look
      in bind_result (enum_setting look [''BOT_MODE'', ''MODE''] MODE_DRY [(''dry'', MODE_DRY), (''live'', MODE_LIVE)]) (\<lambda>mode.
         bind_result (enum_setting look [''BOT_LOG_LEVEL'', ''LOG_LEVEL''] LOG_INFO
           [(''DEBUG'', LOG_DEBUG), (''INFO'', LOG_INFO), (''WARNING'', LOG_WARNING), (''ERROR'', LOG_ERROR), (''CRITICAL'', LOG_CRITICAL)]) (\<lambda>level.
         bind_result (let u = s ''DELTA_BASE_URL'' ''https://api.india.delta.exchange'' in if url_ok u then Inr u else Inl ValueError) (\<lambda>base.
         bind_result (i ''DELTA_REST_RPS'' 10 1 None) (\<lambda>rest_rps.
         bind_result (i ''DELTA_ORDER_RPS'' 5 1 None) (\<lambda>order_rps.
         bind_result (i ''DELTA_WS_MPS'' 20 1 None) (\<lambda>ws_mps.
         bind_result (i ''PROM_HTTP_PORT'' 9091 1024 (Some 65535)) (\<lambda>port.
         bind_result (float_setting (env_float env) look ''BOT_NAV_INR'') (\<lambda>nav.
         bind_result (float_setting (env_float env) look ''BOT_USD_INR_RATE'') (\<lambda>rate.
           Inr \<lparr>st_mode = mode, st_log_level = level, st_data_dir = s ''BOT_DATA_DIR'' ''./data'',
                st_reports_dir = s ''BOT_REPORTS_DIR'' ''./reports'', st_journals_dir = s ''BOT_JOURNALS_DIR'' ''./journals'',
                st_logs_dir = s ''BOT_LOGS_DIR'' ''./logs'', st_config_dir = s ''BOT_CONFIG_DIR'' ''./config'',
                st_runtime_dir = s ''BOT_RUNTIME_DIR'' ''./runtime'', st_db_url = s ''DB_URL'' ''sqlite:///./data/bot.sqlite'',
                st_delta_base_url = base, st_delta_ws_url = s ''DELTA_WS_URL'' ''wss://socket.india.delta.exchange'',
                st_delta_api_key = s ''DELTA_API_KEY'' [], st_delta_api_secret = s ''DELTA_API_SECRET'' [],
                st_delta_rest_rps = rest_rps, st_delta_order_rps = order_rps, st_delta_ws_mps = ws_mps,
                st_prom_textfile_path = s ''PROM_TEXTFILE_PATH'' ''./runtime/metrics/bot.prom'', st_prom_http_port = port,
                st_prom_http_host = s ''PROM_HTTP_HOST'' ''127.0.0.1'', st_nav_inr_override = nav, st_usd_inr_rate_override = rate,
                st_backblaze_b2_key = s ''BACKBLAZE_B2_KEY'' [], st_backblaze_b2_secret = s ''BACKBLAZE_B2_SECRET'' [],
                st_backblaze_b2_bucket = s ''BACKBLAZE_B2_BUCKET'' []\<rparr>))))))))))"

definition st_is_live :: "settings \<Rightarrow> bool" where
  "st_is_live st \<longleftrightarrow> st_mode st = MODE_LIVE"

definition st_is_dry :: "settings \<Rightarrow> bool" where
  "st_is_dry st \<longleftrightarrow> st_mode st = MODE_DRY"

section \<open>Configuration files\<close>

record config_files =
  cf_text :: "string \<Rightarrow> string option"
  cf_yaml :: "string \<Rightarrow> pyval result"
  cf_glob :: "string \<Rightarrow> string list option"
  cf_global :: "(string, pyval) dict \<Rightarrow> global_config result"
  cf_strategy :: "strategy_id \<Rightarrow> (string, pyval) dict \<Rightarrow> strategy_config result"

definition read_yaml :: "config_files \<Rightarrow> string \<Rightarrow> (string, pyval) dict result" where
  "read_yaml cf path =
     (case cf_text cf path of
        None \<Rightarrow> Inl ValueError
      | Some s \<Rightarrow> bind_result (cf_yaml cf s) (\<lambda>data. case data of VNone \<Rightarrow> Inr [] | VDict d \<Rightarrow> Inr d | _ \<Rightarrow> Inl ValueError))"

definition load_global_config :: "config_files \<Rightarrow> string \<Rightarrow> global_config result" where
  "load_global_config cf dir = bind_result (read_yaml cf (dir @ ''/global.yaml'')) (cf_global cf)"

definition load_strategy_file :: "config_files \<Rightarrow> string \<Rightarrow> strategy_config result" where
  "load_strategy_file cf path =
     bind_result (read_yaml cf path) (\<lambda>raw.
       case vget raw ''id'' of
         VNone \<Rightarrow> Inl ValueError
       | VStr s \<Rightarrow> bind_result (StrategyId s) (\<lambda>sid. cf_strategy cf sid raw)
       | v \<Rightarrow> Inl (if hashable v then ValueError else TypeError))"

definition load_strategy_dir :: "config_files \<Rightarrow> string \<Rightarrow> strategy_config list result" where
  "load_strategy_dir cf dir =
     (case cf_glob cf (dir @ ''/strategies'') of
        None \<Rightarrow> Inl ValueError
      | Some paths \<Rightarrow> load_strategy_configs (map (load_strategy_file cf) (sort paths)))"

record app_config =
  ac_settings :: settings
  ac_global :: global_config
  ac_strategies :: "strategy_config list"

definition enabled_strategies :: "app_config \<Rightarrow> strategy_config list" where
  "enabled_strategies ac = filter (\<lambda>c. cfg_enabled (cfg_base c)) (ac_strategies ac)"

definition effective_nav_inr :: "app_config \<Rightarrow> flt" where
  "effective_nav_inr ac = effective_override (st_nav_inr_override (ac_settings ac)) (nav_inr (ac_global ac))"

definition effective_usd_inr_rate :: "app_config \<Rightarrow> flt" where
  "effective_usd_inr_rate ac = effective_override (st_usd_inr_rate_override (ac_settings ac)) (usd_inr_rate (ac_global ac))"

definition load_all :: "config_files \<Rightarrow> string option \<Rightarrow> settings result \<Rightarrow> app_config result" where
  "load_all cf config_dir loaded =
     bind_result loaded (\<lambda>st.
       let dir = the_or (st_config_dir st) config_dir
       in bind_result (load_global_config cf dir) (\<lambda>g.
          bind_result (load_strategy_dir cf dir) (\<lambda>ss.
            Inr \<lparr>ac_settings = st, ac_global = g, ac_strategies = ss\<rparr>)))"

section \<open>Commands\<close>

definition removeprefix :: "string \<Rightarrow> string \<Rightarrow> string" where
  "removeprefix p s = (if prefix p s then drop (length p) s else s)"

definition db_path_from_settings :: "settings \<Rightarrow> string" where
  "db_path_from_settings st =
     (let db_url = st_db_url st
      in if prefix ''sqlite:////'' db_url then ''/'' @ removeprefix ''sqlite:////'' db_url
         else if prefix ''sqlite:///'' db_url then removeprefix ''sqlite:///'' db_url
         else db_url)"

text \<open>
  A study command: it ends with code 1 when the file of the database is missing, and otherwise writes its report to the
  file it was given or to the standard output.
\<close>

datatype command_end = ReportTo "string option" string | ExitCode nat | Raised py_error

definition study_command :: "(string \<Rightarrow> bool) \<Rightarrow> (string \<Rightarrow> string result) \<Rightarrow> string option \<Rightarrow> settings \<Rightarrow> command_end" where
  "study_command is_file study output st =
     (let path = db_path_from_settings st
      in if \<not> is_file path then ExitCode 1
         else case study path of
                Inl e \<Rightarrow> Raised e
              | Inr report \<Rightarrow> ReportTo (if output = Some [] then None else output) report)"

definition go_live_exit_code :: "go_live_report \<Rightarrow> nat" where
  "go_live_exit_code r = (if \<not> gl_passed r then 1 else 0)"

definition resume_exit_code :: "resume_report \<Rightarrow> nat" where
  "resume_exit_code r = (if breaker_was_tripped r \<and> \<not> cleared r then 2 else 0)"

section \<open>Properties\<close>

lemma replace_first_prefix: "replace_first old new (old @ s) = new @ s"
proof (cases "old @ s")
  case (Cons c u)
  have "prefix old (old @ s)" "drop (length old) (old @ s) = s" by simp_all
  then have "prefix old (c # u)" "drop (length old) (c # u) = s" unfolding Cons .
  then show ?thesis unfolding Cons by simp
qed simp

lemma int_setting_range:
  assumes "int_setting pint look name dflt ge le = Inr i" and "ge \<le> dflt" and "\<And>m. le = Some m \<Longrightarrow> dflt \<le> m"
  shows "ge \<le> i \<and> (\<forall>m. le = Some m \<longrightarrow> i \<le> m)"
  using assms by (auto simp: int_setting_def split: option.splits if_splits)

lemma load_settings_ranges:
  assumes "load_settings env url_ok look = Inr st"
  shows "1 \<le> st_delta_rest_rps st \<and> 1 \<le> st_delta_order_rps st \<and> 1 \<le> st_delta_ws_mps st \<and>
    1024 \<le> st_prom_http_port st \<and> st_prom_http_port st \<le> 65535"
proof -
  from assms obtain mode level base a b c port nav rate where
    i: "int_setting (env_int env) look ''DELTA_REST_RPS'' 10 1 None = Inr a"
      "int_setting (env_int env) look ''DELTA_ORDER_RPS'' 5 1 None = Inr b"
      "int_setting (env_int env) look ''DELTA_WS_MPS'' 20 1 None = Inr c"
      "int_setting (env_int env) look ''PROM_HTTP_PORT'' 9091 1024 (Some 65535) = Inr port"
    and st: "st_delta_rest_rps st = a" "st_delta_order_rps st = b" "st_delta_ws_mps st = c" "st_prom_http_port st = port"
    by (auto simp: load_settings_def Let_def)
  show ?thesis using int_setting_range [OF i(1)] int_setting_range [OF i(2)] int_setting_range [OF i(3)] int_setting_range [OF i(4)]
    unfolding st by simp
qed

lemma load_all_Inr:
  "load_all cf config_dir loaded = Inr ac \<longleftrightarrow>
     loaded = Inr (ac_settings ac) \<and>
     load_global_config cf (the_or (st_config_dir (ac_settings ac)) config_dir) = Inr (ac_global ac) \<and>
     load_strategy_dir cf (the_or (st_config_dir (ac_settings ac)) config_dir) = Inr (ac_strategies ac)"
  by (cases ac) (auto simp: load_all_def bind_result_Inr_iff Let_def)

section \<open>Claims\<close>

text \<open>
  A configuration loads only when all of it is right.  Loading succeeds exactly when the global file and every strategy
  file read and validate, there is one at least, no two have the same id and the weights sum to one, and
  the strategies are then those of the files in the order of their paths.
\<close>

theorem load_all_iff:
  assumes "cf_glob cf (dir @ ''/strategies'') = Some paths"
  shows "load_all cf (Some dir) (Inr st) = Inr ac \<longleftrightarrow>
    ac_settings ac = st \<and> load_global_config cf dir = Inr (ac_global ac) \<and>
    map (load_strategy_file cf) (sort paths) = map Inr (ac_strategies ac) \<and> ac_strategies ac \<noteq> [] \<and>
    distinct (config_ids (ac_strategies ac)) \<and>
    \<bar>sum_list (map (\<lambda>c. risk_weight (cfg_base c)) (ac_strategies ac)) - 1\<bar> \<le> 1 / 1000000"
  by (simp add: load_all_Inr load_strategy_dir_def assms load_strategy_configs_iff) auto

text \<open>
  The commands and the engine agree on the database only for an address without a driver.  For \<open>sqlite:///\<close> and a path
  the commands look for the path, and the engine opens it with the asynchronous driver, unless the path
  itself contains the name of the driver, and then the address stays without one; for an address with the driver the
  engine opens the path, but the commands look for a file that has the whole address as its name.
\<close>

theorem commands_miss_driver_address:
  "db_path_from_settings (st\<lparr>st_db_url := ''sqlite:///'' @ p\<rparr>) = p \<and>
   normalize_url (''sqlite:///'' @ p) = (if sublist ''aiosqlite'' p then ''sqlite:///'' @ p else normalize_path p) \<and>
   db_path_from_settings (st\<lparr>st_db_url := normalize_path p\<rparr>) = normalize_path p \<and>
   normalize_url (normalize_path p) = normalize_path p"
proof -
  have a: "sublist ''aiosqlite'' (''sqlite:///'' @ p) \<longleftrightarrow> sublist ''aiosqlite'' p" by (simp add: sublist_Cons_right)
  have "replace_first ''sqlite:'' ''sqlite+aiosqlite:'' (''sqlite:'' @ ''///'' @ p) = ''sqlite+aiosqlite:'' @ ''///'' @ p"
    by (rule replace_first_prefix)
  then have b: "normalize_url (''sqlite:///'' @ p) = (if sublist ''aiosqlite'' p then ''sqlite:///'' @ p else normalize_path p)"
    using a by (simp add: normalize_url_def normalize_path_def)
  have c: "db_path_from_settings (st\<lparr>st_db_url := ''sqlite:///'' @ p\<rparr>) = p"
    by (cases p) (auto simp: db_path_from_settings_def removeprefix_def Let_def)
  have "sublist ''aiosqlite'' (normalize_path p)"
    unfolding sublist_def normalize_path_def by (rule exI [of _ "''sqlite+''"], rule exI [of _ "'':///'' @ p"]) simp
  then have d: "normalize_url (normalize_path p) = normalize_path p" by (auto simp: normalize_url_def normalize_path_def)
  have "db_path_from_settings (st\<lparr>st_db_url := normalize_path p\<rparr>) = normalize_path p"
    by (simp add: db_path_from_settings_def normalize_path_def)
  with b c d show ?thesis by simp
qed

text \<open>
  \<open>bot resume\<close> fails exactly when the latest row is tripped and the confirmation is missing.
\<close>

theorem resume_exit_code_iff:
  "resume_exit_code (fst (resume_evaluate confirm now rows d)) =
     (if (case latest_row rows of None \<Rightarrow> False | Some r \<Rightarrow> nh_circuit_breaker_tripped r) \<and> \<not> confirm then 2 else 0)"
  by (auto simp: resume_evaluate_def resume_exit_code_def case_prod_beta Let_def split: option.split)

definition sample_files :: config_files where
  "sample_files =
     \<lparr>cf_text = (\<lambda>_. Some []), cf_yaml = (\<lambda>_. Inr (VDict [(''id'', VStr ''directional'')])),
      cf_glob = (\<lambda>_. Some [''config/strategies/directional.yaml'']), cf_global = (\<lambda>_. Inr GlobalConfig),
      cf_strategy = (\<lambda>_ _. Inr (DirectionalConfig (sample_directional\<lparr>dir_base := sample_base\<lparr>risk_weight := 1\<rparr>\<rparr>)))\<rparr>"

theorem load_all_iff_witness:
  "\<exists>st ac. load_settings sample_env (\<lambda>_. True) (\<lambda>_. None) = Inr st \<and> load_all sample_files (Some ''config'') (Inr st) = Inr ac \<and>
     effective_nav_inr ac = 50000 \<and> \<not> st_is_live st"
proof -
  obtain st where st: "load_settings sample_env (\<lambda>_. True) (\<lambda>_. None) = Inr st" "st_nav_inr_override st = None" "st_mode st = MODE_DRY"
    by (simp add: load_settings_def enum_setting_def int_setting_def float_setting_def Let_def)
  let ?c = "DirectionalConfig (sample_directional\<lparr>dir_base := sample_base\<lparr>risk_weight := 1\<rparr>\<rparr>)"
  let ?ac = "\<lparr>ac_settings = st, ac_global = GlobalConfig, ac_strategies = [?c]\<rparr>"
  have g: "cf_glob sample_files (''config'' @ ''/strategies'') = Some [''config/strategies/directional.yaml'']" by (simp add: sample_files_def)
  have f: "load_global_config sample_files ''config'' = Inr GlobalConfig" "load_strategy_file sample_files p = Inr ?c" for p
    by (simp_all add: load_global_config_def load_strategy_file_def read_yaml_def sample_files_def StrategyId_def vget_def dict_get_def)
  have "load_all sample_files (Some ''config'') (Inr st) = Inr ?ac"
    unfolding load_all_iff [OF g] using f by (simp add: sample_directional_def sample_base_def)
  with st show ?thesis
    by (intro exI [of _ st] exI [of _ ?ac]) (simp add: effective_nav_inr_def effective_override_def GlobalConfig_def st_is_live_def)
qed

end
