(* ===== verification/Metrics.thy ===== *)
theory Metrics
  imports System
begin

text \<open>
  The metrics of the bot (\<open>bot/observability/metrics.py\<close>) and every place of the engine that moves them.  The client
  library is a parameter: a metric operation is the call that the code makes, with the metric and its label values, and
  what is exposed is a function of the calls.  \<open>tick_ops\<close> follows a round of the main loop through the same steps as
  \<open>tick\<close> and lists the calls it makes, up to the exception that ends it.
\<close>

section \<open>The registry\<close>

datatype metric =
    Ticks_total | Decisions_total | Intents_total | Trades_opened_total | Trades_closed_total | Trade_pnl_inr | Open_positions
  | Nav_inr | Peak_nav_inr | Drawdown_pct | Circuit_breaker_tripped | Exec_latency_ms | Last_tick_seconds | Ws_disconnects_total
  | Rest_errors_total | Portfolio_delta_inr | Portfolio_vega_inr | Iv_percentile

datatype metric_kind = Counter | Gauge | Histogram "int list"

record metric_decl =
  md_name :: string
  md_kind :: metric_kind
  md_labels :: "string list"

definition common_labels :: "string list" where
  "common_labels = [''strategy_id'']"

definition MetricsRegistry :: "metric \<Rightarrow> metric_decl" where
  "MetricsRegistry m =
     (case m of
        Ticks_total \<Rightarrow> \<lparr>md_name = ''bot_ticks_total'', md_kind = Counter, md_labels = []\<rparr>
      | Decisions_total \<Rightarrow>
          \<lparr>md_name = ''bot_decisions_total'', md_kind = Counter, md_labels = [''strategy_id'', ''passed'', ''reason'']\<rparr>
      | Intents_total \<Rightarrow> \<lparr>md_name = ''bot_intents_total'', md_kind = Counter, md_labels = common_labels\<rparr>
      | Trades_opened_total \<Rightarrow> \<lparr>md_name = ''bot_trades_opened_total'', md_kind = Counter, md_labels = common_labels\<rparr>
      | Trades_closed_total \<Rightarrow>
          \<lparr>md_name = ''bot_trades_closed_total'', md_kind = Counter, md_labels = [''strategy_id'', ''exit_reason'']\<rparr>
      | Trade_pnl_inr \<Rightarrow>
          \<lparr>md_name = ''bot_trade_pnl_inr'',
           md_kind = Histogram [-2000, -1000, -500, -200, -100, 0, 100, 200, 500, 1000, 2000, 5000], md_labels = common_labels\<rparr>
      | Open_positions \<Rightarrow> \<lparr>md_name = ''bot_open_positions'', md_kind = Gauge, md_labels = common_labels\<rparr>
      | Nav_inr \<Rightarrow> \<lparr>md_name = ''bot_nav_inr'', md_kind = Gauge, md_labels = []\<rparr>
      | Peak_nav_inr \<Rightarrow> \<lparr>md_name = ''bot_peak_nav_inr'', md_kind = Gauge, md_labels = []\<rparr>
      | Drawdown_pct \<Rightarrow> \<lparr>md_name = ''bot_drawdown_pct'', md_kind = Gauge, md_labels = []\<rparr>
      | Circuit_breaker_tripped \<Rightarrow> \<lparr>md_name = ''bot_circuit_breaker_tripped'', md_kind = Gauge, md_labels = []\<rparr>
      | Exec_latency_ms \<Rightarrow>
          \<lparr>md_name = ''bot_exec_latency_ms'', md_kind = Histogram [5, 10, 25, 50, 100, 250, 500, 1000, 2500, 5000, 10000],
           md_labels = common_labels\<rparr>
      | Last_tick_seconds \<Rightarrow> \<lparr>md_name = ''bot_last_tick_seconds'', md_kind = Gauge, md_labels = []\<rparr>
      | Ws_disconnects_total \<Rightarrow> \<lparr>md_name = ''bot_ws_disconnects_total'', md_kind = Counter, md_labels = []\<rparr>
      | Rest_errors_total \<Rightarrow> \<lparr>md_name = ''bot_rest_errors_total'', md_kind = Counter, md_labels = [''endpoint'', ''status'']\<rparr>
      | Portfolio_delta_inr \<Rightarrow> \<lparr>md_name = ''bot_portfolio_delta_inr'', md_kind = Gauge, md_labels = []\<rparr>
      | Portfolio_vega_inr \<Rightarrow> \<lparr>md_name = ''bot_portfolio_vega_inr'', md_kind = Gauge, md_labels = []\<rparr>
      | Iv_percentile \<Rightarrow> \<lparr>md_name = ''bot_iv_percentile'', md_kind = Gauge, md_labels = [''underlying'', ''expiry_bucket'']\<rparr>)"

text \<open>The calls: \<open>inc\<close>, \<open>set\<close> and \<open>observe\<close> of a metric with its label values.\<close>

datatype metric_op =
    MInc metric "string list"
  | MSet metric "string list" flt
  | MObserve metric "string list" flt

fun op_metric :: "metric_op \<Rightarrow> metric" where
  "op_metric (MInc m ls) = m"
| "op_metric (MSet m ls x) = m"
| "op_metric (MObserve m ls x) = m"

text \<open>The calls of a test helper of the same file.\<close>

definition labelled_counter_increments :: "metric \<Rightarrow> string list list \<Rightarrow> metric_op list" where
  "labelled_counter_increments counter labels_seq = map (MInc counter) labels_seq"

section \<open>Calls of the engine\<close>

definition close_ops :: "trade_row \<Rightarrow> exit_trigger \<Rightarrow> flt \<Rightarrow> metric_op list" where
  "close_ops trade trigger realised =
     [MInc Trades_closed_total [t_strategy_id trade, trigger_value trigger], MObserve Trade_pnl_inr [t_strategy_id trade] realised]"

definition rest_error_ops :: "string option \<Rightarrow> int option \<Rightarrow> metric_op list" where
  "rest_error_ops endpoint status_code =
     [MInc Rest_errors_total [(case endpoint of None \<Rightarrow> ''unknown'' | Some e \<Rightarrow> if e = [] then ''unknown'' else e),
        str_of_int (the_or 0 status_code)]]"

definition portfolio_ops :: "portfolio_greeks \<Rightarrow> (underlying, flt) dict \<Rightarrow> flt \<Rightarrow> metric_op list" where
  "portfolio_ops book marks usd_inr =
     (let (delta_inr, vega_inr) =
        fold (\<lambda>(key, ug) (d, v).
               case Underlying key of
                 Inl _ \<Rightarrow> (d, v)
               | Inr u \<Rightarrow>
                   (case dict_get marks u of
                      None \<Rightarrow> (d, v)
                    | Some px \<Rightarrow> if px \<le> 0 then (d, v)
                                   else (d + \<bar>ug_delta ug\<bar> * px * usd_inr, v + \<bar>ug_vega ug\<bar> * usd_inr)))
          (by_underlying book) (0, 0)
      in [MSet Portfolio_delta_inr [] delta_inr, MSet Portfolio_vega_inr [] vega_inr])"

definition iv_ops :: "(underlying \<times> expiry_bucket, iv_percentile_result) dict \<Rightarrow> metric_op list" where
  "iv_ops ivs =
     concat (map (\<lambda>((u, b), r). case ivp_percentile r of None \<Rightarrow> [] | Some x \<Rightarrow> [MSet Iv_percentile [underlying_value u, bucket_value b] x]) ivs)"

definition decision_op :: "decision_rec \<Rightarrow> metric_op" where
  "decision_op row = MInc Decisions_total [dr_strategy_id row, if dr_passed row then ''true'' else ''false'', dr_reason row]"

definition round_ops :: "flt \<Rightarrow> nav_tracker \<Rightarrow> registry \<Rightarrow> trade_accounting_snapshot \<Rightarrow> metric_op list" where
  "round_ops seconds n r acc =
     [MInc Ticks_total [], MSet Last_tick_seconds [] seconds, MSet Nav_inr [] (nav_now n), MSet Peak_nav_inr [] (peak_nav n)] @
     map (\<lambda>sid. MSet Open_positions [strategy_value sid] (of_int (the_or 0 (dict_get (open_count_by_strategy acc) sid)))) (all_ids r)"

section \<open>Calls of a round\<close>

definition after_ops :: "('x, 'a) eng \<Rightarrow> ('a \<Rightarrow> 'x engine \<Rightarrow> metric_op list) \<Rightarrow> 'x engine \<Rightarrow> metric_op list" where
  "after_ops m k w = (case m w of (Inl _, _) \<Rightarrow> [] | (Inr x, w1) \<Rightarrow> k x w1)"

text \<open>\<open>_persist_exit\<close> counts a trade after its session: not when the executor failed, nor when the row was gone.\<close>

definition exit_ops ::
  "(string \<Rightarrow> flt option) \<Rightarrow> 'x executor \<Rightarrow> datetime \<Rightarrow> trade_row \<Rightarrow> leg_row list \<Rightarrow> exit_trigger \<Rightarrow> pyval \<Rightarrow>
   (string, pyval) dict option \<Rightarrow> (string, quote_snapshot) dict option \<Rightarrow> chain_cache option \<Rightarrow> 'x engine \<Rightarrow> metric_op list" where
  "exit_ops pf xe now trade legs trigger wallet ind qf chain w =
     (case exit_request_of now trade legs trigger of
        Inl e \<Rightarrow> []
      | Inr req \<Rightarrow>
          (case xe_submit_exit xe req (en_exec w) of
             (Inl e, x) \<Rightarrow> []
           | (Inr res, x) \<Rightarrow>
               if \<not> xr_success res then []
               else
                 let realised = compute_realised_pnl_inr (premium_paid_inr trade) (credit_received_inr trade) (t_lots trade) (xr_fills res)
                 in if get_trade (t_id trade) (en_db w) = None then []
                    else (case record_exit pf trade legs trigger res realised wallet ind qf chain now (en_db w) of
                            Inl e \<Rightarrow> []
                          | Inr _ \<Rightarrow> close_ops trade trigger realised)))"

definition directive_ops ::
  "engine_config \<Rightarrow> 'x executor \<Rightarrow> tick_input \<Rightarrow> market_state \<Rightarrow> trade_row \<Rightarrow> leg_row list \<Rightarrow> exit_directive \<Rightarrow> 'x engine \<Rightarrow> metric_op list" where
  "directive_ops c xe ti m trade legs d w =
     (case (ed_kind d, ed_trigger d) of
        (EXIT_CLOSE, Some trigger) \<Rightarrow>
          (case bind_result (wallet_request (ti_wallet_exit_fault ti (t_id trade))) (\<lambda>_. indicator_snapshot_for_trade trade m) of
             Inl e \<Rightarrow> []
           | Inr ind \<Rightarrow>
               exit_ops (ec_parse_float c) xe (ti_clock ti (t_id trade)) trade legs trigger (ti_wallet_exit ti (t_id trade)) (Some ind)
                 (Some (quote_for m)) (Some (ti_chain ti)) w)
      | _ \<Rightarrow> [])"

fun directives_ops ::
  "engine_config \<Rightarrow> 'x executor \<Rightarrow> tick_input \<Rightarrow> market_state \<Rightarrow> trade_row \<Rightarrow> leg_row list \<Rightarrow> exit_directive list \<Rightarrow> 'x engine \<Rightarrow>
   metric_op list" where
  "directives_ops c xe ti m trade legs [] w = []"
| "directives_ops c xe ti m trade legs (d # ds) w =
     directive_ops c xe ti m trade legs d w @
     after_ops (handle_directive c xe ti m trade legs d) (\<lambda>_. directives_ops c xe ti m trade legs ds) w"

definition position_ops ::
  "engine_config \<Rightarrow> 'x executor \<Rightarrow> tick_input \<Rightarrow> market_state \<Rightarrow> (trade_row \<times> leg_row list) list \<Rightarrow> position_state \<Rightarrow> 'x engine \<Rightarrow>
   metric_op list" where
  "position_ops c xe ti m rows pos w =
     (case List.find (\<lambda>row. t_id (fst row) = trade_id pos) rows of
        None \<Rightarrow> []
      | Some (trade, legs) \<Rightarrow>
          (case step (ec_parse_float c) (en_registry w) (trail_update_throttle_seconds (execution (ec_global c)))
                  (runtime_for pos (en_runtimes w)) m of
             Inl e \<Rightarrow> []
           | Inr (ds, rt') \<Rightarrow>
               directives_ops c xe ti m trade legs ds (w\<lparr>en_runtimes := dict_set (trade_id pos) rt' (en_runtimes w)\<rparr>)))"

fun positions_ops ::
  "engine_config \<Rightarrow> 'x executor \<Rightarrow> tick_input \<Rightarrow> market_state \<Rightarrow> (trade_row \<times> leg_row list) list \<Rightarrow> position_state list \<Rightarrow>
   (int, flt) dict \<Rightarrow> 'x engine \<Rightarrow> metric_op list" where
  "positions_ops c xe ti m rows [] peaks w = []"
| "positions_ops c xe ti m rows (pos # ps) peaks w =
     position_ops c xe ti m rows pos w @ after_ops (process_position c xe ti m rows pos peaks) (positions_ops c xe ti m rows ps) w"

definition manage_ops ::
  "engine_config \<Rightarrow> 'x executor \<Rightarrow> tick_input \<Rightarrow> market_state \<Rightarrow> (trade_row \<times> leg_row list) list \<Rightarrow> 'x engine \<Rightarrow> metric_op list" where
  "manage_ops c xe ti m rows w =
     (case map_result (\<lambda>(t, legs). trade_to_position_state (ec_parse_float c) (ti_now ti) t legs (ti_chain ti)) rows of
        Inl e \<Rightarrow> []
      | Inr ps \<Rightarrow>
          positions_ops c xe ti m rows ps []
            (w\<lparr>en_runtimes := filter (\<lambda>p. fst p \<in> set (map (t_id \<circ> fst) rows)) (en_runtimes w)\<rparr>))"

fun intents_ops ::
  "engine_config \<Rightarrow> 'x executor \<Rightarrow> tick_input \<Rightarrow> market_state \<Rightarrow> portfolio_greeks option \<Rightarrow> trade_accounting_snapshot \<Rightarrow> intent list \<Rightarrow>
   'x engine \<Rightarrow> metric_op list" where
  "intents_ops c xe ti m book acc [] w = []"
| "intents_ops c xe ti m book acc (i # is) w =
     (case gate (risk_of c w) i (ti_now ti) acc book (Some (quote_for m)) (Some (ti_chain ti)) (Some (ti_marks ti)) (ec_usd_inr c) of
        Inl e \<Rightarrow> []
      | Inr sz \<Rightarrow>
          MInc Intents_total [strategy_value (in_strategy_id i)] #
          (if \<not> approved sz then intents_ops c xe ti m book acc is w
           else
             (case execute_intent c xe ti m i sz w of
                (Inl e, w1) \<Rightarrow> []
              | (Inr opened, w1) \<Rightarrow>
                  (if opened then [MInc Trades_opened_total [strategy_value (in_strategy_id i)]] else []) @
                  (let w2 = (if opened then w1
                             else w1\<lparr>en_registry := apply_directional_entry_failure_cooldown (en_registry w1) i (ti_now ti)\<rparr>)
                   in case accounting_snapshot (en_db w2) of
                        Inl e \<Rightarrow> []
                      | Inr acc2 \<Rightarrow> intents_ops c xe ti m book acc2 is w2))))"

definition entry_ops ::
  "engine_config \<Rightarrow> 'x executor \<Rightarrow> tick_input \<Rightarrow> market_state \<Rightarrow> (trade_row \<times> leg_row list) list \<Rightarrow> 'x engine \<Rightarrow> metric_op list" where
  "entry_ops c xe ti m rows w =
     (let (disp, r) = evaluate_all (en_registry w) m None; w1 = w\<lparr>en_registry := r\<rparr>
      in case accounting_snapshot (en_db w1) of
           Inl e \<Rightarrow> []
         | Inr acc \<Rightarrow>
             (case portfolio_book c ti rows (quote_for m) of
                None \<Rightarrow> []
              | Some book \<Rightarrow> portfolio_ops book (ti_marks ti) (ec_usd_inr c) @ iv_ops (iv_percentiles m)) @
             intents_ops c xe ti m (portfolio_book c ti rows (quote_for m)) acc (all_intents disp) w1)"

text \<open>
  The end of a round.  The accounting is the last one that was taken, which is that of the stored trades.
\<close>

definition finish_ops :: "engine_config \<Rightarrow> tick_input \<Rightarrow> flt \<Rightarrow> decision_rec list \<Rightarrow> 'x engine \<Rightarrow> metric_op list" where
  "finish_ops c ti seconds records w =
     after_ops (finish_phase c ti records)
       (\<lambda>_ w1. map decision_op records @
          (case accounting_snapshot (en_db w1) of Inl e \<Rightarrow> [] | Inr acc \<Rightarrow> round_ops seconds (en_nav w1) (en_registry w1) acc)) w"

definition tick_ops :: "engine_config \<Rightarrow> 'x executor \<Rightarrow> tick_input \<Rightarrow> flt \<Rightarrow> 'x engine \<Rightarrow> metric_op list" where
  "tick_ops c xe ti seconds w =
     (let w0 = roll_phase ti w; rows = load_open_trades (en_db w0); m = market_of c ti (quotes_for (ti_chain ti) rows)
      in case wallet_request (ti_wallet_fault ti) of
           Inl e \<Rightarrow> []
         | Inr _ \<Rightarrow>
             manage_ops c xe ti m rows w0 @
             after_ops (manage_phase c xe ti m rows)
               (\<lambda>_ w1. entry_ops c xe ti m rows w1 @ after_ops (entry_phase c xe ti m rows) (finish_ops c ti seconds) w1) w0)"

section \<open>Properties\<close>

text \<open>A call fits its declaration: the method of the kind, and as many label values as the metric has labels.\<close>

definition fits :: "metric_op \<Rightarrow> bool" where
  "fits op \<longleftrightarrow>
     (let d = MetricsRegistry (op_metric op)
      in case op of
           MInc _ ls \<Rightarrow> md_kind d = Counter \<and> length ls = length (md_labels d)
         | MSet _ ls _ \<Rightarrow> md_kind d = Gauge \<and> length ls = length (md_labels d)
         | MObserve _ ls _ \<Rightarrow> (case md_kind d of Histogram _ \<Rightarrow> True | _ \<Rightarrow> False) \<and> length ls = length (md_labels d))"

text \<open>Calls that fit and are for some metrics only.\<close>

definition calls_in :: "metric set \<Rightarrow> metric_op list \<Rightarrow> bool" where
  "calls_in ms ops \<longleftrightarrow> list_all (\<lambda>op. fits op \<and> op_metric op \<in> ms) ops"

lemma calls_in_simps [simp]:
  "calls_in ms []" "calls_in ms (op # ops) \<longleftrightarrow> fits op \<and> op_metric op \<in> ms \<and> calls_in ms ops"
  "calls_in ms (xs @ ys) \<longleftrightarrow> calls_in ms xs \<and> calls_in ms ys"
  by (simp_all add: calls_in_def)

lemma calls_in_mono: "calls_in ms ops \<Longrightarrow> ms \<subseteq> ms' \<Longrightarrow> calls_in ms' ops"
  by (auto simp: calls_in_def list_all_iff)

abbreviation exit_metrics :: "metric set" where
  "exit_metrics \<equiv> {Trades_closed_total, Trade_pnl_inr}"

abbreviation entry_metrics :: "metric set" where
  "entry_metrics \<equiv> {Portfolio_delta_inr, Portfolio_vega_inr, Iv_percentile, Intents_total, Trades_opened_total}"

abbreviation finish_metrics :: "metric set" where
  "finish_metrics \<equiv> {Decisions_total, Ticks_total, Last_tick_seconds, Nav_inr, Peak_nav_inr, Open_positions}"

lemmas op_defs = fits_def MetricsRegistry_def common_labels_def Let_def

lemma calls_leaf [simp]:
  "calls_in exit_metrics (close_ops trade trigger x)" "calls_in {Rest_errors_total} (rest_error_ops ep st)"
  "calls_in entry_metrics (portfolio_ops book marks rate)" "calls_in entry_metrics (iv_ops ivs)"
  "calls_in finish_metrics (map decision_op records)" "calls_in finish_metrics (round_ops seconds n r acc)"
  by (auto simp: close_ops_def rest_error_ops_def portfolio_ops_def iv_ops_def decision_op_def round_ops_def op_defs calls_in_def list_all_iff
      split: option.splits prod.splits)

lemma calls_after: "(\<And>x w1. m w = (Inr x, w1) \<Longrightarrow> calls_in ms (k x w1)) \<Longrightarrow> calls_in ms (after_ops m k w)"
  by (auto simp: after_ops_def split: prod.splits sum.splits)

lemma calls_exit: "calls_in exit_metrics (exit_ops pf xe now trade legs trigger wallet ind qf chain w)"
  by (auto simp: exit_ops_def Let_def split: sum.split prod.split)

lemma calls_directive: "calls_in exit_metrics (directive_ops c xe ti m trade legs d w)"
  using calls_exit by (auto simp: directive_ops_def split: exit_kind.split option.split sum.split)

lemma calls_directives: "calls_in exit_metrics (directives_ops c xe ti m trade legs ds w)"
  by (induction ds arbitrary: w) (simp_all add: calls_directive calls_after)

lemma calls_position: "calls_in exit_metrics (position_ops c xe ti m rows pos w)"
  by (simp add: position_ops_def calls_directives split: option.split prod.split sum.split)

lemma calls_positions: "calls_in exit_metrics (positions_ops c xe ti m rows ps peaks w)"
  by (induction ps arbitrary: peaks w) (simp_all add: calls_position calls_after)

lemma calls_manage: "calls_in exit_metrics (manage_ops c xe ti m rows w)"
  by (simp add: manage_ops_def calls_positions split: sum.split)

lemma calls_intents: "calls_in entry_metrics (intents_ops c xe ti m book acc is w)"
proof (induction "is" arbitrary: acc w)
  case (Cons i "is")
  have one: "fits (MInc Intents_total [x])" "fits (MInc Trades_opened_total [x])" for x by (simp_all add: op_defs)
  with Cons show ?case by (simp add: Let_def split: sum.split prod.split)
qed simp

lemma calls_entry: "calls_in entry_metrics (entry_ops c xe ti m rows w)"
  by (simp add: entry_ops_def calls_intents Let_def split: sum.split prod.split option.split)

lemma calls_finish: "calls_in finish_metrics (finish_ops c ti seconds records w)"
  by (simp add: finish_ops_def calls_after split: sum.split)

section \<open>Counting\<close>

text \<open>What a counter and a histogram add up to.\<close>

definition incs :: "metric \<Rightarrow> metric_op list \<Rightarrow> nat" where
  "incs m ops = length (filter (\<lambda>op. case op of MInc m' _ \<Rightarrow> m' = m | _ \<Rightarrow> False) ops)"

definition observed :: "metric \<Rightarrow> metric_op list \<Rightarrow> flt" where
  "observed m ops = sum_list (map (\<lambda>op. case op of MObserve m' _ x \<Rightarrow> if m' = m then x else 0 | _ \<Rightarrow> 0) ops)"

lemma incs_simps [simp]:
  "incs m [] = 0" "incs m (op # ops) = (case op of MInc m' _ \<Rightarrow> if m' = m then 1 else 0 | _ \<Rightarrow> 0) + incs m ops"
  "incs m (xs @ ys) = incs m xs + incs m ys"
  by (auto simp: incs_def split: metric_op.splits)

lemma observed_simps [simp]:
  "observed m [] = 0" "observed m (op # ops) = (case op of MObserve m' _ x \<Rightarrow> if m' = m then x else 0 | _ \<Rightarrow> 0) + observed m ops"
  "observed m (xs @ ys) = observed m xs + observed m ys"
  by (simp_all add: observed_def)

lemma calls_elsewhere:
  assumes "calls_in ms ops" and "m \<notin> ms"
  shows "incs m ops = 0" and "observed m ops = 0"
  using assms by (induction ops) (auto split: metric_op.splits)

lemma incs_decisions [simp]: "incs Decisions_total (map decision_op records) = length records"
  by (induction records) (simp_all add: decision_op_def)

lemma round_counts [simp]:
  "incs Ticks_total (round_ops seconds n r acc) = 1" "incs Decisions_total (round_ops seconds n r acc) = 0"
  "incs Ticks_total (map decision_op records) = 0"
proof -
  have sets: "incs m (map (\<lambda>sid. MSet Open_positions (f sid) (g sid)) ids) = 0" for m f g and ids :: "strategy_id list"
    by (induction ids) simp_all
  show "incs Ticks_total (round_ops seconds n r acc) = 1" "incs Decisions_total (round_ops seconds n r acc) = 0"
    by (simp_all add: round_ops_def sets)
  show "incs Ticks_total (map decision_op records) = 0" by (induction records) (simp_all add: decision_op_def)
qed

text \<open>The profit that a round observes is what its exits add to the NAV.\<close>

lemma exit_observed:
  assumes "persist_exit pf xe now trade legs trigger wallet ind qf chain w = (Inr (), w')"
    and "get_trade (t_id trade) (en_db w) = Some t"
  shows "nav_now (en_nav w') = nav_now (en_nav w) + observed Trade_pnl_inr (exit_ops pf xe now trade legs trigger wallet ind qf chain w)"
  using assms
  by (auto simp: persist_exit_def exit_ops_def close_ops_def Let_def split: sum.splits prod.splits if_splits)

lemma persist_trail_nav:
  "persist_trail_stop xe epoch now trade legs new_stop ns wallet w = (r, w') \<Longrightarrow> en_nav w' = en_nav w"
  by (auto simp: persist_trail_stop_def Let_def split: list.splits prod.splits sum.splits option.splits)

lemma directive_observed:
  assumes "handle_directive c xe ti m trade legs d w = (Inr (), w')" and "get_trade (t_id trade) (en_db w) = Some t"
  shows "nav_now (en_nav w') = nav_now (en_nav w) + observed Trade_pnl_inr (directive_ops c xe ti m trade legs d w)"
proof -
  consider (Close) trigger where "ed_kind d = EXIT_CLOSE" "ed_trigger d = Some trigger"
    | (Stop) x where "ed_kind d = EXIT_UPDATE_STOP" "ed_new_stop_price d = Some x"
    | (Other) "handle_directive c xe ti m trade legs d w = (Inr (), w)" "directive_ops c xe ti m trade legs d w = []"
    by (cases "ed_kind d"; cases "ed_trigger d"; cases "ed_new_stop_price d") (auto simp: handle_directive_def directive_ops_def)
  then show ?thesis
  proof cases
    case Other
    with assms show ?thesis by simp
  next
    case (Stop x)
    then have "persist_trail_stop xe (ti_epoch ti) (ti_clock ti (t_id trade)) trade legs x [] (the_or VNone (ti_wallet ti)) w = (Inr (), w')"
      using assms(1) by (simp add: handle_directive_def)
    from persist_trail_nav [OF this] Stop show ?thesis by (simp add: directive_ops_def)
  next
    case (Close trigger)
    let ?ind = "bind_result (wallet_request (ti_wallet_exit_fault ti (t_id trade))) (\<lambda>_. indicator_snapshot_for_trade trade m)"
    from Close obtain ind where ind: "?ind = Inr ind" using assms(1) by (cases ?ind) (simp_all add: handle_directive_def)
    obtain out w1 where p: "persist_exit (ec_parse_float c) xe (ti_clock ti (t_id trade)) trade legs trigger
        (ti_wallet_exit ti (t_id trade)) (Some ind) (Some (quote_for m)) (Some (ti_chain ti)) w = (out, w1)" by fastforce
    then have "out = Inr () \<and> en_nav w' = en_nav w1" using assms(1) Close ind by (auto simp: handle_directive_def split: sum.splits)
    with exit_observed [of "ec_parse_float c" xe "ti_clock ti (t_id trade)" trade legs trigger] p assms(2) Close ind show ?thesis
      by (simp add: directive_ops_def)
  qed
qed

lemma position_observed:
  assumes "process_position c xe ti m rows pos peaks w = (Inr ps, w')" and "get_trade (trade_id pos) (en_db w) = Some t"
  shows "nav_now (en_nav w') = nav_now (en_nav w) + observed Trade_pnl_inr (position_ops c xe ti m rows pos w)"
proof (cases "List.find (\<lambda>row. t_id (fst row) = trade_id pos) rows")
  case None
  with assms(1) show ?thesis by (simp add: process_position_def position_ops_def)
next
  case (Some row)
  obtain trade legs where row: "row = (trade, legs)" by (cases row)
  have "t_id (fst row) = trade_id pos" using Some by (auto simp: find_Some_iff)
  then have id: "t_id trade = trade_id pos" using row by simp
  let ?rt = "runtime_for pos (en_runtimes w)"
  let ?step = "step (ec_parse_float c) (en_registry w) (trail_update_throttle_seconds (execution (ec_global c))) ?rt m"
  obtain ds rt' where st: "?step = Inr (ds, rt')" using assms(1) Some row by (cases ?step) (auto simp: process_position_def Let_def)
  obtain d where d: "ds = [d]" using step_one_directive st by blast
  define w1 where "w1 = w\<lparr>en_runtimes := dict_set (trade_id pos) rt' (en_runtimes w)\<rparr>"
  obtain out w2 where h: "handle_directive c xe ti m trade legs d w1 = (out, w2)" by fastforce
  have out: "out = Inr () \<and> w' = w2"
    using assms(1) Some row st d h by (auto simp: process_position_def Let_def en_bind_def w1_def [symmetric] split: sum.splits prod.splits)
  have g: "get_trade (t_id trade) (en_db w1) = Some t" using assms(2) id by (simp add: w1_def)
  have "position_ops c xe ti m rows pos w = directive_ops c xe ti m trade legs d w1"
    using Some row st d h by (cases out) (simp_all add: position_ops_def w1_def after_ops_def)
  then show ?thesis using directive_observed [OF _ g, of c xe ti m legs d w2] h out by (simp add: w1_def)
qed

lemma positions_observed:
  assumes "process_positions c xe ti m rows ps peaks w = (Inr out, w')" and "db_wf (en_db w)" and "distinct (map trade_id ps)"
    and "\<forall>p \<in> set ps. \<exists>t. get_trade (trade_id p) (en_db w) = Some t"
  shows "nav_now (en_nav w') = nav_now (en_nav w) + observed Trade_pnl_inr (positions_ops c xe ti m rows ps peaks w)"
  using assms
proof (induction ps arbitrary: peaks w)
  case (Cons pos ps)
  then have b: "en_bind (process_position c xe ti m rows pos peaks) (process_positions c xe ti m rows ps) w = (Inr out, w')" by simp
  obtain x w1 where g: "process_position c xe ti m rows pos peaks w = (Inr x, w1)" "process_positions c xe ti m rows ps x w1 = (Inr out, w')"
    using b by (cases rule: en_bind_cases) auto
  note h = process_position_handles [OF g(1), unfolded handles_def]
  obtain t where t: "get_trade (trade_id pos) (en_db w) = Some t" using Cons.prems(4) by auto
  note one = position_observed [OF g(1) t]
  have wf: "db_wf (en_db w1)" using h Cons.prems(2) by (simp add: trades_shrink_def)
  have "\<forall>p \<in> set ps. trade_id p \<noteq> trade_id pos" using Cons.prems(3) by (auto simp: image_iff)
  then have "\<forall>p \<in> set ps. \<exists>t. get_trade (trade_id p) (en_db w1) = Some t" using h Cons.prems(4) by auto
  with Cons.IH [OF g(2) wf] Cons.prems(3)
  have "nav_now (en_nav w') = nav_now (en_nav w1) + observed Trade_pnl_inr (positions_ops c xe ti m rows ps x w1)" by simp
  with one g(1) show ?case by (simp add: after_ops_def)
qed simp

lemma manage_observed:
  assumes "manage_phase c xe ti m (load_open_trades (en_db w)) w = (Inr (), w')" and wf: "db_wf (en_db w)"
  shows "nav_now (en_nav w') = nav_now (en_nav w) + observed Trade_pnl_inr (manage_ops c xe ti m (load_open_trades (en_db w)) w)"
proof -
  let ?rows = "load_open_trades (en_db w)"
  let ?pos = "map_result (\<lambda>(t, legs). trade_to_position_state (ec_parse_float c) (ti_now ti) t legs (ti_chain ti)) ?rows"
  define w1 where "w1 = w\<lparr>en_runtimes := filter (\<lambda>p. fst p \<in> set (map (t_id \<circ> fst) ?rows)) (en_runtimes w)\<rparr>"
  obtain ps where ps: "?pos = Inr ps" using assms(1) by (cases ?pos) (simp_all add: manage_phase_def Let_def)
  note pos = positions_of_rows [OF wf ps]
  obtain out w2 where p: "process_positions c xe ti m ?rows ps [] w1 = (out, w2)" by fastforce
  obtain peaks where out: "out = Inr peaks" using assms(1) ps p by (cases out) (simp_all add: manage_phase_def Let_def w1_def)
  have "nav_now (en_nav w2) = nav_now (en_nav w1) + observed Trade_pnl_inr (positions_ops c xe ti m ?rows ps [] w1)"
    using positions_observed [OF p [unfolded out]] wf pos by (auto simp: w1_def)
  moreover have "en_nav w' = en_nav w2"
    using assms(1) ps p out by (auto simp: manage_phase_def Let_def w1_def split: if_splits prod.splits sum.splits)
  moreover have "manage_ops c xe ti m ?rows w = positions_ops c xe ti m ?rows ps [] w1" by (simp add: manage_ops_def ps w1_def)
  ultimately show ?thesis by (simp add: w1_def)
qed

text \<open>The accounting of a round that completes has been taken from the stored trades.\<close>

lemma run_intents_accounting:
  assumes "run_intents c xe ti m book acc is records w = (Inr out, w')" and "accounting_snapshot (en_db w) = Inr acc"
  shows "\<exists>acc'. accounting_snapshot (en_db w') = Inr acc'"
  using assms
proof (induction "is" arbitrary: acc records w)
  case (Cons i "is")
  let ?gate = "gate (risk_of c w) i (ti_now ti) acc book (Some (quote_for m)) (Some (ti_chain ti)) (Some (ti_marks ti)) (ec_usd_inr c)"
  obtain sz where sz: "?gate = Inr sz" using Cons.prems(1) by (cases ?gate) simp_all
  show ?case
  proof (cases "approved sz")
    case False
    with Cons.prems(1) sz have "run_intents c xe ti m book acc is (records @ [risk_record i sz]) w = (Inr out, w')" by simp
    from Cons.IH [OF this Cons.prems(2)] show ?thesis .
  next
    case True
    obtain r w1 where p: "execute_intent c xe ti m i sz w = (r, w1)" by fastforce
    obtain opened where opened: "r = Inr opened" using Cons.prems(1) sz True p by (cases r) (simp_all add: Let_def)
    define w2 where "w2 = (if opened then w1
      else w1\<lparr>en_registry := apply_directional_entry_failure_cooldown (en_registry w1) i (ti_now ti)\<rparr>)"
    obtain acc2 where acc2: "accounting_snapshot (en_db w2) = Inr acc2"
      using Cons.prems(1) sz True p opened by (cases "accounting_snapshot (en_db w2)") (simp_all add: Let_def w2_def)
    have "run_intents c xe ti m book acc2 is (records @ [risk_record i sz]) w2 = (Inr out, w')"
      using Cons.prems(1) sz True p opened acc2 by (simp add: Let_def w2_def)
    from Cons.IH [OF this acc2] show ?thesis .
  qed
qed auto

lemma entry_phase_accounting:
  assumes "entry_phase c xe ti m rows w = (Inr out, w')"
  shows "\<exists>acc'. accounting_snapshot (en_db w') = Inr acc'"
  using assms run_intents_accounting
  by (fastforce simp: entry_phase_def Let_def split: sum.splits prod.splits)

lemma stored_all:
  assumes "write_result fault max_batch records = Inr n"
  shows "length (stored_records fault max_batch records) = length records"
proof (cases "failed_batch fault max_batch (length records)")
  case (Some k)
  then have "fault k \<noteq> None" by (auto simp: failed_batch_def find_Some_iff)
  with Some assms show ?thesis by (auto simp: write_result_def)
qed (simp add: stored_records_def)

lemma finish_phase_rows:
  assumes "finish_phase c ti records w = (Inr (), w')"
  shows "length (en_decisions w') = length (en_decisions w) + length records" and "en_db w' = en_db w"
proof -
  obtain rows n marker where s: "sync_circuit_breaker_from_risk (en_nav_rows w) (risk_of c w) (ti_now ti) (en_marker w) = Inr (rows, n, marker)"
    using assms by (auto simp: finish_phase_def split: sum.splits)
  obtain rws where rws: "write_decisions (ti_log_clock ti) (ti_log_fault ti) 500 records (en_decisions w) =
      (write_result (ti_log_fault ti) 500 records, en_decisions w @ rws)"
    "map untimed rws = map (decision_row_of 0) (stored_records (ti_log_fault ti) 500 records)"
    using write_one_row_per_record [of 500 "ti_log_clock ti" "ti_log_fault ti" records "en_decisions w"] by auto
  obtain n where n: "write_result (ti_log_fault ti) 500 records = Inr n"
    using assms s rws(1) by (cases "write_result (ti_log_fault ti) 500 records") (auto simp: finish_phase_def Let_def)
  have "length rws = length records"
    using arg_cong [OF rws(2), of length] stored_all [OF n] by simp
  with rws(1) n show "length (en_decisions w') = length (en_decisions w) + length records" "en_db w' = en_db w"
    using assms s by (auto simp: finish_phase_def Let_def)
qed

lemma phase_counts [simp]:
  "incs Ticks_total (manage_ops c xe ti m rows w) = 0" "incs Decisions_total (manage_ops c xe ti m rows w) = 0"
  "incs Ticks_total (entry_ops c xe ti m rows w) = 0" "incs Decisions_total (entry_ops c xe ti m rows w) = 0"
  "observed Trade_pnl_inr (entry_ops c xe ti m rows w) = 0" "observed Trade_pnl_inr (finish_ops c ti seconds records w) = 0"
  by (rule calls_elsewhere [OF calls_manage] calls_elsewhere [OF calls_entry] calls_elsewhere [OF calls_finish], simp)+

text \<open>The rest of a round, after the open trades have been managed.\<close>

lemma rest_observed:
  assumes "en_bind (entry_phase c xe ti m rows) (finish_phase c ti) w = (r, w')" and "db_wf (en_db w)"
    and ops_def: "ops = entry_ops c xe ti m rows w @ after_ops (entry_phase c xe ti m rows) (finish_ops c ti seconds) w"
  shows "(case r of
      Inl e \<Rightarrow> incs Ticks_total ops = 0
    | Inr _ \<Rightarrow>
        incs Ticks_total ops = 1 \<and> length (en_decisions w') = length (en_decisions w) + incs Decisions_total ops \<and>
        nav_now (en_nav w') = nav_now (en_nav w)) \<and> observed Trade_pnl_inr ops = 0"
  using assms(1)
proof (cases rule: en_bind_cases)
  case (Raise e)
  then show ?thesis by (simp add: ops_def after_ops_def)
next
  case g: (Go recs w2)
  have fr: "entry_frame w w2" using entry_phase_effect [OF g(1) assms(2)] by blast
  have ops2: "ops = entry_ops c xe ti m rows w @ finish_ops c ti seconds recs w2" using g(1) by (simp add: ops_def after_ops_def)
  show ?thesis
  proof (cases r)
    case (Inl e)
    with g(2) show ?thesis by (simp add: ops2 finish_ops_def after_ops_def)
  next
    case (Inr v)
    then have f: "finish_phase c ti recs w2 = (Inr (), w')" using g(2) by simp
    obtain acc where acc: "accounting_snapshot (en_db w') = Inr acc"
      using entry_phase_accounting [OF g(1)] finish_phase_rows(2) [OF f] by auto
    have "finish_ops c ti seconds recs w2 = map decision_op recs @ round_ops seconds (en_nav w') (en_registry w') acc"
      using f acc by (simp add: finish_ops_def after_ops_def)
    then have "incs Ticks_total ops = 1" "incs Decisions_total ops = length recs" by (simp_all add: ops2)
    moreover have "observed Trade_pnl_inr ops = 0" by (simp add: ops2)
    moreover have "nav_now (en_nav w') = nav_now (en_nav w)" using finish_phase_effect(2) [OF f] fr by (simp add: entry_frame_def)
    moreover have "length (en_decisions w') = length (en_decisions w) + length recs"
      using finish_phase_rows(1) [OF f] fr by (simp add: entry_frame_def)
    ultimately show ?thesis using Inr by simp
  qed
qed

section \<open>Claims\<close>

text \<open>
  C39: every call that a round makes fits the declaration of its metric, so that the client library raises on none; and none
  is for the drawdown, the breaker, the latency or the websocket disconnects: whatever happens, a breaker that trips
  included, the exposed gauge of the breaker is what it was at the start.
\<close>

theorem metric_calls_fit:
  "list_all (\<lambda>op. fits op \<and> op_metric op \<notin> {Drawdown_pct, Circuit_breaker_tripped, Exec_latency_ms, Ws_disconnects_total})
     (tick_ops c xe ti seconds w @ rest_error_ops endpoint status_code)"
proof -
  let ?all = "exit_metrics \<union> entry_metrics \<union> finish_metrics \<union> {Rest_errors_total}"
  have rest: "calls_in ?all (rest_error_ops endpoint status_code)" using calls_leaf(2) by (rule calls_in_mono) simp
  have "calls_in ?all (tick_ops c xe ti seconds w)"
  proof (cases "wallet_request (ti_wallet_fault ti)")
    case (Inl e)
    then show ?thesis by (simp add: tick_ops_def Let_def)
  next
    case (Inr u)
    then show ?thesis
      by (auto simp: tick_ops_def Let_def intro!: calls_after
          intro: calls_in_mono [OF calls_manage] calls_in_mono [OF calls_entry] calls_in_mono [OF calls_finish])
  qed
  with rest have "calls_in ?all (tick_ops c xe ti seconds w @ rest_error_ops endpoint status_code)" by simp
  then show ?thesis unfolding calls_in_def by (rule list.pred_mono_strong) auto
qed

text \<open>
  C25: what a scraper sees of a round is what happened in it.  The tick counter moves exactly in the rounds that complete;
  a round that completes counts one decision for each row it adds to the decision log, and the profits that it observes add
  up to the change of the NAV.
\<close>

theorem metrics_tell_the_round:
  assumes "tick c xe ti w = (r, w')" and wf: "db_wf (en_db w)" and "ops = tick_ops c xe ti seconds w"
  shows "(case r of
      Inl e \<Rightarrow> incs Ticks_total ops = 0
    | Inr _ \<Rightarrow>
        incs Ticks_total ops = 1 \<and>
        length (en_decisions w') = length (en_decisions w) + incs Decisions_total ops \<and>
        nav_now (en_nav w') = nav_now (en_nav w) + observed Trade_pnl_inr ops)"
proof (cases "wallet_request (ti_wallet_fault ti)")
  case (Inl e)
  have "tick c xe ti w = (Inl e, roll_phase ti w)" by (simp add: tick_def Let_def Inl)
  then have "r = Inl e" using assms(1) by simp
  moreover have "ops = []" by (simp add: assms(3) tick_ops_def Let_def Inl)
  ultimately show ?thesis by simp
next
  case asked: (Inr u)
  define w0 where "w0 = roll_phase ti w"
  define rows where "rows = load_open_trades (en_db w0)"
  define m where "m = market_of c ti (quotes_for (ti_chain ti) rows)"
  have w0: "en_db w0 = en_db w" "nav_now (en_nav w0) = nav_now (en_nav w)" "en_decisions w0 = en_decisions w"
    by (simp_all add: w0_def) (simp add: roll_phase_def split: prod.split)
  have ops: "ops = manage_ops c xe ti m rows w0 @ after_ops (manage_phase c xe ti m rows)
      (\<lambda>_ w1. entry_ops c xe ti m rows w1 @ after_ops (entry_phase c xe ti m rows) (finish_ops c ti seconds) w1) w0"
    by (simp add: assms(3) asked tick_ops_def Let_def w0_def rows_def m_def)
  have "en_bind (manage_phase c xe ti m rows) (\<lambda>_. en_bind (entry_phase c xe ti m rows) (finish_phase c ti)) w0 = (r, w')"
    using assms(1) asked by (simp add: tick_def round_phases_def Let_def w0_def rows_def m_def)
  then show ?thesis
  proof (cases rule: en_bind_cases)
    case (Raise e)
    then show ?thesis by (simp add: ops after_ops_def)
  next
    case (Go u w1)
    have m1: "manage_phase c xe ti m (load_open_trades (en_db w0)) w0 = (Inr (), w1)" using Go(1) rows_def by simp
    have wf0: "db_wf (en_db w0)" using wf w0 by simp
    have "trades_shrink w0 w1" using manage_phase_effect(1) [OF m1 wf0] .
    then have "db_wf (en_db w1)" "en_decisions w1 = en_decisions w" using wf0 w0 by (simp_all add: trades_shrink_def)
    with rest_observed [OF Go(2) _ refl, of seconds] manage_observed [OF m1 wf0, folded rows_def] Go(1) w0 show ?thesis
      by (cases r) (simp_all add: ops after_ops_def)
  qed
qed

theorem metrics_tell_the_round_witness:
  "incs Ticks_total (tick_ops sample_config sample_router sample_input 7 (sample_engine [sample_trade 1 TRADE_CLOSED (Some 500)])) = 1"
proof -
  have wf: "db_wf (en_db (sample_engine [sample_trade 1 TRADE_CLOSED (Some 500)]))"
    by (simp add: sample_engine_def db_wf_def)
  show ?thesis using metrics_tell_the_round [OF sample_tick wf refl, of 7] by simp
qed

end
