(* ===== verification/Observability.thy ===== *)
theory Observability
  imports Metrics
begin

text \<open>
  What the bot leaves on disk for others to watch: the text file of the metrics (\<open>TextfileCollector\<close> of
  \<open>bot/observability/metrics.py\<close>), the mirror of the decision log (\<open>bot/analytics/decision_log.py\<close>) and the set-up of the
  log (\<open>bot/observability/logging_setup.py\<close>).  A directory is a map from names to contents.  The text of the metrics,
  the name that \<open>tempfile\<close> draws, the pieces in which a file is written, and \<open>json.dumps\<close> are parameters.
\<close>

section \<open>The text file of the metrics\<close>

type_synonym files = "string \<Rightarrow> string option"

datatype fs_call =
    CreateFile string
  | AppendFile string string
  | ReplaceFile string string

fun run_call :: "fs_call \<Rightarrow> files \<Rightarrow> files" where
  "run_call (CreateFile f) fs = fs(f := Some [])"
| "run_call (AppendFile f s) fs = fs(f := Some (the_or [] (fs f) @ s))"
| "run_call (ReplaceFile f g) fs = (fs(f := None))(g := fs f)"

text \<open>Every state the directory goes through: a reader, or a crash, may find any of them.\<close>

fun states_of :: "fs_call list \<Rightarrow> files \<Rightarrow> files list" where
  "states_of [] fs = [fs]"
| "states_of (x # xs) fs = fs # states_of xs (run_call x fs)"

definition run_calls :: "fs_call list \<Rightarrow> files \<Rightarrow> files" where
  "run_calls xs fs = fold run_call xs fs"

definition temporary_name :: "string \<Rightarrow> string \<Rightarrow> string" where
  "temporary_name name drawn = name @ ''.'' @ drawn @ ''.prom''"

text \<open>\<open>pieces\<close>: how the page reaches the disk.\<close>

definition write_once :: "string \<Rightarrow> string \<Rightarrow> string list \<Rightarrow> fs_call list" where
  "write_once name drawn pieces =
     (let tmp = temporary_name name drawn
      in [CreateFile tmp] @ map (AppendFile tmp) pieces @ [ReplaceFile tmp name])"

text \<open>The engine writes at most once a minute, and counts a failed attempt as one.\<close>

definition textfile_due :: "flt \<Rightarrow> flt \<Rightarrow> bool" where
  "textfile_due mono_now last_textfile \<longleftrightarrow> mono_now - last_textfile > 60"

section \<open>The mirror of the decision log\<close>

definition mirror_payload :: "datetime \<Rightarrow> decision_rec \<Rightarrow> pyval" where
  "mirror_payload ts rec =
     VDict [(''ts'', VStr (isoformat ts)), (''strategy_id'', VStr (dr_strategy_id rec)), (''kind'', VStr (dr_kind rec)),
            (''underlying'', (case dr_underlying rec of None \<Rightarrow> VNone | Some u \<Rightarrow> VStr u)),
            (''symbol'', (case dr_symbol rec of None \<Rightarrow> VNone | Some s \<Rightarrow> VStr s)),
            (''passed'', VBool (dr_passed rec)), (''reason'', VStr (dr_reason rec)), (''feature_vector'', VDict (dr_features rec))]"

definition mirror_line :: "(pyval \<Rightarrow> string) \<Rightarrow> datetime \<Rightarrow> decision_rec \<Rightarrow> string" where
  "mirror_line dumps ts rec = dumps (mirror_payload ts rec) @ [CHR 0x0A]"

text \<open>
  \<open>room\<close>: after how many characters an \<open>OSError\<close> ends the append, if it does; the error is logged and dropped.
  The records carry no time, so that each line reads the clock for itself.
\<close>

definition mirror_jsonl :: "(pyval \<Rightarrow> string) \<Rightarrow> (nat \<Rightarrow> datetime) \<Rightarrow> nat option \<Rightarrow> decision_rec list \<Rightarrow> string \<Rightarrow> string" where
  "mirror_jsonl dumps clock room records fl =
     (let s = concat (map (\<lambda>(k, rec). mirror_line dumps (clock k) rec) (enumerate 0 records))
      in fl @ (case room of None \<Rightarrow> s | Some n \<Rightarrow> take n s))"

record mirror_batch =
  mb_records :: "decision_rec list"
  mb_clock :: "nat \<Rightarrow> datetime"
  mb_line_clock :: "nat \<Rightarrow> datetime"
  mb_fault :: "nat \<Rightarrow> py_error option"
  mb_room :: "nat option"

text \<open>
  \<open>write\<close> of a writer with a mirror: the mirror is written after the last batch of rows, and not when the commit of
  a batch raised; the rows of the batches before that one stay.
\<close>

definition write_log ::
  "(pyval \<Rightarrow> string) \<Rightarrow> nat \<Rightarrow> mirror_batch \<Rightarrow> decision_row list \<times> string \<Rightarrow> nat result \<times> decision_row list \<times> string" where
  "write_log dumps max_batch b st =
     (let (table, fl) = st; normalised = map from_dict (mb_records b)
      in if normalised = [] then (Inr 0, table, fl)
         else case write_decisions (mb_clock b) (mb_fault b) max_batch (mb_records b) table of
                (Inl e, table') \<Rightarrow> (Inl e, table', fl)
              | (Inr n, table') \<Rightarrow> (Inr n, table', mirror_jsonl dumps (mb_line_clock b) (mb_room b) normalised fl))"

definition write_logs :: "(pyval \<Rightarrow> string) \<Rightarrow> nat \<Rightarrow> mirror_batch list \<Rightarrow> decision_row list \<times> string \<Rightarrow> decision_row list \<times> string" where
  "write_logs dumps max_batch bs st = fold (\<lambda>b st. snd (write_log dumps max_batch b st)) bs st"

section \<open>The set-up of the log\<close>

text \<open>The time of a record: the clock on the wall, with its offset from UTC when it has one.\<close>

record log_time =
  lt_wall :: datetime
  lt_offset :: "int option"

definition ist_log_record_patcher :: "log_time \<Rightarrow> log_time" where
  "ist_log_record_patcher t =
     (case lt_offset t of
        None \<Rightarrow> t\<lparr>lt_offset := Some IST\<rparr>
      | Some off \<Rightarrow> \<lparr>lt_wall = lt_wall t - off + IST, lt_offset = Some IST\<rparr>)"

record log_sink =
  sink_target :: string
  sink_level :: string
  sink_rotation :: "string option"
  sink_retention :: "string option"
  sink_compression :: "string option"

text \<open>The sinks after the call, whatever they were before.\<close>

definition configure_logging :: "string \<Rightarrow> string \<Rightarrow> log_sink list \<Rightarrow> log_sink list" where
  "configure_logging logs_dir log_level sinks =
     [\<lparr>sink_target = ''stderr'', sink_level = log_level, sink_rotation = None, sink_retention = None, sink_compression = None\<rparr>,
      \<lparr>sink_target = logs_dir @ ''/bot.log'', sink_level = log_level, sink_rotation = Some ''50 MB'', sink_retention = Some ''14 days'',
       sink_compression = Some ''gz''\<rparr>]"

section \<open>Properties\<close>

lemma states_append: "states_of (xs @ ys) fs = butlast (states_of xs fs) @ states_of ys (run_calls xs fs)"
proof (induction xs arbitrary: fs)
  case (Cons x xs)
  have "states_of zs gs \<noteq> []" for zs gs by (cases zs) simp_all
  with Cons show ?case by (simp add: run_calls_def)
qed (simp add: run_calls_def)

lemma temporary_other [simp]: "temporary_name name drawn \<noteq> name" "name \<noteq> temporary_name name drawn"
  by (simp_all add: temporary_name_def)

text \<open>Appending to a file touches no other, and each piece is seen as it arrives.\<close>

lemma append_states: "g \<in> set (states_of (map (AppendFile tmp) pieces) fs) \<Longrightarrow> f \<noteq> tmp \<Longrightarrow> g f = fs f"
  by (induction pieces arbitrary: fs) (auto simp: fun_upd_apply)

lemma run_appends:
  "fs tmp = Some s \<Longrightarrow> run_calls (map (AppendFile tmp) pieces) fs f = (if f = tmp then Some (s @ concat pieces) else fs f)"
  by (induction pieces arbitrary: fs s) (simp_all add: run_calls_def)

lemma states_take: "k \<le> length xs \<Longrightarrow> states_of xs fs ! k = run_calls (take k xs) fs"
proof (induction xs arbitrary: fs k)
  case (Cons x xs)
  then show ?case by (cases k) (simp_all add: run_calls_def)
qed (simp add: run_calls_def)

lemma length_states [simp]: "length (states_of xs fs) = Suc (length xs)"
  by (induction xs arbitrary: fs) simp_all

section \<open>Claims\<close>

text \<open>
  C40: the text file of the metrics is replaced in one step.  Whenever the process stops, or someone looks, the file holds
  the whole old page or the whole new one; at the end it holds the new one and every other file is as it was.
\<close>

theorem textfile_write_atomic:
  assumes "fs (temporary_name name drawn) = None"
  shows "list_all (\<lambda>g. g name = fs name \<or> g name = Some (concat pieces)) (states_of (write_once name drawn pieces) fs) \<and>
    run_calls (write_once name drawn pieces) fs = fs(name := Some (concat pieces))"
proof -
  let ?tmp = "temporary_name name drawn" let ?app = "map (AppendFile ?tmp) pieces"
  define fs1 where "fs1 = fs(?tmp := Some [])"
  have w: "write_once name drawn pieces = CreateFile ?tmp # ?app @ [ReplaceFile ?tmp name]" by (simp add: write_once_def Let_def)
  have r: "run_calls ?app fs1 f = (if f = ?tmp then Some (concat pieces) else fs f)" for f
    using run_appends [of fs1 ?tmp "[]" pieces f] by (simp add: fs1_def)
  let ?fin = "run_call (ReplaceFile ?tmp name) (run_calls ?app fs1)"
  have fin: "?fin = fs(name := Some (concat pieces))"
    by (rule ext) (simp add: r assms)
  have "states_of (write_once name drawn pieces) fs = fs # states_of (?app @ [ReplaceFile ?tmp name]) fs1"
    by (simp add: w fs1_def)
  also have "states_of (?app @ [ReplaceFile ?tmp name]) fs1 = butlast (states_of ?app fs1) @ [run_calls ?app fs1, ?fin]"
    by (simp add: states_append)
  finally have st: "states_of (write_once name drawn pieces) fs = fs # butlast (states_of ?app fs1) @ [run_calls ?app fs1, ?fin]" .
  have "g name = fs name" if "g \<in> set (butlast (states_of ?app fs1))" for g
    using append_states [OF in_set_butlastD [OF that], of name] by (simp add: fs1_def)
  then have "list_all (\<lambda>g. g name = fs name \<or> g name = Some (concat pieces)) (states_of (write_once name drawn pieces) fs)"
    unfolding st using fin r [of name] by (simp add: list_all_iff)
  moreover have "run_calls (write_once name drawn pieces) fs = ?fin" by (simp add: w run_calls_def fs1_def)
  ultimately show ?thesis using fin by simp
qed

text \<open>
  The collector reads every file of the directory whose name ends in \<open>.prom\<close>, and so does the name of the temporary
  file: while the page is written, the collector also finds each part of it, under the other name.
\<close>

theorem collector_finds_parts:
  assumes "k \<le> length pieces"
  shows "(states_of (write_once name drawn pieces) fs ! Suc k) (temporary_name name drawn) = Some (concat (take k pieces)) \<and>
    drop (length (temporary_name name drawn) - 5) (temporary_name name drawn) = ''.prom''"
proof -
  let ?tmp = "temporary_name name drawn"
  have "take (Suc k) (write_once name drawn pieces) = CreateFile ?tmp # map (AppendFile ?tmp) (take k pieces)"
    using assms by (simp add: write_once_def Let_def take_map)
  moreover have "Suc k \<le> length (write_once name drawn pieces)" using assms by (simp add: write_once_def Let_def)
  ultimately have "states_of (write_once name drawn pieces) fs ! Suc k = run_calls (map (AppendFile ?tmp) (take k pieces)) (fs(?tmp := Some []))"
    by (simp add: states_take run_calls_def)
  then show ?thesis using run_appends [of "fs(?tmp := Some [])" ?tmp "[]" "take k pieces" ?tmp] by (simp add: temporary_name_def)
qed

theorem textfile_write_atomic_witness:
  "run_calls (write_once ''bot.prom'' ''x1'' [''up'', '' 1'']) (\<lambda>_. None) ''bot.prom'' = Some ''up 1''"
  using textfile_write_atomic [of "\<lambda>_. None" "''bot.prom''" "''x1''" "[''up'', '' 1'']"] by simp

theorem collector_finds_parts_witness:
  "(states_of (write_once ''bot.prom'' ''x1'' [''up'', '' 1'']) (\<lambda>_. None) ! 2) ''bot.prom.x1.prom'' = Some ''up''"
  using collector_finds_parts [of 1 "[''up'', '' 1'']" "''bot.prom''" "''x1''" "\<lambda>_. None"]
  by (simp add: temporary_name_def numeral_2_eq_2)

text \<open>The log keeps the instant of a time that knows its offset, and of a naive one only on a host on Indian time.\<close>

lemma patched_instant:
  "lt_offset (ist_log_record_patcher t) = Some IST"
  "lt_wall (ist_log_record_patcher t) - IST = lt_wall t - the_or IST (lt_offset t)"
  by (cases "lt_offset t"; simp add: ist_log_record_patcher_def)+

lemma configure_logging_again: "configure_logging dir lv (configure_logging dir lv sinks) = configure_logging dir lv sinks'"
  by (simp add: configure_logging_def)

section \<open>The mirror and the table\<close>

definition mirror_text :: "(pyval \<Rightarrow> string) \<Rightarrow> (datetime \<times> decision_rec) list \<Rightarrow> string" where
  "mirror_text dumps ps = concat (map (\<lambda>(t, rec). mirror_line dumps t rec) ps)"

lemma mirror_text_append [simp]: "mirror_text dumps (ps @ qs) = mirror_text dumps ps @ mirror_text dumps qs"
  by (simp add: mirror_text_def)

text \<open>The records of a write, each with the time of its line.\<close>

definition timed_records :: "mirror_batch \<Rightarrow> (datetime \<times> decision_rec) list" where
  "timed_records b = zip (map (mb_line_clock b) [0..<length (mb_records b)]) (map from_dict (mb_records b))"

lemma mirror_lines:
  "concat (map (\<lambda>(k, rec). mirror_line dumps (clock k) rec) (enumerate j recs)) =
     mirror_text dumps (zip (map clock [j..<j + length recs]) recs)"
proof (induction recs arbitrary: j)
  case (Cons r recs)
  have "[j..<j + length (r # recs)] = j # [Suc j..<Suc j + length recs]" using upt_conv_Cons [of j "j + length (r # recs)"] by simp
  with Cons [of "Suc j"] show ?case by (simp add: mirror_text_def)
qed (simp add: mirror_text_def)

lemma mirror_jsonl_text:
  "mirror_jsonl dumps (mb_line_clock b) room (map from_dict (mb_records b)) fl =
     fl @ (case room of None \<Rightarrow> mirror_text dumps (timed_records b) | Some n \<Rightarrow> take n (mirror_text dumps (timed_records b)))"
  using mirror_lines [of dumps "mb_line_clock b" 0 "map from_dict (mb_records b)"]
  by (cases room) (simp_all add: mirror_jsonl_def timed_records_def Let_def)

lemma split_lines:
  assumes "\<And>v. CHR 0x0A \<notin> set (dumps v)"
  shows "split_on (CHR 0x0A) (mirror_text dumps ps) = map (\<lambda>(t, rec). dumps (mirror_payload t rec)) ps @ [[]]"
  using assms unfolding mirror_text_def by (induction ps) (auto simp: mirror_line_def split_on_append)

text \<open>What one write leaves: the records that have rows now, and the text that was added to the mirror.\<close>

definition mirrored :: "(pyval \<Rightarrow> string) \<Rightarrow> nat \<Rightarrow> mirror_batch \<Rightarrow> string" where
  "mirrored dumps max_batch b =
     (if failed_batch (mb_fault b) max_batch (length (mb_records b)) \<noteq> None then []
      else case mb_room b of
             None \<Rightarrow> mirror_text dumps (timed_records b)
           | Some n \<Rightarrow> take n (mirror_text dumps (timed_records b)))"

definition undisturbed :: "nat \<Rightarrow> mirror_batch \<Rightarrow> bool" where
  "undisturbed max_batch b \<longleftrightarrow> failed_batch (mb_fault b) max_batch (length (mb_records b)) = None \<and> mb_room b = None"

lemma write_log_step:
  assumes "0 < max_batch"
  shows "\<exists>rows. write_log dumps max_batch b (table, fl) =
       (write_result (mb_fault b) max_batch (mb_records b), table @ rows, fl @ mirrored dumps max_batch b) \<and>
     map untimed rows = map (decision_row_of 0) (stored_records (mb_fault b) max_batch (mb_records b))"
proof -
  obtain rows where w: "write_decisions (mb_clock b) (mb_fault b) max_batch (mb_records b) table =
      (write_result (mb_fault b) max_batch (mb_records b), table @ rows)"
    "map untimed rows = map (decision_row_of 0) (stored_records (mb_fault b) max_batch (mb_records b))"
    using write_one_row_per_record [OF assms, of "mb_clock b" "mb_fault b" "mb_records b" table] by blast
  show ?thesis
  proof (cases "mb_records b = []")
    case True
    then have "rows = []" using w(2) by (simp add: stored_records_def failed_batch_def)
    with True show ?thesis
      by (simp add: write_log_def write_result_def stored_records_def failed_batch_def mirrored_def timed_records_def mirror_text_def split: option.split)
  next
    case False
    show ?thesis
    proof (cases "failed_batch (mb_fault b) max_batch (length (mb_records b))")
      case None
      with False w show ?thesis
        by (intro exI [of _ rows]) (simp add: write_log_def write_result_def mirrored_def mirror_jsonl_text Let_def split: option.split)
    next
      case (Some k)
      then have "mb_fault b k \<noteq> None" by (auto simp: failed_batch_def find_Some_iff)
      with Some False w show ?thesis
        by (intro exI [of _ rows]) (auto simp: write_log_def write_result_def mirrored_def Let_def)
    qed
  qed
qed

text \<open>
  C38: the mirror and the table.  Whatever is written and whatever fails, the table has the rows of the records that each
  write stored: all of them, or, when the commit of a batch raised, those of the batches before it, and then the write
  adds nothing to the mirror.  Else it adds one line for each of its rows, or the part of these lines that a failing
  disk took.  After writes that nothing disturbed, the mirror has exactly one line for each row of the table, in its
  order: the rendering of the record that the row was made of, with a time of its own.
\<close>

theorem mirror_matches_table:
  assumes "0 < max_batch" and "\<And>v. CHR 0x0A \<notin> set (dumps v)" and "write_logs dumps max_batch bs ([], []) = (table, fl)"
  shows "map untimed table = map (decision_row_of 0) (concat (map (\<lambda>b. stored_records (mb_fault b) max_batch (mb_records b)) bs)) \<and>
    fl = concat (map (mirrored dumps max_batch) bs) \<and>
    (list_all (undisturbed max_batch) bs \<longrightarrow>
       length (concat (map timed_records bs)) = length table \<and>
       map untimed table = map (\<lambda>(t, rec). decision_row_of 0 rec) (concat (map timed_records bs)) \<and>
       split_on (CHR 0x0A) fl = map (\<lambda>(t, rec). dumps (mirror_payload t rec)) (concat (map timed_records bs)) @ [[]])"
proof -
  have gen: "\<exists>rows. write_logs dumps max_batch bs (table, fl) = (table @ rows, fl @ concat (map (mirrored dumps max_batch) bs)) \<and>
      map untimed rows = map (decision_row_of 0) (concat (map (\<lambda>b. stored_records (mb_fault b) max_batch (mb_records b)) bs))"
    for table fl
  proof (induction bs arbitrary: table fl)
    case (Cons b bs)
    from write_log_step [OF assms(1), of dumps b table fl] obtain rows where
      "snd (write_log dumps max_batch b (table, fl)) = (table @ rows, fl @ mirrored dumps max_batch b)"
      "map untimed rows = map (decision_row_of 0) (stored_records (mb_fault b) max_batch (mb_records b))" by auto
    moreover from Cons.IH [of "table @ rows" "fl @ mirrored dumps max_batch b"] obtain more where
      "write_logs dumps max_batch bs (table @ rows, fl @ mirrored dumps max_batch b) =
         ((table @ rows) @ more, (fl @ mirrored dumps max_batch b) @ concat (map (mirrored dumps max_batch) bs))"
      "map untimed more = map (decision_row_of 0) (concat (map (\<lambda>b. stored_records (mb_fault b) max_batch (mb_records b)) bs))" by blast
    ultimately show ?case by (intro exI [of _ "rows @ more"]) (simp add: write_logs_def)
  qed (simp add: write_logs_def)
  from gen [of "[]" "[]"] assms(3) have t: "map untimed table =
      map (decision_row_of 0) (concat (map (\<lambda>b. stored_records (mb_fault b) max_batch (mb_records b)) bs))"
    and fl: "fl = concat (map (mirrored dumps max_batch) bs)" by auto
  have "length (concat (map timed_records bs)) = length table \<and>
       map untimed table = map (\<lambda>(t, rec). decision_row_of 0 rec) (concat (map timed_records bs)) \<and>
       split_on (CHR 0x0A) fl = map (\<lambda>(t, rec). dumps (mirror_payload t rec)) (concat (map timed_records bs)) @ [[]]"
    if all: "list_all (undisturbed max_batch) bs"
  proof -
    have "concat (map (mirrored dumps max_batch) bs) = mirror_text dumps (concat (map timed_records bs))"
      using all by (induction bs) (simp_all add: undisturbed_def mirrored_def, simp add: mirror_text_def)
    moreover have snd: "concat (map (\<lambda>b. stored_records (mb_fault b) max_batch (mb_records b)) bs) = map snd (concat (map timed_records bs))"
      using all by (induction bs) (simp_all add: undisturbed_def stored_records_def timed_records_def)
    moreover have "length table = length (concat (map timed_records bs))"
      using arg_cong [OF t, of length] unfolding snd by simp
    ultimately show ?thesis using t fl split_lines [OF assms(2)] by (simp add: comp_def case_prod_unfold)
  qed
  with t fl show ?thesis by blast
qed

definition sample_batch :: "(nat \<Rightarrow> py_error option) \<Rightarrow> nat option \<Rightarrow> mirror_batch" where
  "sample_batch fault room = \<lparr>mb_records = [mk_decision DIRECTIONAL (Some BTC) None False ''no_signal'' []], mb_clock = (\<lambda>_. 0),
     mb_line_clock = (\<lambda>_. 1), mb_fault = fault, mb_room = room\<rparr>"

text \<open>A write that is mirrored, one whose commit raises and one that the disk cuts off after two of three characters.\<close>

theorem mirror_matches_table_witness:
  "\<exists>table fl. write_logs (\<lambda>_. ''{}'') 500 [sample_batch (\<lambda>_. None) None, sample_batch (\<lambda>_. Some OperationalError) None,
        sample_batch (\<lambda>_. None) (Some 2)] ([], []) = (table, fl) \<and> length table = 2 \<and> fl = ''{}'' @ [CHR 0x0A] @ ''{}''"
proof -
  let ?dumps = "\<lambda>_ :: pyval. ''{}''"
  let ?bs = "[sample_batch (\<lambda>_. None) None, sample_batch (\<lambda>_. Some OperationalError) None, sample_batch (\<lambda>_. None) (Some 2)]"
  obtain table fl where w: "write_logs ?dumps 500 ?bs ([], []) = (table, fl)" by fastforce
  have nl: "CHR 0x0A \<notin> set (?dumps v)" for v by simp
  have "(0::nat) < 500" by simp
  note m = mirror_matches_table [OF this nl w]
  have "length (map untimed table) = 2"
    unfolding conjunct1 [OF m] by (simp add: sample_batch_def stored_records_def failed_batch_def)
  moreover have "fl = ''{}'' @ [CHR 0x0A] @ ''{}''"
    unfolding conjunct1 [OF conjunct2 [OF m]]
    by (simp add: sample_batch_def mirrored_def failed_batch_def timed_records_def mirror_text_def mirror_line_def)
  ultimately show ?thesis using w by auto
qed

end
