(* ===== verification/StudyReports.thy ===== *)
theory StudyReports
  imports Reports Optimize
begin

text \<open>
  The Markdown of the offline studies (\<open>format_report\<close> and \<open>format_open_positions_report\<close> of
  \<open>bot/analytics/directional_postmortem.py\<close>, \<open>_suggestions\<close> and \<open>format_optimization_report\<close> of
  \<open>bot/analytics/directional_optimize.py\<close>), and the functions that run a study and write its file.  A text is the list of
  its UTF-8 bytes; \<open>exc\<close> is the text of the exception that a warning ends with, and \<open>parse\<close> is
  \<open>datetime.fromisoformat\<close>.  Cutting a text to a number of characters is meant for ASCII.
\<close>

section \<open>Formats\<close>

text \<open>The format specification \<open>+.nf\<close>.\<close>

definition fmt_signed :: "nat \<Rightarrow> flt \<Rightarrow> string" where
  "fmt_signed n x = (if x < 0 then fmt_fixed n x else ''+'' @ fmt_fixed n x)"

definition pct_text :: "flt \<Rightarrow> string" where
  "pct_text x = fmt_signed 2 (x * 100) @ ''%''"

text \<open>What an f-string makes of an optional value, and \<open>x or ''\<close> of an optional number.\<close>

definition text_of_float :: "py_env \<Rightarrow> flt option \<Rightarrow> string" where
  "text_of_float env x = (case x of None \<Rightarrow> ''None'' | Some v \<Rightarrow> py_str env (VFlt v))"

definition float_or_blank :: "py_env \<Rightarrow> flt option \<Rightarrow> string" where
  "float_or_blank env x = (case x of None \<Rightarrow> [] | Some v \<Rightarrow> if v = 0 then [] else py_str env (VFlt v))"

definition nat_or_blank :: "nat option \<Rightarrow> string" where
  "nat_or_blank x = (case x of None \<Rightarrow> [] | Some n \<Rightarrow> if n = 0 then [] else str_of_nat n)"

definition text_or :: "string \<Rightarrow> string option \<Rightarrow> string" where
  "text_or d s = (case s of None \<Rightarrow> d | Some v \<Rightarrow> if v = [] then d else v)"

definition text_of :: "string option \<Rightarrow> string" where
  "text_of s = (case s of None \<Rightarrow> ''None'' | Some v \<Rightarrow> v)"

definition field_text :: "py_env \<Rightarrow> (string, pyval) dict \<Rightarrow> string \<Rightarrow> string" where
  "field_text env d k = (if vget d k = VNone then ''None'' else py_str env (vget d k))"

definition tally :: "string list \<Rightarrow> (string, nat) dict" where
  "tally vs = fold (\<lambda>v d. dict_set v (the_or 0 (dict_get d v) + 1) d) vs []"

section \<open>Warnings\<close>

definition warning_text :: "(warning \<Rightarrow> string) \<Rightarrow> warning \<Rightarrow> string" where
  "warning_text exc w =
     (case w of
        PositionsFailed \<Rightarrow> ''get_positions: '' @ exc w
      | UnknownUnderlying tid u \<Rightarrow> ''trade '' @ str_of_int tid @ '': unknown underlying '' @ u
      | CandlesFailed s \<Rightarrow> ''candles '' @ s @ '': '' @ exc w
      | OrdersFailed tid \<Rightarrow> ''orders trade '' @ str_of_int tid @ '': '' @ exc w
      | TickerFailed s \<Rightarrow> ''ticker '' @ s @ '': '' @ exc w
      | OptionTickerFailed s \<Rightarrow> ''option ticker '' @ s @ '': '' @ exc w)"

definition study_warning_text :: "(study_warning \<Rightarrow> string) \<Rightarrow> study_warning \<Rightarrow> string" where
  "study_warning_text exc w =
     (case w of
        ExchangeOrdersFailed \<Rightarrow> ''exchange orders: '' @ exc w
      | BadUnderlying tid \<Rightarrow> ''trade '' @ str_of_int tid @ '': bad underlying''
      | UnderlyingCandlesFailed s \<Rightarrow> ''underlying candles '' @ s @ '': '' @ exc w
      | OptionCandlesFailed s \<Rightarrow> ''option candles '' @ s @ '': '' @ exc w)"

section \<open>The report of the attempts\<close>

definition position_line :: "py_env \<Rightarrow> (string, pyval) dict \<Rightarrow> string" where
  "position_line env p =
     ''- '' @ field_text env p ''product_symbol'' @ '': size='' @ field_text env p ''size'' @ '' entry='' @
     field_text env p ''entry_price'' @ '' uPnL='' @ field_text env p ''unrealized_pnl''"

definition verdict_order :: "string list" where
  "verdict_order = [''favorable'', ''adverse'', ''flat'', ''unknown'']"

definition verdict_lines :: "movement_row list \<Rightarrow> string list" where
  "verdict_lines rows =
     List.map_filter (\<lambda>v.
       let n = the_or 0 (dict_get (tally (map mv_verdict_60m rows)) v)
       in if n = 0 then None
          else Some (''- '' @ v @ '': '' @ str_of_nat n @ '' ('' @ fmt_fixed 0 (100 * real n / real (length rows)) @ ''%)'')) verdict_order"

definition underlying_lines :: "movement_row list \<Rightarrow> string list" where
  "underlying_lines rows =
     (let us = map (\<lambda>r. ta_underlying (mv_attempt r)) rows
      in concat (map (\<lambda>u.
           (''### '' @ u) #
           map (\<lambda>(v, n). ''- '' @ v @ '': '' @ str_of_nat n)
             (sort_key fst (tally (map mv_verdict_60m (filter (\<lambda>r. ta_underlying (mv_attempt r) = u) rows)))) @ [[]])
         (sort (remdups us))))"

definition entry_text :: "datetime \<Rightarrow> string" where
  "entry_text t = date_isoformat (date_of t) @ '' '' @ clock_text t"

definition bar_text :: "movement_row \<Rightarrow> nat \<Rightarrow> string" where
  "bar_text row k = (case dict_get (mv_ret_pct_at_bar row) k of None \<Rightarrow> em_dash | Some r \<Rightarrow> pct_text r)"

definition movement_cells :: "py_env \<Rightarrow> movement_row \<Rightarrow> string list" where
  "movement_cells env row =
     (let a = mv_attempt row
      in [str_of_int (ta_trade_id a), entry_text (ta_entry_ts a), ta_underlying a, text_or ''?'' (ta_option_type a),
          float_or_blank env (ta_strike a), float_or_blank env (ta_premium a), ta_status a, take 24 (text_or [] (ta_error a)),
          fmt_fixed 2 (mv_entry_spot row), bar_text row 1, bar_text row 2, bar_text row 4, bar_text row 8,
          fmt_signed 2 (mv_mfe_pct row), fmt_signed 2 (mv_mae_pct row), mv_verdict_60m row])"

definition table_line :: "string list \<Rightarrow> string" where
  "table_line cells = ''| '' @ join_text '' | '' cells @ '' |''"

definition attempt_table :: "py_env \<Rightarrow> movement_row list \<Rightarrow> string list" where
  "attempt_table env rows =
     [''| trade | entry (UTC) | und | opt | strike | prem INR | status | error | spot | 15m | 30m | 60m | 120m | MFE% | MAE% | 60m verdict |'',
      ''|------:|---------------|-----|-----|-------:|---------:|--------|-------|-----:|----:|----:|----:|-----:|-----:|-----:|------------|''] @
     map (\<lambda>row. table_line (movement_cells env row)) rows"

definition order_line :: "py_env \<Rightarrow> (string, pyval) dict \<Rightarrow> string" where
  "order_line env o1 =
     ''- '' @ field_text env o1 ''client_order_id'' @ '': '' @ field_text env o1 ''product_symbol'' @ '' '' @ field_text env o1 ''side'' @
     '' state='' @ field_text env o1 ''state'' @ '' filled='' @ field_text env o1 ''filled_size'' @ '' avg='' @
     field_text env o1 ''average_fill_price''"

definition not_equal :: string where
  "not_equal = [CHR 0xE2, CHR 0x89, CHR 0xA0]"

definition format_report :: "py_env \<Rightarrow> (warning \<Rightarrow> string) \<Rightarrow> postmortem_report \<Rightarrow> string" where
  "format_report env exc rep =
     join_text nl
       ([''# Directional post-mortem (DB + Delta candles)'', [],
         ''- Samples analyzed: **'' @ str_of_nat (pr_attempts_analyzed rep) @ ''** (from '' @ str_of_nat (pr_attempts_loaded rep) @
           '' deduped/load)'', []] @
        (if pr_positions rep \<noteq> [] then [''## Open positions on Delta now''] @ map (position_line env) (pr_positions rep) @ [[]]
         else [''## Open positions on Delta now'' @ nl @ nl @ ''None (size '' @ not_equal @ '' 0).'' @ nl]) @
        (let rows = pr_movement_rows rep
         in if rows = [] then []
            else [''## Spot follow-through (~60m / 4x15m bars)'', [], ''For long premium: **call** wants spot up; **put** wants spot down.'', []] @
              verdict_lines rows @ [[]] @ underlying_lines rows @
              [''## Per-attempt detail (most recent last)'', []] @ attempt_table env rows @ [[]]) @
        (if pr_exchange_orders rep = [] then []
         else [''## Delta orders matched by `dr-*-{trade_id}-*`'', []] @
           concat (map (\<lambda>(tid, os). (''### trade '' @ str_of_int tid) # map (order_line env) os @ [[]]) (sort_key fst (pr_exchange_orders rep)))) @
        (if pr_errors rep = [] then []
         else [''## API / data warnings''] @ map (\<lambda>e. ''- '' @ warning_text exc e) (take 20 (pr_errors rep)) @
           (if length (pr_errors rep) > 20 then [''- ... and '' @ str_of_nat (length (pr_errors rep) - 20) @ '' more''] else [])) @
        [[], ''_Note: errored DB trades may still have filled on Delta (cancel/rollback bugs). MAE/MFE uses underlying 15m bars only, not option marks._''])"

section \<open>The report of the open positions\<close>

definition execution_note_text :: "execution_note \<Rightarrow> string" where
  "execution_note_text n =
     (case n of
        NoteErrored \<Rightarrow>
          ''DB trade is **errored** (usually `partial_fill_rolled_back`): bot is **not** running `manage()` stops on this position. You must close on Delta or adopt it manually.''
      | NoteOpen \<Rightarrow> ''DB trade is **open** '' @ em_dash @ '' bot should manage stops if the process is healthy.''
      | NoteUntracked \<Rightarrow> ''No matching DB trade or status is not open '' @ em_dash @ '' position may be orphan / untracked.'')"

definition trade_line :: "open_position_row \<Rightarrow> string" where
  "trade_line r =
     (case op_trade_id r of
        Some tid \<Rightarrow>
          ''- **DB trade** `'' @ str_of_int tid @ ''` | status=`'' @ text_of (op_trade_status r) @ ''` | error=`'' @
          text_or ''-'' (op_trade_error r) @ ''` | entry='' @ (case op_entry_ts r of None \<Rightarrow> ''None'' | Some t \<Rightarrow> datetime_text '' '' t)
      | None \<Rightarrow> ''- **DB trade:** no matching `signals.intended_symbol` row'')"

definition spot_lines :: "open_position_row \<Rightarrow> string list" where
  "spot_lines r =
     (case (op_signal_spot r, op_current_spot r) of
        (Some a, Some b) \<Rightarrow>
          [''- Spot at signal: **'' @ fmt_fixed 2 a @ ''** '' @ arrow @ '' now **'' @ fmt_fixed 2 b @ ''** ('' @ text_of (op_underlying r) @ '')'']
      | _ \<Rightarrow> [])"

definition underlying_stop_lines :: "open_position_row \<Rightarrow> string list" where
  "underlying_stop_lines r =
     (case (op_adverse_move r, op_underlying_sl_atr r) of
        (Some adverse, Some limit) \<Rightarrow>
          [''- **Underlying stop** ('' @ text_of (op_option_type r) @ ''): adverse move **'' @ fmt_fixed 2 adverse @ ''** vs limit **'' @
           fmt_fixed 2 limit @ ''** (1 x ATR at entry). Room: **'' @
           (case op_underlying_sl_room r of None \<Rightarrow> ''?'' | Some x \<Rightarrow> fmt_fixed 2 x) @ ''** - '' @
           (if op_at_underlying_sl r then ''**AT/ PAST underlying stop**'' else ''not yet at underlying stop'') @ ''.'']
      | _ \<Rightarrow> [])"

definition premium_stop_lines :: "py_env \<Rightarrow> open_position_row \<Rightarrow> string list" where
  "premium_stop_lines env r =
     (case (op_option_mark r, op_exchange_entry_price r) of
        (Some m, Some e) \<Rightarrow>
          [''- **Premium stop** (50% DD on option mark): entry **'' @ text_of_float env (Some e) @ ''** mark **'' @ text_of_float env (Some m) @
           ''** DD **'' @ (case op_premium_dd_pct r of None \<Rightarrow> ''?'' | Some x \<Rightarrow> fmt_fixed 1 x @ ''%'') @ ''** - '' @
           (if op_at_premium_sl r then ''**AT/ PAST premium stop**'' else ''not yet at premium stop'') @ ''.'']
      | _ \<Rightarrow> [])"

definition open_order_line :: "py_env \<Rightarrow> (string, pyval) dict \<Rightarrow> string" where
  "open_order_line env o1 =
     ''- `'' @ field_text env o1 ''client_order_id'' @ ''` state='' @ field_text env o1 ''state'' @ '' filled='' @
     field_text env o1 ''filled_size'' @ '' avg='' @ field_text env o1 ''average_fill_price''"

definition open_position_lines :: "py_env \<Rightarrow> open_position_row \<Rightarrow> string list" where
  "open_position_lines env r =
     [''## '' @ op_product_symbol r @ '' (size='' @ text_of_float env (Some (op_size r)) @ '')'', [], trade_line r,
      ''- **Exchange:** entry_price='' @ text_of_float env (op_exchange_entry_price r) @ '' uPnL='' @ text_of_float env (op_unrealized_pnl r), [],
      ''### Why the bot entered'', [], op_entry_reason r, [], ''### Execution / why stops may not fire'', [],
      execution_note_text (op_execution_note r), [], ''### Stop proximity (bot rules, approximate)'', []] @
     spot_lines r @ underlying_stop_lines r @ premium_stop_lines env r @ [[]] @
     (if op_exchange_orders r = [] then []
      else [''### Exchange orders (`dr-*`)''] @ map (open_order_line env) (op_exchange_orders r) @ [[]]) @
     [''---'', []]"

definition skipped_line :: "py_env \<Rightarrow> skipped_position \<Rightarrow> string" where
  "skipped_line env s =
     ''- **'' @ sk_product_symbol s @ ''**: size='' @ text_of_float env (Some (sk_size s)) @ '' entry='' @ text_of_float env (sk_entry_price s) @
     '' uPnL='' @ text_of_float env (sk_unrealized_pnl s)"

definition format_open_positions_report ::
  "py_env \<Rightarrow> (warning \<Rightarrow> string) \<Rightarrow> open_position_row list \<times> skipped_position list \<times> warning list \<Rightarrow> flt \<Rightarrow> flt \<Rightarrow> bool \<Rightarrow> string" where
  "format_open_positions_report env exc found premium_dd stop_mult options_only =
     (case found of (rows, skipped, warns) \<Rightarrow>
        join_text nl
          ([''# Open Delta positions '' @ em_dash @ '' why entered & stop proximity'', [],
            ''Links live exchange size to SQLite signal + configured directional stops. **Errored** trades are not managed by the bot.'', [],
            ''Config refs: `underlying_atr_mult_stop='' @ text_of_float env (Some stop_mult) @ ''`, `premium_drawdown_pct='' @
              text_of_float env (Some premium_dd) @ ''`.'', []] @
           (if rows \<noteq> [] then []
            else [if options_only then ''No open **BTC/ETH option** positions on Delta (bot scope: `C-*` / `P-*` on BTC or ETH).''
                  else ''No open positions (size != 0) on Delta.'', []]) @
           concat (map (open_position_lines env) rows) @
           (if skipped = [] then []
            else [''## Other open positions (not directional BTC/ETH options)'', [],
                  ''These are on the same Delta account but **not** from the options bot. Manage in Delta UI; they are ignored for entry/stop analysis below.'', []] @
              map (skipped_line env) skipped @ [[]]) @
           (if warns = [] then [] else [''## Warnings''] @ map (\<lambda>e. ''- '' @ warning_text exc e) (take 15 warns))))"

section \<open>The report of the optimisation\<close>

definition quote_char :: string where
  "quote_char = [CHR 0x27]"

definition suggestion_text :: "suggestion \<Rightarrow> string" where
  "suggestion_text s =
     (case s of
        NoPaths \<Rightarrow> ''No filled trades with price paths '' @ em_dash @ '' run after dry/live round-trips exist in DB or on Delta.''
      | EntryTiming k n \<Rightarrow>
          ''**Entry timing:** '' @ str_of_nat k @ ''/'' @ str_of_nat n @
          '' trades saw spot move against the thesis within 15m. Consider raising `entry.breakout_atr_mult` (now 0.35), or require 1h EMA alignment before entry.''
      | PremiumStops k n \<Rightarrow>
          ''**Premium stop:** '' @ str_of_nat k @ ''/'' @ str_of_nat n @
          '' exits were `premium_stop` (50% option drawdown). Either entries are late/choppy, or `premium_drawdown_pct` is tight for 15m breakouts '' @
          em_dash @ '' test 0.55-0.60 or add spread/IV filter at entry.''
      | UnderlyingStops k n \<Rightarrow>
          ''**Underlying stop:** '' @ str_of_nat k @ ''/'' @ str_of_nat n @
          '' hit `underlying_stop` (1.0x ATR). Widen `underlying_atr_mult_stop` to 1.25-1.5 if whipsaw stops dominate, or tighten breakout so entries aren'' @
          quote_char @ ''t at exhaustion moves.''
      | FastDrawdown k \<Rightarrow>
          ''**Fast drawdown:** '' @ str_of_nat k @
          '' trades hit 50% premium DD within 30m on option candles. Reduce size (`max_lots_cap` / risk%) or skip entries when `spread_pct` is elevated.''
      | SmallSample \<Rightarrow> ''Sample is small or mixed; collect more closed trades before large parameter changes.'')"

definition is_winner :: "filled_trade \<Rightarrow> bool" where
  "is_winner t \<longleftrightarrow> (case ft_realised_pnl_inr t of None \<Rightarrow> False | Some x \<Rightarrow> x > 0)"

definition outcome_lines :: "filled_trade list \<Rightarrow> string list" where
  "outcome_lines trades =
     (if trades = [] then []
      else [''## Trade outcomes (DB + exchange)'', [],
            ''- Wins (realised_pnl > 0): '' @ str_of_nat (length (filter is_winner trades)) @ '' / '' @ str_of_nat (length trades)] @
        map (\<lambda>(reason, n). ''- `'' @ reason @ ''`: '' @ str_of_nat n)
          (sort_key (\<lambda>p. - int (snd p)) (tally (map (\<lambda>t. text_or ''unknown'' (ft_exit_reason t)) trades))) @ [[]])"

definition path_cells :: "py_env \<Rightarrow> trade_path \<Rightarrow> string list" where
  "path_cells env p =
     (let t = tp_trade p; blank = (\<lambda>x. case x of None \<Rightarrow> [] | Some v \<Rightarrow> py_str env (VFlt v))
      in [str_of_int (ft_trade_id t), ft_source t, ft_mode t, text_or [] (ft_exit_reason t), text_or [] (ft_option_type t),
          fmt_fixed 0 (tp_hold_minutes p), float_or_blank env (ft_entry_premium t), float_or_blank env (ft_realised_pnl_inr t),
          blank (tp_spot_ret_at_exit_pct p),
          (case tp_spot_adverse_15m p of None \<Rightarrow> ''None'' | Some b \<Rightarrow> if b then ''True'' else ''False''),
          blank (tp_premium_dd_pct_max p), nat_or_blank (tp_premium_dd_hit_first_bar p), nat_or_blank (tp_underlying_sl_hit_first_bar p),
          tp_spot_verdict_60m p])"

definition path_table :: "py_env \<Rightarrow> trade_path list \<Rightarrow> string list" where
  "path_table env paths =
     (if paths = [] then []
      else [''## Price path summary'', [],
            ''- Spot adverse within 15m: '' @ str_of_nat (length (filter (\<lambda>p. tp_spot_adverse_15m p = Some True) paths)) @ '' / '' @
              str_of_nat (length paths), [],
            ''| id | src | mode | exit | opt | hold m | entry prem | PnL | spot@exit% | adverse@15m | opt DD% max | prem SL bar | und SL bar | 60m spot |'',
            ''|---:|-----|------|------|-----|-------:|-----------:|----:|-----------:|------------:|------------:|------------:|-----------:|----------|''] @
        map (\<lambda>p. table_line (path_cells env p)) paths @ [[]])"

definition format_optimization_report :: "py_env \<Rightarrow> (study_warning \<Rightarrow> string) \<Rightarrow> optimization_report \<Rightarrow> string" where
  "format_optimization_report env exc rep =
     join_text nl
       ([''# Directional optimization report (filled trades + Delta prices)'', [],
         ''Trades with actual fills only (closed/open). Errored rows excluded.'', [],
         ''- Filled trades loaded: **'' @ str_of_nat (length (or_trades rep)) @ ''**'',
         ''- Price paths analyzed: **'' @ str_of_nat (length (or_paths rep)) @ ''**'', []] @
        outcome_lines (or_trades rep) @ path_table env (or_paths rep) @
        [''## Suggested refinements'', []] @ map (\<lambda>s. ''- '' @ suggestion_text s) (suggestions (or_paths rep)) @ [[]] @
        (if or_exchange_orphans rep = [] then []
         else [''## Exchange orders without clear entry ('' @ str_of_nat (length (or_exchange_orphans rep)) @ '' orphan legs)'', []]) @
        (if or_errors rep = [] then [] else [''## Warnings''] @ map (\<lambda>e. ''- '' @ study_warning_text exc e) (take 15 (or_errors rep))) @
        [[], ''_Option DD uses 15m candle closes on the contract symbol (proxy for premium). Compare with Delta UI marks for live trades not fully synced to DB._''])"

section \<open>Running a study\<close>

text \<open>The bounds of the command line: an empty text is no bound.\<close>

definition bound_of :: "(string \<Rightarrow> datetime option) \<Rightarrow> string option \<Rightarrow> datetime option result" where
  "bound_of parse s =
     (case s of
        None \<Rightarrow> Inr None
      | Some v \<Rightarrow> if v = [] then Inr None else (case parse v of None \<Rightarrow> Inl ValueError | Some t \<Rightarrow> Inr (Some t)))"

definition write_output :: "string option \<Rightarrow> string \<Rightarrow> files \<Rightarrow> files" where
  "write_output output txt fs = (case output of None \<Rightarrow> fs | Some path \<Rightarrow> dict_set path txt fs)"

text \<open>The text and the files after a study: an exception leaves the files alone.\<close>

definition finish_study :: "string option \<Rightarrow> files \<Rightarrow> ('w, string) call \<Rightarrow> 'w \<Rightarrow> string result \<times> files \<times> 'w" where
  "finish_study output fs study w =
     (case study w of
        (Inl e, w1) \<Rightarrow> (Inl e, fs, w1)
      | (Inr txt, w1) \<Rightarrow> (Inr txt, write_output output txt fs, w1))"

definition run_postmortem ::
  "py_env \<Rightarrow> (string \<Rightarrow> datetime option) \<Rightarrow> (warning \<Rightarrow> string) \<Rightarrow> 'w delta_api \<Rightarrow> int \<Rightarrow> database \<Rightarrow> string option \<Rightarrow> string option \<Rightarrow>
   string \<Rightarrow> string option \<Rightarrow> bool \<Rightarrow> int \<Rightarrow> string option \<Rightarrow> files \<Rightarrow> 'w \<Rightarrow> string result \<times> files \<times> 'w" where
  "run_postmortem env parse exc api off db since until mode status_filter dedupe max_samples output fs =
     finish_study output fs
       (c_bind (c_lift (bound_of parse since)) (\<lambda>since_dt.
        c_bind (c_lift (bound_of parse until)) (\<lambda>until_dt.
        c_bind (build_report env api off db since_dt until_dt mode status_filter dedupe max_samples True) (\<lambda>rep.
          c_lift (Inr (format_report env exc rep))))))"

text \<open>The stop limits are read from the configuration before the study reads it again.\<close>

definition run_open_positions_analysis ::
  "py_env \<Rightarrow> (warning \<Rightarrow> string) \<Rightarrow> 'w delta_api \<Rightarrow> database \<Rightarrow> strategy_config result list \<Rightarrow> string option \<Rightarrow> bool \<Rightarrow> files \<Rightarrow> 'w \<Rightarrow>
   string result \<times> files \<times> 'w" where
  "run_open_positions_analysis env exc api db validated output options_only fs =
     finish_study output fs
       (c_bind (c_lift (load_strategy_configs validated)) (\<lambda>configs.
          let (dd, stop_mult) = stop_limits configs (1 / 2, 1)
          in c_bind (build_open_positions_report env api db validated dd stop_mult options_only) (\<lambda>found.
               c_lift (Inr (format_open_positions_report env exc found dd stop_mult options_only)))))"

definition run_optimization ::
  "py_env \<Rightarrow> (string \<Rightarrow> datetime option) \<Rightarrow> (study_warning \<Rightarrow> string) \<Rightarrow> 'w delta_api \<Rightarrow> int \<Rightarrow> database \<Rightarrow> datetime \<Rightarrow> string option \<Rightarrow>
   string option \<Rightarrow> string option \<Rightarrow> files \<Rightarrow> 'w \<Rightarrow> string result \<times> files \<times> 'w" where
  "run_optimization env parse exc api off db now since until output fs =
     finish_study output fs
       (c_bind (c_lift (bound_of parse since)) (\<lambda>since_dt.
        c_bind (c_lift (bound_of parse until)) (\<lambda>until_dt.
        c_bind (build_optimization_report env parse api off db now since_dt until_dt True) (\<lambda>rep.
          c_lift (Inr (format_optimization_report env exc rep))))))"

section \<open>Properties\<close>

lemma tally_fold:
  "the_or 0 (dict_get (fold (\<lambda>v d. dict_set v (the_or 0 (dict_get d v) + 1) d) vs d) v) = the_or 0 (dict_get d v) + count_list vs v"
  by (induction vs arbitrary: d) auto

lemma tally_count: "the_or 0 (dict_get (tally vs) v) = count_list vs v"
  using tally_fold [of vs "[]" v] by (simp add: tally_def)

lemma sum_counts:
  assumes "set vs \<subseteq> set keys" and "distinct keys"
  shows "sum_list (map (count_list vs) keys) = length vs"
  by (simp add: sum_list_distinct_conv_sum_set [OF assms(2)] sum_count_set [OF assms(1)])

lemma verdict_known: "spot_favorable ot r \<in> set verdict_order"
  by (simp add: spot_favorable_def verdict_order_def)

lemma analyzed_verdict: "analyze_movement pf off a cs = Inr (Some row) \<Longrightarrow> mv_verdict_60m row \<in> set verdict_order"
  using verdict_known by (auto simp: analyze_movement_def split: option.splits if_splits)

text \<open>
  The summary of the attempts counts every analysed attempt once: the four verdicts that it lists add up to the number of
  rows of the table.
\<close>

theorem summary_counts_every_row:
  assumes "\<And>row. row \<in> set rows \<Longrightarrow> \<exists>a cs. analyze_movement pf off a cs = Inr (Some row)"
  shows "sum_list (map (\<lambda>v. the_or 0 (dict_get (tally (map mv_verdict_60m rows)) v)) verdict_order) = length rows"
proof -
  have "set (map mv_verdict_60m rows) \<subseteq> set verdict_order"
    using assms analyzed_verdict by fastforce
  from sum_counts [OF this] show ?thesis by (simp add: tally_count verdict_order_def)
qed

text \<open>
  A suggestion without evidence: for one or two paths that no stop has ended, the report says that none of them was ended
  by the premium stop and proposes to change that stop all the same.
\<close>

theorem premium_suggestion_without_evidence:
  assumes "paths \<noteq> []" and "length paths \<le> 2"
    and "list_all (\<lambda>p. ft_exit_reason (tp_trade p) \<noteq> Some ''premium_stop'' \<and> ft_exit_reason (tp_trade p) \<noteq> Some ''underlying_stop'') paths"
  shows "PremiumStops 0 (length paths) \<in> set (suggestions paths) \<and>
    take 26 (suggestion_text (PremiumStops 0 (length paths))) = ''**Premium stop:** 0/'' @ str_of_nat (length paths) @ '' exit''"
proof -
  have none: "filter (\<lambda>p. ft_exit_reason (tp_trade p) = Some ''premium_stop'') paths = []"
    "filter (\<lambda>p. ft_exit_reason (tp_trade p) = Some ''underlying_stop'') paths = []"
    using assms(3) by (simp_all add: filter_empty_conv list_all_iff)
  have d: "length paths div 3 = 0" using assms(2) by simp
  have "length paths = 1 \<or> length paths = 2" using assms(1,2) using length_greater_0_conv [of paths] by linarith
  moreover have n: "str_of_nat 0 = ''0''" "str_of_nat 1 = ''1''" "str_of_nat 2 = ''2''"
    by code_simp+
  ultimately have s: "str_of_nat (length paths) = ''1'' \<or> str_of_nat (length paths) = ''2''" by (elim disjE) simp_all
  have "PremiumStops 0 (length paths) \<in> set (suggestions paths)"
    using assms(1) by (simp add: suggestions_def Let_def none d)
  moreover have "take 26 (suggestion_text (PremiumStops 0 (length paths))) = ''**Premium stop:** 0/'' @ str_of_nat (length paths) @ '' exit''"
    using s by (elim disjE) (simp_all add: suggestion_text_def n(1))
  ultimately show ?thesis by simp
qed

text \<open>A study leaves one file behind when it returns and was given a name, and none when it raises.\<close>

lemma finish_study_files:
  assumes "finish_study output fs study w = (r, fs', w')"
  shows "fs' = (case r of Inl e \<Rightarrow> fs | Inr txt \<Rightarrow> write_output output txt fs)" and "study w = (r, w')"
  using assms by (auto simp: finish_study_def split: prod.splits sum.splits)

end
