(* ===== verification/Commands.thy ===== *)
theory Commands
  imports Startup StudyReports
begin

text \<open>
  The commands of the operator (\<open>bot/cli.py\<close>) as a whole: what each prints, the files it leaves and the code it ends
  with.  The parsing of the options belongs to the command line library.
\<close>

section \<open>Commands\<close>

text \<open>The lines on the standard output and on the standard error, and the exit code; \<open>Inl\<close> is an exception.\<close>

record console =
  cs_out :: "string list"
  cs_err :: "string list"
  cs_code :: nat

definition snapshot_command :: "console result" where
  "snapshot_command = Inr \<lparr>cs_out = [''snapshot: not yet implemented (PR #5)''], cs_err = [], cs_code = 0\<rparr>"

text \<open>The three study commands: the database must be a file, and the report is printed or named.\<close>

definition run_study ::
  "(string \<Rightarrow> bool) \<Rightarrow> (string \<Rightarrow> string option \<Rightarrow> files \<Rightarrow> 'w \<Rightarrow> string result \<times> files \<times> 'w) \<Rightarrow> string option \<Rightarrow> settings \<Rightarrow> files \<Rightarrow> 'w \<Rightarrow>
   console result \<times> files \<times> 'w" where
  "run_study is_file study output st fs w =
     (let path = db_path_from_settings st
      in if \<not> is_file path then (Inr \<lparr>cs_out = [], cs_err = [''DB not found: '' @ path], cs_code = 1\<rparr>, fs, w)
         else
           let out_path = (if output = Some [] then None else output)
           in case study path out_path fs w of
                (Inl e, fs1, w1) \<Rightarrow> (Inl e, fs1, w1)
              | (Inr txt, fs1, w1) \<Rightarrow>
                  (Inr \<lparr>cs_out = [case out_path of None \<Rightarrow> txt | Some f \<Rightarrow> ''Wrote '' @ f], cs_err = [], cs_code = 0\<rparr>, fs1, w1))"

text \<open>\<open>open_db\<close>: the tables in the file at a path.\<close>

definition optimize_directional ::
  "py_env \<Rightarrow> (string \<Rightarrow> datetime option) \<Rightarrow> (study_warning \<Rightarrow> string) \<Rightarrow> 'w delta_api \<Rightarrow> int \<Rightarrow> (string \<Rightarrow> bool) \<Rightarrow> (string \<Rightarrow> database) \<Rightarrow>
   datetime \<Rightarrow> string option \<Rightarrow> string option \<Rightarrow> string option \<Rightarrow> settings \<Rightarrow> files \<Rightarrow> 'w \<Rightarrow> console result \<times> files \<times> 'w" where
  "optimize_directional env parse exc api off is_file open_db now since until output =
     run_study is_file (\<lambda>path. run_optimization env parse exc api off (open_db path) now since until) output"

definition analyze_directional ::
  "py_env \<Rightarrow> (string \<Rightarrow> datetime option) \<Rightarrow> (warning \<Rightarrow> string) \<Rightarrow> 'w delta_api \<Rightarrow> int \<Rightarrow> (string \<Rightarrow> bool) \<Rightarrow> (string \<Rightarrow> database) \<Rightarrow>
   string option \<Rightarrow> string option \<Rightarrow> string \<Rightarrow> string option \<Rightarrow> bool \<Rightarrow> int \<Rightarrow> string option \<Rightarrow> settings \<Rightarrow> files \<Rightarrow> 'w \<Rightarrow>
   console result \<times> files \<times> 'w" where
  "analyze_directional env parse exc api off is_file open_db since until mode status_filter dedupe max_samples output =
     run_study is_file
       (\<lambda>path. run_postmortem env parse exc api off (open_db path) since until mode status_filter dedupe max_samples) output"

definition analyze_open ::
  "py_env \<Rightarrow> (warning \<Rightarrow> string) \<Rightarrow> 'w delta_api \<Rightarrow> (string \<Rightarrow> bool) \<Rightarrow> (string \<Rightarrow> database) \<Rightarrow> (string \<Rightarrow> strategy_config result list) \<Rightarrow>
   string option \<Rightarrow> bool \<Rightarrow> settings \<Rightarrow> files \<Rightarrow> 'w \<Rightarrow> console result \<times> files \<times> 'w" where
  "analyze_open env exc api is_file open_db read_configs output all_positions st =
     run_study is_file
       (\<lambda>path out. run_open_positions_analysis env exc api (open_db path) (read_configs (st_config_dir st)) out (\<not> all_positions)) output st"

definition resume_cli ::
  "bool \<Rightarrow> datetime \<Rightarrow> nav_history_row list \<Rightarrow> runtime_dir \<Rightarrow> console result \<times> nav_history_row list \<times> runtime_dir" where
  "resume_cli confirm now rows d =
     (let (rep, rows', d') = resume_evaluate confirm now rows d
      in (Inr \<lparr>cs_out = [resume_text rep], cs_err = [], cs_code = resume_exit_code rep\<rparr>, rows', d'))"

definition status_command ::
  "py_env \<Rightarrow> date \<Rightarrow> database \<Rightarrow> nav_history_row list \<Rightarrow> daily_pnl_row list \<Rightarrow> decision_row list \<Rightarrow> dashboard \<times> nat" where
  "status_command env today db rows pnl decisions = (render_status_dashboard env today db rows pnl decisions, 0)"

text \<open>\<open>yaml\<close>: the file of the strategy in the configuration directory, before and after.\<close>

definition go_live_cli ::
  "py_env \<Rightarrow> string + (int \<times> string list) \<Rightarrow> database \<Rightarrow> nav_history_row list \<Rightarrow> yaml_file \<Rightarrow> datetime \<Rightarrow> settings \<Rightarrow> bool \<Rightarrow> string \<Rightarrow>
   yaml_file \<Rightarrow> console result \<times> yaml_file" where
  "go_live_cli env integrity db nav_rows global now st dry_run strategy yaml =
     (case go_live_evaluate env (st_config_dir st) integrity db nav_rows global dry_run strategy yaml of
        Inl e \<Rightarrow> (Inl e, yaml)
      | Inr (report, yaml') \<Rightarrow>
          (Inr \<lparr>cs_out = [go_live_text env now report], cs_err = [], cs_code = go_live_exit_code report\<rparr>, yaml'))"

section \<open>Properties\<close>

lemma run_study_missing:
  "\<not> is_file (db_path_from_settings st) \<Longrightarrow>
     run_study is_file study output st fs w =
       (Inr \<lparr>cs_out = [], cs_err = [''DB not found: '' @ db_path_from_settings st], cs_code = 1\<rparr>, fs, w)"
  by (simp add: run_study_def Let_def)

lemma run_study_present:
  assumes "is_file (db_path_from_settings st)" and "output \<noteq> Some []"
    and "study (db_path_from_settings st) = (\<lambda>out fs. finish_study out fs (body (db_path_from_settings st)))"
    and "body (db_path_from_settings st) w = (r, w')"
  shows "run_study is_file study output st fs w =
    (case r of
       Inl e \<Rightarrow> (Inl e, fs, w')
     | Inr txt \<Rightarrow> (Inr \<lparr>cs_out = [case output of None \<Rightarrow> txt | Some f \<Rightarrow> ''Wrote '' @ f], cs_err = [], cs_code = 0\<rparr>,
                  write_output output txt fs, w'))"
  using assms by (cases r) (simp_all add: run_study_def finish_study_def Let_def)

text \<open>
  A study command ends with code 0 exactly when it leaves its report: on the output, or in the file it was named and in no
  other.  Without a database it ends with code 1 and does nothing; an exception of the study leaves the files alone.
\<close>

theorem study_command_outcome:
  assumes "output \<noteq> Some []"
    and "optimize_directional env parse exc api off is_file open_db now since until output st fs w = (r, fs', w')"
  shows "(case r of
      Inl e \<Rightarrow> fs' = fs
    | Inr c \<Rightarrow>
        if is_file (db_path_from_settings st)
        then \<exists>txt. cs_code c = 0 \<and> fs' = write_output output txt fs \<and> (output = None \<longrightarrow> cs_out c = [txt])
        else cs_code c = 1 \<and> fs' = fs \<and> w' = w)"
proof (cases "is_file (db_path_from_settings st)")
  case True
  let ?study = "\<lambda>path. run_optimization env parse exc api off (open_db path) now since until"
  obtain body where body: "?study (db_path_from_settings st) = (\<lambda>out fs. finish_study out fs body)"
    by (auto simp: run_optimization_def fun_eq_iff)
  obtain q w1 where b: "body w = (q, w1)" by fastforce
  have "run_study is_file ?study output st fs w = (case q of Inl e \<Rightarrow> (Inl e, fs, w1)
     | Inr txt \<Rightarrow> (Inr \<lparr>cs_out = [case output of None \<Rightarrow> txt | Some f \<Rightarrow> ''Wrote '' @ f], cs_err = [], cs_code = 0\<rparr>,
                  write_output output txt fs, w1))"
    by (rule run_study_present [where body = "\<lambda>_. body"]) (use True assms(1) body b in simp_all)
  then have "(r, fs', w') = (case q of Inl e \<Rightarrow> (Inl e, fs, w1)
     | Inr txt \<Rightarrow> (Inr \<lparr>cs_out = [case output of None \<Rightarrow> txt | Some f \<Rightarrow> ''Wrote '' @ f], cs_err = [], cs_code = 0\<rparr>,
                  write_output output txt fs, w1))" using assms(2) by (simp add: optimize_directional_def)
  with True show ?thesis by (cases q) auto
next
  case False
  with assms(2) show ?thesis by (auto simp: optimize_directional_def run_study_missing)
qed

text \<open>\<open>bot go-live\<close> changes the file only in a run that is no dry run and ends with code 0.\<close>

lemma go_live_cli_changes:
  assumes "go_live_cli env integrity db nav_rows global now st dry_run strategy yaml = (r, yaml')" and "yaml' \<noteq> yaml"
  shows "\<not> dry_run \<and> (\<exists>c. r = Inr c \<and> cs_code c = 0)"
proof -
  obtain rep where g: "go_live_evaluate env (st_config_dir st) integrity db nav_rows global dry_run strategy yaml = Inr (rep, yaml')"
    and r: "r = Inr \<lparr>cs_out = [go_live_text env now rep], cs_err = [], cs_code = go_live_exit_code rep\<rparr>"
    using assms by (auto simp: go_live_cli_def split: sum.splits prod.splits)
  from go_live_changes [OF g assms(2)] r show ?thesis by (simp add: go_live_exit_code_def)
qed

end
