(* ===== verification/Assembly.thy ===== *)
theory Assembly
  imports System Startup
begin

text \<open>
  The start of the program (\<open>bot/app.py\<close>, \<open>bot/__main__.py\<close> and the head of \<open>run_trading_engine\<close> in
  \<open>bot/runtime/engine.py\<close>): how settings and configuration files become the installation of \<open>System\<close>, its executor, and the
  clients of the exchange.
\<close>

section \<open>From a configuration to an installation\<close>

definition engine_config_of :: "(string \<Rightarrow> flt option) \<Rightarrow> app_config \<Rightarrow> engine_config" where
  "engine_config_of pf ac =
     \<lparr>ec_global = ac_global ac,
      ec_strategies = fold (\<lambda>c. dict_set (cfg_id (cfg_base c)) c) (ac_strategies ac) [],
      ec_is_live = st_is_live (ac_settings ac), ec_mode = bot_mode_value (st_mode (ac_settings ac)),
      ec_usd_inr = effective_usd_inr_rate ac, ec_parse_float = pf\<rparr>"

definition api_keys_set :: "settings \<Rightarrow> bool" where
  "api_keys_set st \<longleftrightarrow> st_delta_api_key st \<noteq> [] \<and> st_delta_api_secret st \<noteq> []"

text \<open>The executor is the live one exactly in live mode; its slippage is that of the global file.\<close>

definition build_executor :: "app_config \<Rightarrow> chain_cache \<Rightarrow> dry_executor + live_executor" where
  "build_executor ac chain =
     (let e = execution (ac_global ac); slips = mk_slip_bps (slip_bps_directional e) (slip_bps_condor e) (slip_bps_strangle e)
      in if st_is_live (ac_settings ac) then Inr \<lparr>le_chain = chain, le_slip_bps = slips\<rparr>
         else Inl (DryExecutor chain (slip_bps_directional e) (slip_bps_condor e) (slip_bps_strangle e)))"

definition installation_of :: "py_env \<Rightarrow> int \<Rightarrow> 'x executor \<Rightarrow> app_config \<Rightarrow> 'x installation" where
  "installation_of env tz xe ac =
     \<lparr>su_config = engine_config_of (env_float env) ac, su_executor = xe, su_keys_set = api_keys_set (ac_settings ac),
      su_strategies = ac_strategies ac, su_base_nav = effective_nav_inr ac, su_parse_float = env_float env,
      su_parse_int = env_int env, su_tz = tz, su_rest_rps = st_delta_rest_rps (ac_settings ac),
      su_order_rps = st_delta_order_rps (ac_settings ac)\<rparr>"

definition start_rest_client :: "settings \<Rightarrow> flt \<Rightarrow> 'w \<Rightarrow> 'w rest_client result" where
  "start_rest_client st now w = mk_rest_client (st_delta_rest_rps st) (st_delta_order_rps st) now w"

text \<open>Where the engine writes, from the settings: the mirror of the decision log, the marker of a trip, the text file.\<close>

record output_paths =
  op_mirror :: string
  op_marker :: string
  op_textfile :: string

definition output_paths_of :: "settings \<Rightarrow> output_paths" where
  "output_paths_of st =
     \<lparr>op_mirror = st_logs_dir st @ ''/decisions.jsonl'', op_marker = st_runtime_dir st @ ''/circuit_breaker.json'',
      op_textfile = st_prom_textfile_path st\<rparr>"

text \<open>
  \<open>run\<close>: a configuration that does not load raises; otherwise the process starts, or raises on the way.  With the exception
  comes the bot as it is left behind.
\<close>

definition app_run ::
  "py_env \<Rightarrow> int \<Rightarrow> (dry_executor + live_executor \<Rightarrow> 'x executor) \<Rightarrow> app_config result \<Rightarrow> datetime \<Rightarrow> 'x process_start \<Rightarrow>
   'x bot \<Rightarrow> unit result \<times> 'x bot" where
  "app_run env tz executor_of loaded t p s =
     (case loaded of
        Inl e \<Rightarrow> (Inl e, s\<lparr>sy_up := False\<rparr>)
      | Inr ac \<Rightarrow>
          let su = installation_of env tz (executor_of (build_executor ac (mk_chain_cache 300))) ac
          in (bind_result (start_engine su t p s) (\<lambda>_. Inr ()), start_process su t p s))"

text \<open>The first of some exceptions, if any is raised.\<close>

fun first_fault :: "py_error option list \<Rightarrow> unit result" where
  "first_fault [] = Inr ()"
| "first_fault (None # xs) = first_fault xs"
| "first_fault (Some e # xs) = Inl e"

section \<open>Properties\<close>

lemma load_all_valid:
  assumes "load_all cf dir (Inr st) = Inr ac" and "\<And>raw g. cf_global cf raw = Inr g \<Longrightarrow> valid_global g"
  shows "valid_global (ac_global ac)"
  using assms by (auto simp: load_all_Inr load_global_config_def bind_result_Inr_iff)

lemma load_all_distinct: "load_all cf dir (Inr st) = Inr ac \<Longrightarrow> distinct (config_ids (ac_strategies ac))"
  by (auto simp: load_all_Inr load_strategy_dir_def load_strategy_configs_iff split: option.splits)

lemma candles_start: "\<exists>cs. new_candles = Inr cs"
  by (simp add: new_candles_def mk_aggregator_def TIMEFRAME_SECONDS_def dict_get_def)

lemma strategies_register:
  assumes "distinct (config_ids cs)"
  shows "\<exists>r. mk_registry (build_strategies cs) = Inr r"
proof -
  have "map st_id (build_strategies cs) = config_ids cs" by (simp add: build_strategies_def mk_strategy_def)
  with assms show ?thesis by (simp add: mk_registry_iff)
qed

lemma first_fault_cons: "first_fault (x # xs) = (case x of None \<Rightarrow> first_fault xs | Some e \<Rightarrow> Inl e)"
  by (cases x) simp_all

lemma first_fault_Inr: "first_fault xs = Inr () \<longleftrightarrow> list_all (\<lambda>x. x = None) xs"
  by (induction xs rule: first_fault.induct) simp_all

lemma bind_host: "bind_result (host p k) f = (case ps_host p k of None \<Rightarrow> f () | Some e \<Rightarrow> Inl e)"
  by (simp add: host_def split: option.split)

lemma bind_keys: "bind_result (require_keys c b) f = (case if ec_is_live c \<and> \<not> b then Some RuntimeError else None of None \<Rightarrow> f () | Some e \<Rightarrow> Inl e)"
  by (simp add: require_keys_def)

lemma bind_result_case:
  "bind_result (case x of None \<Rightarrow> m | Some e \<Rightarrow> Inl e) f = (case x of None \<Rightarrow> bind_result m f | Some e \<Rightarrow> Inl e)"
  by (simp split: option.split)

text \<open>A start whose strategies register and whose rates are legal raises the first exception of the host or of the missing keys.\<close>

lemma start_engine_raises:
  assumes "mk_registry (build_strategies (su_strategies su)) = Inr r"
    and "0 < su_rest_rps su" and "0 < su_order_rps su"
  shows "bind_result (start_engine su t p s) (\<lambda>_. Inr ()) =
    first_fault (ps_host p ConfigureLogging # (if ec_is_live (su_config su) \<and> \<not> su_keys_set su then Some RuntimeError else None) #
      map (ps_host p) (tl host_steps))"
proof -
  obtain cs where cs: "new_candles = Inr cs" using candles_start by blast
  obtain b where b: "boot_engine (su_strategies su) (en_db (sy_engine s)) (en_nav_rows (sy_engine s)) (en_marker (sy_engine s))
      (su_base_nav su) t (ps_executor p) (en_decisions (sy_engine s)) = Inr b"
    using assms(1) by (simp add: boot_engine_def Let_def)
  obtain c where c: "mk_rest_client (su_rest_rps su) (su_order_rps su) (ps_mono p) () = Inr c"
    using assms(2,3) by (simp add: mk_rest_client_def mk_token_bucket_def Let_def)
  obtain w where w: "start_ws_client (ps_mono p) = Inr w"
    by (simp add: start_ws_client_def mk_ws_client_def subscriptions_def)
  show ?thesis
    by (simp only: start_engine_def Let_def bind_host bind_keys bind_result_case bind_result_simps b c w cs host_steps_def list.sel
        list.map first_fault_cons first_fault.simps(1))
qed

lemma process_starts:
  "sy_up (start_process su t p s) \<longleftrightarrow> bind_result (start_engine su t p s) (\<lambda>_. Inr ()) = Inr ()"
  by (cases "start_engine su t p s") (auto simp: start_process_def)

lemma start_keeps:
  "en_db (sy_engine (start_process su t p s)) = en_db (sy_engine s)"
  "en_nav_rows (sy_engine (start_process su t p s)) = en_nav_rows (sy_engine s)"
  "en_marker (sy_engine (start_process su t p s)) = en_marker (sy_engine s)"
  "en_decisions (sy_engine (start_process su t p s)) = en_decisions (sy_engine s)"
  "sy_pnl (start_process su t p s) = sy_pnl s"
proof -
  let ?s = "start_process su t p s"
  have all: "en_db (sy_engine ?s) = en_db (sy_engine s) \<and> en_nav_rows (sy_engine ?s) = en_nav_rows (sy_engine s) \<and>
    en_marker (sy_engine ?s) = en_marker (sy_engine s) \<and> en_decisions (sy_engine ?s) = en_decisions (sy_engine s) \<and> sy_pnl ?s = sy_pnl s"
  proof (cases "start_engine su t p s")
    case (Inl e)
    then show ?thesis by (simp add: start_process_def)
  next
    case (Inr q)
    obtain w fd where q: "q = (w, fd)" by (cases q) auto
    note f = boot_fields [OF start_engine_Inr(1) [OF Inr [unfolded q]]]
    show ?thesis using Inr f(1-3,6) by (simp add: start_process_def q)
  qed
  then show "en_db (sy_engine ?s) = en_db (sy_engine s)" "en_nav_rows (sy_engine ?s) = en_nav_rows (sy_engine s)"
    "en_marker (sy_engine ?s) = en_marker (sy_engine s)" "en_decisions (sy_engine ?s) = en_decisions (sy_engine s)"
    "sy_pnl ?s = sy_pnl s" by blast+
qed

section \<open>Claims\<close>

text \<open>
  C26: when a configuration that loads starts the bot, and what a start that fails leaves.  Whatever the environment and the files
  are, when the settings and the configuration load, both clients of the exchange can be built, their token buckets well
  formed.  The process comes up exactly when the mode is dry or both keys are set and nothing that the start needs of the host raises:
  the log, the database, its tables, the marker, the directories, the port of the server, the signal handlers.  Otherwise
  the start raises the first of these exceptions, with the missing keys second in the order.  Either way no table and no file
  of the bot is changed.
\<close>

theorem configured_bot_starts:
  assumes "load_settings env url_ok look = Inr st" and "load_all cf dir (Inr st) = Inr ac"
    and "app_run env tz executor_of (Inr ac) t p s = (r, s')"
  shows "(\<exists>c. start_rest_client st now w = Inr c \<and> client_ok c) \<and> (\<exists>c. start_ws_client now = Inr c \<and> ws_queue c = []) \<and>
    (sy_up s' \<longleftrightarrow> (st_mode st = MODE_DRY \<or> api_keys_set st) \<and> list_all (\<lambda>k. ps_host p k = None) host_steps) \<and>
    r = first_fault (ps_host p ConfigureLogging # (if st_mode st = MODE_DRY \<or> api_keys_set st then None else Some RuntimeError) #
          map (ps_host p) (tl host_steps)) \<and>
    en_db (sy_engine s') = en_db (sy_engine s) \<and> en_nav_rows (sy_engine s') = en_nav_rows (sy_engine s) \<and>
    en_marker (sy_engine s') = en_marker (sy_engine s) \<and> en_decisions (sy_engine s') = en_decisions (sy_engine s) \<and>
    sy_pnl s' = sy_pnl s"
proof -
  let ?keys = "st_mode st = MODE_DRY \<or> api_keys_set st"
  have st: "ac_settings ac = st" using assms(2) by (simp add: load_all_Inr)
  note ranges = load_settings_ranges [OF assms(1)]
  obtain c where rest: "start_rest_client st now w = Inr c"
    using ranges by (auto simp add: start_rest_client_def mk_rest_client_def mk_token_bucket_def Let_def)
  have ws: "\<exists>c. start_ws_client now = Inr c \<and> ws_queue c = []"
    by (simp add: start_ws_client_def mk_ws_client_def subscriptions_def)
  define su where "su = installation_of env tz (executor_of (build_executor ac (mk_chain_cache 300))) ac"
  have su: "su_strategies su = ac_strategies ac" "0 < su_rest_rps su" "0 < su_order_rps su"
    "ec_is_live (su_config su) \<and> \<not> su_keys_set su \<longleftrightarrow> \<not> ?keys"
    using ranges by (cases "st_mode st"; simp add: su_def installation_of_def engine_config_of_def st_is_live_def st)+
  obtain reg where "mk_registry (build_strategies (su_strategies su)) = Inr reg"
    using strategies_register [OF load_all_distinct [OF assms(2)]] su(1) by auto
  note raises = start_engine_raises [OF this su(2,3), of t p s]
  have run: "r = bind_result (start_engine su t p s) (\<lambda>_. Inr ())" "s' = start_process su t p s"
    using assms(3) by (simp_all add: app_run_def Let_def su_def)
  have r: "r = first_fault (ps_host p ConfigureLogging # (if ?keys then None else Some RuntimeError) # map (ps_host p) (tl host_steps))"
    unfolding run(1) raises su(4) by simp
  have "sy_up s' \<longleftrightarrow> r = Inr ()" using process_starts run by simp
  then have "sy_up s' \<longleftrightarrow> ?keys \<and> list_all (\<lambda>k. ps_host p k = None) host_steps"
    unfolding r first_fault_Inr by (auto simp: host_steps_def)
  moreover have "client_ok c" using mk_rest_client_ok rest unfolding start_rest_client_def .
  ultimately show ?thesis using rest ws r by (simp add: start_keeps run(2))
qed

text \<open>
  C5: the limits of the file hold for the life of the bot.  When the validation of the global file is sound, a bot that is
  installed with empty tables and started from a configuration that loads never has more open trades than the file
  allows, in all and per strategy, through any run of its tasks with crashes, recoveries and starts; and while its main loop
  lives, the NAV is the configured one plus what the closed trades have brought.
\<close>

theorem configured_bot_within_limits:
  fixes s0 :: "'x bot"
  assumes "load_all cf dir (Inr st) = Inr ac" and "\<And>raw g. cf_global cf raw = Inr g \<Longrightarrow> valid_global g"
    and "installed (installation_of env tz xe ac) s0" and "tb_trades (en_db (sy_engine s0)) = []"
    and "in_order (sy_now s0) evs" and "s = bot_run (installation_of env tz xe ac) evs s0"
  shows "int (count_open (\<lambda>_. True) (en_db (sy_engine s))) \<le> max_total (concurrency (ac_global ac)) \<and>
    int (count_open (\<lambda>t. t_strategy_id t = strategy_value sid) (en_db (sy_engine s))) \<le> max_per_strategy (concurrency (ac_global ac)) \<and>
    (if sy_up s \<and> sy_main_alive s
     then nav_now (en_nav (sy_engine s)) = effective_nav_inr ac + sum_realised_pnl_inr (tb_trades (en_db (sy_engine s))) else True)"
proof -
  let ?su = "installation_of env tz xe ac"
  have valid: "1 \<le> max_total (concurrency (ac_global ac))" "1 \<le> max_per_strategy (concurrency (ac_global ac))"
    using load_all_valid [OF assms(1,2)] by (simp_all add: valid_global_def valid_concurrency_def)
  have empty: "count_open P (en_db (sy_engine s0)) = 0" for P using assms(4) by (simp add: count_open_def open_trades_def)
  have lim: "limit_of (su_config ?su) k =
      nat (case k of None \<Rightarrow> max_total (concurrency (ac_global ac)) | Some _ \<Rightarrow> max_per_strategy (concurrency (ac_global ac)))" for k
    by (cases k) (simp_all add: limit_of_def installation_of_def engine_config_of_def)
  have run: "bot_ok ?su (sy_now s) s"
    "count_open (of_strategy k) (en_db (sy_engine s)) \<le> limit_of (su_config ?su) k" for k
    using bot_run_ok [OF assms(5) installed_ok [OF assms(3)], of k] assms(6) by (simp_all add: empty)
  have names: "of_strategy None = (\<lambda>_. True)" "of_strategy (Some sid) = (\<lambda>t. t_strategy_id t = strategy_value sid)"
    by (simp_all add: fun_eq_iff of_strategy_def)
  have "int (count_open (\<lambda>_. True) (en_db (sy_engine s))) \<le> max_total (concurrency (ac_global ac))"
    using run(2) [of None] valid(1) unfolding names lim by (simp add: le_nat_iff)
  moreover have "int (count_open (\<lambda>t. t_strategy_id t = strategy_value sid) (en_db (sy_engine s))) \<le> max_per_strategy (concurrency (ac_global ac))"
    using run(2) [of "Some sid"] valid(2) unfolding names lim by (simp add: le_nat_iff)
  moreover have "nav_now (en_nav (sy_engine s)) = effective_nav_inr ac + sum_realised_pnl_inr (tb_trades (en_db (sy_engine s)))"
    if "sy_up s" "sy_main_alive s"
    using run(1) that by (simp add: bot_ok_def process_ok_def unexplained_nav_def installation_of_def)
  ultimately show ?thesis by simp
qed

section \<open>A sample start\<close>

lemma start_alive: "sy_up (start_process su t x s) \<Longrightarrow> sy_main_alive (start_process su t x s)"
proof -
  obtain cs where cs: "new_candles = Inr cs" using candles_start by blast
  show "sy_up (start_process su t x s) \<Longrightarrow> ?thesis" by (simp add: start_process_def Let_def cs split: sum.splits)
qed

lemma sample_loaded:
  "\<exists>st ac. load_settings sample_env (\<lambda>_. True) (\<lambda>_. None) = Inr st \<and> st_mode st = MODE_DRY \<and>
     load_all sample_files (Some ''config'') (Inr st) = Inr ac \<and> ac_settings ac = st \<and> effective_nav_inr ac = 50000"
proof -
  obtain st where st: "load_settings sample_env (\<lambda>_. True) (\<lambda>_. None) = Inr st" "st_nav_inr_override st = None" "st_mode st = MODE_DRY"
    by (simp add: load_settings_def enum_setting_def int_setting_def float_setting_def Let_def)
  let ?c = "DirectionalConfig (sample_directional\<lparr>dir_base := sample_base\<lparr>risk_weight := 1\<rparr>\<rparr>)"
  let ?ac = "\<lparr>ac_settings = st, ac_global = GlobalConfig, ac_strategies = [?c]\<rparr>"
  have f: "load_global_config sample_files ''config'' = Inr GlobalConfig" "load_strategy_file sample_files p = Inr ?c" for p
    by (simp_all add: load_global_config_def load_strategy_file_def read_yaml_def sample_files_def StrategyId_def vget_def dict_get_def)
  have g: "cf_glob sample_files d = Some [''config/strategies/directional.yaml'']" for d by (simp add: sample_files_def)
  have "load_strategy_dir sample_files ''config'' = Inr [?c]"
    by (simp add: load_strategy_dir_def g load_strategy_configs_iff f sample_directional_def sample_base_def)
  then have "load_all sample_files (Some ''config'') (Inr st) = Inr ?ac" using f by (simp add: load_all_Inr)
  moreover have "effective_nav_inr ?ac = 50000" using st by (simp add: effective_nav_inr_def effective_override_def GlobalConfig_def)
  ultimately show ?thesis using st(1,3) by (intro exI [of _ st] exI [of _ ?ac]) simp
qed

definition port_in_use :: "(dry_executor \<times> nat) process_start" where
  "port_in_use = sample_start\<lparr>ps_host := (\<lambda>_. None)(BindServer := Some OSError)\<rparr>"

theorem configured_bot_starts_witness:
  "\<exists>ac s1 s2. load_all sample_files (Some ''config'') (load_settings sample_env (\<lambda>_. True) (\<lambda>_. None)) = Inr ac \<and>
     app_run sample_env 0 (\<lambda>_. sample_router) (Inr ac) 0 sample_start (sample_bot [] [] False) = (Inr (), s1) \<and> sy_up s1 \<and>
     app_run sample_env 0 (\<lambda>_. sample_router) (Inr ac) 0 port_in_use (sample_bot [] [] False) = (Inl OSError, s2) \<and> \<not> sy_up s2"
proof -
  obtain st ac where l: "load_settings sample_env (\<lambda>_. True) (\<lambda>_. None) = Inr st" "st_mode st = MODE_DRY"
    "load_all sample_files (Some ''config'') (Inr st) = Inr ac" using sample_loaded by blast
  let ?run = "\<lambda>p. app_run sample_env 0 (\<lambda>_. sample_router) (Inr ac) 0 p (sample_bot [] [] False)"
  obtain r1 s1 r2 s2 where s: "?run sample_start = (r1, s1)" "?run port_in_use = (r2, s2)"
    by (cases "?run sample_start"; cases "?run port_in_use") auto
  have free: "ps_host sample_start k = None" for k by (simp add: sample_start_def)
  have bound: "ps_host port_in_use k = (if k = BindServer then Some OSError else None)" for k
    by (simp add: port_in_use_def sample_start_def)
  have "r1 = Inr () \<and> sy_up s1"
    using configured_bot_starts [OF l(1,3) s(1), where now = 0 and w = "()"] l(2) by (simp add: free host_steps_def)
  moreover have "r2 = Inl OSError \<and> \<not> sy_up s2"
    using configured_bot_starts [OF l(1,3) s(2), where now = 0 and w = "()"] l(2) by (simp add: bound host_steps_def)
  ultimately show ?thesis using s l(1,3) by (intro exI [of _ ac] exI [of _ s1] exI [of _ s2]) simp
qed

theorem configured_bot_within_limits_witness:
  "\<exists>ac s. load_all sample_files (Some ''config'') (load_settings sample_env (\<lambda>_. True) (\<lambda>_. None)) = Inr ac \<and>
     s = bot_run (installation_of sample_env 0 sample_router ac) [(0, StartProcess sample_start)] (sample_bot [] [] False) \<and>
     sy_up s \<and> nav_now (en_nav (sy_engine s)) = 50000 + sum_realised_pnl_inr (tb_trades (en_db (sy_engine s)))"
proof -
  obtain st ac where l: "load_settings sample_env (\<lambda>_. True) (\<lambda>_. None) = Inr st" "st_mode st = MODE_DRY"
    "load_all sample_files (Some ''config'') (Inr st) = Inr ac" "ac_settings ac = st" "effective_nav_inr ac = 50000"
    using sample_loaded by blast
  let ?su = "installation_of sample_env 0 sample_router ac" and ?s0 = "sample_bot [] [] False"
  define s where "s = bot_run ?su [(0, StartProcess sample_start)] ?s0"
  have "installed sample_installation ?s0" by (rule sample_installed) simp_all
  then have i: "installed ?su ?s0" by (simp add: installed_def installation_of_def sample_installation_def)
  have v: "cf_global sample_files raw = Inr g \<Longrightarrow> valid_global g" for raw g using GlobalConfig_valid by (simp add: sample_files_def)
  have e: "tb_trades (en_db (sy_engine ?s0)) = []" by (simp add: sample_bot_def sample_engine_def)
  have o: "in_order (sy_now ?s0) [(0, StartProcess sample_start)]" by (simp add: in_order_def sample_bot_def)
  obtain r where r: "mk_registry (build_strategies (su_strategies ?su)) = Inr r"
    using strategies_register [OF load_all_distinct [OF l(3)]] by (auto simp: installation_of_def)
  note ranges = load_settings_ranges [OF l(1)]
  have rps: "0 < su_rest_rps ?su" "0 < su_order_rps ?su" using ranges by (simp_all add: installation_of_def l(4))
  have "\<not> ec_is_live (su_config ?su)" using l(2,4) by (simp add: installation_of_def engine_config_of_def st_is_live_def)
  then have up: "sy_up (start_process ?su 0 sample_start ?s0)"
    unfolding process_starts start_engine_raises [OF r rps] by (simp add: sample_start_def host_steps_def)
  then have "sy_up s \<and> sy_main_alive s" using start_alive by (simp add: s_def bot_run_def bot_step_def)
  with configured_bot_within_limits [OF l(3) v i e o s_def, where sid = DIRECTIONAL] l(1,3,5) show ?thesis
    by (intro exI [of _ ac] exI [of _ s] conjI) (simp_all add: s_def)
qed

end
