(* ===== verification/Spec2Isabelle.thy ===== *)
theory Spec2Isabelle
  imports System Trades Lifecycle Feeds Ws Server GoLive KillSwitch Daily RateLimit Reconcile Rest Resume Reports Journal Optimize
    Schema Startup Metrics Observability StudyReports Commands Assembly
begin

text \<open>
  A verification development for the crypto options bot, an asynchronous Python program that trades weekly and
  daily BTC and ETH options on Delta Exchange India.

  \<^bold>\<open>The program.\<close>  One process (\<open>bot/runtime/engine.py\<close>) runs three tasks: a websocket feed that applies mark prices
  and candles, a periodic refresh of the option chain, and the main loop, one tick after the other.  A tick rolls the
  trading day of the NAV tracker, loads the open trades from SQLite, lets the exit engine and the strategies manage
  them, writes back what it learnt about them, asks the dispatcher for the intents of the enabled strategies, gates
  and sizes every intent with the risk manager against a fresh count of the open trades, sends the approved ones to
  the executor (simulated or live), books the fills, persists a trip of the circuit breaker, and writes the records of
  its decisions.  Around it stand a manual recovery from a tripped breaker, the promotion of a strategy to live trading,
  daily reports, journals, metrics and a dashboard, and two offline studies of past trades.  A kill switch and a
  reconciliation of the stored orders with the exchange are part of the program, but nothing calls them.

  \<^bold>\<open>The theories\<close>, in the order of their imports (paths under \<open>src/bot\<close>; definitions keep the names of the source,
  methods lose their class, and a private name its underscore):

  \<^item> \<open>Prelude\<close>: dictionaries, results, dynamic values, slices, rounding, calendar arithmetic, text;
  \<^item> \<open>Window\<close> (\<open>risk/window.py\<close>), \<open>Config\<close> (\<open>config/models.py\<close>, \<open>config/loader.py\<close>), \<open>Candles\<close> (\<open>data/candles.py\<close>),
    \<open>Caps\<close> (\<open>risk/caps.py\<close>), \<open>Chain\<close> (\<open>data/chain_cache.py\<close>), \<open>Storage\<close> (\<open>storage/models.py\<close>) and \<open>Tables\<close>
    (\<open>storage/db.py\<close>): the data and the stateful leaves; \<open>Schema\<close> (\<open>migrations/\<close>, \<open>storage/models.py\<close>, \<open>storage/db.py\<close>)
    compares the migration scripts and \<open>create_all\<close> with the mapped classes, over any database that keeps \<open>ddl_contract\<close>.  The locale
    \<open>snapshot_store\<close> is the interface between the quote cache and its readers;
  \<^item> \<open>Base\<close> (\<open>strategies/base.py\<close>), \<open>Signal\<close> (\<open>trend_signal.py\<close>), \<open>Directional\<close>, \<open>CreditVertical\<close>, \<open>LongStraddle\<close> and
    \<open>Strategies\<close> (\<open>registry.py\<close>, \<open>dispatcher.py\<close>): the strategies.  What the dispatcher and the exit engine rely on is
    the locale \<open>strategy_component\<close>, interpreted on each of the three;
  \<^item> \<open>Desk\<close> (\<open>desk/\<close>): greeks, liquidity, portfolio book, policy, greek caps, delta attribution and IV history;
  \<^item> \<open>Exits\<close> (\<open>exits/engine.py\<close>) and \<open>Risk\<close> (\<open>risk/manager.py\<close>): what happens to open positions and to intents;
  \<^item> \<open>Router\<close> (\<open>execution/router.py\<close>, \<open>client_id.py\<close>, \<open>premium.py\<close>), \<open>Dry\<close> (\<open>execution/dry.py\<close>) and \<open>Live\<close>
    (\<open>execution/live.py\<close>): requests, fills and the two executors.  The contract of an executor is the locale
    \<open>execution_router\<close>, interpreted on both and, in \<open>Trades\<close>, on the executors as the engine holds them;
  \<^item> \<open>NavState\<close> (\<open>runtime/nav_state.py\<close>), \<open>Tracking\<close> (\<open>runtime/trade_tracking.py\<close>, \<open>runtime/iv_prefetch.py\<close>),
    \<open>DecisionLog\<close> (\<open>analytics/decision_log.py\<close>): what is written beside the trades;
  \<^item> \<open>Engine\<close> and \<open>Tick\<close> (\<open>runtime/engine.py\<close>): the writers of entries, stops and exits, then one round of the main
    loop; \<open>engine_run\<close> is a sequence of completed rounds on any inputs.  \<open>Trades\<close> and \<open>Lifecycle\<close> hold the properties
    that span them; \<open>Feeds\<close> holds the tasks beside the loop;
  \<^item> \<open>RateLimit\<close> (\<open>exchange/rate_limit.py\<close>) and \<open>Rest\<close> (\<open>exchange/auth.py\<close>, \<open>rest.py\<close>, \<open>wallet.py\<close>): the exchange client
    with its retry loop; \<open>Live\<close> is over any exchange.  \<open>Ws\<close> (\<open>exchange/ws.py\<close>) is the websocket client over the
    events of its connections;
  \<^item> \<open>DeltaApi\<close>, \<open>Postmortem\<close> (\<open>analytics/directional_postmortem.py\<close>) and \<open>Optimize\<close> (\<open>directional_optimize.py\<close>): the offline
    studies, in a monad of calls to the client of the exchange, which offers the reads and the orders; the locale \<open>reader\<close> is a
    client whose reads keep an invariant of its state, and is interpreted on the REST client: the studies send no order;
  \<^item> \<open>Reconcile\<close> (\<open>execution/reconcile.py\<close>), \<open>KillSwitch\<close> (\<open>runtime/kill_switch.py\<close>, over the locale \<open>order_canceller\<close>,
    interpreted on both executors), \<open>Resume\<close> (\<open>runtime/resume.py\<close>), \<open>GoLive\<close> (\<open>runtime/go_live.py\<close>) and \<open>Daily\<close>
    (\<open>analytics/daily.py\<close>): the services around the loop;
  \<^item> \<open>Journal\<close> (\<open>analytics/journal.py\<close>), \<open>Reports\<close> (\<open>observability/status.py\<close>, the Markdown of \<open>analytics/daily.py\<close>, the text of
    \<open>runtime/resume.py\<close>) and \<open>Server\<close> (\<open>observability/server.py\<close>): what the operator sees.  Texts are the bytes of their
    UTF-8 encoding;
  \<^item> \<open>Startup\<close> (\<open>config/settings.py\<close>, \<open>config/loader.py\<close>, \<open>cli.py\<close>): settings, configuration files and exit codes;
    \<open>StudyReports\<close> (the Markdown of the offline studies and their runs) and \<open>Commands\<close> (\<open>cli.py\<close>): the commands of the
    operator with what they print and leave on disk;
  \<^item> \<open>System\<close>: the whole installation.  A \<open>bot\<close> is the process with its three tasks and daily timer, the tables, the files
    and the clock; an \<open>event\<close> is a round of a task, a command of the operator, a stop or a start, and \<open>bot_run\<close> is any
    sequence of events in the order of the clock.  A task that raises is dead until the next start, as in the code.  A
    start (\<open>start_engine\<close>) asks the host for the log, the database, the directories, the port of the server and the signal
    handlers in the order of the code, and a refusal of any of them (\<open>ps_host\<close>) ends it.
    \<open>Assembly\<close> (\<open>app.py\<close> and the head of \<open>runtime/engine.py\<close>) makes an installation from settings and files;
  \<^item> \<open>Metrics\<close> (\<open>observability/metrics.py\<close>, the calls in \<open>runtime/engine.py\<close>): the registry, and the calls that a round makes,
    along the same steps as \<open>tick\<close>; \<open>Observability\<close>: the text file of the metrics, the JSONL mirror of the decision log
    (\<open>analytics/decision_log.py\<close>) and the set-up of the log (\<open>observability/logging_setup.py\<close>).

  \<^bold>\<open>How the state is modelled.\<close>  An object is a record, a method a function that returns its result and the new state.
  The state of the engine (record \<open>engine\<close>) holds the tables, the state of the executor, the NAV tracker, the registry
  with the cooldowns of the strategies, the runtimes of the exit engine, the NAV rows, the marker of a trip and the
  decision table.  A raise is \<open>Inl\<close>, and the state it leaves is kept: a session is a copy that a clean exit commits, so
  that an exception keeps the tables as they were, while what was changed in memory stays changed.  A tick is a
  function of its input, the record \<open>tick_input\<close>: clocks, chain, candles, mark prices, IV table, the answers of the wallet or
  what its requests raised, and what the batches of the decision log raised.
  Within a tick the chain and the marks are constant, as the model runs the awaits of a tick without interleaving.

  \<^bold>\<open>Parameters.\<close>  Code that is not under \<open>src/\<close> is an argument: the exchange and the HTTP transport, SHA-1 and
  HMAC-SHA256, the random generator, the clocks, the parsing of text by \<open>float\<close> and \<open>int\<close>, \<open>repr\<close> of a float, the
  retry policy of the HTTP client, pydantic's validation and the YAML reader.  Hypotheses on them are named:
  \<open>clock_ok\<close> (a sleep moves the clock), \<open>env_ok\<close> (retries end after the configured attempts), \<open>client_ok\<close> (the
  token buckets are well-formed and hold at least one token), \<open>ddl_contract\<close> (the effect of schema statements).

  \<^bold>\<open>Bounds and fuel.\<close>  Two loops of the program poll a clock.  The order poll of \<open>Live\<close> takes fuel: \<open>enough_fuel\<close> says
  that the polls at one every second exceed the timeout, and the claims on live entries prove that the loop
  then returns.  The token bucket waits at most twice for a token (\<open>acquire_loop\<close>), which the bucket lemmas prove from
  the amount it sleeps.  The retry loop of \<open>Rest\<close> has \<open>max_attempts\<close> rounds, as the policy has.  Everything else recurs
  on its data.

  \<^bold>\<open>What the lemmas show.\<close>  Each theory first gives the operations, then the lemmas on each, then its claims, which
  are the theorems whose text carries a claim id, each with a witness on a concrete input.  The claims on the
  whole installation are over any run of events and any inputs, crashes, restarts and recoveries included: the limits on
  open trades, the NAV against the stored trades, the tripped breaker, the abstract ledger that the stored trades
  refine.  Each has one invariant behind it, \<open>bot_ok\<close>, which every event keeps.  The claims on the executors are over
  any exchange, those on the schema over any database, those on the journals over any notes that the engine writes,
  and those on the metrics over any round.  Floats are real numbers throughout, so that the claims do not speak of
  rounding in the last place; rounding that the code asks for is modelled.

  \<^bold>\<open>Not modelled.\<close>  Log lines, the insides of the Prometheus client and of the logging library, and the parsing of
  command lines do not feed back into the decisions of the bot; the validation inside pydantic and the insides of SQLAlchemy
  belong to those libraries.  A round of a task is one step: the interleaving of the tasks inside a round, at its awaits, is
  left out, as are the moments at which the main loop writes its journals; what a journal holds and when it raises is in
  \<open>Journal\<close>.
\<close>

end
